(* ===== verification/Prelude.thy ===== *)
theory Prelude
  imports Complex_Main "HOL-Library.Multiset"
begin

text \<open>
  What the components share: JavaScript strings as lists of Unicode code points with the
  few operations the gateway uses of them, relational tables as lists of rows with the
  query forms the gateway uses, and the interface (a locale) of a table that is one field
  of the database state.
\<close>

named_theorems table_simps \<open>lookup and update in tables\<close>
named_theorems string_simps \<open>JavaScript string operations\<close>

section \<open>Strings\<close>

text \<open>
  A JavaScript string is modelled by the list of its Unicode code points, which is what
  iterating it yields. \<open>lit\<close> turns an ASCII literal of the source into such a list.
\<close>

type_synonym ustring = "nat list"

definition lit :: "string \<Rightarrow> ustring" where
  "lit s = map of_char s"

lemma lit_eq_iff [simp]: "lit s = lit t \<longleftrightarrow> s = t"
  unfolding lit_def using inj_map_eq_map [OF inj_of_char] by blast

lemma lit_Nil [simp]: "lit [] = []"
  by (simp add: lit_def)

lemma lit_Cons [string_simps]: "lit (c # s) = of_char c # lit s"
  by (simp add: lit_def)

lemma lit_eq_Nil [simp]: "lit s = [] \<longleftrightarrow> s = []" "[] = lit s \<longleftrightarrow> s = []"
  by (auto simp: lit_def)

lemma length_lit [simp]: "length (lit s) = length s"
  by (simp add: lit_def)

definition is_digit :: "nat \<Rightarrow> bool" where
  "is_digit c \<longleftrightarrow> 48 \<le> c \<and> c \<le> 57"

definition is_ascii_letter :: "nat \<Rightarrow> bool" where
  "is_ascii_letter c \<longleftrightarrow> (65 \<le> c \<and> c \<le> 90) \<or> (97 \<le> c \<and> c \<le> 122)"

text \<open>White space and line terminators, as \<open>String.prototype.trim\<close> strips them.\<close>

definition js_space :: "nat \<Rightarrow> bool" where
  "js_space c \<longleftrightarrow> (9 \<le> c \<and> c \<le> 13) \<or> c \<in> {32, 160, 5760, 8232, 8233, 8239, 8287, 12288, 65279}
     \<or> (8192 \<le> c \<and> c \<le> 8202)"

definition js_trim :: "ustring \<Rightarrow> ustring" where
  "js_trim s = rev (dropWhile js_space (rev (dropWhile js_space s)))"

definition starts_with :: "ustring \<Rightarrow> ustring \<Rightarrow> bool" where
  "starts_with p s \<longleftrightarrow> take (length p) s = p"

text \<open>ASCII case folding.\<close>

definition lower_cp :: "nat \<Rightarrow> nat" where
  "lower_cp c = (if 65 \<le> c \<and> c \<le> 90 then c + 32 else c)"

text \<open>Splitting at every occurrence of one character, and joining with a separator.\<close>

fun split_on :: "nat \<Rightarrow> ustring \<Rightarrow> ustring list" where
  "split_on d [] = [[]]"
| "split_on d (c # cs) =
     (if c = d then [] # split_on d cs
      else (case split_on d cs of [] \<Rightarrow> [[c]] | w # ws \<Rightarrow> (c # w) # ws))"

fun join_with :: "ustring \<Rightarrow> ustring list \<Rightarrow> ustring" where
  "join_with sep [] = []"
| "join_with sep [w] = w"
| "join_with sep (w # v # ws) = w @ sep @ join_with sep (v # ws)"

text \<open>\<open>[...new Set(xs)]\<close>: the first occurrence of every element, in order.\<close>

definition remdups_first :: "'a list \<Rightarrow> 'a list" where
  "remdups_first xs = rev (remdups (rev xs))"

text \<open>Decimal digits of a natural number.\<close>

fun dec_str :: "nat \<Rightarrow> ustring" where
  "dec_str n = (if n < 10 then [48 + n] else dec_str (n div 10) @ [48 + n mod 10])"

declare dec_str.simps [simp del]

definition int_text :: "int \<Rightarrow> ustring" where
  "int_text n = (if n < 0 then lit ''-'' @ dec_str (nat (- n)) else dec_str (nat n))"

lemma split_on_not_Nil [simp]: "split_on d s \<noteq> []"
  by (induction s) (auto split: list.splits)

lemma join_split: "join_with [d] (split_on d s) = s"
proof (induction s)
  case Nil
  show ?case by simp
next
  case (Cons c cs)
  obtain w ws where ws: "split_on d cs = w # ws"
    by (cases "split_on d cs") auto
  then show ?case using Cons.IH by (cases ws) auto
qed

lemma split_on_sep_free: "w \<in> set (split_on d s) \<Longrightarrow> d \<notin> set w"
  by (induction s arbitrary: w) (auto split: if_splits list.splits)

lemma split_on_first: "sep \<notin> set w \<Longrightarrow> split_on sep (w @ sep # s) = w # split_on sep s"
  by (induction w) simp_all

lemma split_on_no_sep: "d \<notin> set s \<Longrightarrow> split_on d s = [s]"
  by (induction s) auto

lemma starts_with_append [simp]: "starts_with p (p @ s)"
  by (simp add: starts_with_def)

lemma starts_with_Nil [simp]: "starts_with [] s"
  by (simp add: starts_with_def)

lemma starts_withE:
  assumes "starts_with p s" obtains t where "s = p @ t"
  using assms append_take_drop_id [of "length p" s] unfolding starts_with_def by metis

lemma dropWhile_id: "\<forall>c\<in>set s. \<not> P c \<Longrightarrow> dropWhile P s = s"
  by (cases s) auto

lemma digit_not_space: "is_digit c \<Longrightarrow> \<not> js_space c"
  by (auto simp: is_digit_def js_space_def)

lemma digit_not_letter: "is_digit c \<Longrightarrow> \<not> is_ascii_letter c"
  by (auto simp: is_digit_def is_ascii_letter_def)

lemma js_trim_id: "\<forall>c\<in>set s. \<not> js_space c \<Longrightarrow> js_trim s = s"
  unfolding js_trim_def by (simp add: dropWhile_id)

section \<open>Tables\<close>

text \<open>
  A table of the database is the list of its rows. \<open>find\<close> is \<open>findFirst\<close> and
  \<open>findUnique\<close>, \<open>filter\<close> is \<open>findMany\<close>; the list order is the order in which a query
  without \<open>orderBy\<close> returns rows. \<open>update_where\<close> is \<open>update\<close> and \<open>updateMany\<close>, \<open>delete_where\<close>
  is \<open>delete\<close> and \<open>deleteMany\<close>; \<open>create\<close> appends a row.
\<close>

definition update_where :: "('r \<Rightarrow> bool) \<Rightarrow> ('r \<Rightarrow> 'r) \<Rightarrow> 'r list \<Rightarrow> 'r list" where
  "update_where P f rs = map (\<lambda>r. if P r then f r else r) rs"

definition delete_where :: "('r \<Rightarrow> bool) \<Rightarrow> 'r list \<Rightarrow> 'r list" where
  "delete_where P rs = filter (\<lambda>r. \<not> P r) rs"

lemma update_where_Nil [simp]: "update_where P f [] = []"
  by (simp add: update_where_def)

lemma update_where_Cons [simp]:
  "update_where P f (r # rs) = (if P r then f r else r) # update_where P f rs"
  by (simp add: update_where_def)

lemma update_where_append [simp]:
  "update_where P f (rs @ qs) = update_where P f rs @ update_where P f qs"
  by (simp add: update_where_def)

lemma length_update_where [simp]: "length (update_where P f rs) = length rs"
  by (simp add: update_where_def)

lemma set_update_where: "set (update_where P f rs) = (\<lambda>r. if P r then f r else r) ` set rs"
  by (simp add: update_where_def)

lemma map_update_where:
  "(\<And>r. P r \<Longrightarrow> k (f r) = k r) \<Longrightarrow> map k (update_where P f rs) = map k rs"
  by (auto simp: update_where_def)

lemma update_where_none: "(\<And>r. r \<in> set rs \<Longrightarrow> \<not> P r) \<Longrightarrow> update_where P f rs = rs"
  by (auto simp: update_where_def intro: map_idI)

lemma find_append: "find P (xs @ ys) = (case find P xs of None \<Rightarrow> find P ys | Some r \<Rightarrow> Some r)"
  by (induction xs) auto

lemma find_SomeD: "find P xs = Some r \<Longrightarrow> r \<in> set xs \<and> P r"
  by (induction xs) (auto split: if_splits)

lemma find_NoneD: "find P xs = None \<Longrightarrow> r \<in> set xs \<Longrightarrow> \<not> P r"
  by (induction xs) (auto split: if_splits)

lemma find_update_same:
  assumes "\<And>r. k (f r) = k r"
  shows "find (\<lambda>r. k r = i) (update_where (\<lambda>r. k r = i) f rs) = map_option f (find (\<lambda>r. k r = i) rs)"
  by (induction rs) (auto simp: assms)

lemma find_update_other:
  assumes "\<And>r. k (f r) = k r" and "i \<noteq> j"
  shows "find (\<lambda>r. k r = i) (update_where (\<lambda>r. k r = j) f rs) = find (\<lambda>r. k r = i) rs"
  using assms by (induction rs) auto

subsection \<open>The interface of a table inside the database state\<close>

text \<open>
  Handlers read and write one table of the database at a time. The interface: a field
  selector \<open>tab\<close>, a field update \<open>put\<close> and a primary key \<open>key\<close>, with the laws of a field.
  Its lemmas say what a lookup by key returns after an update by key and after an insert,
  and what an update leaves alone.
\<close>

locale db_table =
  fixes tab :: "'d \<Rightarrow> 'r list"
    and put :: "('r list \<Rightarrow> 'r list) \<Rightarrow> 'd \<Rightarrow> 'd"
    and key :: "'r \<Rightarrow> ustring"
  assumes tab_put: "tab (put f d) = f (tab d)"
    and put_put: "put f (put g d) = put (f \<circ> g) d"
    and put_id: "put (\<lambda>rs. rs) d = d"
begin

definition lookup :: "'d \<Rightarrow> ustring \<Rightarrow> 'r option" where
  "lookup d i = find (\<lambda>r. key r = i) (tab d)"

definition ids :: "'d \<Rightarrow> ustring list" where
  "ids d = map key (tab d)"

lemma lookup_update:
  assumes "\<And>r. key (f r) = key r"
  shows "lookup (put (update_where (\<lambda>r. key r = i) f) d) j =
    (if i = j then map_option f (lookup d j) else lookup d j)"
  unfolding lookup_def tab_put
  using find_update_same [of key f] find_update_other [of key f] assms by auto

lemma ids_update:
  assumes "\<And>r. key (f r) = key r"
  shows "ids (put (update_where P f) d) = ids d"
  unfolding ids_def tab_put using assms by (intro map_update_where)

lemma ids_insert: "ids (put (\<lambda>rs. rs @ [r]) d) = ids d @ [key r]"
  by (simp add: ids_def tab_put)

lemma lookup_None_iff: "lookup d i = None \<longleftrightarrow> i \<notin> set (ids d)"
  by (auto simp: lookup_def ids_def find_None_iff)

lemma lookup_insert_fresh:
  assumes "key r \<notin> set (ids d)"
  shows "lookup (put (\<lambda>rs. rs @ [r]) d) (key r) = Some r"
proof -
  from assms have "find (\<lambda>x. key x = key r) (tab d) = None"
    by (simp add: lookup_None_iff [symmetric] lookup_def)
  then show ?thesis by (simp add: lookup_def tab_put find_append)
qed

lemma lookup_insert_other:
  "key r \<noteq> i \<Longrightarrow> lookup (put (\<lambda>rs. rs @ [r]) d) i = lookup d i"
  by (auto simp: lookup_def tab_put find_append split: option.splits)

lemma lookup_delete: "lookup (put (delete_where (\<lambda>r. key r = i)) d) i = None"
  by (auto simp: lookup_def tab_put delete_where_def find_None_iff)

end

end
