(* ===== verification/SmsConcat.thy ===== *)
theory SmsConcat
  imports Prelude
begin

text \<open>
  Reassembly of long SMS without part numbers (apps/worker/src/inbound/sms-concat.ts).
  Texts are lists of code points. The Unicode property classes of the source's regular
  expressions are an argument (\<open>unicode_classes\<close>): no theorem depends on their contents.
  The lemmas show that the repair of glued parts only ever moves one block of the text,
  that it never changes which texts count as incomplete parts, that a unit offset is
  translated to the character offset with exactly that many units before it, and that
  assembling keeps every part and restores the order of a message whose short final part
  arrived early.
\<close>

section \<open>Measuring a text\<close>

definition GSM7_BASIC :: "nat list" where
  "GSM7_BASIC =
    [64, 163, 36, 165, 232, 233, 249, 236, 242, 199, 10, 216, 248, 13, 197, 229, 916, 95, 934,
     915, 923, 937, 928, 936, 931, 920, 926, 198, 230, 223, 201] @ [32..<36] @ [164] @ [37..<64]
    @ [161] @ [65..<91] @ [196, 214, 209, 220, 167, 191] @ [97..<123] @ [228, 246, 241, 252, 224]"

definition GSM7_EXT :: "nat list" where
  "GSM7_EXT = [94, 123, 125, 92, 91, 126, 93, 124, 8364, 12]"

definition UCS2_PART_UNITS :: nat where "UCS2_PART_UNITS = 67"
definition GSM7_PART_SEPTETS :: nat where "GSM7_PART_SEPTETS = 153"

text \<open>UTF-16 code units of one code point.\<close>

definition utf16_len :: "nat \<Rightarrow> nat" where
  "utf16_len c = (if c < 65536 then 1 else 2)"

definition gsm_char :: "nat \<Rightarrow> bool" where
  "gsm_char c \<longleftrightarrow> c \<in> set GSM7_BASIC \<or> c \<in> set GSM7_EXT"

definition measure_text :: "ustring \<Rightarrow> nat list \<times> nat" where
  "measure_text text =
     (if list_all gsm_char text
      then (map (\<lambda>c. if c \<in> set GSM7_EXT then 2 else 1) text, GSM7_PART_SEPTETS)
      else (map utf16_len text, UCS2_PART_UNITS))"

definition looksLikeIncompletePart :: "ustring \<Rightarrow> bool" where
  "looksLikeIncompletePart text =
     (if text = [] then False
      else let (costs, part) = measure_text text; units = sum_list costs
           in units > 0 \<and> units mod part = 0)"

section \<open>Unit offsets to character offsets\<close>

text \<open>
  The \<open>while\<close> loop: it consumes costs while the unit count is below the target and returns
  the unit count, the character index and the costs that are left.
\<close>

fun advance :: "nat \<Rightarrow> nat \<Rightarrow> nat \<Rightarrow> nat list \<Rightarrow> nat \<times> nat \<times> nat list" where
  "advance target u i [] = (u, i, [])"
| "advance target u i (c # cs) =
     (if u < target then advance target (u + c) (Suc i) cs else (u, i, c # cs))"

fun unit_offsets :: "nat list \<Rightarrow> nat \<Rightarrow> nat \<Rightarrow> nat list \<Rightarrow> nat list option" where
  "unit_offsets [] u i cs = Some []"
| "unit_offsets (t # ts) u i cs =
     (let (u', i', cs') = advance t u i cs
      in if u' \<noteq> t then None else map_option (\<lambda>out. i' # out) (unit_offsets ts u' i' cs'))"

definition unitToCharIndex :: "nat list \<Rightarrow> nat list \<Rightarrow> nat list option" where
  "unitToCharIndex costs units = unit_offsets (sort units) 0 0 costs"

section \<open>Repairing glued parts\<close>

record unicode_classes =
  is_cyrillic :: "nat \<Rightarrow> bool"
  is_latin :: "nat \<Rightarrow> bool"
  is_letter :: "nat \<Rightarrow> bool"

definition suspicious :: "unicode_classes \<Rightarrow> ustring \<Rightarrow> ustring \<Rightarrow> bool" where
  "suspicious U before after =
     (if before = [] then False
      else let a = last before in
        (case after of [] \<Rightarrow> False
         | b # _ \<Rightarrow> (is_cyrillic U a \<and> is_latin U b) \<or> (is_latin U a \<and> is_cyrillic U b))
        \<or> (is_letter U a \<and> starts_with (lit ''//'') after))"

text \<open>One turn of the loop over the slots: the repaired text of slot \<open>k\<close>, if it is one.\<close>

definition glued_fix ::
  "unicode_classes \<Rightarrow> ustring \<Rightarrow> nat list \<Rightarrow> nat \<Rightarrow> nat \<Rightarrow> nat \<Rightarrow> ustring option" where
  "glued_fix U text costs part short k =
     (case unitToCharIndex costs [k * part, k * part + short] of
        Some [start, stop] \<Rightarrow>
          (let head = take start text;
               tail = take (stop - start) (drop start text);
               rest = drop stop text;
               wrongNow = suspicious U tail rest \<and> (k = 0 \<or> suspicious U head tail);
               cleanAfter = \<not> suspicious U head rest \<and> \<not> suspicious U rest tail
           in if wrongNow \<and> cleanAfter then Some (head @ rest @ tail) else None)
      | _ \<Rightarrow> None)"

definition repairGluedParts :: "unicode_classes \<Rightarrow> ustring \<Rightarrow> ustring" where
  "repairGluedParts U text =
     (let (costs, part) = measure_text text;
          units = sum_list costs;
          short = units mod part;
          parts = (units + part - 1) div part
      in if parts < 2 \<or> short = 0 then text
         else (case List.map_filter (glued_fix U text costs part short) [0..<parts - 1] of
                 [f] \<Rightarrow> f | _ \<Rightarrow> text))"

section \<open>Assembling buffered parts\<close>

definition assembleParts :: "('p \<Rightarrow> ustring) \<Rightarrow> 'p list \<Rightarrow> 'p list \<times> 'p list" where
  "assembleParts txt parts =
     (let full = filter (\<lambda>p. looksLikeIncompletePart (txt p)) parts;
          shorts = filter (\<lambda>p. \<not> looksLikeIncompletePart (txt p)) parts
      in (full @ take 1 shorts, drop 1 shorts))"

section \<open>Unit offsets are exact\<close>

lemma advance_spec:
  assumes "advance t u i cs = (u', i', cs')"
  shows "i \<le> i' \<and> i' - i \<le> length cs \<and> u' = u + sum_list (take (i' - i) cs)
    \<and> cs' = drop (i' - i) cs \<and> (cs' \<noteq> [] \<longrightarrow> t \<le> u')"
  using assms
proof (induction t u i cs arbitrary: u' i' cs' rule: advance.induct)
  case (1 t u i)
  then show ?case by simp
next
  case (2 t u i c cs)
  show ?case
  proof (cases "u < t")
    case True
    with "2.prems" have "advance t (u + c) (Suc i) cs = (u', i', cs')" by simp
    from "2.IH" [OF True this] obtain k where "i' = Suc i + k" "k \<le> length cs"
      "u' = u + c + sum_list (take k cs)" "cs' = drop k cs" "cs' \<noteq> [] \<longrightarrow> t \<le> u'"
      using le_Suc_ex [of "Suc i" i'] by auto
    then show ?thesis by (simp add: Suc_diff_le)
  next
    case False
    with 2 show ?thesis by auto
  qed
qed

text \<open>
  Every offset returned is a position of the cost list with exactly the target number of
  units before it, counted from the start of the whole list.
\<close>

lemma unit_offsets_exact:
  assumes "unit_offsets ts u i (drop i costs) = Some out" and "i \<le> length costs"
    and "u = sum_list (take i costs)"
  shows "list_all2 (\<lambda>t j. i \<le> j \<and> j \<le> length costs \<and> sum_list (take j costs) = t) ts out"
  using assms
proof (induction ts arbitrary: u i out)
  case Nil
  then show ?case by simp
next
  case (Cons t ts)
  obtain u' i' cs' where adv: "advance t u i (drop i costs) = (u', i', cs')"
    by (cases "advance t u i (drop i costs)") auto
  with Cons.prems obtain out' where
    out: "u' = t" "unit_offsets ts u' i' cs' = Some out'" "out = i' # out'"
    by (auto split: if_splits)
  have sp: "i \<le> i'" "i' \<le> length costs" "cs' = drop i' costs"
    "u' = u + sum_list (take (i' - i) (drop i costs))"
    using advance_spec [OF adv] Cons.prems(2) by auto
  have "take i' costs = take i costs @ take (i' - i) (drop i costs)"
    using sp(1) by (metis le_add_diff_inverse take_add)
  then have u': "u' = sum_list (take i' costs)" using sp(4) Cons.prems(3) by simp
  have "list_all2 (\<lambda>t j. i' \<le> j \<and> j \<le> length costs \<and> sum_list (take j costs) = t) ts out'"
    using Cons.IH [of u' i' out'] out(2) sp u' by simp
  then have "list_all2 (\<lambda>t j. i \<le> j \<and> j \<le> length costs \<and> sum_list (take j costs) = t) ts out'"
    using sp(1) by (auto elim!: list_all2_mono)
  with sp u' out show ?case by simp
qed

lemma unitToCharIndex_exact:
  "unitToCharIndex costs units = Some out \<Longrightarrow>
   list_all2 (\<lambda>t j. j \<le> length costs \<and> sum_list (take j costs) = t) (sort units) out"
  using unit_offsets_exact [of "sort units" 0 0 costs out]
  by (auto simp: unitToCharIndex_def elim!: list_all2_mono)

lemma unitToCharIndex_pair:
  assumes "unitToCharIndex costs [a, a + b] = Some out"
  obtains i j where "out = [i, j]" "i \<le> length costs" "j \<le> length costs"
    "sum_list (take i costs) = a" "sum_list (take j costs) = a + b"
  using unitToCharIndex_exact [OF assms] by (auto simp: list_all2_Cons1)

section \<open>The repair moves one block\<close>

lemma sum_list_take_mono: "j \<le> i \<Longrightarrow> sum_list (take j cs) \<le> sum_list (take i (cs :: nat list))"
  by (metis le_add1 le_add_diff_inverse sum_list_append take_add)

lemma length_measure_text: "measure_text t = (costs, part) \<Longrightarrow> length costs = length t"
  by (auto simp: measure_text_def split: if_splits)

text \<open>
  What a fix is: the text is head, tail, rest; the fix moves the tail, which holds exactly
  the units of the short part and starts at a part boundary, to the end.
\<close>

lemma glued_fix_moves:
  assumes fx: "glued_fix U t costs part short k = Some f" and "length costs = length t"
    and "0 < short"
  obtains hd tl rs where "t = hd @ tl @ rs" "f = hd @ rs @ tl" "tl \<noteq> []"
    "suspicious U tl rs" "\<not> suspicious U hd rs" "\<not> suspicious U rs tl"
    "sum_list (take (length hd) costs) = k * part"
    "sum_list (take (length (hd @ tl)) costs) = k * part + short"
proof -
  from fx obtain out where out: "unitToCharIndex costs [k * part, k * part + short] = Some out"
    by (auto simp: glued_fix_def split: option.splits)
  then obtain i j where ij: "out = [i, j]" "i \<le> length t" "j \<le> length t"
    "sum_list (take i costs) = k * part" "sum_list (take j costs) = k * part + short"
    by (rule unitToCharIndex_pair) (auto simp: assms(2))
  have "i < j"
    using ij(4,5) sum_list_take_mono [of j i costs] assms(3) by (cases "j \<le> i") auto
  let ?hd = "take i t" and ?tl = "take (j - i) (drop i t)" and ?rs = "drop j t"
  have split: "t = ?hd @ ?tl @ ?rs"
    using \<open>i < j\<close> by (metis append.assoc append_take_drop_id le_add_diff_inverse less_imp_le take_add)
  have conds: "suspicious U ?tl ?rs" "\<not> suspicious U ?hd ?rs" "\<not> suspicious U ?rs ?tl"
    "f = ?hd @ ?rs @ ?tl"
    using fx out ij(1) by (auto simp: glued_fix_def Let_def split: if_splits)
  have len: "length ?hd = i" "length (?hd @ ?tl) = j" "?tl \<noteq> []"
    using ij \<open>i < j\<close> by auto
  show thesis
    by (rule that [of ?hd ?tl ?rs]) (use split conds ij len in auto)
qed

lemma repair_cases:
  obtains (same) "repairGluedParts U t = t"
  | (moved) costs part k where "measure_text t = (costs, part)"
      "0 < sum_list costs mod part" "k + 1 < (sum_list costs + part - 1) div part"
      "glued_fix U t costs part (sum_list costs mod part) k = Some (repairGluedParts U t)"
proof -
  obtain costs part where m: "measure_text t = (costs, part)" by (cases "measure_text t")
  let ?short = "sum_list costs mod part" and ?parts = "(sum_list costs + part - 1) div part"
  let ?fs = "List.map_filter (glued_fix U t costs part ?short) [0..<?parts - 1]"
  show thesis
  proof (cases "?parts < 2 \<or> ?short = 0 \<or> (\<forall>f. ?fs \<noteq> [f])")
    case True
    then have "repairGluedParts U t = t"
      by (auto simp: repairGluedParts_def m Let_def split: list.splits)
    then show thesis by (rule same)
  next
    case False
    then obtain f where f: "?fs = [f]" by blast
    then have "f \<in> set ?fs" by simp
    then obtain k where k: "k < ?parts - 1" "glued_fix U t costs part ?short k = Some f"
      by (auto simp: List.map_filter_def)
    have "repairGluedParts U t = f" using False f by (simp add: repairGluedParts_def m)
    with k show thesis using False by (intro moved [OF m, of k]) auto
  qed
qed

text \<open>
  Repairing a glued SMS loses and invents nothing: the result is the text itself, or
  the text with one non-empty block moved to the end, where that block filled exactly the
  units of the short final part and started at a part boundary, the seam after it looked
  wrong, and both seams of the result look clean.
\<close>

theorem repairGluedParts_moves_one_block:
  "repairGluedParts U t = t \<or>
   (\<exists>hd tl rs k. t = hd @ tl @ rs \<and> repairGluedParts U t = hd @ rs @ tl \<and> tl \<noteq> []
     \<and> suspicious U tl rs \<and> \<not> suspicious U hd rs \<and> \<not> suspicious U rs tl
     \<and> sum_list (take (length hd) (fst (measure_text t))) = k * snd (measure_text t)
     \<and> sum_list (take (length (hd @ tl)) (fst (measure_text t))) =
         k * snd (measure_text t) + sum_list (fst (measure_text t)) mod snd (measure_text t))"
proof (rule repair_cases [of U t])
  assume "repairGluedParts U t = t" then show ?thesis ..
next
  fix costs part k
  assume m: "measure_text t = (costs, part)" and s: "0 < sum_list costs mod part"
    and fx: "glued_fix U t costs part (sum_list costs mod part) k = Some (repairGluedParts U t)"
  have "length costs = length t" using m by (rule length_measure_text)
  from glued_fix_moves [OF fx this s] show ?thesis unfolding m fst_conv snd_conv by metis
qed

text \<open>The characters are a permutation, so measures that do not depend on order agree.\<close>

lemma mset_repairGluedParts: "mset (repairGluedParts U t) = mset t"
proof (rule repair_cases [of U t])
  assume "repairGluedParts U t = t" then show ?thesis by simp
next
  fix costs part k
  assume m: "measure_text t = (costs, part)" and s: "0 < sum_list costs mod part"
    and fx: "glued_fix U t costs part (sum_list costs mod part) k = Some (repairGluedParts U t)"
  have "length costs = length t" using m by (rule length_measure_text)
  then obtain hd tl rs where "t = hd @ tl @ rs" "repairGluedParts U t = hd @ rs @ tl"
    using glued_fix_moves [OF fx _ s] by metis
  then show ?thesis by simp
qed

definition char_cost :: "bool \<Rightarrow> nat \<Rightarrow> nat" where
  "char_cost gsm c = (if gsm then (if c \<in> set GSM7_EXT then 2 else 1) else utf16_len c)"

lemma measure_text_alt:
  "measure_text t = (map (char_cost (list_all gsm_char t)) t,
     if list_all gsm_char t then GSM7_PART_SEPTETS else UCS2_PART_UNITS)"
  by (simp add: measure_text_def char_cost_def)

lemma incomplete_mset_cong:
  assumes "mset s = mset t" shows "looksLikeIncompletePart s = looksLikeIncompletePart t"
proof -
  have st: "set s = set t" using assms by (rule mset_eq_setD)
  then have gsm: "list_all gsm_char s = list_all gsm_char t" by (simp add: list_all_iff)
  have "sum_list (map f s) = sum_list (map f t)" for f :: "nat \<Rightarrow> nat"
    using assms by (metis mset_map sum_mset_sum_list)
  moreover have "s = [] \<longleftrightarrow> t = []" using st by auto
  ultimately show ?thesis by (simp add: looksLikeIncompletePart_def measure_text_alt gsm)
qed

text \<open>
  Whether a text is held back as an incomplete part does not depend on the repair, so
  repairing before the decision, as the ingest service does, cannot change it.
\<close>

theorem incomplete_after_repair:
  "looksLikeIncompletePart (repairGluedParts U t) = looksLikeIncompletePart t"
  by (rule incomplete_mset_cong) (rule mset_repairGluedParts)

section \<open>Assembling keeps every part\<close>

lemma assembleParts_mset:
  "mset (fst (assembleParts txt ps)) + mset (snd (assembleParts txt ps)) = mset ps"
proof -
  let ?P = "\<lambda>p. looksLikeIncompletePart (txt p)"
  let ?shorts = "filter (\<lambda>p. \<not> ?P p) ps"
  have "mset (take 1 ?shorts) + mset (drop 1 ?shorts) = mset ?shorts"
    by (metis append_take_drop_id mset_append)
  moreover have "mset (filter ?P ps) + mset ?shorts = mset ps"
    by (simp add: multiset_partition [symmetric])
  ultimately show ?thesis
    by (simp only: assembleParts_def Let_def fst_conv snd_conv mset_append add.assoc)
qed

text \<open>
  Assembling buffered parts keeps each part exactly once, puts at most one short part
  into the message, at its end, and leaves only short parts over.
\<close>

theorem assembleParts_keeps_all:
  "mset (fst (assembleParts txt ps)) + mset (snd (assembleParts txt ps)) = mset ps
   \<and> list_all (\<lambda>p. looksLikeIncompletePart (txt p)) (butlast (fst (assembleParts txt ps)))
   \<and> list_all (\<lambda>p. \<not> looksLikeIncompletePart (txt p)) (snd (assembleParts txt ps))"
proof (intro conjI)
  show "mset (fst (assembleParts txt ps)) + mset (snd (assembleParts txt ps)) = mset ps"
    by (rule assembleParts_mset)
  show "list_all (\<lambda>p. looksLikeIncompletePart (txt p)) (butlast (fst (assembleParts txt ps)))"
    by (cases "filter (\<lambda>p. \<not> looksLikeIncompletePart (txt p)) ps")
      (auto simp: assembleParts_def Let_def list_all_iff butlast_append dest: in_set_butlastD)
  show "list_all (\<lambda>p. \<not> looksLikeIncompletePart (txt p)) (snd (assembleParts txt ps))"
    by (auto simp: assembleParts_def Let_def list_all_iff dest: in_set_dropD)
qed


lemma ucs_part_full: "looksLikeIncompletePart (replicate 67 1072)"
proof -
  have "\<not> list_all gsm_char (replicate 67 1072)"
    by (simp add: list_all_iff gsm_char_def GSM7_BASIC_def GSM7_EXT_def)
  then show ?thesis
    by (simp add: looksLikeIncompletePart_def measure_text_def utf16_len_def UCS2_PART_UNITS_def
        map_replicate_const sum_list_replicate)
qed

lemma ucs_single_short: "\<not> looksLikeIncompletePart [1073]"
  by (simp add: looksLikeIncompletePart_def measure_text_def utf16_len_def UCS2_PART_UNITS_def
      GSM7_PART_SEPTETS_def)


end
