(* ===== verification/Json.thy ===== *)
theory Json
  imports Prelude
begin

text \<open>
  JSON values as the gateway handles them: plain objects as association lists in insertion
  order, property reads of own properties (\<open>own\<close>), property writes (\<open>obj_set\<close>), truthiness,
  strict equality, \<open>Object.entries\<close> and \<open>JSON.stringify\<close>. \<open>None\<close> of type \<open>json option\<close> is
  JavaScript's \<open>undefined\<close>. Not represented: properties inherited from the built-in
  prototypes, and the fact that an object enumerates integer-like keys first. How a number
  is printed is an argument (\<open>fmt\<close>) of the functions that print.
\<close>

datatype json =
    JNull
  | JBool bool
  | JNum rat
  | JStr ustring
  | JArr "json list"
  | JObj "(ustring \<times> json) list"

type_synonym fields = "(ustring \<times> json) list"

text \<open>\<open>v !== null && typeof v === 'object'\<close>: arrays count.\<close>

fun is_object :: "json \<Rightarrow> bool" where
  "is_object (JArr _) = True"
| "is_object (JObj _) = True"
| "is_object _ = False"

fun is_array :: "json \<Rightarrow> bool" where
  "is_array (JArr _) = True"
| "is_array _ = False"

fun truthy :: "json \<Rightarrow> bool" where
  "truthy JNull = False"
| "truthy (JBool b) = b"
| "truthy (JNum r) = (r \<noteq> 0)"
| "truthy (JStr s) = (s \<noteq> [])"
| "truthy _ = True"

fun as_string :: "json option \<Rightarrow> ustring option" where
  "as_string (Some (JStr s)) = Some s"
| "as_string _ = None"

text \<open>A canonical array index, as it is written: no sign, no leading zero.\<close>

fun dec_val :: "ustring \<Rightarrow> nat" where
  "dec_val ds = foldl (\<lambda>a d. a * 10 + (d - 48)) 0 ds"

definition array_index :: "ustring \<Rightarrow> nat option" where
  "array_index k =
     (if k \<noteq> [] \<and> list_all is_digit k \<and> (hd k \<noteq> 48 \<or> k = [48]) then Some (dec_val k) else None)"

text \<open>\<open>v[k]\<close> for an object or array \<open>v\<close>; other values have no own properties of interest.\<close>

fun own :: "json \<Rightarrow> ustring \<Rightarrow> json option" where
  "own (JObj kvs) k = map_of kvs k"
| "own (JArr xs) k =
     (if k = lit ''length'' then Some (JNum (of_nat (length xs)))
      else (case array_index k of Some i \<Rightarrow> if i < length xs then Some (xs ! i) else None
            | None \<Rightarrow> None))"
| "own _ k = None"

text \<open>\<open>o[k] = v\<close>: an existing key keeps its place, a new key goes last.\<close>

fun obj_set :: "ustring \<Rightarrow> json \<Rightarrow> fields \<Rightarrow> fields" where
  "obj_set k v [] = [(k, v)]"
| "obj_set k v ((k', v') # kvs) = (if k' = k then (k, v) # kvs else (k', v') # obj_set k v kvs)"

text \<open>\<open>{ ...o, ...p }\<close>.\<close>

definition spread :: "fields \<Rightarrow> fields \<Rightarrow> fields" where
  "spread kvs more = fold (\<lambda>(k, v). obj_set k v) more kvs"

fun fields_of :: "json option \<Rightarrow> fields" where
  "fields_of (Some (JObj kvs)) = kvs"
| "fields_of _ = []"

text \<open>\<open>===\<close> of a possibly undefined value and a JSON value held elsewhere: two objects that
  are not the same reference are never equal.\<close>

fun strict_eq :: "json option \<Rightarrow> json \<Rightarrow> bool" where
  "strict_eq None w = False"
| "strict_eq (Some v) w = (\<not> is_object v \<and> \<not> is_object w \<and> v = w)"

fun object_entries :: "json \<Rightarrow> fields" where
  "object_entries (JObj kvs) = kvs"
| "object_entries (JArr xs) = zip (map dec_str [0..<length xs]) xs"
| "object_entries (JStr s) = zip (map dec_str [0..<length s]) (map (\<lambda>c. JStr [c]) s)"
| "object_entries _ = []"

section \<open>JSON.stringify\<close>

definition hex_digit :: "nat \<Rightarrow> nat" where
  "hex_digit n = (if n < 10 then 48 + n else 87 + n)"

definition hex4 :: "nat \<Rightarrow> ustring" where
  "hex4 n = [hex_digit (n div 4096 mod 16), hex_digit (n div 256 mod 16),
             hex_digit (n div 16 mod 16), hex_digit (n mod 16)]"

definition quote_cp :: "nat \<Rightarrow> ustring" where
  "quote_cp c =
     (if c = 8 then [92, 98] else if c = 9 then [92, 116] else if c = 10 then [92, 110]
      else if c = 12 then [92, 102] else if c = 13 then [92, 114]
      else if c = 34 then [92, 34] else if c = 92 then [92, 92]
      else if c < 32 \<or> (55296 \<le> c \<and> c \<le> 57343) then [92, 117] @ hex4 c
      else [c])"

definition quote_str :: "ustring \<Rightarrow> ustring" where
  "quote_str s = [34] @ concat (map quote_cp s) @ [34]"

primrec stringify :: "(rat \<Rightarrow> ustring) \<Rightarrow> json \<Rightarrow> ustring" where
  "stringify fmt JNull = lit ''null''"
| "stringify fmt (JBool b) = (if b then lit ''true'' else lit ''false'')"
| "stringify fmt (JNum r) = fmt r"
| "stringify fmt (JStr s) = quote_str s"
| "stringify fmt (JArr xs) = [91] @ join_with [44] (map (stringify fmt) xs) @ [93]"
| "stringify fmt (JObj kvs) =
     [123] @ join_with [44] (map (\<lambda>(k, v). quote_str k @ [58] @ v) (map (map_prod id (stringify fmt)) kvs)) @ [125]"

text \<open>
  \<open>JSON.stringify(v, null, 2)\<close>: the second argument is the indentation reached so far.
\<close>

definition block_of :: "nat \<Rightarrow> nat \<Rightarrow> ustring list \<Rightarrow> nat \<Rightarrow> ustring" where
  "block_of l r items n =
     (if items = [] then [l, r]
      else [l, 10] @ replicate (n + 2) 32 @ join_with ([44, 10] @ replicate (n + 2) 32) items
        @ [10] @ replicate n 32 @ [r])"

primrec pretty :: "(rat \<Rightarrow> ustring) \<Rightarrow> json \<Rightarrow> nat \<Rightarrow> ustring" where
  "pretty fmt JNull = (\<lambda>n. lit ''null'')"
| "pretty fmt (JBool b) = (\<lambda>n. if b then lit ''true'' else lit ''false'')"
| "pretty fmt (JNum r) = (\<lambda>n. fmt r)"
| "pretty fmt (JStr s) = (\<lambda>n. quote_str s)"
| "pretty fmt (JArr xs) = (\<lambda>n. block_of 91 93 (map (\<lambda>p. p (n + 2)) (map (pretty fmt) xs)) n)"
| "pretty fmt (JObj kvs) =
     (\<lambda>n. block_of 123 125
        (map (\<lambda>(k, p). quote_str k @ [58, 32] @ p (n + 2)) (map (map_prod id (pretty fmt)) kvs)) n)"

section \<open>Conversion to text\<close>

text \<open>A value inside a template string. \<open>Array.prototype.join\<close> writes null as nothing.\<close>

primrec to_text :: "(rat \<Rightarrow> ustring) \<Rightarrow> json \<Rightarrow> ustring" where
  "to_text fmt JNull = lit ''null''"
| "to_text fmt (JBool b) = (if b then lit ''true'' else lit ''false'')"
| "to_text fmt (JNum r) = fmt r"
| "to_text fmt (JStr s) = s"
| "to_text fmt (JArr xs) =
     join_with [44] (map (\<lambda>(x, t). if x = JNull then [] else t) (zip xs (map (to_text fmt) xs)))"
| "to_text fmt (JObj kvs) = lit ''[object Object]''"

definition array_join :: "(rat \<Rightarrow> ustring) \<Rightarrow> ustring \<Rightarrow> json list \<Rightarrow> ustring" where
  "array_join fmt sep xs = join_with sep (map (\<lambda>x. if x = JNull then [] else to_text fmt x) xs)"

text \<open>\<open>s.slice(0, n)\<close> counts UTF-16 units: a pair cut in two leaves its high surrogate.\<close>

fun take_units :: "nat \<Rightarrow> ustring \<Rightarrow> ustring" where
  "take_units n [] = []"
| "take_units n (c # cs) =
     (if n = 0 then []
      else if c < 65536 then c # take_units (n - 1) cs
      else if n = 1 then [55296 + (c - 65536) div 1024]
      else c # take_units (n - 2) cs)"

section \<open>Object update laws\<close>

lemma map_of_obj_set [simp]: "map_of (obj_set k v kvs) = (map_of kvs)(k \<mapsto> v)"
  by (induction kvs) (auto simp: fun_eq_iff)

lemma set_fst_obj_set: "fst ` set (obj_set k v kvs) = insert k (fst ` set kvs)"
proof (induction kvs)
  case (Cons p kvs)
  then show ?case by (cases p) auto
qed simp

lemma distinct_obj_set: "distinct (map fst kvs) \<Longrightarrow> distinct (map fst (obj_set k v kvs))"
proof (induction kvs)
  case (Cons p kvs)
  then show ?case by (cases p) (auto simp: set_fst_obj_set image_image)
qed simp

lemma obj_set_same: "map_of kvs k = Some v \<Longrightarrow> obj_set k v kvs = kvs"
  by (induction kvs) (auto split: if_splits)

lemma spread_Nil [simp]: "spread kvs [] = kvs"
  by (simp add: spread_def)

lemma spread_Cons [simp]: "spread kvs ((k, v) # more) = spread (obj_set k v kvs) more"
  by (simp add: spread_def)

end
