(* ===== verification/Phone.thy ===== *)
theory Phone
  imports Prelude
begin

text \<open>
  Phone number normalisation of the channel SDK (packages/channel-sdk/src/phone.ts) and
  the canonical address it builds (packages/channel-sdk/src/types.ts). The lemmas show
  that normalisation is idempotent, that its results have the E.164 shape, and that the
  spellings of one number meet on one result.
\<close>

text \<open>The regular expression \<open>^\<close>\<open>+\<close>, then 7 to 15 digits, then the end.\<close>

definition e164_shape :: "ustring \<Rightarrow> bool" where
  "e164_shape s \<longleftrightarrow> (case s of [] \<Rightarrow> False
     | c # ds \<Rightarrow> c = 43 \<and> (\<forall>d\<in>set ds. is_digit d) \<and> 7 \<le> length ds \<and> length ds \<le> 15)"

definition strip_plus :: "ustring \<Rightarrow> ustring" where
  "strip_plus s = (case s of [] \<Rightarrow> [] | c # cs \<Rightarrow> if c = 43 then cs else s)"

definition default_country :: ustring where
  "default_country = lit ''+380''"

text \<open>The second half of \<open>toE164\<close>, on the digits that are left of a dialled number.\<close>

definition e164_of_digits :: "ustring \<Rightarrow> ustring \<Rightarrow> ustring option" where
  "e164_of_digits cc digits =
     (if length digits < 9 \<or> length digits > 15 then None
      else if starts_with (lit ''0'') digits \<and> length digits = 10 then Some (43 # cc @ drop 1 digits)
      else if length digits \<ge> 11 then Some (43 # digits)
      else Some (43 # cc @ digits))"

definition drop_int_prefix :: "ustring \<Rightarrow> ustring" where
  "drop_int_prefix digits = (if starts_with (lit ''00'') digits then drop 2 digits else digits)"

definition toE164 :: "ustring \<Rightarrow> ustring \<Rightarrow> ustring option" where
  "toE164 input defaultCountry =
     (if input = [] then None
      else let trimmed = js_trim input in
      if e164_shape trimmed then Some trimmed
      else let digits = filter is_digit trimmed in
      if \<exists>c\<in>set trimmed. is_ascii_letter c then None
      else e164_of_digits (strip_plus defaultCountry) (drop_int_prefix digits))"

text \<open>\<open>slice(a, b)\<close> of a string.\<close>

definition slice :: "nat \<Rightarrow> nat \<Rightarrow> ustring \<Rightarrow> ustring" where
  "slice a b s = take (b - a) (drop a s)"

definition toDisplay :: "ustring \<Rightarrow> ustring" where
  "toDisplay s =
     (let digits = filter is_digit s in
      if length digits = 12 \<and> starts_with (lit ''380'') digits
      then lit ''0'' @ slice 3 6 digits @ lit '' '' @ slice 6 9 digits @ lit '' '' @
           slice 9 11 digits @ lit '' '' @ slice 11 13 digits
      else s)"

record canonical_address =
  ca_raw :: ustring
  ca_e164 :: "ustring option"
  ca_display :: "ustring option"

definition makeAddress :: "ustring \<Rightarrow> canonical_address" where
  "makeAddress raw =
     (let e164 = toE164 raw default_country in
      \<lparr>ca_raw = raw, ca_e164 = e164,
       ca_display = Some (case e164 of Some e \<Rightarrow> if e = [] then raw else toDisplay e | None \<Rightarrow> raw)\<rparr>)"

section \<open>Shape and idempotence\<close>

lemma strip_plus_default [simp]: "strip_plus default_country = lit ''380''"
  by (simp add: strip_plus_def default_country_def string_simps)

lemma lit_380_digits: "\<forall>c\<in>set (lit ''380''). is_digit c"
  by (simp add: string_simps is_digit_def)

lemma e164_shapeI:
  "\<forall>d\<in>set ds. is_digit d \<Longrightarrow> 7 \<le> length ds \<Longrightarrow> length ds \<le> 15 \<Longrightarrow> e164_shape (43 # ds)"
  by (simp add: e164_shape_def)

lemma e164_shape_no_space: "e164_shape s \<Longrightarrow> \<forall>c\<in>set s. \<not> js_space c"
  using digit_not_space by (auto simp: e164_shape_def split: list.splits) (auto simp: js_space_def)

lemma e164_shape_trim: "e164_shape s \<Longrightarrow> js_trim s = s"
  by (rule js_trim_id) (rule e164_shape_no_space)

lemma e164_shape_not_Nil: "e164_shape s \<Longrightarrow> s \<noteq> []"
  by (auto simp: e164_shape_def)

lemma toE164_shape_fixed: "e164_shape s \<Longrightarrow> toE164 s cc = Some s"
  by (simp add: toE164_def e164_shape_trim e164_shape_not_Nil)

lemma e164_of_digits_shape:
  assumes "e164_of_digits cc ds = Some e" and "\<forall>d\<in>set ds. is_digit d"
    and "\<forall>d\<in>set cc. is_digit d" and "length cc \<le> 5"
  shows "e164_shape e"
proof -
  have "\<forall>d\<in>set (drop 1 ds). is_digit d" using assms(2) by (meson in_set_dropD)
  with assms show ?thesis
    by (auto simp: e164_of_digits_def split: if_splits intro!: e164_shapeI)
qed

lemma drop_int_prefix_digits:
  "\<forall>d\<in>set ds. is_digit d \<Longrightarrow> \<forall>d\<in>set (drop_int_prefix ds). is_digit d"
  by (auto simp: drop_int_prefix_def dest: in_set_dropD)

lemma toE164_result_shape:
  assumes "toE164 s default_country = Some e" shows "e164_shape e"
proof (cases "e164_shape (js_trim s)")
  case True
  with assms show ?thesis by (auto simp: toE164_def Let_def split: if_splits)
next
  case False
  let ?ds = "drop_int_prefix (filter is_digit (js_trim s))"
  from False assms have "e164_of_digits (lit ''380'') ?ds = Some e"
    by (auto simp: toE164_def Let_def split: if_splits)
  then show ?thesis
    using drop_int_prefix_digits lit_380_digits by (rule e164_of_digits_shape) auto
qed

text \<open>
  Normalising a phone number is idempotent: a number that normalises is in E.164 form
  and normalises to itself, so the key under which a conversation is stored is stable.
\<close>

theorem toE164_idempotent:
  "case toE164 s default_country of None \<Rightarrow> True
   | Some e \<Rightarrow> e164_shape e \<and> toE164 e default_country = Some e"
  using toE164_result_shape toE164_shape_fixed by (auto split: option.split)

section \<open>The spellings of one number\<close>

lemma filter_digits_id: "\<forall>d\<in>set ds. is_digit d \<Longrightarrow> filter is_digit ds = ds"
  by simp

lemma toE164_bare_digits:
  assumes "\<forall>d\<in>set ds. is_digit d" "ds \<noteq> []"
  shows "toE164 ds cc = e164_of_digits (strip_plus cc) (drop_int_prefix ds)"
proof -
  have "js_trim ds = ds" using assms digit_not_space by (intro js_trim_id) auto
  moreover have "\<not> e164_shape ds"
    using assms by (auto simp: e164_shape_def is_digit_def split: list.splits)
  ultimately show ?thesis using assms digit_not_letter by (auto simp: toE164_def)
qed

lemma national_prefix_free:
  "length n = 9 \<Longrightarrow> hd n \<noteq> 48 \<Longrightarrow> drop_int_prefix (48 # n) = 48 # n"
  by (cases n) (auto simp: drop_int_prefix_def starts_with_def string_simps)

text \<open>
  The spellings of one Ukrainian number meet: the nine-digit subscriber number, the
  national form with the trunk zero, the bare country code form, the form with the
  international dialling prefix and the E.164 form all normalise to the E.164 form.
\<close>

theorem toE164_spellings_meet:
  assumes "length n = 9" and "\<forall>d\<in>set n. is_digit d" and "hd n \<noteq> 48"
  shows "\<forall>s\<in>{n, lit ''0'' @ n, lit ''380'' @ n, lit ''00380'' @ n, lit ''+380'' @ n}.
    toE164 s default_country = Some (lit ''+380'' @ n)"
proof -
  have n: "n \<noteq> []" "drop_int_prefix n = n"
    using assms by (cases n; auto simp: drop_int_prefix_def starts_with_def string_simps)+
  have d0: "\<forall>d\<in>set (48 # n). is_digit d" using assms by (simp add: is_digit_def)
  have d380: "\<forall>d\<in>set (51 # 56 # 48 # n). is_digit d" using assms by (simp add: is_digit_def)
  have d00: "\<forall>d\<in>set (48 # 48 # 51 # 56 # 48 # n). is_digit d" using assms by (simp add: is_digit_def)
  have plus: "e164_shape (43 # 51 # 56 # 48 # n)"
    using assms d380 by (intro e164_shapeI) auto
  have "toE164 n default_country = Some (43 # 51 # 56 # 48 # n)"
    using assms n by (auto simp: toE164_bare_digits e164_of_digits_def string_simps)
  moreover have "toE164 (48 # n) default_country = Some (43 # 51 # 56 # 48 # n)"
    using assms national_prefix_free [OF assms(1,3)]
    by (simp add: toE164_bare_digits [OF d0] e164_of_digits_def starts_with_def string_simps)
  moreover have "toE164 (51 # 56 # 48 # n) default_country = Some (43 # 51 # 56 # 48 # n)"
    using assms by (simp add: toE164_bare_digits [OF d380] e164_of_digits_def drop_int_prefix_def
        starts_with_def string_simps)
  moreover have "toE164 (48 # 48 # 51 # 56 # 48 # n) default_country = Some (43 # 51 # 56 # 48 # n)"
    using assms by (simp add: toE164_bare_digits [OF d00] e164_of_digits_def drop_int_prefix_def
        starts_with_def string_simps)
  moreover have "toE164 (43 # 51 # 56 # 48 # n) default_country = Some (43 # 51 # 56 # 48 # n)"
    using plus by (rule toE164_shape_fixed)
  ultimately show ?thesis by (simp add: string_simps)
qed

theorem toE164_spellings_meet_witness:
  "toE164 (lit ''0671112233'') default_country = Some (lit ''+380671112233'')"
  using toE164_spellings_meet [of "lit ''671112233''"] by (simp add: string_simps is_digit_def)

end
