(* ===== verification/Schema.thy ===== *)
theory Schema
  imports Json Phone
begin

text \<open>
  The database of the gateway: the enumerations and rows of
  packages/database/prisma/schema.prisma and packages/contracts/src, and the state \<open>db\<close>
  that API and worker share. Besides the tables it holds the files of the media directory
  (by path relative to it) and the jobs handed to the two
  BullMQ queues, in order (the queue itself is not modelled: what it answers is an argument
  of the operations that ask it), and the supply of generated identifiers. Times are
  milliseconds since the epoch. Identifiers of pure log rows (status history, audit log)
  are left out. Texts shown to the operator are values of \<open>datatype\<close>s, one constructor per
  message of the source.
\<close>

section \<open>Enumerations\<close>

datatype channel_type = sms | whatsapp | signal | mock
datatype transport_status = acc_active | acc_inactive | acc_degraded | acc_disabled
datatype registration_state = unpaired | qr_pending | qr_displayed | sms_pending | verifying
  | linked | relink_needed | reg_failed
datatype message_direction = inbound | outbound

datatype message_status = created | scheduled | queued | dispatching | accepted | sent
  | delivered | read | failed | cancelled | expired | unknown | received | assembling
  | incomplete | processed | forwarded | forward_failed

datatype message_type = text_t | image | audio | voice | video | document | sticker | location
  | contact | reaction | reply | interactive | poll | system | unknown_t

datatype delivery_status = d_pending | d_delivering | d_delivered | d_failed | d_dlq
datatype destination_type = webhook | email | telegram | internal_log
datatype alert_status = firing | resolved

text \<open>The strings the enumerations are on the wire.\<close>

fun channel_name :: "channel_type \<Rightarrow> ustring" where
  "channel_name sms = lit ''sms''"
| "channel_name whatsapp = lit ''whatsapp''"
| "channel_name signal = lit ''signal''"
| "channel_name mock = lit ''mock''"

fun direction_name :: "message_direction \<Rightarrow> ustring" where
  "direction_name inbound = lit ''inbound''"
| "direction_name outbound = lit ''outbound''"

fun status_name :: "message_status \<Rightarrow> ustring" where
  "status_name created = lit ''created''"
| "status_name scheduled = lit ''scheduled''"
| "status_name queued = lit ''queued''"
| "status_name dispatching = lit ''dispatching''"
| "status_name accepted = lit ''accepted''"
| "status_name sent = lit ''sent''"
| "status_name delivered = lit ''delivered''"
| "status_name read = lit ''read''"
| "status_name failed = lit ''failed''"
| "status_name cancelled = lit ''cancelled''"
| "status_name expired = lit ''expired''"
| "status_name unknown = lit ''unknown''"
| "status_name received = lit ''received''"
| "status_name assembling = lit ''assembling''"
| "status_name incomplete = lit ''incomplete''"
| "status_name processed = lit ''processed''"
| "status_name forwarded = lit ''forwarded''"
| "status_name forward_failed = lit ''forward_failed''"

fun type_name :: "message_type \<Rightarrow> ustring" where
  "type_name text_t = lit ''text''"
| "type_name image = lit ''image''"
| "type_name audio = lit ''audio''"
| "type_name voice = lit ''voice''"
| "type_name video = lit ''video''"
| "type_name document = lit ''document''"
| "type_name sticker = lit ''sticker''"
| "type_name location = lit ''location''"
| "type_name contact = lit ''contact''"
| "type_name reaction = lit ''reaction''"
| "type_name reply = lit ''reply''"
| "type_name interactive = lit ''interactive''"
| "type_name poll = lit ''poll''"
| "type_name system = lit ''system''"
| "type_name unknown_t = lit ''unknown''"

section \<open>Rows\<close>

record account_row =
  ac_id :: ustring
  ac_type :: channel_type
  ac_adapter :: ustring
  ac_name :: ustring
  ac_status :: transport_status
  ac_config :: json
  ac_createdAt :: int

record endpoint_row =
  ep_id :: ustring
  ep_accountId :: ustring
  ep_externalId :: "ustring option"
  ep_phoneRaw :: "ustring option"
  ep_phoneE164 :: "ustring option"
  ep_label :: ustring
  ep_enabled :: bool
  ep_config :: json
  ep_state :: registration_state
  ep_deviceName :: "ustring option"
  ep_uuid :: "ustring option"
  ep_registeredAt :: "int option"
  ep_createdAt :: int

record conversation_row =
  cv_id :: ustring
  cv_channelType :: channel_type
  cv_endpointId :: ustring
  cv_peerId :: "ustring option"
  cv_peerPhone :: "ustring option"
  cv_lastMessageAt :: "int option"

record message_row =
  ms_id :: ustring
  ms_direction :: message_direction
  ms_channelType :: channel_type
  ms_accountId :: ustring
  ms_endpointId :: ustring
  ms_conversationId :: "ustring option"
  ms_externalId :: "ustring option"
  ms_messageType :: message_type
  ms_status :: message_status
  ms_from :: json
  ms_to :: json
  ms_content :: json
  ms_metadata :: json
  ms_rawPayload :: json
  ms_scheduledAt :: "int option"
  ms_createdAt :: int
  ms_updatedAt :: int

datatype attempt_result = at_pending | at_sent | at_permanent_error | at_retryable_error | at_final_error

record attempt_row =
  at_id :: ustring
  at_messageId :: ustring
  at_attemptNo :: nat
  at_result :: attempt_result
  at_finishedAt :: "int option"
  at_error :: "json option"

record history_row =
  hi_messageId :: ustring
  hi_status :: message_status
  hi_source :: ustring
  hi_payload :: json

record event_row =
  ev_id :: ustring
  ev_dedupKey :: "ustring option"
  ev_eventType :: ustring
  ev_aggregateId :: "ustring option"
  ev_channelType :: "channel_type option"
  ev_accountId :: "ustring option"
  ev_endpointId :: "ustring option"
  ev_payload :: json
  ev_createdAt :: int

record outbox_row =
  ob_id :: ustring
  ob_eventType :: ustring
  ob_aggregateId :: ustring
  ob_payload :: json
  ob_publishedAt :: "int option"
  ob_createdAt :: int

record rule_row =
  ru_id :: ustring
  ru_name :: ustring
  ru_enabled :: bool
  ru_priority :: int
  ru_eventTypes :: json
  ru_filters :: json
  ru_fieldSelector :: json

record destination_row =
  de_id :: ustring
  de_name :: ustring
  de_type :: destination_type
  de_enabled :: bool
  de_url :: "ustring option"
  de_secretEnc :: "ustring option"
  de_config :: json
  de_fieldSelector :: json
  de_template :: "json option"
  de_timeoutMs :: int

datatype delivery_error =
    BadWebhookUrl
  | WebhookPermanent int
  | WebhookTemporary int
  | NetworkOrTimeout ustring
  | TelegramNotConfigured
  | TelegramPermanent int
  | TelegramTemporary int
  | TelegramNetwork ustring
  | NoEmailRecipients
  | SmtpNotConfigured
  | EmailSendFailed ustring
  | PermanentFailure
  | UnknownFailure

record response_snapshot =
  rs_status :: "int option"
  rs_body :: "ustring option"
  rs_error :: "delivery_error option"

record delivery_row =
  dl_id :: ustring
  dl_eventId :: ustring
  dl_destinationId :: ustring
  dl_status :: delivery_status
  dl_attemptCount :: nat
  dl_maxAttempts :: nat
  dl_nextAttemptAt :: "int option"
  dl_lastResponseCode :: "int option"
  dl_lastError :: "delivery_error option"
  dl_request :: "json option"
  dl_response :: "response_snapshot option"
  dl_durationMs :: "int option"

record attachment_row =
  at_attId :: ustring
  at_msgId :: "ustring option"
  at_storagePath :: ustring
  at_fileName :: ustring
  at_mimeType :: ustring
  at_sizeBytes :: nat
  at_sha256 :: ustring
  at_deletedAt :: "int option"
  at_createdAt :: int

datatype alert_text =
    MessageNotDelivered
  | SendAttemptsExhausted
  | WebhookDeadLettered
  | DeliveryFailedAfter ustring ustring nat
  | SimDebt ustring
  | SimLowBalance ustring
  | SimBalanceIs rat "ustring option" rat ustring
  | BalanceUnparsed ustring
  | OperatorReplied ustring
  | FreeText ustring

record alert_row =
  al_id :: ustring
  al_fingerprint :: ustring
  al_ruleKey :: ustring
  al_severity :: ustring
  al_status :: alert_status
  al_title :: alert_text
  al_message :: alert_text
  al_payload :: json
  al_lastSeenAt :: int
  al_resolvedAt :: "int option"

record idempotency_row =
  ik_key :: ustring
  ik_requestHash :: ustring
  ik_responseRef :: ustring
  ik_expiresAt :: int

record alert_rule_row =
  ar_key :: ustring
  ar_name :: ustring
  ar_enabled :: bool
  ar_config :: json

record audit_row =
  au_actorId :: "ustring option"
  au_action :: ustring
  au_entityType :: ustring
  au_entityId :: ustring
  au_before :: json
  au_after :: json

record canonical_attachment =
  ct_ref :: "ustring option"
  ct_mime :: "ustring option"
  ct_filename :: "ustring option"
  ct_size :: "rat option"

text \<open>\<open>ci_more\<close> holds the members of the content object that the gateway only passes on.\<close>

record canonical_inbound =
  ci_direction :: message_direction
  ci_externalId :: ustring
  ci_from :: canonical_address
  ci_to :: "canonical_address list"
  ci_type :: ustring
  ci_text :: "ustring option"
  ci_attachments :: "canonical_attachment list"
  ci_meta :: fields
  ci_more :: fields
  ci_receivedAt :: int
  ci_rawPayload :: json

record sms_part_row =
  sp_id :: ustring
  sp_endpointId :: ustring
  sp_sender :: ustring
  sp_text :: ustring
  sp_receivedAt :: int
  sp_inbound :: canonical_inbound
  sp_arrivedAt :: int

record token_row =
  tk_id :: ustring
  tk_name :: ustring
  tk_tokenHash :: ustring
  tk_createdAt :: int
  tk_lastUsedAt :: "int option"
  tk_revokedAt :: "int option"

record admin_row =
  us_id :: ustring
  us_username :: ustring
  us_passwordHash :: ustring
  us_lastLoginAt :: "int option"

section \<open>Queue jobs and the state\<close>

text \<open>The calls \<open>queue.add('send', \<dots>)\<close> and \<open>queue.add('deliver', \<dots>)\<close> with their options.\<close>

record send_job =
  sj_messageId :: ustring
  sj_jobId :: ustring
  sj_attempts :: "nat option"
  sj_backoff :: "int option"

record webhook_job =
  wj_deliveryId :: ustring
  wj_jobId :: ustring
  wj_delay :: int

record db =
  accounts :: "account_row list"
  endpoints :: "endpoint_row list"
  conversations :: "conversation_row list"
  messages :: "message_row list"
  attempts :: "attempt_row list"
  history :: "history_row list"
  events :: "event_row list"
  outbox :: "outbox_row list"
  rules :: "rule_row list"
  rule_links :: "(ustring \<times> ustring) list"
  destinations :: "destination_row list"
  deliveries :: "delivery_row list"
  attachments :: "attachment_row list"
  alerts :: "alert_row list"
  alert_rules :: "alert_rule_row list"
  idem_keys :: "idempotency_row list"
  audit_logs :: "audit_row list"
  settings :: "fields"
  sms_parts :: "sms_part_row list"
  api_tokens :: "token_row list"
  admin_users :: "admin_row list"
  media_files :: "(ustring \<times> nat list) list"
  send_jobs :: "send_job list"
  webhook_jobs :: "webhook_job list"
  uuid_source :: "nat \<Rightarrow> ustring"
  uuid_next :: nat

definition fresh_id :: "db \<Rightarrow> ustring \<times> db" where
  "fresh_id d = (uuid_source d (uuid_next d), d\<lparr>uuid_next := Suc (uuid_next d)\<rparr>)"

definition empty_db :: "(nat \<Rightarrow> ustring) \<Rightarrow> db" where
  "empty_db src = \<lparr>accounts = [], endpoints = [], conversations = [], messages = [], attempts = [],
     history = [], events = [], outbox = [], rules = [], rule_links = [], destinations = [],
     deliveries = [], attachments = [], alerts = [], alert_rules = [], idem_keys = [], audit_logs = [],
     settings = [], sms_parts = [], api_tokens = [], admin_users = [], media_files = [],
     send_jobs = [], webhook_jobs = [],
     uuid_source = src, uuid_next = 0\<rparr>"

text \<open>A supply of distinct identifiers for concrete runs: \<open>x\<close>, \<open>xx\<close>, and so on.\<close>

definition tick_ids :: "nat \<Rightarrow> ustring" where
  "tick_ids n = replicate (Suc n) 120"

text \<open>Optional strings and enumerations as JSON.\<close>

fun opt_str :: "ustring option \<Rightarrow> json" where
  "opt_str None = JNull"
| "opt_str (Some s) = JStr s"

definition address_json :: "canonical_address \<Rightarrow> json" where
  "address_json a = JObj [(lit ''raw'', JStr (ca_raw a)), (lit ''e164'', opt_str (ca_e164 a)),
     (lit ''display'', opt_str (ca_display a))]"

section \<open>The tables as instances of the table interface\<close>

text \<open>Each table with a primary key is a field of \<open>db\<close>; the lemmas of the interface apply.\<close>

interpretation msgs: db_table messages messages_update ms_id
  by unfold_locales (auto simp: comp_def)

interpretation dels: db_table deliveries deliveries_update dl_id
  by unfold_locales (auto simp: comp_def)

interpretation eps: db_table endpoints endpoints_update ep_id
  by unfold_locales (auto simp: comp_def)

interpretation als: db_table alerts alerts_update al_id
  by unfold_locales (auto simp: comp_def)

interpretation evs: db_table events events_update ev_id
  by unfold_locales (auto simp: comp_def)

interpretation atts: db_table attachments attachments_update at_attId
  by unfold_locales (auto simp: comp_def)

interpretation toks: db_table api_tokens api_tokens_update tk_id
  by unfold_locales (auto simp: comp_def)

interpretation accs: db_table accounts accounts_update ac_id
  by unfold_locales (auto simp: comp_def)

interpretation cvs: db_table conversations conversations_update cv_id
  by unfold_locales (auto simp: comp_def)

end
