(* ===== verification/Routing.thy ===== *)
theory Routing
  imports Schema "HOL-Library.Sublist"
begin

text \<open>
  Routing of events to destinations (apps/worker/src/routing/routing.service.ts): field
  selection by dot paths, templates, matching a rule against an event, and the creation of
  one pending delivery per enabled destination of every matching rule.

  Objects are mutable and shared in the source: \<open>setPath\<close> writes into \<open>out\<close>, and where an
  earlier selector has put an object of the source into \<open>out\<close>, into that object. The model
  keeps the set of paths at which \<open>out\<close> holds an object of the source and returns the
  source as the writes leave it.
\<close>

section \<open>Dot paths\<close>

fun get_parts :: "json option \<Rightarrow> ustring list \<Rightarrow> json option" where
  "get_parts cur [] = cur"
| "get_parts cur (p # ps) =
     (case cur of None \<Rightarrow> None
      | Some v \<Rightarrow> if is_object v then get_parts (own v p) ps else None)"

definition path_parts :: "ustring \<Rightarrow> ustring list" where
  "path_parts path = split_on 46 path"

definition getPath :: "json \<Rightarrow> ustring \<Rightarrow> json option" where
  "getPath source path = get_parts (Some source) (path_parts path)"

fun set_parts :: "fields \<Rightarrow> ustring list \<Rightarrow> json \<Rightarrow> fields" where
  "set_parts obj [] v = obj"
| "set_parts obj [k] v = obj_set k v obj"
| "set_parts obj (k # k' # ks) v =
     obj_set k (JObj (set_parts (fields_of (map_of obj k)) (k' # ks) v)) obj"

definition setPath :: "fields \<Rightarrow> ustring \<Rightarrow> json \<Rightarrow> fields" where
  "setPath target path value = set_parts target (path_parts path) value"

fun is_plain :: "json \<Rightarrow> bool" where
  "is_plain (JObj _) = True"
| "is_plain _ = False"

section \<open>Field selection\<close>

record projection =
  pj_source :: fields
  pj_out :: fields
  pj_shared :: "ustring list list"

definition shared_at :: "ustring list list \<Rightarrow> ustring list \<Rightarrow> bool" where
  "shared_at A ps \<longleftrightarrow> (\<exists>q\<in>set A. strict_prefix q ps)"

definition project_step :: "projection \<Rightarrow> ustring \<Rightarrow> projection" where
  "project_step s path =
     (let ps = path_parts path in
      case get_parts (Some (JObj (pj_source s))) ps of
        None \<Rightarrow> s
      | Some v \<Rightarrow>
          \<lparr>pj_source = (if shared_at (pj_shared s) ps then set_parts (pj_source s) ps v else pj_source s),
           pj_out = set_parts (pj_out s) ps v,
           pj_shared = (if shared_at (pj_shared s) ps then pj_shared s
                        else (if is_plain v then [ps] else []) @
                          filter (\<lambda>q. \<not> prefix ps q) (pj_shared s))\<rparr>)"

definition projectFields :: "fields \<Rightarrow> ustring list \<Rightarrow> projection" where
  "projectFields source paths =
     foldl project_step \<lparr>pj_source = source, pj_out = [], pj_shared = []\<rparr> paths"

definition toStringArray :: "json \<Rightarrow> ustring list" where
  "toStringArray value =
     (case value of
        JArr xs \<Rightarrow> List.map_filter (\<lambda>v. case v of JStr s \<Rightarrow> if s \<noteq> [] then Some s else None | _ \<Rightarrow> None) xs
      | _ \<Rightarrow> [])"

lemma toStringArray_simps [simp]:
  "toStringArray (JArr []) = []"
  "toStringArray (JArr (JStr s # xs)) = (if s = [] then toStringArray (JArr xs) else s # toStringArray (JArr xs))"
  by (simp_all add: toStringArray_def map_filter_simps)

section \<open>Templates\<close>

text \<open>A placeholder at the head of a string: two braces, a body without braces, two braces.\<close>

definition no_brace :: "nat \<Rightarrow> bool" where
  "no_brace c \<longleftrightarrow> c \<noteq> 123 \<and> c \<noteq> 125"

definition match_placeholder :: "ustring \<Rightarrow> (ustring \<times> ustring) option" where
  "match_placeholder s =
     (if starts_with (lit ''{{'') s
      then let body = takeWhile no_brace (drop 2 s); rest = dropWhile no_brace (drop 2 s)
           in if body \<noteq> [] \<and> starts_with (lit ''}}'') rest then Some (body, drop 2 rest) else None
      else None)"

lemma match_placeholder_shorter:
  "match_placeholder s = Some (body, rest) \<Longrightarrow> length rest < length s"
proof -
  assume a: "match_placeholder s = Some (body, rest)"
  then have "starts_with (lit ''{{'') s" "rest = drop 2 (dropWhile no_brace (drop 2 s))"
    by (auto simp: match_placeholder_def Let_def split: if_splits)
  then have "2 \<le> length s" "length rest \<le> length s - 2"
    using length_dropWhile_le [of no_brace "drop 2 s"]
    by (auto simp: starts_with_def dest: arg_cong [of _ _ length])
  then show ?thesis by linarith
qed

function replace_placeholders :: "(ustring \<Rightarrow> ustring) \<Rightarrow> ustring \<Rightarrow> ustring" where
  "replace_placeholders f s =
     (case match_placeholder s of
        Some (body, rest) \<Rightarrow> f body @ replace_placeholders f rest
      | None \<Rightarrow> (case s of [] \<Rightarrow> [] | c # cs \<Rightarrow> c # replace_placeholders f cs))"
  by pat_completeness auto
termination
  by (relation "measure (\<lambda>(f, s). length s)") (auto dest: match_placeholder_shorter)

declare replace_placeholders.simps [simp del]

definition placeholder_text :: "(rat \<Rightarrow> ustring) \<Rightarrow> json \<Rightarrow> ustring \<Rightarrow> ustring" where
  "placeholder_text fmt envelope path =
     (case getPath envelope (js_trim path) of
        None \<Rightarrow> [] | Some JNull \<Rightarrow> [] | Some (JStr s) \<Rightarrow> s | Some v \<Rightarrow> stringify fmt v)"

primrec renderTemplate :: "(rat \<Rightarrow> ustring) \<Rightarrow> json \<Rightarrow> json \<Rightarrow> json" where
  "renderTemplate fmt env JNull = JNull"
| "renderTemplate fmt env (JBool b) = JBool b"
| "renderTemplate fmt env (JNum r) = JNum r"
| "renderTemplate fmt env (JStr s) =
     (case match_placeholder s of
        Some (body, []) \<Rightarrow>
          (case getPath env (js_trim body) of None \<Rightarrow> JNull | Some v \<Rightarrow> v)
      | _ \<Rightarrow> JStr (replace_placeholders (placeholder_text fmt env) s))"
| "renderTemplate fmt env (JArr xs) = JArr (map (renderTemplate fmt env) xs)"
| "renderTemplate fmt env (JObj kvs) = JObj (map (map_prod id (renderTemplate fmt env)) kvs)"

section \<open>Matching rules\<close>

fun nullish_obj :: "json \<Rightarrow> json" where
  "nullish_obj JNull = JObj []"
| "nullish_obj v = v"

definition filter_actual :: "event_row \<Rightarrow> json \<Rightarrow> ustring \<Rightarrow> json option option" where
  "filter_actual event envelope key =
     (if key = lit ''channelType'' then Some (Some (opt_str (map_option channel_name (ev_channelType event))))
      else if key = lit ''accountId'' then Some (Some (opt_str (ev_accountId event)))
      else if key = lit ''endpointId'' then Some (Some (opt_str (ev_endpointId event)))
      else if key = lit ''direction'' then Some (getPath envelope (lit ''data.message.direction''))
      else None)"

fun filters_match :: "event_row \<Rightarrow> json \<Rightarrow> fields \<Rightarrow> bool" where
  "filters_match event envelope [] = True"
| "filters_match event envelope ((key, expected) # fs) =
     (case filter_actual event envelope key of
        None \<Rightarrow> False
      | Some actual \<Rightarrow> if strict_eq actual expected then filters_match event envelope fs else False)"

definition ruleMatches :: "rule_row \<Rightarrow> event_row \<Rightarrow> json \<Rightarrow> bool" where
  "ruleMatches rule event envelope =
     (if ev_eventType event \<notin> set (toStringArray (ru_eventTypes rule)) then False
      else filters_match event envelope (object_entries (nullish_obj (ru_filters rule))))"

section \<open>Dispatching an event\<close>

definition rule_destinations :: "db \<Rightarrow> rule_row \<Rightarrow> destination_row list" where
  "rule_destinations d rule =
     List.map_filter (\<lambda>(r, de). if r = ru_id rule then find (\<lambda>x. de_id x = de) (destinations d) else None)
       (rule_links d)"

text \<open>
  The envelope and the payload of the rule are objects that later projections may write to,
  so they are threaded through the loops. \<open>shared\<close> says whether a write at a path of the
  rule payload also reaches the envelope.
\<close>

definition apply_writes :: "(ustring list \<Rightarrow> bool) \<Rightarrow> fields \<Rightarrow> ustring list \<Rightarrow> fields \<Rightarrow> fields" where
  "apply_writes shared src paths target =
     snd (foldl (\<lambda>(s, t) path.
            let s' = project_step s path; ps = path_parts path in
            (s', if shared_at (pj_shared s) ps \<and> shared ps
                 then (case get_parts (Some (JObj (pj_source s))) ps of
                         Some v \<Rightarrow> set_parts t ps v | None \<Rightarrow> t)
                 else t))
          (\<lparr>pj_source = src, pj_out = [], pj_shared = []\<rparr>, target) paths)"

definition new_delivery :: "event_row \<Rightarrow> destination_row \<Rightarrow> json \<Rightarrow> ustring \<Rightarrow> delivery_row" where
  "new_delivery event dest body did =
     \<lparr>dl_id = did, dl_eventId = ev_id event, dl_destinationId = de_id dest,
      dl_status = d_pending, dl_attemptCount = 0, dl_maxAttempts = 5,
      dl_nextAttemptAt = None, dl_lastResponseCode = None, dl_lastError = None,
      dl_request = Some body, dl_response = None, dl_durationMs = None\<rparr>"

definition create_delivery :: "event_row \<Rightarrow> destination_row \<Rightarrow> json \<Rightarrow> db \<Rightarrow> db" where
  "create_delivery event dest body d =
     (let (did, d') = fresh_id d in
      d'\<lparr>deliveries := deliveries d' @ [new_delivery event dest body did],
         webhook_jobs := webhook_jobs d' @
           [\<lparr>wj_deliveryId = did, wj_jobId = did, wj_delay = 0\<rparr>]\<rparr>)"

definition dest_body :: "(rat \<Rightarrow> ustring) \<Rightarrow> destination_row \<Rightarrow> fields \<Rightarrow> json" where
  "dest_body fmt dest rulePayload =
     (let sel = toStringArray (de_fieldSelector dest);
          destPayload = (if sel \<noteq> [] then pj_out (projectFields rulePayload sel) else rulePayload)
      in case de_template dest of
           Some t \<Rightarrow> if t = JNull then JObj destPayload else renderTemplate fmt t (JObj destPayload)
         | None \<Rightarrow> JObj destPayload)"

fun dispatch_dests ::
  "(rat \<Rightarrow> ustring) \<Rightarrow> event_row \<Rightarrow> (ustring list \<Rightarrow> bool) \<Rightarrow> destination_row list \<Rightarrow> fields \<Rightarrow> fields \<Rightarrow> db
   \<Rightarrow> fields \<times> db" where
  "dispatch_dests fmt event shared [] rulePayload envelope d = (envelope, d)"
| "dispatch_dests fmt event shared (dest # dests) rulePayload envelope d =
     (if \<not> de_enabled dest then dispatch_dests fmt event shared dests rulePayload envelope d
      else let sel = toStringArray (de_fieldSelector dest);
               rulePayload' = (if sel \<noteq> [] then pj_source (projectFields rulePayload sel) else rulePayload);
               envelope' = (if sel \<noteq> [] then apply_writes shared rulePayload sel envelope else envelope)
           in dispatch_dests fmt event shared dests rulePayload' envelope'
                (create_delivery event dest (dest_body fmt dest rulePayload) d))"

fun dispatch_rules ::
  "(rat \<Rightarrow> ustring) \<Rightarrow> event_row \<Rightarrow> rule_row list \<Rightarrow> fields \<Rightarrow> db \<Rightarrow> db" where
  "dispatch_rules fmt event [] envelope d = d"
| "dispatch_rules fmt event (rule # rs) envelope d =
     (if \<not> ruleMatches rule event (JObj envelope) then dispatch_rules fmt event rs envelope d
      else let sel = toStringArray (ru_fieldSelector rule);
               pj = projectFields envelope sel;
               rulePayload = (if sel \<noteq> [] then pj_out pj else envelope);
               envelope1 = (if sel \<noteq> [] then pj_source pj else envelope);
               shared = (if sel \<noteq> [] then shared_at (pj_shared pj) else (\<lambda>ps. True));
               (envelope2, d') =
                 dispatch_dests fmt event shared (rule_destinations d rule) rulePayload envelope1 d
           in dispatch_rules fmt event rs envelope2 d')"

definition matchAndDispatch :: "(rat \<Rightarrow> ustring) \<Rightarrow> event_row \<Rightarrow> db \<Rightarrow> db" where
  "matchAndDispatch fmt event d =
     dispatch_rules fmt event (sort_key ru_priority (filter ru_enabled (rules d)))
       (fields_of (Some (nullish_obj (ev_payload event)))) d"

section \<open>Selection discloses only what was selected\<close>

lemma get_parts_None [simp]: "get_parts None ps = None"
  by (cases ps) auto

lemma get_parts_append: "get_parts v (ps @ qs) = get_parts (get_parts v ps) qs"
  by (induction v ps rule: get_parts.induct) (auto split: option.splits)

lemma get_parts_fields:
  "get_parts (map_of obj k) qs = Some w \<Longrightarrow> get_parts (Some (JObj obj)) (k # qs) = Some w"
  by simp

text \<open>A leaf seen after a write was written by it, or was there before.\<close>

lemma get_set_leaf:
  assumes "get_parts (Some (JObj (set_parts obj ps v))) qs = Some w" and "\<not> is_object w"
  shows "(\<exists>rs. qs = ps @ rs \<and> get_parts (Some v) rs = Some w) \<or> get_parts (Some (JObj obj)) qs = Some w"
  using assms
proof (induction obj ps v arbitrary: qs rule: set_parts.induct)
  case (1 obj v)
  then show ?case by auto
next
  case (2 obj k v)
  then show ?case by (cases qs) (auto split: if_splits)
next
  case (3 obj k k' ks v)
  let ?in = "fields_of (map_of obj k)"
  show ?case
  proof (cases qs)
    case Nil
    with 3 show ?thesis by auto
  next
    case (Cons q qs')
    show ?thesis
    proof (cases "q = k")
      case False
      with 3 Cons show ?thesis by auto
    next
      case True
      with 3 Cons have "get_parts (Some (JObj (set_parts ?in (k' # ks) v))) qs' = Some w" by simp
      from "3.IH" [OF this "3.prems"(2)] consider
        rs where "qs' = (k' # ks) @ rs" "get_parts (Some v) rs = Some w"
        | "get_parts (Some (JObj ?in)) qs' = Some w" by blast
      then show ?thesis
      proof cases
        case 1
        with Cons True show ?thesis by auto
      next
        case 2
        then obtain o' where "map_of obj k = Some (JObj o')"
          using "3.prems"(2) by (cases "map_of obj k" rule: fields_of.cases; cases qs') auto
        with 2 Cons True show ?thesis by simp
      qed
    qed
  qed
qed

text \<open>The invariant of the loop: what is visible in \<open>out\<close> or in the written-to source is in the
  original source, and in \<open>out\<close> only below a selected path.\<close>

definition leaves_from :: "fields \<Rightarrow> fields \<Rightarrow> bool" where
  "leaves_from src obj \<longleftrightarrow> (\<forall>qs w. get_parts (Some (JObj obj)) qs = Some w \<longrightarrow> \<not> is_object w \<longrightarrow>
     get_parts (Some (JObj src)) qs = Some w)"

definition leaves_below :: "ustring list \<Rightarrow> fields \<Rightarrow> bool" where
  "leaves_below paths obj \<longleftrightarrow> (\<forall>qs w. get_parts (Some (JObj obj)) qs = Some w \<longrightarrow> \<not> is_object w \<longrightarrow>
     (\<exists>p\<in>set paths. prefix (path_parts p) qs))"

lemma leaves_from_set:
  assumes "leaves_from src obj" and "leaves_from src cur"
    and "get_parts (Some (JObj cur)) ps = Some v"
  shows "leaves_from src (set_parts obj ps v)"
  unfolding leaves_from_def
proof (intro allI impI)
  fix qs w
  assume g: "get_parts (Some (JObj (set_parts obj ps v))) qs = Some w" and leaf: "\<not> is_object w"
  from get_set_leaf [OF g leaf] show "get_parts (Some (JObj src)) qs = Some w"
  proof
    assume "\<exists>rs. qs = ps @ rs \<and> get_parts (Some v) rs = Some w"
    then have "get_parts (Some (JObj cur)) qs = Some w" using assms(3) by (auto simp: get_parts_append)
    with assms(2) leaf show ?thesis by (auto simp: leaves_from_def)
  next
    assume "get_parts (Some (JObj obj)) qs = Some w"
    with assms(1) leaf show ?thesis by (auto simp: leaves_from_def)
  qed
qed

lemma leaves_below_set:
  assumes "leaves_below paths obj"
  shows "leaves_below (p # paths) (set_parts obj (path_parts p) v)"
  using assms get_set_leaf unfolding leaves_below_def by fastforce

definition project_inv :: "fields \<Rightarrow> ustring list \<Rightarrow> projection \<Rightarrow> bool" where
  "project_inv src paths s \<longleftrightarrow>
     leaves_from src (pj_source s) \<and> leaves_from src (pj_out s) \<and> leaves_below paths (pj_out s)"

lemma leaves_below_mono: "leaves_below ps obj \<Longrightarrow> set ps \<subseteq> set qs \<Longrightarrow> leaves_below qs obj"
  unfolding leaves_below_def by blast

lemma project_step_inv:
  assumes "project_inv src paths s" shows "project_inv src (p # paths) (project_step s p)"
proof (cases "get_parts (Some (JObj (pj_source s))) (path_parts p)")
  case None
  with assms show ?thesis
    by (auto simp: project_step_def project_inv_def intro: leaves_below_mono)
next
  case (Some v)
  with assms show ?thesis
    by (auto simp: project_step_def project_inv_def Let_def intro: leaves_from_set leaves_below_set)
qed

lemma project_fold_inv:
  "project_inv src done s \<Longrightarrow> project_inv src (rev paths @ done) (foldl project_step s paths)"
proof (induction paths arbitrary: s "done")
  case (Cons p paths)
  from Cons.IH [OF project_step_inv [OF Cons.prems, of p]] show ?case by simp
qed simp

lemma projectFields_inv: "project_inv src (rev paths) (projectFields src paths)"
proof -
  have "get_parts (Some (JObj [])) qs = Some w \<Longrightarrow> is_object w" for qs w by (cases qs) auto
  then have "project_inv src [] \<lparr>pj_source = src, pj_out = [], pj_shared = []\<rparr>"
    by (auto simp: project_inv_def leaves_from_def leaves_below_def)
  from project_fold_inv [OF this] show ?thesis by (simp add: projectFields_def)
qed

text \<open>
  C8. Field selection discloses only what was selected: every leaf value of the projected
  payload stands at a path at or below a selected one, and is the value the source has at
  that path.
\<close>

theorem projectFields_least_disclosure:
  assumes "get_parts (Some (JObj (pj_out (projectFields src paths)))) qs = Some w"
    and "\<not> is_object w"
  shows "get_parts (Some (JObj src)) qs = Some w \<and> (\<exists>p\<in>set paths. prefix (path_parts p) qs)"
  using projectFields_inv [of src paths] assms
  by (auto simp: project_inv_def leaves_from_def leaves_below_def)

definition sample_envelope :: fields where
  "sample_envelope = [(lit ''id'', JStr (lit ''evt'')),
     (lit ''data'', JObj [(lit ''arr'', JArr [JNum 7, JNum 8]), (lit ''x'', JBool True)])]"

theorem projectFields_least_disclosure_witness:
  "get_parts (Some (JObj sample_envelope)) [lit ''id''] = Some (JStr (lit ''evt''))
   \<and> (\<exists>p\<in>set [lit ''id'']. prefix (path_parts p) [lit ''id''])"
proof -
  have "get_parts (Some (JObj (pj_out (projectFields sample_envelope [lit ''id''])))) [lit ''id'']
      = Some (JStr (lit ''evt''))"
    by (simp add: projectFields_def project_step_def path_parts_def sample_envelope_def
        string_simps shared_at_def)
  from projectFields_least_disclosure [OF this] show ?thesis by simp
qed

text \<open>
  The projection writes through shared objects: selecting a field and then two elements
  of an array inside it turns the array of the source event into an object, and the
  element selected last is lost from the projection.
\<close>

theorem projectFields_corrupts_shared_array:
  "let pj = projectFields sample_envelope [lit ''data'', lit ''data.arr.1'', lit ''data.arr.0''] in
   pj_source pj \<noteq> sample_envelope
   \<and> getPath (JObj sample_envelope) (lit ''data.arr.0'') = Some (JNum 7)
   \<and> getPath (JObj (pj_out pj)) (lit ''data.arr.0'') = None"
  by (simp add: projectFields_def project_step_def path_parts_def sample_envelope_def getPath_def
      string_simps shared_at_def array_index_def is_digit_def)

section \<open>Templates\<close>

lemma match_placeholder_no_brace: "123 \<notin> set s \<Longrightarrow> match_placeholder s = None"
  by (auto simp: match_placeholder_def starts_with_def string_simps dest: in_set_takeD
      split: if_splits) (metis in_set_takeD list.set_intros(1))

lemma replace_no_brace: "123 \<notin> set s \<Longrightarrow> replace_placeholders f s = s"
proof (induction s)
  case Nil
  then show ?case
    by (subst replace_placeholders.simps) (simp add: match_placeholder_no_brace)
next
  case (Cons c s)
  then show ?case
    by (subst replace_placeholders.simps) (simp add: match_placeholder_no_brace)
qed

lemma match_placeholder_here:
  assumes "body \<noteq> []" and "\<forall>c\<in>set body. no_brace c"
  shows "match_placeholder (lit ''{{'' @ body @ lit ''}}'' @ post) = Some (body, post)"
proof -
  have "takeWhile no_brace (body @ 125 # 125 # post) = body"
    "dropWhile no_brace (body @ 125 # 125 # post) = 125 # 125 # post"
    using assms(2) by (auto simp: no_brace_def)
  with assms(1) show ?thesis
    by (simp add: match_placeholder_def starts_with_def string_simps)
qed

lemma replace_skip:
  "123 \<notin> set pre \<Longrightarrow> replace_placeholders f (pre @ s) = pre @ replace_placeholders f s"
proof (induction pre)
  case (Cons c pre)
  then have "match_placeholder (c # pre @ s) = None"
    by (auto simp: match_placeholder_def starts_with_def string_simps)
  with Cons show ?case
    by (subst replace_placeholders.simps) simp
qed simp

text \<open>
  Template rendering replaces placeholders once, from left to right: the text before a
  placeholder is kept, the placeholder becomes its value, and scanning goes on after the
  placeholder, so a value that itself contains braces is never expanded.
\<close>

theorem renderTemplate_single_pass:
  assumes "123 \<notin> set pre" and "body \<noteq> []" and "\<forall>c\<in>set body. no_brace c" and "pre \<noteq> []"
  shows "renderTemplate fmt env (JStr (pre @ lit ''{{'' @ body @ lit ''}}'' @ post)) =
    JStr (pre @ placeholder_text fmt env body @ replace_placeholders (placeholder_text fmt env) post)"
proof -
  obtain c cs where pre: "pre = c # cs" using assms(4) by (cases pre) auto
  then have "match_placeholder (pre @ lit ''{{'' @ body @ lit ''}}'' @ post) = None"
    using assms(1) by (auto simp: match_placeholder_def starts_with_def string_simps)
  moreover have "replace_placeholders f (lit ''{{'' @ body @ lit ''}}'' @ post)
      = f body @ replace_placeholders f post" for f
    by (subst replace_placeholders.simps) (simp add: match_placeholder_here assms(2,3))
  ultimately show ?thesis by (simp add: replace_skip [OF assms(1)])
qed

theorem renderTemplate_single_pass_witness:
  "renderTemplate (\<lambda>r. []) (JObj [(lit ''a'', JStr (lit ''{{b}}''))])
     (JStr (lit ''x'' @ lit ''{{'' @ lit ''a'' @ lit ''}}'' @ [])) = JStr (lit ''x{{b}}'')"
proof -
  have "placeholder_text (\<lambda>r. []) (JObj [(lit ''a'', JStr (lit ''{{b}}''))]) (lit ''a'') = lit ''{{b}}''"
    by (simp add: placeholder_text_def getPath_def path_parts_def js_trim_def js_space_def string_simps)
  moreover have "replace_placeholders f [] = []" for f by (rule replace_no_brace) simp
  moreover have "123 \<notin> set (lit ''x'')" "\<forall>c\<in>set (lit ''a''). no_brace c"
    by (simp_all add: string_simps no_brace_def)
  ultimately show ?thesis
    using renderTemplate_single_pass [of "lit ''x''" "lit ''a''" "\<lambda>r. []"
        "JObj [(lit ''a'', JStr (lit ''{{b}}''))]" "[]"]
    by (simp add: string_simps)
qed

section \<open>Dispatching creates pending deliveries\<close>

text \<open>What dispatching may do to the state: append pending deliveries of the event for
  enabled destinations, and one job per delivery, under the delivery's own identifier.\<close>

definition pending_for :: "event_row \<Rightarrow> delivery_row \<Rightarrow> bool" where
  "pending_for event r \<longleftrightarrow> dl_eventId r = ev_id event \<and> dl_status r = d_pending
     \<and> dl_attemptCount r = 0 \<and> dl_maxAttempts r = 5 \<and> dl_request r \<noteq> None"

definition delivery_job :: "delivery_row \<Rightarrow> webhook_job" where
  "delivery_job r = \<lparr>wj_deliveryId = dl_id r, wj_jobId = dl_id r, wj_delay = 0\<rparr>"

definition dispatched :: "event_row \<Rightarrow> db \<Rightarrow> db \<Rightarrow> delivery_row list \<Rightarrow> bool" where
  "dispatched event d d' new \<longleftrightarrow>
     d' = d\<lparr>deliveries := deliveries d @ new, webhook_jobs := webhook_jobs d @ map delivery_job new,
            uuid_next := uuid_next d + length new\<rparr>
     \<and> list_all (pending_for event) new"

lemma dispatched_refl: "dispatched event d d []"
  by (simp add: dispatched_def)

lemma dispatched_trans:
  "dispatched event d d' new \<Longrightarrow> dispatched event d' d'' new' \<Longrightarrow> dispatched event d d'' (new @ new')"
  by (auto simp: dispatched_def)

lemma dispatched_create:
  "\<exists>r. dispatched event d (create_delivery event dest body d) [r] \<and> dl_destinationId r = de_id dest"
  by (rule exI [of _ "new_delivery event dest body (uuid_source d (uuid_next d))"])
    (simp add: create_delivery_def new_delivery_def dispatched_def fresh_id_def delivery_job_def
      pending_for_def)

lemma dispatch_dests_dispatched:
  "\<exists>new. dispatched event d (snd (dispatch_dests fmt event sh dests rp env d)) new
     \<and> map dl_destinationId new = map de_id (filter de_enabled dests)"
proof (induction dests arbitrary: rp env d)
  case Nil
  show ?case using dispatched_refl by auto
next
  case (Cons dest dests)
  show ?case
  proof (cases "de_enabled dest")
    case False
    with Cons.IH [of d rp env] show ?thesis by simp
  next
    case True
    let ?d1 = "create_delivery event dest (dest_body fmt dest rp) d"
    obtain r where r: "dispatched event d ?d1 [r]" "dl_destinationId r = de_id dest"
      using dispatched_create by blast
    let ?step = "dispatch_dests fmt event sh (dest # dests) rp env d"
    obtain rp' env' where step: "?step = dispatch_dests fmt event sh dests rp' env' ?d1"
      using True by (simp add: Let_def)
    obtain new where new: "dispatched event ?d1 (snd ?step) new"
      "map dl_destinationId new = map de_id (filter de_enabled dests)"
      using Cons.IH [of ?d1 rp' env'] step by auto
    from dispatched_trans [OF r(1) new(1)] r(2) new(2) True show ?thesis
      by (intro exI [of _ "r # new"]) simp
  qed
qed

lemma dispatched_tables:
  assumes "dispatched event d d' new" shows "rule_destinations d' r = rule_destinations d r"
proof -
  from assms have "destinations d' = destinations d" "rule_links d' = rule_links d"
    by (auto simp: dispatched_def)
  then show ?thesis unfolding rule_destinations_def by metis
qed

text \<open>The destinations the rules of a list send the event to, when the envelope stays as it is.\<close>

definition routed_to :: "db \<Rightarrow> event_row \<Rightarrow> json \<Rightarrow> rule_row list \<Rightarrow> ustring list" where
  "routed_to d event envelope rs =
     concat (map (\<lambda>r. map de_id (filter de_enabled (rule_destinations d r)))
       (filter (\<lambda>r. ruleMatches r event envelope) rs))"

definition no_selectors :: "db \<Rightarrow> bool" where
  "no_selectors d \<longleftrightarrow> list_all (\<lambda>r. toStringArray (ru_fieldSelector r) = []) (rules d)
     \<and> list_all (\<lambda>x. toStringArray (de_fieldSelector x) = []) (destinations d)"

lemma dispatch_dests_envelope:
  "list_all (\<lambda>x. toStringArray (de_fieldSelector x) = []) dests \<Longrightarrow>
   fst (dispatch_dests fmt event sh dests rp env d) = env"
  by (induction fmt event sh dests rp env d rule: dispatch_dests.induct) (auto simp: Let_def)

lemma rule_destinations_subset: "set (rule_destinations d r) \<subseteq> set (destinations d)"
  by (auto simp: rule_destinations_def List.map_filter_def dest: find_SomeD split: if_splits)

lemma dispatch_rules_dispatched:
  "\<exists>new. dispatched event d (dispatch_rules fmt event rs env d) new"
proof (induction rs arbitrary: env d)
  case Nil
  show ?case using dispatched_refl by auto
next
  case (Cons rule rs)
  show ?case
  proof (cases "ruleMatches rule event (JObj env)")
    case False
    with Cons.IH show ?thesis by simp
  next
    case True
    then obtain sh rp env1 where step: "dispatch_rules fmt event (rule # rs) env d =
        (let (env2, d') = dispatch_dests fmt event sh (rule_destinations d rule) rp env1 d
         in dispatch_rules fmt event rs env2 d')" by (simp add: Let_def)
    obtain env2 d' where dd: "dispatch_dests fmt event sh (rule_destinations d rule) rp env1 d = (env2, d')"
      by fastforce
    obtain new where "dispatched event d d' new"
      using dispatch_dests_dispatched [of event d fmt sh "rule_destinations d rule" rp env1] dd by auto
    moreover obtain new' where "dispatched event d' (dispatch_rules fmt event rs env2 d') new'"
      using Cons.IH by blast
    ultimately show ?thesis using dispatched_trans step dd by fastforce
  qed
qed

lemma dispatch_rules_exact:
  assumes "list_all (\<lambda>r. toStringArray (ru_fieldSelector r) = []) rs"
    and "list_all (\<lambda>x. toStringArray (de_fieldSelector x) = []) (destinations d)"
  shows "\<exists>new. dispatched event d (dispatch_rules fmt event rs env d) new
    \<and> map dl_destinationId new = routed_to d event (JObj env) rs"
  using assms
proof (induction rs arbitrary: d)
  case Nil
  show ?case using dispatched_refl by (auto simp: routed_to_def)
next
  case (Cons rule rs)
  show ?case
  proof (cases "ruleMatches rule event (JObj env)")
    case False
    with Cons show ?thesis by (auto simp: routed_to_def)
  next
    case True
    let ?dd = "dispatch_dests fmt event (\<lambda>ps. True) (rule_destinations d rule) env env d"
    have "list_all (\<lambda>x. toStringArray (de_fieldSelector x) = []) (rule_destinations d rule)"
      using Cons.prems(2) rule_destinations_subset by (fastforce simp: list_all_iff)
    then have "fst ?dd = env" by (rule dispatch_dests_envelope)
    then have step: "dispatch_rules fmt event (rule # rs) env d = dispatch_rules fmt event rs env (snd ?dd)"
      using True Cons.prems(1) by (simp add: Let_def case_prod_beta)
    obtain new where new: "dispatched event d (snd ?dd) new"
      "map dl_destinationId new = map de_id (filter de_enabled (rule_destinations d rule))"
      using dispatch_dests_dispatched by blast
    then have "destinations (snd ?dd) = destinations d" by (simp add: dispatched_def)
    then obtain new' where "dispatched event (snd ?dd) (dispatch_rules fmt event rs env (snd ?dd)) new'"
      "map dl_destinationId new' = routed_to (snd ?dd) event (JObj env) rs"
      using Cons.IH [of "snd ?dd"] Cons.prems by auto
    moreover have "routed_to (snd ?dd) event (JObj env) rs = routed_to d event (JObj env) rs"
      using dispatched_tables [OF new(1)] by (simp add: routed_to_def)
    ultimately show ?thesis
      using dispatched_trans [OF new(1)] new(2) step True
      by (intro exI [of _ "new @ new'"]) (auto simp: routed_to_def)
  qed
qed

text \<open>
  Dispatching an event changes nothing but the deliveries and the webhook queue: it
  appends pending deliveries of that event, each with the default retry budget and exactly
  one job under the delivery's own identifier, in the same order.
\<close>

theorem matchAndDispatch_appends_pending:
  "\<exists>new. matchAndDispatch fmt event d =
       d\<lparr>deliveries := deliveries d @ new, webhook_jobs := webhook_jobs d @ map delivery_job new,
         uuid_next := uuid_next d + length new\<rparr>
     \<and> list_all (pending_for event) new"
  using dispatch_rules_dispatched unfolding matchAndDispatch_def dispatched_def by blast


definition route_db :: db where
  "route_db = (empty_db tick_ids)
     \<lparr>rules := [\<lparr>ru_id = lit ''r'', ru_name = lit ''n'', ru_enabled = True, ru_priority = 100,
        ru_eventTypes = JArr [JStr (lit ''message.sent'')],
        ru_filters = JObj [(lit ''channelType'', JStr (lit ''sms''))], ru_fieldSelector = JArr []\<rparr>],
      rule_links := [(lit ''r'', lit ''d'')],
      destinations := [\<lparr>de_id = lit ''d'', de_name = lit ''crm'', de_type = webhook, de_enabled = True,
        de_url = Some (lit ''https://crm''), de_secretEnc = None, de_config = JObj [],
        de_fieldSelector = JArr [], de_template = None, de_timeoutMs = 10000\<rparr>]\<rparr>"

definition route_event :: event_row where
  "route_event = \<lparr>ev_id = lit ''e'', ev_dedupKey = None, ev_eventType = lit ''message.sent'',
     ev_aggregateId = None, ev_channelType = Some sms, ev_accountId = None, ev_endpointId = None,
     ev_payload = JObj [], ev_createdAt = 0\<rparr>"


end
