(* ===== verification/Events.thy ===== *)
theory Events
  imports Schema
begin

text \<open>
  Canonical events: the worker's emitter, which stores the event and its outbox row in one
  transaction (apps/worker/src/events/events.service.ts), and the API's emitter, which
  stores the event only (apps/api/src/common/event-emitter.service.ts). Both are
  implementations of one interface, the locale \<open>event_sink\<close>: a repeated deduplication key
  adds nothing. How a time is printed is the argument \<open>isof\<close>.
\<close>

record emit_params =
  em_type :: ustring
  em_aggregateId :: "ustring option"
  em_channel :: "channel_type option"
  em_accountId :: "ustring option"
  em_endpointId :: "ustring option"
  em_data :: json
  em_dedupKey :: "ustring option"

fun truthy_str :: "ustring option \<Rightarrow> bool" where
  "truthy_str None = False"
| "truthy_str (Some s) = (s \<noteq> [])"

definition opt_field :: "bool \<Rightarrow> string \<Rightarrow> json \<Rightarrow> fields" where
  "opt_field b k v = (if b then [(lit k, v)] else [])"

section \<open>The worker's emitter\<close>

definition envelope_source :: "emit_params \<Rightarrow> ustring" where
  "envelope_source p =
     (let parts = (case em_channel p of Some c \<Rightarrow> [lit ''channel/'' @ channel_name c] | None \<Rightarrow> [])
         @ (if truthy_str (em_accountId p) then [lit ''account/'' @ the (em_accountId p)] else [])
         @ (if truthy_str (em_endpointId p) then [lit ''endpoint/'' @ the (em_endpointId p)] else [])
      in if parts \<noteq> [] then lit ''umg://'' @ join_with (lit ''/'') parts else lit ''umg://system'')"

definition buildEnvelope :: "(int \<Rightarrow> ustring) \<Rightarrow> int \<Rightarrow> ustring \<Rightarrow> emit_params \<Rightarrow> json" where
  "buildEnvelope isof now uuid p =
     JObj ([(lit ''specversion'', JStr (lit ''1.0'')), (lit ''id'', JStr (lit ''evt_'' @ uuid)),
       (lit ''type'', JStr (em_type p)), (lit ''source'', JStr (envelope_source p)),
       (lit ''time'', JStr (isof now)), (lit ''datacontenttype'', JStr (lit ''application/json'')),
       (lit ''event_version'', JStr (lit ''1.0'')), (lit ''data'', em_data p)]
     @ opt_field (truthy_str (em_aggregateId p) \<and> starts_with (lit ''message.'') (em_type p))
         ''subject'' (JStr (lit ''message/'' @ the (em_aggregateId p)))
     @ opt_field (em_channel p \<noteq> None) ''channel'' (JStr (channel_name (the (em_channel p))))
     @ opt_field (truthy_str (em_accountId p)) ''account_id'' (JStr (the (em_accountId p)))
     @ opt_field (truthy_str (em_endpointId p)) ''endpoint_id'' (JStr (the (em_endpointId p))))"

definition dedup_hit :: "ustring option \<Rightarrow> db \<Rightarrow> event_row option" where
  "dedup_hit k d = (if k = None then None else find (\<lambda>e. ev_dedupKey e = k) (events d))"

definition event_of :: "emit_params \<Rightarrow> ustring \<Rightarrow> json \<Rightarrow> int \<Rightarrow> event_row" where
  "event_of p eid payload now =
     \<lparr>ev_id = eid, ev_dedupKey = em_dedupKey p, ev_eventType = em_type p,
      ev_aggregateId = em_aggregateId p, ev_channelType = em_channel p,
      ev_accountId = em_accountId p, ev_endpointId = em_endpointId p,
      ev_payload = payload, ev_createdAt = now\<rparr>"

text \<open>
  The result is the event and whether it was created; \<open>None\<close> is the exception that is
  rethrown. The unique index on the key makes the insert fail, which rolls the transaction
  back.
\<close>

definition emit :: "(int \<Rightarrow> ustring) \<Rightarrow> int \<Rightarrow> emit_params \<Rightarrow> db \<Rightarrow> (event_row \<times> bool) option \<times> db" where
  "emit isof now p d =
     (let (uuid, d1) = fresh_id d; envelope = buildEnvelope isof now uuid p in
      case dedup_hit (em_dedupKey p) d of
        Some existing \<Rightarrow> (if truthy_str (em_dedupKey p) then Some (existing, False) else None, d1)
      | None \<Rightarrow>
          (let (eid, d2) = fresh_id d1; (oid, d3) = fresh_id d2;
               event = event_of p eid envelope now;
               row = \<lparr>ob_id = oid, ob_eventType = em_type p,
                      ob_aggregateId = (case em_aggregateId p of Some a \<Rightarrow> a | None \<Rightarrow> eid),
                      ob_payload = JObj [(lit ''messageEventId'', JStr eid)],
                      ob_publishedAt = None, ob_createdAt = now\<rparr>
           in (Some (event, True), d3\<lparr>events := events d3 @ [event], outbox := outbox d3 @ [row]\<rparr>)))"

section \<open>The API's emitter\<close>

definition api_source :: "emit_params \<Rightarrow> ustring" where
  "api_source p =
     (case em_channel p of
        Some c \<Rightarrow> lit ''umg://channel/'' @ channel_name c
          @ lit ''/account/'' @ (case em_accountId p of Some a \<Rightarrow> a | None \<Rightarrow> lit ''none'')
          @ lit ''/endpoint/'' @ (case em_endpointId p of Some e \<Rightarrow> e | None \<Rightarrow> lit ''none'')
      | None \<Rightarrow> lit ''umg://system'')"

definition api_envelope :: "(int \<Rightarrow> ustring) \<Rightarrow> int \<Rightarrow> ustring \<Rightarrow> emit_params \<Rightarrow> json" where
  "api_envelope isof now eid p =
     JObj ([(lit ''specversion'', JStr (lit ''1.0'')), (lit ''id'', JStr eid),
       (lit ''type'', JStr (em_type p)), (lit ''source'', JStr (api_source p))]
     @ opt_field (truthy_str (em_aggregateId p)) ''subject''
         (JStr (hd (split_on 46 (em_type p)) @ lit ''/'' @ the (em_aggregateId p)))
     @ [(lit ''time'', JStr (isof now)), (lit ''datacontenttype'', JStr (lit ''application/json''))]
     @ opt_field (em_channel p \<noteq> None) ''channel'' (JStr (channel_name (the (em_channel p))))
     @ [(lit ''account_id'', opt_str (em_accountId p)), (lit ''endpoint_id'', opt_str (em_endpointId p)),
        (lit ''event_version'', JStr (lit ''1.0'')), (lit ''data'', em_data p)])"

text \<open>\<open>upsert\<close> with an empty update: an existing row with the key is left as it is. An empty
  key counts as no key.\<close>

definition api_emit :: "(int \<Rightarrow> ustring) \<Rightarrow> int \<Rightarrow> emit_params \<Rightarrow> db \<Rightarrow> ustring \<times> db" where
  "api_emit isof now p d =
     (let (uuid, d1) = fresh_id d; eid = lit ''evt_'' @ uuid;
          p' = (if truthy_str (em_dedupKey p) then p else p\<lparr>em_dedupKey := None\<rparr>);
          event = event_of p' eid (api_envelope isof now eid p) now
      in case dedup_hit (em_dedupKey p') d of
           Some existing \<Rightarrow> (eid, d1)
         | None \<Rightarrow> (eid, d1\<lparr>events := events d1 @ [event]\<rparr>))"

section \<open>The interface of an event sink\<close>

definition dedup_keys :: "db \<Rightarrow> ustring list" where
  "dedup_keys d = List.map_filter ev_dedupKey (events d)"

definition has_key :: "ustring \<Rightarrow> db \<Rightarrow> bool" where
  "has_key k d \<longleftrightarrow> k \<in> set (dedup_keys d)"

lemma has_key_iff: "has_key k d \<longleftrightarrow> (\<exists>e\<in>set (events d). ev_dedupKey e = Some k)"
  by (force simp: has_key_def dedup_keys_def List.map_filter_def)

locale event_sink =
  fixes put_event :: "emit_params \<Rightarrow> db \<Rightarrow> db"
  assumes duplicate: "em_dedupKey p = Some k \<Longrightarrow> k \<noteq> [] \<Longrightarrow> has_key k d \<Longrightarrow>
      events (put_event p d) = events d \<and> outbox (put_event p d) = outbox d"
    and stored: "em_dedupKey p = Some k \<Longrightarrow> k \<noteq> [] \<Longrightarrow> has_key k (put_event p d)"
    and appended: "\<exists>new. events (put_event p d) = events d @ new"
    and keys_distinct: "distinct (dedup_keys d) \<Longrightarrow> distinct (dedup_keys (put_event p d))"
begin

definition put_all :: "emit_params list \<Rightarrow> db \<Rightarrow> db" where
  "put_all ps d = foldl (\<lambda>d p. put_event p d) d ps"

lemma put_all_Cons [simp]: "put_all (p # ps) d = put_all ps (put_event p d)"
  by (simp add: put_all_def)

lemma put_all_Nil [simp]: "put_all [] d = d"
  by (simp add: put_all_def)

lemma key_kept: "has_key k d \<Longrightarrow> has_key k (put_event p d)"
  using appended [of p d] by (auto simp: has_key_iff)

lemma key_kept_all: "has_key k d \<Longrightarrow> has_key k (put_all ps d)"
  by (induction ps arbitrary: d) (auto intro: key_kept)

lemma put_twice:
  assumes "em_dedupKey p = Some k" "k \<noteq> []"
  shows "events (put_event p (put_all ps (put_event p d))) = events (put_all ps (put_event p d))"
  using duplicate [OF assms] key_kept_all [OF stored [OF assms]] by blast

lemma put_all_distinct: "distinct (dedup_keys d) \<Longrightarrow> distinct (dedup_keys (put_all ps d))"
  by (induction ps arbitrary: d) (auto intro: keys_distinct)

end

lemma dedup_hit_None_iff: "dedup_hit (Some k) d = None \<longleftrightarrow> \<not> has_key k d"
  by (auto simp: dedup_hit_def has_key_iff find_None_iff)

lemma dedup_keys_append:
  "dedup_keys (d\<lparr>events := events d @ [e]\<rparr>) = dedup_keys d @ (case ev_dedupKey e of None \<Rightarrow> [] | Some k \<Rightarrow> [k])"
  by (simp add: dedup_keys_def List.map_filter_def split: option.split)

lemma emit_events:
  "events (snd (emit isof now p d)) =
     (if dedup_hit (em_dedupKey p) d = None
      then events d @ [event_of p (uuid_source d (Suc (uuid_next d)))
             (buildEnvelope isof now (uuid_source d (uuid_next d)) p) now] else events d)"
  by (simp add: emit_def fresh_id_def Let_def split: option.split)

lemma emit_outbox:
  "dedup_hit (em_dedupKey p) d = None \<Longrightarrow>
   outbox (snd (emit isof now p d)) = outbox d @
     [\<lparr>ob_id = uuid_source d (Suc (Suc (uuid_next d))), ob_eventType = em_type p,
       ob_aggregateId = (case em_aggregateId p of Some a \<Rightarrow> a | None \<Rightarrow> uuid_source d (Suc (uuid_next d))),
       ob_payload = JObj [(lit ''messageEventId'', JStr (uuid_source d (Suc (uuid_next d))))],
       ob_publishedAt = None, ob_createdAt = now\<rparr>]"
  by (simp add: emit_def fresh_id_def Let_def event_of_def split: option.split)

lemma emit_outbox_dup: "dedup_hit (em_dedupKey p) d = Some e \<Longrightarrow> outbox (snd (emit isof now p d)) = outbox d"
  by (simp add: emit_def fresh_id_def Let_def)

lemma api_emit_events:
  "events (snd (api_emit isof now p d)) =
     (let p' = (if truthy_str (em_dedupKey p) then p else p\<lparr>em_dedupKey := None\<rparr>);
          eid = lit ''evt_'' @ uuid_source d (uuid_next d)
      in if dedup_hit (em_dedupKey p') d = None
         then events d @ [event_of p' eid (api_envelope isof now eid p) now] else events d)"
  by (simp add: api_emit_def fresh_id_def Let_def split: option.split)

lemma event_of_key [simp]: "ev_dedupKey (event_of p eid pl now) = em_dedupKey p"
  by (simp add: event_of_def)

lemma distinct_dedup_step:
  assumes "distinct (dedup_keys d)"
    and "events d' = (if dedup_hit (ev_dedupKey e) d = None then events d @ [e] else events d)"
  shows "distinct (dedup_keys d')"
proof (cases "dedup_hit (ev_dedupKey e) d = None")
  case False
  with assms show ?thesis by (simp add: dedup_keys_def)
next
  case True
  with assms(2) have "dedup_keys d' = dedup_keys d @ (case ev_dedupKey e of None \<Rightarrow> [] | Some k \<Rightarrow> [k])"
    by (simp add: dedup_keys_def List.map_filter_def split: option.split)
  moreover have "k \<notin> set (dedup_keys d)" if "ev_dedupKey e = Some k" for k
    using True that dedup_hit_None_iff [of k d] by (simp add: has_key_def)
  ultimately show ?thesis using assms(1) by (simp split: option.split)
qed

interpretation worker_sink: event_sink "\<lambda>p d. snd (emit isof now p d)" for isof now
proof
  fix p :: emit_params and k and d :: db
  assume k: "em_dedupKey p = Some k" "k \<noteq> []"
  show "has_key k (snd (emit isof now p d))"
    using k by (cases "has_key k d") (auto simp: has_key_iff emit_events dedup_hit_None_iff)
  assume "has_key k d"
  with k obtain e where "dedup_hit (em_dedupKey p) d = Some e"
    using dedup_hit_None_iff [of k d] by (cases "dedup_hit (Some k) d") auto
  then show "events (snd (emit isof now p d)) = events d \<and> outbox (snd (emit isof now p d)) = outbox d"
    by (simp add: emit_events emit_outbox_dup)
next
  fix p :: emit_params and d :: db
  show "\<exists>new. events (snd (emit isof now p d)) = events d @ new" by (simp add: emit_events)
next
  fix d :: db and p :: emit_params
  assume "distinct (dedup_keys d)"
  then show "distinct (dedup_keys (snd (emit isof now p d)))"
    by (rule distinct_dedup_step [where e = "event_of p (uuid_source d (Suc (uuid_next d)))
          (buildEnvelope isof now (uuid_source d (uuid_next d)) p) now"]) (simp add: emit_events)
qed

lemma api_emit_outbox: "outbox (snd (api_emit isof now p d)) = outbox d"
  by (simp add: api_emit_def fresh_id_def Let_def split: option.split)

interpretation api_sink: event_sink "\<lambda>p d. snd (api_emit isof now p d)" for isof now
proof
  fix p :: emit_params and k and d :: db
  assume k: "em_dedupKey p = Some k" "k \<noteq> []"
  show "has_key k (snd (api_emit isof now p d))"
    using k by (cases "has_key k d") (auto simp: has_key_iff api_emit_events dedup_hit_None_iff Let_def)
  assume "has_key k d"
  with k show "events (snd (api_emit isof now p d)) = events d \<and> outbox (snd (api_emit isof now p d)) = outbox d"
    by (simp add: api_emit_events api_emit_outbox dedup_hit_None_iff Let_def)
next
  fix p :: emit_params and d :: db
  show "\<exists>new. events (snd (api_emit isof now p d)) = events d @ new" by (simp add: api_emit_events Let_def)
next
  fix d :: db and p :: emit_params
  let ?p = "if truthy_str (em_dedupKey p) then p else p\<lparr>em_dedupKey := None\<rparr>"
  let ?i = "lit ''evt_'' @ uuid_source d (uuid_next d)"
  assume "distinct (dedup_keys d)"
  then show "distinct (dedup_keys (snd (api_emit isof now p d)))"
    by (rule distinct_dedup_step [where e = "event_of ?p ?i (api_envelope isof now ?i p) now"])
      (simp add: api_emit_events Let_def)
qed

section \<open>Properties\<close>


definition sample_params :: emit_params where
  "sample_params = \<lparr>em_type = lit ''message.sent'', em_aggregateId = Some (lit ''m''),
     em_channel = Some sms, em_accountId = None, em_endpointId = None, em_data = JNull,
     em_dedupKey = Some (lit ''msg-m-message.sent'')\<rparr>"


text \<open>
  The worker stores an event together with its outbox row: an emit that creates an
  event appends exactly one outbox row, unpublished, that refers to it; an emit that is
  deduplicated or fails appends neither.
\<close>

theorem emit_event_and_outbox:
  "case fst (emit isof now p d) of
     Some (event, True) \<Rightarrow> events (snd (emit isof now p d)) = events d @ [event]
       \<and> (\<exists>row. outbox (snd (emit isof now p d)) = outbox d @ [row] \<and> ob_publishedAt row = None
            \<and> ob_payload row = JObj [(lit ''messageEventId'', JStr (ev_id event))])
   | _ \<Rightarrow> events (snd (emit isof now p d)) = events d \<and> outbox (snd (emit isof now p d)) = outbox d"
  by (auto simp: emit_def fresh_id_def Let_def event_of_def split: option.split)

text \<open>
  The API stores events without an outbox row: whatever it emits, the outbox, the only
  table the worker routes from, is unchanged.
\<close>

theorem api_emit_never_reaches_outbox:
  "outbox (snd (api_emit isof now p d)) = outbox d
   \<and> (dedup_hit (em_dedupKey p) d = None \<longrightarrow>
        (\<exists>e. events (snd (api_emit isof now p d)) = events d @ [e] \<and> ev_eventType e = em_type p))"
  by (auto simp: api_emit_def fresh_id_def Let_def event_of_def dedup_hit_def split: option.split)

theorem api_emit_never_reaches_outbox_witness:
  "\<exists>e. events (snd (api_emit (\<lambda>t. []) 0 sample_params (empty_db tick_ids))) = [e]
     \<and> ev_eventType e = lit ''message.sent''
     \<and> outbox (snd (api_emit (\<lambda>t. []) 0 sample_params (empty_db tick_ids))) = []"
  using api_emit_never_reaches_outbox [of "\<lambda>t. []" 0 sample_params "empty_db tick_ids"]
  by (simp add: sample_params_def dedup_hit_def empty_db_def)

end
