(* ===== verification/Outbox.thy ===== *)
theory Outbox
  imports Routing Events
begin

text \<open>
  The outbox dispatcher (apps/worker/src/schedulers/outbox-dispatcher.scheduler.ts): every
  tick routes the oldest hundred unpublished rows and marks them published.
\<close>

definition outbox_batch :: "db \<Rightarrow> outbox_row list" where
  "outbox_batch d = take 100 (sort_key ob_createdAt (filter (\<lambda>r. ob_publishedAt r = None) (outbox d)))"

text \<open>The event a row refers to, if its payload names one that exists.\<close>

definition outbox_event :: "db \<Rightarrow> outbox_row \<Rightarrow> event_row option" where
  "outbox_event d row =
     (case as_string (own (nullish_obj (ob_payload row)) (lit ''messageEventId'')) of
        None \<Rightarrow> None
      | Some i \<Rightarrow> if i = [] then None else evs.lookup d i)"

definition publish :: "int \<Rightarrow> ustring \<Rightarrow> db \<Rightarrow> db" where
  "publish now i d =
     d\<lparr>outbox := update_where (\<lambda>r. ob_id r = i \<and> ob_publishedAt r = None)
         (\<lambda>r. r\<lparr>ob_publishedAt := Some now\<rparr>) (outbox d)\<rparr>"

definition dispatch_row :: "(rat \<Rightarrow> ustring) \<Rightarrow> int \<Rightarrow> outbox_row \<Rightarrow> db \<Rightarrow> db" where
  "dispatch_row fmt now row d =
     (case outbox_event d row of
        None \<Rightarrow> d
      | Some event \<Rightarrow> publish now (ob_id row) (matchAndDispatch fmt event d))"

definition dispatchOutbox :: "(rat \<Rightarrow> ustring) \<Rightarrow> int \<Rightarrow> db \<Rightarrow> db" where
  "dispatchOutbox fmt now d = fold (dispatch_row fmt now) (outbox_batch d) d"

section \<open>What a tick does to the outbox\<close>

lemma matchAndDispatch_frame:
  "events (matchAndDispatch fmt e d) = events d" "outbox (matchAndDispatch fmt e d) = outbox d"
  "\<exists>new. deliveries (matchAndDispatch fmt e d) = deliveries d @ new \<and> list_all (pending_for e) new"
proof -
  obtain new where "dispatched e d (matchAndDispatch fmt e d) new"
    using dispatch_rules_dispatched unfolding matchAndDispatch_def by blast
  then show "events (matchAndDispatch fmt e d) = events d" "outbox (matchAndDispatch fmt e d) = outbox d"
    "\<exists>new. deliveries (matchAndDispatch fmt e d) = deliveries d @ new \<and> list_all (pending_for e) new"
    by (auto simp: dispatched_def)
qed

lemma publish_frame:
  "events (publish now i d) = events d" "deliveries (publish now i d) = deliveries d"
  by (simp_all add: publish_def)

lemma dispatch_row_events: "events (dispatch_row fmt now row d) = events d"
  by (simp add: dispatch_row_def publish_frame matchAndDispatch_frame split: option.split)

lemma outbox_event_cong: "events d' = events d \<Longrightarrow> outbox_event d' row = outbox_event d row"
  by (auto simp: outbox_event_def evs.lookup_def split: option.split)

lemma dispatch_fold_events: "events (fold (dispatch_row fmt now) rows d) = events d"
  by (induction rows arbitrary: d) (simp_all add: dispatch_row_events)

text \<open>Publishing marks the unpublished rows with the identifier and nothing else.\<close>

definition mark :: "int \<Rightarrow> ustring set \<Rightarrow> outbox_row \<Rightarrow> outbox_row" where
  "mark now ids r = (if ob_id r \<in> ids \<and> ob_publishedAt r = None then r\<lparr>ob_publishedAt := Some now\<rparr> else r)"

lemma mark_mark: "mark now I (mark now J r) = mark now (I \<union> J) r"
  by (auto simp: mark_def)

lemma dispatch_row_outbox:
  "outbox (dispatch_row fmt now row d) =
     map (mark now (if outbox_event d row = None then {} else {ob_id row})) (outbox d)"
  by (auto simp: dispatch_row_def publish_def matchAndDispatch_frame update_where_def mark_def
      split: option.split intro!: map_idI [symmetric])

definition resolvable_ids :: "db \<Rightarrow> outbox_row list \<Rightarrow> ustring set" where
  "resolvable_ids d rows = ob_id ` {r \<in> set rows. outbox_event d r \<noteq> None}"

lemma dispatch_fold_outbox:
  "outbox (fold (dispatch_row fmt now) rows d) = map (mark now (resolvable_ids d rows)) (outbox d)"
proof (induction rows arbitrary: d)
  case Nil
  show ?case by (auto simp: resolvable_ids_def mark_def intro!: map_idI [symmetric])
next
  case (Cons row rows)
  let ?d1 = "dispatch_row fmt now row d"
  have ev: "outbox_event ?d1 r = outbox_event d r" for r
    by (rule outbox_event_cong) (rule dispatch_row_events)
  have "resolvable_ids ?d1 rows \<union> (if outbox_event d row = None then {} else {ob_id row})
      = resolvable_ids d (row # rows)"
    by (auto simp: resolvable_ids_def ev)
  then show ?case by (simp add: Cons.IH dispatch_row_outbox mark_mark)
qed

definition created_for :: "db \<Rightarrow> outbox_row \<Rightarrow> delivery_row \<Rightarrow> bool" where
  "created_for d row r = (case outbox_event d row of None \<Rightarrow> False | Some e \<Rightarrow> pending_for e r)"

lemma dispatch_fold_deliveries:
  "\<exists>new. deliveries (fold (dispatch_row fmt now) rows d) = deliveries d @ new
     \<and> (\<forall>r\<in>set new. \<exists>row\<in>set rows. created_for d row r)"
proof (induction rows arbitrary: d)
  case Nil
  show ?case by simp
next
  case (Cons row rows)
  let ?d1 = "dispatch_row fmt now row d"
  obtain new where new: "deliveries (fold (dispatch_row fmt now) rows ?d1) = deliveries ?d1 @ new"
    "\<forall>r\<in>set new. \<exists>row\<in>set rows. created_for ?d1 row r"
    using Cons.IH by blast
  obtain new1 where new1: "deliveries ?d1 = deliveries d @ new1"
    "\<forall>r\<in>set new1. created_for d row r"
  proof (cases "outbox_event d row")
    case None
    then show thesis using that [of "[]"] by (simp add: dispatch_row_def)
  next
    case (Some e)
    then show thesis
      using that matchAndDispatch_frame(3) [of fmt e d]
      by (auto simp: dispatch_row_def publish_frame list_all_iff created_for_def)
  qed
  have "created_for ?d1 row r = created_for d row r" for row r
    unfolding created_for_def outbox_event_cong [OF dispatch_row_events] ..
  with new new1 show ?case by (intro exI [of _ "new1 @ new"]) auto
qed

text \<open>
  A tick publishes exactly the rows of its batch whose event exists: those rows get the
  publication time, every other row is left as it is, and every delivery it creates is a
  pending delivery of the event of a row of the batch.
\<close>

theorem dispatchOutbox_publishes_batch:
  "outbox (dispatchOutbox fmt now d) = map (mark now (resolvable_ids d (outbox_batch d))) (outbox d)
   \<and> (\<exists>new. deliveries (dispatchOutbox fmt now d) = deliveries d @ new
        \<and> list_all (\<lambda>r. list_ex (\<lambda>row. created_for d row r) (outbox_batch d)) new)"
proof
  show "outbox (dispatchOutbox fmt now d) = map (mark now (resolvable_ids d (outbox_batch d))) (outbox d)"
    unfolding dispatchOutbox_def by (rule dispatch_fold_outbox)
  obtain new where "deliveries (dispatchOutbox fmt now d) = deliveries d @ new"
    "\<forall>r\<in>set new. \<exists>row\<in>set (outbox_batch d). created_for d row r"
    using dispatch_fold_deliveries unfolding dispatchOutbox_def by blast
  then show "\<exists>new. deliveries (dispatchOutbox fmt now d) = deliveries d @ new
        \<and> list_all (\<lambda>r. list_ex (\<lambda>row. created_for d row r) (outbox_batch d)) new"
    by (intro exI [of _ new]) (auto simp: list_all_iff list_ex_iff)
qed

text \<open>
  When every unpublished row refers to an existing event and the backlog fits one
  batch, one tick drains the outbox, and the next tick does nothing: no event is routed
  twice.
\<close>

theorem dispatchOutbox_drains:
  assumes "\<forall>r\<in>set (outbox d). ob_publishedAt r = None \<longrightarrow> outbox_event d r \<noteq> None"
    and "length (filter (\<lambda>r. ob_publishedAt r = None) (outbox d)) \<le> 100"
  shows "outbox_batch (dispatchOutbox fmt now d) = []
    \<and> dispatchOutbox fmt later (dispatchOutbox fmt now d) = dispatchOutbox fmt now d"
proof -
  have "set (outbox_batch d) = {r \<in> set (outbox d). ob_publishedAt r = None}"
    using assms(2) by (auto simp: outbox_batch_def)
  then have "ob_publishedAt (mark now (resolvable_ids d (outbox_batch d)) r) \<noteq> None"
    if "r \<in> set (outbox d)" for r
    using that assms(1) by (auto simp: mark_def resolvable_ids_def)
  then have "filter (\<lambda>r. ob_publishedAt r = None) (outbox (dispatchOutbox fmt now d)) = []"
    by (auto simp: dispatchOutbox_def dispatch_fold_outbox filter_empty_conv)
  then have "outbox_batch (dispatchOutbox fmt now d) = []" by (simp add: outbox_batch_def)
  then show ?thesis by (simp add: dispatchOutbox_def)
qed

definition outbox_db :: db where
  "outbox_db = snd (emit (\<lambda>t. []) 0 sample_params (empty_db tick_ids))"

theorem dispatchOutbox_drains_witness:
  "outbox outbox_db \<noteq> [] \<and> outbox_batch (dispatchOutbox (\<lambda>r. []) 7 outbox_db) = []"
proof -
  have fresh: "dedup_hit (em_dedupKey sample_params) (empty_db tick_ids) = None"
    by (simp add: dedup_hit_def empty_db_def)
  have events: "events outbox_db = [event_of sample_params (tick_ids 1) (buildEnvelope (\<lambda>t. []) 0 (tick_ids 0) sample_params) 0]"
    by (simp add: outbox_db_def emit_events fresh) (simp add: empty_db_def)
  have outbox: "\<exists>r. outbox outbox_db = [r] \<and> ob_payload r = JObj [(lit ''messageEventId'', JStr (tick_ids 1))]"
    by (simp add: outbox_db_def emit_outbox [OF fresh]) (simp add: empty_db_def)
  have "outbox_event outbox_db r \<noteq> None" if "r \<in> set (outbox outbox_db)" for r
    using that outbox by (auto simp: outbox_event_def evs.lookup_def events event_of_def tick_ids_def)
  moreover have "length (filter (\<lambda>r. ob_publishedAt r = None) (outbox outbox_db)) \<le> 100"
    using outbox by auto
  ultimately show ?thesis
    using dispatchOutbox_drains [of outbox_db "\<lambda>r. []" 7] outbox by auto
qed

end
