(* ===== verification/AuditLog.thy ===== *)
theory AuditLog
  imports Schema
begin

text \<open>
  The audit log and the masking of credentials (apps/api/src/common/redact.ts,
  apps/api/src/common/audit.service.ts) and of request headers
  (apps/api/src/deliveries/deliveries.service.ts). The lemmas show that no credential
  survives masking at any depth, that masking is idempotent, and that it keeps the shape
  and every other value.
\<close>

section \<open>Credential keys\<close>

definition lower_str :: "ustring \<Rightarrow> ustring" where
  "lower_str s = map lower_cp s"

text \<open>\<open>.\<close> of a regular expression does not match a line terminator.\<close>

definition line_terminator :: "nat \<Rightarrow> bool" where
  "line_terminator c \<longleftrightarrow> c = 10 \<or> c = 13 \<or> c = 8232 \<or> c = 8233"

definition ends_with_ci :: "string \<Rightarrow> ustring \<Rightarrow> bool" where
  "ends_with_ci w k \<longleftrightarrow> length w \<le> length k
     \<and> lower_str (drop (length k - length w) k) = lower_str (lit w)
     \<and> (\<forall>c\<in>set (take (length k - length w) k). \<not> line_terminator c)"

definition secret_words :: "string list" where
  "secret_words = [''secret'', ''password'', ''pass'', ''token'', ''apiKey'', ''api_key'', ''secretEnc'',
     ''privateKey'', ''credential'', ''credentials'']"

definition SECRET_KEY :: "ustring \<Rightarrow> bool" where
  "SECRET_KEY k \<longleftrightarrow> lower_str k = lower_str (lit ''encryptedConfig'')
     \<or> (\<exists>w\<in>set secret_words. ends_with_ci w k)"

definition MASK :: ustring where "MASK = lit ''***''"

text \<open>The masking decision for one field; \<open>v'\<close> is the field after the recursive call.\<close>

definition mask_field :: "ustring \<Rightarrow> json \<Rightarrow> json \<Rightarrow> json" where
  "mask_field k v v' = (if SECRET_KEY k \<and> v \<noteq> JNull \<and> v \<noteq> JStr [] then JStr MASK else v')"

fun redactSecrets :: "json \<Rightarrow> json"
  and redactFields :: "fields \<Rightarrow> fields" where
  "redactSecrets (JArr xs) = JArr (map redactSecrets xs)"
| "redactSecrets (JObj kvs) = JObj (redactFields kvs)"
| "redactSecrets v = v"
| "redactFields [] = []"
| "redactFields ((k, v) # kvs) = (k, mask_field k v (redactSecrets v)) # redactFields kvs"

definition audit_log ::
  "ustring option \<Rightarrow> string \<Rightarrow> string \<Rightarrow> ustring \<Rightarrow> json \<Rightarrow> json \<Rightarrow> db \<Rightarrow> db" where
  "audit_log actorId action entityType entityId before after d =
     d\<lparr>audit_logs := audit_logs d @
        [\<lparr>au_actorId = actorId, au_action = lit action, au_entityType = lit entityType,
          au_entityId = entityId, au_before = redactSecrets before, au_after = redactSecrets after\<rparr>]\<rparr>"

section \<open>Header masking of deliveries\<close>

definition contains_ci :: "string \<Rightarrow> ustring \<Rightarrow> bool" where
  "contains_ci w k \<longleftrightarrow> (\<exists>i\<in>set [0..<Suc (length k)]. starts_with (lower_str (lit w)) (drop i (lower_str k)))"

definition SENSITIVE_HEADER :: "ustring \<Rightarrow> bool" where
  "SENSITIVE_HEADER k \<longleftrightarrow> contains_ci ''secret'' k \<or> contains_ci ''token'' k \<or> contains_ci ''authorization'' k"

text \<open>Only an object of headers has own string keys to mask.\<close>

fun mask_headers :: "json \<Rightarrow> json" where
  "mask_headers (JObj kvs) =
     JObj (map (\<lambda>(k, v). (k, if SENSITIVE_HEADER k then JStr (lit ''********'') else v)) kvs)"
| "mask_headers v = v"

fun maskRequest :: "json \<Rightarrow> json" where
  "maskRequest (JObj kvs) =
     (case map_of kvs (lit ''headers'') of
        Some h \<Rightarrow> JObj (obj_set (lit ''headers'') (mask_headers h) kvs)
      | None \<Rightarrow> JObj kvs)"
| "maskRequest v = v"

section \<open>No credential survives\<close>

text \<open>A value is clean if every field with a credential key, at any depth, is null, empty or masked.\<close>

definition harmless :: "json \<Rightarrow> bool" where
  "harmless v \<longleftrightarrow> v = JNull \<or> v = JStr [] \<or> v = JStr MASK"

fun clean :: "json \<Rightarrow> bool"
  and clean_fields :: "fields \<Rightarrow> bool" where
  "clean (JArr xs) = list_all clean xs"
| "clean (JObj kvs) = clean_fields kvs"
| "clean v = True"
| "clean_fields [] = True"
| "clean_fields ((k, v) # kvs) = ((SECRET_KEY k \<longrightarrow> harmless v) \<and> clean v \<and> clean_fields kvs)"

lemma clean_redact: "clean (redactSecrets v)" "clean_fields (redactFields kvs)"
proof (induction v and kvs rule: redactSecrets_redactFields.induct)
  case (1 xs)
  then show ?case by (simp add: list_all_iff)
qed (auto simp: mask_field_def harmless_def)

lemma redact_clean_id: "clean v \<Longrightarrow> redactSecrets v = v" "clean_fields kvs \<Longrightarrow> redactFields kvs = kvs"
proof (induction v and kvs rule: redactSecrets_redactFields.induct)
  case (1 xs)
  then show ?case by (auto simp: list_all_iff intro: map_idI)
qed (auto simp: mask_field_def harmless_def)

text \<open>
  What reaches the audit log carries no credential: in both snapshots of the new row,
  every field whose key names a credential is, at any depth, null, empty or the mask, and
  masking an already masked value changes nothing.
\<close>

theorem audit_log_masks_credentials:
  "\<exists>row. audit_logs (audit_log actor action entity i before after d) = audit_logs d @ [row]
     \<and> clean (au_before row) \<and> clean (au_after row)
     \<and> redactSecrets (au_before row) = au_before row \<and> redactSecrets (au_after row) = au_after row"
  by (simp add: audit_log_def clean_redact redact_clean_id)

text \<open>Masking keeps keys and their order.\<close>

lemma redactFields_keys: "map fst (redactFields kvs) = map fst kvs"
  by (induction kvs) auto

lemma redactFields_lookup:
  "map_of (redactFields kvs) k = map_option (\<lambda>v. mask_field k v (redactSecrets v)) (map_of kvs k)"
  by (induction kvs) auto

lemma audit_log_frame:
  "endpoints (audit_log a b c e f g d) = endpoints d" "alerts (audit_log a b c e f g d) = alerts d"
  "messages (audit_log a b c e f g d) = messages d" "deliveries (audit_log a b c e f g d) = deliveries d"
  "accounts (audit_log a b c e f g d) = accounts d" "attachments (audit_log a b c e f g d) = attachments d"
  "history (audit_log a b c e f g d) = history d" "send_jobs (audit_log a b c e f g d) = send_jobs d"
  "webhook_jobs (audit_log a b c e f g d) = webhook_jobs d"
  "conversations (audit_log a b c e f g d) = conversations d"
  by (simp_all add: audit_log_def)

end
