(* ===== verification/Alerts.thy ===== *)
theory Alerts
  imports AuditLog
begin

text \<open>
  Alerts: raising in the worker (apps/worker/src/alerts/alerts.service.ts), raising and
  resolving in the API (apps/api/src/alerts/alerts.service.ts). An alert is identified by
  its fingerprint while it fires. The operations are the steps of a state machine; its
  invariant is that no two firing alerts have the same fingerprint.
\<close>

record raise_params =
  ra_fingerprint :: ustring
  ra_ruleKey :: ustring
  ra_severity :: ustring
  ra_title :: alert_text
  ra_message :: alert_text
  ra_payload :: "json option"

definition firing_alert :: "ustring \<Rightarrow> db \<Rightarrow> alert_row option" where
  "firing_alert fp d = find (\<lambda>a. al_fingerprint a = fp \<and> al_status a = firing) (alerts d)"

definition new_alert :: "ustring \<Rightarrow> raise_params \<Rightarrow> int \<Rightarrow> alert_row" where
  "new_alert aid p now =
     \<lparr>al_id = aid, al_fingerprint = ra_fingerprint p, al_ruleKey = ra_ruleKey p,
      al_severity = ra_severity p, al_status = firing, al_title = ra_title p,
      al_message = ra_message p,
      al_payload = (case ra_payload p of Some v \<Rightarrow> v | None \<Rightarrow> JObj []),
      al_lastSeenAt = now, al_resolvedAt = None\<rparr>"

definition raise_alert :: "int \<Rightarrow> raise_params \<Rightarrow> db \<Rightarrow> db" where
  "raise_alert now p d =
     (case firing_alert (ra_fingerprint p) d of
        Some existing \<Rightarrow>
          d\<lparr>alerts := update_where (\<lambda>a. al_id a = al_id existing)
              (\<lambda>a. a\<lparr>al_lastSeenAt := now,
                     al_payload := (case ra_payload p of Some v \<Rightarrow> v | None \<Rightarrow> JObj [])\<rparr>) (alerts d)\<rparr>
      | None \<Rightarrow>
          (let (aid, d') = fresh_id d in d'\<lparr>alerts := alerts d' @ [new_alert aid p now]\<rparr>))"

definition api_raise :: "int \<Rightarrow> raise_params \<Rightarrow> db \<Rightarrow> db" where
  "api_raise now p d =
     (case firing_alert (ra_fingerprint p) d of
        Some existing \<Rightarrow>
          d\<lparr>alerts := update_where (\<lambda>a. al_id a = al_id existing)
              (\<lambda>a. a\<lparr>al_lastSeenAt := now, al_message := ra_message p,
                     al_payload := (case ra_payload p of Some v \<Rightarrow> v | None \<Rightarrow> al_payload existing)\<rparr>)
              (alerts d)\<rparr>
      | None \<Rightarrow>
          (let (aid, d') = fresh_id d in d'\<lparr>alerts := alerts d' @ [new_alert aid p now]\<rparr>))"

fun alert_status_name :: "alert_status \<Rightarrow> ustring" where
  "alert_status_name firing = lit ''firing''"
| "alert_status_name resolved = lit ''resolved''"

text \<open>\<open>None\<close> is the NotFound exception.\<close>

definition resolve :: "int \<Rightarrow> ustring \<Rightarrow> ustring option \<Rightarrow> db \<Rightarrow> alert_row option \<times> db" where
  "resolve now aid actorId d =
     (case als.lookup d aid of
        None \<Rightarrow> (None, d)
      | Some alert \<Rightarrow>
          if al_status alert = resolved then (Some alert, d)
          else let upd = (\<lambda>a. a\<lparr>al_status := resolved, al_resolvedAt := Some now, al_lastSeenAt := now\<rparr>);
                   d' = d\<lparr>alerts := update_where (\<lambda>a. al_id a = aid) upd (alerts d)\<rparr>
               in (Some (upd alert),
                   audit_log actorId ''alert.resolved'' ''alert'' aid
                     (JObj [(lit ''status'', JStr (alert_status_name (al_status alert)))])
                     (JObj [(lit ''status'', JStr (lit ''resolved''))]) d'))"

section \<open>At most one firing alert per fingerprint\<close>

definition prints_of :: "alert_row list \<Rightarrow> ustring list" where
  "prints_of as = map al_fingerprint (filter (\<lambda>a. al_status a = firing) as)"

definition firing_prints :: "db \<Rightarrow> ustring list" where
  "firing_prints d = prints_of (alerts d)"

text \<open>An update that changes neither fingerprint nor status keeps the firing fingerprints.\<close>

lemma prints_of_update:
  assumes "\<And>a. al_fingerprint (f a) = al_fingerprint a" "\<And>a. al_status (f a) = al_status a"
  shows "prints_of (update_where P f as) = prints_of as"
  by (induction as) (auto simp: assms prints_of_def)

lemma prints_of_resolve:
  "prints_of (update_where P (\<lambda>a. a\<lparr>al_status := resolved, al_resolvedAt := t, al_lastSeenAt := u\<rparr>) as)
     = prints_of (filter (\<lambda>a. \<not> P a) as)"
  by (induction as) (auto simp: prints_of_def)

lemma prints_of_snoc: "al_status a = firing \<Longrightarrow> prints_of (as @ [a]) = prints_of as @ [al_fingerprint a]"
  by (simp add: prints_of_def)

lemma prints_of_filter_distinct: "distinct (prints_of as) \<Longrightarrow> distinct (prints_of (filter Q as))"
  by (induction as) (auto simp: prints_of_def)

lemma firing_alert_None: "firing_alert fp d = None \<Longrightarrow> fp \<notin> set (firing_prints d)"
  by (auto simp: firing_alert_def firing_prints_def prints_of_def find_None_iff)

lemma firing_prints_raise:
  "firing_prints (raise_alert now p d) =
     (if firing_alert (ra_fingerprint p) d = None then firing_prints d @ [ra_fingerprint p]
      else firing_prints d)"
  by (auto simp: raise_alert_def firing_prints_def prints_of_update prints_of_snoc fresh_id_def
      new_alert_def split: option.split)

lemma firing_prints_api_raise:
  "firing_prints (api_raise now p d) =
     (if firing_alert (ra_fingerprint p) d = None then firing_prints d @ [ra_fingerprint p]
      else firing_prints d)"
  by (auto simp: api_raise_def firing_prints_def prints_of_update prints_of_snoc fresh_id_def
      new_alert_def split: option.split)

lemma firing_prints_resolve:
  "distinct (firing_prints d) \<Longrightarrow> distinct (firing_prints (snd (resolve now aid actor d)))"
  by (auto simp: resolve_def firing_prints_def audit_log_frame Let_def prints_of_resolve
      prints_of_filter_distinct split: option.split)

lemma firing_alert_None_iff: "firing_alert fp d = None \<longleftrightarrow> fp \<notin> set (firing_prints d)"
  by (auto simp: firing_alert_def firing_prints_def prints_of_def find_None_iff)

lemma raise_alert_fires: "firing_alert (ra_fingerprint p) (raise_alert now p d) \<noteq> None"
  unfolding firing_alert_None_iff firing_prints_raise by auto

inductive alert_step :: "db \<Rightarrow> db \<Rightarrow> bool" where
  worker_raises: "alert_step d (raise_alert now p d)"
| api_raises: "alert_step d (api_raise now p d)"
| resolves: "alert_step d (snd (resolve now aid actor d))"

inductive alert_run :: "db \<Rightarrow> db \<Rightarrow> bool" where
  stop: "alert_run d d"
| step: "alert_run d d' \<Longrightarrow> alert_step d' d'' \<Longrightarrow> alert_run d d''"

lemma alert_step_distinct: "alert_step d d' \<Longrightarrow> distinct (firing_prints d) \<Longrightarrow> distinct (firing_prints d')"
  by (induction rule: alert_step.induct)
    (auto simp: firing_prints_raise firing_prints_api_raise firing_prints_resolve
      dest: firing_alert_None)


definition sample_alert :: raise_params where
  "sample_alert = \<lparr>ra_fingerprint = lit ''f'', ra_ruleKey = lit ''k'', ra_severity = lit ''warning'',
     ra_title = MessageNotDelivered, ra_message = SendAttemptsExhausted, ra_payload = None\<rparr>"


text \<open>
  A resolved alert stays resolved: raising the same incident again opens a new alert
  and leaves the resolved row as the operator left it.
\<close>

theorem resolved_alert_untouched:
  assumes "a \<in> set (alerts d)" and "al_status a = resolved" and "distinct (als.ids d)"
  shows "a \<in> set (alerts (raise_alert now p d)) \<and> a \<in> set (alerts (api_raise now p d))"
proof -
  have "al_id existing \<noteq> al_id a" if "firing_alert (ra_fingerprint p) d = Some existing" for existing
  proof
    assume eq: "al_id existing = al_id a"
    from that have "existing \<in> set (alerts d)" "al_status existing = firing"
      by (auto simp: firing_alert_def dest: find_SomeD)
    with assms eq show False
      by (metis als.ids_def alert_status.distinct(1) distinct_map inj_onD)
  qed
  with assms(1) show ?thesis
    by (force simp: raise_alert_def api_raise_def fresh_id_def set_update_where split: option.split)
qed

definition resolved_db :: db where
  "resolved_db = snd (resolve 5 [120] None (raise_alert 0 sample_alert (empty_db tick_ids)))"

theorem resolved_alert_untouched_witness:
  "\<exists>a. a \<in> set (alerts resolved_db) \<and> al_status a = resolved
     \<and> a \<in> set (alerts (raise_alert 9 sample_alert resolved_db))"
proof -
  let ?a = "(new_alert [120] sample_alert 0)\<lparr>al_status := resolved, al_resolvedAt := Some 5, al_lastSeenAt := 5\<rparr>"
  have "alerts resolved_db = [?a]"
    by (simp add: resolved_db_def resolve_def raise_alert_def firing_alert_def sample_alert_def
        empty_db_def fresh_id_def new_alert_def als.lookup_def tick_ids_def audit_log_def)
  then have "?a \<in> set (alerts resolved_db)" "al_status ?a = resolved" "distinct (als.ids resolved_db)"
    by (simp_all add: als.ids_def)
  from resolved_alert_untouched [OF this] this show ?thesis by blast
qed

end
