(* ===== verification/Lifecycle.thy ===== *)
theory Lifecycle
  imports Prelude
begin

text \<open>
  The interface of a row with a life cycle: a table is changed by a sequence of actions, and
  a row that has reached a final state is never changed again. Its extension adds an effort
  that every attempt on the row uses up, so that enough attempts end it, whatever other
  actions come in between.
\<close>

locale lifecycle =
  fixes row :: "'d \<Rightarrow> ustring \<Rightarrow> 'r option"
    and final :: "'r \<Rightarrow> bool"
    and act :: "'a \<Rightarrow> 'd \<Rightarrow> 'd"
  assumes final_kept: "row d i = Some r \<Longrightarrow> final r \<Longrightarrow> row (act a d) i = Some r"
begin

lemma final_forever: "row d i = Some r \<Longrightarrow> final r \<Longrightarrow> row (fold act as d) i = Some r"
  by (induction as arbitrary: d) (auto intro: final_kept)

end

locale bounded_lifecycle = lifecycle row final act
  for row :: "'d \<Rightarrow> ustring \<Rightarrow> 'r option"
    and final :: "'r \<Rightarrow> bool"
    and act :: "'a \<Rightarrow> 'd \<Rightarrow> 'd" +
  fixes works :: "'a \<Rightarrow> ustring \<Rightarrow> bool"
    and live :: "'d \<Rightarrow> 'r \<Rightarrow> bool"
    and effort :: "'r \<Rightarrow> nat"
  assumes alive: "\<not> final r \<Longrightarrow> 0 < effort r"
    and progress: "row d i = Some r \<Longrightarrow> live d r \<Longrightarrow> \<not> final r \<Longrightarrow>
      \<exists>r'. row (act a d) i = Some r' \<and>
        (final r' \<or> live (act a d) r' \<and> effort r' + (if works a i then 1 else 0) \<le> effort r)"
begin

lemma ends:
  assumes "row d i = Some r" and "live d r"
    and "effort r \<le> length (filter (\<lambda>a. works a i) as)"
  shows "\<exists>r'. row (fold act as d) i = Some r' \<and> final r'"
  using assms
proof (induction as arbitrary: d r)
  case Nil
  then show ?case using alive [of r] by auto
next
  case (Cons a as)
  show ?case
  proof (cases "final r")
    case True
    then show ?thesis using final_forever [OF Cons.prems(1), of "a # as"] by blast
  next
    case False
    from progress [OF Cons.prems(1,2) this, of a] obtain r' where r': "row (act a d) i = Some r'"
      "final r' \<or> live (act a d) r' \<and> effort r' + (if works a i then 1 else 0) \<le> effort r" by blast
    show ?thesis
    proof (cases "final r'")
      case True
      then show ?thesis using final_forever [OF r'(1), of as] by auto
    next
      case False
      with r'(2) have "live (act a d) r'" "effort r' \<le> length (filter (\<lambda>a. works a i) as)"
        using Cons.prems(3) by (auto split: if_splits)
      from Cons.IH [OF r'(1) this] show ?thesis by simp
    qed
  qed
qed

end

end
