(* ===== verification/Delivery.thy ===== *)
theory Delivery
  imports Outbox Alerts Lifecycle
begin

text \<open>
  Delivery of events to destinations: the processor of the queue webhook.deliver
  (apps/worker/src/processors/webhook-deliver.processor.ts) and the replay of a finished
  delivery (apps/api/src/deliveries/deliveries.service.ts). What lies outside is in
  \<open>delivery_env\<close>: the answer of \<open>fetch\<close>, the answer of the mail transport, HMAC-SHA256,
  the clock at the start and at the end of the attempt, and the printing of numbers and
  times. A delivery refers to an event and a destination by foreign keys; where one is
  missing the query fails and nothing is written.
\<close>

section \<open>What is sent\<close>

record http_request =
  rq_url :: ustring
  rq_headers :: "(ustring \<times> ustring) list"
  rq_body :: ustring
  rq_timeout :: int

text \<open>The status and the text of a response, or the message of the exception.\<close>

datatype fetch_result = Response int ustring | FetchError ustring

record mail =
  ml_host :: json
  ml_port :: json
  ml_secure :: json
  ml_auth :: "(json \<times> json) option"
  ml_timeout :: int
  ml_from :: ustring
  ml_to :: ustring
  ml_subject :: ustring
  ml_text :: ustring

record delivery_env =
  en_fetch :: "http_request \<Rightarrow> fetch_result"
  en_sendMail :: "mail \<Rightarrow> ustring option"
  en_hmac :: "ustring \<Rightarrow> ustring \<Rightarrow> ustring"
  en_fmt :: "rat \<Rightarrow> ustring"
  en_iso :: "int \<Rightarrow> ustring"
  en_now :: int
  en_done :: int

record delivery_outcome =
  oc_ok :: bool
  oc_permanent :: bool
  oc_statusCode :: "int option"
  oc_excerpt :: "ustring option"
  oc_error :: "delivery_error option"

definition RETRY_SCHEDULE_SECONDS :: "int list" where
  "RETRY_SCHEDULE_SECONDS = [60, 300, 900, 3600]"

definition RESPONSE_EXCERPT_LIMIT :: nat where
  "RESPONSE_EXCERPT_LIMIT = 2048"

text \<open>The texts of the errors, as code points.\<close>

definition http_text :: "int \<Rightarrow> ustring" where
  "http_text n = lit ''HTTP '' @ dec_str (nat n)"

fun error_text :: "delivery_error \<Rightarrow> ustring" where
  "error_text BadWebhookUrl = [1053, 1077, 1074, 1072, 1083, 1110, 1076, 1085, 1072] @ lit '' URL '' @
     [1074, 1077, 1073, 1093, 1091, 1082, 1072, 58, 32, 1086, 1095, 1110, 1082, 1091, 1108, 1090, 1100,
     1089, 1103, 32]
     @ lit ''http:// '' @ [1072, 1073, 1086] @ lit '' https://''"
| "error_text (WebhookPermanent n) = [1055, 1086, 1089, 1090, 1110, 1081, 1085, 1072, 32, 1087, 1086,
     1084, 1080, 1083, 1082, 1072, 32] @ [1074, 1077, 1073, 1093, 1091, 1082, 1072, 58, 32] @ http_text
     n"
| "error_text (WebhookTemporary n) = [1058, 1080, 1084, 1095, 1072, 1089, 1086, 1074, 1072, 32, 1087,
     1086, 1084, 1080, 1083, 1082, 1072, 32] @ [1074, 1077, 1073, 1093, 1091, 1082, 1072, 58, 32] @
     http_text n"
| "error_text (NetworkOrTimeout m) = [1052, 1077, 1088, 1077, 1078, 1077, 1074, 1072, 32, 1087, 1086,
     1084, 1080, 1083, 1082, 1072, 32, 1072, 1073, 1086, 32, 1090, 1072, 1081, 1084, 1072, 1091, 1090,
     58, 32] @ m"
| "error_text TelegramNotConfigured = [1042, 1110, 1076, 1089, 1091, 1090, 1085, 1103, 32, 1082, 1086,
     1085, 1092, 1110, 1075, 1091, 1088, 1072, 1094, 1110, 1103] @ lit '' Telegram: '' @ [1087, 1086,
     1090, 1088, 1110, 1073, 1085, 1110]
     @ lit '' botToken '' @ [1090, 1072] @ lit '' chatId''"
| "error_text (TelegramPermanent n) = [1055, 1086, 1089, 1090, 1110, 1081, 1085, 1072, 32, 1087, 1086,
     1084, 1080, 1083, 1082, 1072, 32] @ lit ''Telegram: '' @ http_text n"
| "error_text (TelegramTemporary n) = [1058, 1080, 1084, 1095, 1072, 1089, 1086, 1074, 1072, 32, 1087,
     1086, 1084, 1080, 1083, 1082, 1072, 32] @ lit ''Telegram: '' @ http_text n"
| "error_text (TelegramNetwork m) = [1052, 1077, 1088, 1077, 1078, 1077, 1074, 1072, 32, 1087, 1086,
     1084, 1080, 1083, 1082, 1072] @ lit '' Telegram: '' @ m"
| "error_text NoEmailRecipients = [1053, 1077, 32, 1074, 1082, 1072, 1079, 1072, 1085, 1086, 32, 1086,
     1090, 1088, 1080, 1084, 1091, 1074, 1072, 1095, 1110, 1074] 
     @ lit '' email (configJson.recipients)''"
| "error_text SmtpNotConfigured = lit ''SMTP '' @ [1085, 1077, 32, 1085, 1072, 1083, 1072, 1096, 1090,
     1086, 1074, 1072, 1085, 1086]"
| "error_text (EmailSendFailed m) = [1055, 1086, 1084, 1080, 1083, 1082, 1072, 32, 1085, 1072, 1076,
     1089, 1080, 1083, 1072, 1085, 1085, 1103] @ lit '' email: '' @ m"
| "error_text PermanentFailure = [1055, 1086, 1089, 1090, 1110, 1081, 1085, 1072, 32, 1087, 1086, 1084,
     1080, 1083, 1082, 1072, 32, 1076, 1086, 1089, 1090, 1072, 1074, 1082, 1080]"
| "error_text UnknownFailure = [1053, 1077, 1074, 1110, 1076, 1086, 1084, 1072, 32, 1087, 1086, 1084,
     1080, 1083, 1082, 1072, 32, 1076, 1086, 1089, 1090, 1072, 1074, 1082, 1080]"

definition failure :: "bool \<Rightarrow> delivery_error \<Rightarrow> delivery_outcome" where
  "failure permanent e = \<lparr>oc_ok = False, oc_permanent = permanent, oc_statusCode = None,
     oc_excerpt = None, oc_error = Some e\<rparr>"

definition success :: "int option \<Rightarrow> ustring option \<Rightarrow> delivery_outcome" where
  "success code excerpt = \<lparr>oc_ok = True, oc_permanent = False, oc_statusCode = code,
     oc_excerpt = excerpt, oc_error = None\<rparr>"

definition response_ok :: "int \<Rightarrow> bool" where
  "response_ok s \<longleftrightarrow> 200 \<le> s \<and> s \<le> 299"

definition permanent_status :: "int \<Rightarrow> bool" where
  "permanent_status s \<longleftrightarrow> 400 \<le> s \<and> s < 500 \<and> s \<noteq> 429"

definition responseSnapshot :: "delivery_outcome \<Rightarrow> response_snapshot" where
  "responseSnapshot o' = \<lparr>rs_status = oc_statusCode o', rs_body = oc_excerpt o', rs_error = oc_error o'\<rparr>"

text \<open>\<open>a ?? b\<close>.\<close>

fun nullish_or :: "json option \<Rightarrow> json \<Rightarrow> json" where
  "nullish_or None v = v"
| "nullish_or (Some JNull) v = v"
| "nullish_or (Some u) v = u"

definition truthy_opt :: "json option \<Rightarrow> bool" where
  "truthy_opt v = (case v of None \<Rightarrow> False | Some u \<Rightarrow> truthy u)"

definition bodyOf :: "(rat \<Rightarrow> ustring) \<Rightarrow> delivery_row \<Rightarrow> event_row \<Rightarrow> ustring" where
  "bodyOf fmt delivery event =
     stringify fmt (nullish_or (dl_request delivery) (nullish_obj (ev_payload event)))"

definition eventIdHeader :: "event_row \<Rightarrow> ustring" where
  "eventIdHeader event =
     (case as_string (own (ev_payload event) (lit ''id'')) of Some i \<Rightarrow> i | None \<Rightarrow> ev_id event)"

definition http_url :: "ustring \<Rightarrow> bool" where
  "http_url url \<longleftrightarrow> starts_with (lit ''http://'') (map lower_cp url)
     \<or> starts_with (lit ''https://'') (map lower_cp url)"

definition webhook_request :: "delivery_env \<Rightarrow> delivery_row \<Rightarrow> event_row \<Rightarrow> destination_row \<Rightarrow> nat \<Rightarrow> http_request" where
  "webhook_request env delivery event dest attemptHeader =
     (let body = bodyOf (en_fmt env) delivery event;
          timestamp = dec_str (nat (en_now env div 1000))
      in \<lparr>rq_url = (case de_url dest of Some u \<Rightarrow> u | None \<Rightarrow> []),
          rq_headers = [(lit ''Content-Type'', lit ''application/json''),
             (lit ''X-UMG-Event-Id'', eventIdHeader event),
             (lit ''X-UMG-Timestamp'', timestamp),
             (lit ''X-UMG-Attempt'', dec_str attemptHeader)]
           @ (if truthy_str (de_secretEnc dest)
              then [(lit ''X-UMG-Signature'',
                     lit ''sha256='' @ en_hmac env (the (de_secretEnc dest)) (timestamp @ lit ''.'' @ body))]
              else []),
          rq_body = body,
          rq_timeout = de_timeoutMs dest\<rparr>)"

text \<open>The reading of a response, the same for webhooks and for Telegram but for the texts.\<close>

definition read_response ::
  "(int \<Rightarrow> delivery_error) \<Rightarrow> (int \<Rightarrow> delivery_error) \<Rightarrow> (ustring \<Rightarrow> delivery_error) \<Rightarrow> fetch_result
   \<Rightarrow> delivery_outcome" where
  "read_response perm temp net r =
     (case r of
        FetchError m \<Rightarrow> failure False (net m)
      | Response code body \<Rightarrow>
          (let excerpt = take_units RESPONSE_EXCERPT_LIMIT body in
           if response_ok code then success (Some code) (Some excerpt)
           else \<lparr>oc_ok = False, oc_permanent = permanent_status code, oc_statusCode = Some code,
                 oc_excerpt = Some excerpt,
                 oc_error = Some (if permanent_status code then perm code else temp code)\<rparr>))"

definition deliverWebhook :: "delivery_env \<Rightarrow> delivery_row \<Rightarrow> event_row \<Rightarrow> destination_row \<Rightarrow> nat \<Rightarrow> delivery_outcome" where
  "deliverWebhook env delivery event dest attemptHeader =
     (if \<not> http_url (case de_url dest of Some u \<Rightarrow> u | None \<Rightarrow> []) then failure True BadWebhookUrl
      else read_response WebhookPermanent WebhookTemporary NetworkOrTimeout
             (en_fetch env (webhook_request env delivery event dest attemptHeader)))"

definition buildTelegramSummary :: "(int \<Rightarrow> ustring) \<Rightarrow> event_row \<Rightarrow> ustring" where
  "buildTelegramSummary isof event =
     (let envelope = nullish_obj (ev_payload event);
          channel = (case as_string (own envelope (lit ''channel'')) of
                       Some c \<Rightarrow> c
                     | None \<Rightarrow> (case ev_channelType event of Some c \<Rightarrow> channel_name c | None \<Rightarrow> [8212]));
          time = (case as_string (own envelope (lit ''time'')) of
                    Some t \<Rightarrow> t | None \<Rightarrow> isof (ev_createdAt event))
      in join_with [10] [[1055, 1086, 1076, 1110, 1103] @ lit '' UMG'', [1058, 1080, 1087, 58, 32] @
     ev_eventType event,
           [1050, 1072, 1085, 1072, 1083, 58, 32] @ channel, [1063, 1072, 1089, 58, 32] @ time])"

definition deliverTelegram :: "delivery_env \<Rightarrow> event_row \<Rightarrow> destination_row \<Rightarrow> delivery_outcome" where
  "deliverTelegram env event dest =
     (let config = nullish_obj (de_config dest);
          token = own config (lit ''botToken''); chat = own config (lit ''chatId'')
      in if \<not> truthy_opt token \<or> chat = None \<or> chat = Some JNull \<or> chat = Some (JStr [])
         then failure True TelegramNotConfigured
         else read_response TelegramPermanent TelegramTemporary TelegramNetwork
           (en_fetch env
             \<lparr>rq_url = lit ''https://api.telegram.org/bot'' @ to_text (en_fmt env) (the token)
                @ lit ''/sendMessage'',
              rq_headers = [(lit ''Content-Type'', lit ''application/json'')],
              rq_body = stringify (en_fmt env) (JObj [(lit ''chat_id'', the chat),
                (lit ''text'', JStr (buildTelegramSummary (en_iso env) event))]),
              rq_timeout = de_timeoutMs dest\<rparr>))"

definition mail_of :: "delivery_env \<Rightarrow> json \<Rightarrow> json list \<Rightarrow> delivery_row \<Rightarrow> event_row \<Rightarrow> destination_row \<Rightarrow> mail" where
  "mail_of env smtp recipients delivery event dest =
     \<lparr>ml_host = the (own smtp (lit ''host'')), ml_port = the (own smtp (lit ''port'')),
      ml_secure = nullish_or (own smtp (lit ''secure'')) (JBool False),
      ml_auth = (if truthy_opt (own smtp (lit ''user''))
                 then Some (the (own smtp (lit ''user'')), nullish_or (own smtp (lit ''pass'')) (JStr []))
                 else None),
      ml_timeout = de_timeoutMs dest,
      ml_from = [34] @ to_text (en_fmt env) (nullish_or (own smtp (lit ''fromName'')) (JStr (lit ''UMG'')))
        @ [34] @ lit '' <'' @ to_text (en_fmt env) (the (own smtp (lit ''fromAddress''))) @ lit ''>'',
      ml_to = array_join (en_fmt env) (lit '', '') recipients,
      ml_subject = lit ''[UMG] '' @ ev_eventType event,
      ml_text = pretty (en_fmt env) (nullish_or (dl_request delivery) (ev_payload event)) 0\<rparr>"

definition deliverEmail :: "delivery_env \<Rightarrow> db \<Rightarrow> delivery_row \<Rightarrow> event_row \<Rightarrow> destination_row \<Rightarrow> delivery_outcome" where
  "deliverEmail env d delivery event dest =
     (case own (nullish_obj (de_config dest)) (lit ''recipients'') of
        Some (JArr recipients) \<Rightarrow>
          (if recipients = [] then failure True NoEmailRecipients
           else let setting = map_of (settings d) (lit ''smtp'');
                    smtp = nullish_obj (case setting of Some v \<Rightarrow> v | None \<Rightarrow> JNull)
                in if setting = None \<or> \<not> truthy_opt (own smtp (lit ''host''))
                      \<or> \<not> truthy_opt (own smtp (lit ''port'')) \<or> \<not> truthy_opt (own smtp (lit ''fromAddress''))
                   then failure True SmtpNotConfigured
                   else (case en_sendMail env (mail_of env smtp recipients delivery event dest) of
                           None \<Rightarrow> success None None
                         | Some m \<Rightarrow> failure False (EmailSendFailed m)))
      | _ \<Rightarrow> failure True NoEmailRecipients)"

fun executeDelivery :: "destination_type \<Rightarrow> delivery_env \<Rightarrow> db \<Rightarrow> delivery_row \<Rightarrow> event_row \<Rightarrow> destination_row \<Rightarrow> nat \<Rightarrow> delivery_outcome" where
  "executeDelivery webhook env d delivery event dest attemptHeader =
     deliverWebhook env delivery event dest attemptHeader"
| "executeDelivery telegram env d delivery event dest attemptHeader = deliverTelegram env event dest"
| "executeDelivery email env d delivery event dest attemptHeader = deliverEmail env d delivery event dest"
| "executeDelivery internal_log env d delivery event dest attemptHeader = success None None"

section \<open>The processor\<close>

definition set_delivery :: "ustring \<Rightarrow> (delivery_row \<Rightarrow> delivery_row) \<Rightarrow> db \<Rightarrow> db" where
  "set_delivery i f d = deliveries_update (update_where (\<lambda>r. dl_id r = i) f) d"

definition max_attempts :: "delivery_row \<Rightarrow> nat" where
  "max_attempts delivery = (if dl_maxAttempts delivery = 0 then 5 else dl_maxAttempts delivery)"

definition retry_delay :: "nat \<Rightarrow> int" where
  "retry_delay attemptCount =
     RETRY_SCHEDULE_SECONDS ! min (attemptCount - 1) (length RETRY_SCHEDULE_SECONDS - 1)"

definition dead_letter_event :: "delivery_row \<Rightarrow> delivery_error \<Rightarrow> nat \<Rightarrow> emit_params" where
  "dead_letter_event delivery lastError attemptCount =
     \<lparr>em_type = lit ''webhook.dead_lettered'', em_aggregateId = Some (dl_id delivery),
      em_channel = None, em_accountId = None, em_endpointId = None,
      em_data = JObj [(lit ''deliveryId'', JStr (dl_id delivery)), (lit ''eventId'', JStr (dl_eventId delivery)),
        (lit ''destinationId'', JStr (dl_destinationId delivery)), (lit ''error'', JStr (error_text lastError)),
        (lit ''attempts'', JNum (of_nat attemptCount))],
      em_dedupKey = Some (lit ''dlq-'' @ dl_id delivery @ lit ''-webhook.dead_lettered'')\<rparr>"

definition dead_letter_alert :: "delivery_row \<Rightarrow> event_row \<Rightarrow> destination_row \<Rightarrow> delivery_error \<Rightarrow> raise_params" where
  "dead_letter_alert delivery event dest lastError =
     \<lparr>ra_fingerprint = lit ''webhook-dlq:'' @ dl_destinationId delivery,
      ra_ruleKey = lit ''webhook.dead_lettered'', ra_severity = lit ''warning'',
      ra_title = WebhookDeadLettered,
      ra_message = DeliveryFailedAfter (ev_eventType event) (de_name dest) (max_attempts delivery),
      ra_payload = Some (JObj [(lit ''deliveryId'', JStr (dl_id delivery)),
        (lit ''eventId'', JStr (dl_eventId delivery)), (lit ''destinationId'', JStr (dl_destinationId delivery)),
        (lit ''error'', JStr (error_text lastError))])\<rparr>"

definition handleTemporaryFailure ::
  "delivery_env \<Rightarrow> delivery_row \<Rightarrow> event_row \<Rightarrow> destination_row \<Rightarrow> delivery_outcome \<Rightarrow> int \<Rightarrow> db \<Rightarrow> db" where
  "handleTemporaryFailure env delivery event dest outcome durationMs d =
     (let attemptCount = dl_attemptCount delivery + 1;
          lastError = (case oc_error outcome of Some e \<Rightarrow> e | None \<Rightarrow> UnknownFailure)
      in if attemptCount < max_attempts delivery
         then let delaySeconds = retry_delay attemptCount;
                  d1 = set_delivery (dl_id delivery)
                    (\<lambda>r. r\<lparr>dl_status := d_pending, dl_attemptCount := attemptCount,
                           dl_nextAttemptAt := Some (en_done env + delaySeconds * 1000),
                           dl_lastError := Some lastError, dl_lastResponseCode := oc_statusCode outcome,
                           dl_durationMs := Some durationMs,
                           dl_response := Some (responseSnapshot outcome)\<rparr>) d
              in d1\<lparr>webhook_jobs := webhook_jobs d1 @
                    [\<lparr>wj_deliveryId = dl_id delivery,
                      wj_jobId = dl_id delivery @ lit ''-retry-'' @ dec_str attemptCount,
                      wj_delay = delaySeconds * 1000\<rparr>]\<rparr>
         else let d1 = set_delivery (dl_id delivery)
                    (\<lambda>r. r\<lparr>dl_status := d_dlq, dl_attemptCount := attemptCount,
                           dl_nextAttemptAt := None, dl_lastError := Some lastError,
                           dl_lastResponseCode := oc_statusCode outcome,
                           dl_durationMs := Some durationMs,
                           dl_response := Some (responseSnapshot outcome)\<rparr>) d;
                  d2 = snd (emit (en_iso env) (en_done env) (dead_letter_event delivery lastError attemptCount) d1)
              in raise_alert (en_done env) (dead_letter_alert delivery event dest lastError) d2)"

definition terminal_delivery :: "delivery_status \<Rightarrow> bool" where
  "terminal_delivery s \<longleftrightarrow> s = d_delivered \<or> s = d_dlq \<or> s = d_failed"

definition webhook_process :: "delivery_env \<Rightarrow> ustring \<Rightarrow> db \<Rightarrow> db" where
  "webhook_process env deliveryId d =
     (case dels.lookup d deliveryId of
        None \<Rightarrow> d
      | Some delivery \<Rightarrow>
          (case (evs.lookup d (dl_eventId delivery),
                 find (\<lambda>x. de_id x = dl_destinationId delivery) (destinations d)) of
             (Some event, Some dest) \<Rightarrow>
               if terminal_delivery (dl_status delivery) then d
               else let d1 = set_delivery deliveryId (\<lambda>r. r\<lparr>dl_status := d_delivering\<rparr>) d;
                        attemptHeader = dl_attemptCount delivery + 1;
                        outcome = executeDelivery (de_type dest) env d1 delivery event dest attemptHeader;
                        durationMs = en_done env - en_now env
                    in if oc_ok outcome
                       then set_delivery deliveryId
                         (\<lambda>r. r\<lparr>dl_status := d_delivered, dl_lastResponseCode := oc_statusCode outcome,
                                dl_lastError := None, dl_nextAttemptAt := None,
                                dl_durationMs := Some durationMs,
                                dl_response := Some (responseSnapshot outcome)\<rparr>) d1
                       else if oc_permanent outcome
                       then set_delivery deliveryId
                         (\<lambda>r. r\<lparr>dl_status := d_failed, dl_lastResponseCode := oc_statusCode outcome,
                                dl_lastError := Some (case oc_error outcome of Some e \<Rightarrow> e | None \<Rightarrow> PermanentFailure),
                                dl_nextAttemptAt := None, dl_durationMs := Some durationMs,
                                dl_response := Some (responseSnapshot outcome)\<rparr>) d1
                       else handleTemporaryFailure env delivery event dest outcome durationMs d1
           | _ \<Rightarrow> d))"

section \<open>Replay\<close>

datatype replay_error = DeliveryNotFound | DeliveryNotReplayable

definition REPLAYABLE :: "delivery_status list" where
  "REPLAYABLE = [d_dlq, d_failed, d_delivered]"

definition enqueueWebhookDelivery :: "ustring \<Rightarrow> db \<Rightarrow> db" where
  "enqueueWebhookDelivery deliveryId d = d\<lparr>webhook_jobs := webhook_jobs d @
     [\<lparr>wj_deliveryId = deliveryId, wj_jobId = deliveryId, wj_delay = 0\<rparr>]\<rparr>"

definition replay :: "ustring \<Rightarrow> ustring option \<Rightarrow> db \<Rightarrow> (replay_error + delivery_row) \<times> db" where
  "replay i actorId d =
     (case dels.lookup d i of
        None \<Rightarrow> (Inl DeliveryNotFound, d)
      | Some original \<Rightarrow>
          if dl_status original \<notin> set REPLAYABLE then (Inl DeliveryNotReplayable, d)
          else let (nid, d1) = fresh_id d;
                   fresh = \<lparr>dl_id = nid, dl_eventId = dl_eventId original,
                     dl_destinationId = dl_destinationId original, dl_status = d_pending,
                     dl_attemptCount = 0, dl_maxAttempts = 5, dl_nextAttemptAt = None,
                     dl_lastResponseCode = None, dl_lastError = None,
                     dl_request = (if dl_request original = Some JNull then None else dl_request original),
                     dl_response = None, dl_durationMs = None\<rparr>;
                   d2 = d1\<lparr>deliveries := deliveries d1 @ [fresh]\<rparr>
               in (Inr fresh,
                   audit_log actorId ''delivery.replayed'' ''delivery'' nid
                     (JObj [(lit ''replayedFrom'', JStr i)])
                     (JObj [(lit ''eventId'', JStr (dl_eventId fresh)),
                            (lit ''destinationId'', JStr (dl_destinationId fresh))])
                     (enqueueWebhookDelivery nid d2)))"

section \<open>Frame lemmas\<close>

lemma set_delivery_frame [simp]:
  "events (set_delivery i f d) = events d" "destinations (set_delivery i f d) = destinations d"
  "webhook_jobs (set_delivery i f d) = webhook_jobs d" "settings (set_delivery i f d) = settings d"
  "alerts (set_delivery i f d) = alerts d" "outbox (set_delivery i f d) = outbox d"
  by (simp_all add: set_delivery_def)

lemma emit_frame [simp]:
  "deliveries (snd (emit isof now p d)) = deliveries d" "webhook_jobs (snd (emit isof now p d)) = webhook_jobs d"
  "destinations (snd (emit isof now p d)) = destinations d" "settings (snd (emit isof now p d)) = settings d"
  "alerts (snd (emit isof now p d)) = alerts d"
  by (simp_all add: emit_def fresh_id_def Let_def split: option.split)

lemma raise_frame [simp]:
  "deliveries (raise_alert now p d) = deliveries d" "webhook_jobs (raise_alert now p d) = webhook_jobs d"
  "destinations (raise_alert now p d) = destinations d" "settings (raise_alert now p d) = settings d"
  "events (raise_alert now p d) = events d" "outbox (raise_alert now p d) = outbox d"
  by (simp_all add: raise_alert_def fresh_id_def Let_def split: option.split)

lemma dels_lookup_cong: "deliveries d' = deliveries d \<Longrightarrow> dels.lookup d' i = dels.lookup d i"
  by (simp add: dels.lookup_def)

lemma lookup_set_delivery:
  "(\<And>r. dl_id (f r) = dl_id r) \<Longrightarrow>
   dels.lookup (set_delivery i f d) j = (if i = j then map_option f (dels.lookup d j) else dels.lookup d j)"
  unfolding set_delivery_def by (rule dels.lookup_update)

lemma dels_lookup_id: "dels.lookup d i = Some r \<Longrightarrow> dl_id r = i"
  by (auto simp: dels.lookup_def dest: find_SomeD)

lemma events_kept: "\<exists>new. events (webhook_process env i d) = events d @ new"
  by (auto simp: webhook_process_def handleTemporaryFailure_def Let_def emit_events split: option.split)

lemma destinations_kept: "destinations (webhook_process env i d) = destinations d"
  by (auto simp: webhook_process_def handleTemporaryFailure_def Let_def split: option.split)

section \<open>One attempt\<close>

text \<open>The row after an attempt that was not skipped.\<close>

definition after_attempt :: "delivery_env \<Rightarrow> delivery_outcome \<Rightarrow> delivery_row \<Rightarrow> delivery_row" where
  "after_attempt env outcome r =
     (let n = Suc (dl_attemptCount r);
          e = (case oc_error outcome of Some e \<Rightarrow> e | None \<Rightarrow> UnknownFailure);
          r1 = r\<lparr>dl_lastResponseCode := oc_statusCode outcome, dl_response := Some (responseSnapshot outcome),
                 dl_durationMs := Some (en_done env - en_now env), dl_nextAttemptAt := None\<rparr>
      in if oc_ok outcome then r1\<lparr>dl_status := d_delivered, dl_lastError := None\<rparr>
         else if oc_permanent outcome
         then r1\<lparr>dl_status := d_failed,
                 dl_lastError := Some (case oc_error outcome of Some e \<Rightarrow> e | None \<Rightarrow> PermanentFailure)\<rparr>
         else if n < max_attempts r
         then r1\<lparr>dl_status := d_pending, dl_attemptCount := n, dl_lastError := Some e,
                 dl_nextAttemptAt := Some (en_done env + retry_delay n * 1000)\<rparr>
         else r1\<lparr>dl_status := d_dlq, dl_attemptCount := n, dl_lastError := Some e\<rparr>)"

definition attempt_outcome :: "delivery_env \<Rightarrow> db \<Rightarrow> delivery_row \<Rightarrow> event_row \<Rightarrow> destination_row \<Rightarrow> delivery_outcome" where
  "attempt_outcome env d r event dest =
     executeDelivery (de_type dest) env d r event dest (Suc (dl_attemptCount r))"

lemma deliverEmail_cong:
  assumes "settings d' = settings d"
  shows "deliverEmail env d' r e de = deliverEmail env d r e de"
  unfolding deliverEmail_def assms ..

lemma executeDelivery_cong:
  assumes "settings d' = settings d"
  shows "executeDelivery t env d' r e de n = executeDelivery t env d r e de n"
  by (cases t) (simp_all add: deliverEmail_cong [OF assms])

definition row_ready :: "db \<Rightarrow> delivery_row \<Rightarrow> event_row \<Rightarrow> destination_row \<Rightarrow> bool" where
  "row_ready d r event dest \<longleftrightarrow> evs.lookup d (dl_eventId r) = Some event
     \<and> find (\<lambda>x. de_id x = dl_destinationId r) (destinations d) = Some dest
     \<and> \<not> terminal_delivery (dl_status r)"

text \<open>The update of an attempt that ends the delivery or schedules the next one.\<close>

lemma process_lookup:
  assumes "dels.lookup d i = Some r" and "row_ready d r event dest"
  shows "dels.lookup (webhook_process env i d) i = Some (after_attempt env (attempt_outcome env d r event dest) r)"
  using assms
  by (simp add: webhook_process_def row_ready_def Let_def lookup_set_delivery handleTemporaryFailure_def
      after_attempt_def attempt_outcome_def dels_lookup_id executeDelivery_cong [OF set_delivery_frame(4)]
      dels_lookup_cong [OF raise_frame(1)] dels_lookup_cong [OF emit_frame(1)]
      dels_lookup_cong [of "d'\<lparr>webhook_jobs := w\<rparr>" d' for d' w])

lemma process_other:
  assumes "i \<noteq> j" shows "dels.lookup (webhook_process env i d) j = dels.lookup d j"
proof (cases "dels.lookup d i")
  case None
  then show ?thesis by (simp add: webhook_process_def)
next
  case (Some r)
  note [simp] = dels_lookup_id [OF Some] dels_lookup_cong [OF raise_frame(1)]
    dels_lookup_cong [OF emit_frame(1)] dels_lookup_cong [of "d'\<lparr>webhook_jobs := w\<rparr>" d' for d' w]
  show ?thesis using assms Some
    by (simp add: webhook_process_def Let_def lookup_set_delivery handleTemporaryFailure_def split: option.split)
qed

lemma process_skips:
  assumes "dels.lookup d i = Some r" and "terminal_delivery (dl_status r)"
  shows "webhook_process env i d = d"
  using assms by (simp add: webhook_process_def split: option.split)

section \<open>The life cycle of a delivery\<close>

text \<open>What the gateway does to deliveries: attempts, ticks of the outbox dispatcher, replays.\<close>

datatype delivery_action =
    Attempt delivery_env ustring
  | Tick "rat \<Rightarrow> ustring" int
  | Replay ustring "ustring option"

fun delivery_act :: "delivery_action \<Rightarrow> db \<Rightarrow> db" where
  "delivery_act (Attempt env i) d = webhook_process env i d"
| "delivery_act (Tick fmt now) d = dispatchOutbox fmt now d"
| "delivery_act (Replay i actor) d = snd (replay i actor d)"

fun attempts_row :: "delivery_action \<Rightarrow> ustring \<Rightarrow> bool" where
  "attempts_row (Attempt env i) j = (i = j)"
| "attempts_row _ j = False"

definition delivery_effort :: "delivery_row \<Rightarrow> nat" where
  "delivery_effort r = max 1 (max_attempts r - dl_attemptCount r)"

definition delivery_live :: "db \<Rightarrow> delivery_row \<Rightarrow> bool" where
  "delivery_live d r \<longleftrightarrow> evs.lookup d (dl_eventId r) \<noteq> None
     \<and> find (\<lambda>x. de_id x = dl_destinationId r) (destinations d) \<noteq> None"

lemma dels_lookup_append:
  "deliveries d' = deliveries d @ new \<Longrightarrow> dels.lookup d i = Some r \<Longrightarrow> dels.lookup d' i = Some r"
  by (simp add: dels.lookup_def find_append)

lemma dispatchOutbox_deliveries: "\<exists>new. deliveries (dispatchOutbox fmt now d) = deliveries d @ new"
  using dispatch_fold_deliveries unfolding dispatchOutbox_def by blast

lemma replay_deliveries: "\<exists>new. deliveries (snd (replay i actor d)) = deliveries d @ new"
  by (auto simp: replay_def Let_def fresh_id_def audit_log_frame enqueueWebhookDelivery_def split: option.split)

lemma evs_lookup_append:
  "events d' = events d @ new \<Longrightarrow> evs.lookup d i \<noteq> None \<Longrightarrow> evs.lookup d' i \<noteq> None"
  by (auto simp: evs.lookup_def find_append split: option.split)

lemma create_delivery_destinations: "destinations (create_delivery e de b d) = destinations d"
  by (simp add: create_delivery_def fresh_id_def)

lemma dispatch_dests_destinations:
  "destinations (snd (dispatch_dests fmt e sh des p env d)) = destinations d"
  by (induction fmt e sh des p env d rule: dispatch_dests.induct)
    (auto simp: create_delivery_destinations Let_def)

lemma dispatch_rules_destinations: "destinations (dispatch_rules fmt e rs env d) = destinations d"
proof (induction rs arbitrary: env d)
  case (Cons r rs)
  then show ?case by (auto simp: Let_def case_prod_beta dispatch_dests_destinations)
qed simp

lemma dispatchOutbox_destinations: "destinations (dispatchOutbox fmt now d) = destinations d"
proof -
  have "destinations (fold (dispatch_row fmt now) rows d) = destinations d" for rows d
    by (induction rows arbitrary: d)
      (auto simp: dispatch_row_def publish_def matchAndDispatch_def dispatch_rules_destinations split: option.split)
  then show ?thesis by (simp add: dispatchOutbox_def)
qed

lemma replay_frame:
  "events (snd (replay i actor d)) = events d" "destinations (snd (replay i actor d)) = destinations d"
  by (auto simp: replay_def Let_def fresh_id_def audit_log_def enqueueWebhookDelivery_def split: option.split)

lemma delivery_live_kept: "delivery_live d r \<Longrightarrow> delivery_live (delivery_act a d) r"
proof (cases a)
  case (Attempt env i)
  assume "delivery_live d r"
  moreover obtain new where "events (webhook_process env i d) = events d @ new" using events_kept by blast
  ultimately show ?thesis
    using Attempt evs_lookup_append [of "webhook_process env i d" d new]
    by (simp add: delivery_live_def destinations_kept del: not_None_eq)
next
  case (Tick fmt now)
  have "evs.lookup (dispatchOutbox fmt now d) = evs.lookup d"
    by (simp add: dispatchOutbox_def evs.lookup_def dispatch_fold_events fun_eq_iff)
  moreover assume "delivery_live d r"
  ultimately show ?thesis using Tick by (simp add: delivery_live_def dispatchOutbox_destinations)
next
  case (Replay i actor)
  assume "delivery_live d r"
  then show ?thesis using Replay by (simp add: delivery_live_def evs.lookup_def replay_frame)
qed

lemma after_attempt_keys [simp]:
  "dl_eventId (after_attempt env oc r) = dl_eventId r" "dl_destinationId (after_attempt env oc r) = dl_destinationId r"
  "dl_maxAttempts (after_attempt env oc r) = dl_maxAttempts r" "dl_request (after_attempt env oc r) = dl_request r"
  "dl_id (after_attempt env oc r) = dl_id r"
  by (simp_all add: after_attempt_def Let_def)

lemma after_attempt_effort:
  "terminal_delivery (dl_status (after_attempt env oc r)) \<or> delivery_effort (after_attempt env oc r) + 1 \<le> delivery_effort r"
  by (auto simp: after_attempt_def Let_def terminal_delivery_def delivery_effort_def max_attempts_def)

lemma delivery_act_other:
  assumes "dels.lookup d i = Some r" and "\<not> attempts_row a i"
  shows "dels.lookup (delivery_act a d) i = Some r"
proof (cases a)
  case (Attempt env j)
  with assms show ?thesis using process_other [of j i env d] by simp
next
  case (Tick fmt now)
  with assms show ?thesis using dispatchOutbox_deliveries dels_lookup_append by fastforce
next
  case (Replay j actor)
  with assms show ?thesis using replay_deliveries dels_lookup_append by fastforce
qed

interpretation dlv: bounded_lifecycle dels.lookup "\<lambda>r. terminal_delivery (dl_status r)" delivery_act
  attempts_row delivery_live delivery_effort
proof
  fix d :: db and i r and a
  assume r: "dels.lookup d i = Some r" "terminal_delivery (dl_status r)"
  show "dels.lookup (delivery_act a d) i = Some r"
  proof (cases "attempts_row a i")
    case True
    with r process_skips [OF r] show ?thesis by (cases a) auto
  qed (rule delivery_act_other [OF r(1)])
next
  fix r :: delivery_row
  assume "\<not> terminal_delivery (dl_status r)"
  show "0 < delivery_effort r" by (simp add: delivery_effort_def)
next
  fix d :: db and i r and a
  assume r: "dels.lookup d i = Some r" "delivery_live d r" "\<not> terminal_delivery (dl_status r)"
  have live: "delivery_live (delivery_act a d) r" by (rule delivery_live_kept [OF r(2)])
  show "\<exists>r'. dels.lookup (delivery_act a d) i = Some r' \<and> (terminal_delivery (dl_status r') \<or>
      delivery_live (delivery_act a d) r' \<and> delivery_effort r' + (if attempts_row a i then 1 else 0) \<le> delivery_effort r)"
  proof (cases "attempts_row a i")
    case False
    with delivery_act_other [OF r(1) False] live show ?thesis by auto
  next
    case True
    then obtain env where a: "a = Attempt env i" by (cases a) auto
    from r obtain e de where "row_ready d r e de" by (auto simp: row_ready_def delivery_live_def)
    from process_lookup [OF r(1) this] live show ?thesis
      using after_attempt_effort [of env _ r] a by (force simp: delivery_live_def)
  qed
qed

section \<open>Properties\<close>

text \<open>A concrete run: a webhook that cannot be reached.\<close>

definition down_env :: delivery_env where
  "down_env = \<lparr>en_fetch = (\<lambda>q. FetchError (lit ''ECONNREFUSED'')), en_sendMail = (\<lambda>m. None),
     en_hmac = (\<lambda>k m. k), en_fmt = (\<lambda>r. []), en_iso = (\<lambda>t. []), en_now = 1000, en_done = 2000\<rparr>"

definition sample_dest :: destination_row where
  "sample_dest = \<lparr>de_id = lit ''t'', de_name = lit ''crm'', de_type = webhook, de_enabled = True,
     de_url = Some (lit ''http://crm''), de_secretEnc = Some (lit ''s''), de_config = JNull,
     de_fieldSelector = JNull, de_template = None, de_timeoutMs = 10000\<rparr>"

definition sample_event :: event_row where
  "sample_event = event_of sample_params (lit ''e'') JNull 0"

definition sample_delivery :: "delivery_status \<Rightarrow> nat \<Rightarrow> delivery_row" where
  "sample_delivery s n = (new_delivery sample_event sample_dest JNull (lit ''d''))\<lparr>dl_status := s, dl_attemptCount := n\<rparr>"

definition delivery_db :: "delivery_row \<Rightarrow> db" where
  "delivery_db r = (empty_db tick_ids)\<lparr>events := [sample_event], destinations := [sample_dest], deliveries := [r]\<rparr>"

lemmas sample_defs = delivery_db_def sample_delivery_def sample_event_def sample_dest_def new_delivery_def event_of_def

lemma sample_lookup: "dels.lookup (delivery_db (sample_delivery s n)) (lit ''d'') = Some (sample_delivery s n)"
  by (simp add: sample_defs dels.lookup_def)

lemma sample_live: "delivery_live (delivery_db (sample_delivery s n)) (sample_delivery s n)"
  by (simp add: sample_defs delivery_live_def evs.lookup_def)

lemma sample_ready: "row_ready (delivery_db (sample_delivery d_pending n)) (sample_delivery d_pending n) sample_event sample_dest"
  by (simp add: sample_defs row_ready_def evs.lookup_def terminal_delivery_def)

lemma sample_outcome: "attempt_outcome down_env d r sample_event sample_dest = failure False (NetworkOrTimeout (lit ''ECONNREFUSED''))"
  by (simp add: attempt_outcome_def sample_dest_def deliverWebhook_def http_url_def down_env_def read_response_def
      lower_cp_def starts_with_def lit_def)


text \<open>
  C4. A finished delivery is finished: once delivered, failed or dead-lettered, its row is
  the same after any sequence of attempts (of this or other deliveries, as when a job is
  handed out twice), dispatcher ticks and replays.
\<close>

theorem terminal_delivery_is_final:
  assumes "dels.lookup d i = Some r" and "terminal_delivery (dl_status r)"
  shows "dels.lookup (fold delivery_act as d) i = Some r"
  using assms by (rule dlv.final_forever)

theorem terminal_delivery_is_final_witness:
  "dels.lookup (fold delivery_act [Attempt down_env (lit ''d''), Replay (lit ''d'') None, Attempt down_env (lit ''d'')]
     (delivery_db (sample_delivery d_delivered 2))) (lit ''d'') = Some (sample_delivery d_delivered 2)"
  by (rule terminal_delivery_is_final [OF sample_lookup]) (simp add: sample_delivery_def terminal_delivery_def)



text \<open>
  C5. After an attempt exactly one thing continues the delivery: a delivery left pending
  has one new job, for itself, delayed by the scheduled backoff until its next attempt time
  and named after the number of failed attempts; a finished one has no new job. It is never
  left in the delivering state.
\<close>

theorem attempt_continues_once:
  assumes "dels.lookup d i = Some r" and "row_ready d r event dest"
  shows "\<exists>r'. dels.lookup (webhook_process env i d) i = Some r' \<and>
    (if dl_status r' = d_pending
     then dl_attemptCount r' = Suc (dl_attemptCount r) \<and> dl_attemptCount r' < max_attempts r'
       \<and> dl_nextAttemptAt r' = Some (en_done env + retry_delay (dl_attemptCount r') * 1000)
       \<and> webhook_jobs (webhook_process env i d) = webhook_jobs d @
           [\<lparr>wj_deliveryId = i, wj_jobId = i @ lit ''-retry-'' @ dec_str (dl_attemptCount r'),
             wj_delay = retry_delay (dl_attemptCount r') * 1000\<rparr>]
     else terminal_delivery (dl_status r') \<and> dl_nextAttemptAt r' = None
       \<and> webhook_jobs (webhook_process env i d) = webhook_jobs d)"
proof -
  let ?o = "attempt_outcome env d r event dest"
  have jobs: "webhook_jobs (webhook_process env i d) = webhook_jobs d @
      (if \<not> oc_ok ?o \<and> \<not> oc_permanent ?o \<and> Suc (dl_attemptCount r) < max_attempts r
       then [\<lparr>wj_deliveryId = i, wj_jobId = i @ lit ''-retry-'' @ dec_str (Suc (dl_attemptCount r)),
              wj_delay = retry_delay (Suc (dl_attemptCount r)) * 1000\<rparr>] else [])"
    using assms
    by (simp add: webhook_process_def row_ready_def Let_def handleTemporaryFailure_def
        attempt_outcome_def dels_lookup_id executeDelivery_cong [OF set_delivery_frame(4)])
  show ?thesis
    unfolding process_lookup [OF assms] jobs
    by (simp add: after_attempt_def Let_def terminal_delivery_def max_attempts_def)
qed

theorem attempt_continues_once_witness:
  "webhook_jobs (webhook_process down_env (lit ''d'') (delivery_db (sample_delivery d_pending 0))) =
     [\<lparr>wj_deliveryId = lit ''d'', wj_jobId = lit ''d-retry-1'', wj_delay = 60000\<rparr>]"
proof -
  let ?r = "after_attempt down_env (failure False (NetworkOrTimeout (lit ''ECONNREFUSED''))) (sample_delivery d_pending 0)"
  have r: "dl_status ?r = d_pending" "dl_attemptCount ?r = 1"
    by (simp_all add: after_attempt_def failure_def sample_delivery_def new_delivery_def max_attempts_def Let_def)
  note look = process_lookup [OF sample_lookup sample_ready, of down_env 0, unfolded sample_outcome]
  have "webhook_jobs (delivery_db (sample_delivery d_pending 0)) = []"
    by (simp add: delivery_db_def empty_db_def)
  with attempt_continues_once [OF sample_lookup sample_ready, of down_env 0] r
  have "webhook_jobs (webhook_process down_env (lit ''d'') (delivery_db (sample_delivery d_pending 0))) =
     [\<lparr>wj_deliveryId = lit ''d'', wj_jobId = lit ''d'' @ lit ''-retry-'' @ dec_str 1,
       wj_delay = retry_delay 1 * 1000\<rparr>]"
    unfolding look by (simp split: if_splits)
  then show ?thesis by (simp add: retry_delay_def RETRY_SCHEDULE_SECONDS_def dec_str.simps lit_def)
qed

text \<open>
  A dead letter is reported: when an attempt leaves a delivery dead-lettered, the
  attempts are used up, an event webhook.dead_lettered with the delivery's key is stored and
  an alert for its destination is firing.
\<close>

theorem dead_letter_reported:
  assumes "dels.lookup d i = Some r" and "row_ready d r event dest"
    and "dels.lookup (webhook_process env i d) i = Some r'" and "dl_status r' = d_dlq"
  shows "max_attempts r \<le> dl_attemptCount r'
    \<and> has_key (lit ''dlq-'' @ i @ lit ''-webhook.dead_lettered'') (webhook_process env i d)
    \<and> firing_alert (lit ''webhook-dlq:'' @ dl_destinationId r) (webhook_process env i d) \<noteq> None"
proof -
  let ?o = "attempt_outcome env d r event dest"
  from assms have r': "r' = after_attempt env ?o r" by (simp add: process_lookup)
  from assms(4) have c: "\<not> oc_ok ?o" "\<not> oc_permanent ?o" "\<not> Suc (dl_attemptCount r) < max_attempts r"
    by (auto simp: r' after_attempt_def Let_def split: if_splits)
  then have count: "max_attempts r \<le> dl_attemptCount r'" by (simp add: r' after_attempt_def Let_def)
  let ?e = "case oc_error ?o of Some e \<Rightarrow> e | None \<Rightarrow> UnknownFailure"
  obtain d1 where d': "webhook_process env i d = raise_alert (en_done env) (dead_letter_alert r event dest ?e)
      (snd (emit (en_iso env) (en_done env) (dead_letter_event r ?e (Suc (dl_attemptCount r))) d1))"
    using assms(1,2) c
    by (simp add: webhook_process_def row_ready_def Let_def handleTemporaryFailure_def
        attempt_outcome_def dels_lookup_id executeDelivery_cong [OF set_delivery_frame(4)])
  have "em_dedupKey (dead_letter_event r ?e n) = Some (lit ''dlq-'' @ i @ lit ''-webhook.dead_lettered'')" for n
    using dels_lookup_id [OF assms(1)] by (simp add: dead_letter_event_def)
  then have "has_key (lit ''dlq-'' @ i @ lit ''-webhook.dead_lettered'') (webhook_process env i d)"
    unfolding d' has_key_def dedup_keys_def raise_frame(5)
    by (rule worker_sink.stored [unfolded has_key_def dedup_keys_def]) simp
  moreover have "firing_alert (lit ''webhook-dlq:'' @ dl_destinationId r) (webhook_process env i d) \<noteq> None"
    using raise_alert_fires [of "dead_letter_alert r event dest ?e"] by (simp add: d' dead_letter_alert_def)
  ultimately show ?thesis using count by blast
qed

theorem dead_letter_reported_witness:
  "has_key (lit ''dlq-d-webhook.dead_lettered'')
     (webhook_process down_env (lit ''d'') (delivery_db (sample_delivery d_pending 4)))"
proof -
  note look = process_lookup [OF sample_lookup sample_ready, of down_env 4, unfolded sample_outcome]
  have "dl_status (after_attempt down_env (failure False e) (sample_delivery d_pending 4)) = d_dlq" for e
    by (simp add: after_attempt_def failure_def sample_delivery_def new_delivery_def max_attempts_def Let_def)
  from dead_letter_reported [OF sample_lookup sample_ready look this] show ?thesis
    by (simp add: lit_def)
qed



text \<open>
  A replay is a new delivery: only a finished delivery is replayed; the replay appends
  one pending delivery with a new identifier, no attempts used, the same event, destination
  and body, and one immediate job for it; every existing delivery stays as it is.
\<close>

theorem replay_is_new_delivery:
  "case replay i actor d of
     (Inl DeliveryNotFound, d') \<Rightarrow> dels.lookup d i = None \<and> d' = d
   | (Inl DeliveryNotReplayable, d') \<Rightarrow> (\<exists>r. dels.lookup d i = Some r \<and> \<not> terminal_delivery (dl_status r)) \<and> d' = d
   | (Inr new, d') \<Rightarrow> (\<exists>r. dels.lookup d i = Some r \<and> terminal_delivery (dl_status r)
        \<and> dl_eventId new = dl_eventId r \<and> dl_destinationId new = dl_destinationId r
        \<and> bodyOf fmt new event = bodyOf fmt r event)
      \<and> dl_status new = d_pending \<and> dl_attemptCount new = 0 \<and> dl_id new = fst (fresh_id d)
      \<and> deliveries d' = deliveries d @ [new]
      \<and> webhook_jobs d' = webhook_jobs d @ [\<lparr>wj_deliveryId = dl_id new, wj_jobId = dl_id new, wj_delay = 0\<rparr>]"
  by (auto simp: replay_def Let_def fresh_id_def audit_log_frame enqueueWebhookDelivery_def REPLAYABLE_def
      terminal_delivery_def bodyOf_def split: option.split)

end
