(* ===== verification/Conversations.thy ===== *)
theory Conversations
  imports Events "HOL-Library.List_Lexorder" "HOL-Library.Product_Lexorder"
begin

text \<open>
  Conversations: how a message finds or opens its thread in the API
  (apps/api/src/messages/messages.service.ts) and in the worker
  (apps/worker/src/inbound/inbound-ingest.service.ts), and how a thread is read back
  (apps/api/src/conversations/conversations.service.ts). Between the lookup and the insert
  another process may change the database: \<open>race\<close> is what it does. The unique index on
  endpoint and peer number makes the insert fail; SQL nulls never clash. A result \<open>None\<close> is
  the exception that is rethrown.
\<close>

section \<open>Finding or opening a thread\<close>

text \<open>The two forms of the query: by number when there is one, else by the peer's raw name.\<close>

definition thread_where :: "ustring \<Rightarrow> ustring option \<Rightarrow> ustring option \<Rightarrow> conversation_row \<Rightarrow> bool" where
  "thread_where endpointId phone peer c \<longleftrightarrow> cv_endpointId c = endpointId \<and>
     (if truthy_str phone then cv_peerPhone c = phone else cv_peerId c = peer)"

definition phone_taken :: "ustring \<Rightarrow> ustring option \<Rightarrow> db \<Rightarrow> bool" where
  "phone_taken endpointId phone d \<longleftrightarrow>
     phone \<noteq> None \<and> list_ex (\<lambda>c. cv_endpointId c = endpointId \<and> cv_peerPhone c = phone) (conversations d)"

definition create_conversation ::
  "int \<Rightarrow> ustring \<Rightarrow> channel_type \<Rightarrow> ustring option \<Rightarrow> ustring option \<Rightarrow> db \<Rightarrow> (conversation_row \<times> db) option" where
  "create_conversation now endpointId channel phone peer d =
     (if phone_taken endpointId phone d then None
      else let (cid, d') = fresh_id d;
               c = \<lparr>cv_id = cid, cv_channelType = channel, cv_endpointId = endpointId, cv_peerId = peer,
                    cv_peerPhone = phone, cv_lastMessageAt = Some now\<rparr>
           in Some (c, d'\<lparr>conversations := conversations d' @ [c]\<rparr>))"

text \<open>The worker's version.\<close>

definition findOrCreateConversation ::
  "(db \<Rightarrow> db) \<Rightarrow> int \<Rightarrow> ustring \<Rightarrow> channel_type \<Rightarrow> ustring option \<Rightarrow> ustring option \<Rightarrow> db
   \<Rightarrow> conversation_row option \<times> db" where
  "findOrCreateConversation race now endpointId channel peerPhone peerRaw d =
     (case find (thread_where endpointId peerPhone peerRaw) (conversations d) of
        Some existing \<Rightarrow> (Some existing, d)
      | None \<Rightarrow>
          (let d1 = race d in
           case create_conversation now endpointId channel peerPhone peerRaw d1 of
             Some (c, d2) \<Rightarrow> (Some c, d2)
           | None \<Rightarrow> (find (thread_where endpointId peerPhone peerRaw) (conversations d1), d1)))"

text \<open>The API's version, for the recipient of an outbound message.\<close>

definition api_findOrCreateConversation ::
  "(db \<Rightarrow> db) \<Rightarrow> int \<Rightarrow> ustring \<Rightarrow> channel_type \<Rightarrow> ustring \<Rightarrow> db \<Rightarrow> conversation_row option \<times> db" where
  "api_findOrCreateConversation race now endpointId channel to d =
     (let peer = toE164 to default_country in
      case find (thread_where endpointId peer (Some to)) (conversations d) of
        Some existing \<Rightarrow> (Some existing, d)
      | None \<Rightarrow>
          (let d1 = race d in
           case create_conversation now endpointId channel peer (Some to) d1 of
             Some (c, d2) \<Rightarrow> (Some c, d2)
           | None \<Rightarrow> (find (thread_where endpointId peer (Some to)) (conversations d1), d1)))"

section \<open>Reading a thread\<close>

definition errorSummary :: "json \<Rightarrow> (ustring \<times> ustring) option" where
  "errorSummary errorJson =
     (if \<not> is_object errorJson then None
      else let code = (case as_string (own errorJson (lit ''code'')) of Some s \<Rightarrow> s | None \<Rightarrow> []);
               message = (case as_string (own errorJson (lit ''message'')) of Some s \<Rightarrow> s | None \<Rightarrow> [])
           in if code = [] \<and> message = [] then None else Some (code, message))"

definition preview :: "json \<Rightarrow> ustring" where
  "preview content =
     (if \<not> is_object content then []
      else case as_string (own content (lit ''text'')) of Some s \<Rightarrow> take_units 200 s | None \<Rightarrow> [])"

definition message_order :: "message_row \<Rightarrow> int \<times> ustring" where
  "message_order m = (ms_createdAt m, ms_id m)"

definition thread_messages :: "ustring \<Rightarrow> db \<Rightarrow> message_row list" where
  "thread_messages cid d = filter (\<lambda>m. ms_conversationId m = Some cid) (messages d)"

text \<open>A page in chronological order, and the size of the thread; \<open>None\<close> is NotFound.\<close>

definition conversation_messages :: "ustring \<Rightarrow> nat \<Rightarrow> nat \<Rightarrow> db \<Rightarrow> (message_row list \<times> nat) option" where
  "conversation_messages cid n skip d =
     (case cvs.lookup d cid of
        None \<Rightarrow> None
      | Some c \<Rightarrow>
          (let newest_first = rev (sort_key message_order (thread_messages cid d))
           in Some (rev (take n (drop skip newest_first)), length (thread_messages cid d))))"

section \<open>The interface of opening a thread\<close>

text \<open>No two threads of one endpoint have the same peer number.\<close>

definition thread_keys :: "conversation_row list \<Rightarrow> (ustring \<times> ustring) list" where
  "thread_keys cs = List.map_filter (\<lambda>c. map_option (Pair (cv_endpointId c)) (cv_peerPhone c)) cs"

definition one_thread :: "db \<Rightarrow> bool" where
  "one_thread d \<longleftrightarrow> distinct (thread_keys (conversations d))"

definition thread_id :: "conversation_row \<Rightarrow> ustring \<times> ustring \<times> ustring option \<times> ustring option" where
  "thread_id c = (cv_id c, cv_endpointId c, cv_peerId c, cv_peerPhone c)"

lemma thread_keys_append: "thread_keys (cs @ ds) = thread_keys cs @ thread_keys ds"
  by (simp add: thread_keys_def List.map_filter_def)

lemma thread_keys_iff:
  "(e, ph) \<in> set (thread_keys cs) \<longleftrightarrow> (\<exists>c\<in>set cs. cv_endpointId c = e \<and> cv_peerPhone c = Some ph)"
proof (induction cs)
  case (Cons c cs)
  then show ?case by (cases "cv_peerPhone c") (auto simp: thread_keys_def map_filter_simps)
qed (simp add: thread_keys_def map_filter_simps)

lemma thread_keys_mem: "c \<in> set cs \<Longrightarrow> cv_peerPhone c = Some ph \<Longrightarrow> (cv_endpointId c, ph) \<in> set (thread_keys cs)"
  unfolding thread_keys_iff by blast

lemma thread_keys_alt:
  "thread_keys cs = List.map_filter (\<lambda>(i, e, p, ph). map_option (Pair e) ph) (map thread_id cs)"
  by (induction cs) (auto simp: thread_keys_def map_filter_simps thread_id_def split: option.split)

lemma thread_keys_cong: "map thread_id cs = map thread_id ds \<Longrightarrow> thread_keys cs = thread_keys ds"
  by (simp add: thread_keys_alt)

lemma thread_keys_inj:
  assumes "distinct (thread_keys cs)" and "c \<in> set cs" and "c' \<in> set cs"
    and "cv_endpointId c = e" "cv_peerPhone c = Some ph" "cv_endpointId c' = e" "cv_peerPhone c' = Some ph"
  shows "c = c'"
  using assms
proof (induction cs)
  case (Cons x cs)
  have k: "thread_keys (x # cs) = thread_keys [x] @ thread_keys cs"
    using thread_keys_append [of "[x]" cs] by simp
  have x: "cv_peerPhone x = Some ph \<Longrightarrow> thread_keys [x] = [(cv_endpointId x, ph)]"
    by (simp add: thread_keys_def map_filter_simps)
  from Cons.prems(1) have "distinct (thread_keys cs)" by (simp add: k)
  moreover have "(e, ph) \<notin> set (thread_keys cs)" if "cv_endpointId x = e" "cv_peerPhone x = Some ph"
    using Cons.prems(1) x [OF that(2)] that(1) by (simp add: k)
  ultimately show ?case
    using Cons.prems(2-) Cons.IH thread_keys_mem by fastforce
qed simp

lemma thread_filter_single:
  assumes "distinct (thread_keys cs)" and "c \<in> set cs" "cv_endpointId c = e" "cv_peerPhone c = Some ph"
  shows "filter (\<lambda>t. cv_endpointId t = e \<and> cv_peerPhone t = Some ph) cs = [c]"
  using assms
proof (induction cs)
  case (Cons x cs)
  have k: "thread_keys (x # cs) = thread_keys [x] @ thread_keys cs"
    using thread_keys_append [of "[x]" cs] by simp
  show ?case
  proof (cases "cv_endpointId x = e \<and> cv_peerPhone x = Some ph")
    case True
    with Cons.prems(1) have "(e, ph) \<notin> set (thread_keys cs)"
      by (simp add: k) (simp add: thread_keys_def map_filter_simps)
    then have "filter (\<lambda>t. cv_endpointId t = e \<and> cv_peerPhone t = Some ph) cs = []"
      by (auto simp: thread_keys_iff filter_empty_conv)
    moreover have "c = x" using thread_keys_inj [OF Cons.prems(1,2), of x] True Cons.prems(3,4) by simp
    ultimately show ?thesis using True by simp
  next
    case False
    with Cons.prems have "c \<in> set cs" "distinct (thread_keys cs)" by (auto simp: k)
    with Cons.IH Cons.prems(3,4) False show ?thesis by auto
  qed
qed simp

text \<open>A database reached later: threads are added, never changed in what identifies them.\<close>

definition threads_grow :: "db \<Rightarrow> db \<Rightarrow> bool" where
  "threads_grow d d' \<longleftrightarrow> (\<exists>new. map thread_id (conversations d') = map thread_id (conversations d) @ new)"

text \<open>
  What opening a thread promises, for a peer known by a number: it returns a thread of that
  endpoint and number, the one in the database if there is one, whatever happens in between.
\<close>

locale thread_opener =
  fixes open_thread :: "(db \<Rightarrow> db) \<Rightarrow> ustring \<Rightarrow> 'p \<Rightarrow> db \<Rightarrow> conversation_row option \<times> db"
    and peer_phone :: "'p \<Rightarrow> ustring option"
  assumes opened: "peer_phone p = Some ph \<Longrightarrow> \<exists>c. fst (open_thread race e p d) = Some c
      \<and> c \<in> set (conversations (snd (open_thread race e p d)))
      \<and> cv_endpointId c = e \<and> cv_peerPhone c = Some ph"
    and keeps_one: "one_thread d \<Longrightarrow> (\<And>d. one_thread d \<Longrightarrow> one_thread (race d)) \<Longrightarrow>
      one_thread (snd (open_thread race e p d))"
begin

lemma opened_single:
  assumes "one_thread d" and "\<And>d. one_thread d \<Longrightarrow> one_thread (race d)" and "peer_phone p = Some ph"
  shows "case open_thread race e p d of (c, d') \<Rightarrow> one_thread d' \<and>
    (\<exists>t. c = Some t \<and> filter (\<lambda>t. cv_endpointId t = e \<and> cv_peerPhone t = Some ph) (conversations d') = [t])"
proof -
  obtain c d' where r: "open_thread race e p d = (c, d')" by fastforce
  have "one_thread (snd (open_thread race e p d))"
    by (rule keeps_one [OF assms(1)]) (rule assms(2))
  then have one: "one_thread d'" by (simp add: r)
  from opened [OF assms(3), of race e d] r obtain t where
    t: "c = Some t" "t \<in> set (conversations d')" "cv_endpointId t = e" "cv_peerPhone t = Some ph" by auto
  from thread_filter_single [OF _ t(2-4)] one t(1) show ?thesis by (simp add: r one_thread_def)
qed

end

lemma threads_growD:
  assumes "threads_grow d d'" and "c \<in> set (conversations d)"
  shows "\<exists>c'\<in>set (conversations d'). thread_id c' = thread_id c"
proof -
  from assms(1) obtain new where "map thread_id (conversations d') = map thread_id (conversations d) @ new"
    by (auto simp: threads_grow_def)
  then have "thread_id c \<in> set (map thread_id (conversations d'))" using assms(2) by simp
  then show ?thesis by auto
qed

lemma find_own_thread:
  assumes "one_thread d" and "c \<in> set (conversations d)" and "cv_peerPhone c = Some ph" and "ph \<noteq> []"
  shows "find (thread_where (cv_endpointId c) (Some ph) peer) (conversations d) = Some c"
proof -
  obtain c' where f: "find (thread_where (cv_endpointId c) (Some ph) peer) (conversations d) = Some c'"
    using find_NoneD [OF _ assms(2), of "thread_where (cv_endpointId c) (Some ph) peer"] assms(3,4)
    by (cases "find (thread_where (cv_endpointId c) (Some ph) peer) (conversations d)") (auto simp: thread_where_def)
  from find_SomeD [OF f] assms have "c' = c"
    by (auto simp: one_thread_def thread_where_def intro: thread_keys_inj)
  with f show ?thesis by simp
qed

section \<open>Both sides implement it\<close>

lemma create_conversation_Some:
  assumes "create_conversation now e ch ph peer d = Some (c, d')"
  shows "conversations d' = conversations d @ [c] \<and> cv_endpointId c = e \<and> cv_peerPhone c = ph
    \<and> cv_peerId c = peer \<and> \<not> phone_taken e ph d"
  using assms by (auto simp: create_conversation_def fresh_id_def Let_def split: if_splits)

lemma create_conversation_None: "create_conversation now e ch ph peer d = None \<longleftrightarrow> phone_taken e ph d"
  by (simp add: create_conversation_def Let_def case_prod_beta)

lemma find_thread:
  assumes "find (thread_where e (Some ph) peer) (conversations d) = Some c" and "ph \<noteq> []"
  shows "c \<in> set (conversations d) \<and> cv_endpointId c = e \<and> cv_peerPhone c = Some ph"
  using find_SomeD [OF assms(1)] assms(2) by (simp add: thread_where_def)

lemma find_thread_taken:
  assumes "phone_taken e (Some ph) d" and "ph \<noteq> []"
  shows "find (thread_where e (Some ph) peer) (conversations d) \<noteq> None"
  using assms by (auto simp: phone_taken_def list_ex_iff find_None_iff thread_where_def)

lemma worker_opens:
  assumes "ph \<noteq> []"
  shows "\<exists>c. fst (findOrCreateConversation race now e ch (Some ph) peer d) = Some c
    \<and> c \<in> set (conversations (snd (findOrCreateConversation race now e ch (Some ph) peer d)))
    \<and> cv_endpointId c = e \<and> cv_peerPhone c = Some ph"
proof (cases "find (thread_where e (Some ph) peer) (conversations d)")
  case (Some c)
  then show ?thesis using find_thread [OF Some assms] by (simp add: findOrCreateConversation_def)
next
  case None
  show ?thesis
  proof (cases "create_conversation now e ch (Some ph) peer (race d)")
    case (Some p)
    then obtain c d' where "create_conversation now e ch (Some ph) peer (race d) = Some (c, d')" by (cases p) auto
    with None create_conversation_Some [OF this] show ?thesis by (simp add: findOrCreateConversation_def)
  next
    case taken: None
    then have "phone_taken e (Some ph) (race d)" by (simp only: create_conversation_None)
    then obtain c where c: "find (thread_where e (Some ph) peer) (conversations (race d)) = Some c"
      using find_thread_taken [OF _ assms] by blast
    with None taken find_thread [OF c assms] show ?thesis by (simp add: findOrCreateConversation_def Let_def)
  qed
qed

lemma thread_keys_snoc:
  "thread_keys (cs @ [c]) = thread_keys cs @ (case cv_peerPhone c of None \<Rightarrow> [] | Some ph \<Rightarrow> [(cv_endpointId c, ph)])"
  by (simp add: thread_keys_append) (simp add: thread_keys_def map_filter_simps split: option.split)

lemma phone_taken_iff: "phone_taken e (Some ph) d \<longleftrightarrow> (e, ph) \<in> set (thread_keys (conversations d))"
  by (auto simp: phone_taken_def list_ex_iff thread_keys_iff)

lemma create_conversation_one_thread:
  assumes "create_conversation now e ch ph peer d = Some (c, d')" and "one_thread d"
  shows "one_thread d'"
  using create_conversation_Some [OF assms(1)] assms(2)
  by (cases ph) (auto simp: one_thread_def thread_keys_snoc phone_taken_iff)

lemma worker_keeps_one:
  assumes "one_thread d" and "\<And>d. one_thread d \<Longrightarrow> one_thread (race d)"
  shows "one_thread (snd (findOrCreateConversation race now e ch ph peer d))"
  using assms create_conversation_one_thread
  by (auto simp: findOrCreateConversation_def Let_def split: option.split)

text \<open>The API opens the thread the worker would open for the recipient's number.\<close>

lemma api_is_worker:
  "api_findOrCreateConversation race now e ch to d =
     findOrCreateConversation race now e ch (toE164 to default_country) (Some to) d"
  by (simp add: api_findOrCreateConversation_def findOrCreateConversation_def Let_def)

definition known_phone :: "ustring option \<times> ustring option \<Rightarrow> ustring option" where
  "known_phone p = (if fst p = Some [] then None else fst p)"

interpretation worker_threads: thread_opener
  "\<lambda>race e (ph, raw) d. findOrCreateConversation race now e ch ph raw d" known_phone for now ch
proof
  fix p ph race e and d :: db
  assume "known_phone p = Some ph"
  then have "fst p = Some ph" "ph \<noteq> []" by (auto simp: known_phone_def split: if_splits)
  then show "\<exists>c. fst ((case p of (ph, raw) \<Rightarrow> findOrCreateConversation race now e ch ph raw) d) = Some c
      \<and> c \<in> set (conversations (snd ((case p of (ph, raw) \<Rightarrow> findOrCreateConversation race now e ch ph raw) d)))
      \<and> cv_endpointId c = e \<and> cv_peerPhone c = Some ph"
    using worker_opens by (simp add: case_prod_beta)
next
  fix d :: db and race :: "db \<Rightarrow> db" and e and p :: "ustring option \<times> ustring option"
  assume "one_thread d" "\<And>d. one_thread d \<Longrightarrow> one_thread (race d)"
  then show "one_thread (snd ((case p of (ph, raw) \<Rightarrow> findOrCreateConversation race now e ch ph raw) d))"
    using worker_keeps_one by (simp add: case_prod_beta)
qed

lemma toE164_not_Nil: "toE164 s default_country = Some ph \<Longrightarrow> ph \<noteq> []"
  using toE164_result_shape e164_shape_not_Nil by blast

interpretation api_threads: thread_opener
  "\<lambda>race e to d. api_findOrCreateConversation race now e ch to d" "\<lambda>to. toE164 to default_country" for now ch
  unfolding api_is_worker
  using worker_opens worker_keeps_one by unfold_locales (metis toE164_not_Nil, blast)

section \<open>Properties\<close>

text \<open>
  C12. One thread per peer: opening a thread, in the API or in the worker, keeps the threads
  of an endpoint distinct by peer number, and for a peer with a number it always yields the
  one thread of that endpoint and number, even when another process opens it in between.
\<close>

theorem one_thread_per_peer:
  assumes "one_thread d" and "\<And>d. one_thread d \<Longrightarrow> one_thread (race d)"
    and "toE164 to default_country = Some ph"
  shows "(case findOrCreateConversation race now e ch (Some ph) raw d of (c, d') \<Rightarrow> one_thread d' \<and>
      (\<exists>t. c = Some t \<and> filter (\<lambda>t. cv_endpointId t = e \<and> cv_peerPhone t = Some ph) (conversations d') = [t]))
    \<and> (case api_findOrCreateConversation race now e ch to d of (c, d') \<Rightarrow> one_thread d' \<and>
      (\<exists>t. c = Some t \<and> filter (\<lambda>t. cv_endpointId t = e \<and> cv_peerPhone t = Some ph) (conversations d') = [t]))"
proof
  have "known_phone (Some ph, raw) = Some ph"
    using toE164_not_Nil [OF assms(3)] by (simp add: known_phone_def)
  from worker_threads.opened_single [where race = race, OF assms(1) assms(2) this]
  show "case findOrCreateConversation race now e ch (Some ph) raw d of (c, d') \<Rightarrow> one_thread d' \<and>
      (\<exists>t. c = Some t \<and> filter (\<lambda>t. cv_endpointId t = e \<and> cv_peerPhone t = Some ph) (conversations d') = [t])"
    by simp
  show "case api_findOrCreateConversation race now e ch to d of (c, d') \<Rightarrow> one_thread d' \<and>
      (\<exists>t. c = Some t \<and> filter (\<lambda>t. cv_endpointId t = e \<and> cv_peerPhone t = Some ph) (conversations d') = [t])"
    by (rule api_threads.opened_single [OF assms])
qed

theorem one_thread_per_peer_witness:
  "\<exists>t. fst (api_findOrCreateConversation id 5 (lit ''e'') sms (lit ''0671112233'') (empty_db tick_ids)) = Some t
     \<and> cv_peerPhone t = Some (lit ''+380671112233'')"
proof -
  let ?d = "empty_db tick_ids"
  have one: "one_thread ?d" by (simp add: one_thread_def empty_db_def thread_keys_def map_filter_simps)
  have ph: "toE164 (lit ''0671112233'') default_country = Some (lit ''+380671112233'')"
    by (simp_all add: toE164_def makeAddress_def js_trim_def js_space_def e164_shape_def drop_int_prefix_def
        e164_of_digits_def string_simps is_digit_def starts_with_def is_ascii_letter_def Let_def)
  from one_thread_per_peer [OF one _ ph, where race = id and now = 5 and e = "lit ''e''" and ch = sms] obtain t where
    "fst (api_findOrCreateConversation id 5 (lit ''e'') sms (lit ''0671112233'') ?d) = Some t"
    "filter (\<lambda>t. cv_endpointId t = lit ''e'' \<and> cv_peerPhone t = Some (lit ''+380671112233''))
       (conversations (snd (api_findOrCreateConversation id 5 (lit ''e'') sms (lit ''0671112233'') ?d))) = [t]"
    by (auto simp: case_prod_beta)
  then show ?thesis by (auto dest!: arg_cong [of _ _ set])
qed



text \<open>
  A page of a thread is its latest messages in chronological order: the first page of
  size n holds the n newest messages (all of them if there are fewer), oldest first, and
  consecutive pages together are the thread.
\<close>

theorem thread_page_is_latest:
  assumes "cvs.lookup d cid \<noteq> None"
  shows "\<exists>page rest. conversation_messages cid n 0 d = Some (page, length (thread_messages cid d))
    \<and> sort_key message_order (thread_messages cid d) = rest @ page
    \<and> length page = min n (length (thread_messages cid d))
    \<and> sorted (map message_order page)
    \<and> (\<forall>m\<in>set page. \<forall>m'\<in>set rest. message_order m' \<le> message_order m)
    \<and> map_option fst (conversation_messages cid (length (thread_messages cid d)) n d) = Some rest"
proof -
  let ?s = "sort_key message_order (thread_messages cid d)"
  let ?page = "drop (length ?s - n) ?s" and ?rest = "take (length ?s - n) ?s"
  have split: "?s = ?rest @ ?page" by simp
  have "sorted (map message_order (?rest @ ?page))" by simp
  then have "sorted (map message_order ?page)" "\<forall>m\<in>set ?page. \<forall>m'\<in>set ?rest. message_order m' \<le> message_order m"
    unfolding map_append sorted_append by auto
  moreover have "conversation_messages cid n 0 d = Some (?page, length (thread_messages cid d))"
    using assms by (auto simp: conversation_messages_def rev_take)
  moreover have "map_option fst (conversation_messages cid (length (thread_messages cid d)) n d) = Some ?rest"
    using assms by (auto simp: conversation_messages_def rev_drop)
  ultimately show ?thesis using split by (intro exI [of _ ?page] exI [of _ ?rest]) simp
qed

definition thread_db :: db where
  "thread_db = snd (api_findOrCreateConversation id 5 (lit ''e'') sms (lit ''x'') (empty_db tick_ids))"

theorem thread_page_is_latest_witness:
  "conversation_messages [120] 20 0 thread_db = Some ([], 0)"
proof -
  have "conversations thread_db \<noteq> [] \<and> cv_id (hd (conversations thread_db)) = [120]" "messages thread_db = []"
    by (auto simp: thread_db_def api_findOrCreateConversation_def create_conversation_def phone_taken_def
        empty_db_def fresh_id_def tick_ids_def Let_def)
  then have "cvs.lookup thread_db [120] \<noteq> None" "thread_messages [120] thread_db = []"
    by (cases "conversations thread_db"; auto simp: cvs.lookup_def thread_messages_def)+
  from thread_page_is_latest [OF this(1), of 20] this(2) show ?thesis by auto
qed

end
