(* ===== verification/Sending.thy ===== *)
theory Sending
  imports Conversations Alerts
begin

text \<open>
  The outbound path: accepting a message in the API (apps/api/src/messages/messages.service.ts,
  apps/api/src/queue/queue.service.ts), dispatching it in the worker
  (apps/worker/src/processors/message-send.processor.ts), the scheduler of delayed messages
  and the reconciliation of stuck ones (apps/worker/src/schedulers). \<open>send_jobs\<close> is the log
  of the jobs added to the queue message.send and not removed from it. What the queue
  answers (whether a job exists, whether adding fails), what the adapter answers and what the
  disk holds are arguments.
\<close>

section \<open>The queue service\<close>

definition enqueueSend :: "ustring \<Rightarrow> ustring option \<Rightarrow> db \<Rightarrow> db" where
  "enqueueSend messageId jobIdSuffix d =
     d\<lparr>send_jobs := send_jobs d @
       [\<lparr>sj_messageId = messageId,
         sj_jobId = (if truthy_str jobIdSuffix then messageId @ lit ''-'' @ the jobIdSuffix else messageId),
         sj_attempts = None, sj_backoff = None\<rparr>]\<rparr>"

text \<open>\<open>removable\<close>: the queue has the job and no worker holds its lock. Otherwise the call
  does nothing or throws, and the caller ignores the exception.\<close>

definition removeSend :: "bool \<Rightarrow> ustring \<Rightarrow> db \<Rightarrow> db" where
  "removeSend removable messageId d =
     (if removable then d\<lparr>send_jobs := delete_where (\<lambda>j. sj_jobId j = messageId) (send_jobs d)\<rparr> else d)"

section \<open>Accepting a message\<close>

text \<open>The validated request. \<open>sd_body\<close> is the object itself with its properties in the order
  received; the other fields are what the code reads of it.\<close>

record send_dto =
  sd_channel :: channel_type
  sd_accountId :: "ustring option"
  sd_endpointId :: "ustring option"
  sd_to :: ustring
  sd_type :: message_type
  sd_content :: fields
  sd_attachments :: "ustring list option"
  sd_replyTo :: "ustring option"
  sd_scheduledAt :: "ustring option"
  sd_metadata :: "fields option"
  sd_body :: fields

record send_env =
  se_fmt :: "rat \<Rightarrow> ustring"
  se_iso :: "int \<Rightarrow> ustring"
  se_parseDate :: "ustring \<Rightarrow> int option"
  se_now :: int
  se_race :: "db \<Rightarrow> db"

record send_response =
  sr_id :: ustring
  sr_status :: message_status
  sr_scheduledAt :: "ustring option"
  sr_createdAt :: ustring

datatype send_error = NoActiveEndpoint | EndpointUnavailable | IdempotencyConflict
  | AttachmentMissing | AttachmentDeleted | ThreadFailed | InvalidSchedule | KeyTaken

definition pick_account :: "db \<Rightarrow> channel_type \<Rightarrow> account_row option" where
  "pick_account d channel =
     find (\<lambda>a. ac_type a = channel \<and> ac_status a = acc_active
               \<and> list_ex (\<lambda>e. ep_accountId e = ac_id a \<and> ep_enabled e) (endpoints d))
       (sort_key (\<lambda>a. - ac_createdAt a) (accounts d))"

definition enabled_endpoints :: "db \<Rightarrow> ustring \<Rightarrow> endpoint_row list" where
  "enabled_endpoints d acc =
     sort_key ep_createdAt (filter (\<lambda>e. ep_accountId e = acc \<and> ep_enabled e) (endpoints d))"

definition resolve_sender :: "db \<Rightarrow> send_dto \<Rightarrow> send_error + (ustring \<times> ustring)" where
  "resolve_sender d dto =
     (if \<not> truthy_str (sd_accountId dto) \<or> \<not> truthy_str (sd_endpointId dto)
      then (case pick_account d (sd_channel dto) of
              None \<Rightarrow> Inl NoActiveEndpoint
            | Some account \<Rightarrow>
                (case enabled_endpoints d (ac_id account) of
                   [] \<Rightarrow> Inl NoActiveEndpoint
                 | e # es \<Rightarrow> Inr (ac_id account, ep_id e)))
      else (case find (\<lambda>e. Some (ep_id e) = sd_endpointId dto \<and> Some (ep_accountId e) = sd_accountId dto
                        \<and> ep_enabled e) (endpoints d) of
              None \<Rightarrow> Inl EndpointUnavailable
            | Some e \<Rightarrow> Inr (the (sd_accountId dto), the (sd_endpointId dto))))"

definition assign_sender :: "ustring \<Rightarrow> ustring \<Rightarrow> send_dto \<Rightarrow> send_dto" where
  "assign_sender acc ep dto = dto\<lparr>sd_accountId := Some acc, sd_endpointId := Some ep,
     sd_body := obj_set (lit ''endpointId'') (JStr ep) (obj_set (lit ''accountId'') (JStr acc) (sd_body dto))\<rparr>"

definition hashRequest :: "(rat \<Rightarrow> ustring) \<Rightarrow> send_dto \<Rightarrow> ustring" where
  "hashRequest fmt dto =
     stringify fmt (JObj (obj_set (lit ''scheduledAt'') (opt_str (sd_scheduledAt dto)) (sd_body dto)))"

definition response_of :: "send_env \<Rightarrow> message_row \<Rightarrow> send_response" where
  "response_of env m = \<lparr>sr_id = ms_id m, sr_status = ms_status m,
     sr_scheduledAt = map_option (se_iso env) (ms_scheduledAt m), sr_createdAt = se_iso env (ms_createdAt m)\<rparr>"

definition check_attachments :: "ustring list \<Rightarrow> db \<Rightarrow> send_error option" where
  "check_attachments ids d =
     (let rows = filter (\<lambda>a. at_attId a \<in> set ids) (attachments d) in
      if ids = [] then None
      else if length rows \<noteq> length ids then Some AttachmentMissing
      else if list_ex (\<lambda>a. at_deletedAt a \<noteq> None) rows then Some AttachmentDeleted
      else None)"

definition queued_event :: "send_env \<Rightarrow> message_row \<Rightarrow> ustring \<Rightarrow> emit_params" where
  "queued_event env m to =
     \<lparr>em_type = lit ''message.queued'', em_aggregateId = Some (ms_id m),
      em_channel = Some (ms_channelType m), em_accountId = Some (ms_accountId m),
      em_endpointId = Some (ms_endpointId m),
      em_data = JObj [(lit ''message'', JObj [(lit ''id'', JStr (ms_id m)),
        (lit ''direction'', JStr (direction_name (ms_direction m))),
        (lit ''channelType'', JStr (channel_name (ms_channelType m))),
        (lit ''messageType'', JStr (type_name (ms_messageType m))),
        (lit ''status'', JStr (status_name (ms_status m))), (lit ''to'', JStr to),
        (lit ''scheduledAt'', opt_str (map_option (se_iso env) (ms_scheduledAt m)))])],
      em_dedupKey = Some (lit ''msg-'' @ ms_id m @ lit ''-message.queued'')\<rparr>"

definition outbound_row :: "send_env \<Rightarrow> send_dto \<Rightarrow> ustring \<Rightarrow> ustring \<Rightarrow> int option \<Rightarrow> message_row" where
  "outbound_row env dto mid cid sched =
     \<lparr>ms_id = mid, ms_direction = outbound, ms_channelType = sd_channel dto,
      ms_accountId = the (sd_accountId dto), ms_endpointId = the (sd_endpointId dto),
      ms_conversationId = Some cid, ms_externalId = None, ms_messageType = sd_type dto,
      ms_status = (if truthy_str (sd_scheduledAt dto) then scheduled else queued),
      ms_from = JObj [(lit ''raw'', JStr []), (lit ''e164'', JStr []), (lit ''display'', JStr [])],
      ms_to = JObj [(lit ''raw'', JStr (sd_to dto)), (lit ''e164'', JStr (sd_to dto)),
                    (lit ''display'', JStr (sd_to dto))],
      ms_content = JObj (obj_set (lit ''attachments'')
         (JArr (map JStr (remdups_first (case sd_attachments dto of Some ids \<Rightarrow> ids | None \<Rightarrow> [])))) (sd_content dto)),
      ms_metadata = JObj (obj_set (lit ''replyToMessageId'') (opt_str (sd_replyTo dto))
         (case sd_metadata dto of Some m \<Rightarrow> m | None \<Rightarrow> [])),
      ms_rawPayload = JObj (sd_body dto), ms_scheduledAt = sched,
      ms_createdAt = se_now env, ms_updatedAt = se_now env\<rparr>"

text \<open>The transaction; an error rolls it back.\<close>

definition store_message ::
  "send_env \<Rightarrow> send_dto \<Rightarrow> ustring option \<Rightarrow> ustring \<Rightarrow> ustring \<Rightarrow> ustring \<Rightarrow> db \<Rightarrow> (send_error + message_row) \<times> db" where
  "store_message env dto idempotencyKey requestHash requestId cid d =
     (let (mid, d1) = fresh_id d;
          sched = (if truthy_str (sd_scheduledAt dto) then se_parseDate env (the (sd_scheduledAt dto)) else None);
          ids = remdups_first (case sd_attachments dto of Some ids \<Rightarrow> ids | None \<Rightarrow> []);
          m = outbound_row env dto mid cid sched
      in if truthy_str (sd_scheduledAt dto) \<and> sched = None then (Inl InvalidSchedule, d)
         else if truthy_str idempotencyKey \<and> list_ex (\<lambda>k. ik_key k = the idempotencyKey) (idem_keys d)
         then (Inl KeyTaken, d)
         else let d2 = d1\<lparr>messages := messages d1 @ [m],
                history := history d1 @ [\<lparr>hi_messageId = mid, hi_status = ms_status m, hi_source = lit ''api'',
                  hi_payload = JObj [(lit ''requestId'', JStr requestId)]\<rparr>],
                conversations := update_where (\<lambda>c. cv_id c = cid) (\<lambda>c. c\<lparr>cv_lastMessageAt := Some (se_now env)\<rparr>)
                  (conversations d1),
                attachments := update_where (\<lambda>a. at_attId a \<in> set ids) (\<lambda>a. a\<lparr>at_msgId := Some mid\<rparr>) (attachments d1),
                idem_keys := idem_keys d1 @
                  (if truthy_str idempotencyKey
                   then [\<lparr>ik_key = the idempotencyKey, ik_requestHash = requestHash, ik_responseRef = mid,
                          ik_expiresAt = se_now env + 7 * 24 * 60 * 60 * 1000\<rparr>] else [])\<rparr>
              in (Inr m, snd (api_emit (se_iso env) (se_now env) (queued_event env m (sd_to dto)) d2)))"

definition known_request :: "ustring option \<Rightarrow> db \<Rightarrow> idempotency_row option" where
  "known_request key d = (if truthy_str key then find (\<lambda>k. ik_key k = the key) (idem_keys d) else None)"

text \<open>The rest of \<open>send\<close>, once the idempotency key has been looked up.\<close>

definition accept_message ::
  "send_env \<Rightarrow> send_dto \<Rightarrow> ustring option \<Rightarrow> ustring \<Rightarrow> db \<Rightarrow> (send_error + send_response) \<times> db" where
  "accept_message env dto idempotencyKey requestId d =
     (case check_attachments (remdups_first (case sd_attachments dto of Some ids \<Rightarrow> ids | None \<Rightarrow> [])) d of
        Some err \<Rightarrow> (Inl err, d)
      | None \<Rightarrow>
          (case api_findOrCreateConversation (se_race env) (se_now env) (the (sd_endpointId dto))
                  (sd_channel dto) (sd_to dto) d of
             (None, d1) \<Rightarrow> (Inl ThreadFailed, d1)
           | (Some conversation, d1) \<Rightarrow>
               (case store_message env dto idempotencyKey (hashRequest (se_fmt env) dto) requestId
                       (cv_id conversation) d1 of
                  (Inl err, d2) \<Rightarrow> (Inl err, d2)
                | (Inr m, d2) \<Rightarrow>
                    (Inr (response_of env m),
                     if truthy_str (sd_scheduledAt dto) then d2 else enqueueSend (ms_id m) None d2))))"

definition send :: "send_env \<Rightarrow> send_dto \<Rightarrow> ustring option \<Rightarrow> ustring \<Rightarrow> db \<Rightarrow> (send_error + send_response) \<times> db" where
  "send env dto idempotencyKey requestId d =
     (case resolve_sender d dto of
        Inl err \<Rightarrow> (Inl err, d)
      | Inr (acc, ep) \<Rightarrow>
          (let dto' = assign_sender acc ep dto in
           case known_request idempotencyKey d of
             None \<Rightarrow> accept_message env dto' idempotencyKey requestId d
           | Some existing \<Rightarrow>
               if ik_requestHash existing \<noteq> hashRequest (se_fmt env) dto' then (Inl IdempotencyConflict, d)
               else (case msgs.lookup d (ik_responseRef existing) of
                       Some m \<Rightarrow> (Inr (response_of env m), d)
                     | None \<Rightarrow> accept_message env dto' idempotencyKey requestId d)))"

section \<open>Retry and cancel\<close>

datatype message_error = MessageNotFound | WrongState

definition set_status :: "int \<Rightarrow> ustring \<Rightarrow> message_status \<Rightarrow> db \<Rightarrow> db" where
  "set_status now i s d = messages_update (update_where (\<lambda>m. ms_id m = i)
     (\<lambda>m. m\<lparr>ms_status := s, ms_updatedAt := now\<rparr>)) d"

definition add_history :: "ustring \<Rightarrow> message_status \<Rightarrow> ustring \<Rightarrow> json \<Rightarrow> db \<Rightarrow> db" where
  "add_history i s src payload d = d\<lparr>history := history d @
     [\<lparr>hi_messageId = i, hi_status = s, hi_source = src, hi_payload = payload\<rparr>]\<rparr>"

definition action_payload :: "string \<Rightarrow> ustring option \<Rightarrow> json" where
  "action_payload action actorId = JObj [(lit ''action'', JStr (lit action)), (lit ''actorId'', opt_str actorId)]"

definition status_json :: "message_status \<Rightarrow> json" where
  "status_json s = JObj [(lit ''status'', JStr (status_name s))]"

definition retry :: "int \<Rightarrow> ustring \<Rightarrow> ustring option \<Rightarrow> db \<Rightarrow> message_error option \<times> db" where
  "retry now i actorId d =
     (case msgs.lookup d i of
        None \<Rightarrow> (Some MessageNotFound, d)
      | Some m \<Rightarrow>
          if ms_status m \<noteq> failed \<and> ms_status m \<noteq> cancelled then (Some WrongState, d)
          else let d1 = add_history i queued (lit ''api'') (action_payload ''retry'' actorId) (set_status now i queued d);
                   d2 = enqueueSend i (Some (lit ''retry-'' @ dec_str (nat now))) d1
               in (None, audit_log actorId ''message.retried'' ''message'' i
                     (status_json (ms_status m)) (status_json queued) d2))"

definition cancel :: "bool \<Rightarrow> int \<Rightarrow> ustring \<Rightarrow> ustring option \<Rightarrow> db \<Rightarrow> message_error option \<times> db" where
  "cancel removable now i actorId d =
     (case msgs.lookup d i of
        None \<Rightarrow> (Some MessageNotFound, d)
      | Some m \<Rightarrow>
          if ms_status m \<noteq> scheduled \<and> ms_status m \<noteq> queued then (Some WrongState, d)
          else let d1 = add_history i cancelled (lit ''api'') (action_payload ''cancel'' actorId)
                          (set_status now i cancelled d);
                   d2 = removeSend removable i d1
               in (None, audit_log actorId ''message.cancelled'' ''message'' i
                     (status_json (ms_status m)) (status_json cancelled) d2))"

section \<open>The send processor\<close>

definition MAX_SEND_ATTEMPTS :: nat where
  "MAX_SEND_ATTEMPTS = 3"

record endpoint_config =
  ec_id :: ustring
  ec_externalId :: ustring
  ec_phoneE164 :: "ustring option"
  ec_label :: ustring
  ec_config :: json

record account_config =
  cc_id :: ustring
  cc_adapter :: ustring
  cc_config :: json

record out_attachment =
  oa_data :: "nat list"
  oa_mime :: ustring
  oa_filename :: ustring
  oa_size :: nat

record canonical_outbound =
  co_messageId :: ustring
  co_idempotencyKey :: ustring
  co_to :: canonical_address
  co_type :: ustring
  co_text :: ustring
  co_attachments :: "out_attachment list option"

record adapter_error =
  ae_code :: ustring
  ae_message :: ustring
  ae_retryable :: bool

record send_result =
  re_externalId :: "ustring option"
  re_accepted :: bool
  re_rawResponse :: json
  re_error :: "adapter_error option"

datatype send_answer = Answered send_result | Threw ustring

text \<open>\<open>pe_send\<close> is \<open>send\<close> of the adapter with the given name, \<open>pe_registered\<close> the names of the
  registry (which always has mock), \<open>pe_readFile\<close> the media directory.\<close>

record process_env =
  pe_iso :: "int \<Rightarrow> ustring"
  pe_now :: int
  pe_registered :: "ustring list"
  pe_send :: "ustring \<Rightarrow> canonical_outbound \<Rightarrow> endpoint_config \<Rightarrow> account_config \<Rightarrow> send_answer"
  pe_readFile :: "ustring \<Rightarrow> nat list option"

definition loadAttachments :: "process_env \<Rightarrow> ustring \<Rightarrow> db \<Rightarrow> out_attachment list option" where
  "loadAttachments env messageId d =
     (let rows = filter (\<lambda>a. at_msgId a = Some messageId \<and> at_deletedAt a = None) (attachments d);
          out = List.map_filter (\<lambda>a. map_option
                  (\<lambda>bytes. \<lparr>oa_data = bytes, oa_mime = at_mimeType a, oa_filename = at_fileName a,
                            oa_size = at_sizeBytes a\<rparr>) (pe_readFile env (at_storagePath a))) rows
      in if rows = [] then None else if out \<noteq> [] then Some out else None)"

definition message_event :: "ustring \<Rightarrow> message_row \<Rightarrow> fields \<Rightarrow> emit_params" where
  "message_event type m extraData =
     \<lparr>em_type = type, em_aggregateId = Some (ms_id m), em_channel = Some (ms_channelType m),
      em_accountId = Some (ms_accountId m), em_endpointId = Some (ms_endpointId m),
      em_data = JObj (spread [(lit ''message'', JObj [(lit ''id'', JStr (ms_id m)),
          (lit ''direction'', JStr (direction_name (ms_direction m))),
          (lit ''channelType'', JStr (channel_name (ms_channelType m))),
          (lit ''accountId'', JStr (ms_accountId m)), (lit ''endpointId'', JStr (ms_endpointId m)),
          (lit ''status'', JStr (status_name (ms_status m))),
          (lit ''externalId'', opt_str (ms_externalId m))])] extraData),
      em_dedupKey = Some (lit ''msg-'' @ ms_id m @ lit ''-'' @ type)\<rparr>"

definition emitMessageEvent :: "process_env \<Rightarrow> ustring \<Rightarrow> ustring \<Rightarrow> fields \<Rightarrow> db \<Rightarrow> db" where
  "emitMessageEvent env type i extraData d =
     (case msgs.lookup d i of
        Some m \<Rightarrow> snd (emit (pe_iso env) (pe_now env) (message_event type m extraData) d)
      | None \<Rightarrow> d)"

definition raiseSendFailureAlert :: "process_env \<Rightarrow> ustring \<Rightarrow> ustring \<Rightarrow> db \<Rightarrow> db" where
  "raiseSendFailureAlert env messageId err d =
     raise_alert (pe_now env)
       \<lparr>ra_fingerprint = lit ''send-failed:'' @ messageId, ra_ruleKey = lit ''message.send.final_failure'',
        ra_severity = lit ''warning'', ra_title = MessageNotDelivered, ra_message = SendAttemptsExhausted,
        ra_payload = Some (JObj [(lit ''messageId'', JStr messageId), (lit ''error'', JStr err)])\<rparr> d"

definition error_json :: "adapter_error \<Rightarrow> json" where
  "error_json e = JObj [(lit ''code'', JStr (ae_code e)), (lit ''message'', JStr (ae_message e)),
     (lit ''retryable'', JBool (ae_retryable e))]"

definition finish_attempt :: "process_env \<Rightarrow> ustring \<Rightarrow> attempt_result \<Rightarrow> json option \<Rightarrow> db \<Rightarrow> db" where
  "finish_attempt env aid r err d = d\<lparr>attempts := update_where (\<lambda>a. at_id a = aid)
     (\<lambda>a. a\<lparr>at_result := r, at_finishedAt := Some (pe_now env),
            at_error := (if err = None then at_error a else err)\<rparr>) (attempts d)\<rparr>"

definition outbound_of :: "process_env \<Rightarrow> message_row \<Rightarrow> db \<Rightarrow> canonical_outbound" where
  "outbound_of env m d =
     (let raw = (case as_string (own (ms_to m) (lit ''raw'')) of Some s \<Rightarrow> s | None \<Rightarrow> []) in
      \<lparr>co_messageId = ms_id m, co_idempotencyKey = ms_id m,
       co_to = \<lparr>ca_raw = raw, ca_e164 = as_string (own (ms_to m) (lit ''e164'')),
                ca_display = (if raw = [] then None else Some raw)\<rparr>,
       co_type = lit ''text'',
       co_text = (case as_string (own (ms_content m) (lit ''text'')) of Some s \<Rightarrow> s | None \<Rightarrow> []),
       co_attachments = loadAttachments env (ms_id m) d\<rparr>)"

definition endpoint_config_of :: "message_row \<Rightarrow> db \<Rightarrow> endpoint_config" where
  "endpoint_config_of m d =
     (case eps.lookup d (ms_endpointId m) of
        Some e \<Rightarrow> \<lparr>ec_id = ms_endpointId m, ec_externalId = (case ep_externalId e of Some x \<Rightarrow> x | None \<Rightarrow> []),
                   ec_phoneE164 = ep_phoneE164 e, ec_label = ep_label e,
                   ec_config = (if ep_config e = JNull then JObj [] else ep_config e)\<rparr>
      | None \<Rightarrow> \<lparr>ec_id = ms_endpointId m, ec_externalId = [], ec_phoneE164 = None, ec_label = [],
                 ec_config = JObj []\<rparr>)"

definition account_config_of :: "account_row \<Rightarrow> account_config" where
  "account_config_of a = \<lparr>cc_id = ac_id a, cc_adapter = ac_adapter a,
     cc_config = (if ac_config a = JNull then JObj [] else ac_config a)\<rparr>"

text \<open>The body of the try block up to the answer: the adapter used and what it answered.\<close>

definition dispatch_call :: "process_env \<Rightarrow> message_row \<Rightarrow> db \<Rightarrow> ustring \<times> send_answer" where
  "dispatch_call env m d =
     (case find (\<lambda>a. ac_id a = ms_accountId m) (accounts d) of
        None \<Rightarrow> ([], Threw (lit ''TransportAccount '' @ ms_accountId m @ lit '' not found for message '' @ ms_id m))
      | Some account \<Rightarrow>
          (let adapterName = (if ac_adapter account \<in> set (pe_registered env) then ac_adapter account else lit ''mock'')
           in (adapterName, pe_send env adapterName (outbound_of env m d) (endpoint_config_of m d)
                 (account_config_of account))))"

definition fail_message :: "process_env \<Rightarrow> ustring \<Rightarrow> ustring \<Rightarrow> json \<Rightarrow> ustring \<Rightarrow> json option \<Rightarrow> db \<Rightarrow> db" where
  "fail_message env i src payload alertText eventError d =
     (let d1 = add_history i failed src payload (set_status (pe_now env) i failed d);
          d2 = raiseSendFailureAlert env i alertText d1
      in emitMessageEvent env (lit ''message.failed'') i
           (case eventError of Some e \<Rightarrow> [(lit ''error'', e)] | None \<Rightarrow> []) d2)"

text \<open>The catch block.\<close>

definition handle_exception :: "process_env \<Rightarrow> ustring \<Rightarrow> ustring \<Rightarrow> nat \<Rightarrow> ustring \<Rightarrow> db \<Rightarrow> db" where
  "handle_exception env i aid attemptNo err d =
     (let isRetryable = attemptNo < MAX_SEND_ATTEMPTS;
          payload = JObj [(lit ''message'', JStr err)];
          d1 = finish_attempt env aid (if isRetryable then at_retryable_error else at_final_error) (Some payload) d
      in if isRetryable then d1 else fail_message env i (lit ''worker'') payload err (Some (JStr err)) d1)"

text \<open>The bookkeeping before the try block.\<close>

definition start_attempt :: "process_env \<Rightarrow> send_job \<Rightarrow> nat \<Rightarrow> db \<Rightarrow> ustring \<times> db" where
  "start_attempt env job attemptNo d =
     (let d1 = add_history (sj_messageId job) dispatching (lit ''worker'')
            (JObj [(lit ''jobId'', JStr (sj_jobId job)), (lit ''attemptNo'', JNum (of_nat attemptNo))])
            (set_status (pe_now env) (sj_messageId job) dispatching d);
          (aid, d2) = fresh_id d1
      in (aid, d2\<lparr>attempts := attempts d2 @ [\<lparr>at_id = aid, at_messageId = sj_messageId job,
              at_attemptNo = attemptNo, at_result = at_pending, at_finishedAt = None, at_error = None\<rparr>]\<rparr>))"

text \<open>The result is the exception the job ends with, if any.\<close>

definition send_process :: "process_env \<Rightarrow> send_job \<Rightarrow> nat \<Rightarrow> db \<Rightarrow> ustring option \<times> db" where
  "send_process env job attemptsMade d =
     (let messageId = sj_messageId job; attemptNo = attemptsMade + 1 in
      case msgs.lookup d messageId of
        None \<Rightarrow> (Some (lit ''Message '' @ messageId @ lit '' not found''), d)
      | Some m \<Rightarrow>
          (let (aid, d3) = start_attempt env job attemptNo d
           in case dispatch_call env m d3 of
                (adapterName, Threw err) \<Rightarrow> (Some err, handle_exception env messageId aid attemptNo err d3)
              | (adapterName, Answered result) \<Rightarrow>
                  if re_accepted result
                  then let d4 = messages_update (update_where (\<lambda>x. ms_id x = messageId)
                              (\<lambda>x. x\<lparr>ms_status := sent, ms_externalId := re_externalId result,
                                     ms_updatedAt := pe_now env\<rparr>)) d3;
                           d5 = add_history messageId sent adapterName (re_rawResponse result) d4;
                           d6 = finish_attempt env aid at_sent None d5
                       in (None, emitMessageEvent env (lit ''message.sent'') messageId
                             [(lit ''adapter'', JStr adapterName)] d6)
                  else (case re_error result of
                          Some e \<Rightarrow>
                            if ae_retryable e
                            then (Some (ae_message e), handle_exception env messageId aid attemptNo (ae_message e) d3)
                            else (None, fail_message env messageId adapterName (error_json e) (ae_message e)
                                   (Some (JStr (ae_message e)))
                                   (finish_attempt env aid at_permanent_error (Some (error_json e)) d3))
                        | None \<Rightarrow>
                            (None, fail_message env messageId adapterName (re_rawResponse result)
                               (lit ''permanent error'') None
                               (finish_attempt env aid at_permanent_error (Some (re_rawResponse result)) d3)))))"

section \<open>The schedulers\<close>

definition due_messages :: "int \<Rightarrow> db \<Rightarrow> ustring list" where
  "due_messages now d = map ms_id (take 50 (sort_key (\<lambda>m. the (ms_scheduledAt m))
     (filter (\<lambda>m. ms_status m = scheduled \<and> (case ms_scheduledAt m of Some t \<Rightarrow> t \<le> now | None \<Rightarrow> False))
        (messages d))))"

text \<open>\<open>race\<close> is what other processes do between the query and the updates;
  \<open>addFails\<close> says for which messages the queue refuses the job.\<close>

definition claim_message :: "(ustring \<Rightarrow> bool) \<Rightarrow> int \<Rightarrow> ustring \<Rightarrow> db \<Rightarrow> db" where
  "claim_message addFails now i d =
     (if \<not> list_ex (\<lambda>m. ms_id m = i \<and> ms_status m = scheduled) (messages d) then d
      else let d1 = messages_update (update_where (\<lambda>m. ms_id m = i \<and> ms_status m = scheduled)
                      (\<lambda>m. m\<lparr>ms_status := queued, ms_updatedAt := now\<rparr>)) d;
               d2 = add_history i queued (lit ''scheduled_send_scheduler'')
                      (JObj [(lit ''reason'', JStr (lit ''scheduledAt reached''))]) d1
           in if addFails i then d2
              else d2\<lparr>send_jobs := send_jobs d2 @ [\<lparr>sj_messageId = i, sj_jobId = i,
                     sj_attempts = Some 3, sj_backoff = Some 60000\<rparr>]\<rparr>)"

definition dispatchDueMessages :: "(db \<Rightarrow> db) \<Rightarrow> (ustring \<Rightarrow> bool) \<Rightarrow> int \<Rightarrow> db \<Rightarrow> db" where
  "dispatchDueMessages race addFails now d = fold (claim_message addFails now) (due_messages now d) (race d)"

definition STALE_AFTER_MS :: int where
  "STALE_AFTER_MS = 2 * 60 * 1000"

definition stuck_messages :: "int \<Rightarrow> db \<Rightarrow> ustring list" where
  "stuck_messages now d = map ms_id (take 100 (sort_key ms_updatedAt
     (filter (\<lambda>m. (ms_status m = queued \<or> ms_status m = dispatching) \<and> ms_updatedAt m < now - STALE_AFTER_MS)
        (messages d))))"

definition scheduled_job :: "ustring \<Rightarrow> send_job" where
  "scheduled_job i = \<lparr>sj_messageId = i, sj_jobId = i, sj_attempts = Some 3, sj_backoff = Some 60000\<rparr>"

text \<open>\<open>hasJob\<close> is what \<open>getJob\<close> finds; \<open>addFails\<close> an exception of the queue, which is logged.\<close>

definition reconcile :: "(ustring \<Rightarrow> bool) \<Rightarrow> (ustring \<Rightarrow> bool) \<Rightarrow> int \<Rightarrow> db \<Rightarrow> db" where
  "reconcile hasJob addFails now d =
     fold (\<lambda>i d. if hasJob i \<or> addFails i then d
                 else d\<lparr>send_jobs := send_jobs d @ [\<lparr>sj_messageId = i, sj_jobId = i,
                        sj_attempts = Some 3, sj_backoff = Some 60000\<rparr>]\<rparr>)
       (stuck_messages now d) d"

section \<open>Frame lemmas\<close>

lemma opened_thread_state:
  "\<exists>d0 cs n. (d0 = d \<or> d0 = race d) \<and>
     snd (api_findOrCreateConversation race now e ch to d) = d0\<lparr>uuid_next := n, conversations := cs\<rparr>"
proof -
  have id: "\<exists>cs n. d' = d'\<lparr>uuid_next := n, conversations := cs\<rparr>" for d' :: db
    by (intro exI [of _ "conversations d'"] exI [of _ "uuid_next d'"]) simp
  have created: "\<exists>cs n. d2 = d'\<lparr>uuid_next := n, conversations := cs\<rparr>"
    if "create_conversation now e ch ph peer d' = Some (c, d2)" for ph peer c d2 d'
    using that by (auto simp: create_conversation_def fresh_id_def Let_def split: if_splits)
  show ?thesis
    unfolding api_findOrCreateConversation_def Let_def
    using id [of d] id [of "race d"] created [of _ _ "race d"]
    by (auto split: option.split)
qed

lemma msgs_lookup_cong: "messages d' = messages d \<Longrightarrow> msgs.lookup d' i = msgs.lookup d i"
  by (simp add: msgs.lookup_def)

lemma api_emit_frame [simp]:
  "messages (snd (api_emit isof now p d)) = messages d" "accounts (snd (api_emit isof now p d)) = accounts d"
  "endpoints (snd (api_emit isof now p d)) = endpoints d" "idem_keys (snd (api_emit isof now p d)) = idem_keys d"
  "history (snd (api_emit isof now p d)) = history d" "send_jobs (snd (api_emit isof now p d)) = send_jobs d"
  "attachments (snd (api_emit isof now p d)) = attachments d" "conversations (snd (api_emit isof now p d)) = conversations d"
  by (simp_all add: api_emit_def fresh_id_def Let_def split: option.split)

lemma enqueueSend_frame [simp]:
  "messages (enqueueSend i s d) = messages d" "accounts (enqueueSend i s d) = accounts d"
  "endpoints (enqueueSend i s d) = endpoints d" "idem_keys (enqueueSend i s d) = idem_keys d"
  "history (enqueueSend i s d) = history d"
  by (simp_all add: enqueueSend_def)

section \<open>A concrete gateway\<close>

definition sample_account :: account_row where
  "sample_account = \<lparr>ac_id = lit ''a'', ac_type = sms, ac_adapter = lit ''mock'', ac_name = [],
     ac_status = acc_active, ac_config = JNull, ac_createdAt = 0\<rparr>"

definition sample_endpoint :: endpoint_row where
  "sample_endpoint = \<lparr>ep_id = lit ''e'', ep_accountId = lit ''a'', ep_externalId = None, ep_phoneRaw = None,
     ep_phoneE164 = None, ep_label = [], ep_enabled = True, ep_config = JNull, ep_state = linked,
     ep_deviceName = None, ep_uuid = None, ep_registeredAt = None, ep_createdAt = 0\<rparr>"

definition gateway_db :: "message_row list \<Rightarrow> db" where
  "gateway_db ms = (empty_db tick_ids)\<lparr>accounts := [sample_account], endpoints := [sample_endpoint], messages := ms\<rparr>"

definition sample_dto :: send_dto where
  "sample_dto = \<lparr>sd_channel = sms, sd_accountId = Some (lit ''a''), sd_endpointId = Some (lit ''e''), sd_to = lit ''x'',
     sd_type = text_t, sd_content = [], sd_attachments = None, sd_replyTo = None, sd_scheduledAt = None,
     sd_metadata = None, sd_body = []\<rparr>"

definition sample_send_env :: send_env where
  "sample_send_env = \<lparr>se_fmt = (\<lambda>r. []), se_iso = (\<lambda>t. []), se_parseDate = (\<lambda>s. None), se_now = 5, se_race = id\<rparr>"

lemma sample_resolves: "resolve_sender (gateway_db []) sample_dto = Inr (lit ''a'', lit ''e'')"
  by (simp add: resolve_sender_def sample_dto_def gateway_db_def sample_endpoint_def empty_db_def)

lemma sample_sends: "\<exists>r d'. send sample_send_env sample_dto key rid (gateway_db []) = (Inr r, d')"
proof -
  let ?d = "gateway_db []" and ?dto = "assign_sender (lit ''a'') (lit ''e'') sample_dto"
  have d: "conversations ?d = []" "idem_keys ?d = []" by (simp_all add: gateway_db_def empty_db_def)
  have dto: "sd_scheduledAt ?dto = None" "sd_attachments ?dto = None"
    by (simp_all add: assign_sender_def sample_dto_def)
  have "known_request key ?d = None" by (simp add: known_request_def d)
  then have "send sample_send_env sample_dto key rid ?d = accept_message sample_send_env ?dto key rid ?d"
    by (simp add: send_def sample_resolves Let_def)
  moreover have "\<exists>c d1. api_findOrCreateConversation (se_race sample_send_env) (se_now sample_send_env)
      (the (sd_endpointId ?dto)) (sd_channel ?dto) (sd_to ?dto) ?d = (Some c, d1) \<and> idem_keys d1 = []"
    by (simp add: api_findOrCreateConversation_def create_conversation_def phone_taken_def sample_send_env_def
        fresh_id_def d Let_def)
  then obtain c d1 where "api_findOrCreateConversation (se_race sample_send_env) (se_now sample_send_env)
      (the (sd_endpointId ?dto)) (sd_channel ?dto) (sd_to ?dto) ?d = (Some c, d1)" "idem_keys d1 = []" by blast
  moreover from this(2) have "\<exists>m d2. store_message sample_send_env ?dto key h rid cid d1 = (Inr m, d2)" for h cid
    by (simp add: store_message_def fresh_id_def Let_def dto)
  then obtain m d2 where "store_message sample_send_env ?dto key (hashRequest (se_fmt sample_send_env) ?dto) rid (cv_id c) d1
      = (Inr m, d2)" by blast
  ultimately show ?thesis
    by (simp add: accept_message_def check_attachments_def remdups_first_def dto)
qed

section \<open>Idempotent requests\<close>

lemma store_message_Inr:
  assumes "store_message env dto key h rid cid d = (Inr m, d')"
  shows "accounts d' = accounts d \<and> endpoints d' = endpoints d \<and> messages d' = messages d @ [m]
    \<and> ms_id m = uuid_source d (uuid_next d)
    \<and> idem_keys d' = idem_keys d @ (if truthy_str key
        then [\<lparr>ik_key = the key, ik_requestHash = h, ik_responseRef = ms_id m,
               ik_expiresAt = se_now env + 7 * 24 * 60 * 60 * 1000\<rparr>] else [])
    \<and> history d' = history d @ [\<lparr>hi_messageId = ms_id m, hi_status = ms_status m, hi_source = lit ''api'',
        hi_payload = JObj [(lit ''requestId'', JStr rid)]\<rparr>]
    \<and> send_jobs d' = send_jobs d
    \<and> ms_status m = (if truthy_str (sd_scheduledAt dto) then scheduled else queued)
    \<and> ms_direction m = outbound \<and> ms_conversationId m = Some cid \<and> ms_endpointId m = the (sd_endpointId dto)
    \<and> (truthy_str key \<longrightarrow> \<not> list_ex (\<lambda>k. ik_key k = the key) (idem_keys d))"
  using assms by (auto simp: store_message_def fresh_id_def Let_def outbound_row_def split: if_splits)

lemma accept_message_Inr:
  assumes "accept_message env dto key rid d = (Inr r, d')"
  obtains c d1 m d2 where
    "api_findOrCreateConversation (se_race env) (se_now env) (the (sd_endpointId dto)) (sd_channel dto) (sd_to dto) d
       = (Some c, d1)"
    "store_message env dto key (hashRequest (se_fmt env) dto) rid (cv_id c) d1 = (Inr m, d2)"
    "r = response_of env m" "d' = (if truthy_str (sd_scheduledAt dto) then d2 else enqueueSend (ms_id m) None d2)"
  using assms by (auto simp: accept_message_def split: option.splits prod.splits sum.splits)

lemma resolve_sender_cong:
  assumes "accounts d' = accounts d" "endpoints d' = endpoints d"
  shows "resolve_sender d' dto = resolve_sender d dto"
  unfolding resolve_sender_def pick_account_def enabled_endpoints_def assms ..

lemma accepted_is_known:
  assumes "accept_message env dto key rid d = (Inr r, d')" and "truthy_str key"
    and "\<And>d. accounts (se_race env d) = accounts d \<and> endpoints (se_race env d) = endpoints d"
  shows "accounts d' = accounts d \<and> endpoints d' = endpoints d \<and> msgs.lookup d' (sr_id r) \<noteq> None
    \<and> (\<exists>k. known_request key d' = Some k \<and> ik_requestHash k = hashRequest (se_fmt env) dto
         \<and> ik_responseRef k = sr_id r)"
proof -
  from assms(1) obtain c d1 m d2 where o':
    "api_findOrCreateConversation (se_race env) (se_now env) (the (sd_endpointId dto)) (sd_channel dto) (sd_to dto) d
       = (Some c, d1)"
    and st: "store_message env dto key (hashRequest (se_fmt env) dto) rid (cv_id c) d1 = (Inr m, d2)"
    and r: "r = response_of env m" "d' = (if truthy_str (sd_scheduledAt dto) then d2 else enqueueSend (ms_id m) None d2)"
    by (rule accept_message_Inr)
  note s = store_message_Inr [OF st]
  from opened_thread_state [of d "se_race env" "se_now env" "the (sd_endpointId dto)" "sd_channel dto" "sd_to dto"] o'
  have "accounts d1 = accounts d" "endpoints d1 = endpoints d" using assms(3) by auto
  then have "accounts d' = accounts d" "endpoints d' = endpoints d" using s r(2) by auto
  moreover have "messages d' = messages d1 @ [m]" using s r(2) by auto
  then have "msgs.lookup d' (sr_id r) \<noteq> None"
    by (auto simp: r(1) response_of_def msgs.lookup_def find_None_iff)
  moreover have "\<exists>k. known_request key d' = Some k \<and> ik_requestHash k = hashRequest (se_fmt env) dto
         \<and> ik_responseRef k = sr_id r"
  proof -
    from s assms(2) have "find (\<lambda>k. ik_key k = the key) (idem_keys d1) = None"
      by (auto simp: find_None_iff list_ex_iff)
    moreover have "idem_keys d' = idem_keys d2" using r(2) by auto
    ultimately show ?thesis using s assms(2) by (simp add: known_request_def find_append r(1) response_of_def)
  qed
  ultimately show ?thesis by blast
qed

lemma send_Inr_cases:
  assumes "send env dto key rid d = (Inr r, d')" and "resolve_sender d dto = Inr (acc, ep)"
  obtains (accepted) "accept_message env (assign_sender acc ep dto) key rid d = (Inr r, d')"
  | (known) q m where "known_request key d = Some q"
      "ik_requestHash q = hashRequest (se_fmt env) (assign_sender acc ep dto)"
      "msgs.lookup d (ik_responseRef q) = Some m" "r = response_of env m" "d' = d"
proof (cases "known_request key d")
  case None
  with assms accepted show thesis by (simp add: send_def Let_def)
next
  case (Some q)
  with assms have "ik_requestHash q = hashRequest (se_fmt env) (assign_sender acc ep dto)"
    by (simp add: send_def Let_def split: if_splits)
  note hash = this
  show thesis
  proof (cases "msgs.lookup d (ik_responseRef q)")
    case None
    show thesis by (rule accepted) (use assms Some hash None in \<open>simp add: send_def Let_def\<close>)
  next
    case m: (Some m)
    show thesis by (rule known [OF Some hash m]) (use assms Some hash m in \<open>simp_all add: send_def Let_def\<close>)
  qed
qed



section \<open>What an accepted request leaves behind\<close>

lemma resolve_sender_enabled:
  assumes "resolve_sender d dto = Inr (acc, ep)"
  shows "\<exists>e\<in>set (endpoints d). ep_id e = ep \<and> ep_accountId e = acc \<and> ep_enabled e"
proof (cases "\<not> truthy_str (sd_accountId dto) \<or> \<not> truthy_str (sd_endpointId dto)")
  case True
  with assms have "(case pick_account d (sd_channel dto) of None \<Rightarrow> Inl NoActiveEndpoint
      | Some a \<Rightarrow> (case enabled_endpoints d (ac_id a) of [] \<Rightarrow> Inl NoActiveEndpoint | e # es \<Rightarrow> Inr (ac_id a, ep_id e)))
      = Inr (acc, ep)" by (simp add: resolve_sender_def)
  moreover from this obtain a where "pick_account d (sd_channel dto) = Some a"
    by (cases "pick_account d (sd_channel dto)") auto
  ultimately obtain e es where a: "acc = ac_id a" "ep = ep_id e" "enabled_endpoints d (ac_id a) = e # es"
    by (cases "enabled_endpoints d (ac_id a)") auto
  have "e \<in> set (enabled_endpoints d (ac_id a))" by (simp add: a(3))
  with a(1,2) show ?thesis by (auto simp: enabled_endpoints_def)
next
  case False
  then obtain a e where "sd_accountId dto = Some a" "sd_endpointId dto = Some e"
    by (metis truthy_str.simps(1) option.exhaust)
  with assms False show ?thesis
    by (auto simp: resolve_sender_def split: option.splits dest!: find_SomeD)
qed

lemma opened_thread_row:
  assumes "api_findOrCreateConversation id now e ch to d = (Some c, d')"
  shows "c \<in> set (conversations d') \<and> cv_endpointId c = e"
  using assms
  by (auto simp: api_findOrCreateConversation_def create_conversation_def fresh_id_def Let_def thread_where_def
      split: option.splits if_splits dest!: find_SomeD)

lemma store_message_conversations:
  assumes "store_message env dto key h rid cid d = (Inr m, d')"
  shows "map (\<lambda>c. (cv_id c, cv_endpointId c)) (conversations d') = map (\<lambda>c. (cv_id c, cv_endpointId c)) (conversations d)"
  using assms
  by (auto simp: store_message_def fresh_id_def Let_def update_where_def split: if_splits)

lemma store_message_Inl: "store_message env dto key h rid cid d = (Inl err, d') \<Longrightarrow> d' = d"
  by (auto simp: store_message_def Let_def case_prod_beta split: if_splits)

lemma accept_message_Inl:
  assumes "accept_message env dto key rid d = (Inl err, d')" and "se_race env = id"
  shows "messages d' = messages d \<and> send_jobs d' = send_jobs d \<and> history d' = history d"
  using assms opened_thread_state [of d id "se_now env" "the (sd_endpointId dto)" "sd_channel dto" "sd_to dto"]
  by (auto simp: accept_message_def split: option.splits prod.splits sum.splits dest!: store_message_Inl)

text \<open>
  C17. A new request is stored once and queued once: on success one outbound message is
  appended, from an enabled endpoint and on a thread of that endpoint, with its first status
  history row; a scheduled one waits without a job, any other has exactly one job. On an
  error no message, job or history row is added.
\<close>

theorem send_stores_and_queues:
  assumes "known_request key d = None" and "se_race env = id"
  shows "case send env dto key rid d of
     (Inl err, d') \<Rightarrow> messages d' = messages d \<and> send_jobs d' = send_jobs d \<and> history d' = history d
   | (Inr r, d') \<Rightarrow> \<exists>m. messages d' = messages d @ [m] \<and> sr_id r = ms_id m \<and> ms_direction m = outbound
       \<and> (\<exists>e\<in>set (endpoints d). ep_id e = ms_endpointId m \<and> ep_enabled e)
       \<and> (\<exists>c\<in>set (conversations d'). ms_conversationId m = Some (cv_id c) \<and> cv_endpointId c = ms_endpointId m)
       \<and> map (\<lambda>h. (hi_messageId h, hi_status h)) (history d') =
           map (\<lambda>h. (hi_messageId h, hi_status h)) (history d) @ [(ms_id m, ms_status m)]
       \<and> (if truthy_str (sd_scheduledAt dto) then ms_status m = scheduled \<and> send_jobs d' = send_jobs d
          else ms_status m = queued \<and> send_jobs d' = send_jobs d @
            [\<lparr>sj_messageId = ms_id m, sj_jobId = ms_id m, sj_attempts = None, sj_backoff = None\<rparr>])"
proof (cases "send env dto key rid d")
  case (Pair res d')
  show ?thesis
  proof (cases "resolve_sender d dto")
    case (Inl err)
    then show ?thesis by (simp add: send_def)
  next
    case (Inr p)
    then obtain acc ep where rs: "resolve_sender d dto = Inr (acc, ep)" by (cases p) auto
    let ?dto = "assign_sender acc ep dto"
    have acc: "send env dto key rid d = accept_message env ?dto key rid d"
      using rs assms(1) by (simp add: send_def Let_def)
    show ?thesis
    proof (cases res)
      case (Inl err)
      with Pair acc accept_message_Inl [OF _ assms(2), of ?dto key rid d err d'] show ?thesis by simp
    next
      case (Inr r)
      with Pair acc have "accept_message env ?dto key rid d = (Inr r, d')" by simp
      then obtain c d1 m d2 where o':
        "api_findOrCreateConversation id (se_now env) (the (sd_endpointId ?dto)) (sd_channel ?dto) (sd_to ?dto) d = (Some c, d1)"
        and st: "store_message env ?dto key (hashRequest (se_fmt env) ?dto) rid (cv_id c) d1 = (Inr m, d2)"
        and r: "r = response_of env m" "d' = (if truthy_str (sd_scheduledAt ?dto) then d2 else enqueueSend (ms_id m) None d2)"
        by (rule accept_message_Inr) (use assms(2) in auto)
      note s = store_message_Inr [OF st]
      from opened_thread_state [of d id "se_now env" "the (sd_endpointId ?dto)" "sd_channel ?dto" "sd_to ?dto"] o'
      have d1: "messages d1 = messages d" "send_jobs d1 = send_jobs d" "history d1 = history d" by auto
      from opened_thread_row [OF o'] store_message_conversations [OF st]
      have "(cv_id c, ep) \<in> set (map (\<lambda>c. (cv_id c, cv_endpointId c)) (conversations d2))"
        by (force simp: assign_sender_def)
      moreover have d': "conversations d' = conversations d2" "messages d' = messages d2" "history d' = history d2"
        "send_jobs d' = (if truthy_str (sd_scheduledAt dto) then send_jobs d2 else send_jobs d2 @
           [\<lparr>sj_messageId = ms_id m, sj_jobId = ms_id m, sj_attempts = None, sj_backoff = None\<rparr>])"
        by (auto simp: r(2) enqueueSend_def assign_sender_def)
      ultimately have thread: "\<exists>t\<in>set (conversations d'). ms_conversationId m = Some (cv_id t) \<and> cv_endpointId t = ms_endpointId m"
        using s by (auto simp: assign_sender_def)
      have sender: "\<exists>e\<in>set (endpoints d). ep_id e = ms_endpointId m \<and> ep_enabled e"
        using resolve_sender_enabled [OF rs] s by (auto simp: assign_sender_def)
      from thread sender s r(1) d1 d'(2-4) Pair Inr show ?thesis
        by (simp add: response_of_def assign_sender_def)
    qed
  qed
qed

theorem send_stores_and_queues_witness:
  "\<exists>r d' m. send sample_send_env sample_dto None [] (gateway_db []) = (Inr r, d') \<and> messages d' = [m]
     \<and> ms_status m = queued \<and> map sj_messageId (send_jobs d') = [ms_id m]"
proof -
  obtain r d' where s: "send sample_send_env sample_dto None [] (gateway_db []) = (Inr r, d')"
    using sample_sends by blast
  have "known_request None (gateway_db []) = None" "se_race sample_send_env = id"
    "messages (gateway_db []) = []" "send_jobs (gateway_db []) = []" "sd_scheduledAt sample_dto = None"
    by (simp_all add: known_request_def sample_send_env_def gateway_db_def empty_db_def sample_dto_def)
  with send_stores_and_queues [of None "gateway_db []" sample_send_env sample_dto "[]"] s show ?thesis
    by (auto split: if_splits)
qed

section \<open>What an attempt leaves behind\<close>

lemma lookup_set_status:
  "msgs.lookup (set_status now i st d) j =
     (if i = j then map_option (\<lambda>m. m\<lparr>ms_status := st, ms_updatedAt := now\<rparr>) (msgs.lookup d j) else msgs.lookup d j)"
  unfolding set_status_def by (rule msgs.lookup_update) simp

lemma msgs_lookup_id: "msgs.lookup d i = Some m \<Longrightarrow> ms_id m = i"
  by (auto simp: msgs.lookup_def dest: find_SomeD)

lemma set_status_frame [simp]:
  "attempts (set_status now i st d) = attempts d" "accounts (set_status now i st d) = accounts d"
  "history (set_status now i st d) = history d" "send_jobs (set_status now i st d) = send_jobs d"
  "uuid_next (set_status now i st d) = uuid_next d" "uuid_source (set_status now i st d) = uuid_source d"
  by (simp_all add: set_status_def)

lemma add_history_frame [simp]:
  "messages (add_history i st src p d) = messages d" "attempts (add_history i st src p d) = attempts d"
  "accounts (add_history i st src p d) = accounts d" "send_jobs (add_history i st src p d) = send_jobs d"
  "uuid_next (add_history i st src p d) = uuid_next d" "uuid_source (add_history i st src p d) = uuid_source d"
  by (simp_all add: add_history_def)

lemma emit_messages [simp]:
  "messages (snd (emit isof now p d)) = messages d" "attempts (snd (emit isof now p d)) = attempts d"
  "history (snd (emit isof now p d)) = history d" "send_jobs (snd (emit isof now p d)) = send_jobs d"
  "alerts (snd (emit isof now p d)) = alerts d"
  by (simp_all add: emit_def fresh_id_def Let_def split: option.split)

lemma raise_messages [simp]:
  "messages (raise_alert now p d) = messages d" "attempts (raise_alert now p d) = attempts d"
  "history (raise_alert now p d) = history d" "send_jobs (raise_alert now p d) = send_jobs d"
  by (simp_all add: raise_alert_def fresh_id_def Let_def split: option.split)

lemma finish_attempt_frame [simp]:
  "messages (finish_attempt env aid r e d) = messages d" "history (finish_attempt env aid r e d) = history d"
  "send_jobs (finish_attempt env aid r e d) = send_jobs d"
  by (simp_all add: finish_attempt_def)

lemma emitMessageEvent_frame [simp]:
  "messages (emitMessageEvent env ty i x d) = messages d" "attempts (emitMessageEvent env ty i x d) = attempts d"
  "history (emitMessageEvent env ty i x d) = history d" "alerts (emitMessageEvent env ty i x d) = alerts d"
  "send_jobs (emitMessageEvent env ty i x d) = send_jobs d"
  by (simp_all add: emitMessageEvent_def split: option.split)

lemma emitMessageEvent_stored:
  assumes "msgs.lookup d i = Some m"
  shows "has_key (lit ''msg-'' @ i @ lit ''-'' @ ty) (emitMessageEvent env ty i x d)"
proof -
  have "em_dedupKey (message_event ty m x) = Some (lit ''msg-'' @ i @ lit ''-'' @ ty)"
    using msgs_lookup_id [OF assms] by (simp add: message_event_def)
  then show ?thesis using assms worker_sink.stored [of "message_event ty m x"] by (simp add: emitMessageEvent_def)
qed

lemma fail_message_effect:
  assumes "msgs.lookup d i = Some m"
  shows "\<exists>m'. msgs.lookup (fail_message env i src p t e d) i = Some m' \<and> ms_status m' = failed
    \<and> attempts (fail_message env i src p t e d) = attempts d
    \<and> has_key (lit ''msg-'' @ i @ lit ''-message.failed'') (fail_message env i src p t e d)
    \<and> firing_alert (lit ''send-failed:'' @ i) (fail_message env i src p t e d) \<noteq> None"
proof -
  let ?d1 = "add_history i failed src p (set_status (pe_now env) i failed d)"
  let ?d2 = "raiseSendFailureAlert env i t ?d1"
  have m: "messages ?d2 = messages (set_status (pe_now env) i failed d)"
    by (simp add: raiseSendFailureAlert_def)
  then have l: "msgs.lookup ?d2 i = Some (m\<lparr>ms_status := failed, ms_updatedAt := pe_now env\<rparr>)"
    using assms msgs_lookup_cong [OF m] by (simp add: lookup_set_status)
  have fires: "ra_fingerprint p = fp \<Longrightarrow> firing_alert fp (raise_alert now p x) \<noteq> None" for p fp now x
    using raise_alert_fires by blast
  have "firing_alert (lit ''send-failed:'' @ i) ?d2 \<noteq> None"
    unfolding raiseSendFailureAlert_def
    by (rule fires) simp
  moreover have "lit ''msg-'' @ i @ lit ''-message.failed'' = lit ''msg-'' @ i @ lit ''-'' @ lit ''message.failed''"
    by (simp add: lit_def)
  ultimately show ?thesis
    using emitMessageEvent_stored [OF l, of "lit ''message.failed''" env] l
    by (simp add: fail_message_def Let_def firing_alert_def msgs_lookup_cong [OF emitMessageEvent_frame(1)])
      (simp add: raiseSendFailureAlert_def)
qed

text \<open>The state in which the adapter is called.\<close>

definition attempt_started :: "process_env \<Rightarrow> send_job \<Rightarrow> nat \<Rightarrow> db \<Rightarrow> db" where
  "attempt_started env job attemptNo d = snd (start_attempt env job attemptNo d)"

lemma start_attempt_eq:
  "start_attempt env job n d = (uuid_source d (uuid_next d), attempt_started env job n d)"
  by (simp add: attempt_started_def start_attempt_def fresh_id_def Let_def)

lemma attempt_started_messages:
  "messages (attempt_started env job n d) = messages (set_status (pe_now env) (sj_messageId job) dispatching d)"
  "accounts (attempt_started env job n d) = accounts d"
  by (simp_all add: attempt_started_def start_attempt_def fresh_id_def Let_def)

lemma attempt_started_lookup:
  "msgs.lookup d (sj_messageId job) = Some m \<Longrightarrow>
   msgs.lookup (attempt_started env job n d) (sj_messageId job) =
     Some (m\<lparr>ms_status := dispatching, ms_updatedAt := pe_now env\<rparr>)"
  using msgs_lookup_cong [OF attempt_started_messages(1)] by (simp add: lookup_set_status)

lemma attempt_started_attempts:
  "attempts (attempt_started env job n d) = attempts d @
     [\<lparr>at_id = uuid_source d (uuid_next d), at_messageId = sj_messageId job, at_attemptNo = n,
       at_result = at_pending, at_finishedAt = None, at_error = None\<rparr>]"
  by (simp add: attempt_started_def start_attempt_def fresh_id_def Let_def)

text \<open>Finishing the attempt that was just started changes only that row.\<close>

lemma finish_started:
  assumes "uuid_source d (uuid_next d) \<notin> set (map at_id (attempts d))"
  shows "\<exists>a. attempts (finish_attempt env (uuid_source d (uuid_next d)) r e (attempt_started env job n d)) = attempts d @ [a]
    \<and> at_messageId a = sj_messageId job \<and> at_attemptNo a = n \<and> at_result a = r \<and> at_finishedAt a = Some (pe_now env)"
proof -
  have "update_where (\<lambda>a. at_id a = uuid_source d (uuid_next d)) f (attempts d) = attempts d" for f
    by (rule update_where_none) (use assms in force)
  then show ?thesis by (simp add: finish_attempt_def attempt_started_attempts)
qed

lemma send_process_alt:
  assumes "msgs.lookup d (sj_messageId job) = Some m"
  shows "send_process env job k d =
    (let i = sj_messageId job; aid = uuid_source d (uuid_next d); d3 = attempt_started env job (k + 1) d in
     case dispatch_call env m d3 of
       (adapterName, Threw err) \<Rightarrow> (Some err, handle_exception env i aid (k + 1) err d3)
     | (adapterName, Answered result) \<Rightarrow>
         if re_accepted result
         then (None, emitMessageEvent env (lit ''message.sent'') i [(lit ''adapter'', JStr adapterName)]
                (finish_attempt env aid at_sent None (add_history i sent adapterName (re_rawResponse result)
                  (messages_update (update_where (\<lambda>x. ms_id x = i)
                    (\<lambda>x. x\<lparr>ms_status := sent, ms_externalId := re_externalId result, ms_updatedAt := pe_now env\<rparr>)) d3))))
         else (case re_error result of
                 Some e \<Rightarrow>
                   if ae_retryable e then (Some (ae_message e), handle_exception env i aid (k + 1) (ae_message e) d3)
                   else (None, fail_message env i adapterName (error_json e) (ae_message e) (Some (JStr (ae_message e)))
                          (finish_attempt env aid at_permanent_error (Some (error_json e)) d3))
               | None \<Rightarrow> (None, fail_message env i adapterName (re_rawResponse result) (lit ''permanent error'') None
                          (finish_attempt env aid at_permanent_error (Some (re_rawResponse result)) d3))))"
  unfolding send_process_def Let_def assms start_attempt_eq option.case prod.case ..

definition attempt_ended :: "process_env \<Rightarrow> ustring \<Rightarrow> nat \<Rightarrow> db \<Rightarrow> ustring option \<times> db \<Rightarrow> bool" where
  "attempt_ended env i k d res \<longleftrightarrow> (\<exists>m a. msgs.lookup (snd res) i = Some m \<and> attempts (snd res) = attempts d @ [a]
     \<and> at_messageId a = i \<and> at_attemptNo a = k + 1 \<and> at_finishedAt a = Some (pe_now env)
     \<and> (if ms_status m = sent then at_result a = at_sent \<and> fst res = None
          \<and> has_key (lit ''msg-'' @ i @ lit ''-message.sent'') (snd res)
        else if ms_status m = failed then (at_result a = at_permanent_error \<or> at_result a = at_final_error)
          \<and> has_key (lit ''msg-'' @ i @ lit ''-message.failed'') (snd res)
          \<and> firing_alert (lit ''send-failed:'' @ i) (snd res) \<noteq> None
        else ms_status m = dispatching \<and> at_result a = at_retryable_error \<and> fst res \<noteq> None
          \<and> k + 1 < MAX_SEND_ATTEMPTS))"

lemma failed_ended:
  assumes "msgs.lookup d (sj_messageId job) = Some m" and "uuid_source d (uuid_next d) \<notin> set (map at_id (attempts d))"
    and "r = at_permanent_error \<or> r = at_final_error"
  shows "attempt_ended env (sj_messageId job) k d
    (x, fail_message env (sj_messageId job) src p t e
      (finish_attempt env (uuid_source d (uuid_next d)) r err (attempt_started env job (k + 1) d)))"
proof -
  let ?d = "finish_attempt env (uuid_source d (uuid_next d)) r err (attempt_started env job (k + 1) d)"
  have "msgs.lookup ?d (sj_messageId job) = Some (m\<lparr>ms_status := dispatching, ms_updatedAt := pe_now env\<rparr>)"
    using attempt_started_lookup [OF assms(1)] by (simp add: msgs_lookup_cong [OF finish_attempt_frame(1)])
  from fail_message_effect [OF this, of env src p t e] finish_started [OF assms(2), of env r err job "k + 1"] assms(3)
  show ?thesis unfolding attempt_ended_def by auto
qed

lemma exception_ended:
  assumes "msgs.lookup d (sj_messageId job) = Some m" and "uuid_source d (uuid_next d) \<notin> set (map at_id (attempts d))"
  shows "attempt_ended env (sj_messageId job) k d (Some err, handle_exception env (sj_messageId job)
    (uuid_source d (uuid_next d)) (k + 1) err (attempt_started env job (k + 1) d))"
proof (cases "k + 1 < MAX_SEND_ATTEMPTS")
  case True
  then show ?thesis
    using finish_started [OF assms(2), of env at_retryable_error "Some (JObj [(lit ''message'', JStr err)])" job "k + 1"]
      attempt_started_lookup [OF assms(1), of env "k + 1"]
    unfolding attempt_ended_def
    by (auto simp: handle_exception_def Let_def msgs_lookup_cong [OF finish_attempt_frame(1)])
next
  case False
  then show ?thesis
    using failed_ended [OF assms, of at_final_error] by (simp add: handle_exception_def Let_def)
qed

lemma send_attempt_ends:
  assumes "msgs.lookup d (sj_messageId job) = Some m"
    and "uuid_source d (uuid_next d) \<notin> set (map at_id (attempts d))"
  shows "attempt_ended env (sj_messageId job) k d (send_process env job k d)"
proof -
  let ?i = "sj_messageId job" and ?aid = "uuid_source d (uuid_next d)"
  let ?d3 = "attempt_started env job (k + 1) d"
  have accepted: "attempt_ended env ?i k d (None, emitMessageEvent env (lit ''message.sent'') ?i x
      (finish_attempt env ?aid at_sent None (add_history ?i sent src p
        (messages_update (update_where (\<lambda>x. ms_id x = ?i)
          (\<lambda>x. x\<lparr>ms_status := sent, ms_externalId := ext, ms_updatedAt := pe_now env\<rparr>)) ?d3))))" for x src p ext
  proof -
    let ?f = "\<lambda>x. x\<lparr>ms_status := sent, ms_externalId := ext, ms_updatedAt := pe_now env\<rparr>"
    let ?d4 = "messages_update (update_where (\<lambda>x. ms_id x = ?i) ?f) ?d3"
    let ?d6 = "finish_attempt env ?aid at_sent None (add_history ?i sent src p ?d4)"
    have "messages ?d6 = messages ?d4" by simp
    then have "msgs.lookup ?d6 ?i = msgs.lookup ?d4 ?i" by (rule msgs_lookup_cong)
    also have "\<dots> = map_option ?f (msgs.lookup ?d3 ?i)" using msgs.lookup_update [of ?f ?i ?d3 ?i] by simp
    finally have l: "msgs.lookup ?d6 ?i = Some (?f (m\<lparr>ms_status := dispatching, ms_updatedAt := pe_now env\<rparr>))"
      unfolding attempt_started_lookup [OF assms(1)] by simp
    have "attempts ?d6 = attempts (finish_attempt env ?aid at_sent None ?d3)"
      by (simp add: finish_attempt_def)
    with finish_started [OF assms(2), of env at_sent None job "k + 1"]
      emitMessageEvent_stored [OF l, of "lit ''message.sent''" env x] l
    show ?thesis unfolding attempt_ended_def
      by (auto simp: msgs_lookup_cong [OF emitMessageEvent_frame(1)] lit_def)
  qed
  show ?thesis
  proof (cases "dispatch_call env m ?d3")
    case (Pair adapterName answer)
    note alt = send_process_alt [OF assms(1), of env k, unfolded Let_def Pair prod.case]
    show ?thesis
    proof (cases answer)
      case (Threw err)
      then show ?thesis unfolding alt using exception_ended [OF assms] by simp
    next
      case (Answered result)
      then show ?thesis unfolding alt
        using accepted exception_ended [OF assms] failed_ended [OF assms, of at_permanent_error]
        by (cases "re_error result") simp_all
    qed
  qed
qed

text \<open>
  Every attempt is closed and accounted for: processing a job of an existing message
  appends one finished attempt, and the message ends up sent with its event, or failed with
  its event and a firing alert, or still dispatching after a retryable error that the queue
  is told of; the last attempt allowed always decides between sent and failed.
\<close>

theorem send_attempt_decides:
  assumes "msgs.lookup d (sj_messageId job) = Some m"
    and "uuid_source d (uuid_next d) \<notin> set (map at_id (attempts d))"
  shows "attempt_ended env (sj_messageId job) k d (send_process env job k d)
    \<and> (2 \<le> k \<longrightarrow> (\<exists>m'. msgs.lookup (snd (send_process env job k d)) (sj_messageId job) = Some m'
         \<and> (ms_status m' = sent \<or> ms_status m' = failed)))"
  using send_attempt_ends [OF assms, of env k] by (auto simp: attempt_ended_def MAX_SEND_ATTEMPTS_def split: if_splits)

definition sample_message :: "message_status \<Rightarrow> int option \<Rightarrow> message_row" where
  "sample_message st sched = (outbound_row sample_send_env (assign_sender (lit ''a'') (lit ''e'') sample_dto)
     (lit ''m'') (lit ''c'') sched)\<lparr>ms_status := st\<rparr>"

definition accepting_env :: process_env where
  "accepting_env = \<lparr>pe_iso = (\<lambda>t. []), pe_now = 9, pe_registered = [lit ''mock''],
     pe_send = (\<lambda>a out e c. Answered \<lparr>re_externalId = None, re_accepted = True, re_rawResponse = JNull, re_error = None\<rparr>),
     pe_readFile = (\<lambda>p. None)\<rparr>"

lemma sample_message_row:
  "ms_id (sample_message st t) = lit ''m''" "ms_status (sample_message st t) = st"
  "ms_accountId (sample_message st t) = lit ''a''" "ms_scheduledAt (sample_message st t) = t"
  "ms_updatedAt (sample_message st t) = 5"
  by (simp_all add: sample_message_def outbound_row_def assign_sender_def sample_send_env_def)

lemma sample_message_found: "msgs.lookup (gateway_db [sample_message st t]) (lit ''m'') = Some (sample_message st t)"
  by (simp add: msgs.lookup_def gateway_db_def sample_message_row)

theorem send_attempt_decides_witness:
  "\<exists>m. msgs.lookup (snd (send_process accepting_env (scheduled_job (lit ''m'')) 2
       (gateway_db [sample_message queued None]))) (lit ''m'') = Some m \<and> (ms_status m = sent \<or> ms_status m = failed)"
proof -
  have "sj_messageId (scheduled_job (lit ''m'')) = lit ''m''" by (simp add: scheduled_job_def)
  moreover have "attempts (gateway_db [sample_message queued None]) = []" by (simp add: gateway_db_def empty_db_def)
  ultimately show ?thesis
    using send_attempt_decides [of "gateway_db [sample_message queued None]" "scheduled_job (lit ''m'')"
        "sample_message queued None" accepting_env 2] sample_message_found by simp
qed

section \<open>The schedulers claim each message once\<close>

definition claim_row :: "int \<Rightarrow> ustring list \<Rightarrow> message_row \<Rightarrow> message_row" where
  "claim_row now ids m =
     (if ms_id m \<in> set ids \<and> ms_status m = scheduled then m\<lparr>ms_status := queued, ms_updatedAt := now\<rparr> else m)"

lemma claim_message_skips:
  "\<not> list_ex (\<lambda>m. ms_id m = i \<and> ms_status m = scheduled) (messages d) \<Longrightarrow> claim_message fails now i d = d"
  by (simp add: claim_message_def)

lemma claim_message_messages: "messages (claim_message fails now i d) = map (claim_row now [i]) (messages d)"
proof (cases "list_ex (\<lambda>m. ms_id m = i \<and> ms_status m = scheduled) (messages d)")
  case True
  then show ?thesis by (simp add: claim_message_def update_where_def claim_row_def add_history_def Let_def)
next
  case False
  then have "map (claim_row now [i]) (messages d) = messages d"
    by (intro map_idI) (auto simp: claim_row_def list_ex_iff)
  with False show ?thesis by (simp add: claim_message_skips)
qed

lemma claim_row_comp: "claim_row now js (claim_row now is m) = claim_row now (is @ js) m"
  by (auto simp: claim_row_def)

lemma claim_fold_messages:
  "messages (fold (claim_message fails now) ids d) = map (claim_row now ids) (messages d)"
proof (induction ids arbitrary: d)
  case Nil
  show ?case by (simp add: claim_row_def)
next
  case (Cons i ids)
  show ?case
    by (simp add: Cons.IH claim_message_messages claim_row_comp)
qed

text \<open>Claiming again what has been claimed does nothing.\<close>

lemma claim_fold_again:
  assumes "\<forall>i\<in>set ids. \<not> list_ex (\<lambda>m. ms_id m = i \<and> ms_status m = scheduled) (messages d)"
  shows "fold (claim_message fails now) ids d = d"
  using assms by (induction ids) (auto simp: claim_message_skips)

lemma claimed_not_scheduled:
  "i \<in> set ids \<Longrightarrow> \<not> list_ex (\<lambda>m. ms_id m = i \<and> ms_status m = scheduled) (map (claim_row now ids) ms)"
  by (auto simp: list_ex_iff claim_row_def split: if_splits)

lemma claim_fold_jobs:
  assumes "distinct ids" and "\<forall>i\<in>set ids. list_ex (\<lambda>m. ms_id m = i \<and> ms_status m = scheduled) (messages d)"
  shows "send_jobs (fold (claim_message (\<lambda>i. False) now) ids d) = send_jobs d @ map scheduled_job ids"
  using assms
proof (induction ids arbitrary: d)
  case (Cons i ids)
  have jobs: "send_jobs (claim_message (\<lambda>i. False) now i d) = send_jobs d @ [scheduled_job i]"
    using Cons.prems(2) by (simp add: claim_message_def add_history_def scheduled_job_def)
  have "list_ex (\<lambda>m. ms_id m = j \<and> ms_status m = scheduled) (messages (claim_message (\<lambda>i. False) now i d))"
    if "j \<in> set ids" for j
    using Cons.prems that by (fastforce simp: claim_message_messages list_ex_iff claim_row_def)
  with Cons.IH [of "claim_message (\<lambda>i. False) now i d"] Cons.prems(1) show ?case by (simp add: jobs)
qed simp

lemma due_messages_scheduled:
  "i \<in> set (due_messages now d) \<Longrightarrow> list_ex (\<lambda>m. ms_id m = i \<and> ms_status m = scheduled) (messages d)"
  unfolding due_messages_def by (auto simp: list_ex_iff dest!: in_set_takeD)

lemma distinct_due: "distinct (msgs.ids d) \<Longrightarrow> distinct (due_messages now d)"
  unfolding due_messages_def msgs.ids_def
  by (auto simp: distinct_map intro!: distinct_take inj_on_subset [of ms_id "set (messages d)"] dest: in_set_takeD)

text \<open>
  Every due message is queued once: a tick turns the due messages (the fifty oldest)
  from scheduled to queued, adds exactly one job with three attempts for each and changes no
  other message; when a second worker has made the same query and runs after the first, the
  two together do exactly what one does.
\<close>

theorem due_messages_queued_once:
  assumes "distinct (msgs.ids d)"
  shows "let d' = dispatchDueMessages id (\<lambda>i. False) now d in
      messages d' = map (claim_row now (due_messages now d)) (messages d)
    \<and> send_jobs d' = send_jobs d @ map scheduled_job (due_messages now d)
    \<and> dispatchDueMessages (dispatchDueMessages id (\<lambda>i. False) now) (\<lambda>i. False) now d = d'"
proof -
  let ?due = "due_messages now d"
  let ?d' = "dispatchDueMessages id (\<lambda>i. False) now d"
  have m: "messages ?d' = map (claim_row now ?due) (messages d)"
    by (simp add: dispatchDueMessages_def claim_fold_messages)
  moreover have "send_jobs ?d' = send_jobs d @ map scheduled_job ?due"
    unfolding dispatchDueMessages_def id_apply
    using claim_fold_jobs [OF distinct_due [OF assms]] due_messages_scheduled by blast
  moreover have "fold (claim_message (\<lambda>i. False) now) ?due ?d' = ?d'"
    by (rule claim_fold_again) (auto simp only: m claimed_not_scheduled)
  ultimately show ?thesis unfolding Let_def by (simp add: dispatchDueMessages_def [of "dispatchDueMessages id _ _"])
qed

theorem due_messages_queued_once_witness:
  "send_jobs (dispatchDueMessages (dispatchDueMessages id (\<lambda>i. False) 10) (\<lambda>i. False) 10
     (gateway_db [sample_message scheduled (Some 8)])) = [scheduled_job (lit ''m'')]"
proof -
  let ?d = "gateway_db [sample_message scheduled (Some 8)]"
  have "messages ?d = [sample_message scheduled (Some 8)]" "send_jobs ?d = []"
    by (simp_all add: gateway_db_def empty_db_def)
  then have "distinct (msgs.ids ?d)" "due_messages 10 ?d = [lit ''m'']"
    by (simp_all add: msgs.ids_def due_messages_def sample_message_row)
  with due_messages_queued_once [of ?d 10] \<open>send_jobs ?d = []\<close> show ?thesis by (simp add: Let_def)
qed

section \<open>Reconciliation\<close>

lemma reconcile_fold:
  "fold (\<lambda>i d. if h i then d else d\<lparr>send_jobs := send_jobs d @ [j i]\<rparr>) ids d =
     d\<lparr>send_jobs := send_jobs d @ map j (filter (\<lambda>i. \<not> h i) ids)\<rparr>"
  by (induction ids arbitrary: d) auto

text \<open>
  Reconciliation adds one job for every message that has been queued or dispatching for
  two minutes without a job (the hundred oldest) and changes nothing else: no status, no
  history, no job that exists.
\<close>

theorem reconcile_only_requeues:
  "reconcile hasJob addFails now d =
     d\<lparr>send_jobs := send_jobs d @ map scheduled_job (filter (\<lambda>i. \<not> (hasJob i \<or> addFails i)) (stuck_messages now d))\<rparr>
   \<and> (\<forall>i\<in>set (stuck_messages now d). \<exists>m\<in>set (messages d). ms_id m = i
        \<and> (ms_status m = queued \<or> ms_status m = dispatching) \<and> ms_updatedAt m < now - 120000)"
proof
  show "reconcile hasJob addFails now d =
     d\<lparr>send_jobs := send_jobs d @ map scheduled_job (filter (\<lambda>i. \<not> (hasJob i \<or> addFails i)) (stuck_messages now d))\<rparr>"
    unfolding reconcile_def scheduled_job_def by (rule reconcile_fold)
  show "\<forall>i\<in>set (stuck_messages now d). \<exists>m\<in>set (messages d). ms_id m = i
        \<and> (ms_status m = queued \<or> ms_status m = dispatching) \<and> ms_updatedAt m < now - 120000"
    unfolding stuck_messages_def STALE_AFTER_MS_def by (auto dest!: in_set_takeD)
qed

theorem reconcile_only_requeues_witness:
  "send_jobs (reconcile (\<lambda>i. False) (\<lambda>i. False) 200000 (gateway_db [sample_message dispatching None]))
     = [scheduled_job (lit ''m'')]"
proof -
  let ?d = "gateway_db [sample_message dispatching None]"
  have "messages ?d = [sample_message dispatching None]" "send_jobs ?d = []"
    by (simp_all add: gateway_db_def empty_db_def)
  then have "stuck_messages 200000 ?d = [lit ''m'']" "send_jobs ?d = []"
    by (simp_all add: stuck_messages_def sample_message_row STALE_AFTER_MS_def)
  with reconcile_only_requeues [of "\<lambda>i. False" "\<lambda>i. False" 200000 ?d] show ?thesis by simp
qed

section \<open>A cancelled retry\<close>

lemma status_after_change:
  assumes "msgs.lookup d i = Some m" and "messages d' = messages (set_status now i st d)"
  shows "\<exists>m'. msgs.lookup d' i = Some m' \<and> ms_status m' = st \<and> ms_accountId m' = ms_accountId m"
  using assms msgs_lookup_cong [OF assms(2)] by (simp add: lookup_set_status)

text \<open>
  C18. Cancelling a retried message does not stop it: the retry has put a job under another
  name into the queue, cancelling removes only the job named after the message, and the
  worker does not look at the status; a cancelled message whose retry job runs is sent.
\<close>

theorem cancelled_retry_is_sent:
  assumes "msgs.lookup d i = Some m" and "ms_status m = failed"
    and "find (\<lambda>a. ac_id a = ms_accountId m) (accounts d) = Some acc"
    and "\<And>a o' e c. \<exists>res. pe_send env a o' e c = Answered res \<and> re_accepted res"
  shows "let d1 = snd (retry t1 i actor d); d2 = snd (cancel removable t2 i actor d1) in
     fst (cancel removable t2 i actor d1) = None
   \<and> map_option ms_status (msgs.lookup d2 i) = Some cancelled
   \<and> (\<exists>job\<in>set (send_jobs d2). sj_messageId job = i
        \<and> map_option ms_status (msgs.lookup (snd (send_process env job 0 d2)) i) = Some sent)"
proof -
  define d1 where "d1 = snd (retry t1 i actor d)"
  define d2 where "d2 = snd (cancel removable t2 i actor d1)"
  define job where "job = \<lparr>sj_messageId = i, sj_jobId = i @ lit ''-'' @ lit ''retry-'' @ dec_str (nat t1),
    sj_attempts = None, sj_backoff = None\<rparr>"
  have r: "messages d1 = messages (set_status t1 i queued d)" "job \<in> set (send_jobs d1)" "accounts d1 = accounts d"
    using assms(1,2)
    by (simp_all add: d1_def retry_def Let_def audit_log_def enqueueSend_def job_def)
  from status_after_change [OF assms(1) r(1)] obtain m1 where
    m1: "msgs.lookup d1 i = Some m1" "ms_status m1 = queued" "ms_accountId m1 = ms_accountId m" by blast
  have c: "messages d2 = messages (set_status t2 i cancelled d1)" "job \<in> set (send_jobs d2)" "accounts d2 = accounts d"
    "fst (cancel removable t2 i actor d1) = None"
    using m1 r by (simp_all add: d2_def cancel_def Let_def audit_log_def removeSend_def delete_where_def job_def)
  from status_after_change [OF m1(1) c(1)] obtain m2 where
    m2: "msgs.lookup d2 i = Some m2" "ms_status m2 = cancelled" "ms_accountId m2 = ms_accountId m"
    using m1(3) by auto
  have "map_option ms_status (msgs.lookup (snd (send_process env job 0 d2)) i) = Some sent"
  proof -
    have ji: "sj_messageId job = i" by (simp add: job_def)
    let ?d3 = "attempt_started env job (0 + 1) d2"
    have "find (\<lambda>a. ac_id a = ms_accountId m2) (accounts ?d3) = Some acc"
      using assms(3) m2(3) c(3) by (simp add: attempt_started_messages)
    then obtain nm res where call: "dispatch_call env m2 ?d3 = (nm, Answered res)" "re_accepted res"
      using assms(4) by (simp add: dispatch_call_def Let_def) (metis (no_types, lifting))
    let ?f = "\<lambda>x. x\<lparr>ms_status := sent, ms_externalId := re_externalId res, ms_updatedAt := pe_now env\<rparr>"
    have "messages (snd (send_process env job 0 d2)) = messages (messages_update (update_where (\<lambda>x. ms_id x = i) ?f) ?d3)"
      using send_process_alt [of d2 job m2 env 0] m2(1) call by (simp add: Let_def ji)
    from msgs_lookup_cong [OF this]
    have "msgs.lookup (snd (send_process env job 0 d2)) i = map_option ?f (msgs.lookup ?d3 i)"
      using msgs.lookup_update [of ?f i ?d3 i] by simp
    then show ?thesis using attempt_started_lookup [of d2 job m2 env "0 + 1"] m2(1) by (simp add: ji)
  qed
  with m2 c show ?thesis
    unfolding Let_def d1_def [symmetric] d2_def [symmetric] by (auto simp: job_def intro!: bexI [of _ job])
qed

theorem cancelled_retry_is_sent_witness:
  "let d1 = snd (retry 6 (lit ''m'') None (gateway_db [sample_message failed None]));
       d2 = snd (cancel True 7 (lit ''m'') None d1)
   in map_option ms_status (msgs.lookup d2 (lit ''m'')) = Some cancelled
    \<and> (\<exists>job\<in>set (send_jobs d2). map_option ms_status (msgs.lookup
          (snd (send_process accepting_env job 0 d2)) (lit ''m'')) = Some sent)"
proof -
  have "find (\<lambda>a. ac_id a = ms_accountId (sample_message failed None)) (accounts (gateway_db [sample_message failed None]))
      = Some sample_account"
    by (simp add: sample_message_row gateway_db_def sample_account_def)
  note account = this
  have accepts: "\<exists>res. pe_send accepting_env a out e c = Answered res \<and> re_accepted res" for a out e c
    by (simp add: accepting_env_def)
  show ?thesis
    using cancelled_retry_is_sent [OF sample_message_found sample_message_row(2) account accepts, where actor = None
        and removable = True and ?t1.0 = 6 and ?t2.0 = 7]
    unfolding Let_def by blast
qed

end
