(* ===== verification/Media.thy ===== *)
theory Media
  imports Events AuditLog
begin

text \<open>
  Media: storing inbound files in the worker (apps/worker/src/inbound/inbound-media.service.ts),
  uploading, downloading and deleting in the API (apps/api/src/media/media.service.ts), and
  the retention job (apps/worker/src/schedulers/media-retention.scheduler.ts). The media
  directory is the field \<open>media_files\<close> of the state. SHA-256 and whether a file operation
  succeeds are arguments.
\<close>

section \<open>File names\<close>

definition MAX_FILE_SIZE :: nat where
  "MAX_FILE_SIZE = 50 * 1024 * 1024"

definition is_alnum :: "nat \<Rightarrow> bool" where
  "is_alnum c \<longleftrightarrow> is_digit c \<or> is_ascii_letter c"

text \<open>The part after the last slash or backslash.\<close>

definition base_name :: "ustring \<Rightarrow> ustring" where
  "base_name name = last (split_on 47 (map (\<lambda>c. if c = 92 then 47 else c) name))"

text \<open>The worker keeps word characters, dot, dash, the Cyrillic block and space, and writes
  one underscore for every run of other characters.\<close>

definition worker_name_char :: "nat \<Rightarrow> bool" where
  "worker_name_char c \<longleftrightarrow> is_alnum c \<or> c = 95 \<or> c = 46 \<or> c = 45 \<or> (1024 \<le> c \<and> c \<le> 1279) \<or> c = 32"

fun clean_runs :: "bool \<Rightarrow> ustring \<Rightarrow> ustring" where
  "clean_runs in_run [] = []"
| "clean_runs in_run (c # cs) =
     (if worker_name_char c then c # clean_runs False cs
      else if in_run then clean_runs True cs else 95 # clean_runs True cs)"

definition sanitizeFileName :: "ustring \<Rightarrow> ustring" where
  "sanitizeFileName name =
     (let clean = take 200 (clean_runs False (base_name name))
      in if clean = [] then lit ''attachment'' else clean)"

definition safeExt :: "ustring \<Rightarrow> ustring" where
  "safeExt name =
     (let parts = split_on 46 name; ext = last parts
      in if 2 \<le> length parts \<and> 1 \<le> length ext \<and> length ext \<le> 8 \<and> list_all is_alnum ext
         then map lower_cp ext else [])"

definition extFromMime :: "ustring \<Rightarrow> ustring" where
  "extFromMime mime =
     (case map_of [(lit ''image/jpeg'', lit ''jpg''), (lit ''image/png'', lit ''png''), (lit ''image/gif'', lit ''gif''),
        (lit ''image/webp'', lit ''webp''), (lit ''video/mp4'', lit ''mp4''), (lit ''audio/ogg'', lit ''ogg''),
        (lit ''audio/mpeg'', lit ''mp3''), (lit ''audio/aac'', lit ''aac''), (lit ''application/pdf'', lit ''pdf'')]
        (js_trim (hd (split_on 59 mime))) of
        Some e \<Rightarrow> e | None \<Rightarrow> [])"

text \<open>The API replaces every UTF-16 unit outside letters, digits, dot, dash and underscore.\<close>

definition api_name_char :: "nat \<Rightarrow> bool" where
  "api_name_char c \<longleftrightarrow> is_alnum c \<or> c = 46 \<or> c = 95 \<or> c = 45"

definition api_sanitizeFileName :: "ustring \<Rightarrow> ustring" where
  "api_sanitizeFileName name =
     (let cleaned = concat (map (\<lambda>c. if api_name_char c then [c] else if c < 65536 then [95] else [95, 95]) (base_name name))
      in if cleaned = [] \<or> cleaned = lit ''.'' \<or> cleaned = lit ''..'' then lit ''file'' else take 200 cleaned)"

definition api_safeExt :: "ustring \<Rightarrow> ustring" where
  "api_safeExt safeName =
     (let parts = split_on 46 safeName; ext = last parts
      in if length parts < 2 \<or> length safeName = Suc (length ext) then [] else take 16 (map lower_cp ext))"

section \<open>Where a file is stored\<close>

text \<open>The UTC date of a time in milliseconds (proleptic Gregorian calendar).\<close>

definition utc_date :: "int \<Rightarrow> int \<times> int \<times> int" where
  "utc_date t =
     (let z = t div 86400000 + 719468; era = z div 146097; doe = z mod 146097;
          yoe = (doe - doe div 1460 + doe div 36524 - doe div 146096) div 365;
          doy = doe - (365 * yoe + yoe div 4 - yoe div 100);
          mp = (5 * doy + 2) div 153; dd = doy - (153 * mp + 2) div 5 + 1;
          mm = (if mp < 10 then mp + 3 else mp - 9);
          yy = yoe + era * 400 + (if mm \<le> 2 then 1 else 0)
      in (yy, mm, dd))"

definition pad2 :: "int \<Rightarrow> ustring" where
  "pad2 n = (if n < 10 then [48] @ dec_str (nat n) else dec_str (nat n))"

definition path_join :: "ustring list \<Rightarrow> ustring" where
  "path_join segs = join_with [47] segs"

definition storage_segments :: "int \<Rightarrow> ustring \<Rightarrow> ustring \<Rightarrow> ustring \<Rightarrow> ustring list" where
  "storage_segments now sha fid ext =
     (case utc_date now of (yy, mm, dd) \<Rightarrow>
        [dec_str (nat yy), pad2 mm, pad2 dd, take 8 sha, if ext \<noteq> [] then fid @ lit ''.'' @ ext else fid])"

section \<open>The worker stores inbound files\<close>

record fetched_file =
  ff_bytes :: "nat list"
  ff_contentType :: ustring
  ff_fileName :: ustring

text \<open>\<open>me_fetch\<close> is \<open>fetchInboundMedia\<close> of the adapter: \<open>None\<close> if it has none, else a file or
  an exception (\<open>None\<close>). \<open>me_writable\<close> says for which paths the directory can be written.\<close>

record media_env =
  me_now :: int
  me_sha256 :: "nat list \<Rightarrow> ustring"
  me_writable :: "ustring \<Rightarrow> bool"
  me_fetch :: "(ustring \<Rightarrow> fetched_file option) option"

definition attachment_of ::
  "ustring \<Rightarrow> ustring option \<Rightarrow> ustring list \<Rightarrow> ustring \<Rightarrow> ustring \<Rightarrow> nat list \<Rightarrow> ustring \<Rightarrow> int \<Rightarrow> attachment_row" where
  "attachment_of fid messageId segs name mime bytes sha now =
     \<lparr>at_attId = fid, at_msgId = messageId, at_storagePath = path_join segs, at_fileName = name,
      at_mimeType = mime, at_sizeBytes = length bytes, at_sha256 = sha, at_deletedAt = None, at_createdAt = now\<rparr>"

text \<open>\<open>None\<close> is the exception of a file operation; nothing is stored then.\<close>

definition media_persist :: "media_env \<Rightarrow> ustring \<Rightarrow> nat list \<Rightarrow> ustring \<Rightarrow> ustring \<Rightarrow> db \<Rightarrow> db option" where
  "media_persist env messageId bytes name mime d =
     (let (fid, d1) = fresh_id d; sha = me_sha256 env bytes; safeName = sanitizeFileName name;
          ext = (if safeExt safeName \<noteq> [] then safeExt safeName else extFromMime mime);
          segs = storage_segments (me_now env) sha fid ext
      in if \<not> me_writable env (path_join segs) then None
         else Some (d1\<lparr>media_files := (path_join segs, bytes) # media_files d1,
                attachments := attachments d1 @ [attachment_of fid (Some messageId) segs safeName mime bytes sha (me_now env)]\<rparr>))"

definition store_ref :: "media_env \<Rightarrow> (ustring \<Rightarrow> fetched_file option) \<Rightarrow> ustring \<Rightarrow> canonical_attachment \<Rightarrow> nat \<times> db \<Rightarrow> nat \<times> db" where
  "store_ref env fetch messageId ref = (\<lambda>(stored, d).
     if \<not> truthy_str (ct_ref ref) then (stored, d)
     else (case fetch (the (ct_ref ref)) of
             None \<Rightarrow> (stored, d)
           | Some file \<Rightarrow>
               if ff_bytes file = [] \<or> length (ff_bytes file) > MAX_FILE_SIZE then (stored, d)
               else (case media_persist env messageId (ff_bytes file)
                            (case ct_filename ref of Some f \<Rightarrow> f | None \<Rightarrow> ff_fileName file)
                            (case ct_mime ref of Some m \<Rightarrow> m | None \<Rightarrow> ff_contentType file) d of
                       Some d' \<Rightarrow> (stored + 1, d')
                     | None \<Rightarrow> (stored, d))))"

definition storeFor :: "media_env \<Rightarrow> ustring \<Rightarrow> canonical_attachment list \<Rightarrow> db \<Rightarrow> nat \<times> db" where
  "storeFor env messageId refs d =
     (case me_fetch env of
        None \<Rightarrow> (0, d)
      | Some fetch \<Rightarrow> fold (store_ref env fetch messageId) refs (0, d))"

section \<open>The API\<close>

datatype media_error = FileTooLarge | FileNotFound | FileGone | FileLinked | BadBase64 | StorageFailed

definition upload :: "media_env \<Rightarrow> nat list \<Rightarrow> ustring \<Rightarrow> ustring \<Rightarrow> ustring option \<Rightarrow> db \<Rightarrow> (media_error + attachment_row) \<times> db" where
  "upload env bytes name mime actorId d =
     (if length bytes > MAX_FILE_SIZE then (Inl FileTooLarge, d)
      else let (fid, d1) = fresh_id d; sha = me_sha256 env bytes; safeName = api_sanitizeFileName name;
               segs = storage_segments (me_now env) sha fid (api_safeExt safeName);
               row = attachment_of fid None segs safeName mime bytes sha (me_now env)
           in if \<not> me_writable env (path_join segs) then (Inl StorageFailed, d)
              else let d2 = d1\<lparr>media_files := (path_join segs, bytes) # media_files d1,
                              attachments := attachments d1 @ [row]\<rparr>
                   in (Inr row, audit_log actorId ''media.uploaded'' ''attachment'' fid (JObj [])
                        (JObj [(lit ''id'', JStr fid), (lit ''fileName'', JStr safeName),
                               (lit ''sizeBytes'', JNum (of_nat (length bytes))), (lit ''sha256'', JStr sha)]) d2))"

text \<open>The attachment and the file that is streamed, if it is still there.\<close>

definition getForDownload :: "ustring \<Rightarrow> db \<Rightarrow> media_error + (attachment_row \<times> nat list option)" where
  "getForDownload i d =
     (case atts.lookup d i of
        None \<Rightarrow> Inl FileNotFound
      | Some a \<Rightarrow> if at_deletedAt a \<noteq> None then Inl FileGone
                  else Inr (a, map_of (media_files d) (at_storagePath a)))"

definition remove_file :: "ustring \<Rightarrow> db \<Rightarrow> db" where
  "remove_file p d = d\<lparr>media_files := filter (\<lambda>f. fst f \<noteq> p) (media_files d)\<rparr>"

text \<open>\<open>unlinks\<close>: the unlink succeeds. A failure is logged and the row deleted all the same.\<close>

definition media_delete :: "bool \<Rightarrow> ustring \<Rightarrow> ustring option \<Rightarrow> db \<Rightarrow> media_error option \<times> db" where
  "media_delete unlinks i actorId d =
     (case atts.lookup d i of
        None \<Rightarrow> (Some FileNotFound, d)
      | Some a \<Rightarrow>
          if truthy_str (at_msgId a) then (Some FileLinked, d)
          else let d1 = (if unlinks then remove_file (at_storagePath a) d else d);
                   d2 = attachments_update (delete_where (\<lambda>x. at_attId x = i)) d1
               in (None, audit_log actorId ''media.deleted'' ''attachment'' i
                     (JObj [(lit ''fileName'', JStr (at_fileName a)), (lit ''sha256'', JStr (at_sha256 a))]) (JObj []) d2))"

text \<open>\<open>decode\<close> is Node's lenient base64 decoder.\<close>

definition decodeBase64Payload :: "(ustring \<Rightarrow> nat list) \<Rightarrow> ustring \<Rightarrow> media_error + nat list" where
  "decodeBase64Payload decode s =
     (if decode s = [] \<and> s \<noteq> [] then Inl BadBase64
      else if length (decode s) > MAX_FILE_SIZE then Inl FileTooLarge else Inr (decode s))"

section \<open>Retention\<close>

definition DEFAULT_RETENTION_DAYS :: int where
  "DEFAULT_RETENTION_DAYS = 60"

definition BATCH_LIMIT :: nat where
  "BATCH_LIMIT = 200"

text \<open>\<open>path.resolve\<close> of a base, given by its segments, and a path: empty segments and dots are
  dropped, two dots drop the segment before them, an absolute path replaces the base.\<close>

fun normal_segs :: "ustring list \<Rightarrow> ustring list \<Rightarrow> ustring list" where
  "normal_segs acc [] = rev acc"
| "normal_segs acc (x # xs) =
     (if x = [] \<or> x = lit ''.'' then normal_segs acc xs
      else if x = lit ''..'' then normal_segs (tl acc) xs
      else normal_segs (x # acc) xs)"

definition path_resolve :: "ustring list \<Rightarrow> ustring \<Rightarrow> ustring list" where
  "path_resolve base rel =
     normal_segs [] ((if starts_with [47] rel then [] else base) @ split_on 47 rel)"

text \<open>\<open>resolved.startsWith(base + sep)\<close>.\<close>

definition inside_root :: "ustring list \<Rightarrow> ustring list \<Rightarrow> bool" where
  "inside_root base target \<longleftrightarrow> length base < length target \<and> take (length base) target = base"

datatype unlink_result = Unlinked | AlreadyAbsent | UnlinkError

text \<open>\<open>None\<close> is the exception that is rethrown.\<close>

definition deleteFile :: "(ustring list \<Rightarrow> unlink_result) \<Rightarrow> ustring list \<Rightarrow> ustring \<Rightarrow> db \<Rightarrow> db option" where
  "deleteFile unlink base storagePath d =
     (let target = path_resolve base storagePath in
      if \<not> inside_root base target then Some d
      else (case unlink target of
              Unlinked \<Rightarrow> Some (remove_file (path_join (drop (length base) target)) d)
            | AlreadyAbsent \<Rightarrow> Some d
            | UnlinkError \<Rightarrow> None))"

definition positive_days :: "json option \<Rightarrow> int option" where
  "positive_days v = (case v of Some (JNum r) \<Rightarrow> if r > 0 then Some (floor r) else None | _ \<Rightarrow> None)"

definition loadRetentionDays :: "db \<Rightarrow> int" where
  "loadRetentionDays d =
     (let v = map_of (settings d) (lit ''media.retentionDays'') in
      case positive_days v of
        Some n \<Rightarrow> n
      | None \<Rightarrow>
          (case v of
             Some (JObj kvs) \<Rightarrow>
               (case positive_days (map_of kvs (lit ''days'')) of Some n \<Rightarrow> n | None \<Rightarrow> DEFAULT_RETENTION_DAYS)
           | _ \<Rightarrow> DEFAULT_RETENTION_DAYS))"

definition deleted_event :: "attachment_row \<Rightarrow> emit_params" where
  "deleted_event a =
     \<lparr>em_type = lit ''media.deleted'', em_aggregateId = at_msgId a, em_channel = None, em_accountId = None,
      em_endpointId = None,
      em_data = JObj [(lit ''attachment'', JObj [(lit ''id'', JStr (at_attId a)), (lit ''messageId'', opt_str (at_msgId a)),
        (lit ''fileName'', JStr (at_fileName a)), (lit ''mimeType'', JStr (at_mimeType a)),
        (lit ''sizeBytes'', JNum (of_nat (at_sizeBytes a)))])],
      em_dedupKey = Some (lit ''media-'' @ at_attId a @ lit ''-media.deleted'')\<rparr>"

definition expired_media :: "int \<Rightarrow> db \<Rightarrow> attachment_row list" where
  "expired_media now d =
     (let cutoff = now - loadRetentionDays d * 24 * 60 * 60 * 1000 in
      take BATCH_LIMIT (sort_key at_createdAt
        (filter (\<lambda>a. at_deletedAt a = None \<and> at_createdAt a < cutoff) (attachments d))))"

definition expire_one :: "(ustring list \<Rightarrow> unlink_result) \<Rightarrow> ustring list \<Rightarrow> (int \<Rightarrow> ustring) \<Rightarrow> int \<Rightarrow> attachment_row \<Rightarrow> db \<Rightarrow> db" where
  "expire_one unlink base isof now a d =
     (case deleteFile unlink base (at_storagePath a) d of
        None \<Rightarrow> d
      | Some d1 \<Rightarrow>
          snd (emit isof now (deleted_event a)
            (attachments_update (update_where (\<lambda>x. at_attId x = at_attId a) (\<lambda>x. x\<lparr>at_deletedAt := Some now\<rparr>)) d1)))"

definition cleanupExpiredMedia :: "(ustring list \<Rightarrow> unlink_result) \<Rightarrow> ustring list \<Rightarrow> (int \<Rightarrow> ustring) \<Rightarrow> int \<Rightarrow> db \<Rightarrow> db" where
  "cleanupExpiredMedia unlink base isof now d =
     fold (expire_one unlink base isof now) (expired_media now d) d"

section \<open>Every stored path lies inside the media directory\<close>

definition plain_char :: "nat \<Rightarrow> bool" where
  "plain_char c \<longleftrightarrow> is_alnum c \<or> c = 45 \<or> c = 95"

definition plain_segment :: "ustring \<Rightarrow> bool" where
  "plain_segment s \<longleftrightarrow> s \<noteq> [] \<and> 47 \<notin> set s \<and> s \<noteq> lit ''.'' \<and> s \<noteq> lit ''..''"

lemma plain_char_not_slash: "plain_char c \<Longrightarrow> c \<noteq> 47 \<and> c \<noteq> 46"
  by (auto simp: plain_char_def is_alnum_def is_digit_def is_ascii_letter_def)

lemma dots: "lit ''.'' = [46]" "lit ''..'' = [46, 46]"
  by (simp_all add: lit_def)

lemma plain_chars_segment: "s \<noteq> [] \<Longrightarrow> list_all plain_char s \<Longrightarrow> plain_segment s"
  using plain_char_not_slash by (fastforce simp: plain_segment_def list_all_iff dots)

lemma normal_plain: "list_all plain_segment xs \<Longrightarrow> normal_segs acc xs = rev acc @ xs"
  by (induction xs arbitrary: acc) (auto simp: plain_segment_def)

lemma split_join:
  assumes "xs \<noteq> []" and "\<forall>x\<in>set xs. d \<notin> set x"
  shows "split_on d (join_with [d] xs) = xs"
  using assms
proof (induction "[d]" xs rule: join_with.induct)
  case (2 w)
  then show ?case by (simp add: split_on_no_sep)
next
  case (3 w v ws)
  have "split_on d (a @ d # b) = a # split_on d b" if "d \<notin> set a" for a b
    using that by (induction a) auto
  with 3 show ?case by simp
qed simp

lemma path_join_hd: "x \<noteq> [] \<Longrightarrow> \<exists>rest. path_join (x # xs) = hd x # rest"
  by (cases xs) (auto simp: path_join_def neq_Nil_conv)

lemma resolve_plain:
  assumes "list_all plain_segment base" and "list_all plain_segment segs" and "segs \<noteq> []"
  shows "path_resolve base (path_join segs) = base @ segs"
proof -
  have "split_on 47 (path_join segs) = segs"
    unfolding path_join_def using assms by (intro split_join) (auto simp: list_all_iff plain_segment_def)
  moreover have "\<not> starts_with [47] (path_join segs)"
  proof -
    obtain x xs where x: "segs = x # xs" "x \<noteq> []" "47 \<notin> set x"
      using assms(2,3) by (cases segs) (auto simp: plain_segment_def)
    from path_join_hd [OF x(2), of xs] x show ?thesis by (cases x) (auto simp: starts_with_def)
  qed
  ultimately show ?thesis using assms(1,2) by (simp add: path_resolve_def normal_plain)
qed

lemma dec_str_digits: "dec_str n \<noteq> [] \<and> list_all is_digit (dec_str n)"
proof (induction n rule: dec_str.induct)
  case (1 n)
  then show ?case by (subst (1 2) dec_str.simps) (auto simp: is_digit_def [of "48 + _"])
qed

lemma plain_number: "plain_segment (dec_str n)" "plain_segment (pad2 m)"
  using dec_str_digits [of n] dec_str_digits [of "nat m"]
  by (auto intro!: plain_chars_segment simp: pad2_def list_all_iff plain_char_def is_alnum_def is_digit_def)

text \<open>A file name built of an identifier and an extension of plain characters.\<close>

lemma plain_file:
  assumes "fid \<noteq> []" "list_all plain_char fid" "list_all plain_char ext"
  shows "plain_segment (if ext \<noteq> [] then fid @ lit ''.'' @ ext else fid)"
  using assms plain_char_not_slash
  by (cases fid) (auto simp: plain_segment_def list_all_iff dots neq_Nil_conv; fastforce)+

lemma storage_plain:
  assumes "fid \<noteq> []" "list_all plain_char fid" "list_all plain_char ext"
    and "list_all plain_char sha" "sha \<noteq> []"
  shows "list_all plain_segment (storage_segments now sha fid ext)"
proof -
  have "plain_segment (take 8 sha)"
    using assms(4,5) by (intro plain_chars_segment) (auto simp: list_all_iff dest: in_set_takeD)
  then show ?thesis
    using plain_file [OF assms(1-3)] plain_number
    by (cases "utc_date now") (simp add: storage_segments_def split: if_splits)
qed

lemma lower_plain: "plain_char c \<Longrightarrow> plain_char (lower_cp c)"
  by (auto simp: plain_char_def lower_cp_def is_alnum_def is_digit_def is_ascii_letter_def)

lemma worker_ext_plain:
  "list_all plain_char (if safeExt n \<noteq> [] then safeExt n else extFromMime mime)"
proof -
  have "list_all plain_char (safeExt n)"
    using lower_plain by (auto simp: safeExt_def Let_def list_all_iff plain_char_def)
  moreover have "list_all plain_char (extFromMime mime)"
    by (simp add: extFromMime_def lit_def plain_char_def is_alnum_def is_digit_def is_ascii_letter_def)
  ultimately show ?thesis by simp
qed

lemma api_clean_plain:
  "c \<in> set (concat (map (\<lambda>c. if api_name_char c then [c] else if c < 65536 then [95] else [95, 95]) xs)) \<Longrightarrow>
   plain_char c \<or> c = 46"
  by (induction xs) (auto simp: api_name_char_def plain_char_def split: if_splits)

lemma api_name_plain:
  assumes "c \<in> set (api_sanitizeFileName n)" shows "plain_char c \<or> c = 46"
proof (cases "c \<in> set (lit ''file'')")
  case True
  then show ?thesis by (auto simp: lit_def plain_char_def is_alnum_def is_ascii_letter_def)
next
  case False
  with assms show ?thesis
    unfolding api_sanitizeFileName_def Let_def
    by (auto split: if_split_asm dest: api_clean_plain in_set_takeD)
qed

lemma last_split_subset: "set (last (split_on d s)) \<subseteq> set s - {d}"
proof -
  have "last (split_on d s) \<in> set (split_on d s)" by simp
  moreover have "\<forall>w\<in>set (split_on d s). set w \<subseteq> set s"
    by (induction s) (auto split: list.splits if_splits)
  ultimately show ?thesis using split_on_sep_free by fastforce
qed

lemma api_ext_plain: "list_all plain_char (api_safeExt (api_sanitizeFileName n))"
  using last_split_subset [of 46 "api_sanitizeFileName n"] api_name_plain [of _ n] lower_plain
  by (fastforce simp: api_safeExt_def Let_def list_all_iff dest!: in_set_takeD)

lemma inside_append: "segs \<noteq> [] \<Longrightarrow> inside_root base (base @ segs)"
  by (simp add: inside_root_def)

lemma storage_not_Nil [simp]: "storage_segments now sha fid ext \<noteq> []"
  by (simp add: storage_segments_def split: prod.split)

text \<open>
  C22. Whatever name a sender or client gives a file, it is stored under the media
  directory: the path of an uploaded or received file resolves to the directory followed by
  plain segments, the retention job recognises it as its own, and the bytes are found under
  that path again. The hypotheses are that generated identifiers and hashes consist of
  letters, digits and dashes.
\<close>

theorem stored_files_inside_root:
  assumes "list_all plain_segment base"
    and "\<forall>n. uuid_source d n \<noteq> [] \<and> list_all plain_char (uuid_source d n)"
    and "\<forall>b. me_sha256 env b \<noteq> [] \<and> list_all plain_char (me_sha256 env b)"
  shows "(case upload env bytes name mime actor d of
       (Inl e, d') \<Rightarrow> d' = d
     | (Inr a, d') \<Rightarrow> (\<exists>segs. path_resolve base (at_storagePath a) = base @ segs \<and> segs \<noteq> [] \<and> list_all plain_segment segs)
         \<and> inside_root base (path_resolve base (at_storagePath a))
         \<and> attachments d' = attachments d @ [a] \<and> map_of (media_files d') (at_storagePath a) = Some bytes)
   \<and> (case media_persist env mid bytes name mime d of
       None \<Rightarrow> True
     | Some d' \<Rightarrow> \<exists>a segs. attachments d' = attachments d @ [a] \<and> path_resolve base (at_storagePath a) = base @ segs
         \<and> segs \<noteq> [] \<and> list_all plain_segment segs \<and> inside_root base (path_resolve base (at_storagePath a))
         \<and> map_of (media_files d') (at_storagePath a) = Some bytes)"
proof -
  have plain: "list_all plain_segment (storage_segments (me_now env) (me_sha256 env bytes) (uuid_source d (uuid_next d)) ext)"
    if "list_all plain_char ext" for ext
    using assms(2,3) that by (intro storage_plain) auto
  note resolve = resolve_plain [OF assms(1) plain storage_not_Nil]
  show ?thesis
    using resolve [OF api_ext_plain] plain [OF api_ext_plain] resolve [OF worker_ext_plain] plain [OF worker_ext_plain]
    by (auto simp: upload_def media_persist_def fresh_id_def Let_def attachment_of_def audit_log_def inside_append)
qed

definition sample_media_env :: media_env where
  "sample_media_env = \<lparr>me_now = 0, me_sha256 = (\<lambda>b. lit ''ab''), me_writable = (\<lambda>p. True), me_fetch = None\<rparr>"

theorem stored_files_inside_root_witness:
  "\<exists>a d'. upload sample_media_env [1, 2] (lit ''../../etc/passwd'') [] None (empty_db tick_ids) = (Inr a, d')
     \<and> inside_root [lit ''data'', lit ''media''] (path_resolve [lit ''data'', lit ''media''] (at_storagePath a))"
proof -
  let ?u = "upload sample_media_env [1, 2] (lit ''../../etc/passwd'') [] None (empty_db tick_ids)"
  have base: "list_all plain_segment [lit ''data'', lit ''media'']"
    by (auto simp: lit_def plain_char_def is_alnum_def is_ascii_letter_def intro!: plain_chars_segment)
  have ids: "\<forall>n. uuid_source (empty_db tick_ids) n \<noteq> [] \<and> list_all plain_char (uuid_source (empty_db tick_ids) n)"
    by (auto simp: empty_db_def tick_ids_def plain_char_def is_alnum_def is_ascii_letter_def list_all_iff)
  have sha: "\<forall>b. me_sha256 sample_media_env b \<noteq> [] \<and> list_all plain_char (me_sha256 sample_media_env b)"
    by (simp add: sample_media_env_def lit_def plain_char_def is_alnum_def is_ascii_letter_def)
  have "\<exists>a d'. ?u = (Inr a, d')"
    by (simp add: upload_def MAX_FILE_SIZE_def sample_media_env_def fresh_id_def Let_def)
  then obtain a d' where "?u = (Inr a, d')" by blast
  with stored_files_inside_root [OF base ids sha, of "[1, 2]" "lit ''../../etc/passwd''" "[]" None] show ?thesis by auto
qed

section \<open>The retention job deletes only expired files of the directory\<close>

lemma expire_one_attachments:
  "attachments (expire_one unlink base isof now a d) =
     (if deleteFile unlink base (at_storagePath a) d = None then attachments d
      else update_where (\<lambda>x. at_attId x = at_attId a) (\<lambda>x. x\<lparr>at_deletedAt := Some now\<rparr>) (attachments d))"
proof -
  have emit_atts: "attachments (snd (emit isof now p d')) = attachments d'" for p d'
    by (simp add: emit_def fresh_id_def Let_def split: option.split)
  have "attachments d1 = attachments d" if "deleteFile unlink base p d = Some d1" for p d1
    using that by (auto simp: deleteFile_def Let_def remove_file_def split: if_splits unlink_result.splits)
  then show ?thesis by (simp add: expire_one_def emit_atts split: option.split)
qed

lemma expire_fold_spares:
  assumes "a \<in> set (attachments d)" and "at_attId a \<notin> at_attId ` set xs"
  shows "a \<in> set (attachments (fold (expire_one unlink base isof now) xs d))"
  using assms
proof (induction xs arbitrary: d)
  case (Cons x xs)
  have "a \<in> set (attachments (expire_one unlink base isof now x d))"
    using Cons.prems by (force simp: expire_one_attachments set_update_where)
  with Cons.IH Cons.prems(2) show ?case by simp
qed simp

text \<open>A file younger than the retention period keeps its row.\<close>

lemma retention_spares_recent:
  assumes "a \<in> set (attachments d)" and "distinct (atts.ids d)"
    and "now - loadRetentionDays d * 24 * 60 * 60 * 1000 \<le> at_createdAt a"
  shows "a \<in> set (attachments (cleanupExpiredMedia unlink base isof now d))"
proof -
  have "at_attId a \<notin> at_attId ` set (expired_media now d)"
  proof
    assume "at_attId a \<in> at_attId ` set (expired_media now d)"
    then obtain x where x: "x \<in> set (expired_media now d)" "at_attId x = at_attId a" by auto
    then have "x \<in> set (attachments d)" "at_createdAt x < now - loadRetentionDays d * 24 * 60 * 60 * 1000"
      by (auto simp: expired_media_def Let_def dest!: in_set_takeD)
    moreover from this(1) x(2) assms(1,2) have "x = a" by (auto simp: atts.ids_def distinct_map inj_on_def)
    ultimately show False using assms(3) by simp
  qed
  with assms(1) show ?thesis unfolding cleanupExpiredMedia_def by (rule expire_fold_spares)
qed

end
