(* ===== verification/Ingest.thy ===== *)
theory Ingest
  imports Sending SmsConcat Media
begin

text \<open>
  The inbound path (apps/worker/src/inbound/inbound-ingest.service.ts, with its callers
  apps/worker/src/processors/inbound-ingest.processor.ts,
  apps/worker/src/schedulers/sms-concat.scheduler.ts and
  apps/worker/src/inbound/signal-receive.bridge.ts): a vendor payload becomes a status
  change or messages; the segments of a long SMS are held back and assembled. The adapters,
  by name, are an argument; so are the character classes of the SMS repair, the file
  operations, and what other processes do while a thread is opened (\<open>ie_race\<close>).
\<close>

section \<open>What adapters hand over\<close>

datatype status_name' = st_sent | st_delivered | st_read | st_failed | st_unknown

record canonical_status =
  cs_externalId :: ustring
  cs_status :: status_name'
  cs_error :: "adapter_error option"
  cs_rawPayload :: json

text \<open>\<open>ia_inbound\<close> is \<open>None\<close> when \<open>normalizeInbound\<close> throws.\<close>

record inbound_adapter =
  ia_status :: "account_config \<Rightarrow> json \<Rightarrow> canonical_status option"
  ia_inbound :: "account_config \<Rightarrow> endpoint_config \<Rightarrow> json \<Rightarrow> canonical_inbound list option"
  ia_fetch :: "(ustring \<Rightarrow> fetched_file option) option"

record ingest_env =
  ie_adapters :: "ustring \<Rightarrow> inbound_adapter option"
  ie_unicode :: unicode_classes
  ie_now :: int
  ie_iso :: "int \<Rightarrow> ustring"
  ie_sha256 :: "nat list \<Rightarrow> ustring"
  ie_writable :: "ustring \<Rightarrow> bool"
  ie_race :: "db \<Rightarrow> db"
  ie_quietMs :: int
  ie_maxMs :: int

definition attachment_json :: "canonical_attachment \<Rightarrow> json" where
  "attachment_json a = JObj
     ((case ct_ref a of Some r \<Rightarrow> [(lit ''ref'', JStr r)] | None \<Rightarrow> [])
      @ (case ct_mime a of Some m \<Rightarrow> [(lit ''mime'', JStr m)] | None \<Rightarrow> [])
      @ (case ct_filename a of Some f \<Rightarrow> [(lit ''filename'', JStr f)] | None \<Rightarrow> [])
      @ (case ct_size a of Some n \<Rightarrow> [(lit ''size'', JNum n)] | None \<Rightarrow> []))"

definition content_json :: "canonical_inbound \<Rightarrow> json" where
  "content_json i = JObj
     ((case ci_text i of Some t \<Rightarrow> [(lit ''text'', JStr t)] | None \<Rightarrow> [])
      @ (if ci_attachments i = [] then [] else [(lit ''attachments'', JArr (map attachment_json (ci_attachments i)))])
      @ (if ci_meta i = [] then [] else [(lit ''meta'', JObj (ci_meta i))])
      @ ci_more i)"

definition all_types :: "message_type list" where
  "all_types = [text_t, image, audio, voice, video, document, sticker, location, contact, reaction, reply,
     interactive, poll, system, unknown_t]"

definition toMessageType :: "ustring \<Rightarrow> message_type" where
  "toMessageType ty = (case find (\<lambda>t. type_name t = ty) all_types of Some t \<Rightarrow> t | None \<Rightarrow> unknown_t)"

text \<open>\<open>^(digits)(:digits)?@\<close>.\<close>

definition jidToPhone :: "ustring \<Rightarrow> ustring option" where
  "jidToPhone jid =
     (let ds = takeWhile is_digit jid; rest = dropWhile is_digit jid;
          device = takeWhile is_digit (drop 1 rest); rest' = dropWhile is_digit (drop 1 rest)
      in if ds = [] then None
         else if starts_with (lit ''@'') rest then Some (43 # ds)
         else if starts_with (lit '':'') rest \<and> device \<noteq> [] \<and> starts_with (lit ''@'') rest' then Some (43 # ds)
         else None)"

section \<open>Which endpoint a payload belongs to\<close>

definition endpoint_by :: "ustring list \<Rightarrow> (endpoint_row \<Rightarrow> bool) \<Rightarrow> db \<Rightarrow> endpoint_row option" where
  "endpoint_by accountIds P d = find (\<lambda>e. ep_accountId e \<in> set accountIds \<and> P e) (endpoints d)"

definition by_external :: "ustring list \<Rightarrow> ustring option \<Rightarrow> db \<Rightarrow> endpoint_row option" where
  "by_external accountIds x d =
     (if truthy_str x then endpoint_by accountIds (\<lambda>e. ep_externalId e = x) d else None)"

definition resolveEndpoint :: "ustring \<Rightarrow> json \<Rightarrow> db \<Rightarrow> endpoint_row option" where
  "resolveEndpoint adapterName raw d =
     (if \<not> is_object raw then None
      else let accountIds = map ac_id (filter (\<lambda>a. ac_adapter a = adapterName) (accounts d)) in
      if accountIds = [] then None
      else case by_external accountIds (as_string (own raw (lit ''goip_line''))) d of
        Some e \<Rightarrow> Some e
      | None \<Rightarrow>
          (case by_external accountIds (as_string (own raw (lit ''session_id''))) d of
             Some e \<Rightarrow> Some e
           | None \<Rightarrow>
               (case as_string (own raw (lit ''device_id'')) of
                  None \<Rightarrow> None
                | Some jid \<Rightarrow>
                    (case jidToPhone jid of
                       None \<Rightarrow> None
                     | Some phone \<Rightarrow> endpoint_by accountIds (\<lambda>e. ep_phoneE164 e = Some phone) d))))"

section \<open>Delivery reports\<close>

fun status_of :: "status_name' \<Rightarrow> message_status" where
  "status_of st_sent = sent"
| "status_of st_delivered = delivered"
| "status_of st_read = read"
| "status_of st_failed = failed"
| "status_of st_unknown = unknown"

fun rank :: "message_status \<Rightarrow> nat" where
  "rank queued = 1"
| "rank dispatching = 2"
| "rank accepted = 3"
| "rank sent = 4"
| "rank delivered = 5"
| "rank read = 6"
| "rank _ = 0"

definition reported_message :: "canonical_status \<Rightarrow> ustring \<Rightarrow> db \<Rightarrow> message_row option" where
  "reported_message s endpointId d =
     find (\<lambda>m. ms_endpointId m = endpointId \<and> ms_externalId m = Some (cs_externalId s) \<and> ms_direction m = outbound)
       (messages d)"

definition applyStatus :: "ingest_env \<Rightarrow> canonical_status \<Rightarrow> ustring \<Rightarrow> db \<Rightarrow> db" where
  "applyStatus env s endpointId d =
     (case reported_message s endpointId d of
        None \<Rightarrow> d
      | Some m \<Rightarrow>
          (let next = status_of (cs_status s) in
           if cs_status s \<noteq> st_failed \<and> rank next \<le> rank (ms_status m) then d
           else add_history (ms_id m) next (lit ''transport'')
                  (if cs_rawPayload s = JNull then JObj [] else cs_rawPayload s)
                  (set_status (ie_now env) (ms_id m) next d)))"

section \<open>Storing a message\<close>

definition stored_twin :: "ustring \<Rightarrow> ustring \<Rightarrow> db \<Rightarrow> message_row option" where
  "stored_twin endpointId externalId d =
     (if externalId = [] then None
      else find (\<lambda>m. ms_endpointId m = endpointId \<and> ms_externalId m = Some externalId) (messages d))"

definition counterparty :: "canonical_inbound \<Rightarrow> canonical_address option" where
  "counterparty i = (if ci_direction i = outbound then (case ci_to i of a # as \<Rightarrow> Some a | [] \<Rightarrow> None) else Some (ci_from i))"

definition inbound_row :: "canonical_inbound \<Rightarrow> endpoint_row \<Rightarrow> account_row \<Rightarrow> ustring \<Rightarrow> ustring \<Rightarrow> int \<Rightarrow> message_row" where
  "inbound_row i endpoint account mid cid now =
     \<lparr>ms_id = mid, ms_direction = ci_direction i, ms_channelType = ac_type account,
      ms_accountId = ep_accountId endpoint, ms_endpointId = ep_id endpoint, ms_conversationId = Some cid,
      ms_externalId = (if ci_externalId i = [] then None else Some (ci_externalId i)),
      ms_messageType = toMessageType (ci_type i), ms_status = delivered, ms_from = address_json (ci_from i),
      ms_to = JArr (map address_json (ci_to i)), ms_content = content_json i, ms_metadata = JObj [],
      ms_rawPayload = (if ci_rawPayload i = JNull then JObj [] else ci_rawPayload i), ms_scheduledAt = None,
      ms_createdAt = ci_receivedAt i, ms_updatedAt = now\<rparr>"

definition received_event :: "ingest_env \<Rightarrow> canonical_inbound \<Rightarrow> message_row \<Rightarrow> emit_params" where
  "received_event env i m =
     \<lparr>em_type = lit ''message.received'', em_aggregateId = Some (ms_id m), em_channel = Some (ms_channelType m),
      em_accountId = Some (ms_accountId m), em_endpointId = Some (ms_endpointId m),
      em_data = JObj [(lit ''message'', JObj [(lit ''id'', JStr (ms_id m)),
        (lit ''direction'', JStr (direction_name (ms_direction m))),
        (lit ''channel_type'', JStr (channel_name (ms_channelType m))),
        (lit ''external_id'', opt_str (ms_externalId m)),
        (lit ''message_type'', JStr (type_name (ms_messageType m))),
        (lit ''from'', ms_from m), (lit ''to'', ms_to m), (lit ''content'', content_json i),
        (lit ''conversation_id'', opt_str (ms_conversationId m)),
        (lit ''received_at'', JStr (ie_iso env (ci_receivedAt i)))])],
      em_dedupKey = map_option (\<lambda>x. lit ''message.received:'' @ ms_endpointId m @ lit '':'' @ x) (ms_externalId m)\<rparr>"

definition touch_thread :: "ustring \<Rightarrow> int \<Rightarrow> db \<Rightarrow> db" where
  "touch_thread cid t d = conversations_update (update_where
     (\<lambda>c. cv_id c = cid \<and> (case cv_lastMessageAt c of None \<Rightarrow> True | Some l \<Rightarrow> l < t))
     (\<lambda>c. c\<lparr>cv_lastMessageAt := Some t\<rparr>)) d"

definition media_env_of :: "ingest_env \<Rightarrow> inbound_adapter \<Rightarrow> media_env" where
  "media_env_of env adapter = \<lparr>me_now = ie_now env, me_sha256 = ie_sha256 env, me_writable = ie_writable env,
     me_fetch = ia_fetch adapter\<rparr>"

text \<open>\<open>Some b\<close>: whether a message was stored; \<open>None\<close>: an exception.\<close>

definition ingest_persist ::
  "ingest_env \<Rightarrow> inbound_adapter \<Rightarrow> endpoint_row \<Rightarrow> account_row \<Rightarrow> canonical_inbound \<Rightarrow> db \<Rightarrow> bool option \<times> db" where
  "ingest_persist env adapter endpoint account i d =
     (case stored_twin (ep_id endpoint) (ci_externalId i) d of
        Some m \<Rightarrow> (Some False, d)
      | None \<Rightarrow>
          (case findOrCreateConversation (ie_race env) (ie_now env) (ep_id endpoint) (ac_type account)
                  (case counterparty i of Some a \<Rightarrow> ca_e164 a | None \<Rightarrow> None)
                  (map_option ca_raw (counterparty i)) d of
             (None, d1) \<Rightarrow> (None, d1)
           | (Some c, d1) \<Rightarrow>
               (let (mid, d2) = fresh_id d1;
                    m = inbound_row i endpoint account mid (cv_id c) (ie_now env);
                    d3 = touch_thread (cv_id c) (ci_receivedAt i) (d2\<lparr>messages := messages d2 @ [m]\<rparr>);
                    d4 = snd (storeFor (media_env_of env adapter) mid (ci_attachments i) d3)
                in (Some True, snd (emit (ie_iso env) (ie_now env) (received_event env i m) d4)))))"

section \<open>Holding back SMS segments\<close>

definition repaired :: "ingest_env \<Rightarrow> canonical_inbound \<Rightarrow> canonical_inbound" where
  "repaired env i =
     (case ci_text i of
        None \<Rightarrow> i
      | Some original \<Rightarrow>
          (let text = repairGluedParts (ie_unicode env) original in
           if text \<noteq> original
           then i\<lparr>ci_text := Some text, ci_meta := obj_set (lit ''originalText'') (JStr original) (ci_meta i)\<rparr>
           else i))"

definition waiting_parts :: "ustring \<Rightarrow> ustring \<Rightarrow> db \<Rightarrow> sms_part_row list" where
  "waiting_parts endpointId sender d = filter (\<lambda>p. sp_endpointId p = endpointId \<and> sp_sender p = sender) (sms_parts d)"

text \<open>Whether the message was buffered, and the state.\<close>

definition bufferIfPart :: "ingest_env \<Rightarrow> canonical_inbound \<Rightarrow> ustring \<Rightarrow> db \<Rightarrow> bool \<times> db" where
  "bufferIfPart env i endpointId d =
     (if \<not> truthy_str (ci_text i) then (False, d)
      else let i' = repaired env i; text = the (ci_text i'); sender = ca_raw (ci_from i);
               waiting = waiting_parts endpointId sender d
           in if waiting = [] \<and> \<not> looksLikeIncompletePart text then (False, d)
              else if list_ex (\<lambda>w. sp_text w = text) waiting then (True, d)
              else let (pid, d1) = fresh_id d
                   in (True, d1\<lparr>sms_parts := sms_parts d1 @ [\<lparr>sp_id = pid, sp_endpointId = endpointId,
                          sp_sender = sender, sp_text = text, sp_receivedAt = ci_receivedAt i,
                          sp_inbound = i', sp_arrivedAt = ie_now env\<rparr>]\<rparr>))"

section \<open>Ingesting a payload\<close>

text \<open>The loop over the messages of one payload: \<open>None\<close> is an exception, which ends it. The
  repair changes the message also when it is not buffered.\<close>

fun ingest_all ::
  "ingest_env \<Rightarrow> inbound_adapter \<Rightarrow> endpoint_row \<Rightarrow> account_row \<Rightarrow> canonical_inbound list \<Rightarrow> nat \<Rightarrow> db \<Rightarrow> nat option \<times> db" where
  "ingest_all env adapter endpoint account [] stored d = (Some stored, d)"
| "ingest_all env adapter endpoint account (i # is) stored d =
     (case (if ac_type account = sms then bufferIfPart env i (ep_id endpoint) d else (False, d)) of
        (True, d1) \<Rightarrow> ingest_all env adapter endpoint account is stored d1
      | (False, d1) \<Rightarrow>
          (case ingest_persist env adapter endpoint account
                  (if ac_type account = sms \<and> truthy_str (ci_text i) then repaired env i else i) d1 of
             (None, d2) \<Rightarrow> (None, d2)
           | (Some b, d2) \<Rightarrow> ingest_all env adapter endpoint account is (if b then stored + 1 else stored) d2))"

definition endpoint_config_row :: "endpoint_row \<Rightarrow> endpoint_config" where
  "endpoint_config_row e = \<lparr>ec_id = ep_id e, ec_externalId = (case ep_externalId e of Some x \<Rightarrow> x | None \<Rightarrow> []),
     ec_phoneE164 = ep_phoneE164 e, ec_label = ep_label e,
     ec_config = (if ep_config e = JNull then JObj [] else ep_config e)\<rparr>"

definition ingest :: "ingest_env \<Rightarrow> ustring \<Rightarrow> json \<Rightarrow> ustring option \<Rightarrow> db \<Rightarrow> nat option \<times> db" where
  "ingest env adapterName raw endpointId d =
     (case (if truthy_str endpointId then eps.lookup d (the endpointId) else resolveEndpoint adapterName raw d) of
        None \<Rightarrow> (Some 0, d)
      | Some endpoint \<Rightarrow>
          (case accs.lookup d (ep_accountId endpoint) of
             None \<Rightarrow> (Some 0, d)
           | Some account \<Rightarrow>
               (case ie_adapters env (ac_adapter account) of
                  None \<Rightarrow> (None, d)
                | Some adapter \<Rightarrow>
                    (case ia_status adapter (account_config_of account) raw of
                       Some s \<Rightarrow> (Some 0, applyStatus env s (ep_id endpoint) d)
                     | None \<Rightarrow>
                         (case ia_inbound adapter (account_config_of account) (endpoint_config_row endpoint) raw of
                            None \<Rightarrow> (None, d)
                          | Some is \<Rightarrow> ingest_all env adapter endpoint account is 0 d)))))"

section \<open>Assembling SMS segments\<close>

definition combined_inbound :: "sms_part_row list \<Rightarrow> canonical_inbound" where
  "combined_inbound combined =
     (let pieces = map sp_inbound combined; head = hd pieces in
      head\<lparr>ci_externalId := lit ''concat:'' @ join_with (lit ''|'') (sort (map ci_externalId pieces)),
           ci_receivedAt := Min (set (map ci_receivedAt pieces)),
           ci_text := Some (concat (map sp_text combined)),
           ci_meta := obj_set (lit ''parts'') (JNum (of_nat (length combined))) (ci_meta head),
           ci_rawPayload := JObj [(lit ''parts'', JArr (map ci_rawPayload pieces))]\<rparr>)"

definition part_messages :: "sms_part_row list \<Rightarrow> canonical_inbound list" where
  "part_messages parts =
     (let (combined, leftovers) = assembleParts sp_text parts
      in (if combined \<noteq> [] then [combined_inbound combined] else []) @ map sp_inbound leftovers)"

fun persist_all ::
  "ingest_env \<Rightarrow> inbound_adapter \<Rightarrow> endpoint_row \<Rightarrow> account_row \<Rightarrow> canonical_inbound list \<Rightarrow> nat \<Rightarrow> db \<Rightarrow> nat option \<times> db" where
  "persist_all env adapter endpoint account [] stored d = (Some stored, d)"
| "persist_all env adapter endpoint account (i # is) stored d =
     (case ingest_persist env adapter endpoint account i d of
        (None, d') \<Rightarrow> (None, d')
      | (Some b, d') \<Rightarrow> persist_all env adapter endpoint account is (if b then stored + 1 else stored) d')"

definition drop_parts :: "sms_part_row list \<Rightarrow> db \<Rightarrow> db" where
  "drop_parts parts d = d\<lparr>sms_parts := delete_where (\<lambda>p. sp_id p \<in> set (map sp_id parts)) (sms_parts d)\<rparr>"

definition storeParts :: "ingest_env \<Rightarrow> sms_part_row list \<Rightarrow> db \<Rightarrow> nat option \<times> db" where
  "storeParts env parts d =
     (case eps.lookup d (sp_endpointId (hd parts)) of
        None \<Rightarrow> (Some 0, drop_parts parts d)
      | Some endpoint \<Rightarrow>
          (case accs.lookup d (ep_accountId endpoint) of
             None \<Rightarrow> (Some 0, drop_parts parts d)
           | Some account \<Rightarrow>
               (case ie_adapters env (ac_adapter account) of
                  None \<Rightarrow> (None, d)
                | Some adapter \<Rightarrow>
                    (case persist_all env adapter endpoint account (part_messages parts) 0 d of
                       (None, d1) \<Rightarrow> (None, d1)
                     | (Some n, d1) \<Rightarrow> (Some n, drop_parts parts d1)))))"

text \<open>The part sets, in the order of their first segment.\<close>

definition part_key :: "sms_part_row \<Rightarrow> ustring \<times> ustring" where
  "part_key p = (sp_endpointId p, sp_sender p)"

definition part_groups :: "db \<Rightarrow> sms_part_row list list" where
  "part_groups d =
     (let rows = sort_key sp_arrivedAt (sms_parts d)
      in map (\<lambda>k. filter (\<lambda>p. part_key p = k) rows) (remdups_first (map part_key rows)))"

definition group_ready :: "ingest_env \<Rightarrow> int \<Rightarrow> sms_part_row list \<Rightarrow> bool" where
  "group_ready env now parts \<longleftrightarrow>
     (list_ex (\<lambda>p. \<not> looksLikeIncompletePart (sp_text p)) parts \<and> now - sp_arrivedAt (last parts) \<ge> ie_quietMs env)
     \<or> now - sp_arrivedAt (hd parts) \<ge> ie_maxMs env"

definition flush_group :: "ingest_env \<Rightarrow> int \<Rightarrow> sms_part_row list \<Rightarrow> nat \<times> db \<Rightarrow> nat \<times> db" where
  "flush_group env now parts = (\<lambda>(stored, d).
     if \<not> group_ready env now parts then (stored, d)
     else (case storeParts env parts d of
             (Some n, d') \<Rightarrow> (stored + n, d')
           | (None, d') \<Rightarrow> (stored, d')))"

definition flushSmsParts :: "ingest_env \<Rightarrow> int \<Rightarrow> db \<Rightarrow> nat \<times> db" where
  "flushSmsParts env now d = fold (flush_group env now) (part_groups d) (0, d)"

section \<open>A concrete channel\<close>

definition sample_inbound :: canonical_inbound where
  "sample_inbound = \<lparr>ci_direction = inbound, ci_externalId = lit ''v1'', ci_from = makeAddress (lit ''x''), ci_to = [],
     ci_type = lit ''text'', ci_text = Some (lit ''hi''), ci_attachments = [], ci_meta = [], ci_more = [], ci_receivedAt = 3,
     ci_rawPayload = JNull\<rparr>"

definition echo_adapter :: inbound_adapter where
  "echo_adapter = \<lparr>ia_status = (\<lambda>a r. None), ia_inbound = (\<lambda>a e r. Some [sample_inbound]), ia_fetch = None\<rparr>"

definition sample_ingest_env :: ingest_env where
  "sample_ingest_env = \<lparr>ie_adapters = (\<lambda>n. Some echo_adapter),
     ie_unicode = \<lparr>is_cyrillic = (\<lambda>c. False), is_latin = (\<lambda>c. False), is_letter = (\<lambda>c. False)\<rparr>,
     ie_now = 9, ie_iso = (\<lambda>t. []), ie_sha256 = (\<lambda>b. []), ie_writable = (\<lambda>p. True), ie_race = id,
     ie_quietMs = 20000, ie_maxMs = 180000\<rparr>"

definition signal_db :: "sms_part_row list \<Rightarrow> db" where
  "signal_db ps = (empty_db tick_ids)\<lparr>accounts := [sample_account\<lparr>ac_type := signal\<rparr>], endpoints := [sample_endpoint],
     sms_parts := ps\<rparr>"

definition sample_part :: sms_part_row where
  "sample_part = \<lparr>sp_id = lit ''p'', sp_endpointId = lit ''e'', sp_sender = lit ''x'', sp_text = lit ''hi'',
     sp_receivedAt = 0, sp_inbound = sample_inbound, sp_arrivedAt = 0\<rparr>"

section \<open>What other processes may do meanwhile\<close>

text \<open>They may add messages, threads and log rows; endpoints, accounts and buffered segments
  stay as they are.\<close>

definition benign :: "(db \<Rightarrow> db) \<Rightarrow> bool" where
  "benign race \<longleftrightarrow> (\<forall>d. endpoints (race d) = endpoints d \<and> accounts (race d) = accounts d
     \<and> sms_parts (race d) = sms_parts d \<and> set (messages d) \<subseteq> set (messages (race d)))"

definition same_frame :: "db \<Rightarrow> db \<Rightarrow> bool" where
  "same_frame d d' \<longleftrightarrow> endpoints d' = endpoints d \<and> accounts d' = accounts d \<and> sms_parts d' = sms_parts d
     \<and> set (messages d) \<subseteq> set (messages d')"

lemma same_frame_refl [simp]: "same_frame d d"
  by (simp add: same_frame_def)

lemma same_frame_trans: "same_frame d d' \<Longrightarrow> same_frame d' d'' \<Longrightarrow> same_frame d d''"
  by (auto simp: same_frame_def)

lemma benign_frame: "benign race \<Longrightarrow> same_frame d (race d)"
  by (simp add: benign_def same_frame_def)

lemma benign_id: "benign id"
  by (simp add: benign_def)

section \<open>Frames\<close>

lemma worker_thread_state:
  "\<exists>d0 cs n. (d0 = d \<or> d0 = race d) \<and>
     snd (findOrCreateConversation race now e ch ph raw d) = d0\<lparr>uuid_next := n, conversations := cs\<rparr>"
proof -
  have id: "\<exists>cs n. d' = d'\<lparr>uuid_next := n, conversations := cs\<rparr>" for d' :: db
    by (intro exI [of _ "conversations d'"] exI [of _ "uuid_next d'"]) simp
  have created: "\<exists>cs n. d2 = d'\<lparr>uuid_next := n, conversations := cs\<rparr>"
    if "create_conversation now e ch ph peer d' = Some (c, d2)" for ph peer c d2 d'
    using that by (auto simp: create_conversation_def fresh_id_def Let_def split: if_splits)
  show ?thesis
    unfolding findOrCreateConversation_def Let_def
    using id [of d] id [of "race d"] created [of _ _ "race d"] by (auto split: option.split)
qed

lemma thread_frame:
  assumes "benign race" and "findOrCreateConversation race now e ch ph raw d = (c, d')"
  shows "same_frame d d'"
  using worker_thread_state [of d race now e ch ph raw] benign_frame [OF assms(1), of d] assms(2)
  by (auto simp: same_frame_def)

lemma thread_total: "ph \<noteq> Some [] \<Longrightarrow> fst (findOrCreateConversation race now e ch ph raw d) \<noteq> None"
proof (cases ph)
  case None
  then show ?thesis
    by (auto simp: findOrCreateConversation_def create_conversation_def phone_taken_def Let_def case_prod_beta
        split: option.split)
next
  case (Some p)
  moreover assume "ph \<noteq> Some []"
  ultimately show ?thesis using worker_opens [of p race now e ch raw d] by auto
qed

lemma media_persist_frame:
  assumes "media_persist env mid bytes name mime d = Some d'"
  shows "messages d' = messages d \<and> conversations d' = conversations d \<and> endpoints d' = endpoints d
    \<and> accounts d' = accounts d \<and> sms_parts d' = sms_parts d \<and> events d' = events d \<and> history d' = history d"
  using assms by (auto simp: media_persist_def fresh_id_def Let_def split: if_splits)

lemma store_ref_frame:
  "messages (snd (store_ref env f mid r p)) = messages (snd p) \<and> conversations (snd (store_ref env f mid r p)) = conversations (snd p)
   \<and> endpoints (snd (store_ref env f mid r p)) = endpoints (snd p) \<and> accounts (snd (store_ref env f mid r p)) = accounts (snd p)
   \<and> sms_parts (snd (store_ref env f mid r p)) = sms_parts (snd p) \<and> events (snd (store_ref env f mid r p)) = events (snd p)
   \<and> history (snd (store_ref env f mid r p)) = history (snd p)"
  by (cases p) (auto simp: store_ref_def dest!: media_persist_frame split: option.split)

lemma storeFor_frame [simp]:
  "messages (snd (storeFor env mid rs d)) = messages d" "conversations (snd (storeFor env mid rs d)) = conversations d"
  "endpoints (snd (storeFor env mid rs d)) = endpoints d" "accounts (snd (storeFor env mid rs d)) = accounts d"
  "sms_parts (snd (storeFor env mid rs d)) = sms_parts d" "events (snd (storeFor env mid rs d)) = events d"
  "history (snd (storeFor env mid rs d)) = history d"
proof -
  have "messages (snd (fold (store_ref env f mid) rs p)) = messages (snd p)
    \<and> conversations (snd (fold (store_ref env f mid) rs p)) = conversations (snd p)
    \<and> endpoints (snd (fold (store_ref env f mid) rs p)) = endpoints (snd p)
    \<and> accounts (snd (fold (store_ref env f mid) rs p)) = accounts (snd p)
    \<and> sms_parts (snd (fold (store_ref env f mid) rs p)) = sms_parts (snd p)
    \<and> events (snd (fold (store_ref env f mid) rs p)) = events (snd p)
    \<and> history (snd (fold (store_ref env f mid) rs p)) = history (snd p)" for f p
    by (induction rs arbitrary: p) (simp_all add: store_ref_frame)
  then show "messages (snd (storeFor env mid rs d)) = messages d" "conversations (snd (storeFor env mid rs d)) = conversations d"
    "endpoints (snd (storeFor env mid rs d)) = endpoints d" "accounts (snd (storeFor env mid rs d)) = accounts d"
    "sms_parts (snd (storeFor env mid rs d)) = sms_parts d" "events (snd (storeFor env mid rs d)) = events d"
    "history (snd (storeFor env mid rs d)) = history d"
    by (simp_all add: storeFor_def split: option.split)
qed

lemma touch_thread_frame [simp]:
  "messages (touch_thread c t d) = messages d" "endpoints (touch_thread c t d) = endpoints d"
  "accounts (touch_thread c t d) = accounts d" "sms_parts (touch_thread c t d) = sms_parts d"
  "events (touch_thread c t d) = events d" "history (touch_thread c t d) = history d"
  by (simp_all add: touch_thread_def)

lemma touch_thread_ids: "map thread_id (conversations (touch_thread c t d)) = map thread_id (conversations d)"
  unfolding touch_thread_def by (simp add: map_update_where thread_id_def)

lemma emit_rest [simp]:
  "endpoints (snd (emit isof now p d)) = endpoints d" "accounts (snd (emit isof now p d)) = accounts d"
  "sms_parts (snd (emit isof now p d)) = sms_parts d" "conversations (snd (emit isof now p d)) = conversations d"
  by (simp_all add: emit_def fresh_id_def Let_def split: option.split)

lemma worker_thread_found:
  assumes "findOrCreateConversation id now e ch ph raw d = (Some c, d')"
  shows "c \<in> set (conversations d') \<and> cv_endpointId c = e
    \<and> (\<forall>p. ph = Some p \<longrightarrow> p \<noteq> [] \<longrightarrow> cv_peerPhone c = Some p)"
  using assms
  by (auto simp: findOrCreateConversation_def create_conversation_def fresh_id_def Let_def thread_where_def
      split: option.splits if_splits dest!: find_SomeD)

section \<open>Storing is idempotent\<close>

lemma twin_iff:
  "stored_twin e x d \<noteq> None \<longleftrightarrow> x \<noteq> [] \<and> (\<exists>m\<in>set (messages d). ms_endpointId m = e \<and> ms_externalId m = Some x)"
  by (auto simp: stored_twin_def find_None_iff simp del: not_None_eq)

lemma twin_kept: "same_frame d d' \<Longrightarrow> stored_twin e x d \<noteq> None \<Longrightarrow> stored_twin e x d' \<noteq> None"
  unfolding twin_iff by (auto simp: same_frame_def)

lemma persist_effect:
  assumes "ingest_persist env adapter ep acc i d = (Some b, d')" and "benign (ie_race env)"
  shows "same_frame d d' \<and> (ci_externalId i \<noteq> [] \<longrightarrow> stored_twin (ep_id ep) (ci_externalId i) d' \<noteq> None)
    \<and> (\<not> b \<longrightarrow> d' = d)"
proof (cases "stored_twin (ep_id ep) (ci_externalId i) d")
  case (Some m)
  with assms(1) show ?thesis by (auto simp: ingest_persist_def)
next
  case None
  let ?open = "findOrCreateConversation (ie_race env) (ie_now env) (ep_id ep) (ac_type acc)
                  (case counterparty i of Some a \<Rightarrow> ca_e164 a | None \<Rightarrow> None) (map_option ca_raw (counterparty i)) d"
  from None assms(1) obtain c d1 where o': "?open = (Some c, d1)"
    by (cases ?open; cases "fst ?open") (auto simp: ingest_persist_def)
  from thread_frame [OF assms(2) o'] have f: "same_frame d d1" .
  obtain mid d2 where fr: "fresh_id d1 = (mid, d2)" by (cases "fresh_id d1") auto
  have d2: "endpoints d2 = endpoints d1" "accounts d2 = accounts d1" "sms_parts d2 = sms_parts d1" "messages d2 = messages d1"
    using fr by (auto simp: fresh_id_def)
  have "b" "endpoints d' = endpoints d1" "accounts d' = accounts d1" "sms_parts d' = sms_parts d1"
    "messages d' = messages d1 @ [inbound_row i ep acc mid (cv_id c) (ie_now env)]"
    using None o' fr assms(1) d2 by (auto simp: ingest_persist_def Let_def)
  with f show ?thesis unfolding twin_iff by (auto simp: same_frame_def inbound_row_def)
qed

lemma persist_twin: "stored_twin (ep_id ep) (ci_externalId i) d \<noteq> None \<Longrightarrow> ingest_persist env adapter ep acc i d = (Some False, d)"
  by (auto simp: ingest_persist_def)

lemma persist_all_effect:
  assumes "persist_all env adapter ep acc is n d = (Some k, d')" and "benign (ie_race env)"
  shows "same_frame d d' \<and> (\<forall>i\<in>set is. ci_externalId i \<noteq> [] \<longrightarrow> stored_twin (ep_id ep) (ci_externalId i) d' \<noteq> None)"
  using assms(1)
proof (induction "is" arbitrary: n d)
  case (Cons i "is")
  then obtain b d1 where p: "ingest_persist env adapter ep acc i d = (Some b, d1)"
    and r: "persist_all env adapter ep acc is (if b then n + 1 else n) d1 = (Some k, d')"
    by (auto split: prod.splits option.splits)
  note e = persist_effect [OF p assms(2)] and f = Cons.IH [OF r]
  then show ?case using same_frame_trans twin_kept by (metis set_ConsD)
qed simp

lemma ingest_all_plain:
  "ac_type acc \<noteq> sms \<Longrightarrow> ingest_all env adapter ep acc is n d = persist_all env adapter ep acc is n d"
  by (induction "is" arbitrary: n d) (auto split: prod.split option.split)

lemma persist_all_again:
  assumes "\<forall>i\<in>set is. stored_twin (ep_id ep) (ci_externalId i) d \<noteq> None"
  shows "persist_all env adapter ep acc is n d = (Some n, d)"
  using assms by (induction "is" arbitrary: n) (auto simp: persist_twin)

text \<open>The counterparty of a message is unknown or has a number.\<close>

definition peer_known :: "canonical_inbound \<Rightarrow> bool" where
  "peer_known i \<longleftrightarrow> (case counterparty i of Some a \<Rightarrow> ca_e164 a \<noteq> Some [] | None \<Rightarrow> True)"

lemma persist_total:
  assumes "peer_known i" shows "\<exists>b d'. ingest_persist env adapter ep acc i d = (Some b, d')"
proof (cases "stored_twin (ep_id ep) (ci_externalId i) d")
  case (Some m)
  then show ?thesis using persist_twin by blast
next
  case None
  let ?ph = "case counterparty i of Some a \<Rightarrow> ca_e164 a | None \<Rightarrow> None"
  have "?ph \<noteq> Some []" using assms by (simp add: peer_known_def split: option.splits)
  from thread_total [OF this, of "ie_race env" "ie_now env" "ep_id ep" "ac_type acc" "map_option ca_raw (counterparty i)" d]
  obtain c d1 where "findOrCreateConversation (ie_race env) (ie_now env) (ep_id ep) (ac_type acc) ?ph
      (map_option ca_raw (counterparty i)) d = (Some c, d1)" by (metis not_None_eq prod.collapse)
  with None show ?thesis by (intro exI [of _ True]) (simp add: ingest_persist_def Let_def case_prod_beta)
qed

lemma persist_all_total:
  "\<forall>i\<in>set is. peer_known i \<Longrightarrow> \<exists>k d'. persist_all env adapter ep acc is n d = (Some k, d')"
proof (induction "is" arbitrary: n d)
  case (Cons i "is")
  then obtain b d1 where "ingest_persist env adapter ep acc i d = (Some b, d1)" using persist_total by (meson list.set_intros(1))
  with Cons show ?case by simp
qed simp


lemma sample_peer: "peer_known sample_inbound"
  using toE164_not_Nil
  by (auto simp: peer_known_def counterparty_def sample_inbound_def makeAddress_def Let_def)


section \<open>Segments are stored in time\<close>

lemma part_messages_known:
  assumes "\<forall>p\<in>set parts. peer_known (sp_inbound p)"
  shows "\<forall>i\<in>set (part_messages parts). peer_known i"
proof -
  obtain combined leftovers where a: "assembleParts sp_text parts = (combined, leftovers)" by fastforce
  have sub: "set combined \<subseteq> set parts" "set leftovers \<subseteq> set parts"
    using a assembleParts_mset [of sp_text parts] by (auto dest!: arg_cong [of _ _ set_mset])
  have "peer_known (combined_inbound combined)" if "combined \<noteq> []"
  proof -
    have "peer_known (sp_inbound (hd combined))" using that sub(1) assms by (auto simp: neq_Nil_conv)
    moreover have "counterparty (combined_inbound combined) = counterparty (sp_inbound (hd combined))"
      using that by (auto simp: combined_inbound_def Let_def counterparty_def neq_Nil_conv)
    ultimately show ?thesis by (simp add: peer_known_def)
  qed
  with sub(2) assms show ?thesis by (auto simp: part_messages_def a)
qed

definition served :: "ingest_env \<Rightarrow> db \<Rightarrow> bool" where
  "served env d \<longleftrightarrow> (\<forall>a\<in>set (accounts d). ie_adapters env (ac_adapter a) \<noteq> None)"

text \<open>All messages assembled from a part set are in the table of its endpoint.\<close>

definition stored_parts :: "db \<Rightarrow> sms_part_row list \<Rightarrow> db \<Rightarrow> bool" where
  "stored_parts d parts d' \<longleftrightarrow> (\<forall>ep. eps.lookup d (sp_endpointId (hd parts)) = Some ep \<longrightarrow>
     accs.lookup d (ep_accountId ep) \<noteq> None \<longrightarrow> (\<forall>i\<in>set (part_messages parts). ci_externalId i \<noteq> [] \<longrightarrow>
       stored_twin (ep_id ep) (ci_externalId i) d' \<noteq> None))"

lemma storeParts_effect:
  assumes "served env d" and "\<forall>p\<in>set parts. peer_known (sp_inbound p)" and "benign (ie_race env)"
  shows "\<exists>n d'. storeParts env parts d = (Some n, d') \<and> endpoints d' = endpoints d \<and> accounts d' = accounts d
    \<and> sms_parts d' = delete_where (\<lambda>p. sp_id p \<in> set (map sp_id parts)) (sms_parts d)
    \<and> set (messages d) \<subseteq> set (messages d') \<and> stored_parts d parts d'"
proof (cases "eps.lookup d (sp_endpointId (hd parts))")
  case None
  then show ?thesis by (simp add: storeParts_def drop_parts_def stored_parts_def)
next
  case (Some endpoint)
  show ?thesis
  proof (cases "accs.lookup d (ep_accountId endpoint)")
    case None
    with Some show ?thesis by (simp add: storeParts_def drop_parts_def stored_parts_def)
  next
    case acc: (Some account)
    then have "account \<in> set (accounts d)" by (auto simp: accs.lookup_def dest: find_SomeD)
    with assms(1) obtain adapter where ad: "ie_adapters env (ac_adapter account) = Some adapter"
      by (auto simp: served_def)
    obtain k d1 where p: "persist_all env adapter endpoint account (part_messages parts) 0 d = (Some k, d1)"
      using persist_all_total [OF part_messages_known [OF assms(2)]] by blast
    note e = persist_all_effect [OF p assms(3)]
    then have "stored_parts d parts (drop_parts parts d1)"
      unfolding stored_parts_def twin_iff using Some by (simp add: drop_parts_def)
    with Some acc ad p e show ?thesis
      by (simp add: storeParts_def drop_parts_def same_frame_def)
  qed
qed

lemma stored_parts_kept:
  "stored_parts d parts d' \<Longrightarrow> set (messages d') \<subseteq> set (messages d'') \<Longrightarrow> stored_parts d parts d''"
  unfolding stored_parts_def twin_iff by blast

lemma stored_parts_cong:
  assumes "endpoints d1 = endpoints d" "accounts d1 = accounts d"
  shows "stored_parts d1 parts d' = stored_parts d parts d'"
  unfolding stored_parts_def eps.lookup_def accs.lookup_def assms ..

text \<open>After the loop exactly the segments of the ready sets are gone, and stored.\<close>

lemma flush_fold:
  assumes "served env d" and "benign (ie_race env)" and "\<forall>g\<in>set gs. \<forall>p\<in>set g. peer_known (sp_inbound p)"
    and "d' = snd (fold (flush_group env now) gs (n, d))"
  shows "sms_parts d' = filter (\<lambda>p. \<not> (\<exists>g\<in>set gs. group_ready env now g \<and> sp_id p \<in> set (map sp_id g))) (sms_parts d)
    \<and> set (messages d) \<subseteq> set (messages d') \<and> (\<forall>g\<in>set gs. group_ready env now g \<longrightarrow> stored_parts d g d')"
  using assms
proof (induction gs arbitrary: n d)
  case (Cons g gs)
  show ?case
  proof (cases "group_ready env now g")
    case False
    then have "d' = snd (fold (flush_group env now) gs (n, d))" using Cons.prems(4) by (simp add: flush_group_def [of _ _ g])
    from Cons.IH [OF Cons.prems(1,2) _ this] Cons.prems(3) False show ?thesis by simp
  next
    case True
    have "\<forall>p\<in>set g. peer_known (sp_inbound p)" using Cons.prems(3) by simp
    from storeParts_effect [OF Cons.prems(1) this Cons.prems(2)] obtain k d1 where
      s: "storeParts env g d = (Some k, d1)" "endpoints d1 = endpoints d" "accounts d1 = accounts d"
      "sms_parts d1 = delete_where (\<lambda>p. sp_id p \<in> set (map sp_id g)) (sms_parts d)"
      "set (messages d) \<subseteq> set (messages d1)" "stored_parts d g d1" by blast
    have "served env d1" using Cons.prems(1) s(3) by (simp add: served_def)
    moreover have "d' = snd (fold (flush_group env now) gs (n + k, d1))"
      using Cons.prems(4) True s(1) by (simp add: flush_group_def [of _ _ g])
    ultimately have IH: "sms_parts d' = filter (\<lambda>p. \<not> (\<exists>g\<in>set gs. group_ready env now g \<and> sp_id p \<in> set (map sp_id g))) (sms_parts d1)
        \<and> set (messages d1) \<subseteq> set (messages d') \<and> (\<forall>g\<in>set gs. group_ready env now g \<longrightarrow> stored_parts d1 g d')"
      using Cons.IH [OF _ Cons.prems(2)] Cons.prems(3) by simp
    moreover from IH s(6) have "stored_parts d g d'" using stored_parts_kept by blast
    ultimately show ?thesis using s(4,5) True stored_parts_cong [OF s(2,3)]
      by (auto simp: delete_where_def intro!: filter_cong)
  qed
qed simp

lemma part_groups_cover:
  assumes "p \<in> set (sms_parts d)"
  shows "\<exists>g\<in>set (part_groups d). p \<in> set g"
  using assms by (auto simp: part_groups_def Let_def remdups_first_def)

lemma part_groups_sorted:
  assumes "g \<in> set (part_groups d)" and "p \<in> set g"
  shows "sp_arrivedAt (hd g) \<le> sp_arrivedAt p \<and> p \<in> set (sms_parts d)"
proof -
  let ?rows = "sort_key sp_arrivedAt (sms_parts d)"
  from assms(1) obtain k where g: "g = filter (\<lambda>p. part_key p = k) ?rows" by (auto simp: part_groups_def Let_def)
  have "sorted (map sp_arrivedAt g)" unfolding g by (intro sorted_filter) simp
  with assms(2) have "sp_arrivedAt (hd g) \<le> sp_arrivedAt p" by (cases g) auto
  with assms(2) g show ?thesis by auto
qed

text \<open>
  C20. No SMS segment waits for ever and none is lost: after a flush every segment still in
  the buffer arrived less than the maximum holding time ago and belongs to a set that is not
  ready, and of every set that was ready, the assembled message and the left-over ones are
  in the message table of its endpoint.
\<close>

theorem flush_bounds_waiting:
  assumes "served env d" and "benign (ie_race env)" and "\<forall>p\<in>set (sms_parts d). peer_known (sp_inbound p)"
  shows "(\<forall>p\<in>set (sms_parts (snd (flushSmsParts env now d))). now - sp_arrivedAt p < ie_maxMs env
       \<and> (\<exists>g\<in>set (part_groups d). p \<in> set g \<and> \<not> group_ready env now g))
    \<and> (\<forall>g\<in>set (part_groups d). group_ready env now g \<longrightarrow> stored_parts d g (snd (flushSmsParts env now d)))"
proof -
  have peers: "\<forall>g\<in>set (part_groups d). \<forall>p\<in>set g. peer_known (sp_inbound p)"
    using part_groups_sorted assms(3) by blast
  note f = flush_fold [OF assms(1,2) peers, of "snd (flushSmsParts env now d)" now 0, unfolded flushSmsParts_def, OF refl]
  have "now - sp_arrivedAt p < ie_maxMs env \<and> (\<exists>g\<in>set (part_groups d). p \<in> set g \<and> \<not> group_ready env now g)"
    if "p \<in> set (sms_parts (snd (flushSmsParts env now d)))" for p
  proof -
    from that f have p: "p \<in> set (sms_parts d)"
      "\<And>g. g \<in> set (part_groups d) \<Longrightarrow> group_ready env now g \<Longrightarrow> sp_id p \<notin> sp_id ` set g"
      unfolding flushSmsParts_def by auto
    from part_groups_cover [OF p(1)] obtain g where g: "g \<in> set (part_groups d)" "p \<in> set g" by blast
    with p(2) have nr: "\<not> group_ready env now g" by blast
    with part_groups_sorted [OF g] g show ?thesis by (force simp: group_ready_def)
  qed
  with f show ?thesis unfolding flushSmsParts_def by blast
qed

theorem flush_bounds_waiting_witness:
  "sms_parts (snd (flushSmsParts sample_ingest_env 180000 (signal_db [sample_part]))) = []"
proof -
  let ?d = "signal_db [sample_part]" and ?env = sample_ingest_env
  have "served ?env ?d" "benign (ie_race ?env)" "\<forall>p\<in>set (sms_parts ?d). peer_known (sp_inbound p)" "sms_parts ?d = [sample_part]"
    by (simp_all add: served_def sample_ingest_env_def benign_id signal_db_def sample_part_def sample_peer)
  from flush_bounds_waiting [OF this(1-3), of 180000] part_groups_sorted [of _ ?d] this(4)
  have "\<not> p \<in> set (sms_parts (snd (flushSmsParts ?env 180000 ?d)))" for p
    by (fastforce simp: sample_ingest_env_def sample_part_def)
  then show ?thesis by (metis list.set_intros(1) neq_Nil_conv)
qed

section \<open>A stored message\<close>

text \<open>
  A message that is stored is stored completely: it is appended with the content
  received, hangs on a thread of its endpoint with the other party's number, and its event
  is stored under a key made of endpoint and vendor identifier; a message whose vendor
  identifier the endpoint already has changes nothing.
\<close>

theorem persist_stores_message:
  assumes "ie_race env = id" and "ingest_persist env adapter ep acc i d = (Some b, d')"
  shows "if b
    then \<exists>m c. messages d' = messages d @ [m] \<and> ms_endpointId m = ep_id ep \<and> ms_direction m = ci_direction i
      \<and> ms_content m = content_json i \<and> ms_status m = delivered
      \<and> c \<in> set (conversations d') \<and> ms_conversationId m = Some (cv_id c) \<and> cv_endpointId c = ep_id ep
      \<and> (\<forall>a ph. counterparty i = Some a \<longrightarrow> ca_e164 a = Some ph \<longrightarrow> ph \<noteq> [] \<longrightarrow> cv_peerPhone c = Some ph)
      \<and> (ci_externalId i \<noteq> [] \<longrightarrow>
           has_key (lit ''message.received:'' @ ep_id ep @ lit '':'' @ ci_externalId i) d')
    else d' = d \<and> (\<exists>m\<in>set (messages d). ms_endpointId m = ep_id ep \<and> ms_externalId m = Some (ci_externalId i))"
proof (cases "stored_twin (ep_id ep) (ci_externalId i) d")
  case (Some m)
  then have "\<exists>m\<in>set (messages d). ms_endpointId m = ep_id ep \<and> ms_externalId m = Some (ci_externalId i)"
    using twin_iff [of "ep_id ep" "ci_externalId i" d] by auto
  with Some assms(2) show ?thesis by (auto simp: ingest_persist_def)
next
  case None
  let ?ph = "case counterparty i of Some a \<Rightarrow> ca_e164 a | None \<Rightarrow> None"
  let ?open = "findOrCreateConversation id (ie_now env) (ep_id ep) (ac_type acc) ?ph (map_option ca_raw (counterparty i)) d"
  from None assms obtain c d1 where o': "?open = (Some c, d1)"
    by (cases ?open; cases "fst ?open") (auto simp: ingest_persist_def)
  obtain mid d2 where fr: "fresh_id d1 = (mid, d2)" by (cases "fresh_id d1") auto
  let ?m = "inbound_row i ep acc mid (cv_id c) (ie_now env)"
  let ?d3 = "touch_thread (cv_id c) (ci_receivedAt i) (d2\<lparr>messages := messages d2 @ [?m]\<rparr>)"
  let ?d4 = "snd (storeFor (media_env_of env adapter) mid (ci_attachments i) ?d3)"
  have d': "b" "d' = snd (emit (ie_iso env) (ie_now env) (received_event env i ?m) ?d4)"
    using None o' fr assms by (auto simp: ingest_persist_def Let_def)
  have c: "c \<in> set (conversations d1)" "cv_endpointId c = ep_id ep"
    "\<And>ph. ?ph = Some ph \<Longrightarrow> ph \<noteq> [] \<Longrightarrow> cv_peerPhone c = Some ph"
    using worker_thread_found [OF o'] by auto
  have "map thread_id (conversations d') = map thread_id (conversations d1)"
    using fr by (simp add: d'(2) touch_thread_ids) (auto simp: fresh_id_def)
  moreover have "thread_id c \<in> set (map thread_id (conversations d1))" using c(1) by simp
  ultimately have "thread_id c \<in> set (map thread_id (conversations d'))" by (simp only:)
  then obtain c' where c': "c' \<in> set (conversations d')" "thread_id c' = thread_id c" by auto
  have m: "messages d' = messages d @ [?m]"
    using worker_thread_state [of d id "ie_now env" "ep_id ep" "ac_type acc" ?ph "map_option ca_raw (counterparty i)"] o' fr
    by (auto simp: d'(2) fresh_id_def)
  have key: "has_key (lit ''message.received:'' @ ep_id ep @ lit '':'' @ ci_externalId i) d'" if "ci_externalId i \<noteq> []"
    unfolding d'(2) by (rule worker_sink.stored) (use that in \<open>auto simp: received_event_def inbound_row_def\<close>)
  have "\<forall>a ph. counterparty i = Some a \<longrightarrow> ca_e164 a = Some ph \<longrightarrow> ph \<noteq> [] \<longrightarrow> cv_peerPhone c' = Some ph"
    using c(3) c'(2) by (auto simp: thread_id_def)
  with m c' c(2) key d'(1) show ?thesis
    by (intro if_P [THEN iffD2] exI [of _ ?m] exI [of _ c']) (auto simp: inbound_row_def thread_id_def)
qed

theorem persist_stores_message_witness:
  "\<exists>b d'. ingest_persist sample_ingest_env echo_adapter sample_endpoint (sample_account\<lparr>ac_type := signal\<rparr>)
       sample_inbound (signal_db []) = (Some b, d') \<and> b \<and> (\<exists>m. messages d' = [m] \<and> ms_content m = content_json sample_inbound)"
proof -
  obtain b d' where p: "ingest_persist sample_ingest_env echo_adapter sample_endpoint (sample_account\<lparr>ac_type := signal\<rparr>)
      sample_inbound (signal_db []) = (Some b, d')" using persist_total [OF sample_peer] by blast
  have race: "ie_race sample_ingest_env = id" and none: "messages (signal_db []) = []"
    by (simp_all add: sample_ingest_env_def signal_db_def empty_db_def)
  from persist_stores_message [OF race p] none p show ?thesis by (cases b) auto
qed

section \<open>Delivery reports\<close>

text \<open>
  C21. A delivery report changes at most one outbound message, the one of that endpoint and
  vendor identifier, and only forward in the order queued, dispatching, accepted, sent,
  delivered, read, or to failed; the change is recorded in the status history. Any other
  report leaves everything as it is.
\<close>

theorem report_moves_forward:
  "applyStatus env s e d = d \<or> (\<exists>m. reported_message s e d = Some m \<and> ms_direction m = outbound \<and> ms_endpointId m = e
     \<and> (cs_status s = st_failed \<or> rank (ms_status m) < rank (status_of (cs_status s)))
     \<and> messages (applyStatus env s e d) = update_where (\<lambda>x. ms_id x = ms_id m)
         (\<lambda>x. x\<lparr>ms_status := status_of (cs_status s), ms_updatedAt := ie_now env\<rparr>) (messages d)
     \<and> map (\<lambda>h. (hi_messageId h, hi_status h)) (history (applyStatus env s e d)) =
         map (\<lambda>h. (hi_messageId h, hi_status h)) (history d) @ [(ms_id m, status_of (cs_status s))])"
proof (cases "reported_message s e d")
  case None
  then show ?thesis by (simp add: applyStatus_def)
next
  case (Some m)
  then have "ms_direction m = outbound" "ms_endpointId m = e"
    by (auto simp: reported_message_def dest: find_SomeD)
  with Some show ?thesis
    by (simp add: applyStatus_def Let_def add_history_def set_status_def not_le)
qed

text \<open>
  The order is not kept through a failure: a message that has been read is set to
  failed by a late failure report, and then back to sent by a late sent report.
\<close>

theorem failure_report_undoes_read:
  assumes "reported_message \<lparr>cs_externalId = x, cs_status = st_failed, cs_error = None, cs_rawPayload = p\<rparr> e d = Some m"
    and "ms_status m = read"
  shows "map_option ms_status (msgs.lookup (applyStatus env \<lparr>cs_externalId = x, cs_status = st_sent, cs_error = None, cs_rawPayload = p\<rparr> e
     (applyStatus env \<lparr>cs_externalId = x, cs_status = st_failed, cs_error = None, cs_rawPayload = p\<rparr> e d)) (ms_id m)) = Some sent"
proof -
  let ?S = "\<lambda>st. \<lparr>cs_externalId = x, cs_status = st, cs_error = None, cs_rawPayload = p\<rparr>"
  let ?P = "\<lambda>m. ms_endpointId m = e \<and> ms_externalId m = Some x \<and> ms_direction m = outbound"
  let ?d1 = "applyStatus env (?S st_failed) e d"
  let ?f = "\<lambda>m. m\<lparr>ms_status := failed, ms_updatedAt := ie_now env\<rparr>"
  from assms(1) have f: "find ?P (messages d) = Some m" by (simp add: reported_message_def)
  have d1: "messages ?d1 = update_where (\<lambda>x. ms_id x = ms_id m) ?f (messages d)"
    using assms(1) by (simp add: applyStatus_def Let_def set_status_def)
  have upd: "find ?P (update_where Q ?f ms) = map_option (\<lambda>x. if Q x then ?f x else x) (find ?P ms)" for Q ms
    by (induction ms) auto
  have m1: "find ?P (messages ?d1) = Some (?f m)" unfolding d1 upd f by simp
  have "m \<in> set (messages d)" using find_SomeD [OF f] by simp
  then have "msgs.lookup d (ms_id m) \<noteq> None" by (auto simp: msgs.lookup_def find_None_iff simp del: not_None_eq)
  then obtain m' where "msgs.lookup d (ms_id m) = Some m'" by blast
  then have "msgs.lookup ?d1 (ms_id m) \<noteq> None"
    using msgs_lookup_cong [of ?d1 "set_status (ie_now env) (ms_id m) failed d"] d1
    by (simp add: set_status_def lookup_set_status [unfolded set_status_def])
  with m1 show ?thesis
    by (auto simp: applyStatus_def [of env "?S st_sent"] reported_message_def Let_def lookup_set_status
        msgs_lookup_cong [OF add_history_frame(1)])
qed

theorem failure_report_undoes_read_witness:
  "let d = gateway_db [(sample_message read None)\<lparr>ms_externalId := Some (lit ''v'')\<rparr>];
       report = (\<lambda>st. applyStatus sample_ingest_env \<lparr>cs_externalId = lit ''v'', cs_status = st, cs_error = None, cs_rawPayload = JNull\<rparr> (lit ''e''))
   in map_option ms_status (msgs.lookup (report st_sent (report st_failed d)) (lit ''m'')) = Some sent"
proof -
  let ?m = "(sample_message read None)\<lparr>ms_externalId := Some (lit ''v'')\<rparr>"
  have "reported_message \<lparr>cs_externalId = lit ''v'', cs_status = st_failed, cs_error = None, cs_rawPayload = JNull\<rparr> (lit ''e'')
      (gateway_db [?m]) = Some ?m" "ms_status ?m = read" "ms_id ?m = lit ''m''"
    by (simp_all add: reported_message_def gateway_db_def sample_message_def outbound_row_def assign_sender_def)
  with failure_report_undoes_read [OF this(1,2), of sample_ingest_env] show ?thesis by (simp add: Let_def)
qed

end
