(* ===== verification/Accounts.thy ===== *)
theory Accounts
  imports Events AuditLog
begin

text \<open>
  Transport accounts and their endpoints, the numbers of a channel
  (apps/api/src/transport-accounts/transport-accounts.service.ts), and the accounts seeded
  from the environment when the API starts (transport-accounts.bootstrap.ts). The database
  refuses to delete a row that others refer to; the lemmas show that no operation leaves a
  dangling reference, and what a deletion removes. The column \<open>updated_at\<close> of the two tables
  is left out of the snapshots in the audit log.
\<close>

section \<open>Snapshots for the audit log\<close>

fun transport_status_name :: "transport_status \<Rightarrow> ustring" where
  "transport_status_name acc_active = lit ''active''"
| "transport_status_name acc_inactive = lit ''inactive''"
| "transport_status_name acc_degraded = lit ''degraded''"
| "transport_status_name acc_disabled = lit ''disabled''"

fun state_name :: "registration_state \<Rightarrow> ustring" where
  "state_name unpaired = lit ''unpaired''"
| "state_name qr_pending = lit ''qr_pending''"
| "state_name qr_displayed = lit ''qr_displayed''"
| "state_name sms_pending = lit ''sms_pending''"
| "state_name verifying = lit ''verifying''"
| "state_name linked = lit ''linked''"
| "state_name relink_needed = lit ''relink_needed''"
| "state_name reg_failed = lit ''failed''"

definition endpoint_json :: "(int \<Rightarrow> ustring) \<Rightarrow> endpoint_row \<Rightarrow> json" where
  "endpoint_json isof e = JObj [(lit ''id'', JStr (ep_id e)), (lit ''accountId'', JStr (ep_accountId e)),
     (lit ''externalId'', opt_str (ep_externalId e)), (lit ''phoneRaw'', opt_str (ep_phoneRaw e)),
     (lit ''phoneE164'', opt_str (ep_phoneE164 e)), (lit ''label'', JStr (ep_label e)),
     (lit ''enabled'', JBool (ep_enabled e)), (lit ''configJson'', ep_config e),
     (lit ''registrationState'', JStr (state_name (ep_state e))), (lit ''deviceName'', opt_str (ep_deviceName e)),
     (lit ''uuid'', opt_str (ep_uuid e)), (lit ''registeredAt'', opt_str (map_option isof (ep_registeredAt e))),
     (lit ''createdAt'', JStr (isof (ep_createdAt e)))]"

definition account_json :: "(int \<Rightarrow> ustring) \<Rightarrow> account_row \<times> endpoint_row list \<Rightarrow> json" where
  "account_json isof = (\<lambda>(a, es). JObj [(lit ''id'', JStr (ac_id a)), (lit ''type'', JStr (channel_name (ac_type a))),
     (lit ''adapter'', JStr (ac_adapter a)), (lit ''name'', JStr (ac_name a)),
     (lit ''status'', JStr (transport_status_name (ac_status a))), (lit ''encryptedConfig'', ac_config a),
     (lit ''createdAt'', JStr (isof (ac_createdAt a))), (lit ''endpoints'', JArr (map (endpoint_json isof) es))])"

section \<open>Accounts\<close>

text \<open>\<open>AccountInUse\<close> is the foreign-key violation of the database.\<close>

datatype account_error = AccountNotFound | AccountInUse | EndpointNotFound | EndpointLinked | EndpointHasHistory

definition account_get :: "ustring \<Rightarrow> db \<Rightarrow> account_error + (account_row \<times> endpoint_row list)" where
  "account_get i d =
     (case accs.lookup d i of
        None \<Rightarrow> Inl AccountNotFound
      | Some a \<Rightarrow> Inr (a, sort_key (\<lambda>e. - ep_createdAt e) (filter (\<lambda>e. ep_accountId e = i) (endpoints d))))"

record account_data =
  ad_type :: channel_type
  ad_adapter :: ustring
  ad_name :: ustring
  ad_status :: "transport_status option"
  ad_config :: "fields option"

definition account_create :: "int \<Rightarrow> account_data \<Rightarrow> ustring option \<Rightarrow> db \<Rightarrow> account_row \<times> db" where
  "account_create now data actorId d =
     (let (i, d1) = fresh_id d;
          a = \<lparr>ac_id = i, ac_type = ad_type data, ac_adapter = ad_adapter data, ac_name = ad_name data,
               ac_status = (case ad_status data of Some s \<Rightarrow> s | None \<Rightarrow> acc_active),
               ac_config = JObj (case ad_config data of Some c \<Rightarrow> c | None \<Rightarrow> []), ac_createdAt = now\<rparr>
      in (a, audit_log actorId ''transport_account.created'' ''transport_account'' i (JObj [])
            (JObj [(lit ''id'', JStr i), (lit ''type'', JStr (channel_name (ac_type a))),
                   (lit ''adapter'', JStr (ac_adapter a)), (lit ''name'', JStr (ac_name a))])
            (d1\<lparr>accounts := accounts d1 @ [a]\<rparr>)))"

record account_changes =
  ch_name :: "ustring option"
  ch_status :: "transport_status option"
  ch_config :: "fields option"

definition change_account :: "account_changes \<Rightarrow> account_row \<Rightarrow> account_row" where
  "change_account data a = a\<lparr>ac_name := (case ch_name data of Some n \<Rightarrow> n | None \<Rightarrow> ac_name a),
     ac_status := (case ch_status data of Some s \<Rightarrow> s | None \<Rightarrow> ac_status a),
     ac_config := (case ch_config data of Some c \<Rightarrow> JObj c | None \<Rightarrow> ac_config a)\<rparr>"

definition account_update ::
  "(int \<Rightarrow> ustring) \<Rightarrow> ustring \<Rightarrow> account_changes \<Rightarrow> ustring option \<Rightarrow> db \<Rightarrow> (account_error + account_row) \<times> db" where
  "account_update isof i data actorId d =
     (case account_get i d of
        Inl err \<Rightarrow> (Inl err, d)
      | Inr before \<Rightarrow>
          (let a = change_account data (fst before) in
           (Inr a, audit_log actorId ''transport_account.updated'' ''transport_account'' i (account_json isof before)
              (JObj [(lit ''id'', JStr i), (lit ''name'', JStr (ac_name a)),
                     (lit ''status'', JStr (transport_status_name (ac_status a)))])
              (accounts_update (update_where (\<lambda>x. ac_id x = i) (change_account data)) d))))"

definition account_delete :: "(int \<Rightarrow> ustring) \<Rightarrow> ustring \<Rightarrow> ustring option \<Rightarrow> db \<Rightarrow> account_error option \<times> db" where
  "account_delete isof i actorId d =
     (case account_get i d of
        Inl err \<Rightarrow> (Some err, d)
      | Inr before \<Rightarrow>
          if list_ex (\<lambda>e. ep_accountId e = i) (endpoints d) \<or> list_ex (\<lambda>m. ms_accountId m = i) (messages d)
          then (Some AccountInUse, d)
          else (None, audit_log actorId ''transport_account.deleted'' ''transport_account'' i (account_json isof before)
                  (JObj []) (accounts_update (delete_where (\<lambda>a. ac_id a = i)) d)))"

section \<open>Endpoints\<close>

record endpoint_data =
  ed_label :: ustring
  ed_externalId :: "ustring option"
  ed_phoneRaw :: "ustring option"
  ed_phoneE164 :: "ustring option"
  ed_enabled :: "bool option"
  ed_config :: "fields option"

definition createEndpoint ::
  "int \<Rightarrow> ustring \<Rightarrow> endpoint_data \<Rightarrow> ustring option \<Rightarrow> db \<Rightarrow> (account_error + endpoint_row) \<times> db" where
  "createEndpoint now accountId data actorId d =
     (case account_get accountId d of
        Inl err \<Rightarrow> (Inl err, d)
      | Inr acc \<Rightarrow>
          (let (i, d1) = fresh_id d;
               e = \<lparr>ep_id = i, ep_accountId = accountId, ep_externalId = ed_externalId data,
                    ep_phoneRaw = ed_phoneRaw data, ep_phoneE164 = ed_phoneE164 data, ep_label = ed_label data,
                    ep_enabled = (case ed_enabled data of Some b \<Rightarrow> b | None \<Rightarrow> True),
                    ep_config = JObj (case ed_config data of Some c \<Rightarrow> c | None \<Rightarrow> []), ep_state = unpaired,
                    ep_deviceName = None, ep_uuid = None, ep_registeredAt = None, ep_createdAt = now\<rparr>
           in (Inr e, audit_log actorId ''endpoint.created'' ''endpoint'' i (JObj [])
                 (JObj [(lit ''id'', JStr i), (lit ''accountId'', JStr accountId), (lit ''label'', JStr (ep_label e))])
                 (d1\<lparr>endpoints := endpoints d1 @ [e]\<rparr>))))"

record endpoint_changes =
  ec_newLabel :: "ustring option"
  ec_newExternalId :: "ustring option"
  ec_newPhoneRaw :: "ustring option"
  ec_newPhoneE164 :: "ustring option"
  ec_newEnabled :: "bool option"
  ec_newConfig :: "fields option"

text \<open>A field that is not given (\<open>undefined\<close>) is not written.\<close>

definition change_endpoint :: "endpoint_changes \<Rightarrow> endpoint_row \<Rightarrow> endpoint_row" where
  "change_endpoint data e = e\<lparr>ep_label := (case ec_newLabel data of Some l \<Rightarrow> l | None \<Rightarrow> ep_label e),
     ep_externalId := (case ec_newExternalId data of Some x \<Rightarrow> Some x | None \<Rightarrow> ep_externalId e),
     ep_phoneRaw := (case ec_newPhoneRaw data of Some x \<Rightarrow> Some x | None \<Rightarrow> ep_phoneRaw e),
     ep_phoneE164 := (case ec_newPhoneE164 data of Some x \<Rightarrow> Some x | None \<Rightarrow> ep_phoneE164 e),
     ep_enabled := (case ec_newEnabled data of Some b \<Rightarrow> b | None \<Rightarrow> ep_enabled e),
     ep_config := (case ec_newConfig data of Some c \<Rightarrow> JObj c | None \<Rightarrow> ep_config e)\<rparr>"

definition updateEndpoint ::
  "(int \<Rightarrow> ustring) \<Rightarrow> ustring \<Rightarrow> endpoint_changes \<Rightarrow> ustring option \<Rightarrow> db \<Rightarrow> (account_error + endpoint_row) \<times> db" where
  "updateEndpoint isof i data actorId d =
     (case eps.lookup d i of
        None \<Rightarrow> (Inl EndpointNotFound, d)
      | Some before \<Rightarrow>
          (let e = change_endpoint data before in
           (Inr e, audit_log actorId ''endpoint.updated'' ''endpoint'' i (endpoint_json isof before)
              (JObj [(lit ''id'', JStr i), (lit ''label'', JStr (ep_label e)), (lit ''enabled'', JBool (ep_enabled e))])
              (endpoints_update (update_where (\<lambda>x. ep_id x = i) (change_endpoint data)) d))))"

text \<open>The transaction of \<open>deleteEndpoint\<close>. The database empties the optional reference of a
  message to a deleted thread.\<close>

definition of_message :: "ustring list \<Rightarrow> ustring option \<Rightarrow> bool" where
  "of_message ms m \<longleftrightarrow> (case m of Some x \<Rightarrow> x \<in> set ms | None \<Rightarrow> False)"

definition delete_history :: "ustring \<Rightarrow> db \<Rightarrow> db" where
  "delete_history i d =
     (let messageIds = map ms_id (filter (\<lambda>m. ms_endpointId m = i) (messages d)) in
      d\<lparr>attachments := delete_where (\<lambda>a. of_message messageIds (at_msgId a)) (attachments d),
        attempts := delete_where (\<lambda>a. at_messageId a \<in> set messageIds) (attempts d),
        history := delete_where (\<lambda>h. hi_messageId h \<in> set messageIds) (history d),
        messages := delete_where (\<lambda>m. ms_endpointId m = i) (messages d)\<rparr>)"

definition delete_threads :: "ustring \<Rightarrow> db \<Rightarrow> db" where
  "delete_threads i d =
     (let threadIds = map cv_id (filter (\<lambda>c. cv_endpointId c = i) (conversations d)) in
      d\<lparr>conversations := delete_where (\<lambda>c. cv_endpointId c = i) (conversations d),
        messages := update_where (\<lambda>m. of_message threadIds (ms_conversationId m))
          (\<lambda>m. m\<lparr>ms_conversationId := None\<rparr>) (messages d)\<rparr>)"

definition deleteEndpoint ::
  "(int \<Rightarrow> ustring) \<Rightarrow> ustring \<Rightarrow> ustring option \<Rightarrow> bool \<Rightarrow> db \<Rightarrow> (account_error + nat) \<times> db" where
  "deleteEndpoint isof i actorId force d =
     (case eps.lookup d i of
        None \<Rightarrow> (Inl EndpointNotFound, d)
      | Some before \<Rightarrow>
          (let messageCount = length (filter (\<lambda>m. ms_endpointId m = i) (messages d)) in
           if ep_state before = linked then (Inl EndpointLinked, d)
           else if messageCount > 0 \<and> \<not> force then (Inl EndpointHasHistory, d)
           else let d1 = (if messageCount > 0 then delete_history i d else d);
                    d2 = endpoints_update (delete_where (\<lambda>e. ep_id e = i)) (delete_threads i d1)
                in (Inr messageCount, audit_log actorId ''endpoint.deleted'' ''endpoint'' i (endpoint_json isof before)
                      (JObj [(lit ''deletedMessages'', JNum (of_nat messageCount))]) d2)))"

section \<open>Accounts from the environment\<close>

record seed_spec =
  sp_adapter :: ustring
  sp_type :: channel_type
  sp_name :: ustring
  sp_config :: fields

definition env_or :: "(string \<Rightarrow> ustring option) \<Rightarrow> string \<Rightarrow> string \<Rightarrow> json" where
  "env_or getenv v dflt = JStr (case getenv v of Some s \<Rightarrow> s | None \<Rightarrow> lit dflt)"

definition seedSpecs :: "(string \<Rightarrow> ustring option) \<Rightarrow> seed_spec list" where
  "seedSpecs getenv =
     (if truthy_str (getenv ''DBSMS_BASE_URL'')
      then [\<lparr>sp_adapter = lit ''goip-vendor'', sp_type = sms, sp_name = lit ''SMS / DBLtek GoIP'',
             sp_config = [(lit ''baseUrl'', env_or getenv ''DBSMS_BASE_URL'' ''''),
               (lit ''username'', env_or getenv ''DBSMS_USERNAME'' ''''),
               (lit ''password'', env_or getenv ''DBSMS_PASSWORD'' '''')]\<rparr>] else []) @
     (if truthy_str (getenv ''UNOAPI_BASE_URL'')
      then [\<lparr>sp_adapter = lit ''unoapi'', sp_type = whatsapp, sp_name = lit ''WhatsApp / UnoAPI'',
             sp_config = [(lit ''baseUrl'', env_or getenv ''UNOAPI_BASE_URL'' ''''),
               (lit ''apiKey'', env_or getenv ''UNOAPI_API_KEY'' '''')]\<rparr>] else []) @
     (if truthy_str (getenv ''GWMD_BASE_URL'')
      then [\<lparr>sp_adapter = lit ''gwmd'', sp_type = whatsapp, sp_name = lit ''WhatsApp / go-whatsapp-web-multidevice'',
             sp_config = [(lit ''baseUrl'', env_or getenv ''GWMD_BASE_URL'' ''''),
               (lit ''username'', env_or getenv ''GWMD_USERNAME'' ''''),
               (lit ''password'', env_or getenv ''GWMD_PASSWORD'' '''')]\<rparr>] else []) @
     (if truthy_str (getenv ''SIGNAL_BASE_URL'')
      then [\<lparr>sp_adapter = lit ''signal-cli-rest-api'', sp_type = signal, sp_name = lit ''Signal / signal-cli-rest-api'',
             sp_config = [(lit ''baseUrl'', env_or getenv ''SIGNAL_BASE_URL'' ''''),
               (lit ''mode'', env_or getenv ''SIGNAL_CLI_MODE'' ''json-rpc'')]\<rparr>] else [])"

definition seed_one :: "int \<Rightarrow> seed_spec \<Rightarrow> db \<Rightarrow> db" where
  "seed_one now spec d =
     (case find (\<lambda>a. ac_adapter a = sp_adapter spec) (accounts d) of
        Some existing \<Rightarrow> accounts_update (update_where (\<lambda>a. ac_id a = ac_id existing)
          (\<lambda>a. a\<lparr>ac_config := JObj (sp_config spec), ac_status := acc_active\<rparr>)) d
      | None \<Rightarrow>
          (let (i, d1) = fresh_id d
           in d1\<lparr>accounts := accounts d1 @ [\<lparr>ac_id = i, ac_type = sp_type spec, ac_adapter = sp_adapter spec,
                 ac_name = sp_name spec, ac_status = acc_active, ac_config = JObj (sp_config spec), ac_createdAt = now\<rparr>]\<rparr>))"

definition seed :: "(string \<Rightarrow> ustring option) \<Rightarrow> int \<Rightarrow> db \<Rightarrow> db" where
  "seed getenv now d = fold (seed_one now) (seedSpecs getenv) d"

section \<open>No dangling references\<close>

definition refs_ok :: "db \<Rightarrow> bool" where
  "refs_ok d \<longleftrightarrow>
     ep_accountId ` set (endpoints d) \<subseteq> ac_id ` set (accounts d) \<and>
     ms_accountId ` set (messages d) \<subseteq> ac_id ` set (accounts d) \<and>
     ms_endpointId ` set (messages d) \<subseteq> ep_id ` set (endpoints d) \<and>
     ms_conversationId ` set (messages d) \<subseteq> insert None (Some ` cv_id ` set (conversations d)) \<and>
     cv_endpointId ` set (conversations d) \<subseteq> ep_id ` set (endpoints d) \<and>
     at_messageId ` set (attempts d) \<subseteq> ms_id ` set (messages d) \<and>
     hi_messageId ` set (history d) \<subseteq> ms_id ` set (messages d) \<and>
     at_msgId ` set (attachments d) \<subseteq> insert None (Some ` ms_id ` set (messages d))"

lemma image_update_where:
  assumes "\<And>x. k (f x) = k x" shows "k ` set (update_where P f xs) = k ` set xs"
proof -
  have "map k (update_where P f xs) = map k xs" using assms by (induction xs) auto
  then show ?thesis by (metis image_set)
qed

lemma refs_ok_audit [simp]: "refs_ok (audit_log a b c e f g d) = refs_ok d"
  by (simp add: refs_ok_def audit_log_def)

lemma refs_ok_change_accounts:
  "(\<And>a. ac_id (f a) = ac_id a) \<Longrightarrow> refs_ok (accounts_update (update_where P f) d) = refs_ok d"
  by (simp add: refs_ok_def image_update_where)

lemma refs_ok_change_endpoints:
  "(\<And>e. ep_id (f e) = ep_id e) \<Longrightarrow> (\<And>e. ep_accountId (f e) = ep_accountId e) \<Longrightarrow>
     refs_ok (endpoints_update (update_where P f) d) = refs_ok d"
  by (simp add: refs_ok_def image_update_where)

text \<open>Foreign keys under deletion: of a referring row, of a row nothing refers to, of rows
  together with those that refer to them, and with the reference emptied.\<close>

lemma fk_delete_source: "f ` set xs \<subseteq> S \<Longrightarrow> f ` set (delete_where P xs) \<subseteq> S"
  by (auto simp: delete_where_def)

lemma row_key_kept: "y \<in> k ` set xs \<Longrightarrow> y \<notin> set (map k (filter P xs)) \<Longrightarrow> y \<in> k ` set (delete_where P xs)"
  by (auto simp: delete_where_def)

lemma fk_delete_target:
  assumes "f ` A \<subseteq> k ` set xs" and "i \<notin> f ` A" shows "f ` A \<subseteq> k ` set (delete_where (\<lambda>x. k x = i) xs)"
proof
  fix y assume "y \<in> f ` A"
  with assms have "y \<in> k ` set xs" "y \<notin> set (map k (filter (\<lambda>x. k x = i) xs))" by auto
  then show "y \<in> k ` set (delete_where (\<lambda>x. k x = i) xs)" by (rule row_key_kept)
qed

lemma fk_cascade:
  assumes "f ` set as \<subseteq> k ` set xs"
  shows "f ` set (delete_where (\<lambda>a. f a \<in> set (map k (filter P xs))) as) \<subseteq> k ` set (delete_where P xs)"
proof
  fix y assume "y \<in> f ` set (delete_where (\<lambda>a. f a \<in> set (map k (filter P xs))) as)"
  then have "y \<in> f ` set as" "y \<notin> set (map k (filter P xs))" by (auto simp: delete_where_def)
  with assms show "y \<in> k ` set (delete_where P xs)" by (intro row_key_kept) auto
qed

lemma fk_cascade_opt:
  assumes "g ` set as \<subseteq> insert None (Some ` k ` set xs)"
  shows "g ` set (delete_where (\<lambda>a. of_message (map k (filter P xs)) (g a)) as)
    \<subseteq> insert None (Some ` k ` set (delete_where P xs))"
proof
  fix y assume "y \<in> g ` set (delete_where (\<lambda>a. of_message (map k (filter P xs)) (g a)) as)"
  then have y: "y \<in> g ` set as" "\<not> of_message (map k (filter P xs)) y" by (auto simp: delete_where_def)
  show "y \<in> insert None (Some ` k ` set (delete_where P xs))"
  proof (cases y)
    case (Some z)
    with y assms have "z \<in> k ` set xs" "z \<notin> set (map k (filter P xs))" by (auto simp: of_message_def)
    from row_key_kept [OF this] Some show ?thesis by blast
  qed simp
qed

lemma fk_set_null:
  assumes "g ` set as \<subseteq> insert None (Some ` k ` set xs)" and "\<And>a. g (h a) = None"
  shows "g ` set (update_where (\<lambda>a. of_message (map k (filter P xs)) (g a)) h as)
    \<subseteq> insert None (Some ` k ` set (delete_where P xs))"
proof -
  let ?Q = "\<lambda>a. of_message (map k (filter P xs)) (g a)"
  have "g ` set (update_where Q h as) \<subseteq> insert None (g ` set (delete_where Q as))" for Q
    using assms(2) by (induction as) (auto simp: delete_where_def)
  from subset_trans [OF this [of ?Q] insert_mono [OF fk_cascade_opt [OF assms(1)]]] show ?thesis by simp
qed

lemma refs_ok_delete_history:
  assumes "refs_ok d" shows "refs_ok (delete_history i d)"
  using assms unfolding refs_ok_def delete_history_def Let_def
  by (simp del: set_map set_filter)
    (elim conjE; intro conjI; (assumption | (rule fk_cascade fk_cascade_opt, assumption) | (rule fk_delete_source, assumption)))

lemma refs_ok_delete_threads:
  assumes "refs_ok d" shows "refs_ok (delete_threads i d)"
  using assms unfolding refs_ok_def delete_threads_def Let_def
  by (simp add: image_update_where del: set_map set_filter)
    (elim conjE; intro conjI; (assumption | (rule fk_set_null, assumption, simp) | (rule fk_delete_source, assumption)))

lemma refs_ok_delete_endpoint:
  assumes "refs_ok d" and "i \<notin> ms_endpointId ` set (messages d)" and "i \<notin> cv_endpointId ` set (conversations d)"
  shows "refs_ok (endpoints_update (delete_where (\<lambda>e. ep_id e = i)) d)"
  using assms unfolding refs_ok_def by (simp add: fk_delete_target fk_delete_source)

lemma refs_ok_delete_account:
  assumes "refs_ok d" and "i \<notin> ep_accountId ` set (endpoints d)" and "i \<notin> ms_accountId ` set (messages d)"
  shows "refs_ok (accounts_update (delete_where (\<lambda>a. ac_id a = i)) d)"
  using assms unfolding refs_ok_def by (simp add: fk_delete_target)

lemma refs_ok_delete_all:
  assumes "refs_ok d" and "d1 = (if length (filter (\<lambda>m. ms_endpointId m = i) (messages d)) > 0 then delete_history i d else d)"
  shows "refs_ok (endpoints_update (delete_where (\<lambda>e. ep_id e = i)) (delete_threads i d1))"
proof (rule refs_ok_delete_endpoint)
  show "refs_ok (delete_threads i d1)" using assms refs_ok_delete_history refs_ok_delete_threads by simp
  have "i \<notin> ms_endpointId ` set (messages d1)"
    using assms(2) by (auto simp: delete_history_def delete_where_def Let_def filter_empty_conv)
  then show "i \<notin> ms_endpointId ` set (messages (delete_threads i d1))"
    by (simp add: delete_threads_def Let_def image_update_where)
  show "i \<notin> cv_endpointId ` set (conversations (delete_threads i d1))"
    by (auto simp: delete_threads_def delete_where_def Let_def)
qed

lemma refs_ok_add_account: "refs_ok d \<Longrightarrow> refs_ok (d\<lparr>uuid_next := n, accounts := accounts d @ [a]\<rparr>)"
  unfolding refs_ok_def by (simp add: subset_insertI2 image_Un)

lemma refs_ok_add_endpoint:
  "refs_ok d \<Longrightarrow> ep_accountId e \<in> ac_id ` set (accounts d) \<Longrightarrow> refs_ok (d\<lparr>uuid_next := n, endpoints := endpoints d @ [e]\<rparr>)"
  unfolding refs_ok_def by (simp add: subset_insertI2 image_Un)

lemma refs_ok_seed_one: "refs_ok d \<Longrightarrow> refs_ok (seed_one now spec d)"
  unfolding seed_one_def fresh_id_def Let_def
  by (simp add: refs_ok_change_accounts refs_ok_add_account split: option.split)

lemma account_get_Inr: "account_get i d = Inr before \<Longrightarrow> i \<in> ac_id ` set (accounts d)"
  by (auto simp: account_get_def accs.lookup_def dest!: find_SomeD split: option.splits)

text \<open>
  No administration of accounts and numbers leaves a dangling reference: when every
  foreign key of the database points to an existing row, it does so after creating, changing
  or deleting an account, creating, changing or deleting a number, also with its history,
  and after seeding the accounts of the environment. No row is removed that another one
  still refers to.
\<close>

theorem references_stay_valid:
  assumes "refs_ok d"
  shows "refs_ok (snd (account_create now data actor d)) \<and> refs_ok (snd (account_update isof i changes actor d))
    \<and> refs_ok (snd (account_delete isof i actor d)) \<and> refs_ok (snd (createEndpoint now i edata actor d))
    \<and> refs_ok (snd (updateEndpoint isof i echanges actor d)) \<and> refs_ok (snd (deleteEndpoint isof i actor force d))
    \<and> refs_ok (seed getenv now d)"
proof (intro conjI)
  show "refs_ok (snd (account_create now data actor d))"
    using assms by (simp add: account_create_def fresh_id_def Let_def refs_ok_add_account)
  show "refs_ok (snd (account_update isof i changes actor d))"
    using assms by (simp add: account_update_def Let_def change_account_def refs_ok_change_accounts split: sum.split)
  show "refs_ok (snd (account_delete isof i actor d))"
    using assms by (auto simp: account_delete_def list_ex_iff intro!: refs_ok_delete_account split: sum.split)
  show "refs_ok (snd (createEndpoint now i edata actor d))"
    using assms account_get_Inr [of i d]
    by (simp add: createEndpoint_def fresh_id_def Let_def refs_ok_add_endpoint split: sum.split)
  show "refs_ok (snd (updateEndpoint isof i echanges actor d))"
    using assms by (simp add: updateEndpoint_def Let_def change_endpoint_def refs_ok_change_endpoints split: option.split)
  show "refs_ok (snd (deleteEndpoint isof i actor force d))"
    using assms refs_ok_delete_all [OF assms refl, of i]
    by (cases "filter (\<lambda>m. ms_endpointId m = i) (messages d) = []") (simp_all add: deleteEndpoint_def Let_def split: option.split)
  have "refs_ok (fold (seed_one now) specs d)" for specs
    using assms by (induction specs arbitrary: d) (simp_all add: refs_ok_seed_one)
  then show "refs_ok (seed getenv now d)" by (simp add: seed_def)
qed

definition demo_account :: account_row where
  "demo_account = \<lparr>ac_id = lit ''a'', ac_type = sms, ac_adapter = lit ''mock'', ac_name = lit ''n'', ac_status = acc_active,
     ac_config = JNull, ac_createdAt = 0\<rparr>"

definition demo_endpoint :: endpoint_row where
  "demo_endpoint = \<lparr>ep_id = lit ''e'', ep_accountId = lit ''a'', ep_externalId = None, ep_phoneRaw = None,
     ep_phoneE164 = None, ep_label = [], ep_enabled = True, ep_config = JNull, ep_state = linked, ep_deviceName = None,
     ep_uuid = None, ep_registeredAt = None, ep_createdAt = 0\<rparr>"

theorem references_stay_valid_witness:
  "refs_ok (snd (deleteEndpoint (\<lambda>t. []) (lit ''e'') None True
     ((empty_db tick_ids)\<lparr>accounts := [demo_account], endpoints := [demo_endpoint]\<rparr>)))"
proof -
  have "refs_ok ((empty_db tick_ids)\<lparr>accounts := [demo_account], endpoints := [demo_endpoint]\<rparr>)"
    by (simp add: refs_ok_def empty_db_def demo_account_def demo_endpoint_def)
  from references_stay_valid [OF this] show ?thesis by blast
qed

text \<open>
  Deleting a number is all or nothing: an unknown number, one that is still linked to
  its transport, and one with messages unless the deletion is forced, are refused and
  nothing changes. Otherwise exactly that number goes, with its threads, its messages and
  the attachment rows of these, and the count of deleted messages is returned. The files of
  the deleted attachments stay in the media directory.
\<close>

theorem endpoint_deletion:
  "case deleteEndpoint isof i actor force d of
     (Inl err, d') \<Rightarrow> d' = d
   | (Inr n, d') \<Rightarrow>
       (\<exists>e. eps.lookup d i = Some e \<and> ep_state e \<noteq> linked) \<and> (n = 0 \<or> force)
       \<and> n = length (filter (\<lambda>m. ms_endpointId m = i) (messages d))
       \<and> endpoints d' = filter (\<lambda>e. ep_id e \<noteq> i) (endpoints d)
       \<and> conversations d' = filter (\<lambda>c. cv_endpointId c \<noteq> i) (conversations d)
       \<and> map ms_id (messages d') = map ms_id (filter (\<lambda>m. ms_endpointId m \<noteq> i) (messages d))
       \<and> attachments d' = filter (\<lambda>a. \<not> of_message (map ms_id (filter (\<lambda>m. ms_endpointId m = i) (messages d))) (at_msgId a))
           (attachments d)
       \<and> media_files d' = media_files d"
proof -
  have keep: "map ms_id (update_where P (\<lambda>m. m\<lparr>ms_conversationId := None\<rparr>) ms) = map ms_id ms" for P ms
    by (induction ms) auto
  have none: "\<not> of_message [] m" for m by (simp add: of_message_def split: option.split)
  have all: "filter (\<lambda>m. ms_endpointId m = i) ms = [] \<Longrightarrow> filter (\<lambda>m. ms_endpointId m \<noteq> i) ms = ms" for ms
    by (simp add: filter_empty_conv filter_id_conv)
  show ?thesis
    by (cases "filter (\<lambda>m. ms_endpointId m = i) (messages d) = []")
      (simp_all add: keep none all deleteEndpoint_def delete_history_def delete_threads_def delete_where_def audit_log_def Let_def split: option.split)
qed

end
