(* ===== verification/Provisioning.thy ===== *)
theory Provisioning
  imports Accounts Sending
begin

text \<open>
  Linking numbers to the vendor services (apps/api/src/transport-accounts/provisioning.service.ts,
  packages/channel-sdk/src/provisioning.ts): the QR wizard and its polling, code
  verification, unlinking and re-attaching. What an adapter's service answers is an
  argument, an exception of it a value. The state of the wizard is the registration state
  of the endpoint row; the lemmas show when a number is switched on, what a scan leads to,
  and that an unlinked number sends nothing.
\<close>

section \<open>What adapters answer\<close>

record provisioned =
  pv_externalId :: ustring
  pv_phoneE164 :: "ustring option"
  pv_uuid :: "ustring option"
  pv_deviceName :: "ustring option"

datatype provisioning_code = UNSUPPORTED | TRANSPORT_ERROR | BAD_RESPONSE | TIMEOUT | INVALID_INPUT

datatype thrown = ProvisioningError provisioning_code ustring | OtherError ustring

record qr_result =
  qr_sessionId :: ustring
  qr_uri :: ustring
  qr_imageUrl :: "ustring option"
  qr_ttlSeconds :: int

datatype provisioning_mode = by_qr | by_sms | by_voice | by_none

text \<open>An optional method of an adapter is \<open>None\<close> when it is not implemented.\<close>

record provision_adapter =
  pa_mode :: "provisioning_mode option"
  pa_qr :: "(account_config \<Rightarrow> ustring \<Rightarrow> thrown + qr_result) option"
  pa_list :: "(account_config \<Rightarrow> thrown + provisioned list) option"
  pa_image :: "(account_config \<Rightarrow> ustring \<Rightarrow> thrown + nat list) option"
  pa_verify :: "(account_config \<Rightarrow> ustring \<Rightarrow> ustring \<Rightarrow> ustring option \<Rightarrow> thrown + (bool \<times> provisioned option)) option"
  pa_unlink :: "(account_config \<Rightarrow> ustring \<Rightarrow> thrown option) option"

record provision_env =
  pr_adapters :: "ustring \<Rightarrow> provision_adapter option"
  pr_now :: int
  pr_iso :: "int \<Rightarrow> ustring"
  pr_parse :: "ustring \<Rightarrow> int option"
  pr_fmt :: "rat \<Rightarrow> ustring"

datatype provision_error =
    NoAccount account_error | UnknownAdapter | QrUnsupported | MethodMissing | InputMissing | NoEndpoint | ForeignEndpoint
  | NotImplemented ustring | BadRequest ustring | BadGateway ustring | GatewayTimeout ustring | Rethrown ustring
  | NoImage | NumberMissing | NotLinked | NoExternalId | NotOnTransport | UuidTaken

fun mapError :: "thrown \<Rightarrow> provision_error" where
  "mapError (ProvisioningError UNSUPPORTED m) = NotImplemented m"
| "mapError (ProvisioningError INVALID_INPUT m) = BadRequest m"
| "mapError (ProvisioningError TRANSPORT_ERROR m) = BadGateway m"
| "mapError (ProvisioningError BAD_RESPONSE m) = BadGateway m"
| "mapError (ProvisioningError TIMEOUT m) = GatewayTimeout m"
| "mapError (OtherError m) = Rethrown m"

fun thrown_message :: "thrown \<Rightarrow> ustring" where
  "thrown_message (ProvisioningError c m) = m"
| "thrown_message (OtherError m) = m"

definition getAdapter :: "provision_env \<Rightarrow> ustring \<Rightarrow> db \<Rightarrow> provision_error + (account_row \<times> provision_adapter)" where
  "getAdapter env accountId d =
     (case account_get accountId d of
        Inl err \<Rightarrow> Inl (NoAccount err)
      | Inr (account, es) \<Rightarrow>
          (case pr_adapters env (ac_adapter account) of
             None \<Rightarrow> Inl UnknownAdapter
           | Some adapter \<Rightarrow> Inr (account, adapter)))"

text \<open>The update of one endpoint row; the column \<open>uuid\<close> is unique.\<close>

definition write_endpoint :: "ustring \<Rightarrow> (endpoint_row \<Rightarrow> endpoint_row) \<Rightarrow> db \<Rightarrow> db" where
  "write_endpoint i f d = endpoints_update (update_where (\<lambda>e. ep_id e = i) f) d"

definition uuid_taken :: "ustring \<Rightarrow> ustring option \<Rightarrow> db \<Rightarrow> bool" where
  "uuid_taken i u d \<longleftrightarrow> u \<noteq> None \<and> list_ex (\<lambda>e. ep_id e \<noteq> i \<and> ep_uuid e = u) (endpoints d)"

section \<open>The QR wizard\<close>

datatype provision_kind = kind_signal | kind_whatsapp

record provision_qr_dto =
  pq_kind :: provision_kind
  pq_label :: ustring
  pq_deviceName :: "ustring option"
  pq_phoneE164 :: "ustring option"

fun kind_name :: "provision_kind \<Rightarrow> ustring" where
  "kind_name kind_signal = lit ''signal''"
| "kind_name kind_whatsapp = lit ''whatsapp''"

record qr_response =
  qp_endpointId :: ustring
  qp_uri :: "ustring option"
  qp_qrImageUrl :: "ustring option"
  qp_ttlSeconds :: int

definition device_name :: "provision_qr_dto \<Rightarrow> ustring" where
  "device_name dto = js_trim (case (if pq_kind dto = kind_whatsapp then pq_phoneE164 dto else pq_deviceName dto) of
     Some s \<Rightarrow> s | None \<Rightarrow> [])"

definition known_before :: "provision_adapter \<Rightarrow> account_config \<Rightarrow> ustring list" where
  "known_before adapter cfg =
     (case pa_list adapter of
        None \<Rightarrow> []
      | Some list \<Rightarrow> (case list cfg of Inl err \<Rightarrow> [] | Inr before \<Rightarrow> filter (\<lambda>x. x \<noteq> []) (map pv_externalId before)))"

definition wizard_endpoint :: "provision_env \<Rightarrow> ustring \<Rightarrow> ustring \<Rightarrow> provision_qr_dto \<Rightarrow> endpoint_row" where
  "wizard_endpoint env i accountId dto =
     (let deviceName = device_name dto; number = (if pq_kind dto = kind_whatsapp then Some deviceName else None) in
      \<lparr>ep_id = i, ep_accountId = accountId, ep_externalId = number, ep_phoneRaw = None, ep_phoneE164 = number,
       ep_label = pq_label dto, ep_enabled = False, ep_config = JObj [], ep_state = qr_pending,
       ep_deviceName = Some deviceName, ep_uuid = None, ep_registeredAt = None, ep_createdAt = pr_now env\<rparr>)"

definition qr_session :: "provision_env \<Rightarrow> provision_qr_dto \<Rightarrow> ustring list \<Rightarrow> qr_result \<Rightarrow> json" where
  "qr_session env dto known r = JObj [(lit ''qrSessionId'', JStr (qr_sessionId r)),
     (lit ''qrExpiresAt'', JStr (pr_iso env (pr_now env + qr_ttlSeconds r * 1000))),
     (lit ''kind'', JStr (kind_name (pq_kind dto))), (lit ''knownAccountsBefore'', JArr (map JStr known)),
     (lit ''qrImageUrl'', opt_str (qr_imageUrl r))]"

definition qr_response_of :: "ustring \<Rightarrow> ustring \<Rightarrow> qr_result \<Rightarrow> qr_response" where
  "qr_response_of accountId i r = \<lparr>qp_endpointId = i,
     qp_uri = (if truthy_str (qr_imageUrl r) then None else Some (qr_uri r)),
     qp_qrImageUrl = (if truthy_str (qr_imageUrl r)
        then Some (lit ''/transport-accounts/'' @ accountId @ lit ''/provision/'' @ i @ lit ''/qr.png'') else None),
     qp_ttlSeconds = qr_ttlSeconds r\<rparr>"

definition startQr ::
  "provision_env \<Rightarrow> ustring \<Rightarrow> provision_qr_dto \<Rightarrow> ustring option \<Rightarrow> db \<Rightarrow> (provision_error + qr_response) \<times> db" where
  "startQr env accountId dto actorId d =
     (case getAdapter env accountId d of
        Inl err \<Rightarrow> (Inl err, d)
      | Inr (account, adapter) \<Rightarrow>
          if pa_mode adapter \<noteq> Some by_qr then (Inl QrUnsupported, d)
          else (case pa_qr adapter of
                  None \<Rightarrow> (Inl MethodMissing, d)
                | Some provisionQr \<Rightarrow>
                    if device_name dto = [] then (Inl InputMissing, d)
                    else let known = known_before adapter (account_config_of account);
                             (i, d1) = fresh_id d;
                             d2 = d1\<lparr>endpoints := endpoints d1 @ [wizard_endpoint env i accountId dto]\<rparr>
                         in (case provisionQr (account_config_of account) (device_name dto) of
                               Inr r \<Rightarrow>
                                 (Inr (qr_response_of accountId i r),
                                  audit_log actorId ''endpoint.provision.qr_requested'' ''endpoint'' i (JObj [])
                                    (JObj [(lit ''kind'', JStr (kind_name (pq_kind dto))),
                                           (lit ''deviceName'', JStr (device_name dto)),
                                           (lit ''ttlSeconds'', JNum (of_int (qr_ttlSeconds r)))])
                                    (write_endpoint i (\<lambda>e. e\<lparr>ep_state := qr_displayed,
                                       ep_config := qr_session env dto known r\<rparr>) d2))
                             | Inl err \<Rightarrow>
                                 (Inl (mapError err),
                                  audit_log actorId ''endpoint.provision.qr_failed'' ''endpoint'' i (JObj [])
                                    (JObj [(lit ''error'', JStr (thrown_message err))])
                                    (write_endpoint i (\<lambda>e. e\<lparr>ep_state := reg_failed\<rparr>) d2)))))"

section \<open>Polling\<close>

text \<open>Identity: the account carries the uuid, number or device name of the endpoint.\<close>

definition identifies :: "endpoint_row \<Rightarrow> provisioned \<Rightarrow> bool" where
  "identifies e a \<longleftrightarrow>
     (truthy_str (ep_uuid e) \<and> truthy_str (pv_uuid a) \<and> pv_uuid a = ep_uuid e)
     \<or> (truthy_str (ep_phoneE164 e) \<and> truthy_str (pv_phoneE164 a) \<and> pv_phoneE164 a = ep_phoneE164 e)
     \<or> (truthy_str (ep_deviceName e) \<and> truthy_str (pv_deviceName a) \<and> pv_deviceName a = ep_deviceName e)"

definition fresh_accounts :: "provision_env \<Rightarrow> endpoint_row \<Rightarrow> provisioned list \<Rightarrow> provisioned list" where
  "fresh_accounts env e claimed =
     (case own (ep_config e) (lit ''knownAccountsBefore'') of
        Some (JArr xs) \<Rightarrow>
          filter (\<lambda>a. pv_externalId a \<noteq> [] \<and> pv_externalId a \<notin> set (map (to_text (pr_fmt env)) xs)) claimed
      | _ \<Rightarrow> [])"

definition orphan_accounts :: "ustring \<Rightarrow> endpoint_row \<Rightarrow> provisioned list \<Rightarrow> db \<Rightarrow> provisioned list" where
  "orphan_accounts accountId e claimed d =
     (let ids = filter (\<lambda>x. x \<noteq> []) (map pv_externalId claimed);
          taken = map ep_externalId (filter (\<lambda>x. ep_accountId x = accountId \<and> ep_id x \<noteq> ep_id e
                    \<and> ep_externalId x \<in> Some ` set ids) (endpoints d))
      in filter (\<lambda>a. pv_externalId a \<noteq> [] \<and> Some (pv_externalId a) \<notin> set taken) claimed)"

definition the_only :: "'a list \<Rightarrow> 'a option" where
  "the_only xs = (case xs of [x] \<Rightarrow> Some x | _ \<Rightarrow> None)"

definition poll_match :: "provision_env \<Rightarrow> ustring \<Rightarrow> endpoint_row \<Rightarrow> provisioned list \<Rightarrow> db \<Rightarrow> provisioned option" where
  "poll_match env accountId e claimed d =
     (case find (identifies e) claimed of
        Some a \<Rightarrow> Some a
      | None \<Rightarrow>
          (case the_only (fresh_accounts env e claimed) of
             Some a \<Rightarrow> Some a
           | None \<Rightarrow> the_only (orphan_accounts accountId e claimed d)))"

definition or_else :: "'a option \<Rightarrow> 'a option \<Rightarrow> 'a option" where
  "or_else a b = (case a of Some x \<Rightarrow> Some x | None \<Rightarrow> b)"

definition link_endpoint :: "int \<Rightarrow> provisioned \<Rightarrow> endpoint_row \<Rightarrow> endpoint_row" where
  "link_endpoint now a e = e\<lparr>ep_state := linked, ep_uuid := or_else (pv_uuid a) (ep_uuid e),
     ep_phoneE164 := or_else (pv_phoneE164 a) (ep_phoneE164 e), ep_externalId := Some (pv_externalId a),
     ep_registeredAt := Some now, ep_enabled := True\<rparr>"

definition qr_expired :: "provision_env \<Rightarrow> endpoint_row \<Rightarrow> bool" where
  "qr_expired env e \<longleftrightarrow>
     (case own (ep_config e) (lit ''qrExpiresAt'') of
        None \<Rightarrow> False
      | Some v \<Rightarrow> truthy v \<and> (case pr_parse env (to_text (pr_fmt env) v) of Some t \<Rightarrow> t < pr_now env | None \<Rightarrow> False))"

definition identity_json :: "ustring option \<Rightarrow> ustring option \<Rightarrow> json" where
  "identity_json phone u = JObj [(lit ''phoneE164'', opt_str phone), (lit ''uuid'', opt_str u)]"

definition prov_poll ::
  "provision_env \<Rightarrow> ustring \<Rightarrow> ustring \<Rightarrow> db \<Rightarrow> (provision_error + registration_state) \<times> db" where
  "prov_poll env accountId endpointId d =
     (case eps.lookup d endpointId of
        None \<Rightarrow> (Inl NoEndpoint, d)
      | Some e \<Rightarrow>
          if ep_accountId e \<noteq> accountId then (Inl ForeignEndpoint, d)
          else (case getAdapter env accountId d of
             Inl err \<Rightarrow> (Inl err, d)
           | Inr (account, adapter) \<Rightarrow>
               (case pa_list adapter of
                  None \<Rightarrow> (Inl MethodMissing, d)
                | Some list \<Rightarrow>
                    (case list (account_config_of account) of
                       Inl err \<Rightarrow> (Inl (Rethrown (thrown_message err)), d)
                     | Inr claimed \<Rightarrow>
                         (case poll_match env accountId e claimed d of
                            Some a \<Rightarrow>
                              if uuid_taken endpointId (or_else (pv_uuid a) (ep_uuid e)) d then (Inl UuidTaken, d)
                              else (Inr linked,
                                audit_log None ''endpoint.provision.linked'' ''endpoint'' endpointId
                                  (JObj [(lit ''state'', JStr (state_name (ep_state e)))])
                                  (identity_json (pv_phoneE164 a) (pv_uuid a))
                                  (write_endpoint endpointId
                                     (\<lambda>x. (link_endpoint (pr_now env) a x)\<lparr>ep_config := JObj []\<rparr>) d))
                          | None \<Rightarrow>
                              if qr_expired env e
                              then (Inr reg_failed, write_endpoint endpointId (\<lambda>x. x\<lparr>ep_state := reg_failed\<rparr>) d)
                              else (Inr (ep_state e), d))))))"

text \<open>\<open>qrImage\<close> and \<open>listSidecarAccounts\<close> read only.\<close>

definition qrImage :: "provision_env \<Rightarrow> ustring \<Rightarrow> ustring \<Rightarrow> db \<Rightarrow> provision_error + nat list" where
  "qrImage env accountId endpointId d =
     (case eps.lookup d endpointId of
        None \<Rightarrow> Inl NoEndpoint
      | Some e \<Rightarrow>
          (let imageUrl = (case own (ep_config e) (lit ''qrImageUrl'') of
                 Some v \<Rightarrow> if truthy v then to_text (pr_fmt env) v else [] | None \<Rightarrow> [])
           in if ep_accountId e \<noteq> accountId then Inl ForeignEndpoint
              else if imageUrl = [] then Inl NoImage
              else (case getAdapter env accountId d of
                      Inl err \<Rightarrow> Inl err
                    | Inr (account, adapter) \<Rightarrow>
                        (case pa_image adapter of
                           None \<Rightarrow> Inl MethodMissing
                         | Some fetchImage \<Rightarrow>
                             (case fetchImage (account_config_of account) imageUrl of
                                Inl err \<Rightarrow> Inl (mapError err)
                              | Inr bytes \<Rightarrow> Inr bytes)))))"

definition listSidecarAccounts :: "provision_env \<Rightarrow> ustring \<Rightarrow> db \<Rightarrow> provision_error + provisioned list" where
  "listSidecarAccounts env accountId d =
     (case getAdapter env accountId d of
        Inl err \<Rightarrow> Inl err
      | Inr (account, adapter) \<Rightarrow>
          (case pa_list adapter of
             None \<Rightarrow> Inl MethodMissing
           | Some list \<Rightarrow>
               (case list (account_config_of account) of
                  Inl err \<Rightarrow> Inl (Rethrown (thrown_message err))
                | Inr accs \<Rightarrow> Inr accs)))"

section \<open>Verification codes\<close>

definition verified_endpoint :: "int \<Rightarrow> provisioned option \<Rightarrow> endpoint_row \<Rightarrow> endpoint_row" where
  "verified_endpoint now acc e =
     (let e' = e\<lparr>ep_state := linked, ep_registeredAt := Some now, ep_enabled := True\<rparr> in
      case acc of
        None \<Rightarrow> e'
      | Some a \<Rightarrow> e'\<lparr>ep_uuid := or_else (pv_uuid a) (ep_uuid e), ep_phoneE164 := or_else (pv_phoneE164 a) (ep_phoneE164 e),
          ep_externalId := Some (pv_externalId a), ep_deviceName := or_else (pv_deviceName a) (ep_deviceName e)\<rparr>)"

definition verify_failed :: "ustring option \<Rightarrow> ustring \<Rightarrow> ustring \<Rightarrow> db \<Rightarrow> db" where
  "verify_failed actorId i m d = audit_log actorId ''endpoint.provision.verify_failed'' ''endpoint'' i (JObj [])
     (JObj [(lit ''error'', JStr m)]) d"

definition verify ::
  "provision_env \<Rightarrow> ustring \<Rightarrow> ustring \<Rightarrow> ustring \<Rightarrow> ustring option \<Rightarrow> ustring option \<Rightarrow> db \<Rightarrow> (provision_error + bool) \<times> db" where
  "verify env accountId endpointId code token actorId d =
     (case getAdapter env accountId d of
        Inl err \<Rightarrow> (Inl err, d)
      | Inr (account, adapter) \<Rightarrow>
          (case pa_verify adapter of
             None \<Rightarrow> (Inl MethodMissing, d)
           | Some verifyCode \<Rightarrow>
               (case eps.lookup d endpointId of
                  None \<Rightarrow> (Inl NoEndpoint, d)
                | Some e \<Rightarrow>
                    (let phone = (case or_else (ep_phoneE164 e) (ep_externalId e) of Some s \<Rightarrow> s | None \<Rightarrow> []);
                         d1 = write_endpoint endpointId (\<lambda>x. x\<lparr>ep_state := verifying\<rparr>) d
                     in if ep_accountId e \<noteq> accountId then (Inl ForeignEndpoint, d)
                        else if phone = [] then (Inl NumberMissing, d)
                        else (case verifyCode (account_config_of account) phone code token of
                                Inl err \<Rightarrow> (Inl (mapError err), verify_failed actorId endpointId (thrown_message err) d1)
                              | Inr (verified, acc) \<Rightarrow>
                                  if \<not> verified
                                  then (Inr False, write_endpoint endpointId (\<lambda>x. x\<lparr>ep_state := reg_failed\<rparr>) d1)
                                  else if uuid_taken endpointId (ep_uuid (verified_endpoint (pr_now env) acc e)) d1
                                  then (Inl UuidTaken, verify_failed actorId endpointId (lit ''Unique constraint failed'') d1)
                                  else (Inr True,
                                    audit_log actorId ''endpoint.provision.verified'' ''endpoint'' endpointId (JObj [])
                                      (case acc of Some a \<Rightarrow> identity_json (pv_phoneE164 a) (pv_uuid a) | None \<Rightarrow> JObj [])
                                      (write_endpoint endpointId (verified_endpoint (pr_now env) acc) d1)))))))"

section \<open>Unlinking and re-attaching\<close>

definition unlinked_endpoint :: "endpoint_row \<Rightarrow> endpoint_row" where
  "unlinked_endpoint e = e\<lparr>ep_state := unpaired, ep_uuid := None, ep_phoneE164 := None, ep_externalId := None,
     ep_registeredAt := None, ep_deviceName := None, ep_enabled := False\<rparr>"

definition unlink :: "provision_env \<Rightarrow> ustring \<Rightarrow> ustring option \<Rightarrow> db \<Rightarrow> provision_error option \<times> db" where
  "unlink env endpointId actorId d =
     (case eps.lookup d endpointId of
        None \<Rightarrow> (Some NoEndpoint, d)
      | Some e \<Rightarrow>
          if ep_state e \<noteq> linked then (Some NotLinked, d)
          else if \<not> truthy_str (ep_externalId e) then (Some NoExternalId, d)
          else (case getAdapter env (ep_accountId e) d of
                  Inl err \<Rightarrow> (Some err, d)
                | Inr (account, adapter) \<Rightarrow>
                    (case pa_unlink adapter of
                       None \<Rightarrow> (Some MethodMissing, d)
                     | Some detach \<Rightarrow>
                         (case detach (account_config_of account) (the (ep_externalId e)) of
                            Some err \<Rightarrow> (Some (Rethrown (thrown_message err)), d)
                          | None \<Rightarrow>
                              (None, audit_log actorId ''endpoint.provision.unlinked'' ''endpoint'' endpointId
                                 (JObj [(lit ''uuid'', opt_str (ep_uuid e)), (lit ''phoneE164'', opt_str (ep_phoneE164 e))])
                                 (JObj [(lit ''state'', JStr (lit ''unpaired''))])
                                 (write_endpoint endpointId unlinked_endpoint d))))))"

definition reattach ::
  "provision_env \<Rightarrow> ustring \<Rightarrow> ustring \<Rightarrow> ustring \<Rightarrow> ustring option \<Rightarrow> db \<Rightarrow> provision_error option \<times> db" where
  "reattach env accountId endpointId sidecarExternalId actorId d =
     (case getAdapter env accountId d of
        Inl err \<Rightarrow> (Some err, d)
      | Inr (account, adapter) \<Rightarrow>
          (case pa_list adapter of
             None \<Rightarrow> (Some MethodMissing, d)
           | Some list \<Rightarrow>
               (case list (account_config_of account) of
                  Inl err \<Rightarrow> (Some (Rethrown (thrown_message err)), d)
                | Inr claimed \<Rightarrow>
                    (case find (\<lambda>a. pv_externalId a = sidecarExternalId) claimed of
                       None \<Rightarrow> (Some NotOnTransport, d)
                     | Some a \<Rightarrow>
                         (case eps.lookup d endpointId of
                            None \<Rightarrow> (Some NoEndpoint, d)
                          | Some e \<Rightarrow>
                              if ep_accountId e \<noteq> accountId then (Some ForeignEndpoint, d)
                              else if uuid_taken endpointId (pv_uuid a) d then (Some UuidTaken, d)
                              else (None, audit_log actorId ''endpoint.provision.reattached'' ''endpoint'' endpointId
                                     (JObj []) (identity_json (pv_phoneE164 a) (pv_uuid a))
                                     (write_endpoint endpointId (\<lambda>x. x\<lparr>ep_state := linked, ep_uuid := pv_uuid a,
                                        ep_phoneE164 := pv_phoneE164 a, ep_externalId := Some (pv_externalId a),
                                        ep_registeredAt := Some (pr_now env), ep_enabled := True\<rparr>) d)))))))"

section \<open>A number sends only once it is linked\<close>

text \<open>Any sequence of operations, each with its own answers of the service and its own time.\<close>

inductive prov_run :: "db \<Rightarrow> db \<Rightarrow> bool" where
  nothing: "prov_run d d"
| started: "prov_run d d' \<Longrightarrow> prov_run d (snd (startQr env a dto actor d'))"
| polled: "prov_run d d' \<Longrightarrow> prov_run d (snd (prov_poll env a i d'))"
| verified: "prov_run d d' \<Longrightarrow> prov_run d (snd (verify env a i code token actor d'))"
| unlinked: "prov_run d d' \<Longrightarrow> prov_run d (snd (unlink env i actor d'))"
| reattached: "prov_run d d' \<Longrightarrow> prov_run d (snd (reattach env a i x actor d'))"

text \<open>Generated identifiers are new: the supply repeats none and is ahead of the table.\<close>

definition ids_ahead :: "db \<Rightarrow> bool" where
  "ids_ahead d \<longleftrightarrow> inj (uuid_source d) \<and> (\<forall>n\<ge>uuid_next d. uuid_source d n \<notin> ep_id ` set (endpoints d))"

definition wizard_ok :: "endpoint_row \<Rightarrow> bool" where
  "wizard_ok e \<longleftrightarrow> (ep_state e = linked \<longrightarrow> ep_enabled e \<and> ep_registeredAt e \<noteq> None)
     \<and> (ep_state e = qr_pending \<or> ep_state e = qr_displayed \<longrightarrow> \<not> ep_enabled e \<and> ep_registeredAt e = None)"

definition wizards_ok :: "db \<Rightarrow> bool" where
  "wizards_ok d \<longleftrightarrow> ids_ahead d \<and> (\<forall>e\<in>set (endpoints d). wizard_ok e)"

lemma wizards_ok_audit [simp]: "wizards_ok (audit_log a b c e f g d) = wizards_ok d"
  by (simp add: wizards_ok_def ids_ahead_def audit_log_def)

lemma wizards_ok_write:
  assumes "wizards_ok d" and "\<And>e. ep_id (f e) = ep_id e" and "\<And>e. wizard_ok e \<Longrightarrow> wizard_ok (f e)"
  shows "wizards_ok (write_endpoint i f d)"
  using assms by (auto simp: wizards_ok_def ids_ahead_def write_endpoint_def image_update_where set_update_where)

lemma startQr_row:
  assumes "ids_ahead d" and "i = uuid_source d (uuid_next d)" and "ep_id e = i"
  shows "endpoints (write_endpoint i f (d\<lparr>uuid_next := n, endpoints := endpoints d @ [e]\<rparr>)) = endpoints d @ [f e]"
proof -
  have "i \<notin> ep_id ` set (endpoints d)" using assms(1,2) by (simp add: ids_ahead_def)
  then have "update_where (\<lambda>x. ep_id x = i) f (endpoints d) = endpoints d" by (intro update_where_none) auto
  with assms(3) show ?thesis by (simp add: write_endpoint_def)
qed

lemma startQr_ids_ahead:
  assumes "ids_ahead d" and "\<And>e. ep_id (f e) = ep_id e" and "ep_id e = uuid_source d (uuid_next d)"
  shows "ids_ahead (write_endpoint i f (d\<lparr>uuid_next := Suc (uuid_next d), endpoints := endpoints d @ [e]\<rparr>))"
  using assms by (auto simp: ids_ahead_def write_endpoint_def image_update_where inj_eq image_iff set_update_where)

lemma wizards_ok_start:
  assumes "wizards_ok d" and "i = uuid_source d (uuid_next d)" and "ep_id e = i" and "\<And>e. ep_id (f e) = ep_id e"
    and "wizard_ok (f e)"
  shows "wizards_ok (write_endpoint i f (d\<lparr>uuid_next := Suc (uuid_next d), endpoints := endpoints d @ [e]\<rparr>))"
  using assms startQr_row [of d i e f "Suc (uuid_next d)"] startQr_ids_ahead [of d f e i] by (simp add: wizards_ok_def)

lemma wizards_ok_startQr: "wizards_ok d \<Longrightarrow> wizards_ok (snd (startQr env a dto actor d))"
  unfolding startQr_def fresh_id_def Let_def
  by (simp add: wizards_ok_start wizard_endpoint_def wizard_ok_def Let_def split: option.split sum.split prod.split)

lemma wizards_ok_poll: "wizards_ok d \<Longrightarrow> wizards_ok (snd (prov_poll env a i d))"
  unfolding prov_poll_def
  by (simp add: wizards_ok_write wizard_ok_def link_endpoint_def split: option.split sum.split prod.split)

lemma wizards_ok_verify: "wizards_ok d \<Longrightarrow> wizards_ok (snd (verify env a i code token actor d))"
  unfolding verify_def verify_failed_def Let_def
  by (simp add: wizards_ok_write wizard_ok_def verified_endpoint_def Let_def split: option.split sum.split prod.split)

lemma wizards_ok_unlink: "wizards_ok d \<Longrightarrow> wizards_ok (snd (unlink env i actor d))"
  unfolding unlink_def
  by (simp add: wizards_ok_write wizard_ok_def unlinked_endpoint_def split: option.split sum.split prod.split)

lemma wizards_ok_reattach: "wizards_ok d \<Longrightarrow> wizards_ok (snd (reattach env a i x actor d))"
  unfolding reattach_def
  by (simp add: wizards_ok_write wizard_ok_def split: option.split sum.split prod.split)

text \<open>
  C26. A number sends only once it is linked: through any sequence of wizard starts, polls,
  verifications, unlinkings and re-attachments, a linked number is switched on and has a
  registration time, and one whose QR code waits for its scan is switched off; so no message
  is ever handed to a number whose QR code has not been scanned.
\<close>

theorem only_linked_numbers_send:
  assumes "prov_run d d'" and "wizards_ok d"
  shows "wizards_ok d' \<and> (\<forall>dto acc i. resolve_sender d' dto = Inr (acc, i) \<longrightarrow>
     (\<exists>e\<in>set (endpoints d'). ep_id e = i \<and> ep_enabled e \<and> ep_state e \<noteq> qr_pending \<and> ep_state e \<noteq> qr_displayed))"
proof -
  have ok: "wizards_ok d'" using assms
    by (induction rule: prov_run.induct)
      (simp_all add: wizards_ok_startQr wizards_ok_poll wizards_ok_verify wizards_ok_unlink wizards_ok_reattach)
  then have "\<exists>e\<in>set (endpoints d'). ep_id e = i \<and> ep_enabled e \<and> ep_state e \<noteq> qr_pending \<and> ep_state e \<noteq> qr_displayed"
    if "resolve_sender d' dto = Inr (acc, i)" for dto acc i
    using resolve_sender_enabled [OF that] by (auto simp: wizards_ok_def wizard_ok_def)
  with ok show ?thesis by blast
qed

section \<open>A concrete Signal service\<close>

definition signal_account :: account_row where
  "signal_account = demo_account\<lparr>ac_type := signal\<rparr>"

definition signal_state :: "endpoint_row list \<Rightarrow> db" where
  "signal_state es = (empty_db tick_ids)\<lparr>accounts := [signal_account], endpoints := es\<rparr>"

definition sample_number :: provisioned where
  "sample_number = \<lparr>pv_externalId = lit ''+1'', pv_phoneE164 = Some (lit ''+1''), pv_uuid = None, pv_deviceName = None\<rparr>"

definition signal_env :: "int \<Rightarrow> provisioned list \<Rightarrow> provision_env" where
  "signal_env now accs = \<lparr>pr_adapters = (\<lambda>n. Some \<lparr>pa_mode = Some by_qr,
       pa_qr = Some (\<lambda>c n. Inr \<lparr>qr_sessionId = lit ''s'', qr_uri = lit ''u'', qr_imageUrl = None, qr_ttlSeconds = 60\<rparr>),
       pa_list = Some (\<lambda>c. Inr accs), pa_image = None, pa_verify = None, pa_unlink = None\<rparr>),
     pr_now = now, pr_iso = (\<lambda>t. [if t < 0 then 45 else 43, nat \<bar>t\<bar>]),
     pr_parse = (\<lambda>s. Some (if hd s = 45 then - int (last s) else int (last s))), pr_fmt = (\<lambda>r. [])\<rparr>"

definition signal_dto :: provision_qr_dto where
  "signal_dto = \<lparr>pq_kind = kind_signal, pq_label = lit ''l'', pq_deviceName = Some (lit ''umg''), pq_phoneE164 = None\<rparr>"

lemma tick_ids_inj: "inj tick_ids"
  by (auto simp: tick_ids_def inj_def)

lemma signal_state_ok: "wizards_ok (signal_state [])"
  by (simp add: wizards_ok_def ids_ahead_def signal_state_def empty_db_def tick_ids_inj)

theorem only_linked_numbers_send_witness:
  "wizards_ok (snd (prov_poll (signal_env 2 [sample_number]) (lit ''a'') (lit ''x'')
     (snd (startQr (signal_env 1 []) (lit ''a'') signal_dto None (signal_state [])))))"
proof -
  have "prov_run (signal_state []) (snd (prov_poll (signal_env 2 [sample_number]) (lit ''a'') (lit ''x'')
     (snd (startQr (signal_env 1 []) (lit ''a'') signal_dto None (signal_state [])))))"
    by (intro prov_run.polled prov_run.started prov_run.nothing)
  from only_linked_numbers_send [OF this signal_state_ok] show ?thesis by blast
qed

section \<open>Unlinking\<close>

lemma audit_log_endpoints [simp]: "endpoints (audit_log a b c e f g d) = endpoints d"
  by (simp add: audit_log_def)

lemma filter_other_rows:
  "(\<And>e. ep_id (f e) = ep_id e) \<Longrightarrow>
     filter (\<lambda>e. ep_id e \<noteq> i) (update_where (\<lambda>e. ep_id e = i) f es) = filter (\<lambda>e. ep_id e \<noteq> i) es"
  by (induction es) auto

lemma unlinked_off: "\<forall>e\<in>set (update_where (\<lambda>e. ep_id e = i) unlinked_endpoint es). ep_id e = i \<longrightarrow> \<not> ep_enabled e"
  by (induction es) (simp_all add: unlinked_endpoint_def)

lemma unlink_cases:
  "(\<exists>err. unlink env i actor d = (Some err, d)) \<or>
   (\<exists>e d'. unlink env i actor d = (None, d') \<and> eps.lookup d i = Some e \<and> ep_state e = linked
      \<and> endpoints d' = endpoints (write_endpoint i unlinked_endpoint d))"
  unfolding unlink_def by (simp split: option.split sum.split prod.split)

text \<open>
  An unlinked number sends nothing: a successful unlinking clears the number's identity
  and leaves every other endpoint as it is, and no request, with or without naming the
  number, is given to it afterwards. A refused unlinking, also by the transport, changes
  nothing.
\<close>

theorem unlinked_number_is_silent:
  "case unlink env i actor d of
     (Some err, d') \<Rightarrow> d' = d
   | (None, d') \<Rightarrow> resolve_sender d' dto \<noteq> Inr (acc, i)
       \<and> filter (\<lambda>e. ep_id e \<noteq> i) (endpoints d') = filter (\<lambda>e. ep_id e \<noteq> i) (endpoints d)
       \<and> (\<exists>e. eps.lookup d i = Some e \<and> ep_state e = linked \<and> eps.lookup d' i = Some (unlinked_endpoint e))"
proof -
  let ?d = "write_endpoint i unlinked_endpoint d"
  have silent: "\<not> (\<exists>e\<in>set (endpoints ?d). ep_id e = i \<and> ep_accountId e = acc \<and> ep_enabled e)"
    using unlinked_off by (simp add: write_endpoint_def)
  have off: "resolve_sender d' dto \<noteq> Inr (acc, i)" if "endpoints d' = endpoints ?d" for d'
    using resolve_sender_enabled [of d' dto acc i] silent unfolding that by blast
  have rest: "filter (\<lambda>e. ep_id e \<noteq> i) (endpoints ?d) = filter (\<lambda>e. ep_id e \<noteq> i) (endpoints d)"
    unfolding write_endpoint_def by (simp add: filter_other_rows unlinked_endpoint_def)
  have row: "eps.lookup ?d i = map_option unlinked_endpoint (eps.lookup d i)"
    unfolding write_endpoint_def by (simp add: eps.lookup_update unlinked_endpoint_def)
  have lookup: "eps.lookup d' i = eps.lookup ?d i" if "endpoints d' = endpoints ?d" for d'
    using that by (simp add: eps.lookup_def)
  consider err where "unlink env i actor d = (Some err, d)"
    | e d' where "unlink env i actor d = (None, d')" "eps.lookup d i = Some e" "ep_state e = linked"
        "endpoints d' = endpoints ?d" using unlink_cases [of env i actor d] by blast
  then show ?thesis
  proof cases
    case (2 e d')
    then show ?thesis using off [OF 2(4)] rest row lookup [OF 2(4)] by simp
  qed simp
qed

section \<open>What a scan leads to\<close>

lemma or_else_None [simp]: "or_else x None = x"
  by (simp add: or_else_def split: option.split)

definition waiting_row :: "provision_env \<Rightarrow> ustring \<Rightarrow> ustring \<Rightarrow> provision_qr_dto \<Rightarrow> ustring list \<Rightarrow> qr_result \<Rightarrow> endpoint_row" where
  "waiting_row env i a dto known q = (wizard_endpoint env i a dto)\<lparr>ep_state := qr_displayed, ep_config := qr_session env dto known q\<rparr>"

lemma startQr_Inr:
  assumes "startQr env a dto actor d = (Inr r, d1)" and "ids_ahead d"
  shows "\<exists>account adapter q. getAdapter env a d = Inr (account, adapter)
    \<and> endpoints d1 = endpoints d @ [waiting_row env (qp_endpointId r) a dto (known_before adapter (account_config_of account)) q]
    \<and> accounts d1 = accounts d \<and> qp_endpointId r \<notin> ep_id ` set (endpoints d) \<and> qr_ttlSeconds q = qp_ttlSeconds r"
proof -
  let ?i = "uuid_source d (uuid_next d)"
  from assms(1) obtain account adapter where g: "getAdapter env a d = Inr (account, adapter)"
    by (auto simp: startQr_def split: sum.splits)
  with assms(1) obtain p where p: "pa_mode adapter = Some by_qr" "pa_qr adapter = Some p" "device_name dto \<noteq> []"
    by (auto simp: startQr_def split: if_splits option.splits)
  with assms(1) g obtain q where q: "p (account_config_of account) (device_name dto) = Inr q"
    by (auto simp: startQr_def fresh_id_def Let_def split: sum.splits)
  have row: "ep_id (wizard_endpoint env ?i a dto) = ?i" by (simp add: wizard_endpoint_def Let_def)
  from assms(1) g p q have r: "r = qr_response_of a ?i q" and d1: "endpoints d1 = endpoints (write_endpoint ?i
      (\<lambda>e. e\<lparr>ep_state := qr_displayed, ep_config := qr_session env dto (known_before adapter (account_config_of account)) q\<rparr>)
      (d\<lparr>uuid_next := Suc (uuid_next d), endpoints := endpoints d @ [wizard_endpoint env ?i a dto]\<rparr>))"
    and acc: "accounts d1 = accounts d"
    by (auto simp: startQr_def fresh_id_def Let_def audit_log_def write_endpoint_def)
  from r have "qp_endpointId r = ?i" "qr_ttlSeconds q = qp_ttlSeconds r" by (simp_all add: qr_response_of_def)
  with g acc d1 startQr_row [OF assms(2) refl row] assms(2) show ?thesis
    by (auto simp: waiting_row_def ids_ahead_def)
qed

lemma getAdapter_Inr:
  "getAdapter env a d = Inr (account, adapter) \<longleftrightarrow>
     accs.lookup d a = Some account \<and> pr_adapters env (ac_adapter account) = Some adapter"
  by (auto simp: getAdapter_def account_get_def split: option.splits)

lemma poll_claimed:
  assumes "eps.lookup d i = Some e" and "ep_accountId e = a" and "accs.lookup d a = Some account"
    and "pr_adapters env (ac_adapter account) = Some adapter" and "pa_list adapter = Some list"
    and "list (account_config_of account) = Inr claimed"
  shows "(poll_match env a e claimed d = Some x \<longrightarrow> \<not> uuid_taken i (or_else (pv_uuid x) (ep_uuid e)) d \<longrightarrow>
      (\<exists>d'. prov_poll env a i d = (Inr linked, d') \<and> accounts d' = accounts d \<and> endpoints d' = endpoints (write_endpoint i
          (\<lambda>x'. (link_endpoint (pr_now env) x x')\<lparr>ep_config := JObj []\<rparr>) d)))
    \<and> (poll_match env a e claimed d = None \<longrightarrow>
        prov_poll env a i d = (if qr_expired env e then (Inr reg_failed, write_endpoint i (\<lambda>x. x\<lparr>ep_state := reg_failed\<rparr>) d)
          else (Inr (ep_state e), d)))"
proof -
  have "getAdapter env a d = Inr (account, adapter)" using assms(3,4) by (simp add: getAdapter_Inr)
  with assms(1,2,5,6) show ?thesis by (simp add: prov_poll_def audit_log_def write_endpoint_def)
qed

lemma linked_row:
  assumes "eps.lookup d i = Some e" and "endpoints d' = endpoints (write_endpoint i f d)" and "\<And>e. ep_id (f e) = ep_id e"
  shows "eps.lookup d' i = Some (f e)"
proof -
  have "eps.lookup d' i = eps.lookup (write_endpoint i f d) i" using assms(2) by (simp add: eps.lookup_def)
  then show ?thesis using assms(1) unfolding write_endpoint_def by (simp add: eps.lookup_update assms(3))
qed

lemma fresh_of_session:
  "fresh_accounts env e claimed = filter (\<lambda>x. pv_externalId x \<noteq> [] \<and> pv_externalId x \<notin> set known) claimed"
  if "ep_config e = qr_session env0 dto known q"
  using that by (simp add: fresh_accounts_def qr_session_def comp_def cong: filter_cong)

lemma expiry_of_session:
  assumes "ep_config e = qr_session env0 dto known q" and "\<And>t. pr_iso env0 t \<noteq> []"
    and "\<And>t. pr_parse env (pr_iso env0 t) = Some t"
  shows "qr_expired env e \<longleftrightarrow> pr_now env0 + qr_ttlSeconds q * 1000 < pr_now env"
  using assms by (simp add: qr_expired_def qr_session_def)

lemma no_orphans:
  assumes "\<And>x. x \<in> set claimed \<Longrightarrow> pv_externalId x \<noteq> [] \<Longrightarrow>
      \<exists>h\<in>set (endpoints d). ep_accountId h = a \<and> ep_id h \<noteq> ep_id e \<and> ep_externalId h = Some (pv_externalId x)"
  shows "orphan_accounts a e claimed d = []"
  using assms by (fastforce simp: orphan_accounts_def filter_empty_conv image_iff)

lemma scan_outcome:
  assumes start: "startQr env a dto actor d = (Inr r, d1)" and ids: "ids_ahead d" and signal: "pq_kind dto = kind_signal"
    and account: "accs.lookup d a = Some account"
    and before: "pr_adapters env (ac_adapter account) = Some adapter" "pa_list adapter = Some list"
      "list (account_config_of account) = Inr known"
    and later: "pr_adapters env' (ac_adapter account) = Some adapter'" "pa_list adapter' = Some list'"
      "list' (account_config_of account) = Inr claimed"
    and unnamed: "\<forall>x\<in>set claimed. pv_deviceName x = None"
    and held: "\<forall>x\<in>set claimed. pv_externalId x \<in> pv_externalId ` set known \<longrightarrow>
      (\<exists>h\<in>set (endpoints d). ep_accountId h = a \<and> ep_externalId h = Some (pv_externalId x))"
    and dates: "\<And>t. pr_iso env t \<noteq> []" "\<And>t. pr_parse env' (pr_iso env t) = Some t"
    and fresh: "fresh = filter (\<lambda>x. pv_externalId x \<noteq> [] \<and> pv_externalId x \<notin> pv_externalId ` set known) claimed"
  shows "(fresh = [x] \<longrightarrow> \<not> uuid_taken (qp_endpointId r) (pv_uuid x) d1 \<longrightarrow>
      (\<exists>d2 e. prov_poll env' a (qp_endpointId r) d1 = (Inr linked, d2) \<and> eps.lookup d2 (qp_endpointId r) = Some e
        \<and> ep_state e = linked \<and> ep_enabled e \<and> ep_externalId e = Some (pv_externalId x) \<and> ep_phoneE164 e = pv_phoneE164 x))
    \<and> (fresh = [] \<longrightarrow> prov_poll env' a (qp_endpointId r) d1 =
        (if pr_now env + qp_ttlSeconds r * 1000 < pr_now env'
         then (Inr reg_failed, write_endpoint (qp_endpointId r) (\<lambda>x. x\<lparr>ep_state := reg_failed\<rparr>) d1) else (Inr qr_displayed, d1)))"
proof -
  let ?i = "qp_endpointId r" and ?known = "filter (\<lambda>x. x \<noteq> []) (map pv_externalId known)"
  from startQr_Inr [OF start ids] obtain q where
    q: "endpoints d1 = endpoints d @ [waiting_row env ?i a dto ?known q]" "accounts d1 = accounts d"
      "?i \<notin> ep_id ` set (endpoints d)" "qr_ttlSeconds q = qp_ttlSeconds r"
    using account before by (auto simp: getAdapter_Inr known_before_def)
  let ?e = "waiting_row env ?i a dto ?known q"
  have e: "ep_id ?e = ?i" "ep_accountId ?e = a" "ep_uuid ?e = None" "ep_phoneE164 ?e = None" "ep_state ?e = qr_displayed"
    "ep_config ?e = qr_session env dto ?known q"
    using signal by (simp_all add: waiting_row_def wizard_endpoint_def Let_def)
  have l: "eps.lookup d1 ?i = Some ?e"
    using q(1,3) e(1) by (auto simp: eps.lookup_def find_append find_None_iff image_iff split: option.split dest!: find_SomeD)
  have acc: "accs.lookup d1 a = Some account" using account q(2) by (simp add: accs.lookup_def)
  note polled = poll_claimed [OF l e(2) acc later]
  have ident: "find (identifies ?e) claimed = None"
    using unnamed e(3,4) by (auto simp: find_None_iff identifies_def)
  have fr: "fresh_accounts env' ?e claimed = fresh"
    unfolding fresh_of_session [OF e(6)] fresh by (rule filter_cong) auto
  have "prov_poll env' a ?i d1 = (if pr_now env + qp_ttlSeconds r * 1000 < pr_now env'
      then (Inr reg_failed, write_endpoint ?i (\<lambda>x. x\<lparr>ep_state := reg_failed\<rparr>) d1) else (Inr qr_displayed, d1))"
    if "fresh = []"
  proof -
    have "\<exists>h\<in>set (endpoints d1). ep_accountId h = a \<and> ep_id h \<noteq> ep_id ?e \<and> ep_externalId h = Some (pv_externalId x)"
      if "x \<in> set claimed" "pv_externalId x \<noteq> []" for x
    proof -
      from \<open>fresh = []\<close> that fresh have "pv_externalId x \<in> pv_externalId ` set known" by (auto simp: filter_empty_conv)
      with held that(1) obtain h where "h \<in> set (endpoints d)" "ep_accountId h = a" "ep_externalId h = Some (pv_externalId x)"
        by blast
      moreover from this(1) q(3) e(1) have "ep_id h \<noteq> ep_id ?e" by (metis imageI)
      ultimately show ?thesis using q(1) by auto
    qed
    then have "poll_match env' a ?e claimed d1 = None"
      using ident fr \<open>fresh = []\<close> no_orphans [of claimed d1 a ?e] by (simp add: poll_match_def the_only_def)
    with polled e(5) q(4) expiry_of_session [OF e(6) dates] show ?thesis by simp
  qed
  moreover have "\<exists>d2 e. prov_poll env' a ?i d1 = (Inr linked, d2) \<and> eps.lookup d2 ?i = Some e
      \<and> ep_state e = linked \<and> ep_enabled e \<and> ep_externalId e = Some (pv_externalId x) \<and> ep_phoneE164 e = pv_phoneE164 x"
    if "fresh = [x]" "\<not> uuid_taken ?i (pv_uuid x) d1"
  proof -
    have "poll_match env' a ?e claimed d1 = Some x"
      using ident fr that(1) by (simp add: poll_match_def the_only_def)
    with polled [of x] that(2) e(3) obtain d2 where "prov_poll env' a ?i d1 = (Inr linked, d2)"
      "endpoints d2 = endpoints (write_endpoint ?i (\<lambda>x'. (link_endpoint (pr_now env') x x')\<lparr>ep_config := JObj []\<rparr>) d1)"
      by auto
    with linked_row [OF l this(2)] e(4) show ?thesis by (simp add: link_endpoint_def)
  qed
  ultimately show ?thesis by blast
qed

text \<open>
  What a scan leads to: after a Signal wizard has shown its QR code, suppose the service
  lists accounts without device names and those it knew before are held by numbers of the
  channel. If exactly one account is new, the next poll links the wizard's number to that
  account and switches it on. If none is new, the poll reports failure once the code has
  expired and the code still displayed before.
\<close>

theorem wizard_outcome:
  assumes start: "startQr env a dto actor d = (Inr r, d1)" and ids: "ids_ahead d" and signal: "pq_kind dto = kind_signal"
    and account: "accs.lookup d a = Some account"
    and before: "pr_adapters env (ac_adapter account) = Some adapter" "pa_list adapter = Some list"
      "list (account_config_of account) = Inr known"
    and later: "pr_adapters env' (ac_adapter account) = Some adapter'" "pa_list adapter' = Some list'"
      "list' (account_config_of account) = Inr claimed"
    and unnamed: "\<forall>x\<in>set claimed. pv_deviceName x = None"
    and held: "\<forall>x\<in>set claimed. pv_externalId x \<in> pv_externalId ` set known \<longrightarrow>
      (\<exists>h\<in>set (endpoints d). ep_accountId h = a \<and> ep_externalId h = Some (pv_externalId x))"
    and dates: "\<And>t. pr_iso env t \<noteq> []" "\<And>t. pr_parse env' (pr_iso env t) = Some t"
    and fresh: "fresh = filter (\<lambda>x. pv_externalId x \<noteq> [] \<and> pv_externalId x \<notin> pv_externalId ` set known) claimed"
  shows "(fresh = [x] \<longrightarrow> \<not> uuid_taken (qp_endpointId r) (pv_uuid x) d1 \<longrightarrow>
      (\<exists>d2 e. prov_poll env' a (qp_endpointId r) d1 = (Inr linked, d2) \<and> eps.lookup d2 (qp_endpointId r) = Some e
        \<and> ep_state e = linked \<and> ep_enabled e \<and> ep_externalId e = Some (pv_externalId x) \<and> ep_phoneE164 e = pv_phoneE164 x))
    \<and> (fresh = [] \<longrightarrow> fst (prov_poll env' a (qp_endpointId r) d1) =
        Inr (if pr_now env + qp_ttlSeconds r * 1000 < pr_now env' then reg_failed else qr_displayed))"
  using scan_outcome [OF start ids signal account before later unnamed held dates fresh, of x] by simp

theorem wizard_outcome_witness:
  "\<exists>r d1 d2. startQr (signal_env 1 []) (lit ''a'') signal_dto None (signal_state []) = (Inr r, d1)
     \<and> prov_poll (signal_env 2 [sample_number]) (lit ''a'') (qp_endpointId r) d1 = (Inr linked, d2)"
proof -
  let ?s = "signal_state []" and ?env = "signal_env 1 []" and ?env' = "signal_env 2 [sample_number]"
  have acc: "accs.lookup ?s (lit ''a'') = Some signal_account"
    by (simp add: accs.lookup_def signal_state_def signal_account_def demo_account_def)
  have dev: "device_name signal_dto \<noteq> []" by (simp add: device_name_def signal_dto_def js_trim_def js_space_def string_simps)
  have "\<exists>r d1. startQr ?env (lit ''a'') signal_dto None ?s = (Inr r, d1)"
    using acc dev by (simp add: startQr_def getAdapter_def account_get_def fresh_id_def Let_def signal_env_def)
  then obtain r d1 where start: "startQr ?env (lit ''a'') signal_dto None ?s = (Inr r, d1)" by blast
  have ids: "ids_ahead ?s" using signal_state_ok by (simp add: wizards_ok_def)
  have free: "\<not> uuid_taken (qp_endpointId r) (pv_uuid sample_number) d1" by (simp add: uuid_taken_def sample_number_def)
  obtain ad ad' where
    ad: "pr_adapters ?env (ac_adapter signal_account) = Some ad" "pa_list ad = Some (\<lambda>c. Inr [])"
    and ad': "pr_adapters ?env' (ac_adapter signal_account) = Some ad'" "pa_list ad' = Some (\<lambda>c. Inr [sample_number])"
    by (simp add: signal_env_def)
  have dates: "pr_iso ?env t \<noteq> []" "pr_parse ?env' (pr_iso ?env t) = Some t" for t by (auto simp: signal_env_def)
  from wizard_outcome [OF start ids _ acc ad _ ad' _ _ _ dates refl, where known = "[]" and claimed = "[sample_number]" and x = sample_number] free
  have "\<exists>d2. prov_poll ?env' (lit ''a'') (qp_endpointId r) d1 = (Inr linked, d2)"
    by (auto simp: signal_dto_def sample_number_def)
  with start show ?thesis by blast
qed

section \<open>Two wizards at once\<close>

text \<open>
  The account list does not tell two wizards apart: when two wizards of a channel show
  their codes, both started before a number without a uuid appeared on the service, and one
  of the codes is scanned, polling both links the one new number to both endpoints.
\<close>

theorem two_wizards_one_number:
  assumes "eps.lookup d i = Some e" and "eps.lookup d j = Some f" and "i \<noteq> j"
    and "ep_accountId e = a" and "ep_accountId f = a" and "accs.lookup d a = Some account"
    and "pr_adapters env (ac_adapter account) = Some adapter" and "pa_list adapter = Some list"
    and "list (account_config_of account) = Inr [x]"
    and "\<not> identifies e x" and "\<not> identifies f x" and "pv_uuid x = None" and "ep_uuid e = None" and "ep_uuid f = None"
    and "fresh_accounts env e [x] = [x]" and "fresh_accounts env f [x] = [x]"
  shows "let d' = snd (prov_poll env a j (snd (prov_poll env a i d))) in
     \<exists>e' f'. eps.lookup d' i = Some e' \<and> eps.lookup d' j = Some f' \<and> ep_state e' = linked \<and> ep_state f' = linked
       \<and> ep_externalId e' = Some (pv_externalId x) \<and> ep_externalId f' = Some (pv_externalId x)"
proof -
  let ?link = "\<lambda>x'. (link_endpoint (pr_now env) x x')\<lparr>ep_config := JObj []\<rparr>"
  have key: "ep_id (?link y) = ep_id y" for y by (simp add: link_endpoint_def)
  have other: "eps.lookup d2 k = eps.lookup d1 k" if "endpoints d2 = endpoints (write_endpoint l ?link d1)" "k \<noteq> l" for d1 d2 k l
    using that eps.lookup_update [of ?link l d1 k, OF key] by (simp add: eps.lookup_def write_endpoint_def)
  have m: "poll_match env a y [x] d' = Some x" if "\<not> identifies y x" "fresh_accounts env y [x] = [x]" for y d'
    using that by (simp add: poll_match_def the_only_def)
  from poll_claimed [OF assms(1,4,6-9), of x] m [OF assms(10,15)] assms(12,13) obtain d1 where
    d1: "prov_poll env a i d = (Inr linked, d1)" "accounts d1 = accounts d" "endpoints d1 = endpoints (write_endpoint i ?link d)"
    by (auto simp: uuid_taken_def)
  from d1(2) assms(6) have acc: "accs.lookup d1 a = Some account" by (simp add: accs.lookup_def)
  have f: "eps.lookup d1 j = Some f" using other [OF d1(3), of j] assms(2,3) by auto
  from poll_claimed [OF f assms(5) acc assms(7-9), of x] m [OF assms(11,16)] assms(12,14) obtain d2 where
    d2: "prov_poll env a j d1 = (Inr linked, d2)" "endpoints d2 = endpoints (write_endpoint j ?link d1)"
    by (auto simp: uuid_taken_def)
  have "eps.lookup d2 i = Some (?link e)" using other [OF d2(2), of i] linked_row [OF assms(1) d1(3) key] assms(3) by simp
  with linked_row [OF f d2(2) key] d1(1) d2(1) show ?thesis by (simp add: link_endpoint_def)
qed

definition wizard_row :: "string \<Rightarrow> endpoint_row" where
  "wizard_row i = (wizard_endpoint (signal_env 1 []) (lit i) (lit ''a'') signal_dto)\<lparr>ep_state := qr_displayed,
     ep_config := JObj [(lit ''knownAccountsBefore'', JArr [])]\<rparr>"

theorem two_wizards_one_number_witness:
  "let d' = snd (prov_poll (signal_env 2 [sample_number]) (lit ''a'') (lit ''f'')
       (snd (prov_poll (signal_env 2 [sample_number]) (lit ''a'') (lit ''e'') (signal_state [wizard_row ''e'', wizard_row ''f'']))))
   in \<exists>e' f'. eps.lookup d' (lit ''e'') = Some e' \<and> eps.lookup d' (lit ''f'') = Some f'
     \<and> ep_externalId e' = Some (lit ''+1'') \<and> ep_externalId f' = Some (lit ''+1'')"
proof -
  let ?d = "signal_state [wizard_row ''e'', wizard_row ''f'']" and ?env = "signal_env 2 [sample_number]"
  have rows: "eps.lookup ?d (lit ''e'') = Some (wizard_row ''e'')" "eps.lookup ?d (lit ''f'') = Some (wizard_row ''f'')"
    "lit ''e'' \<noteq> lit ''f''" "ep_accountId (wizard_row ''e'') = lit ''a''" "ep_accountId (wizard_row ''f'') = lit ''a''"
    by (simp_all add: eps.lookup_def signal_state_def wizard_row_def wizard_endpoint_def Let_def)
  have acc: "accs.lookup ?d (lit ''a'') = Some signal_account"
    by (simp add: accs.lookup_def signal_state_def signal_account_def demo_account_def)
  obtain ad where ad: "pr_adapters ?env (ac_adapter signal_account) = Some ad" "pa_list ad = Some (\<lambda>c. Inr [sample_number])"
    by (simp add: signal_env_def)
  have x: "\<not> identifies (wizard_row i) sample_number" "pv_uuid sample_number = None" "ep_uuid (wizard_row i) = None"
    "fresh_accounts ?env (wizard_row i) [sample_number] = [sample_number]" for i
    by (simp_all add: identifies_def fresh_accounts_def wizard_row_def wizard_endpoint_def Let_def sample_number_def signal_dto_def)
  from two_wizards_one_number [OF rows acc ad refl x(1) x(1) x(2) x(3) x(3) x(4) x(4)] show ?thesis
    by (auto simp: Let_def sample_number_def)
qed

end
