(* ===== verification/Access.thy ===== *)
theory Access
  imports Media
begin

text \<open>
  Who may do what: administrator sign-in (apps/api/src/auth/auth.service.ts), the guards of
  the HTTP routes (apps/api/src/auth, apps/api/src/media/media-access.guard.ts), the global
  API tokens (apps/api/src/api-tokens), signed media links and the authentication of vendor
  webhooks (apps/api/src/webhooks). Hash functions, the message authentication code and the
  environment variables are arguments. The token table is shown to implement a set of live
  tokens; a signed link opens one file until it expires.
\<close>

record session_user =
  su_id :: ustring
  su_username :: ustring

text \<open>The parts of a request the guards read; a query parameter that is not a string is \<open>None\<close>.\<close>

record request =
  rq_user :: "session_user option"
  rq_authorization :: "ustring option"
  rq_id :: ustring
  rq_exp :: "ustring option"
  rq_sig :: "ustring option"

record access_env =
  ax_sha256 :: "ustring \<Rightarrow> ustring"
  ax_hmac :: "ustring \<Rightarrow> ustring \<Rightarrow> ustring"
  ax_hmacBytes :: "ustring \<Rightarrow> nat list \<Rightarrow> ustring"
  ax_argonHash :: "ustring \<Rightarrow> ustring"
  ax_argonVerify :: "ustring \<Rightarrow> ustring \<Rightarrow> bool"
  ax_now :: int
  ax_iso :: "int \<Rightarrow> ustring"
  ax_getenv :: "string \<Rightarrow> ustring option"

datatype auth_error = Unauthorized | LinkExpired

section \<open>Administrators\<close>

definition bootstrapAdmin :: "access_env \<Rightarrow> db \<Rightarrow> db" where
  "bootstrapAdmin env d =
     (if admin_users d \<noteq> [] \<or> \<not> truthy_str (ax_getenv env ''ADMIN_BOOTSTRAP_PASSWORD'') then d
      else let (i, d1) = fresh_id d
           in d1\<lparr>admin_users := admin_users d1 @ [\<lparr>us_id = i, us_username = lit ''admin'',
                us_passwordHash = ax_argonHash env (the (ax_getenv env ''ADMIN_BOOTSTRAP_PASSWORD'')),
                us_lastLoginAt = None\<rparr>]\<rparr>)"

definition validatePassword :: "access_env \<Rightarrow> ustring \<Rightarrow> ustring \<Rightarrow> db \<Rightarrow> session_user option \<times> db" where
  "validatePassword env username password d =
     (case find (\<lambda>u. us_username u = username) (admin_users d) of
        None \<Rightarrow> (None, d)
      | Some user \<Rightarrow>
          if \<not> ax_argonVerify env (us_passwordHash user) password then (None, d)
          else (Some \<lparr>su_id = us_id user, su_username = us_username user\<rparr>,
                d\<lparr>admin_users := update_where (\<lambda>u. us_id u = us_id user)
                    (\<lambda>u. u\<lparr>us_lastLoginAt := Some (ax_now env)\<rparr>) (admin_users d)\<rparr>))"

text \<open>\<open>login\<close>: the session after it, and the state.\<close>

definition login :: "access_env \<Rightarrow> ustring \<Rightarrow> ustring \<Rightarrow> session_user option \<Rightarrow> db \<Rightarrow> session_user option \<times> db" where
  "login env username password sess d =
     (case validatePassword env username password d of
        (None, d') \<Rightarrow> (sess, d')
      | (Some user, d') \<Rightarrow> (Some user, d'))"

section \<open>Guards\<close>

definition bearer_token :: "ustring option \<Rightarrow> ustring option" where
  "bearer_token auth =
     (case split_on 32 (case auth of Some s \<Rightarrow> s | None \<Rightarrow> []) of
        scheme # token # rest \<Rightarrow>
          if map lower_cp scheme = lit ''bearer'' \<and> token \<noteq> [] then Some token else None
      | _ \<Rightarrow> None)"

definition live_token :: "access_env \<Rightarrow> ustring \<Rightarrow> db \<Rightarrow> token_row option" where
  "live_token env token d =
     find (\<lambda>t. tk_tokenHash t = ax_sha256 env token \<and> tk_revokedAt t = None) (api_tokens d)"

definition apiTokenGuard :: "access_env \<Rightarrow> request \<Rightarrow> db \<Rightarrow> (auth_error + token_row) \<times> db" where
  "apiTokenGuard env req d =
     (case bearer_token (rq_authorization req) of
        None \<Rightarrow> (Inl Unauthorized, d)
      | Some token \<Rightarrow>
          (case live_token env token d of
             None \<Rightarrow> (Inl Unauthorized, d)
           | Some row \<Rightarrow>
               (Inr row, api_tokens_update (update_where (\<lambda>t. tk_id t = tk_id row)
                  (\<lambda>t. t\<lparr>tk_lastUsedAt := Some (ax_now env)\<rparr>)) d)))"

definition sessionGuard :: "request \<Rightarrow> auth_error + session_user" where
  "sessionGuard req = (case rq_user req of None \<Rightarrow> Inl Unauthorized | Some user \<Rightarrow> Inr user)"

definition sessionOrTokenGuard :: "access_env \<Rightarrow> request \<Rightarrow> db \<Rightarrow> bool \<times> db" where
  "sessionOrTokenGuard env req d =
     (case rq_user req of
        Some user \<Rightarrow> (True, d)
      | None \<Rightarrow>
          (case bearer_token (rq_authorization req) of
             None \<Rightarrow> (False, d)
           | Some token \<Rightarrow>
               (case live_token env token d of
                  None \<Rightarrow> (False, d)
                | Some row \<Rightarrow>
                    (True, api_tokens_update (update_where (\<lambda>t. tk_id t = tk_id row)
                       (\<lambda>t. t\<lparr>tk_lastUsedAt := Some (ax_now env)\<rparr>)) d))))"

section \<open>API tokens\<close>

text \<open>\<open>random\<close> is the hexadecimal text of the 32 random bytes.\<close>

definition token_text :: "ustring \<Rightarrow> ustring" where
  "token_text random = lit ''umg_'' @ random"

definition token_generate :: "access_env \<Rightarrow> ustring \<Rightarrow> ustring option \<Rightarrow> db \<Rightarrow> ustring \<times> db" where
  "token_generate env random name d =
     (let (i, d1) = fresh_id d
      in (token_text random, d1\<lparr>api_tokens := api_tokens d1 @
           [\<lparr>tk_id = i, tk_name = (case name of Some n \<Rightarrow> n | None \<Rightarrow> lit ''default''),
             tk_tokenHash = ax_sha256 env (token_text random), tk_createdAt = ax_now env, tk_lastUsedAt = None,
             tk_revokedAt = None\<rparr>]\<rparr>))"

text \<open>The first component is false when there is no such token and the update throws.\<close>

definition token_revoke :: "access_env \<Rightarrow> ustring \<Rightarrow> db \<Rightarrow> bool \<times> db" where
  "token_revoke env i d =
     (if toks.lookup d i = None then (False, d)
      else (True, api_tokens_update (update_where (\<lambda>t. tk_id t = i) (\<lambda>t. t\<lparr>tk_revokedAt := Some (ax_now env)\<rparr>)) d))"

text \<open>The two routes, which write the audit log; the actor is what the request body says.\<close>

definition generate_route :: "access_env \<Rightarrow> ustring \<Rightarrow> ustring option \<Rightarrow> ustring option \<Rightarrow> db \<Rightarrow> ustring \<times> db" where
  "generate_route env random name actorId d =
     (case token_generate env random name d of
        (token, d1) \<Rightarrow> (token, audit_log actorId ''api_token.generated'' ''global_api_token'' (take 8 token) JNull
           (JObj [(lit ''name'', JStr (case name of Some n \<Rightarrow> n | None \<Rightarrow> lit ''default''))]) d1))"

definition revoke_route :: "access_env \<Rightarrow> ustring \<Rightarrow> ustring option \<Rightarrow> db \<Rightarrow> bool \<times> db" where
  "revoke_route env i actorId d =
     (case token_revoke env i d of
        (False, d1) \<Rightarrow> (False, d1)
      | (True, d1) \<Rightarrow> (True, audit_log actorId ''api_token.revoked'' ''global_api_token'' i (JObj []) (JObj []) d1))"

section \<open>Signed media links\<close>

text \<open>\<open>parseInt(s, 10)\<close> and the decimal text of an integer (exact below \<open>2\<^sup>5\<^sup>3\<close>).\<close>

definition parse_int :: "ustring \<Rightarrow> int option" where
  "parse_int s =
     (let t = dropWhile js_space s;
          neg = starts_with (lit ''-'') t;
          u = (if starts_with (lit ''-'') t \<or> starts_with (lit ''+'') t then drop 1 t else t);
          ds = takeWhile is_digit u
      in if ds = [] then None else Some (if neg then - int (dec_val ds) else int (dec_val ds)))"

definition media_secret :: "access_env \<Rightarrow> ustring" where
  "media_secret env =
     (if truthy_str (ax_getenv env ''MEDIA_URL_SECRET'') then the (ax_getenv env ''MEDIA_URL_SECRET'')
      else if truthy_str (ax_getenv env ''SESSION_SECRET'') then the (ax_getenv env ''SESSION_SECRET'')
      else lit ''change-me-in-production'')"

definition signMediaUrl :: "access_env \<Rightarrow> ustring \<Rightarrow> int \<Rightarrow> ustring" where
  "signMediaUrl env i until = ax_hmac env (media_secret env) (i @ lit ''.'' @ int_text until)"

definition verifySignature :: "access_env \<Rightarrow> ustring \<Rightarrow> int \<Rightarrow> ustring \<Rightarrow> bool" where
  "verifySignature env i until sig \<longleftrightarrow> ax_hmac env (media_secret env) (i @ lit ''.'' @ int_text until) = sig"

record signed_url =
  sg_url :: ustring
  sg_expiresAt :: ustring

definition ttl_hours :: "access_env \<Rightarrow> int" where
  "ttl_hours env =
     (case parse_int (case ax_getenv env ''MEDIA_URL_TTL_HOURS'' of Some s \<Rightarrow> s | None \<Rightarrow> lit ''24'') of
        None \<Rightarrow> 24
      | Some n \<Rightarrow> if n = 0 then 24 else n)"

definition createSignedUrl :: "access_env \<Rightarrow> ustring \<Rightarrow> db \<Rightarrow> media_error + signed_url" where
  "createSignedUrl env i d =
     (case atts.lookup d i of
        None \<Rightarrow> Inl FileNotFound
      | Some a \<Rightarrow>
          if at_deletedAt a \<noteq> None then Inl FileGone
          else let until = ax_now env div 1000 + ttl_hours env * 3600
               in Inr \<lparr>sg_url = lit ''/api/v1/media/'' @ i @ lit ''?exp='' @ int_text until @ lit ''&sig='' @ signMediaUrl env i until,
                       sg_expiresAt = ax_iso env (until * 1000)\<rparr>)"

definition mediaAccessGuard :: "access_env \<Rightarrow> request \<Rightarrow> db \<Rightarrow> auth_error option" where
  "mediaAccessGuard env req d =
     (if rq_user req \<noteq> None then None
      else if (case bearer_token (rq_authorization req) of None \<Rightarrow> False | Some t \<Rightarrow> live_token env t d \<noteq> None) then None
      else (case (rq_exp req, rq_sig req) of
              (Some expRaw, Some sig) \<Rightarrow>
                (case parse_int expRaw of
                   Some until \<Rightarrow>
                     if rq_id req \<noteq> [] \<and> verifySignature env (rq_id req) until sig
                     then if until * 1000 < ax_now env then Some LinkExpired else None
                     else Some Unauthorized
                 | None \<Rightarrow> Some Unauthorized)
            | _ \<Rightarrow> Some Unauthorized))"

text \<open>The download route: the guard, then the file.\<close>

definition download :: "access_env \<Rightarrow> request \<Rightarrow> db \<Rightarrow> (auth_error + media_error) + (attachment_row \<times> nat list option)" where
  "download env req d =
     (case mediaAccessGuard env req d of
        Some err \<Rightarrow> Inl (Inl err)
      | None \<Rightarrow> (case getForDownload (rq_id req) d of Inl err \<Rightarrow> Inl (Inr err) | Inr r \<Rightarrow> Inr r))"

section \<open>Vendor webhooks\<close>

record inbound_job =
  ij_adapter :: ustring
  ij_payload :: json

definition webhook_verify :: "access_env \<Rightarrow> nat list option \<Rightarrow> ustring option \<Rightarrow> ustring \<Rightarrow> bool" where
  "webhook_verify env rawBody signature secret =
     (case rawBody of
        None \<Rightarrow> False
      | Some bytes \<Rightarrow>
          truthy_str signature \<and>
          (let s = the signature; given = (if starts_with (lit ''sha256='') s then drop 7 s else s)
           in ax_hmacBytes env secret bytes = given))"

text \<open>The jobs added to the queue inbound.ingest by a request.\<close>

definition gwmd_webhook :: "access_env \<Rightarrow> nat list option \<Rightarrow> ustring option \<Rightarrow> json \<Rightarrow> auth_error + inbound_job list" where
  "gwmd_webhook env rawBody signature body =
     (let secret = (case ax_getenv env ''GWMD_WEBHOOK_SECRET'' of Some s \<Rightarrow> s | None \<Rightarrow> []) in
      if secret = [] then Inl Unauthorized
      else if \<not> webhook_verify env rawBody signature secret then Inl Unauthorized
      else Inr [\<lparr>ij_adapter = lit ''gwmd'', ij_payload = body\<rparr>])"

definition secretMatches :: "access_env \<Rightarrow> ustring option \<Rightarrow> ustring \<Rightarrow> bool" where
  "secretMatches env given expected =
     (case given of None \<Rightarrow> False | Some r \<Rightarrow> ax_sha256 env r = ax_sha256 env expected)"

definition dbsms_webhook :: "access_env \<Rightarrow> ustring option \<Rightarrow> json \<Rightarrow> auth_error + inbound_job list" where
  "dbsms_webhook env secret body =
     (let expected = (case ax_getenv env ''DBSMS_WEBHOOK_SECRET'' of Some s \<Rightarrow> s | None \<Rightarrow> []) in
      if expected = [] then Inl Unauthorized
      else if \<not> secretMatches env secret expected then Inl Unauthorized
      else Inr [\<lparr>ij_adapter = lit ''goip-vendor'', ij_payload = body\<rparr>])"

section \<open>Numbers and their text\<close>

lemma dec_val_snoc: "dec_val (ds @ [c]) = dec_val ds * 10 + (c - 48)"
  by simp

lemma dec_val_dec_str: "dec_val (dec_str n) = n"
proof (induction n rule: dec_str.induct)
  case (1 n)
  show ?case
  proof (cases "n < 10")
    case True
    then show ?thesis by (simp add: dec_str.simps [of n])
  next
    case False
    then have "dec_val (dec_str n) = dec_val (dec_str (n div 10)) * 10 + n mod 10"
      by (subst dec_str.simps) (simp del: dec_val.simps add: dec_val_snoc)
    with 1 False show ?thesis by (simp del: dec_val.simps)
  qed
qed

lemma dec_str_text:
  "takeWhile is_digit (dec_str n) = dec_str n" "dropWhile js_space (dec_str n) = dec_str n"
  "\<not> starts_with (lit ''-'') (dec_str n)" "\<not> starts_with (lit ''+'') (dec_str n)" "46 \<notin> set (dec_str n)"
proof -
  obtain c cs where c: "dec_str n = c # cs" using dec_str_digits [of n] by (cases "dec_str n") auto
  have ds: "list_all is_digit (dec_str n)" using dec_str_digits [of n] by simp
  then show "takeWhile is_digit (dec_str n) = dec_str n" by (simp add: takeWhile_eq_all_conv list_all_iff)
  from ds have "\<forall>x\<in>set (dec_str n). x \<noteq> 46" by (fastforce simp: list_all_iff is_digit_def)
  then show "46 \<notin> set (dec_str n)" by blast
  have "is_digit c" using ds c by simp
  then show "dropWhile js_space (dec_str n) = dec_str n" "\<not> starts_with (lit ''-'') (dec_str n)"
    "\<not> starts_with (lit ''+'') (dec_str n)"
    using c digit_not_space [of c] by (auto simp: starts_with_def string_simps is_digit_def)
qed

lemma parse_int_text: "parse_int (int_text n) = Some n"
proof (cases "n < 0")
  case True
  have "dropWhile js_space (lit ''-'' @ x) = lit ''-'' @ x" for x by (simp add: string_simps js_space_def)
  moreover have "starts_with (lit ''-'') (lit ''-'' @ x)" "drop 1 (lit ''-'' @ x) = x" for x
    by (simp_all add: string_simps starts_with_def)
  ultimately show ?thesis using True dec_str_digits [of "nat (- n)"]
    by (simp add: parse_int_def int_text_def dec_str_text dec_val_dec_str Let_def del: dec_val.simps)
next
  case False
  then show ?thesis using dec_str_digits [of "nat n"]
    by (simp add: parse_int_def int_text_def dec_str_text dec_val_dec_str Let_def del: dec_val.simps)
qed

lemma int_text_no_dot: "46 \<notin> set (int_text n)"
  by (simp add: int_text_def dec_str_text string_simps)

lemma split_at_last:
  assumes "xs @ c # ys = xs' @ c # ys'" and "c \<notin> set ys" and "c \<notin> set ys'"
  shows "xs = xs' \<and> ys = ys'"
  using assms by (fastforce simp: append_eq_append_conv2 append_eq_Cons_conv Cons_eq_append_conv)

lemma link_text_inj: "i @ lit ''.'' @ int_text m = j @ lit ''.'' @ int_text n \<longleftrightarrow> i = j \<and> m = n"
proof
  assume eq: "i @ lit ''.'' @ int_text m = j @ lit ''.'' @ int_text n"
  then have "i @ 46 # int_text m = j @ 46 # int_text n" by (simp add: string_simps)
  from split_at_last [OF this int_text_no_dot int_text_no_dot] show "i = j \<and> m = n"
    by (metis option.inject parse_int_text)
qed auto

section \<open>Signed links\<close>

text \<open>
  C25. A signed link opens one file until it expires: a request without session and token
  that carries the signature of a link is let through exactly when it names the file the
  link was made for and the expiry time of the link, and that time has not passed; for no
  other file and no later time. (The message authentication code has no collisions.)
\<close>

theorem signed_link_opens_one_file:
  assumes "createSignedUrl env i d = Inr link" and "i \<noteq> []" and "inj (ax_hmac env (media_secret env))"
    and "ax_hmac env' = ax_hmac env" and "ax_getenv env' = ax_getenv env"
    and "rq_user req = None" and "rq_authorization req = None"
    and "rq_sig req = Some (signMediaUrl env i until)" and "until = ax_now env div 1000 + ttl_hours env * 3600"
  shows "sg_url link = lit ''/api/v1/media/'' @ i @ lit ''?exp='' @ int_text until @ lit ''&sig='' @ signMediaUrl env i until
    \<and> (mediaAccessGuard env' req d' = None \<longleftrightarrow>
         rq_id req = i \<and> (\<exists>e. rq_exp req = Some e \<and> parse_int e = Some until) \<and> ax_now env' \<le> until * 1000)
    \<and> mediaAccessGuard env' (req\<lparr>rq_id := i, rq_exp := Some (int_text until)\<rparr>) d' =
        (if ax_now env' \<le> until * 1000 then None else Some LinkExpired)"
proof -
  have url: "sg_url link = lit ''/api/v1/media/'' @ i @ lit ''?exp='' @ int_text until @ lit ''&sig='' @ signMediaUrl env i until"
    using assms(1,9) by (auto simp: createSignedUrl_def Let_def split: option.splits if_splits)
  have bearer: "bearer_token None = None" by (simp add: bearer_token_def)
  have ver: "verifySignature env' j t (signMediaUrl env i until) \<longleftrightarrow> j = i \<and> t = until" for j t
  proof -
    have "media_secret env' = media_secret env" by (simp add: media_secret_def assms(5))
    then show ?thesis unfolding verifySignature_def signMediaUrl_def assms(4)
      by (simp only: inj_eq [OF assms(3)] link_text_inj)
  qed
  have guard: "mediaAccessGuard env' r d' = (case rq_exp r of None \<Rightarrow> Some Unauthorized | Some e \<Rightarrow>
      (case parse_int e of None \<Rightarrow> Some Unauthorized | Some t \<Rightarrow>
         if rq_id r = i \<and> t = until then if until * 1000 < ax_now env' then Some LinkExpired else None else Some Unauthorized))"
    if "rq_user r = None" "rq_authorization r = None" "rq_sig r = Some (signMediaUrl env i until)" for r
  proof -
    have "rq_id r \<noteq> [] \<and> verifySignature env' (rq_id r) t (signMediaUrl env i until) \<longleftrightarrow> rq_id r = i \<and> t = until" for t
      using ver assms(2) by blast
    then show ?thesis unfolding mediaAccessGuard_def that bearer by (simp split: option.split)
  qed
  have "mediaAccessGuard env' req d' = None \<longleftrightarrow>
      rq_id req = i \<and> (\<exists>e. rq_exp req = Some e \<and> parse_int e = Some until) \<and> ax_now env' \<le> until * 1000"
    using guard [OF assms(6-8)] by (simp add: not_less split: option.split)
  moreover have "mediaAccessGuard env' (req\<lparr>rq_id := i, rq_exp := Some (int_text until)\<rparr>) d' =
      (if ax_now env' \<le> until * 1000 then None else Some LinkExpired)"
    using guard [of "req\<lparr>rq_id := i, rq_exp := Some (int_text until)\<rparr>"] assms(6-8) by (simp add: parse_int_text)
  ultimately show ?thesis using url by blast
qed

definition clear_env :: "int \<Rightarrow> access_env" where
  "clear_env now = \<lparr>ax_sha256 = id, ax_hmac = (\<lambda>k m. m), ax_hmacBytes = (\<lambda>k b. b), ax_argonHash = id,
     ax_argonVerify = (=), ax_now = now, ax_iso = (\<lambda>t. []), ax_getenv = (\<lambda>v. None)\<rparr>"

definition stored_file :: attachment_row where
  "stored_file = \<lparr>at_attId = lit ''f'', at_msgId = None, at_storagePath = lit ''p'', at_fileName = lit ''n'',
     at_mimeType = [], at_sizeBytes = 0, at_sha256 = [], at_deletedAt = None, at_createdAt = 0\<rparr>"

definition link_request :: "ustring \<Rightarrow> request" where
  "link_request sig = \<lparr>rq_user = None, rq_authorization = None, rq_id = lit ''g'', rq_exp = Some (lit ''86400''), rq_sig = Some sig\<rparr>"

theorem signed_link_opens_one_file_witness:
  "let sig = signMediaUrl (clear_env 0) (lit ''f'') (ttl_hours (clear_env 0) * 3600) in
   mediaAccessGuard (clear_env 5) (link_request sig) (empty_db tick_ids) \<noteq> None
   \<and> mediaAccessGuard (clear_env 5)
       (link_request sig\<lparr>rq_id := lit ''f'', rq_exp := Some (int_text (ttl_hours (clear_env 0) * 3600))\<rparr>) (empty_db tick_ids)
     = (if 5 \<le> ttl_hours (clear_env 0) * 3600 * 1000 then None else Some LinkExpired)"
proof -
  let ?sig = "signMediaUrl (clear_env 0) (lit ''f'') (ttl_hours (clear_env 0) * 3600)"
  have "\<exists>link. createSignedUrl (clear_env 0) (lit ''f'') ((empty_db tick_ids)\<lparr>attachments := [stored_file]\<rparr>) = Inr link"
    by (simp add: createSignedUrl_def atts.lookup_def stored_file_def Let_def)
  then obtain link where c: "createSignedUrl (clear_env 0) (lit ''f'') ((empty_db tick_ids)\<lparr>attachments := [stored_file]\<rparr>) = Inr link" ..
  have r: "rq_user (link_request ?sig) = None" "rq_authorization (link_request ?sig) = None"
    "rq_sig (link_request ?sig) = Some ?sig" "rq_id (link_request ?sig) \<noteq> lit ''f''"
    by (simp_all add: link_request_def)
  have e: "inj (ax_hmac (clear_env 0) (media_secret (clear_env 0)))" "ax_hmac (clear_env 5) = ax_hmac (clear_env 0)"
    "ax_getenv (clear_env 5) = ax_getenv (clear_env 0)" "ax_now (clear_env 5) = 5" "ax_now (clear_env 0) = 0"
    by (simp_all add: clear_env_def)
  have t: "ttl_hours (clear_env 0) * 3600 = ax_now (clear_env 0) div 1000 + ttl_hours (clear_env 0) * 3600" using e(5) by simp
  from signed_link_opens_one_file [OF c _ e(1-3) r(1-3) t] r(4) e(4) show ?thesis by (simp add: Let_def)
qed

section \<open>The token table implements a set of live tokens\<close>

datatype token_act =
    Generate ustring "ustring option" "ustring option"
  | Revoke ustring "ustring option"
  | Present request

text \<open>One request to the token routes or a guarded route: whether it is answered or let in.\<close>

definition token_step :: "access_env \<Rightarrow> token_act \<Rightarrow> db \<Rightarrow> bool \<times> db" where
  "token_step env act d =
     (case act of
        Generate random name actor \<Rightarrow> (True, snd (generate_route env random name actor d))
      | Revoke i actor \<Rightarrow> revoke_route env i actor d
      | Present req \<Rightarrow> sessionOrTokenGuard env req d)"

fun token_run :: "access_env \<Rightarrow> token_act list \<Rightarrow> db \<Rightarrow> bool list" where
  "token_run env [] d = []"
| "token_run env (act # acts) d =
     (case token_step env act d of (answer, d') \<Rightarrow> answer # token_run env acts d')"

text \<open>The specification: the identifiers ever issued, and the live identifiers with the
  hash of their token.\<close>

record token_store =
  ts_issued :: "ustring set"
  ts_live :: "(ustring \<times> ustring) set"
  ts_next :: nat

definition spec_admits :: "access_env \<Rightarrow> request \<Rightarrow> token_store \<Rightarrow> bool" where
  "spec_admits env req s \<longleftrightarrow> rq_user req \<noteq> None
     \<or> (\<exists>t. bearer_token (rq_authorization req) = Some t \<and> ax_sha256 env t \<in> snd ` ts_live s)"

definition spec_step :: "(nat \<Rightarrow> ustring) \<Rightarrow> access_env \<Rightarrow> token_act \<Rightarrow> token_store \<Rightarrow> bool \<times> token_store" where
  "spec_step src env act s =
     (case act of
        Generate random name actor \<Rightarrow>
          (True, s\<lparr>ts_issued := insert (src (ts_next s)) (ts_issued s),
                  ts_live := insert (src (ts_next s), ax_sha256 env (token_text random)) (ts_live s),
                  ts_next := Suc (ts_next s)\<rparr>)
      | Revoke i actor \<Rightarrow> (i \<in> ts_issued s, s\<lparr>ts_live := {t \<in> ts_live s. fst t \<noteq> i}\<rparr>)
      | Present req \<Rightarrow> (spec_admits env req s, s))"

fun spec_run :: "(nat \<Rightarrow> ustring) \<Rightarrow> access_env \<Rightarrow> token_act list \<Rightarrow> token_store \<Rightarrow> bool list" where
  "spec_run src env [] s = []"
| "spec_run src env (act # acts) s =
     (case spec_step src env act s of (answer, s') \<Rightarrow> answer # spec_run src env acts s')"

definition token_abs :: "db \<Rightarrow> token_store" where
  "token_abs d = \<lparr>ts_issued = tk_id ` set (api_tokens d),
     ts_live = (\<lambda>t. (tk_id t, tk_tokenHash t)) ` {t \<in> set (api_tokens d). tk_revokedAt t = None},
     ts_next = uuid_next d\<rparr>"

lemma token_abs_audit [simp]: "token_abs (audit_log a b c e f g d) = token_abs d"
  by (simp add: token_abs_def audit_log_def)

lemma audit_log_ids [simp]: "uuid_source (audit_log a b c e f g d) = uuid_source d"
  by (simp add: audit_log_def)

lemma token_abs_touch:
  "token_abs (api_tokens_update (update_where P (\<lambda>t. t\<lparr>tk_lastUsedAt := x\<rparr>)) d) = token_abs d"
proof -
  have "map (\<lambda>t. (tk_id t, tk_tokenHash t, tk_revokedAt t)) (update_where P (\<lambda>t. t\<lparr>tk_lastUsedAt := x\<rparr>) ts)
      = map (\<lambda>t. (tk_id t, tk_tokenHash t, tk_revokedAt t)) ts" for ts by (rule map_update_where) simp
  note same = arg_cong [OF this, of set]
  have live: "(\<lambda>t. (tk_id t, tk_tokenHash t)) ` {t \<in> set ts. tk_revokedAt t = None}
      = {(i, h). (i, h, None) \<in> (\<lambda>t. (tk_id t, tk_tokenHash t, tk_revokedAt t)) ` set ts}" for ts :: "token_row list"
    by force
  have ids: "tk_id ` set ts = fst ` (\<lambda>t. (tk_id t, tk_tokenHash t, tk_revokedAt t)) ` set ts" for ts :: "token_row list"
    by force
  show ?thesis using same [of "api_tokens d"] by (simp add: token_abs_def live ids)
qed

lemma token_abs_generate:
  "token_abs (snd (token_generate env random name d)) =
     (token_abs d)\<lparr>ts_issued := insert (uuid_source d (uuid_next d)) (ts_issued (token_abs d)),
       ts_live := insert (uuid_source d (uuid_next d), ax_sha256 env (token_text random)) (ts_live (token_abs d)),
       ts_next := Suc (ts_next (token_abs d))\<rparr>"
  by (force simp: token_abs_def token_generate_def fresh_id_def Let_def)

lemma token_abs_revoke:
  "token_abs (api_tokens_update (update_where (\<lambda>t. tk_id t = i) (\<lambda>t. t\<lparr>tk_revokedAt := Some x\<rparr>)) d) =
     (token_abs d)\<lparr>ts_live := {t \<in> ts_live (token_abs d). fst t \<noteq> i}\<rparr>"
proof -
  have "filter (\<lambda>t. tk_revokedAt t = None) (update_where (\<lambda>t. tk_id t = i) (\<lambda>t. t\<lparr>tk_revokedAt := Some x\<rparr>) ts)
      = filter (\<lambda>t. tk_revokedAt t = None \<and> tk_id t \<noteq> i) ts" for ts :: "token_row list" by (induction ts) simp_all
  from arg_cong [OF this, of set]
  have "{t \<in> set (update_where (\<lambda>t. tk_id t = i) (\<lambda>t. t\<lparr>tk_revokedAt := Some x\<rparr>) ts). tk_revokedAt t = None}
      = {t \<in> set ts. tk_revokedAt t = None \<and> tk_id t \<noteq> i}" for ts :: "token_row list" by simp
  moreover have "map tk_id (update_where (\<lambda>t. tk_id t = i) (\<lambda>t. t\<lparr>tk_revokedAt := Some x\<rparr>) ts) = map tk_id ts" for ts :: "token_row list"
    by (rule map_update_where) simp
  from arg_cong [OF this, of set]
  have "tk_id ` set (update_where (\<lambda>t. tk_id t = i) (\<lambda>t. t\<lparr>tk_revokedAt := Some x\<rparr>) ts) = tk_id ` set ts" for ts :: "token_row list" by simp
  moreover have "(\<lambda>t. (tk_id t, tk_tokenHash t)) ` {t \<in> set ts. tk_revokedAt t = None \<and> tk_id t \<noteq> i}
      = {t \<in> (\<lambda>t. (tk_id t, tk_tokenHash t)) ` {t \<in> set ts. tk_revokedAt t = None}. fst t \<noteq> i}" for ts :: "token_row list"
    by force
  ultimately show ?thesis by (simp add: token_abs_def)
qed

lemma admits_abs:
  "live_token env t d \<noteq> None \<longleftrightarrow> ax_sha256 env t \<in> snd ` ts_live (token_abs d)"
  by (force simp: live_token_def token_abs_def find_None_iff simp del: not_None_eq)

lemma present_refines:
  "fst (sessionOrTokenGuard env req d) = spec_admits env req (token_abs d)
   \<and> token_abs (snd (sessionOrTokenGuard env req d)) = token_abs d
   \<and> uuid_source (snd (sessionOrTokenGuard env req d)) = uuid_source d"
proof (cases "rq_user req")
  case None
  show ?thesis
  proof (cases "bearer_token (rq_authorization req)")
    case (Some t)
    show ?thesis using None Some admits_abs [of env t d]
      by (cases "live_token env t d") (simp_all add: sessionOrTokenGuard_def spec_admits_def token_abs_touch)
  qed (simp add: None sessionOrTokenGuard_def spec_admits_def)
qed (simp add: sessionOrTokenGuard_def spec_admits_def)

lemma token_step_refines:
  "fst (token_step env act d) = fst (spec_step (uuid_source d) env act (token_abs d))
   \<and> token_abs (snd (token_step env act d)) = snd (spec_step (uuid_source d) env act (token_abs d))
   \<and> uuid_source (snd (token_step env act d)) = uuid_source d"
proof (cases act)
  case (Generate random name actor)
  have "ts_next (token_abs d) = uuid_next d" by (simp add: token_abs_def)
  moreover have "uuid_source (snd (token_generate env random name d)) = uuid_source d"
    by (simp add: token_generate_def fresh_id_def Let_def)
  ultimately show ?thesis using token_abs_generate [of env random name d]
    by (simp add: Generate token_step_def spec_step_def generate_route_def case_prod_beta)
next
  case (Revoke i actor)
  have "toks.lookup d i \<noteq> None \<longleftrightarrow> i \<in> ts_issued (token_abs d)"
    by (auto simp: toks.lookup_def token_abs_def find_None_iff simp del: not_None_eq)
  moreover have "{t \<in> ts_live (token_abs d). fst t \<noteq> i} = ts_live (token_abs d)" if "i \<notin> ts_issued (token_abs d)"
    using that by (auto simp: token_abs_def)
  ultimately show ?thesis
    by (auto simp: Revoke token_step_def spec_step_def revoke_route_def token_revoke_def token_abs_revoke)
next
  case (Present req)
  then show ?thesis using present_refines by (simp add: token_step_def spec_step_def)
qed

lemma token_run_spec: "token_run env acts d = spec_run (uuid_source d) env acts (token_abs d)"
proof (induction acts arbitrary: d)
  case (Cons act acts)
  then show ?case using token_step_refines [of env act d] by (simp add: case_prod_beta)
qed simp

text \<open>
  C24. The token table implements a set of live tokens: for every sequence of generated,
  revoked and presented tokens the routes and the guard answer exactly as the specification
  does, which lets a request in when it has a session or its bearer token was generated and
  not revoked since, and answers a revocation when the identifier was issued.
\<close>

theorem token_table_refines_set:
  "token_run env acts d = spec_run (uuid_source d) env acts (token_abs d)"
  by (rule token_run_spec)

text \<open>A token is dead when no live identifier carries its hash.\<close>

lemma spec_dead:
  assumes "ax_sha256 env t \<notin> snd ` ts_live s"
    and "\<forall>random name actor. Generate random name actor \<in> set acts \<longrightarrow> ax_sha256 env (token_text random) \<noteq> ax_sha256 env t"
    and "rq_user req = None" and "bearer_token (rq_authorization req) = Some t"
  shows "i < length acts \<Longrightarrow> acts ! i = Present req \<Longrightarrow> \<not> spec_run src env acts s ! i"
  using assms
proof (induction acts arbitrary: s i)
  case (Cons act acts)
  have keep: "ax_sha256 env t \<notin> snd ` ts_live (snd (spec_step src env act s))"
  proof (cases act)
    case (Generate random name actor)
    with Cons.prems(4) have "ax_sha256 env (token_text random) \<noteq> ax_sha256 env t" by simp
    with Cons.prems(3) show ?thesis by (auto simp: Generate spec_step_def)
  qed (use Cons.prems(3) in \<open>auto simp: spec_step_def\<close>)
  show ?case
  proof (cases i)
    case 0
    with Cons.prems show ?thesis by (simp add: spec_step_def spec_admits_def)
  next
    case (Suc j)
    with Cons.prems have "j < length acts" "acts ! j = Present req" by simp_all
    moreover have "\<forall>random name actor. Generate random name actor \<in> set acts \<longrightarrow> ax_sha256 env (token_text random) \<noteq> ax_sha256 env t"
      using Cons.prems(4) by simp
    ultimately show ?thesis using Cons.IH [OF _ _ keep _ Cons.prems(5,6)] Suc by (simp add: case_prod_beta)
  qed
qed simp

text \<open>
  A revoked token is never accepted again: once the only live entry of a token has been
  revoked, no later request that relies on the token is let in, whatever other tokens are
  generated (with other hashes), revoked or used in between.
\<close>

theorem revoked_token_stays_refused:
  assumes "\<forall>r\<in>set (api_tokens d). tk_tokenHash r = ax_sha256 env t \<longrightarrow> tk_revokedAt r = None \<longrightarrow> tk_id r = i"
    and "\<forall>random name actor. Generate random name actor \<in> set acts \<longrightarrow> ax_sha256 env (token_text random) \<noteq> ax_sha256 env t"
    and "rq_user req = None" and "bearer_token (rq_authorization req) = Some t"
    and "n < length acts" and "acts ! n = Present req"
  shows "\<not> token_run env (Revoke i actor # acts) d ! Suc n"
proof -
  let ?s = "snd (spec_step (uuid_source d) env (Revoke i actor) (token_abs d))"
  have "ax_sha256 env t \<notin> snd ` ts_live ?s" using assms(1) by (auto simp: spec_step_def token_abs_def)
  from spec_dead [OF this assms(2-4) assms(5,6), of "uuid_source d"]
  have "\<not> spec_run (uuid_source d) env (Revoke i actor # acts) (token_abs d) ! Suc n" by (simp add: case_prod_beta)
  then show ?thesis by (simp only: token_run_spec not_False_eq_True)
qed

definition token_request :: request where
  "token_request = \<lparr>rq_user = None, rq_authorization = Some (lit ''Bearer t''), rq_id = [], rq_exp = None, rq_sig = None\<rparr>"

definition token_db :: db where
  "token_db = (empty_db tick_ids)\<lparr>api_tokens := [\<lparr>tk_id = lit ''k'', tk_name = [], tk_tokenHash = lit ''t'', tk_createdAt = 0,
     tk_lastUsedAt = None, tk_revokedAt = None\<rparr>]\<rparr>"

lemma token_request_bearer: "bearer_token (rq_authorization token_request) = Some (lit ''t'')"
  by (simp add: bearer_token_def token_request_def string_simps lower_cp_def)

theorem revoked_token_stays_refused_witness:
  "\<not> token_run (clear_env 0) [Revoke (lit ''k'') None, Generate (lit ''x'') None None, Present token_request] token_db ! 2"
proof -
  have t: "\<forall>r\<in>set (api_tokens token_db). tk_tokenHash r = ax_sha256 (clear_env 0) (lit ''t'') \<longrightarrow> tk_revokedAt r = None \<longrightarrow> tk_id r = lit ''k''"
    by (simp add: token_db_def)
  have g: "\<forall>random name actor. Generate random name actor \<in> set [Generate (lit ''x'') None None, Present token_request] \<longrightarrow>
      ax_sha256 (clear_env 0) (token_text random) \<noteq> ax_sha256 (clear_env 0) (lit ''t'')"
    by (simp add: clear_env_def token_text_def string_simps)
  have r: "rq_user token_request = None" by (simp add: token_request_def)
  from revoked_token_stays_refused [OF t g r token_request_bearer, of 1 None] show ?thesis by (simp add: numeral_2_eq_2)
qed

section \<open>Webhooks need the secret\<close>

text \<open>
  C34. Nothing enters the inbound queue without the shared secret: a WhatsApp webhook adds
  its body exactly when a secret is configured and the request carries the authentication
  code of its raw bytes under it, with or without the \<open>sha256=\<close> prefix; an SMS webhook
  exactly when a secret is configured and the request carries that secret (the hash has no
  collisions). A refused request adds nothing.
\<close>

theorem webhooks_need_the_secret:
  assumes "inj (ax_sha256 env)"
  shows "(gwmd_webhook env rawBody signature body = Inr jobs \<longleftrightarrow>
      jobs = [\<lparr>ij_adapter = lit ''gwmd'', ij_payload = body\<rparr>] \<and>
      (\<exists>secret bytes s. ax_getenv env ''GWMD_WEBHOOK_SECRET'' = Some secret \<and> secret \<noteq> [] \<and> rawBody = Some bytes
         \<and> signature = Some s \<and> s \<noteq> [] \<and> (s = lit ''sha256='' @ ax_hmacBytes env secret bytes
            \<or> s = ax_hmacBytes env secret bytes \<and> \<not> starts_with (lit ''sha256='') s)))
    \<and> (dbsms_webhook env given body = Inr jobs \<longleftrightarrow>
      jobs = [\<lparr>ij_adapter = lit ''goip-vendor'', ij_payload = body\<rparr>] \<and>
      (\<exists>secret. ax_getenv env ''DBSMS_WEBHOOK_SECRET'' = Some secret \<and> secret \<noteq> [] \<and> given = Some secret))"
proof -
  have strip: "(if starts_with (lit ''sha256='') s then drop 7 s else s) = m \<longleftrightarrow>
      s = lit ''sha256='' @ m \<or> s = m \<and> \<not> starts_with (lit ''sha256='') s" for s m
    by (auto elim!: starts_withE)
  have v: "webhook_verify env rawBody signature secret \<longleftrightarrow> (\<exists>bytes s. rawBody = Some bytes \<and> signature = Some s \<and> s \<noteq> []
      \<and> (s = lit ''sha256='' @ ax_hmacBytes env secret bytes \<or> s = ax_hmacBytes env secret bytes \<and> \<not> starts_with (lit ''sha256='') s))"
    for secret
  proof (cases "rawBody = None \<or> signature = None")
    case False
    then obtain bytes s where "rawBody = Some bytes" "signature = Some s" by auto
    moreover have "webhook_verify env (Some bytes) (Some s) secret \<longleftrightarrow> s \<noteq> [] \<and>
        (if starts_with (lit ''sha256='') s then drop 7 s else s) = ax_hmacBytes env secret bytes"
      by (auto simp: webhook_verify_def Let_def)
    ultimately show ?thesis unfolding strip by simp
  qed (auto simp: webhook_verify_def split: option.splits)
  have "gwmd_webhook env rawBody signature body = Inr jobs \<longleftrightarrow> jobs = [\<lparr>ij_adapter = lit ''gwmd'', ij_payload = body\<rparr>]
      \<and> (\<exists>secret. ax_getenv env ''GWMD_WEBHOOK_SECRET'' = Some secret \<and> secret \<noteq> [] \<and> webhook_verify env rawBody signature secret)"
    by (auto simp: gwmd_webhook_def Let_def split: option.splits)
  moreover have "secretMatches env given secret \<longleftrightarrow> given = Some secret" for secret
    using inj_eq [OF assms] by (cases given) (simp_all add: secretMatches_def)
  then have "dbsms_webhook env given body = Inr jobs \<longleftrightarrow> jobs = [\<lparr>ij_adapter = lit ''goip-vendor'', ij_payload = body\<rparr>] \<and>
      (\<exists>secret. ax_getenv env ''DBSMS_WEBHOOK_SECRET'' = Some secret \<and> secret \<noteq> [] \<and> given = Some secret)"
    by (auto simp: dbsms_webhook_def Let_def split: option.splits)
  ultimately show ?thesis unfolding v by blast
qed

theorem webhooks_need_the_secret_witness:
  "\<forall>jobs. dbsms_webhook ((clear_env 0)\<lparr>ax_getenv := (\<lambda>v. Some (lit ''s''))\<rparr>) (Some (lit ''wrong'')) JNull \<noteq> Inr jobs"
  using webhooks_need_the_secret [of "(clear_env 0)\<lparr>ax_getenv := (\<lambda>v. Some (lit ''s''))\<rparr>"] by (simp add: clear_env_def)

end
