(* ===== verification/Channel.thy ===== *)
theory Channel
  imports Ingest Provisioning Delivery
begin

text \<open>
  What the adapters of packages/adapters share: reading members of a vendor's JSON
  (\<open>?.\<close>, \<open>??\<close>, \<open>String\<close>, \<open>Number\<close>), percent encoding and base64, and HTTP. A vendor
  service is a function from requests to answers, an argument of every operation that
  calls it. The canonical outbound message of packages/channel-sdk/src/types.ts is here in
  full; the send processor fills only a part of it. \<open>send_contract\<close> is the interface that
  the processor relies on: what an adapter may answer.

  Where a vendor's answer holds a number or an object in the place of a text that the
  gateway only stores (an error code, a message id), the model holds its \<open>String\<close>.
\<close>

section \<open>Reading JSON\<close>

definition mem :: "json option \<Rightarrow> string \<Rightarrow> json option" where
  "mem v k = (case v of Some w \<Rightarrow> own w (lit k) | None \<Rightarrow> None)"

text \<open>\<open>a ?? b\<close>: \<open>null\<close> and \<open>undefined\<close> give way.\<close>

fun coalesce :: "json option \<Rightarrow> json option \<Rightarrow> json option" where
  "coalesce None w = w"
| "coalesce (Some JNull) w = w"
| "coalesce v w = v"

definition holds :: "json option \<Rightarrow> bool" where
  "holds v \<longleftrightarrow> (case v of Some w \<Rightarrow> truthy w | None \<Rightarrow> False)"

text \<open>\<open>String(v)\<close>, and \<open>String(v ?? '')\<close>.\<close>

definition js_String :: "(rat \<Rightarrow> ustring) \<Rightarrow> json option \<Rightarrow> ustring" where
  "js_String fmt v = (case v of Some w \<Rightarrow> to_text fmt w | None \<Rightarrow> lit ''undefined'')"

definition text_or_empty :: "(rat \<Rightarrow> ustring) \<Rightarrow> json option \<Rightarrow> ustring" where
  "text_or_empty fmt v = js_String fmt (coalesce v (Some (JStr [])))"

definition items :: "json option \<Rightarrow> json list" where
  "items v = (case v of Some (JArr xs) \<Rightarrow> xs | _ \<Rightarrow> [])"

definition is_list :: "json option \<Rightarrow> bool" where
  "is_list v \<longleftrightarrow> (case v of Some (JArr xs) \<Rightarrow> True | _ \<Rightarrow> False)"

fun first_item :: "json option \<Rightarrow> json option" where
  "first_item (Some (JArr (x # xs))) = Some x"
| "first_item _ = None"

text \<open>Whether a text contains another.\<close>

fun occurs :: "ustring \<Rightarrow> ustring \<Rightarrow> bool" where
  "occurs w [] = (w = [])"
| "occurs w (c # cs) = (starts_with w (c # cs) \<or> occurs w cs)"

lemma starts_with_rec:
  "starts_with (a # w) (b # s) \<longleftrightarrow> a = b \<and> starts_with w s" "\<not> starts_with (a # w) []"
  by (auto simp: starts_with_def)

text \<open>A member of the content object; a value that is not a text goes with the rest.\<close>

definition text_member :: "json option \<Rightarrow> ustring option \<times> fields" where
  "text_member v = (case coalesce v None of
       None \<Rightarrow> (None, []) | Some (JStr s) \<Rightarrow> (Some s, []) | Some w \<Rightarrow> (None, [(lit ''text'', w)]))"

text \<open>The members of an object that are not \<open>undefined\<close>.\<close>

definition json_fields :: "(string \<times> json option) list \<Rightarrow> fields" where
  "json_fields kvs = List.map_filter (\<lambda>(k, v). map_option (\<lambda>w. (lit k, w)) v) kvs"

definition text_fields :: "(string \<times> ustring option) list \<Rightarrow> fields" where
  "text_fields kvs = List.map_filter (\<lambda>(k, v). map_option (\<lambda>s. (lit k, JStr s)) v) kvs"

section \<open>Number and Date\<close>

text \<open>
  \<open>Number(s)\<close> of a string: an optional sign, digits, an optional fraction and exponent, or
  a hexadecimal, octal or binary literal; \<open>None\<close> is \<open>NaN\<close>, and also an infinity, which the
  adapters only turn into a date, an invalid one like \<open>NaN\<close>. A value is exact, where a
  JavaScript number rounds.
\<close>

definition digit_value :: "nat \<Rightarrow> nat" where
  "digit_value c = (if is_digit c then c - 48 else if 97 \<le> c \<and> c \<le> 122 then c - 87
     else if 65 \<le> c \<and> c \<le> 90 then c - 55 else 99)"

definition radix_value :: "nat \<Rightarrow> ustring \<Rightarrow> rat option" where
  "radix_value r ds =
     (if ds \<noteq> [] \<and> list_all (\<lambda>c. digit_value c < r) ds
      then Some (of_nat (foldl (\<lambda>a c. a * r + digit_value c) 0 ds)) else None)"

definition exponent_of :: "ustring \<Rightarrow> int option" where
  "exponent_of s =
     (case s of
        [] \<Rightarrow> Some 0
      | c # t \<Rightarrow>
          if c \<noteq> 101 \<and> c \<noteq> 69 then None
          else (let neg = starts_with (lit ''-'') t;
                    ds = (if neg \<or> starts_with (lit ''+'') t then drop 1 t else t)
                in if ds \<noteq> [] \<and> list_all is_digit ds
                   then Some (if neg then - int (dec_val ds) else int (dec_val ds)) else None))"

definition power_of_ten :: "int \<Rightarrow> rat" where
  "power_of_ten e = (if 0 \<le> e then 10 ^ nat e else 1 / 10 ^ nat (- e))"

definition unsigned_decimal :: "ustring \<Rightarrow> rat option" where
  "unsigned_decimal s =
     (let whole = takeWhile is_digit s; rest = dropWhile is_digit s;
          dotted = starts_with (lit ''.'') rest;
          frac = (if dotted then takeWhile is_digit (drop 1 rest) else []);
          tail = (if dotted then dropWhile is_digit (drop 1 rest) else rest)
      in if whole = [] \<and> frac = [] then None
         else map_option (\<lambda>e. (of_nat (dec_val whole) + of_nat (dec_val frac) / 10 ^ length frac) * power_of_ten e)
                (exponent_of tail))"

definition js_number :: "ustring \<Rightarrow> rat option" where
  "js_number str =
     (let s = js_trim str in
      if s = [] then Some 0
      else if starts_with (lit ''0x'') s \<or> starts_with (lit ''0X'') s then radix_value 16 (drop 2 s)
      else if starts_with (lit ''0o'') s \<or> starts_with (lit ''0O'') s then radix_value 8 (drop 2 s)
      else if starts_with (lit ''0b'') s \<or> starts_with (lit ''0B'') s then radix_value 2 (drop 2 s)
      else if starts_with (lit ''-'') s then map_option uminus (unsigned_decimal (drop 1 s))
      else if starts_with (lit ''+'') s then unsigned_decimal (drop 1 s)
      else unsigned_decimal s)"

fun js_Number :: "(rat \<Rightarrow> ustring) \<Rightarrow> json option \<Rightarrow> rat option" where
  "js_Number fmt None = None"
| "js_Number fmt (Some JNull) = Some 0"
| "js_Number fmt (Some (JBool b)) = Some (if b then 1 else 0)"
| "js_Number fmt (Some (JNum r)) = Some r"
| "js_Number fmt (Some (JStr s)) = js_number s"
| "js_Number fmt (Some (JArr xs)) = js_number (to_text fmt (JArr xs))"
| "js_Number fmt (Some (JObj kvs)) = None"

text \<open>\<open>new Date(n)\<close>: the time in milliseconds, \<open>None\<close> for an invalid date.\<close>

definition truncated :: "rat \<Rightarrow> int" where
  "truncated r = (if 0 \<le> r then \<lfloor>r\<rfloor> else - \<lfloor>- r\<rfloor>)"

definition js_date :: "rat option \<Rightarrow> int option" where
  "js_date n = (case n of None \<Rightarrow> None
     | Some r \<Rightarrow> if \<bar>r\<bar> \<le> 8640000000000000 then Some (truncated r) else None)"

section \<open>Encodings\<close>

text \<open>UTF-8; a lone surrogate has none.\<close>

definition utf8 :: "nat \<Rightarrow> nat list option" where
  "utf8 c =
     (if c < 128 then Some [c]
      else if c < 2048 then Some [192 + c div 64, 128 + c mod 64]
      else if 55296 \<le> c \<and> c \<le> 57343 then None
      else if c < 65536 then Some [224 + c div 4096, 128 + c div 64 mod 64, 128 + c mod 64]
      else Some [240 + c div 262144, 128 + c div 4096 mod 64, 128 + c div 64 mod 64, 128 + c mod 64])"

definition uri_unreserved :: "nat \<Rightarrow> bool" where
  "uri_unreserved c \<longleftrightarrow> is_digit c \<or> is_ascii_letter c \<or> c \<in> set (lit ''-_.!~*()'') \<or> c = 39"

definition upper_hex :: "nat \<Rightarrow> nat" where
  "upper_hex n = (if n < 10 then 48 + n else 55 + n)"

definition percent :: "nat \<Rightarrow> ustring" where
  "percent b = [37, upper_hex (b div 16), upper_hex (b mod 16)]"

text \<open>\<open>None\<close> is the \<open>URIError\<close> of a lone surrogate.\<close>

fun encodeURIComponent :: "ustring \<Rightarrow> ustring option" where
  "encodeURIComponent [] = Some []"
| "encodeURIComponent (c # cs) =
     (case (if uri_unreserved c then Some [c] else map_option (\<lambda>bs. concat (map percent bs)) (utf8 c),
            encodeURIComponent cs) of
        (Some u, Some us) \<Rightarrow> Some (u @ us)
      | _ \<Rightarrow> None)"

definition base64_digit :: "nat \<Rightarrow> nat" where
  "base64_digit n = (if n < 26 then 65 + n else if n < 52 then 71 + n else if n < 62 then n - 4
     else if n = 62 then 43 else 47)"

fun base64 :: "nat list \<Rightarrow> ustring" where
  "base64 [] = []"
| "base64 [a] = [base64_digit (a div 4), base64_digit (a mod 4 * 16), 61, 61]"
| "base64 [a, b] = [base64_digit (a div 4), base64_digit (a mod 4 * 16 + b div 16),
     base64_digit (b mod 16 * 4), 61]"
| "base64 (a # b # c # cs) = base64_digit (a div 4) # base64_digit (a mod 4 * 16 + b div 16)
     # base64_digit (b mod 16 * 4 + c div 64) # base64_digit (c mod 64) # base64 cs"

text \<open>\<open>Buffer.from(s)\<close>: a lone surrogate becomes the replacement character.\<close>

definition utf8_bytes :: "ustring \<Rightarrow> nat list" where
  "utf8_bytes s = concat (map (\<lambda>c. case utf8 c of Some bs \<Rightarrow> bs | None \<Rightarrow> [239, 191, 189]) s)"

section \<open>HTTP\<close>

record form_file =
  fo_name :: ustring
  fo_type :: ustring
  fo_bytes :: "nat list"

datatype http_body = NoBody | JsonBody json | FormBody "(ustring \<times> ustring) list" "(ustring \<times> form_file) list"

record http_request =
  hq_method :: string
  hq_url :: ustring
  hq_headers :: "(string \<times> ustring) list"
  hq_body :: http_body

text \<open>\<open>hr_json\<close> is \<open>None\<close> when the body is not JSON.\<close>

record http_response =
  hr_status :: int
  hr_json :: "json option"
  hr_text :: ustring
  hr_bytes :: "nat list"
  hr_type :: "ustring option"

text \<open>\<open>Inl\<close> is the message of the exception \<open>fetch\<close> rejects with. \<open>ch_dateParse\<close> is
  \<open>Date.parse\<close>, \<open>ch_parts\<close> what \<open>Intl.DateTimeFormat\<close> shows of a time in a zone (year, month, day,
  hour, minute, second; \<open>None\<close> for an unknown zone); \<open>ch_done\<close> is the time when the service has
  answered.\<close>

record channel_env =
  ch_fetch :: "http_request \<Rightarrow> ustring + http_response"
  ch_now :: int
  ch_done :: int
  ch_fmt :: "rat \<Rightarrow> ustring"
  ch_sha256 :: "ustring \<Rightarrow> ustring"
  ch_getenv :: "string \<Rightarrow> ustring option"
  ch_parts :: "ustring \<Rightarrow> int \<Rightarrow> int list option"
  ch_dateParse :: "ustring \<Rightarrow> int option"

definition json_or :: "json \<Rightarrow> http_response \<Rightarrow> json" where
  "json_or v r = (case hr_json r of Some w \<Rightarrow> w | None \<Rightarrow> v)"

text \<open>\<open>replace(/\/$/, '')\<close>.\<close>

definition strip_slash :: "ustring \<Rightarrow> ustring" where
  "strip_slash s = (if s \<noteq> [] \<and> last s = 47 then butlast s else s)"

definition config_text :: "channel_env \<Rightarrow> account_config \<Rightarrow> string \<Rightarrow> ustring" where
  "config_text env acc k = text_or_empty (ch_fmt env) (own (cc_config acc) (lit k))"

text \<open>The configured base address; \<open>None\<close> is the exception of a missing one.\<close>

definition base_url :: "channel_env \<Rightarrow> account_config \<Rightarrow> ustring option" where
  "base_url env acc = (let base = strip_slash (config_text env acc ''baseUrl'') in if base = [] then None else Some base)"

definition missing_base :: "string \<Rightarrow> ustring" where
  "missing_base name = lit name @ lit '': account.configJson.baseUrl is required''"

text \<open>The errors the provisioning methods throw for a failed call and for a refused one.\<close>

definition network_error :: "string \<Rightarrow> ustring \<Rightarrow> thrown" where
  "network_error what m = ProvisioningError TRANSPORT_ERROR (lit what @ lit '' network error: '' @ m)"

definition status_error :: "string \<Rightarrow> int \<Rightarrow> thrown" where
  "status_error what s = ProvisioningError (if 500 \<le> s then TRANSPORT_ERROR else BAD_RESPONSE)
     (lit what @ lit '' returned '' @ dec_str (nat s))"


text \<open>Members of the account's sidecar call: a GET and a JSON request.\<close>

definition get_request :: "ustring \<Rightarrow> (string \<times> ustring) list \<Rightarrow> http_request" where
  "get_request url headers = \<lparr>hq_method = ''GET'', hq_url = url, hq_headers = headers, hq_body = NoBody\<rparr>"

definition json_request :: "string \<Rightarrow> ustring \<Rightarrow> (string \<times> ustring) list \<Rightarrow> json \<Rightarrow> http_request" where
  "json_request method url headers body =
     \<lparr>hq_method = method, hq_url = url, hq_headers = headers, hq_body = JsonBody body\<rparr>"

definition json_type :: "(string \<times> ustring) list" where
  "json_type = [(''content-type'', lit ''application/json'')]"

text \<open>A time to live that is no number is the exception its date raises when it is written.\<close>

definition ttl_of :: "channel_env \<Rightarrow> json option \<Rightarrow> int \<Rightarrow> thrown + int" where
  "ttl_of env v default_ttl =
     (case js_Number (ch_fmt env) (coalesce v (Some (JNum (of_int default_ttl)))) of
        Some t \<Rightarrow> Inr (truncated t) | None \<Rightarrow> Inl (OtherError (lit ''Invalid time value'')))"

section \<open>The canonical outbound message\<close>

record sdk_attachment =
  sa_data :: "nat list option"
  sa_mime :: "ustring option"
  sa_filename :: "ustring option"

record sdk_media =
  sm_url :: "ustring option"
  sm_mime :: "ustring option"

record outbound_message =
  om_messageId :: ustring
  om_idempotencyKey :: ustring
  om_to :: "canonical_address list"
  om_type :: message_type
  om_text :: "ustring option"
  om_media :: "sdk_media option"
  om_attachments :: "sdk_attachment list option"
  om_reaction :: "ustring option"
  om_replyTo :: "ustring option"
  om_meta :: fields

text \<open>What the send processor builds, as such a message.\<close>

definition worker_outbound :: "canonical_outbound \<Rightarrow> outbound_message" where
  "worker_outbound c =
     \<lparr>om_messageId = co_messageId c, om_idempotencyKey = co_idempotencyKey c, om_to = [co_to c],
      om_type = toMessageType (co_type c), om_text = Some (co_text c), om_media = None,
      om_attachments = map_option (map (\<lambda>a. \<lparr>sa_data = Some (oa_data a), sa_mime = Some (oa_mime a),
        sa_filename = Some (oa_filename a)\<rparr>)) (co_attachments c),
      om_reaction = None, om_replyTo = None, om_meta = []\<rparr>"

text \<open>\<open>to[0]?.e164 ?? to[0]?.raw ?? ''\<close>.\<close>

definition recipient_of :: "outbound_message \<Rightarrow> ustring" where
  "recipient_of o' = (case om_to o' of [] \<Rightarrow> [] | a # as \<Rightarrow> (case ca_e164 a of Some e \<Rightarrow> e | None \<Rightarrow> ca_raw a))"

definition outbound_text :: "outbound_message \<Rightarrow> ustring" where
  "outbound_text o' = (case om_text o' of Some t \<Rightarrow> t | None \<Rightarrow> [])"

text \<open>The attachments that carry bytes.\<close>

definition with_data :: "outbound_message \<Rightarrow> sdk_attachment list" where
  "with_data o' = filter (\<lambda>a. case sa_data a of Some (b # bs) \<Rightarrow> True | _ \<Rightarrow> False)
     (case om_attachments o' of Some as \<Rightarrow> as | None \<Rightarrow> [])"

text \<open>\<open>AdapterHealth\<close>, without the time of the check.\<close>

record adapter_health =
  ah_ok :: bool
  ah_details :: fields

section \<open>The contract of an adapter's send\<close>

definition refused :: "ustring \<Rightarrow> ustring \<Rightarrow> bool \<Rightarrow> json \<Rightarrow> send_result" where
  "refused code m retryable raw = \<lparr>re_externalId = None, re_accepted = False, re_rawResponse = raw,
     re_error = Some \<lparr>ae_code = code, ae_message = m, ae_retryable = retryable\<rparr>\<rparr>"

definition taken :: "ustring option \<Rightarrow> json \<Rightarrow> send_result" where
  "taken x raw = \<lparr>re_externalId = x, re_accepted = True, re_rawResponse = raw, re_error = None\<rparr>"

definition http_code :: "int \<Rightarrow> ustring" where
  "http_code s = lit ''HTTP_'' @ dec_str (nat s)"

text \<open>An answer is an acceptance without an error, or a refusal with one and without a message id.\<close>

definition well_formed_answer :: "send_answer \<Rightarrow> bool" where
  "well_formed_answer a = (case a of Threw m \<Rightarrow> True
     | Answered r \<Rightarrow> if re_accepted r then re_error r = None else re_error r \<noteq> None \<and> re_externalId r = None)"

lemma well_formed_refused [simp]: "well_formed_answer (Answered (refused c m r raw))"
  by (simp add: well_formed_answer_def refused_def)

lemma well_formed_taken [simp]: "well_formed_answer (Answered (taken x raw))"
  by (simp add: well_formed_answer_def taken_def)

lemma well_formed_threw [simp]: "well_formed_answer (Threw m)"
  by (simp add: well_formed_answer_def)

locale channel_sender =
  fixes send_to :: "channel_env \<Rightarrow> outbound_message \<Rightarrow> endpoint_config \<Rightarrow> account_config \<Rightarrow> send_answer"
  assumes answers: "well_formed_answer (send_to env o' ep acc)"
begin

lemma accepted_without_error: "send_to env o' ep acc = Answered r \<Longrightarrow> re_accepted r \<Longrightarrow> re_error r = None"
  using answers [of env o' ep acc] by (simp add: well_formed_answer_def)

lemma refusal_has_reason: "send_to env o' ep acc = Answered r \<Longrightarrow> \<not> re_accepted r \<Longrightarrow> \<exists>e. re_error r = Some e"
  using answers [of env o' ep acc] by (simp add: well_formed_answer_def)

end

section \<open>A concrete environment\<close>

text \<open>The zone shows the time of the stamp without an offset.\<close>

definition plain_channel :: "(http_request \<Rightarrow> ustring + http_response) \<Rightarrow> channel_env" where
  "plain_channel service = \<lparr>ch_fetch = service, ch_now = 1714557600000, ch_done = 1714557600000, ch_fmt = (\<lambda>r. int_text \<lfloor>r\<rfloor>),
     ch_sha256 = id, ch_getenv = (\<lambda>v. None), ch_parts = (\<lambda>z t. Some [1970, 1, 1, 0, 0, t div 1000]),
     ch_dateParse = (\<lambda>s. None)\<rparr>"

lemma ch_now_plain [simp]: "ch_now (plain_channel f) = 1714557600000"
  by (simp add: plain_channel_def)

end
