(* ===== verification/Goip.thy ===== *)
theory Goip
  imports Channel
begin

text \<open>
  The SMS adapter (packages/adapters/src/goip-vendor/index.ts): the JSON commands of the
  SMS server, sending, delivery reports, inbound messages with the repair of their time
  stamp, the list of lines, USSD and the reading of a balance out of a carrier's text.
  The lemmas show that an answer to a send is well formed, that a report of the returned
  id delivers the message, that the time given to an inbound message is close to its
  arrival, that a replayed message is stored once, and what sign and amount a balance has.
\<close>

section \<open>The SMS server\<close>

definition goip_baseUrl :: "channel_env \<Rightarrow> account_config \<Rightarrow> ustring + ustring" where
  "goip_baseUrl env acc =
     (case base_url env acc of None \<Rightarrow> Inl (missing_base ''goip-vendor'') | Some b \<Rightarrow> Inr b)"

definition goip_auth :: "channel_env \<Rightarrow> account_config \<Rightarrow> ustring + (ustring \<times> ustring)" where
  "goip_auth env acc =
     (let username = config_text env acc ''username''; password = config_text env acc ''password''
      in if username = [] \<or> password = []
         then Inl (lit ''goip-vendor: account.configJson.username/password are required'')
         else Inr (username, password))"

definition lineId :: "channel_env \<Rightarrow> endpoint_config \<Rightarrow> ustring option" where
  "lineId env ep =
     (let raw = (if ec_externalId ep \<noteq> [] then ec_externalId ep
                 else text_or_empty (ch_fmt env) (coalesce (own (ec_config ep) (lit ''goipLine'')) (own (ec_config ep) (lit ''lineId''))));
          i = js_trim raw
      in if i = [] then None else Some i)"

text \<open>Status and body of the answer; \<open>null\<close> for a body that is not JSON.\<close>

definition goip_call :: "channel_env \<Rightarrow> account_config \<Rightarrow> string \<Rightarrow> fields \<Rightarrow> ustring + (int \<times> json)" where
  "goip_call env acc command body =
     (case goip_baseUrl env acc of
        Inl e \<Rightarrow> Inl e
      | Inr base \<Rightarrow>
          (case goip_auth env acc of
             Inl e \<Rightarrow> Inl e
           | Inr (username, password) \<Rightarrow>
               (case ch_fetch env (json_request ''POST'' (base @ lit ''/goip/'' @ lit command @ lit ''/'') json_type
                       (JObj ((lit ''auth'', JObj [(lit ''username'', JStr username), (lit ''password'', JStr password)]) # body))) of
                  Inl e \<Rightarrow> Inl e
                | Inr r \<Rightarrow> Inr (hr_status r, json_or JNull r))))"

text \<open>\<open>toUpperCase\<close>, as far as it reaches ASCII letters.\<close>

definition upper_cp :: "nat \<Rightarrow> nat" where
  "upper_cp c = (if 97 \<le> c \<and> c \<le> 122 then c - 32 else if c = 305 then 73 else if c = 383 then 83 else c)"

definition line_online :: "channel_env \<Rightarrow> json \<Rightarrow> bool" where
  "line_online env l \<longleftrightarrow> js_String (ch_fmt env) (own l (lit ''online'')) = lit ''1''"

definition line_registered :: "channel_env \<Rightarrow> json \<Rightarrow> bool" where
  "line_registered env l \<longleftrightarrow> map upper_cp (js_String (ch_fmt env) (own l (lit ''reg''))) = lit ''LOGIN''"

definition goip_healthCheck :: "channel_env \<Rightarrow> account_config \<Rightarrow> adapter_health" where
  "goip_healthCheck env acc =
     (let latency = (lit ''latencyMs'', JNum (of_int (ch_done env - ch_now env))) in
      case goip_call env acc ''querylines'' [] of
        Inl e \<Rightarrow> \<lparr>ah_ok = False, ah_details = [(lit ''error'', JStr e), latency]\<rparr>
      | Inr (status, answer) \<Rightarrow>
          (let ls = items (Some answer); usable = length (filter (\<lambda>l. line_online env l \<and> line_registered env l) ls)
           in \<lparr>ah_ok = response_ok status \<and> 0 < length ls \<and> 0 < usable,
               ah_details = [(lit ''httpStatus'', JNum (of_int status)), latency,
                 (lit ''lines'', JNum (of_nat (length ls))), (lit ''usableLines'', JNum (of_nat usable))]
                 @ (if status = 401 then [(lit ''error'', JStr (lit ''SMS Server rejected the credentials''))] else [])\<rparr>))"

section \<open>Sending\<close>

definition rejectCode :: "ustring \<Rightarrow> ustring" where
  "rejectCode reason =
     (if reason = lit ''none_line'' then lit ''NO_USABLE_LINE''
      else if reason = lit ''none_provider'' then lit ''UNKNOWN_PROVIDER''
      else lit ''SEND_REJECTED'')"

definition rejectMessage :: "ustring \<Rightarrow> ustring" where
  "rejectMessage reason =
     (if reason = lit ''none_line''
      then [1053, 1077, 1084, 1072, 1108] @ lit '' '' @ [1076, 1086, 1089, 1090, 1091, 1087, 1085, 1086, 1111] @
      lit '' '' @ [1083, 1110, 1085, 1110, 1111] @ lit '': SIM '' @ [1085, 1077] @ lit '' '' @ [1079, 1072, 1088,
      1077, 1108, 1089, 1090, 1088, 1086, 1074, 1072, 1085, 1072] @ lit '' '' @ [1074] @ lit '' '' @ [1084, 1077,
      1088, 1077, 1078, 1110] @ lit '' '' @ [1072, 1073, 1086] @ lit '' SMS '' @ [1074, 1080, 1084, 1082, 1085,
      1077, 1085, 1086]
      else if reason = lit ''none_provider''
      then [1054, 1087, 1077, 1088, 1072, 1090, 1086, 1088, 1072] @ lit '' '' @ [1079] @ lit '' '' @ [1090, 1072,
      1082, 1086, 1102] @ lit '' '' @ [1085, 1072, 1079, 1074, 1086, 1102] @ lit '' '' @ [1085, 1077] @ lit '' '' @
      [1085, 1072, 1083, 1072, 1096, 1090, 1086, 1074, 1072, 1085, 1086] @ lit '' '' @ [1074] @ lit '' SMS-'' @
      [1089, 1077, 1088, 1074, 1077, 1088, 1110]
      else lit ''SMS-'' @ [1089, 1077, 1088, 1074, 1077, 1088] @ lit '' '' @ [1074, 1110, 1076, 1093, 1080, 1083,
      1080, 1074] @ lit '' '' @ [1079, 1072, 1087, 1080, 1090] @ lit '': '' @ reason)"

definition goip_send :: "channel_env \<Rightarrow> outbound_message \<Rightarrow> endpoint_config \<Rightarrow> account_config \<Rightarrow> send_answer" where
  "goip_send env o' ep acc =
     (let recipient = filter is_digit (recipient_of o'); text = outbound_text o'; fmt = ch_fmt env in
      if recipient = [] then Answered (refused (lit ''NO_RECIPIENT'') (lit ''no recipient after normalisation'') False JNull)
      else if text = [] then Answered (refused (lit ''EMPTY_BODY'') (lit ''SMS requires a text body'') False JNull)
      else (case goip_call env acc ''sendsms''
                   ([(lit ''number'', JStr recipient), (lit ''content'', JStr text)]
                    @ (case lineId env ep of Some l \<Rightarrow> [(lit ''goip_line'', JStr l)] | None \<Rightarrow> [])) of
              Inl e \<Rightarrow> Answered (refused (lit ''NETWORK_ERROR'') e True JNull)
            | Inr (status, answer) \<Rightarrow>
                if status = 401
                then Answered (refused (lit ''AUTH_FAILED'') (lit ''SMS Server rejected the credentials'') False answer)
                else if \<not> response_ok status \<or> \<not> truthy answer
                then Answered (refused (http_code status) (lit ''SMS Server returned '' @ dec_str (nat status))
                       (500 \<le> status) answer)
                else if map upper_cp (js_String fmt (own answer (lit ''result''))) \<noteq> lit ''ACCEPT''
                then (let reason = js_String fmt (coalesce (own answer (lit ''reason'')) (Some (JStr (lit ''unknown''))))
                      in Answered (refused (rejectCode reason) (rejectMessage reason) (reason = lit ''none_line'') answer))
                else (let taskId = text_or_empty fmt (own answer (lit ''taskID''))
                      in Answered (taken (if taskId = [] then None else Some (taskId @ lit ''.'' @ recipient)) answer))))"

section \<open>Delivery reports\<close>

definition RETRYABLE_CMS_ERRORS :: "ustring list" where
  "RETRYABLE_CMS_ERRORS = map lit [''17'', ''38'', ''41'', ''42'', ''47'', ''192'', ''194'', ''331'', ''332'']"

definition CMS_ERRORS :: "(ustring \<times> ustring) list" where
  "CMS_ERRORS =
     [(lit ''1'', [1053, 1086, 1084, 1077, 1088] @ lit '' '' @ [1085, 1077] @ lit '' '' @ [1110, 1089, 1085, 1091,
      1108]),
      (lit ''8'', [1047, 1072, 1073, 1083, 1086, 1082, 1086, 1074, 1072, 1085, 1086] @ lit '' '' @ [1086, 1087,
      1077, 1088, 1072, 1090, 1086, 1088, 1086, 1084]),
      (lit ''17'', [1047, 1073, 1110, 1081] @ lit '' '' @ [1084, 1077, 1088, 1077, 1078, 1110]),
      (lit ''21'', [1054, 1087, 1077, 1088, 1072, 1090, 1086, 1088] @ lit '' '' @ [1074, 1110, 1076, 1093, 1080,
      1083, 1080, 1074] @ lit '' '' @ [1087, 1086, 1074, 1110, 1076, 1086, 1084, 1083, 1077, 1085, 1085, 1103]),
      (lit ''27'', [1040, 1073, 1086, 1085, 1077, 1085, 1090] @ lit '' '' @ [1085, 1077, 1076, 1086, 1089, 1090,
      1091, 1087, 1085, 1080, 1081]),
      (lit ''28'', [1053, 1077, 1074, 1110, 1076, 1086, 1084, 1080, 1081] @ lit '' '' @ [1072, 1073, 1086, 1085,
      1077, 1085, 1090]),
      (lit ''38'', [1052, 1077, 1088, 1077, 1078, 1072] @ lit '' '' @ [1085, 1077, 1076, 1086, 1089, 1090, 1091,
      1087, 1085, 1072]),
      (lit ''41'', [1058, 1080, 1084, 1095, 1072, 1089, 1086, 1074, 1080, 1081] @ lit '' '' @ [1079, 1073, 1110,
      1081]),
      (lit ''42'', [1055, 1077, 1088, 1077, 1074, 1072, 1085, 1090, 1072, 1078, 1077, 1085, 1085, 1103] @
      lit '' '' @ [1084, 1077, 1088, 1077, 1078, 1110]),
      (lit ''208'', [1055, 1072, 1084, 8217, 1103, 1090, 1100] @ lit '' SIM '' @ [1076, 1083, 1103] @
      lit '' SMS '' @ [1087, 1077, 1088, 1077, 1087, 1086, 1074, 1085, 1077, 1085, 1072]),
      (lit ''310'', lit ''SIM '' @ [1085, 1077] @ lit '' '' @ [1074, 1089, 1090, 1072, 1074, 1083, 1077, 1085,
      1086]),
      (lit ''311'', [1055, 1086, 1090, 1088, 1110, 1073, 1077, 1085] @ lit '' PIN SIM''),
      (lit ''313'', [1047, 1073, 1110, 1081] @ lit '' SIM''),
      (lit ''322'', [1055, 1072, 1084, 8217, 1103, 1090, 1100] @ lit '' '' @ [1087, 1077, 1088, 1077, 1087, 1086,
      1074, 1085, 1077, 1085, 1072]),
      (lit ''330'', [1053, 1077, 1074, 1110, 1076, 1086, 1084, 1072] @ lit '' '' @ [1072, 1076, 1088, 1077, 1089,
      1072] @ lit '' SMSC''),
      (lit ''331'', [1053, 1077, 1084, 1072, 1108] @ lit '' '' @ [1084, 1077, 1088, 1077, 1078, 1110]),
      (lit ''332'', [1058, 1072, 1081, 1084] @ lit ''-'' @ [1072, 1091, 1090] @ lit '' '' @ [1084, 1077, 1088,
      1077, 1078, 1110])]"

definition cmsErrorText :: "ustring \<Rightarrow> ustring" where
  "cmsErrorText code = (case map_of CMS_ERRORS code of Some t \<Rightarrow> t
     | None \<Rightarrow> [1055, 1086, 1084, 1080, 1083, 1082, 1072] @ lit '' GSM, '' @ [1082, 1086, 1076] @
      lit '' CMS '' @ code)"

definition send_state :: "ustring \<Rightarrow> status_name' option" where
  "send_state s =
     (if s = lit ''succeeded'' \<or> s = lit ''sending'' then Some st_sent
      else if s = lit ''failed'' then Some st_failed else None)"

definition report_error :: "ustring option \<Rightarrow> adapter_error" where
  "report_error errCode = (case errCode of
       Some c \<Rightarrow> \<lparr>ae_code = lit ''CMS_'' @ c, ae_message = cmsErrorText c, ae_retryable = c \<in> set RETRYABLE_CMS_ERRORS\<rparr>
     | None \<Rightarrow> \<lparr>ae_code = lit ''SMS_FAILED'', ae_message = lit ''SMS Server reported a failure'', ae_retryable = False\<rparr>)"

definition goip_status :: "channel_env \<Rightarrow> account_config \<Rightarrow> json \<Rightarrow> canonical_status option" where
  "goip_status env acc raw =
     (if \<not> is_object raw then None
      else let fmt = ch_fmt env; externalId = text_or_empty fmt (own raw (lit ''taskID''));
               sendState = map lower_cp (text_or_empty fmt (own raw (lit ''send'')))
           in if externalId = [] \<or> sendState = [] then None
              else (case send_state sendState of
                      None \<Rightarrow> None
                    | Some s \<Rightarrow>
                        (let status = (if s = st_sent \<and> text_or_empty fmt (own raw (lit ''receipt'')) = lit ''1''
                                       then st_delivered else s);
                             errCode = (if holds (own raw (lit ''err_code''))
                                        then Some (js_String fmt (own raw (lit ''err_code''))) else None)
                         in Some \<lparr>cs_externalId = externalId, cs_status = status,
                              cs_error = (if status = st_failed then Some (report_error errCode) else None),
                              cs_rawPayload = raw\<rparr>)))"

definition goip_queryStatus :: "channel_env \<Rightarrow> account_config \<Rightarrow> ustring \<Rightarrow> ustring + canonical_status option" where
  "goip_queryStatus env acc externalId =
     (case goip_call env acc ''querysms'' [(lit ''taskID'', JStr externalId)] of
        Inl e \<Rightarrow> Inl e
      | Inr (status, answer) \<Rightarrow>
          (case first_item (Some answer) of None \<Rightarrow> Inr None | Some r \<Rightarrow> Inr (goip_status env acc r)))"

section \<open>Wall clock times\<close>

text \<open>
  \<open>Date.UTC\<close> with the month counted from 0: the number of days before a month of the
  proleptic Gregorian calendar, from 1 January 1970; a year below 100 is one of the
  twentieth century.
\<close>

definition leap_year :: "int \<Rightarrow> bool" where
  "leap_year y \<longleftrightarrow> y mod 4 = 0 \<and> (y mod 100 \<noteq> 0 \<or> y mod 400 = 0)"

definition days_before_year :: "int \<Rightarrow> int" where
  "days_before_year y = 365 * (y - 1970) + (y - 1969) div 4 - (y - 1901) div 100 + (y - 1601) div 400"

definition days_before_month :: "int \<Rightarrow> int \<Rightarrow> int" where
  "days_before_month y m = [0, 31, 59, 90, 120, 151, 181, 212, 243, 273, 304, 334] ! nat m + (if 2 \<le> m \<and> leap_year y then 1 else 0)"

definition date_utc :: "int \<Rightarrow> int \<Rightarrow> int \<Rightarrow> int \<Rightarrow> int \<Rightarrow> int \<Rightarrow> int" where
  "date_utc year month day hour minute second =
     (let y0 = (if 0 \<le> year \<and> year \<le> 99 then 1900 + year else year); y = y0 + month div 12; m = month mod 12;
          days = days_before_year y + days_before_month y m + day - 1
      in (days * 86400 + hour * 3600 + minute * 60 + second) * 1000)"

text \<open>\<open>YYYY-MM-DD hh:mm\<close> and an optional \<open>:ss\<close>, at the beginning of the text.\<close>

definition digits_at :: "nat \<Rightarrow> nat \<Rightarrow> ustring \<Rightarrow> bool" where
  "digits_at i n s \<longleftrightarrow> i + n \<le> length s \<and> list_all is_digit (take n (drop i s))"

definition number_at :: "nat \<Rightarrow> nat \<Rightarrow> ustring \<Rightarrow> int" where
  "number_at i n s = int (dec_val (take n (drop i s)))"

definition stamp_fields :: "ustring \<Rightarrow> (int \<times> int \<times> int \<times> int \<times> int \<times> int) option" where
  "stamp_fields s =
     (if digits_at 0 4 s \<and> digits_at 5 2 s \<and> digits_at 8 2 s \<and> digits_at 11 2 s \<and> digits_at 14 2 s
         \<and> s ! 4 = 45 \<and> s ! 7 = 45 \<and> (s ! 10 = 32 \<or> s ! 10 = 84) \<and> s ! 13 = 58
      then Some (number_at 0 4 s, number_at 5 2 s, number_at 8 2 s, number_at 11 2 s, number_at 14 2 s,
             if digits_at 17 2 s \<and> s ! 16 = 58 then number_at 17 2 s else 0)
      else None)"

definition zoneOffset :: "channel_env \<Rightarrow> ustring \<Rightarrow> int \<Rightarrow> int option" where
  "zoneOffset env timeZone epochMs =
     (case ch_parts env timeZone epochMs of
        Some [y, mo, d, h, mi, s] \<Rightarrow> Some (date_utc y (mo - 1) d h mi s - epochMs div 1000 * 1000)
      | _ \<Rightarrow> None)"

definition parseWallClock :: "channel_env \<Rightarrow> ustring \<Rightarrow> ustring \<Rightarrow> int option" where
  "parseWallClock env stamp timeZone =
     (case stamp_fields (js_trim stamp) of
        None \<Rightarrow> None
      | Some (y, mo, d, h, mi, s) \<Rightarrow>
          (let asUtc = date_utc y (mo - 1) d h mi s in
           case zoneOffset env timeZone asUtc of
             None \<Rightarrow> None
           | Some off \<Rightarrow>
               (case zoneOffset env timeZone (asUtc - off) of
                  None \<Rightarrow> None
                | Some off' \<Rightarrow> Some (asUtc - off'))))"

definition STAMP_TOLERANCE_MS :: int where
  "STAMP_TOLERANCE_MS = 5 * 60000"

section \<open>Inbound messages\<close>

definition sms_zone :: "channel_env \<Rightarrow> account_config \<Rightarrow> ustring" where
  "sms_zone env acc =
     (let z = text_or_empty (ch_fmt env) (own (cc_config acc) (lit ''timezone'')) in
      if z \<noteq> [] then z
      else (case ch_getenv env ''DBSMS_TIMEZONE'' of Some (c # cs) \<Rightarrow> c # cs | _ \<Rightarrow> lit ''UTC''))"

definition sms_stamp :: "channel_env \<Rightarrow> account_config \<Rightarrow> json \<Rightarrow> int option" where
  "sms_stamp env acc raw =
     (if holds (own raw (lit ''recv_time''))
      then parseWallClock env (js_String (ch_fmt env) (own raw (lit ''recv_time''))) (sms_zone env acc) else None)"

definition receivedAt :: "channel_env \<Rightarrow> int option \<Rightarrow> int" where
  "receivedAt env parsed =
     (case parsed of None \<Rightarrow> ch_now env
      | Some t \<Rightarrow> if \<bar>t - ch_now env\<bar> > STAMP_TOLERANCE_MS then ch_now env else t)"

definition goip_inbound :: "channel_env \<Rightarrow> account_config \<Rightarrow> endpoint_config \<Rightarrow> json \<Rightarrow> canonical_inbound list" where
  "goip_inbound env acc ep raw =
     (if \<not> is_object raw then []
      else let fmt = ch_fmt env; from = js_trim (text_or_empty fmt (own raw (lit ''from_number'')));
               text = text_or_empty fmt (own raw (lit ''content''))
           in if from = [] \<or> text = [] then []
              else let parsed = sms_stamp env acc raw; time = receivedAt env parsed;
                       digest = take 16 (ch_sha256 env text); line = own raw (lit ''goip_line'')
                   in [\<lparr>ci_direction = inbound,
                        ci_externalId = js_String fmt (coalesce line (Some (JStr (lit ''line'')))) @ lit '':'' @ from @ lit '':''
                          @ int_text (case parsed of Some t \<Rightarrow> t | None \<Rightarrow> time) @ lit '':'' @ digest,
                        ci_from = makeAddress from,
                        ci_to = [makeAddress (case ec_phoneE164 ep of Some p \<Rightarrow> p | None \<Rightarrow> ec_externalId ep)],
                        ci_type = lit ''text'', ci_text = Some text, ci_attachments = [],
                        ci_meta = [(lit ''goipLine'', case coalesce line None of Some l \<Rightarrow> l | None \<Rightarrow> JNull)],
                        ci_more = [], ci_receivedAt = time, ci_rawPayload = raw\<rparr>])"

text \<open>The adapter as the ingest service uses it.\<close>

definition goip_adapter :: "channel_env \<Rightarrow> inbound_adapter" where
  "goip_adapter env = \<lparr>ia_status = goip_status env, ia_inbound = (\<lambda>acc ep raw. Some (goip_inbound env acc ep raw)),
     ia_fetch = None\<rparr>"

section \<open>Lines, USSD and balance\<close>

record sms_line =
  sl_line :: ustring
  sl_online :: bool
  sl_registered :: bool
  sl_remainingSms :: "rat option"

text \<open>A number of remaining messages that is not one is \<open>None\<close> here, as an unlimited one.\<close>

definition listLines :: "channel_env \<Rightarrow> account_config \<Rightarrow> ustring + sms_line list" where
  "listLines env acc =
     (case goip_call env acc ''querylines'' [] of
        Inl e \<Rightarrow> Inl e
      | Inr (status, answer) \<Rightarrow>
          Inr (map (\<lambda>l. let remain = own l (lit ''remain_sms'') in
             \<lparr>sl_line = text_or_empty (ch_fmt env) (own l (lit ''goip_line'')), sl_online = line_online env l,
              sl_registered = line_registered env l,
              sl_remainingSms = (if remain = None \<or> js_String (ch_fmt env) remain = lit ''-1'' then None
                                 else js_Number (ch_fmt env) remain)\<rparr>) (items (Some answer))))"

definition ussd_query :: "channel_env \<Rightarrow> account_config \<Rightarrow> ustring \<Rightarrow> ustring \<Rightarrow> ustring + ustring" where
  "ussd_query env acc line code =
     (case goip_auth env acc of
        Inl e \<Rightarrow> Inl e
      | Inr (username, password) \<Rightarrow>
          (case goip_baseUrl env acc of
             Inl e \<Rightarrow> Inl e
           | Inr base \<Rightarrow>
               (case (encodeURIComponent username, encodeURIComponent password, encodeURIComponent line, encodeURIComponent code) of
                  (Some u, Some p, Some l, Some c) \<Rightarrow>
                    Inr (base @ lit ''/goip/en/ussd.php'' @ lit ''?USERNAME='' @ u @ lit ''&PASSWORD='' @ p
                         @ lit ''&TERMID='' @ l @ lit ''&USSDMSG='' @ c)
                | _ \<Rightarrow> Inl (lit ''URI malformed''))))"

definition sendUssd :: "channel_env \<Rightarrow> account_config \<Rightarrow> ustring \<Rightarrow> ustring \<Rightarrow> ustring + (bool \<times> ustring)" where
  "sendUssd env acc line code =
     (case ussd_query env acc line code of
        Inl e \<Rightarrow> Inl e
      | Inr url \<Rightarrow>
          (case ch_fetch env (get_request url []) of
             Inl e \<Rightarrow> Inl e
           | Inr r \<Rightarrow>
               (let text = js_trim (hr_text r) in
                if \<not> response_ok (hr_status r)
                then Inr (False, lit ''SMS Server returned '' @ dec_str (nat (hr_status r)))
                else if starts_with (lit ''error'') (map lower_cp text) then Inr (False, text)
                else Inr (True, if starts_with (lit ''ok'') (map lower_cp text)
                                then dropWhile js_space (drop 2 text) else text))))"

text \<open>
  \<open>toLowerCase\<close> of the Latin and Cyrillic letters, and the Cyrillic letter variants that the
  flag \<open>i\<close> of a regular expression identifies with them.
\<close>

definition fold_cp :: "nat \<Rightarrow> nat" where
  "fold_cp c =
     (if 65 \<le> c \<and> c \<le> 90 \<or> 1040 \<le> c \<and> c \<le> 1071 then c + 32
      else if 1024 \<le> c \<and> c \<le> 1039 then c + 80
      else if c = 1168 then 1169
      else if c = 7296 then 1074 else if c = 7297 then 1076 else if c = 7298 then 1086
      else if c = 7299 then 1089 else if c = 7300 \<or> c = 7301 then 1090
      else c)"

definition debt_words :: "ustring list" where
  "debt_words = [lit ''zaborhovanist'', lit ''zaborgovanist'', [1079, 1072, 1073, 1086, 1088, 1075, 1086, 1074,
    1072, 1085], lit ''borh'', [1073, 1086, 1088, 1075],
     lit ''do splaty'', [1076, 1086] @ lit '' '' @ [1089, 1087, 1083, 1072, 1090, 1080]]"

definition is_debt :: "ustring \<Rightarrow> bool" where
  "is_debt text \<longleftrightarrow> list_ex (\<lambda>w. occurs w text) debt_words"

definition currency_words :: "ustring list" where
  "currency_words = [lit ''grn'', lit ''hrn'', [1075, 1088, 1085], lit ''uah'', [8372]]"

definition currency_at :: "ustring \<Rightarrow> ustring option" where
  "currency_at s = find (\<lambda>w. starts_with w s) currency_words"

text \<open>The first match of a regular expression, searched from left to right.\<close>

fun scan :: "(ustring \<Rightarrow> 'a option) \<Rightarrow> ustring \<Rightarrow> 'a option" where
  "scan f [] = f []"
| "scan f (c # cs) = (case f (c # cs) of Some m \<Rightarrow> Some m | None \<Rightarrow> scan f cs)"

definition decimal_here :: "ustring \<Rightarrow> (rat \<times> ustring option) option" where
  "decimal_here s =
     (let whole = takeWhile is_digit s; rest = dropWhile is_digit s;
          frac = (case rest of c # t \<Rightarrow> if c = 46 \<or> c = 44 then take 2 (takeWhile is_digit t) else [] | [] \<Rightarrow> [])
      in if whole = [] \<or> frac = [] then None
         else Some (of_nat (dec_val whole) + of_nat (dec_val frac) / 10 ^ length frac,
                    currency_at (dropWhile js_space (drop (Suc (length frac)) rest))))"

definition integer_here :: "ustring \<Rightarrow> (rat \<times> ustring option) option" where
  "integer_here s =
     (let whole = takeWhile is_digit s in
      if whole = [] then None
      else (case currency_at (dropWhile js_space (dropWhile is_digit s)) of
              None \<Rightarrow> None
            | Some c \<Rightarrow> Some (of_nat (dec_val whole), Some c)))"

definition normaliseCurrency :: "ustring \<Rightarrow> ustring" where
  "normaliseCurrency raw =
     (let c = map fold_cp raw in
      if c = lit ''grn'' \<or> c = lit ''hrn'' \<or> c = [1075, 1088,
      1085] \<or> c = [8372] then lit ''uah'' else c)"

definition parseBalance :: "ustring \<Rightarrow> rat option \<times> ustring option" where
  "parseBalance answer =
     (let text = map fold_cp answer in
      case (case scan decimal_here text of Some m \<Rightarrow> Some m | None \<Rightarrow> scan integer_here text) of
        None \<Rightarrow> (None, None)
      | Some (magnitude, currency) \<Rightarrow>
          (Some (if is_debt text then - \<bar>magnitude\<bar> else magnitude),
           Some (case currency of Some c \<Rightarrow> normaliseCurrency c | None \<Rightarrow> lit ''uah'')))"

record balance_answer =
  ba_ok :: bool
  ba_amount :: "rat option"
  ba_currency :: "ustring option"
  ba_reply :: ustring

definition goip_checkBalance :: "channel_env \<Rightarrow> account_config \<Rightarrow> ustring \<Rightarrow> ustring \<Rightarrow> ustring + balance_answer" where
  "goip_checkBalance env acc line ussdCode =
     (case sendUssd env acc line ussdCode of
        Inl e \<Rightarrow> Inl e
      | Inr (ok, answer) \<Rightarrow>
          if \<not> ok then Inr \<lparr>ba_ok = False, ba_amount = None, ba_currency = None, ba_reply = answer\<rparr>
          else (let (amount, currency) = parseBalance answer
                in Inr \<lparr>ba_ok = True, ba_amount = amount, ba_currency = currency, ba_reply = answer\<rparr>))"

section \<open>Sending keeps the contract\<close>

interpretation goip: channel_sender goip_send
  by unfold_locales (auto simp: goip_send_def Let_def split: sum.split option.split)

section \<open>Time and identity of an inbound message\<close>

lemma receivedAt_close: "\<bar>receivedAt env p - ch_now env\<bar> \<le> STAMP_TOLERANCE_MS"
  by (auto simp: receivedAt_def STAMP_TOLERANCE_MS_def split: option.split)

lemma goip_inbound_cases:
  "goip_inbound env acc ep raw = [] \<or> (\<exists>i. goip_inbound env acc ep raw = [i]
     \<and> ci_receivedAt i = receivedAt env (sms_stamp env acc raw)
     \<and> truthy_str (ci_text i) \<and> ci_externalId i \<noteq> [])"
  unfolding goip_inbound_def Let_def by auto

text \<open>
  The time given to an inbound SMS is never further from its arrival than the tolerance,
  however wrong the clock or the zone of the SMS server is, and it is the server's stamp
  whenever that lies within the tolerance.
\<close>

theorem sms_time_is_bounded:
  "\<forall>i\<in>set (goip_inbound env acc ep raw). \<bar>ci_receivedAt i - ch_now env\<bar> \<le> STAMP_TOLERANCE_MS
     \<and> (\<forall>t. sms_stamp env acc raw = Some t \<longrightarrow> \<bar>t - ch_now env\<bar> \<le> STAMP_TOLERANCE_MS \<longrightarrow> ci_receivedAt i = t)"
  using goip_inbound_cases [of env acc ep raw] receivedAt_close by (auto simp: receivedAt_def)

text \<open>What another arrival time changes in a message whose stamp can be read: only the time.\<close>

lemma sms_stamp_time [simp]: "sms_stamp (env\<lparr>ch_now := t\<rparr>) acc raw = sms_stamp env acc raw"
proof -
  have z: "zoneOffset (env\<lparr>ch_now := t\<rparr>) = zoneOffset env" by (simp add: fun_eq_iff zoneOffset_def)
  have p: "parseWallClock (env\<lparr>ch_now := t\<rparr>) = parseWallClock env"
    unfolding fun_eq_iff parseWallClock_def z by simp
  have "sms_zone (env\<lparr>ch_now := t\<rparr>) acc = sms_zone env acc"
    by (simp add: sms_zone_def config_text_def Let_def cong: if_cong)
  then show ?thesis by (simp add: sms_stamp_def p)
qed

lemma goip_inbound_later:
  assumes "sms_stamp env acc raw \<noteq> None"
  shows "goip_inbound (env\<lparr>ch_now := t\<rparr>) acc ep raw =
    map (\<lambda>i. i\<lparr>ci_receivedAt := receivedAt (env\<lparr>ch_now := t\<rparr>) (sms_stamp env acc raw)\<rparr>) (goip_inbound env acc ep raw)"
  using assms unfolding goip_inbound_def Let_def by auto

lemma goip_status_time [simp]: "goip_status (env\<lparr>ch_now := t\<rparr>) = goip_status env"
  by (simp add: fun_eq_iff goip_status_def Let_def)

text \<open>A segment that has been buffered is found in the buffer; one that is found is not added.\<close>

abbreviation segment_known :: "ingest_env \<Rightarrow> canonical_inbound \<Rightarrow> ustring \<Rightarrow> db \<Rightarrow> bool" where
  "segment_known env i e d \<equiv> list_ex (\<lambda>w. sp_text w = the (ci_text (repaired env i))) (waiting_parts e (ca_raw (ci_from i)) d)"

lemma buffered_is_known: "bufferIfPart env i e d = (True, d1) \<Longrightarrow> segment_known env i e d1"
  by (auto simp: bufferIfPart_def waiting_parts_def Let_def case_prod_beta fresh_id_def split: if_splits)

lemma known_is_kept: "truthy_str (ci_text i) \<Longrightarrow> segment_known env i e d \<Longrightarrow> bufferIfPart env i e d = (True, d)"
  by (auto simp: bufferIfPart_def Let_def)

lemma not_buffered: "truthy_str (ci_text i) \<Longrightarrow> bufferIfPart env i e d = (False, d1) \<Longrightarrow>
    d1 = d \<and> waiting_parts e (ca_raw (ci_from i)) d = [] \<and> \<not> looksLikeIncompletePart (the (ci_text (repaired env i)))"
  by (auto simp: bufferIfPart_def Let_def case_prod_beta split: if_splits)

lemma repaired_time:
  assumes "ie_unicode env' = ie_unicode env"
  shows "repaired env' (i\<lparr>ci_receivedAt := t\<rparr>) = (repaired env i)\<lparr>ci_receivedAt := t\<rparr>"
  using assms by (auto simp: repaired_def Let_def split: option.split)

lemma repaired_fields [simp]:
  "ci_externalId (repaired env i) = ci_externalId i" "ci_from (repaired env i) = ci_from i"
  "ci_to (repaired env i) = ci_to i" "ci_direction (repaired env i) = ci_direction i"
  by (auto simp: repaired_def Let_def split: option.split)

lemma sms_replay_again:
  assumes first: "ingest env name raw (Some e) d = (Some n, d1)"
    and found: "eps.lookup d e = Some ep" "accs.lookup d (ep_accountId ep) = Some acc" "ac_type acc = sms" "e \<noteq> []"
    and adapter: "ie_adapters env (ac_adapter acc) = Some (goip_adapter ch)"
      "ie_adapters env' (ac_adapter acc) = Some (goip_adapter (ch\<lparr>ch_now := t\<rparr>))"
    and same: "ie_unicode env' = ie_unicode env" and race: "benign (ie_race env)"
    and message: "goip_status ch (account_config_of acc) raw = None" "sms_stamp ch (account_config_of acc) raw \<noteq> None"
  shows "ingest env' name raw (Some e) d1 = (Some 0, d1)"
proof -
  let ?c = "account_config_of acc" and ?ep = "endpoint_config_row ep"
  let ?later = "\<lambda>i. i\<lparr>ci_receivedAt := receivedAt (ch\<lparr>ch_now := t\<rparr>) (sms_stamp ch ?c raw)\<rparr>"
  have run1: "ingest_all env (goip_adapter ch) ep acc (goip_inbound ch ?c ?ep raw) 0 d = (Some n, d1)"
    using first found adapter message by (simp add: ingest_def goip_adapter_def)
  have run2: "ingest env' name raw (Some e) x =
      ingest_all env' (goip_adapter (ch\<lparr>ch_now := t\<rparr>)) ep acc (map ?later (goip_inbound ch ?c ?ep raw)) 0 x"
    if "same_frame d x \<or> endpoints x = endpoints d \<and> accounts x = accounts d" for x
    using that found adapter message goip_inbound_later [OF message(2)]
    by (auto simp: ingest_def goip_adapter_def same_frame_def eps.lookup_def accs.lookup_def)
  show ?thesis
  proof (cases "goip_inbound ch ?c ?ep raw = []")
    case True
    with run1 run2 [of d] show ?thesis by simp
  next
    case False
    then obtain i where i: "goip_inbound ch ?c ?ep raw = [i]" "truthy_str (ci_text i)" "ci_externalId i \<noteq> []"
      using goip_inbound_cases by blast
    obtain b x where b: "bufferIfPart env i (ep_id ep) d = (b, x)" by fastforce
    show ?thesis
    proof (cases b)
      case True
      with b run1 found(3) i(1) have x: "x = d1" by simp
      with b True have b1: "bufferIfPart env i (ep_id ep) d = (True, d1)" by simp
      have "endpoints d1 = endpoints d \<and> accounts d1 = accounts d"
        using b1 by (auto simp: bufferIfPart_def Let_def case_prod_beta fresh_id_def split: if_splits)
      moreover have "segment_known env' (?later i) (ep_id ep) d1"
        using buffered_is_known [OF b1] by (simp add: repaired_time [OF same])
      ultimately show ?thesis
        using run2 [of d1] i found(3) known_is_kept [of "?later i" env' "ep_id ep" d1] by simp
    next
      case False
      with b not_buffered [OF i(2)] have x: "x = d" and w: "waiting_parts (ep_id ep) (ca_raw (ci_from i)) d = []"
        "\<not> looksLikeIncompletePart (the (ci_text (repaired env i)))" by simp_all
      from run1 i b False x found(3) obtain s where "ingest_persist env (goip_adapter ch) ep acc (repaired env i) d = (Some s, d1)"
        by (auto split: option.splits prod.splits)
      from persist_effect [OF this race] i(3)
      have f: "same_frame d d1" and twin: "stored_twin (ep_id ep) (ci_externalId i) d1 \<noteq> None" by auto
      have "bufferIfPart env' (?later i) (ep_id ep) d1 = (False, d1)"
        using w f i(2) by (simp add: bufferIfPart_def Let_def waiting_parts_def same_frame_def repaired_time [OF same])
      with run2 [of d1] f i found(3) twin show ?thesis
        using persist_twin [of ep "repaired env' (?later i)" d1 env' "goip_adapter (ch\<lparr>ch_now := t\<rparr>)" acc] by simp
    qed
  qed
qed

lemma peer_known_repaired [simp]: "peer_known (repaired env i) = peer_known i"
  by (simp add: peer_known_def counterparty_def)

text \<open>An SMS of a linked line is always taken in: buffered, stored or recognised.\<close>

lemma sms_taken_in:
  assumes "eps.lookup d e = Some ep" "accs.lookup d (ep_accountId ep) = Some acc" "ac_type acc = sms" "e \<noteq> []"
    and "ie_adapters env (ac_adapter acc) = Some (goip_adapter ch)" and "goip_status ch (account_config_of acc) raw = None"
  shows "\<exists>n d1. ingest env name raw (Some e) d = (Some n, d1)"
proof -
  let ?is = "goip_inbound ch (account_config_of acc) (endpoint_config_row ep) raw"
  have run: "ingest env name raw (Some e) d = ingest_all env (goip_adapter ch) ep acc ?is 0 d"
    using assms by (simp add: ingest_def goip_adapter_def)
  have "peer_known i" if "i \<in> set ?is" for i
    using that toE164_not_Nil by (auto simp: goip_inbound_def Let_def peer_known_def counterparty_def makeAddress_def split: if_splits)
  then have known: "peer_known (repaired env i)" if "i \<in> set ?is" for i
    using that by simp
  show ?thesis
  proof (cases "?is = []")
    case False
    then obtain i where i: "?is = [i]" "truthy_str (ci_text i)" using goip_inbound_cases by blast
    from persist_total [OF known] i obtain b d2 where p: "ingest_persist env (goip_adapter ch) ep acc (repaired env i) d = (Some b, d2)"
      by fastforce
    obtain b' x where q: "bufferIfPart env i (ep_id ep) d = (b', x)" by fastforce
    show ?thesis
    proof (cases b')
      case False
      with q not_buffered [OF i(2)] have "x = d" by simp
      with p q False i assms(3) show ?thesis by (simp add: run)
    qed (use q i assms(3) in \<open>simp add: run\<close>)
  qed (simp add: run)
qed

text \<open>
  An SMS that the server forwards again, as it does when a callback was not confirmed,
  changes nothing, however much later it comes: a segment that is held back is not held
  back twice, and a stored message is not stored again. The server's stamp must be readable.
\<close>

theorem sms_replay_stored_once:
  assumes found: "eps.lookup d e = Some ep" "accs.lookup d (ep_accountId ep) = Some acc" "ac_type acc = sms" "e \<noteq> []"
    and adapter: "ie_adapters env (ac_adapter acc) = Some (goip_adapter ch)"
      "ie_adapters env' (ac_adapter acc) = Some (goip_adapter (ch\<lparr>ch_now := t\<rparr>))"
    and same: "ie_unicode env' = ie_unicode env" and race: "benign (ie_race env)"
    and message: "goip_status ch (account_config_of acc) raw = None" "sms_stamp ch (account_config_of acc) raw \<noteq> None"
  shows "\<exists>n d1. ingest env name raw (Some e) d = (Some n, d1) \<and> ingest env' name raw (Some e) d1 = (Some 0, d1)"
proof -
  from sms_taken_in [OF found adapter(1) message(1)] obtain n d1 where "ingest env name raw (Some e) d = (Some n, d1)" by blast
  with sms_replay_again [OF this found adapter same race message] show ?thesis by blast
qed

definition sms_account :: account_row where
  "sms_account = sample_account\<lparr>ac_adapter := lit ''goip-vendor'', ac_type := sms\<rparr>"

definition sms_state :: "message_row list \<Rightarrow> db" where
  "sms_state ms = (empty_db tick_ids)\<lparr>accounts := [sms_account], endpoints := [sample_endpoint], messages := ms\<rparr>"

definition sample_sms :: json where
  "sample_sms = JObj [(lit ''goip_line'', JStr (lit ''G101'')), (lit ''from_number'', JStr (lit ''0671112233'')),
     (lit ''content'', JStr (lit ''hi'')), (lit ''recv_time'', JStr (lit ''2024-05-01 10:00:07''))]"

definition sms_env :: "channel_env \<Rightarrow> ingest_env" where
  "sms_env ch = sample_ingest_env\<lparr>ie_adapters := (\<lambda>n. Some (goip_adapter ch))\<rparr>"

lemma sms_state_rows:
  "eps.lookup (sms_state ms) (lit ''e'') = Some sample_endpoint"
  "accs.lookup (sms_state ms) (ep_accountId sample_endpoint) = Some sms_account" "ac_type sms_account = sms"
  by (simp_all add: eps.lookup_def accs.lookup_def sms_state_def sample_endpoint_def sms_account_def sample_account_def)

lemma sample_stamp: "stamp_fields (js_trim (lit ''2024-05-01 10:00:07'')) = Some (2024, 5, 1, 10, 0, 7)"
proof -
  have "lit ''2024-05-01 10:00:07'' = [50, 48, 50, 52, 45, 48, 53, 45, 48, 49, 32, 49, 48, 58, 48, 48, 58, 48, 55]"
    by (simp add: lit_def)
  then show ?thesis
    by (simp add: js_trim_def js_space_def stamp_fields_def digits_at_def number_at_def is_digit_def)
qed

lemma sample_times: "date_utc 2024 4 1 10 0 7 = 1714557607000" "date_utc 1970 0 1 0 0 1714557607 = 1714557607000"
  by (simp_all add: date_utc_def days_before_year_def days_before_month_def leap_year_def)

lemma sample_sms_reads:
  "goip_status (plain_channel f) c sample_sms = None"
  "sms_stamp (plain_channel f) c sample_sms = Some 1714557607000"
proof -
  show "goip_status (plain_channel f) c sample_sms = None"
    by (simp add: goip_status_def sample_sms_def text_or_empty_def js_String_def plain_channel_def Let_def)
  have "js_String fmt (own sample_sms (lit ''recv_time'')) = lit ''2024-05-01 10:00:07''" for fmt
    by (simp add: sample_sms_def js_String_def)
  then show "sms_stamp (plain_channel f) c sample_sms = Some 1714557607000"
    by (simp add: sms_stamp_def holds_def sample_sms_def parseWallClock_def sample_stamp sample_times zoneOffset_def plain_channel_def Let_def)
qed

theorem sms_replay_stored_once_witness:
  "\<exists>n d1. ingest (sms_env (plain_channel (\<lambda>r. Inl []))) (lit ''goip-vendor'') sample_sms (Some (lit ''e'')) (sms_state []) = (Some n, d1)
     \<and> ingest (sms_env ((plain_channel (\<lambda>r. Inl []))\<lparr>ch_now := 1714559999000\<rparr>)) (lit ''goip-vendor'') sample_sms (Some (lit ''e'')) d1 = (Some 0, d1)"
  by (rule sms_replay_stored_once [OF sms_state_rows, where ch = "plain_channel (\<lambda>r. Inl [])"])
    (simp_all add: sms_env_def sample_ingest_env_def benign_id sample_sms_reads)

text \<open>Concretely: a stamp seven seconds ahead of the arrival is kept.\<close>

theorem sms_time_is_bounded_witness:
  "\<exists>i. goip_inbound (plain_channel (\<lambda>r. Inl [])) (account_config_of sms_account) (endpoint_config_row sample_endpoint) sample_sms = [i]
     \<and> ci_receivedAt i = 1714557607000"
proof -
  let ?is = "goip_inbound (plain_channel (\<lambda>r. Inl [])) (account_config_of sms_account) (endpoint_config_row sample_endpoint) sample_sms"
  have "?is \<noteq> []"
    by (simp add: goip_inbound_def sample_sms_def text_or_empty_def js_String_def Let_def js_trim_id string_simps js_space_def)
  then obtain i where i: "?is = [i]" using goip_inbound_cases by blast
  with sms_time_is_bounded [of "plain_channel (\<lambda>r. Inl [])" "account_config_of sms_account" "endpoint_config_row sample_endpoint" sample_sms]
  show ?thesis by (simp add: sample_sms_reads STAMP_TOLERANCE_MS_def)
qed

section \<open>A report finds its message\<close>

lemma goip_answer_id:
  assumes "goip_send ch o' ep acc = Answered r" and "re_externalId r = Some x"
  shows "re_accepted r \<and> x \<noteq> []"
  using assms by (auto simp: goip_send_def refused_def taken_def Let_def split: if_splits sum.splits prod.splits)

text \<open>The report of a carrier's receipt for the message with the given id.\<close>

definition receipt_report :: "ustring \<Rightarrow> json" where
  "receipt_report x = JObj [(lit ''taskID'', JStr x), (lit ''goip_line'', JStr (lit ''G101'')),
     (lit ''send'', JStr (lit ''succeeded'')), (lit ''receipt'', JStr (lit ''1''))]"

lemma receipt_report_status:
  assumes "x \<noteq> []"
  shows "goip_status ch acc (receipt_report x) =
    Some \<lparr>cs_externalId = x, cs_status = st_delivered, cs_error = None, cs_rawPayload = receipt_report x\<rparr>"
proof -
  have "map lower_cp (lit ''succeeded'') = lit ''succeeded''" by (simp add: lit_def lower_cp_def)
  with assms show ?thesis
    by (simp add: goip_status_def receipt_report_def text_or_empty_def js_String_def send_state_def Let_def)
qed

text \<open>
  The id that an accepted send returns is the one the server's report is matched by: when
  the message has been stored as sent under it, the carrier's receipt makes the message
  delivered, with one history entry, and changes no other message.
\<close>

theorem receipt_delivers_sent_message:
  assumes sent: "goip_send ch o' endpoint account = Answered r" "re_externalId r = Some x"
    and found: "eps.lookup d e = Some ep" "accs.lookup d (ep_accountId ep) = Some acc" "e \<noteq> []"
    and adapter: "ie_adapters env (ac_adapter acc) = Some (goip_adapter ch)"
    and stored: "msgs.lookup d i = Some m" "ms_endpointId m = e" "ms_externalId m = Some x" "ms_direction m = outbound" "ms_status m = sent"
    and unique: "\<forall>m'\<in>set (messages d). ms_endpointId m' = e \<and> ms_externalId m' = Some x \<longrightarrow> m' = m"
  shows "\<exists>d1. ingest env name (receipt_report x) (Some e) d = (Some 0, d1)
     \<and> messages d1 = update_where (\<lambda>m. ms_id m = i) (\<lambda>m. m\<lparr>ms_status := delivered, ms_updatedAt := ie_now env\<rparr>) (messages d)
     \<and> map (\<lambda>h. (hi_messageId h, hi_status h)) (history d1) = map (\<lambda>h. (hi_messageId h, hi_status h)) (history d) @ [(i, delivered)]"
proof -
  let ?s = "\<lparr>cs_externalId = x, cs_status = st_delivered, cs_error = None, cs_rawPayload = receipt_report x\<rparr>"
  from goip_answer_id [OF sent] have "x \<noteq> []" by simp
  then have run: "ingest env name (receipt_report x) (Some e) d = (Some 0, applyStatus env ?s e d)"
    using found adapter eps.lookup_def [of d e] by (auto simp: ingest_def goip_adapter_def receipt_report_status dest: find_SomeD)
  have m: "m \<in> set (messages d)" "ms_id m = i" using stored(1) by (auto simp: msgs.lookup_def dest: find_SomeD)
  with stored have "reported_message ?s e d \<noteq> None" by (auto simp: reported_message_def find_None_iff)
  then obtain m' where m': "reported_message ?s e d = Some m'" by blast
  then have "m' \<in> set (messages d) \<and> ms_endpointId m' = e \<and> ms_externalId m' = Some x"
    by (auto simp: reported_message_def dest: find_SomeD)
  with unique have "m' = m" by blast
  with m' m stored show ?thesis by (simp add: run applyStatus_def add_history_def set_status_def Let_def)
qed


definition accepting_service :: "http_request \<Rightarrow> ustring + http_response" where
  "accepting_service q = Inr \<lparr>hr_status = 200, hr_json = Some (JObj [(lit ''result'', JStr (lit ''ACCEPT'')),
     (lit ''taskID'', JStr (lit ''77''))]), hr_text = [], hr_bytes = [], hr_type = None\<rparr>"

definition sms_login :: account_config where
  "sms_login = \<lparr>cc_id = lit ''a'', cc_adapter = lit ''goip-vendor'', cc_config = JObj [(lit ''baseUrl'', JStr (lit ''http://s'')),
     (lit ''username'', JStr (lit ''u'')), (lit ''password'', JStr (lit ''p''))]\<rparr>"

definition sample_outbound :: canonical_outbound where
  "sample_outbound = \<lparr>co_messageId = lit ''m'', co_idempotencyKey = lit ''m'',
     co_to = \<lparr>ca_raw = lit ''+380'', ca_e164 = None, ca_display = None\<rparr>, co_type = lit ''text'', co_text = lit ''hi'',
     co_attachments = None\<rparr>"

lemma sample_sms_sent:
  "\<exists>r. goip_send (plain_channel accepting_service) (worker_outbound sample_outbound) (endpoint_config_row sample_endpoint) sms_login
     = Answered r \<and> re_externalId r = Some (lit ''77.380'')"
proof -
  have d: "filter is_digit (lit ''+380'') = lit ''380''" by (simp add: lit_def is_digit_def)
  have u: "map upper_cp (lit ''ACCEPT'') = lit ''ACCEPT''" by (simp add: lit_def upper_cp_def)
  have c: "lit ''77'' @ lit ''.'' @ lit ''380'' = lit ''77.380''" by (simp add: lit_def)
  have "goip_call (plain_channel accepting_service) sms_login k b =
      Inr (200, JObj [(lit ''result'', JStr (lit ''ACCEPT'')), (lit ''taskID'', JStr (lit ''77''))])" for k b
    by (simp add: goip_call_def goip_baseUrl_def goip_auth_def base_url_def config_text_def sms_login_def text_or_empty_def
        js_String_def strip_slash_def plain_channel_def accepting_service_def json_or_def Let_def string_simps)
  then show ?thesis
    by (simp add: goip_send_def recipient_of_def worker_outbound_def sample_outbound_def outbound_text_def d u c
        response_ok_def taken_def text_or_empty_def js_String_def Let_def)
qed

theorem receipt_delivers_sent_message_witness:
  "\<exists>d1. ingest (sms_env (plain_channel accepting_service)) (lit ''goip-vendor'') (receipt_report (lit ''77.380'')) (Some (lit ''e''))
       (sms_state [(sample_message sent None)\<lparr>ms_externalId := Some (lit ''77.380'')\<rparr>]) = (Some 0, d1)
     \<and> map ms_status (messages d1) = [delivered]"
proof -
  let ?m = "(sample_message sent None)\<lparr>ms_externalId := Some (lit ''77.380'')\<rparr>"
  obtain r where "goip_send (plain_channel accepting_service) (worker_outbound sample_outbound) (endpoint_config_row sample_endpoint) sms_login
     = Answered r" "re_externalId r = Some (lit ''77.380'')" using sample_sms_sent by blast
  moreover have m: "ms_id ?m = lit ''m''" "ms_endpointId ?m = lit ''e''" "ms_direction ?m = outbound" "ms_status ?m = sent"
    "ms_externalId ?m = Some (lit ''77.380'')"
    by (simp_all add: sample_message_def outbound_row_def assign_sender_def Let_def)
  moreover have "messages (sms_state [?m]) = [?m]" by (simp add: sms_state_def)
  moreover have "msgs.lookup (sms_state [?m]) (lit ''m'') = Some ?m" using m(1) by (simp add: msgs.lookup_def sms_state_def)
  moreover have "ie_adapters (sms_env ch) n = Some (goip_adapter ch)" for ch n by (simp add: sms_env_def)
  ultimately show ?thesis
    using receipt_delivers_sent_message [OF _ _ sms_state_rows(1,2) [of "[?m]"], where env = "sms_env (plain_channel accepting_service)"
        and i = "lit ''m''" and m = ?m and name = "lit ''goip-vendor''" and ch = "plain_channel accepting_service" and x = "lit ''77.380''"]
    by fastforce
qed

section \<open>Reading a balance\<close>

text \<open>A text in which no digit stands before a decimal separator or at the end.\<close>

fun no_amount :: "ustring \<Rightarrow> bool" where
  "no_amount [] = True"
| "no_amount [c] = (\<not> is_digit c)"
| "no_amount (c # d # cs) = ((is_digit c \<longrightarrow> d \<noteq> 46 \<and> d \<noteq> 44) \<and> no_amount (d # cs))"

lemma run_ends:
  "no_amount s \<Longrightarrow> s \<noteq> [] \<Longrightarrow> is_digit (hd s) \<Longrightarrow> \<exists>e t. dropWhile is_digit (s @ u) = e # t \<and> e \<noteq> 46 \<and> e \<noteq> 44"
  by (induction s rule: no_amount.induct) auto

lemma no_decimal_here: "no_amount s \<Longrightarrow> s \<noteq> [] \<Longrightarrow> decimal_here (s @ u) = None"
proof (cases "is_digit (hd s)")
  case True
  moreover assume "no_amount s" "s \<noteq> []"
  ultimately obtain e t where "dropWhile is_digit (s @ u) = e # t" "e \<noteq> 46" "e \<noteq> 44" using run_ends by blast
  then show ?thesis by (simp add: decimal_here_def)
next
  case False
  moreover assume "s \<noteq> []"
  ultimately have "takeWhile is_digit (s @ u) = []" by (cases s) auto
  then show ?thesis by (simp add: decimal_here_def)
qed

lemma scan_skips: "no_amount s \<Longrightarrow> scan decimal_here (s @ u) = scan decimal_here u"
proof (induction s)
  case (Cons c cs)
  then have "no_amount cs" by (cases cs) auto
  with Cons no_decimal_here [of "c # cs" u] show ?case by simp
qed simp

lemma fold_cp_digit [simp]: "is_digit (fold_cp c) = is_digit c"
  and fold_cp_separator [simp]: "fold_cp c = 46 \<longleftrightarrow> c = 46" "fold_cp c = 44 \<longleftrightarrow> c = 44"
  by (auto simp: fold_cp_def is_digit_def)

lemma fold_cp_id: "\<forall>c\<in>set ds. is_digit c \<Longrightarrow> map fold_cp ds = ds"
  by (rule map_idI) (auto simp: fold_cp_def is_digit_def)

lemma no_amount_fold: "no_amount s \<Longrightarrow> no_amount (map fold_cp s)"
  by (induction s rule: no_amount.induct) auto

lemma currency_is_uah:
  assumes "currency_at s = Some w" shows "normaliseCurrency w = lit ''uah''"
proof -
  from assms have "w \<in> set currency_words" by (auto simp: currency_at_def dest: find_SomeD)
  then show ?thesis by (auto simp: currency_words_def normaliseCurrency_def fold_cp_def lit_def)
qed

lemma decimal_read:
  assumes "ds \<noteq> []" "\<forall>c\<in>set ds. is_digit c" "sep = 46 \<or> sep = 44" "\<forall>c\<in>set fs. is_digit c"
    and "length fs = 2 \<or> length fs = 1 \<and> (rest = [] \<or> \<not> is_digit (hd rest))"
  shows "decimal_here (ds @ sep # fs @ rest) =
    Some (of_nat (dec_val ds) + of_nat (dec_val fs) / 10 ^ length fs, currency_at (dropWhile js_space rest))"
proof -
  have s: "\<not> is_digit sep" using assms(3) by (auto simp: is_digit_def)
  with assms(2) have w: "takeWhile is_digit (ds @ sep # fs @ rest) = ds" "dropWhile is_digit (ds @ sep # fs @ rest) = sep # fs @ rest"
    by (simp_all add: takeWhile_append2 dropWhile_append2)
  have "take 2 (takeWhile is_digit (fs @ rest)) = fs"
    using assms(4,5) by (cases rest) (auto simp: takeWhile_append2 takeWhile_eq_all_conv [THEN iffD2])
  moreover have "fs \<noteq> []" using assms(5) by auto
  ultimately show ?thesis using assms(1,3) by (auto simp: decimal_here_def w Let_def)
qed

text \<open>
  The amount of a carrier's answer is its first decimal number, whatever account and phone
  numbers stand before it; it is a debt exactly when the text says so, since the number itself
  carries no sign; and the currency is always the hryvnia.
\<close>

theorem balance_amount_and_sign:
  assumes "no_amount pre" and "ds \<noteq> []" "\<forall>c\<in>set ds. is_digit c" and "sep = 46 \<or> sep = 44"
    and "\<forall>c\<in>set fs. is_digit c" and "length fs = 2 \<or> length fs = 1 \<and> (rest = [] \<or> \<not> is_digit (hd rest))"
    and "answer = pre @ ds @ sep # fs @ rest" and "v = of_nat (dec_val ds) + of_nat (dec_val fs) / 10 ^ length fs"
  shows "parseBalance answer = (Some (if is_debt (map fold_cp answer) then - v else v), Some (lit ''uah'')) \<and> 0 \<le> v"
proof -
  have "fold_cp sep = sep" using assms(4) by (auto simp: fold_cp_def)
  then have folded: "map fold_cp answer = map fold_cp pre @ ds @ sep # fs @ map fold_cp rest"
    using assms(3,5,7) by (simp add: fold_cp_id)
  have "decimal_here (ds @ sep # fs @ map fold_cp rest) = Some (v, currency_at (dropWhile js_space (map fold_cp rest)))"
    using decimal_read [OF assms(2,3,4,5), of "map fold_cp rest"] assms(6,8) by (cases rest) auto
  moreover have "ds @ sep # fs @ map fold_cp rest \<noteq> []" by simp
  ultimately have "scan decimal_here (ds @ sep # fs @ map fold_cp rest) = Some (v, currency_at (dropWhile js_space (map fold_cp rest)))"
    by (cases "ds @ sep # fs @ map fold_cp rest") simp_all
  then have "scan decimal_here (map fold_cp answer) = Some (v, currency_at (dropWhile js_space (map fold_cp rest)))"
    using scan_skips [OF no_amount_fold [OF assms(1)]] by (simp add: folded)
  moreover have "0 \<le> v" by (simp add: assms(8))
  ultimately show ?thesis
    by (auto simp: parseBalance_def Let_def currency_is_uah split: option.split)
qed

text \<open>The debt of the comment in the source, and the credit.\<close>

theorem balance_amount_and_sign_witness:
  "parseBalance (lit ''Na rakhunku 295423639697: zaborhovanist 48.17 hrn.'') = (Some (- (4817 / 100)), Some (lit ''uah''))
   \<and> parseBalance (lit ''Na rakhunku 295423639697: avans 101.83 hrn.'') = (Some (10183 / 100), Some (lit ''uah''))"
proof -
  have split: "lit ''Na rakhunku 295423639697: zaborhovanist 48.17 hrn.'' =
      lit ''Na rakhunku 295423639697: zaborhovanist '' @ lit ''48'' @ 46 # lit ''17'' @ lit '' hrn.''"
    "lit ''Na rakhunku 295423639697: avans 101.83 hrn.'' =
      lit ''Na rakhunku 295423639697: avans '' @ lit ''101'' @ 46 # lit ''83'' @ lit '' hrn.''"
    by (simp_all add: lit_def)
  have debt: "is_debt (map fold_cp (lit ''Na rakhunku 295423639697: zaborhovanist 48.17 hrn.''))"
    "\<not> is_debt (map fold_cp (lit ''Na rakhunku 295423639697: avans 101.83 hrn.''))"
    by (simp_all add: is_debt_def debt_words_def starts_with_rec lit_def fold_cp_def)
  have digits: "\<forall>c\<in>set (lit ''48''). is_digit c" "\<forall>c\<in>set (lit ''17''). is_digit c" "\<forall>c\<in>set (lit ''101''). is_digit c"
    "\<forall>c\<in>set (lit ''83''). is_digit c" "no_amount (lit ''Na rakhunku 295423639697: zaborhovanist '')"
    "no_amount (lit ''Na rakhunku 295423639697: avans '')"
    by (simp_all add: lit_def is_digit_def)
  have amounts: "of_nat (dec_val (lit ''48'')) + of_nat (dec_val (lit ''17'')) / 10 ^ length (lit ''17'') = (4817 / 100 :: rat)"
    "of_nat (dec_val (lit ''101'')) + of_nat (dec_val (lit ''83'')) / 10 ^ length (lit ''83'') = (10183 / 100 :: rat)"
    by (simp_all add: lit_def)
  show ?thesis
    using balance_amount_and_sign [OF digits(5) _ digits(1) _ digits(2) _ split(1) amounts(1) [symmetric]]
      balance_amount_and_sign [OF digits(6) _ digits(3) _ digits(4) _ split(2) amounts(2) [symmetric]] debt
    by simp
qed

end
