(* ===== verification/Balance.thy ===== *)
theory Balance
  imports Goip
begin

text \<open>
  Prepaid balances: the daily check of every SMS line
  (apps/worker/src/schedulers/sms-balance.scheduler.ts) and the check on demand
  (apps/api/src/transport-accounts/balance.service.ts). The adapter's \<open>checkBalance\<close> is an
  argument (\<open>goip_checkBalance\<close> for the SMS adapter); \<open>be_race\<close> is what
  other processes do to the database while the carrier answers. The lemmas show what a
  reading leaves behind, when it is reported as low or as recovered, and what is lost when
  the configuration is edited during a check.
\<close>

section \<open>The daily check\<close>

record balance_env =
  be_check :: "account_config \<Rightarrow> ustring \<Rightarrow> ustring \<Rightarrow> ustring + balance_answer"
  be_now :: int
  be_iso :: "int \<Rightarrow> ustring"
  be_fmt :: "rat \<Rightarrow> ustring"
  be_race :: "db \<Rightarrow> db"

definition DEFAULT_LOW_BALANCE :: rat where
  "DEFAULT_LOW_BALANCE = 20"

definition or_empty_object :: "json \<Rightarrow> json" where
  "or_empty_object v = (if v = JNull then JObj [] else v)"

definition opt_num :: "rat option \<Rightarrow> json" where
  "opt_num x = (case x of Some r \<Rightarrow> JNum r | None \<Rightarrow> JNull)"

text \<open>\<open>a || b || ''\<close> of possibly missing texts.\<close>

definition first_text :: "ustring option list \<Rightarrow> ustring" where
  "first_text xs = (case find truthy_str xs of Some (Some s) \<Rightarrow> s | _ \<Rightarrow> [])"

definition balance_code :: "json \<Rightarrow> json \<Rightarrow> ustring" where
  "balance_code cfg accountCfg =
     first_text [as_string (own cfg (lit ''balanceUssd'')), as_string (own accountCfg (lit ''balanceUssd''))]"

definition reading :: "balance_env \<Rightarrow> balance_answer \<Rightarrow> fields" where
  "reading env r = [(lit ''balance'', opt_num (ba_amount r)), (lit ''balanceCurrency'', opt_str (ba_currency r)),
     (lit ''balanceReply'', JStr (ba_reply r)), (lit ''balanceCheckedAt'', JStr (be_iso env (be_now env))),
     (lit ''balanceOk'', JBool (ba_ok r))]"

text \<open>\<open>None\<close>: the row is gone, an exception.\<close>

definition write_config :: "ustring \<Rightarrow> json \<Rightarrow> db \<Rightarrow> db option" where
  "write_config i v d = (if eps.lookup d i = None then None
     else Some (endpoints_update (update_where (\<lambda>e. ep_id e = i) (\<lambda>e. e\<lparr>ep_config := v\<rparr>)) d))"

definition record_reading :: "balance_env \<Rightarrow> ustring \<Rightarrow> json \<Rightarrow> balance_answer \<Rightarrow> db \<Rightarrow> db option" where
  "record_reading env i cfg r = write_config i (JObj (spread (object_entries cfg) (reading env r)))"

definition emit_sim :: "balance_env \<Rightarrow> string \<Rightarrow> ustring \<Rightarrow> ustring \<Rightarrow> fields \<Rightarrow> db \<Rightarrow> db" where
  "emit_sim env type accountId endpointId sim d =
     snd (emit (be_iso env) (be_now env)
       \<lparr>em_type = lit type, em_aggregateId = Some endpointId, em_channel = Some sms, em_accountId = Some accountId,
        em_endpointId = Some endpointId, em_data = JObj [(lit ''sim'', JObj sim)], em_dedupKey = None\<rparr> d)"

definition threshold_of :: "json \<Rightarrow> rat" where
  "threshold_of cfg = (case own cfg (lit ''lowBalanceThreshold'') of Some (JNum r) \<Rightarrow> r | _ \<Rightarrow> DEFAULT_LOW_BALANCE)"

text \<open>\<open>cfg['balance'] !== undefined && Number(cfg['balance']) < threshold\<close>.\<close>

definition was_low :: "balance_env \<Rightarrow> json \<Rightarrow> bool" where
  "was_low env cfg \<longleftrightarrow> own cfg (lit ''balance'') \<noteq> None
     \<and> (case js_Number (be_fmt env) (own cfg (lit ''balance'')) of Some r \<Rightarrow> r < threshold_of cfg | None \<Rightarrow> False)"

definition line_json :: "endpoint_row \<Rightarrow> fields" where
  "line_json e = [(lit ''line'', opt_str (ep_externalId e)), (lit ''phone'', opt_str (ep_phoneE164 e))]"

definition unparsed_alert :: "endpoint_row \<Rightarrow> ustring \<Rightarrow> balance_answer \<Rightarrow> raise_params" where
  "unparsed_alert e line r =
     \<lparr>ra_fingerprint = lit ''sms.balance.unparsed:'' @ ep_id e, ra_ruleKey = lit ''sms.balance.unparsed'',
      ra_severity = lit ''info'', ra_title = BalanceUnparsed line, ra_message = OperatorReplied (ba_reply r),
      ra_payload = Some (JObj [(lit ''endpointId'', JStr (ep_id e)), (lit ''line'', JStr line), (lit ''reply'', JStr (ba_reply r))])\<rparr>"

definition low_alert :: "endpoint_row \<Rightarrow> ustring \<Rightarrow> rat \<Rightarrow> rat \<Rightarrow> balance_answer \<Rightarrow> raise_params" where
  "low_alert e line amount threshold r =
     (let inDebt = amount < 0; shown = (case ep_phoneE164 e of Some p \<Rightarrow> p | None \<Rightarrow> line) in
     \<lparr>ra_fingerprint = lit ''sms.balance.low:'' @ ep_id e, ra_ruleKey = lit ''sms.balance.low'',
      ra_severity = (if inDebt then lit ''critical'' else lit ''warning''),
      ra_title = (if inDebt then SimDebt shown else SimLowBalance shown),
      ra_message = SimBalanceIs amount (ba_currency r) threshold (ba_reply r),
      ra_payload = Some (JObj [(lit ''endpointId'', JStr (ep_id e)), (lit ''line'', JStr line), (lit ''amount'', JNum amount),
        (lit ''currency'', opt_str (ba_currency r)), (lit ''threshold'', JNum threshold)])\<rparr>)"

text \<open>What follows a recorded reading.\<close>

definition report_reading ::
  "balance_env \<Rightarrow> ustring \<Rightarrow> endpoint_row \<Rightarrow> ustring \<Rightarrow> json \<Rightarrow> balance_answer \<Rightarrow> db \<Rightarrow> db" where
  "report_reading env accountId e line cfg r d =
     (if \<not> ba_ok r
      then emit_sim env ''sim.ussd.failed'' accountId (ep_id e) (line_json e @ [(lit ''error'', JStr (ba_reply r))]) d
      else (case ba_amount r of
              None \<Rightarrow> raise_alert (be_now env) (unparsed_alert e line r) d
            | Some amount \<Rightarrow>
                (let threshold = threshold_of cfg;
                     figures = line_json e @ [(lit ''amount'', JNum amount), (lit ''currency'', opt_str (ba_currency r)),
                       (lit ''threshold'', JNum threshold)];
                     d1 = emit_sim env ''sim.balance.updated'' accountId (ep_id e) (figures @ [(lit ''reply'', JStr (ba_reply r))]) d;
                     d2 = (if was_low env cfg \<and> threshold \<le> amount
                           then emit_sim env ''sim.balance.recovered'' accountId (ep_id e) figures d1 else d1)
                 in if amount < threshold
                    then raise_alert (be_now env) (low_alert e line amount threshold r)
                      (emit_sim env ''sim.balance.low'' accountId (ep_id e)
                        (figures @ [(lit ''inDebt'', JBool (amount < 0)), (lit ''reply'', JStr (ba_reply r))]) d2)
                    else d2)))"

text \<open>One line; an exception is caught and leaves what was done.\<close>

definition check_line :: "balance_env \<Rightarrow> account_row \<Rightarrow> endpoint_row \<Rightarrow> db \<Rightarrow> db" where
  "check_line env account e d =
     (let cfg = or_empty_object (ep_config e); acc = account_config_of account;
          code = balance_code cfg (cc_config acc)
      in if code = [] \<or> \<not> truthy_str (ep_externalId e) then d
         else (let line = the (ep_externalId e); d1 = be_race env d in
               case be_check env acc line code of
                 Inl err \<Rightarrow> d1
               | Inr r \<Rightarrow>
                   (case record_reading env (ep_id e) cfg r d1 of
                      None \<Rightarrow> d1
                    | Some d2 \<Rightarrow> report_reading env (ac_id account) e line cfg r d2)))"

definition checkAll :: "balance_env \<Rightarrow> db \<Rightarrow> db" where
  "checkAll env d =
     (case find (\<lambda>a. ac_adapter a = lit ''goip-vendor'' \<and> ac_status a = acc_active) (accounts d) of
        None \<Rightarrow> d
      | Some account \<Rightarrow>
          fold (check_line env account) (filter (\<lambda>e. ep_accountId e = ac_id account \<and> ep_enabled e) (endpoints d)) d)"

section \<open>The check on demand\<close>

datatype balance_error =
  NumberNotFound | ChannelNotFound | BalanceNotSupported | NoBalanceCode | NoLineId | CarrierRefused ustring | BalanceThrew ustring

record balance_result =
  br_amount :: "rat option"
  br_currency :: "ustring option"
  br_reply :: ustring
  br_checkedAt :: ustring

text \<open>\<open>checker\<close> is \<open>checkBalance\<close> of the named adapter, where it is registered and has one.\<close>

definition balance_check ::
  "(ustring \<Rightarrow> (account_config \<Rightarrow> ustring \<Rightarrow> ustring \<Rightarrow> ustring + balance_answer) option) \<Rightarrow> balance_env \<Rightarrow> ustring
   \<Rightarrow> ustring option \<Rightarrow> db \<Rightarrow> (balance_error + balance_result) \<times> db" where
  "balance_check checker env endpointId ussdOverride d =
     (case eps.lookup d endpointId of
        None \<Rightarrow> (Inl NumberNotFound, d)
      | Some e \<Rightarrow>
          (case accs.lookup d (ep_accountId e) of
             None \<Rightarrow> (Inl ChannelNotFound, d)
           | Some account \<Rightarrow>
               (case checker (ac_adapter account) of
                  None \<Rightarrow> (Inl BalanceNotSupported, d)
                | Some check \<Rightarrow>
                    (let cfg = or_empty_object (ep_config e); acc = account_config_of account;
                         code = first_text [map_option js_trim ussdOverride, Some (balance_code cfg (cc_config acc))]
                     in if code = [] then (Inl NoBalanceCode, d)
                        else if \<not> truthy_str (ep_externalId e) then (Inl NoLineId, d)
                        else (let d1 = be_race env d in
                              case check acc (the (ep_externalId e)) code of
                                Inl err \<Rightarrow> (Inl (BalanceThrew err), d1)
                              | Inr r \<Rightarrow>
                                  if \<not> ba_ok r
                                  then (Inl (CarrierRefused (if ba_reply r \<noteq> [] then ba_reply r
                                         else [1053, 1077] @ lit '' '' @ [1074, 1076, 1072, 1083, 1086, 1089,
      1103] @ lit '' '' @ [1086, 1090, 1088, 1080, 1084, 1072, 1090, 1080] @ lit '' '' @ [1073, 1072, 1083, 1072,
      1085, 1089] @ lit ''.'')), d1)
                                  else (case write_config endpointId (JObj (spread (object_entries cfg)
                                                ((lit ''balanceUssd'', JStr code) # reading env r))) d1 of
                                          None \<Rightarrow> (Inl (BalanceThrew (lit ''Record to update not found'')), d1)
                                        | Some d2 \<Rightarrow>
                                            (Inr \<lparr>br_amount = ba_amount r, br_currency = ba_currency r, br_reply = ba_reply r,
                                                  br_checkedAt = be_iso env (be_now env)\<rparr>, d2)))))))"

section \<open>What a reading leaves behind\<close>

lemma emit_sim_frame [simp]:
  "endpoints (emit_sim env ty a i s d) = endpoints d" "accounts (emit_sim env ty a i s d) = accounts d"
  "alerts (emit_sim env ty a i s d) = alerts d" "messages (emit_sim env ty a i s d) = messages d"
  by (simp_all add: emit_sim_def emit_def fresh_id_def Let_def split: option.split)

lemma emit_sim_types [simp]:
  "map ev_eventType (events (emit_sim env ty a i s d)) = map ev_eventType (events d) @ [lit ty]"
  by (simp add: emit_sim_def emit_events dedup_hit_def event_of_def)

lemma raise_alert_rows [simp]:
  "endpoints (raise_alert now p d) = endpoints d" "accounts (raise_alert now p d) = accounts d"
  "messages (raise_alert now p d) = messages d"
  by (simp_all add: raise_alert_def fresh_id_def Let_def split: option.split)

lemma report_reading_rows [simp]:
  "endpoints (report_reading env a e line cfg r d) = endpoints d" "accounts (report_reading env a e line cfg r d) = accounts d"
  "messages (report_reading env a e line cfg r d) = messages d"
  by (simp_all add: report_reading_def Let_def split: option.split)

text \<open>A line with a code, and what \<open>check_line\<close> does with the answer.\<close>

definition checkable :: "account_row \<Rightarrow> endpoint_row \<Rightarrow> ustring \<Rightarrow> bool" where
  "checkable acc e line \<longleftrightarrow> balance_code (or_empty_object (ep_config e)) (cc_config (account_config_of acc)) \<noteq> []
     \<and> ep_externalId e = Some line \<and> line \<noteq> []"

abbreviation answered :: "balance_env \<Rightarrow> account_row \<Rightarrow> endpoint_row \<Rightarrow> ustring \<Rightarrow> balance_answer \<Rightarrow> bool" where
  "answered env acc e line r \<equiv> be_check env (account_config_of acc) line
     (balance_code (or_empty_object (ep_config e)) (cc_config (account_config_of acc))) = Inr r"

definition with_reading :: "balance_env \<Rightarrow> endpoint_row \<Rightarrow> balance_answer \<Rightarrow> json" where
  "with_reading env e r = JObj (spread (object_entries (or_empty_object (ep_config e))) (reading env r))"

lemma check_line_answered:
  assumes "checkable acc e line" "answered env acc e line r" "eps.lookup (be_race env d) (ep_id e) \<noteq> None"
  shows "check_line env acc e d = report_reading env (ac_id acc) e line (or_empty_object (ep_config e)) r
     (endpoints_update (update_where (\<lambda>x. ep_id x = ep_id e) (\<lambda>x. x\<lparr>ep_config := with_reading env e r\<rparr>)) (be_race env d))"
  using assms by (simp add: check_line_def checkable_def record_reading_def write_config_def with_reading_def Let_def del: not_None_eq)

lemma check_line_config:
  assumes "checkable acc e line" "answered env acc e line r" "eps.lookup (be_race env d) (ep_id e) = Some x"
  shows "eps.lookup (check_line env acc e d) (ep_id e) = Some (x\<lparr>ep_config := with_reading env e r\<rparr>)"
proof -
  have "eps.lookup (endpoints_update (update_where (\<lambda>x. ep_id x = ep_id e) (\<lambda>x. x\<lparr>ep_config := v\<rparr>)) (be_race env d)) (ep_id e)
      = Some (x\<lparr>ep_config := v\<rparr>)" for v
    by (subst eps.lookup_update) (simp_all add: assms(3))
  then show ?thesis
    using assms by (simp add: check_line_answered eps.lookup_def)
qed

lemma own_with_reading:
  "own (with_reading env e r) (lit ''balance'') = Some (opt_num (ba_amount r))"
  "k \<notin> fst ` set (reading env r) \<Longrightarrow> own (with_reading env e r) k = map_of (object_entries (or_empty_object (ep_config e))) k"
  by (auto simp: with_reading_def reading_def)

text \<open>
  A reading that the carrier gave is stored with the number and reported: one event for
  the reading, one for a recovery when the last stored balance was below the threshold and
  this one is not, and one together with a firing alert when it is below the threshold.
\<close>

theorem balance_reading_reported:
  assumes line: "checkable acc e line" "answered env acc e line r" and r: "ba_ok r" "ba_amount r = Some a"
    and d: "be_race env = id" "eps.lookup d (ep_id e) = Some e"
    and "cfg = or_empty_object (ep_config e)" "d' = check_line env acc e d"
  shows "map_option (\<lambda>x. own (ep_config x) (lit ''balance'')) (eps.lookup d' (ep_id e)) = Some (Some (JNum a))
    \<and> map ev_eventType (events d') = map ev_eventType (events d) @ [lit ''sim.balance.updated'']
        @ (if was_low env cfg \<and> threshold_of cfg \<le> a then [lit ''sim.balance.recovered''] else [])
        @ (if a < threshold_of cfg then [lit ''sim.balance.low''] else [])
    \<and> (a < threshold_of cfg \<longrightarrow> firing_alert (lit ''sms.balance.low:'' @ ep_id e) d' \<noteq> None)
    \<and> (threshold_of cfg \<le> a \<longrightarrow> alerts d' = alerts d)"
proof -
  let ?d = "endpoints_update (update_where (\<lambda>x. ep_id x = ep_id e) (\<lambda>x. x\<lparr>ep_config := with_reading env e r\<rparr>)) d"
  have d': "d' = report_reading env (ac_id acc) e line cfg r ?d"
    using check_line_answered [OF line] d assms(7,8) by simp
  have fires: "ra_fingerprint p = fp \<Longrightarrow> firing_alert fp (raise_alert now p x) \<noteq> None" for p fp now x
    using raise_alert_fires by blast
  have "firing_alert (lit ''sms.balance.low:'' @ ep_id e) d' \<noteq> None" if "a < threshold_of cfg"
    using that r by (simp add: d' report_reading_def Let_def del: not_None_eq) (rule fires, simp add: low_alert_def Let_def)
  moreover have "eps.lookup d' (ep_id e) = Some (e\<lparr>ep_config := with_reading env e r\<rparr>)"
    using check_line_config [OF line] d assms(8) by simp
  ultimately show ?thesis
    using r by (simp add: d' report_reading_def Let_def own_with_reading opt_num_def del: not_None_eq)
qed

text \<open>
  A check that failed is taken for a balance of nothing: when the balance was fine before
  and is fine after, the reading after a failed one is still reported as a recovery.
\<close>

theorem failed_check_fakes_recovery:
  assumes line: "checkable acc e line" "checkable acc e1 line" and d: "eps.lookup d (ep_id e) = Some e" "be_race env = id" "be_race env' = id"
    and failed: "answered env acc e line r" "\<not> ba_ok r" "ba_amount r = None"
    and "d1 = check_line env acc e d" "eps.lookup d1 (ep_id e) = Some e1"
    and next_day: "answered env' acc e1 line r'" "ba_ok r'" "ba_amount r' = Some a"
    and fine: "threshold_of (or_empty_object (ep_config e)) \<le> a" "0 < threshold_of (or_empty_object (ep_config e))"
    and plain: "\<exists>kvs. ep_config e = JObj kvs"
  shows "map ev_eventType (events (check_line env' acc e1 d1)) = map ev_eventType (events d)
    @ [lit ''sim.ussd.failed'', lit ''sim.balance.updated'', lit ''sim.balance.recovered'']"
proof -
  have e1: "e1 = e\<lparr>ep_config := with_reading env e r\<rparr>"
    using check_line_config [OF line(1) failed(1)] d assms(9,10) by simp
  obtain kvs where kvs: "ep_config e = JObj kvs" using plain by blast
  let ?cfg = "or_empty_object (ep_config e1)"
  have cfg: "?cfg = with_reading env e r" by (simp add: e1 or_empty_object_def with_reading_def)
  have "own ?cfg (lit ''lowBalanceThreshold'') = own (or_empty_object (ep_config e)) (lit ''lowBalanceThreshold'')"
    unfolding cfg by (simp add: own_with_reading reading_def kvs or_empty_object_def)
  then have t: "threshold_of ?cfg = threshold_of (or_empty_object (ep_config e))" by (simp add: threshold_of_def)
  have "own ?cfg (lit ''balance'') = Some JNull" unfolding cfg by (simp add: own_with_reading failed opt_num_def)
  then have low: "was_low env' ?cfg" using fine t by (simp add: was_low_def)
  have "map ev_eventType (events d1) = map ev_eventType (events d) @ [lit ''sim.ussd.failed'']"
    using check_line_answered [OF line(1) failed(1)] d failed assms(9) by (simp add: report_reading_def)
  moreover have "eps.lookup d1 (ep_id e1) = Some e1" using assms(10) by (simp add: e1)
  ultimately show ?thesis
    using balance_reading_reported [OF line(2) next_day d(3) _ refl refl] low fine t by simp
qed

text \<open>
  What an administrator writes into the configuration of a number while its balance is
  being asked for is lost: the check writes back the configuration it started from.
\<close>

theorem edits_during_check_lost:
  assumes "checkable acc e line" "answered env acc e line r" and "eps.lookup d (ep_id e) = Some e"
    and "be_race env = endpoints_update (update_where (\<lambda>x. ep_id x = ep_id e) (\<lambda>x. x\<lparr>ep_config := v\<rparr>))"
  shows "eps.lookup (check_line env acc e d) (ep_id e) = Some (e\<lparr>ep_config := with_reading env e r\<rparr>)"
proof -
  have "eps.lookup (be_race env d) (ep_id e) = Some (e\<lparr>ep_config := v\<rparr>)"
    unfolding assms(4) by (subst eps.lookup_update) (simp_all add: assms(3))
  from check_line_config [where env = env, OF assms(1,2) this] show ?thesis by simp
qed

section \<open>The daily run\<close>

text \<open>The rows of the numbers differ only in what a reading writes into their configuration.\<close>

definition reading_keys :: "ustring set" where
  "reading_keys = {lit ''balance'', lit ''balanceCurrency'', lit ''balanceReply'', lit ''balanceCheckedAt'', lit ''balanceOk''}"

definition same_but_reading :: "endpoint_row \<Rightarrow> endpoint_row \<Rightarrow> bool" where
  "same_but_reading x y \<longleftrightarrow> y = x\<lparr>ep_config := ep_config y\<rparr> \<and> (ep_config y = ep_config x
     \<or> (\<forall>k. k \<notin> reading_keys \<longrightarrow> own (ep_config y) k = map_of (object_entries (or_empty_object (ep_config x))) k))"

lemma check_line_rows:
  assumes "be_race env = id"
  shows "endpoints (check_line env acc e d) = endpoints d
    \<or> (\<exists>r. endpoints (check_line env acc e d) =
         update_where (\<lambda>x. ep_id x = ep_id e) (\<lambda>x. x\<lparr>ep_config := with_reading env e r\<rparr>) (endpoints d))"
  using assms
  by (auto simp: check_line_def record_reading_def write_config_def with_reading_def Let_def split: sum.split)

lemma run_rows:
  assumes "be_race env = id" "distinct (map ep_id rows)" "set es \<subseteq> set rows" "list_all2 same_but_reading rows (endpoints d)"
  shows "list_all2 same_but_reading rows (endpoints (fold (check_line env acc) es d))"
  using assms(3,4)
proof (induction es arbitrary: d)
  case (Cons e es)
  have "list_all2 same_but_reading rows (update_where (\<lambda>x. ep_id x = ep_id e) (\<lambda>x. x\<lparr>ep_config := with_reading env e r\<rparr>) (endpoints d))" for r
    unfolding list_all2_conv_all_nth
  proof (intro conjI allI impI)
    show "length rows = length (update_where (\<lambda>x. ep_id x = ep_id e) (\<lambda>x. x\<lparr>ep_config := with_reading env e r\<rparr>) (endpoints d))"
      using Cons.prems(2) by (simp add: list_all2_lengthD)
    fix i assume i: "i < length rows"
    with Cons.prems(2) have s: "same_but_reading (rows ! i) (endpoints d ! i)" "i < length (endpoints d)"
      by (auto simp: list_all2_conv_all_nth)
    show "same_but_reading (rows ! i)
        (update_where (\<lambda>x. ep_id x = ep_id e) (\<lambda>x. x\<lparr>ep_config := with_reading env e r\<rparr>) (endpoints d) ! i)"
    proof (cases "ep_id (endpoints d ! i) = ep_id e")
      case True
      from s(1) have y: "endpoints d ! i = (rows ! i)\<lparr>ep_config := ep_config (endpoints d ! i)\<rparr>" by (simp add: same_but_reading_def)
      then have "ep_id (rows ! i) = ep_id e" using True by (metis endpoint_row.ext_inject endpoint_row.surjective endpoint_row.update_convs(8))
      moreover obtain j where "j < length rows" "rows ! j = e" using Cons.prems(1) by (auto simp: in_set_conv_nth)
      ultimately have "rows ! i = e"
        using i assms(2) by (metis distinct_conv_nth length_map nth_map)
      moreover have "fst ` set (reading env r) = reading_keys" by (auto simp: reading_def reading_keys_def)
      moreover have "(endpoints d ! i)\<lparr>ep_config := w\<rparr> = (rows ! i)\<lparr>ep_config := w\<rparr>" for w
        using arg_cong [OF y, of "\<lambda>z. z\<lparr>ep_config := w\<rparr>"] by simp
      ultimately show ?thesis
        using True s(2) own_with_reading(2) [of _ env r e] by (simp add: same_but_reading_def update_where_def)
    next
      case False
      with s show ?thesis by (simp add: update_where_def)
    qed
  qed
  moreover note check_line_rows [OF assms(1), of acc e d]
  ultimately have "list_all2 same_but_reading rows (endpoints (check_line env acc e d))" using Cons.prems(2) by auto
  with Cons show ?case by simp
qed simp

lemma check_line_frame:
  assumes "be_race env = id"
  shows "accounts (check_line env acc e d) = accounts d \<and> messages (check_line env acc e d) = messages d"
  using assms by (auto simp: check_line_def record_reading_def write_config_def Let_def split: sum.split)

lemma run_frame:
  "be_race env = id \<Longrightarrow> accounts (fold (check_line env acc) es d) = accounts d \<and> messages (fold (check_line env acc) es d) = messages d"
  by (induction es arbitrary: d) (simp_all add: check_line_frame)

text \<open>
  The daily run changes nothing of a number but what a reading writes: every number stays
  with its identity, state and switch, every other setting of its configuration keeps its
  value, and channels and messages are not touched, whatever the carriers answer.
\<close>

theorem daily_run_keeps_settings:
  assumes "be_race env = id" and "distinct (map ep_id (endpoints d))"
  shows "list_all2 same_but_reading (endpoints d) (endpoints (checkAll env d))
    \<and> accounts (checkAll env d) = accounts d \<and> messages (checkAll env d) = messages d"
proof -
  have "list_all2 same_but_reading (endpoints d) (endpoints d)" by (simp add: list_all2_refl same_but_reading_def)
  with run_rows [OF assms] run_frame [OF assms(1)] show ?thesis
    by (auto simp: checkAll_def split: option.split)
qed

section \<open>A concrete line\<close>

definition balance_line :: endpoint_row where
  "balance_line = sample_endpoint\<lparr>ep_externalId := Some (lit ''G101''), ep_config := JObj [(lit ''balanceUssd'', JStr (lit ''*111#''))]\<rparr>"

definition balance_state :: "endpoint_row \<Rightarrow> db" where
  "balance_state e = (empty_db tick_ids)\<lparr>accounts := [sms_account], endpoints := [e]\<rparr>"

definition balance_is :: "rat option \<Rightarrow> balance_env" where
  "balance_is a = \<lparr>be_check = (\<lambda>c l k. Inr \<lparr>ba_ok = (a \<noteq> None), ba_amount = a, ba_currency = None, ba_reply = []\<rparr>),
     be_now = 0, be_iso = (\<lambda>t. []), be_fmt = (\<lambda>r. []), be_race = id\<rparr>"

lemma balance_is_sel [simp]: "be_race (balance_is a) = id"
  "be_check (balance_is a) c l k = Inr \<lparr>ba_ok = (a \<noteq> None), ba_amount = a, ba_currency = None, ba_reply = []\<rparr>"
  by (simp_all add: balance_is_def)

lemma balance_line_checkable: "checkable sms_account balance_line (lit ''G101'')"
  by (simp add: checkable_def balance_line_def balance_code_def first_text_def or_empty_object_def sample_endpoint_def)

lemma balance_line_found: "eps.lookup (balance_state e) (ep_id e) = Some e"
  by (simp add: eps.lookup_def balance_state_def)

theorem balance_reading_reported_witness:
  "firing_alert (lit ''sms.balance.low:'' @ ep_id balance_line) (check_line (balance_is (Some 5)) sms_account balance_line (balance_state balance_line)) \<noteq> None"
proof -
  have "threshold_of (or_empty_object (ep_config balance_line)) = 20"
    by (simp add: threshold_of_def or_empty_object_def balance_line_def DEFAULT_LOW_BALANCE_def)
  then show ?thesis
    using balance_reading_reported [OF balance_line_checkable _ _ _ _ balance_line_found refl refl, of "balance_is (Some 5)"] by simp
qed

theorem failed_check_fakes_recovery_witness:
  "\<exists>e1. eps.lookup (check_line (balance_is None) sms_account balance_line (balance_state balance_line)) (ep_id balance_line) = Some e1
     \<and> \<not> was_low (balance_is None) (ep_config balance_line)
     \<and> map ev_eventType (events (check_line (balance_is (Some 100)) sms_account e1
          (check_line (balance_is None) sms_account balance_line (balance_state balance_line))))
        = [lit ''sim.ussd.failed'', lit ''sim.balance.updated'', lit ''sim.balance.recovered'']"
proof -
  let ?r = "\<lparr>ba_ok = False, ba_amount = None, ba_currency = None, ba_reply = []\<rparr>"
  let ?e1 = "balance_line\<lparr>ep_config := with_reading (balance_is None) balance_line ?r\<rparr>"
  have t: "threshold_of (or_empty_object (ep_config balance_line)) = 20"
    by (simp add: threshold_of_def or_empty_object_def balance_line_def DEFAULT_LOW_BALANCE_def)
  have found: "eps.lookup (check_line (balance_is None) sms_account balance_line (balance_state balance_line)) (ep_id balance_line) = Some ?e1"
    using check_line_config [OF balance_line_checkable, of "balance_is None" ?r "balance_state balance_line" balance_line]
    by (simp add: balance_line_found)
  have "checkable sms_account ?e1 (lit ''G101'')"
    by (simp add: checkable_def balance_line_def balance_code_def first_text_def or_empty_object_def with_reading_def reading_def)
  moreover have "ep_config balance_line = JObj [(lit ''balanceUssd'', JStr (lit ''*111#''))]" by (simp add: balance_line_def)
  ultimately have "map ev_eventType (events (check_line (balance_is (Some 100)) sms_account ?e1
      (check_line (balance_is None) sms_account balance_line (balance_state balance_line)))) = map ev_eventType (events (balance_state balance_line))
      @ [lit ''sim.ussd.failed'', lit ''sim.balance.updated'', lit ''sim.balance.recovered'']"
    using failed_check_fakes_recovery [OF balance_line_checkable _ balance_line_found _ _ _ _ _ refl found,
        where env' = "balance_is (Some 100)" and r' = "\<lparr>ba_ok = True, ba_amount = Some 100, ba_currency = None, ba_reply = []\<rparr>"
          and a = 100 and r = ?r] t
    by simp
  moreover have "events (balance_state balance_line) = []" by (simp add: balance_state_def empty_db_def)
  moreover have "\<not> was_low (balance_is None) (ep_config balance_line)" by (simp add: was_low_def balance_line_def)
  ultimately show ?thesis using found by auto
qed

theorem edits_during_check_lost_witness:
  "map_option (\<lambda>x. own (ep_config x) (lit ''balanceUssd''))
     (eps.lookup (check_line ((balance_is (Some 5))\<lparr>be_race := endpoints_update (update_where (\<lambda>x. ep_id x = ep_id balance_line)
        (\<lambda>x. x\<lparr>ep_config := JObj [(lit ''balanceUssd'', JStr (lit ''*101#''))]\<rparr>))\<rparr>) sms_account balance_line (balance_state balance_line))
        (ep_id balance_line)) = Some (Some (JStr (lit ''*111#'')))"
proof -
  let ?v = "JObj [(lit ''balanceUssd'', JStr (lit ''*101#''))]"
  let ?env = "(balance_is (Some 5))\<lparr>be_race := endpoints_update (update_where (\<lambda>x. ep_id x = ep_id balance_line) (\<lambda>x. x\<lparr>ep_config := ?v\<rparr>))\<rparr>"
  have "ep_config balance_line = JObj [(lit ''balanceUssd'', JStr (lit ''*111#''))]" by (simp add: balance_line_def)
  then show ?thesis
    using edits_during_check_lost [OF balance_line_checkable _ balance_line_found, of ?env
        "\<lparr>ba_ok = True, ba_amount = Some 5, ba_currency = None, ba_reply = []\<rparr>" ?v]
    by (simp add: balance_is_def with_reading_def or_empty_object_def reading_def)
qed

theorem daily_run_keeps_settings_witness:
  "list_all2 same_but_reading [balance_line] (endpoints (checkAll (balance_is (Some 5)) (balance_state balance_line)))"
proof -
  have "endpoints (balance_state balance_line) = [balance_line]" by (simp add: balance_state_def)
  with daily_run_keeps_settings [of "balance_is (Some 5)" "balance_state balance_line"] show ?thesis by simp
qed

end
