(* ===== verification/Signal.thy ===== *)
theory Signal
  imports Channel "HOL-Library.AList"
begin

text \<open>
  The Signal adapter (packages/adapters/src/signal/index.ts) and the bridge that keeps a
  socket open per linked number (apps/worker/src/inbound/signal-receive.bridge.ts).
  \<open>None\<close> of \<open>signal_inbound\<close> is an exception; an invalid date, which the code lets pass
  and the database refuses, counts as one. The lemmas show that both sides of a conversation
  have the same counterparty, which frames are lost, and that the bridge's sockets follow
  the linked numbers.
\<close>

section \<open>Calls of the sidecar\<close>

definition signal_baseUrl :: "channel_env \<Rightarrow> account_config \<Rightarrow> ustring + ustring" where
  "signal_baseUrl env acc =
     (case base_url env acc of None \<Rightarrow> Inl (missing_base ''signal-cli-rest-api'') | Some b \<Rightarrow> Inr b)"

definition endpointNumber :: "endpoint_config \<Rightarrow> ustring + ustring" where
  "endpointNumber ep =
     (let phone = (case ec_phoneE164 ep of Some p \<Rightarrow> p | None \<Rightarrow> ec_externalId ep) in
      if phone = [] then Inl (lit ''signal-cli-rest-api: endpoint missing phoneE164/externalId'')
      else Inr (if starts_with (lit ''+'') phone then phone else 43 # phone))"

definition signal_healthCheck :: "channel_env \<Rightarrow> account_config \<Rightarrow> ustring + adapter_health" where
  "signal_healthCheck env acc =
     (case signal_baseUrl env acc of
        Inl e \<Rightarrow> Inl e
      | Inr base \<Rightarrow>
          (let latency = (lit ''latencyMs'', JNum (of_int (ch_done env - ch_now env))) in
           case ch_fetch env (get_request (base @ lit ''/v1/health'') []) of
             Inl e \<Rightarrow> Inr \<lparr>ah_ok = False, ah_details = [(lit ''error'', JStr e), latency]\<rparr>
           | Inr r \<Rightarrow> Inr \<lparr>ah_ok = response_ok (hr_status r), ah_details =
               [(lit ''httpStatus'', JNum (of_int (hr_status r))), latency, (lit ''body'', json_or (JObj []) r)]\<rparr>))"

section \<open>Sending\<close>

definition data_uri :: "sdk_attachment \<Rightarrow> json" where
  "data_uri a =
     (let b64 = base64 (case sa_data a of Some bs \<Rightarrow> bs | None \<Rightarrow> []);
          mime = (case sa_mime a of Some m \<Rightarrow> m | None \<Rightarrow> lit ''application/octet-stream'')
      in JStr (if truthy_str (sa_filename a)
               then lit ''data:'' @ mime @ lit '';filename='' @ the (sa_filename a) @ lit '';base64,'' @ b64
               else lit ''data:'' @ mime @ lit '';base64,'' @ b64))"

definition signal_recipients :: "outbound_message \<Rightarrow> ustring list" where
  "signal_recipients o' = filter (\<lambda>r. r \<noteq> []) (map (\<lambda>a. case ca_e164 a of Some e \<Rightarrow> e | None \<Rightarrow> ca_raw a) (om_to o'))"

definition signal_body :: "outbound_message \<Rightarrow> ustring \<Rightarrow> json" where
  "signal_body o' number = JObj
     ([(lit ''message'', JStr (outbound_text o')), (lit ''number'', JStr number),
       (lit ''recipients'', JArr (map JStr (signal_recipients o')))]
      @ (if with_data o' \<noteq> [] then [(lit ''base64_attachments'', JArr (map data_uri (with_data o')))] else [])
      @ (case map_of (om_meta o') (lit ''link_preview'') of
           Some v \<Rightarrow> if truthy v then [(lit ''link_preview'', v)] else [] | None \<Rightarrow> []))"

text \<open>Never fails: without an answer it names nobody.\<close>

definition search_url :: "ustring \<Rightarrow> ustring \<Rightarrow> ustring list \<Rightarrow> ustring option" where
  "search_url base fromNumber recipients =
     (case encodeURIComponent fromNumber of
        None \<Rightarrow> None
      | Some n \<Rightarrow>
          (if None \<in> set (map encodeURIComponent recipients) then None
           else Some (base @ lit ''/v1/search/'' @ n @ lit ''?'' @
                  join_with (lit ''&'') (map (\<lambda>r. lit ''numbers='' @ the (encodeURIComponent r)) recipients))))"

definition findUnregistered :: "channel_env \<Rightarrow> account_config \<Rightarrow> ustring \<Rightarrow> ustring list \<Rightarrow> ustring list" where
  "findUnregistered env acc fromNumber recipients =
     (case signal_baseUrl env acc of
        Inl e \<Rightarrow> []
      | Inr base \<Rightarrow>
          (case search_url base fromNumber recipients of
             None \<Rightarrow> []
           | Some url \<Rightarrow>
               (case ch_fetch env (get_request url []) of
                  Inl e \<Rightarrow> []
                | Inr r \<Rightarrow>
                    if \<not> response_ok (hr_status r) then []
                    else filter (\<lambda>n. n \<noteq> [])
                      (map (\<lambda>entry. text_or_empty (ch_fmt env) (own entry (lit ''number'')))
                        (filter (\<lambda>entry. own entry (lit ''registered'') = Some (JBool False))
                          (items (Some (json_or (JArr []) r))))))))"

text \<open>The id in an answer: of the first entry, of the first recipient, or of the whole.\<close>

definition signal_timestamp :: "ustring list \<Rightarrow> json \<Rightarrow> json option" where
  "signal_timestamp recipients raw =
     coalesce (mem (first_item (Some raw)) ''timestamp'')
       (coalesce (mem (case mem (Some raw) ''results'' of
                         Some v \<Rightarrow> (case recipients of r # rs \<Rightarrow> own v r | [] \<Rightarrow> None) | None \<Rightarrow> None) ''timestamp'')
          (mem (Some raw) ''timestamp''))"

definition signal_refusal :: "channel_env \<Rightarrow> account_config \<Rightarrow> ustring \<Rightarrow> ustring list \<Rightarrow> int \<Rightarrow> json \<Rightarrow> send_answer" where
  "signal_refusal env acc number recipients status raw =
     (let unregistered = findUnregistered env acc number recipients in
      if unregistered \<noteq> []
      then Answered (refused (lit ''RECIPIENT_NOT_REGISTERED'')
             ([1053, 1077] @ lit '' '' @ [1079, 1072, 1088, 1077, 1108, 1089, 1090, 1088, 1086, 1074, 1072, 1085,
      1110] @ lit '' '' @ [1074] @ lit '' Signal: '' @ join_with (lit '', '') unregistered) False raw)
      else Answered (refused (js_String (ch_fmt env) (coalesce (own raw (lit ''error'')) (Some (JStr (http_code status)))))
             (case raw of JStr s \<Rightarrow> s | _ \<Rightarrow> stringify (ch_fmt env) raw) (500 \<le> status \<or> status = 429) raw))"

definition signal_send :: "channel_env \<Rightarrow> outbound_message \<Rightarrow> endpoint_config \<Rightarrow> account_config \<Rightarrow> send_answer" where
  "signal_send env o' ep acc =
     (case signal_baseUrl env acc of
        Inl e \<Rightarrow> Threw e
      | Inr base \<Rightarrow>
          (case endpointNumber ep of
             Inl e \<Rightarrow> Threw e
           | Inr number \<Rightarrow>
               (let recipients = signal_recipients o' in
                if recipients = []
                then Answered (refused (lit ''NO_RECIPIENT'') (lit ''no recipients after normalisation'') False JNull)
                else (case ch_fetch env (json_request ''POST'' (base @ lit ''/v2/send'') json_type (signal_body o' number)) of
                        Inl e \<Rightarrow> Answered (refused (lit ''NETWORK_ERROR'') e True JNull)
                      | Inr r \<Rightarrow>
                          (let raw = json_or (JObj []) r; errors = mem (first_item (Some raw)) ''errors'' in
                           if \<not> response_ok (hr_status r)
                           then signal_refusal env acc number recipients (hr_status r) raw
                           else if holds errors
                           then Answered (refused (lit ''SIGNAL_SEND_ERROR'') (stringify (ch_fmt env) (the errors)) False raw)
                           else (let ts = signal_timestamp recipients raw
                                 in Answered (taken (if holds ts then Some (js_String (ch_fmt env) ts) else None) raw)))))))"

section \<open>Receipts\<close>

definition signal_status :: "channel_env \<Rightarrow> account_config \<Rightarrow> json \<Rightarrow> canonical_status option" where
  "signal_status env acc raw =
     (let envelope = own raw (lit ''envelope''); receipt = own raw (lit ''receiptMessage''); message = own raw (lit ''dataMessage'');
          report = (\<lambda>v st. Some \<lparr>cs_externalId = text_or_empty (ch_fmt env) (coalesce (mem v ''timestamp'') (mem envelope ''timestamp'')),
            cs_status = st, cs_error = None, cs_rawPayload = raw\<rparr>)
      in if \<not> is_object raw then None
         else if \<not> holds envelope \<and> \<not> holds message then None
         else if holds receipt then report receipt st_delivered
         else if holds message then report message st_sent
         else None)"

section \<open>Inbound messages\<close>

definition voice_note :: "json option \<Rightarrow> bool" where
  "voice_note v = list_ex (\<lambda>a. own a (lit ''voiceNote'') = Some (JBool True)) (items v)"

definition signalMessageType :: "json \<Rightarrow> ustring option \<Rightarrow> message_type" where
  "signalMessageType dm mime =
     (let files = own dm (lit ''attachments'') in
      if items files = [] then (if holds (own dm (lit ''message'')) then text_t else unknown_t)
      else if voice_note files then voice
      else (case mime of
              None \<Rightarrow> document
            | Some m \<Rightarrow>
                if m = [] then document
                else if starts_with (lit ''image/'') m then image
                else if starts_with (lit ''video/'') m then video
                else if starts_with (lit ''audio/'') m then audio
                else document))"

definition truthy_text :: "channel_env \<Rightarrow> json option \<Rightarrow> ustring option" where
  "truthy_text env v = (if holds v then Some (js_String (ch_fmt env) v) else None)"

definition signal_attachments :: "channel_env \<Rightarrow> json \<Rightarrow> canonical_attachment list" where
  "signal_attachments env dm =
     map (\<lambda>a. \<lparr>ct_ref = Some (js_String (ch_fmt env) (own a (lit ''id''))), ct_mime = truthy_text env (own a (lit ''contentType'')),
              ct_filename = truthy_text env (own a (lit ''filename'')),
              ct_size = (case own a (lit ''size'') of Some (JNum n) \<Rightarrow> Some n | _ \<Rightarrow> None)\<rparr>)
       (filter (\<lambda>a. holds (own a (lit ''id''))) (items (own dm (lit ''attachments''))))"

definition opt_text_field :: "string \<Rightarrow> ustring option \<Rightarrow> fields" where
  "opt_text_field k v = (case v of Some s \<Rightarrow> [(lit k, JStr s)] | None \<Rightarrow> [])"

definition media_json :: "canonical_attachment \<Rightarrow> json" where
  "media_json a = JObj (opt_text_field ''mime'' (ct_mime a) @ opt_text_field ''filename'' (ct_filename a)
     @ (case ct_size a of Some n \<Rightarrow> [(lit ''size'', JNum n)] | None \<Rightarrow> []))"

definition signal_group :: "json option \<Rightarrow> fields" where
  "signal_group context = (case coalesce (mem context ''id'') (mem context ''groupId'') of
       Some g \<Rightarrow> [(lit ''groupId'', g)] | None \<Rightarrow> [])"

definition signal_inbound :: "channel_env \<Rightarrow> account_config \<Rightarrow> endpoint_config \<Rightarrow> json \<Rightarrow> canonical_inbound list option" where
  "signal_inbound env acc ep raw =
     (let fmt = ch_fmt env; envelope = own raw (lit ''envelope'') in
      if \<not> is_object raw \<or> \<not> holds envelope then Some []
      else (let sent = mem (mem envelope ''syncMessage'') ''sentMessage'';
                received = mem envelope ''dataMessage'';
                message = coalesce received sent
            in if \<not> holds message then Some []
               else (let dm = the message; isOwn = \<not> holds received \<and> holds sent;
                         ts = js_Number fmt (coalesce (mem envelope ''timestamp'')
                                (coalesce (own dm (lit ''timestamp'')) (Some (JNum (of_int (ch_now env))))));
                         files = own dm (lit ''attachments'');
                         context = own dm (lit ''groupContext'')
                     in case (endpointNumber ep, ts, js_date ts) of
                          (Inr self, Some stamp, Some time) \<Rightarrow>
                            if coalesce files None \<noteq> None \<and> \<not> is_list files then None
                            else if holds context \<and> coalesce received None = None then None
                            else (let peer = (if isOwn
                                        then text_or_empty fmt (coalesce (own dm (lit ''destinationNumber'')) (own dm (lit ''destination'')))
                                        else text_or_empty fmt (coalesce (mem envelope ''source'') (mem envelope ''sourceNumber'')));
                                      attachments = signal_attachments env dm;
                                      (body, rest) = text_member (own dm (lit ''message''));
                                      group = (if holds context then signal_group context else [])
                                  in Some [\<lparr>ci_direction = (if isOwn then outbound else inbound), ci_externalId = fmt stamp,
                                       ci_from = makeAddress (if isOwn then self else peer),
                                       ci_to = [makeAddress (if isOwn then peer else self)],
                                       ci_type = type_name (signalMessageType dm (case attachments of a # as \<Rightarrow> ct_mime a | [] \<Rightarrow> None)),
                                       ci_text = body, ci_attachments = attachments, ci_meta = group,
                                       ci_more = rest
                                         @ (case attachments of a # as \<Rightarrow> [(lit ''media'', media_json a)] | [] \<Rightarrow> [])
                                         @ (if voice_note files then [(lit ''voice'', JBool True)] else [])
                                         @ (if holds context \<and> group = [] then [(lit ''meta'', JObj [])] else []),
                                       ci_receivedAt = time, ci_rawPayload = raw\<rparr>])
                        | _ \<Rightarrow> None)))"

definition signal_fetch :: "channel_env \<Rightarrow> account_config \<Rightarrow> ustring \<Rightarrow> fetched_file option" where
  "signal_fetch env acc ref =
     (case (signal_baseUrl env acc, encodeURIComponent ref) of
        (Inr base, Some r) \<Rightarrow>
          (case ch_fetch env (get_request (base @ lit ''/v1/attachments/'' @ r) []) of
             Inl e \<Rightarrow> None
           | Inr res \<Rightarrow> if \<not> response_ok (hr_status res) then None
               else Some \<lparr>ff_bytes = hr_bytes res, ff_contentType = (case hr_type res of Some t \<Rightarrow> t | None \<Rightarrow> lit ''application/octet-stream''),
                          ff_fileName = ref\<rparr>)
      | _ \<Rightarrow> None)"

text \<open>The adapter as the ingest service uses it for one account.\<close>

definition signal_adapter :: "channel_env \<Rightarrow> account_config \<Rightarrow> inbound_adapter" where
  "signal_adapter env acc = \<lparr>ia_status = signal_status env, ia_inbound = signal_inbound env,
     ia_fetch = Some (signal_fetch env acc)\<rparr>"

section \<open>Provisioning\<close>

definition signal_provisionQr :: "channel_env \<Rightarrow> account_config \<Rightarrow> ustring \<Rightarrow> thrown + qr_result" where
  "signal_provisionQr env acc requested =
     (let deviceName = js_trim requested in
      if deviceName = [] then Inl (ProvisioningError INVALID_INPUT (lit ''deviceName is required''))
      else (case (signal_baseUrl env acc, encodeURIComponent deviceName) of
              (Inl e, _) \<Rightarrow> Inl (OtherError e)
            | (_, None) \<Rightarrow> Inl (OtherError (lit ''URI malformed''))
            | (Inr base, Some n) \<Rightarrow>
                (case ch_fetch env (get_request (base @ lit ''/v1/qrcodelink/raw?device_name='' @ n) []) of
                   Inl e \<Rightarrow> Inl (network_error ''signal-cli-rest-api qrcodelink'' e)
                 | Inr r \<Rightarrow>
                     (let body = json_or (JObj []) r;
                          uri = coalesce (own body (lit ''device_link_uri'')) (own body (lit ''uri''))
                      in if \<not> response_ok (hr_status r) \<or> \<not> holds uri
                         then Inl (status_error ''signal-cli-rest-api qrcodelink'' (hr_status r))
                         else (case ttl_of env (own body (lit ''expires_in'')) 600 of
                                 Inl e \<Rightarrow> Inl e
                               | Inr t \<Rightarrow> Inr \<lparr>qr_sessionId = deviceName, qr_uri = js_String (ch_fmt env) uri,
                                                qr_imageUrl = None, qr_ttlSeconds = t\<rparr>)))))"

definition signal_account_of :: "channel_env \<Rightarrow> json \<Rightarrow> provisioned" where
  "signal_account_of env a =
     (case a of
        JStr n \<Rightarrow> \<lparr>pv_externalId = n, pv_phoneE164 = Some n, pv_uuid = None, pv_deviceName = None\<rparr>
      | _ \<Rightarrow>
          (let number = (if holds (own a (lit ''number'')) then js_String (ch_fmt env) (own a (lit ''number'')) else [])
           in \<lparr>pv_externalId = number, pv_phoneE164 = (if number = [] then None else Some number),
               pv_uuid = truthy_text env (own a (lit ''uuid'')),
               pv_deviceName = as_string (coalesce (own a (lit ''device_name'')) (own a (lit ''deviceName'')))\<rparr>))"

definition signal_listAccounts :: "channel_env \<Rightarrow> account_config \<Rightarrow> thrown + provisioned list" where
  "signal_listAccounts env acc =
     (case signal_baseUrl env acc of
        Inl e \<Rightarrow> Inl (OtherError e)
      | Inr base \<Rightarrow>
          (case ch_fetch env (get_request (base @ lit ''/v1/accounts'') []) of
             Inl e \<Rightarrow> Inl (network_error ''signal-cli-rest-api list accounts'' e)
           | Inr r \<Rightarrow>
               if \<not> response_ok (hr_status r) then Inl (status_error ''signal-cli-rest-api list accounts'' (hr_status r))
               else Inr (map (signal_account_of env) (items (Some (json_or (JArr []) r))))))"

definition signal_unlink :: "channel_env \<Rightarrow> account_config \<Rightarrow> ustring \<Rightarrow> thrown option" where
  "signal_unlink env acc externalId =
     (case (signal_baseUrl env acc, encodeURIComponent externalId) of
        (Inl e, _) \<Rightarrow> Some (OtherError e)
      | (_, None) \<Rightarrow> Some (OtherError (lit ''URI malformed''))
      | (Inr base, Some n) \<Rightarrow>
          (case ch_fetch env (json_request ''DELETE'' (base @ lit ''/v1/devices/'' @ n @ lit ''/local-data'') json_type
                  (JObj [(lit ''ignore_registered'', JBool True)])) of
             Inl e \<Rightarrow> Some (network_error ''signal-cli-rest-api unlink'' e)
           | Inr r \<Rightarrow>
               if \<not> response_ok (hr_status r) \<and> hr_status r \<noteq> 404
               then Some (status_error ''signal-cli-rest-api unlink'' (hr_status r)) else None))"

definition signal_provisioning :: "channel_env \<Rightarrow> provision_adapter" where
  "signal_provisioning env = \<lparr>pa_mode = Some by_qr, pa_qr = Some (signal_provisionQr env), pa_list = Some (signal_listAccounts env),
     pa_image = None, pa_verify = None, pa_unlink = Some (signal_unlink env)\<rparr>"

section \<open>Sending keeps the contract\<close>

interpretation signal: channel_sender signal_send
  by unfold_locales (auto simp: signal_send_def signal_refusal_def Let_def split: sum.split option.split)

text \<open>
  A Signal message to a number that the discovery service does not know is refused for good,
  whatever status the sidecar answered the send with: the send processor does not retry it.
\<close>

lemma unknown_recipient_is_permanent:
  assumes "signal_baseUrl env acc = Inr base" "endpointNumber ep = Inr number" "signal_recipients o' \<noteq> []"
    and "ch_fetch env (json_request ''POST'' (base @ lit ''/v2/send'') json_type (signal_body o' number)) = Inr r"
    and "\<not> response_ok (hr_status r)" "findUnregistered env acc number (signal_recipients o') \<noteq> []"
  shows "\<exists>res e. signal_send env o' ep acc = Answered res \<and> re_error res = Some e \<and> \<not> re_accepted res \<and> \<not> ae_retryable e
    \<and> ae_code e = lit ''RECIPIENT_NOT_REGISTERED''"
  using assms by (simp add: signal_send_def signal_refusal_def refused_def Let_def)

section \<open>Both sides of a conversation\<close>

text \<open>What the sidecar streams: a message of a peer, and one the operator wrote on the phone.\<close>

definition peer_frame :: "ustring \<Rightarrow> rat \<Rightarrow> fields \<Rightarrow> json" where
  "peer_frame peer ts message = JObj [(lit ''envelope'', JObj [(lit ''source'', JStr peer), (lit ''timestamp'', JNum ts),
     (lit ''dataMessage'', JObj message)])]"

definition own_frame :: "ustring \<Rightarrow> ustring \<Rightarrow> rat \<Rightarrow> fields \<Rightarrow> json" where
  "own_frame self peer ts message = JObj [(lit ''envelope'', JObj [(lit ''source'', JStr self), (lit ''timestamp'', JNum ts),
     (lit ''syncMessage'', JObj [(lit ''sentMessage'', JObj ((lit ''destinationNumber'', JStr peer) # message))])])]"

lemma frames_are_messages:
  "signal_status env acc (peer_frame peer ts m) = None" "signal_status env acc (own_frame self peer ts m) = None"
  by (simp_all add: signal_status_def peer_frame_def own_frame_def holds_def Let_def)

lemma signal_sides_meet_aux:
  assumes "endpointNumber ep = Inr self" and "js_date (Some ts) = Some t"
    and "map_of m (lit ''attachments'') = None" "map_of m (lit ''groupContext'') = None"
  shows "\<exists>i j. signal_inbound env acc ep (peer_frame peer ts m) = Some [i] \<and> signal_inbound env acc ep (own_frame self peer ts m) = Some [j]
    \<and> ci_direction i = inbound \<and> ci_direction j = outbound
    \<and> counterparty i = Some (makeAddress peer) \<and> counterparty j = counterparty i
    \<and> ci_externalId i = ch_fmt env ts \<and> ci_externalId j = ch_fmt env ts \<and> ci_receivedAt i = t \<and> ci_receivedAt j = t"
proof -
  have "own (JObj m) (lit ''attachments'') = None" "own (JObj m) (lit ''groupContext'') = None" using assms by simp_all
  then show ?thesis
    using assms
    by (simp add: signal_inbound_def peer_frame_def own_frame_def mem_def holds_def text_or_empty_def js_String_def
        signal_attachments_def voice_note_def items_def counterparty_def Let_def case_prod_beta)
qed

text \<open>
  What a peer writes and what the operator answers from the phone are one conversation:
  the counterparty of both messages is the peer, the first is inbound and the second outbound,
  each under the time the sender gave it as its id.
\<close>

theorem signal_sides_meet:
  assumes "endpointNumber ep = Inr self" and "js_date (Some ts) = Some t"
    and "map_of m (lit ''attachments'') = None" "map_of m (lit ''groupContext'') = None"
  shows "\<exists>i j. signal_inbound env acc ep (peer_frame peer ts m) = Some [i] \<and> signal_inbound env acc ep (own_frame self peer ts m) = Some [j]
    \<and> ci_direction i = inbound \<and> ci_direction j = outbound
    \<and> counterparty i = Some (makeAddress peer) \<and> counterparty j = counterparty i
    \<and> ci_externalId i = ch_fmt env ts \<and> ci_externalId j = ch_fmt env ts \<and> ci_receivedAt i = t \<and> ci_receivedAt j = t"
  using assms by (rule signal_sides_meet_aux)

definition signal_row :: account_row where
  "signal_row = sample_account\<lparr>ac_adapter := lit ''signal-cli-rest-api'', ac_type := signal\<rparr>"

definition signal_endpoint :: endpoint_config where
  "signal_endpoint = endpoint_config_row (sample_endpoint\<lparr>ep_phoneE164 := Some (lit ''+380671112233'')\<rparr>)"

lemma signal_endpoint_number: "endpointNumber signal_endpoint = Inr (lit ''+380671112233'')"
  by (simp add: endpointNumber_def signal_endpoint_def endpoint_config_row_def string_simps starts_with_def)

theorem signal_sides_meet_witness:
  "\<exists>i j. signal_inbound (plain_channel (\<lambda>q. Inl [])) (account_config_of signal_row) signal_endpoint (peer_frame (lit ''+380679998877'') 5 []) = Some [i]
    \<and> signal_inbound (plain_channel (\<lambda>q. Inl [])) (account_config_of signal_row) signal_endpoint
        (own_frame (lit ''+380671112233'') (lit ''+380679998877'') 5 []) = Some [j]
    \<and> counterparty j = counterparty i"
  using signal_sides_meet [OF signal_endpoint_number, of 5 5 "[]"] by (fastforce simp: js_date_def truncated_def)

section \<open>What is lost\<close>

text \<open>
  A message that the operator writes to a group from the phone is never stored: reading the
  group of such a frame fails, as the adapter looks for it in a part the frame does not have.
\<close>

theorem own_group_message_is_lost:
  assumes "holds (map_of m (lit ''groupContext''))"
  shows "signal_inbound env acc ep (own_frame self peer ts m) = None"
proof -
  have "holds (own (JObj m) (lit ''groupContext''))" using assms by simp
  then show ?thesis
    by (auto simp: signal_inbound_def own_frame_def mem_def holds_def Let_def split: sum.split option.split)
qed

theorem own_group_message_is_lost_witness:
  "signal_inbound (plain_channel (\<lambda>q. Inl [])) (account_config_of signal_row) signal_endpoint (own_frame [] [] 5
     [(lit ''message'', JStr (lit ''hi'')), (lit ''groupContext'', JObj [(lit ''groupId'', JStr (lit ''g''))])]) = None"
  by (rule own_group_message_is_lost) (simp add: holds_def)

text \<open>
  Signal's delivery and read receipts change nothing: the sidecar streams everything inside
  an envelope, and the adapter looks for receipts beside it. Such a frame is no status, and
  when its envelope carries a receipt it is no message either.
\<close>

theorem receipts_are_not_applied:
  assumes "eps.lookup d e = Some ep" "accs.lookup d (ep_accountId ep) = Some acc" "e \<noteq> []"
    and "ie_adapters env (ac_adapter acc) = Some (signal_adapter ch c)"
    and "raw = JObj [(lit ''envelope'', JObj ((lit ''receiptMessage'', receipt) # others)), (lit ''account'', account)]"
    and "map_of others (lit ''dataMessage'') = None" "map_of others (lit ''syncMessage'') = None"
  shows "ingest env name raw (Some e) d = (Some 0, d)"
  using assms
  by (simp add: ingest_def signal_adapter_def signal_status_def signal_inbound_def mem_def holds_def Let_def)

definition signal_number :: endpoint_row where
  "signal_number = sample_endpoint\<lparr>ep_phoneE164 := Some (lit ''+380671112233'')\<rparr>"

definition signal_gateway :: db where
  "signal_gateway = (empty_db tick_ids)\<lparr>accounts := [signal_row], endpoints := [signal_number]\<rparr>"

definition signal_ingest :: ingest_env where
  "signal_ingest = sample_ingest_env\<lparr>ie_adapters := (\<lambda>n. Some (signal_adapter ((plain_channel (\<lambda>q. Inl []))\<lparr>ch_fmt := (\<lambda>r. lit ''5'')\<rparr>)
     (account_config_of signal_row)))\<rparr>"

lemma signal_gateway_rows:
  "eps.lookup signal_gateway (lit ''e'') = Some signal_number"
  "accs.lookup signal_gateway (ep_accountId signal_number) = Some signal_row" "ac_type signal_row \<noteq> sms" "lit ''e'' \<noteq> []"
  by (simp_all add: eps.lookup_def accs.lookup_def signal_gateway_def signal_number_def signal_row_def sample_endpoint_def sample_account_def)

theorem receipts_are_not_applied_witness:
  "ingest signal_ingest (lit ''signal-cli-rest-api'') (JObj [(lit ''envelope'', JObj [(lit ''receiptMessage'', JObj [(lit ''isRead'', JBool True)])]),
     (lit ''account'', JNull)]) (Some (lit ''e'')) signal_gateway = (Some 0, signal_gateway)"
  by (rule receipts_are_not_applied [OF signal_gateway_rows(1,2,4), where others = "[]"]) (simp_all add: signal_ingest_def)

text \<open>
  Of two messages that two people send to the number in the same millisecond only the first
  is stored: the sender's time is the whole id, and the second is taken for its copy.
\<close>

theorem same_instant_message_is_lost:
  assumes found: "eps.lookup d e = Some ep" "accs.lookup d (ep_accountId ep) = Some acc" "ac_type acc \<noteq> sms" "e \<noteq> []"
    and adapter: "ie_adapters env (ac_adapter acc) = Some (signal_adapter ch c)" and race: "benign (ie_race env)"
    and number: "endpointNumber (endpoint_config_row ep) = Inr self" and time: "js_date (Some ts) = Some t" "ch_fmt ch ts \<noteq> []"
    and plain: "map_of m (lit ''attachments'') = None" "map_of m (lit ''groupContext'') = None"
      "map_of m' (lit ''attachments'') = None" "map_of m' (lit ''groupContext'') = None"
  shows "\<exists>n d1. ingest env name (peer_frame p ts m) (Some e) d = (Some n, d1) \<and> ingest env name (peer_frame q ts m') (Some e) d1 = (Some 0, d1)"
proof -
  let ?c = "account_config_of acc" and ?ep = "endpoint_config_row ep"
  obtain i where i: "signal_inbound ch ?c ?ep (peer_frame p ts m) = Some [i]" "ci_externalId i = ch_fmt ch ts" "counterparty i = Some (makeAddress p)"
    using signal_sides_meet_aux [OF number time(1) plain(1,2)] by blast
  obtain j where j: "signal_inbound ch ?c ?ep (peer_frame q ts m') = Some [j]" "ci_externalId j = ch_fmt ch ts"
    using signal_sides_meet_aux [OF number time(1) plain(3,4)] by blast
  have first: "ingest env name (peer_frame p ts m) (Some e) d = persist_all env (signal_adapter ch c) ep acc [i] 0 d"
    using found adapter i by (simp add: ingest_def signal_adapter_def frames_are_messages ingest_all_plain del: persist_all.simps ingest_all.simps)
  have "peer_known i" using i(3) toE164_not_Nil by (auto simp: peer_known_def makeAddress_def Let_def)
  then obtain n d1 where run: "persist_all env (signal_adapter ch c) ep acc [i] 0 d = (Some n, d1)"
    using persist_all_total [of "[i]" env "signal_adapter ch c" ep acc 0 d] by auto
  from persist_all_effect [OF run race] i(2) time(2)
  have f: "same_frame d d1" and twin: "stored_twin (ep_id ep) (ci_externalId j) d1 \<noteq> None" by (auto simp: j(2))
  from f found have "eps.lookup d1 e = Some ep" "accs.lookup d1 (ep_accountId ep) = Some acc"
    by (simp_all add: same_frame_def eps.lookup_def accs.lookup_def)
  then have "ingest env name (peer_frame q ts m') (Some e) d1 = persist_all env (signal_adapter ch c) ep acc [j] 0 d1"
    using found adapter j by (simp add: ingest_def signal_adapter_def frames_are_messages ingest_all_plain del: persist_all.simps ingest_all.simps)
  with persist_all_again [of "[j]" ep d1] twin first run show ?thesis by auto
qed

theorem same_instant_message_is_lost_witness:
  "\<exists>n d1. ingest signal_ingest (lit ''signal-cli-rest-api'') (peer_frame (lit ''+380671111111'') 5 []) (Some (lit ''e'')) signal_gateway = (Some n, d1)
    \<and> ingest signal_ingest (lit ''signal-cli-rest-api'') (peer_frame (lit ''+380672222222'') 5 [(lit ''message'', JStr (lit ''hi''))]) (Some (lit ''e'')) d1
      = (Some 0, d1)"
proof -
  have n: "endpointNumber (endpoint_config_row signal_number) = Inr (lit ''+380671112233'')"
    using signal_endpoint_number by (simp add: signal_endpoint_def signal_number_def)
  show ?thesis
    by (rule same_instant_message_is_lost [OF signal_gateway_rows _ _ n, where t = 5
          and ch = "(plain_channel (\<lambda>q. Inl []))\<lparr>ch_fmt := (\<lambda>r. lit ''5'')\<rparr>" and c = "account_config_of signal_row"])
      (simp_all add: signal_ingest_def sample_ingest_env_def benign_id js_date_def truncated_def)
qed

section \<open>The bridge\<close>

text \<open>
  The open sockets by number, and the endpoint each number stood for when it was last seen.
  \<open>bv_opens\<close> says for which addresses a socket can be made, \<open>bv_parse\<close> is \<open>JSON.parse\<close>.
  Numbers come from the database, whose texts all have a UTF-8 form.
\<close>

record bridge =
  bg_sockets :: "ustring list"
  bg_endpointIds :: "(ustring \<times> ustring) list"
  bg_stopping :: bool

record bridge_env =
  bv_opens :: "ustring \<Rightarrow> bool"
  bv_parse :: "ustring \<Rightarrow> json option"
  bv_getenv :: "string \<Rightarrow> ustring option"
  bv_fmt :: "rat \<Rightarrow> ustring"
  bv_ingest :: ingest_env

definition SIGNAL_ADAPTER :: ustring where
  "SIGNAL_ADAPTER = lit ''signal-cli-rest-api''"

definition bridge_baseUrl :: "bridge_env \<Rightarrow> json \<Rightarrow> ustring" where
  "bridge_baseUrl env config =
     (case coalesce (own config (lit ''baseUrl'')) None of
        Some v \<Rightarrow> js_String (bv_fmt env) (Some v)
      | None \<Rightarrow> (case bv_getenv env ''SIGNAL_BASE_URL'' of Some u \<Rightarrow> u | None \<Rightarrow> lit ''http://signal-cli:8080''))"

definition socket_url :: "ustring \<Rightarrow> ustring \<Rightarrow> ustring" where
  "socket_url base phone =
     (let ws = (if starts_with (lit ''http'') base then lit ''ws'' @ drop 4 base else base)
      in strip_slash ws @ lit ''/v1/receive/'' @ (case encodeURIComponent phone of Some p \<Rightarrow> p | None \<Rightarrow> []))"

definition open_socket :: "bridge_env \<Rightarrow> ustring \<Rightarrow> ustring \<Rightarrow> bridge \<Rightarrow> bridge" where
  "open_socket env base phone b =
     (if bv_opens env (socket_url base phone) then b\<lparr>bg_sockets := bg_sockets b @ [phone]\<rparr> else b)"

definition bridge_phone :: "endpoint_row \<Rightarrow> ustring option" where
  "bridge_phone e = (case ep_phoneE164 e of Some p \<Rightarrow> Some p | None \<Rightarrow> ep_externalId e)"

definition bridged_rows :: "account_row \<Rightarrow> db \<Rightarrow> endpoint_row list" where
  "bridged_rows acc d = filter (\<lambda>e. ep_accountId e = ac_id acc \<and> ep_state e = linked \<and> ep_enabled e) (endpoints d)"

definition want :: "bridge_env \<Rightarrow> ustring \<Rightarrow> endpoint_row \<Rightarrow> bridge \<times> ustring list \<Rightarrow> bridge \<times> ustring list" where
  "want env base e = (\<lambda>(b, wanted).
     if \<not> truthy_str (bridge_phone e) then (b, wanted)
     else (let phone = the (bridge_phone e);
               b1 = b\<lparr>bg_endpointIds := AList.update phone (ep_id e) (bg_endpointIds b)\<rparr>
           in (if phone \<in> set (bg_sockets b) then b1 else open_socket env base phone b1, phone # wanted)))"

definition bridge_reconcile :: "bridge_env \<Rightarrow> db \<Rightarrow> bridge \<Rightarrow> bridge" where
  "bridge_reconcile env d b =
     (if bg_stopping b then b
      else (case find (\<lambda>a. ac_adapter a = SIGNAL_ADAPTER) (accounts d) of
              None \<Rightarrow> b
            | Some acc \<Rightarrow>
                (let (b1, wanted) = fold (want env (bridge_baseUrl env (ac_config acc))) (bridged_rows acc d) (b, [])
                 in b1\<lparr>bg_sockets := filter (\<lambda>p. p \<in> set wanted) (bg_sockets b1)\<rparr>)))"

text \<open>The close event of a number's current socket; the end of the process.\<close>

definition socket_closed :: "ustring \<Rightarrow> bridge \<Rightarrow> bridge" where
  "socket_closed phone b = b\<lparr>bg_sockets := filter (\<lambda>p. p \<noteq> phone) (bg_sockets b)\<rparr>"

definition bridge_destroy :: "bridge \<Rightarrow> bridge" where
  "bridge_destroy b = b\<lparr>bg_stopping := True, bg_sockets := []\<rparr>"

definition handleFrame :: "bridge_env \<Rightarrow> ustring \<Rightarrow> ustring \<Rightarrow> bridge \<Rightarrow> db \<Rightarrow> db" where
  "handleFrame env phone data b d =
     (if js_trim data = [] then d
      else (case bv_parse env data of
              None \<Rightarrow> d
            | Some payload \<Rightarrow>
                (case map_of (bg_endpointIds b) phone of
                   None \<Rightarrow> d
                 | Some i \<Rightarrow> if i = [] then d else snd (ingest (bv_ingest env) SIGNAL_ADAPTER payload (Some i) d))))"

text \<open>The part of the state that one linked number is about.\<close>

definition serves :: "account_row \<Rightarrow> db \<Rightarrow> bridge \<Rightarrow> ustring \<Rightarrow> bool" where
  "serves acc d b p \<longleftrightarrow> (\<exists>e\<in>set (bridged_rows acc d). bridge_phone e = Some p \<and> map_of (bg_endpointIds b) p = Some (ep_id e))"

lemma open_socket_frame [simp]: "bg_endpointIds (open_socket env base p b) = bg_endpointIds b"
  "bg_stopping (open_socket env base p b) = bg_stopping b"
  by (simp_all add: open_socket_def)

lemma open_socket_sockets:
  "set (bg_sockets (open_socket env base p b)) \<subseteq> insert p (set (bg_sockets b))"
  "bv_opens env (socket_url base p) \<Longrightarrow> p \<in> set (bg_sockets (open_socket env base p b))"
  "set (bg_sockets b) \<subseteq> set (bg_sockets (open_socket env base p b))"
  by (auto simp: open_socket_def)

lemma want_fold:
  assumes "fold (want env base) es (b, w) = (b', w')" and "\<forall>p\<in>set w. serves acc d b p" and "set es \<subseteq> set (bridged_rows acc d)"
  shows "(\<forall>p\<in>set w'. serves acc d b' p) \<and> set w \<subseteq> set w' \<and> set (bg_sockets b) \<subseteq> set (bg_sockets b')
    \<and> (\<forall>e\<in>set es. \<forall>p. bridge_phone e = Some p \<longrightarrow> p \<noteq> [] \<longrightarrow> p \<in> set w')
    \<and> ((\<forall>u. bv_opens env u) \<longrightarrow> (\<forall>p\<in>set w. p \<in> set (bg_sockets b)) \<longrightarrow> (\<forall>p\<in>set w'. p \<in> set (bg_sockets b')))"
  using assms
proof (induction es arbitrary: b w)
  case (Cons e es)
  obtain b1 w1 where s: "want env base e (b, w) = (b1, w1)" by fastforce
  have e: "e \<in> set (bridged_rows acc d)" using Cons.prems(3) by simp
  have "\<forall>p\<in>set w1. serves acc d b1 p"
  proof (cases "truthy_str (bridge_phone e)")
    case True
    then obtain q where q: "bridge_phone e = Some q" by (cases "bridge_phone e") auto
    with s True have "bg_endpointIds b1 = AList.update q (ep_id e) (bg_endpointIds b)" "w1 = q # w"
      by (auto simp: want_def Let_def)
    then show ?thesis using Cons.prems(2) e q by (auto simp: serves_def update_conv')
  next
    case False
    with s Cons.prems(2) show ?thesis by (simp add: want_def)
  qed
  moreover from s have "set w \<subseteq> set w1" "set (bg_sockets b) \<subseteq> set (bg_sockets b1)"
    "bridge_phone e = Some p \<Longrightarrow> p \<noteq> [] \<Longrightarrow> p \<in> set w1"
    "(\<forall>u. bv_opens env u) \<Longrightarrow> (\<forall>p\<in>set w. p \<in> set (bg_sockets b)) \<Longrightarrow> (\<forall>p\<in>set w1. p \<in> set (bg_sockets b1))" for p
    by (auto simp: want_def open_socket_def Let_def split: if_splits)
  ultimately show ?case using Cons.IH [of b1 w1] Cons.prems s by (auto simp del: not_None_eq)
qed simp

text \<open>
  C23. After every reconciliation the sockets are those of linked and enabled numbers of the first
  Signal channel, each with the endpoint its frames are ingested for, and when sockets can be
  opened every such number has one.
\<close>

theorem bridge_follows_linked_numbers:
  assumes "\<not> bg_stopping b" and "find (\<lambda>a. ac_adapter a = SIGNAL_ADAPTER) (accounts d) = Some acc"
    and "b' = bridge_reconcile env d b"
  shows "(\<forall>p\<in>set (bg_sockets b'). serves acc d b' p)
    \<and> ((\<forall>u. bv_opens env u) \<longrightarrow> (\<forall>e\<in>set (bridged_rows acc d). \<forall>p. bridge_phone e = Some p \<longrightarrow> p \<noteq> [] \<longrightarrow> p \<in> set (bg_sockets b')))"
proof -
  obtain b1 w where f: "fold (want env (bridge_baseUrl env (ac_config acc))) (bridged_rows acc d) (b, []) = (b1, w)" by fastforce
  have b': "b' = b1\<lparr>bg_sockets := filter (\<lambda>p. p \<in> set w) (bg_sockets b1)\<rparr>"
    using assms f by (simp add: bridge_reconcile_def)
  have "serves acc d b' p = serves acc d b1 p" for p by (simp add: b' serves_def)
  with want_fold [OF f, of acc d] b' show ?thesis by auto
qed

theorem bridge_follows_linked_numbers_witness:
  "lit ''+380671112233'' \<in> set (bg_sockets (bridge_reconcile \<lparr>bv_opens = (\<lambda>u. True), bv_parse = (\<lambda>t. None), bv_getenv = (\<lambda>v. None),
       bv_fmt = (\<lambda>r. []), bv_ingest = signal_ingest\<rparr>
     ((empty_db tick_ids)\<lparr>accounts := [signal_row], endpoints := [signal_number\<lparr>ep_state := linked\<rparr>]\<rparr>)
     \<lparr>bg_sockets = [], bg_endpointIds = [], bg_stopping = False\<rparr>))"
proof -
  let ?env = "\<lparr>bv_opens = (\<lambda>u. True), bv_parse = (\<lambda>t. None), bv_getenv = (\<lambda>v. None), bv_fmt = (\<lambda>r. []), bv_ingest = signal_ingest\<rparr>"
  let ?d = "(empty_db tick_ids)\<lparr>accounts := [signal_row], endpoints := [signal_number\<lparr>ep_state := linked\<rparr>]\<rparr>"
  let ?b = "\<lparr>bg_sockets = [], bg_endpointIds = [], bg_stopping = False\<rparr>"
  have "find (\<lambda>a. ac_adapter a = SIGNAL_ADAPTER) (accounts ?d) = Some signal_row"
    by (simp add: signal_row_def SIGNAL_ADAPTER_def)
  moreover have "bridged_rows signal_row ?d = [signal_number\<lparr>ep_state := linked\<rparr>]"
    by (simp add: bridged_rows_def signal_row_def signal_number_def sample_endpoint_def sample_account_def)
  moreover have "bridge_phone (signal_number\<lparr>ep_state := linked\<rparr>) = Some (lit ''+380671112233'')"
    by (simp add: bridge_phone_def signal_number_def)
  ultimately show ?thesis
    using bridge_follows_linked_numbers [of ?b ?d signal_row _ ?env] by simp
qed

end
