(* ===== verification/Unoapi.thy ===== *)
theory Unoapi
  imports Channel
begin

text \<open>
  The UnoAPI adapter (packages/adapters/src/unoapi/index.ts): the payload of the WhatsApp
  Cloud API for each type of message, sending, the messages and receipts of the webhook,
  pairing a phone, the list of paired phones, and dropping one. The lemmas show that an
  answer to a send is well formed, what becomes of a file the worker has loaded, how a
  message without a time is dated, and which message a receipt reports on.

  A payload of several messages, one of which carries a time that is no date, is refused
  as a whole here; the code stores the messages before it first.
\<close>

section \<open>The account and the phone\<close>

definition unoapi_baseUrl :: "channel_env \<Rightarrow> account_config \<Rightarrow> ustring + ustring" where
  "unoapi_baseUrl env acc = (case base_url env acc of Some b \<Rightarrow> Inr b | None \<Rightarrow> Inl (missing_base ''unoapi''))"

definition unoapi_apiKey :: "channel_env \<Rightarrow> account_config \<Rightarrow> ustring + ustring" where
  "unoapi_apiKey env acc =
     (let key = config_text env acc ''apiKey'' in
      if key = [] then Inl (lit ''unoapi: account.configJson.apiKey is required'') else Inr key)"

definition endpointPhone :: "endpoint_config \<Rightarrow> ustring + ustring" where
  "endpointPhone ep =
     (let phone = (case ec_phoneE164 ep of Some p \<Rightarrow> p | None \<Rightarrow> ec_externalId ep) in
      if phone = [] then Inl (lit ''unoapi: endpoint missing phoneE164/externalId'') else Inr (strip_plus phone))"

definition unoapi_healthCheck :: "channel_env \<Rightarrow> account_config \<Rightarrow> ustring + adapter_health" where
  "unoapi_healthCheck env acc =
     (case unoapi_baseUrl env acc of
        Inl e \<Rightarrow> Inl e
      | Inr base \<Rightarrow>
          (let latency = (lit ''latencyMs'', JNum (of_int (ch_done env - ch_now env))) in
           case ch_fetch env (get_request (base @ lit ''/ping'') []) of
             Inl e \<Rightarrow> Inr \<lparr>ah_ok = False, ah_details = [(lit ''error'', JStr e), latency]\<rparr>
           | Inr r \<Rightarrow> Inr \<lparr>ah_ok = response_ok (hr_status r),
               ah_details = [(lit ''httpStatus'', JNum (of_int (hr_status r))), latency]\<rparr>))"

section \<open>Sending\<close>

definition text_payload :: "outbound_message \<Rightarrow> fields" where
  "text_payload o' = [(lit ''type'', JStr (lit ''text'')), (lit ''text'', JObj [(lit ''body'', JStr (outbound_text o'))])]"

definition media_payload :: "outbound_message \<Rightarrow> fields" where
  "media_payload o' =
     (let mt = type_name (om_type o') in
      [(lit ''type'', JStr mt),
       (mt, JObj (text_fields [(''link'', case om_media o' of Some m \<Rightarrow> sm_url m | None \<Rightarrow> None), (''caption'', om_text o')]))])"

text \<open>A member of the message's meta object; \<open>null\<close> gives way to the default.\<close>

definition meta_or :: "json \<Rightarrow> outbound_message \<Rightarrow> string \<Rightarrow> json" where
  "meta_or d o' k = the (coalesce (map_of (om_meta o') (lit k)) (Some d))"

fun payload_members :: "message_type \<Rightarrow> outbound_message \<Rightarrow> fields" where
  "payload_members text_t o' = text_payload o'"
| "payload_members image o' = media_payload o'"
| "payload_members video o' = media_payload o'"
| "payload_members audio o' = media_payload o'"
| "payload_members document o' = media_payload o'"
| "payload_members sticker o' = media_payload o'"
| "payload_members location o' =
     [(lit ''type'', JStr (lit ''location'')), (lit ''location'', meta_or (JObj []) o' ''location'')]"
| "payload_members contact o' =
     [(lit ''type'', JStr (lit ''contacts'')), (lit ''contacts'', meta_or (JArr []) o' ''contacts'')]"
| "payload_members reaction o' =
     [(lit ''type'', JStr (lit ''reaction'')),
      (lit ''reaction'', JObj (text_fields [(''message_id'', om_replyTo o'), (''emoji'', om_reaction o')]))]"
| "payload_members _ o' = text_payload o'"

definition buildCloudApiPayload :: "outbound_message \<Rightarrow> json" where
  "buildCloudApiPayload o' =
     JObj ([(lit ''messaging_product'', JStr (lit ''whatsapp'')), (lit ''to'', JStr (strip_plus (recipient_of o')))]
       @ payload_members (om_type o') o')"

definition unoapi_answer :: "channel_env \<Rightarrow> http_response \<Rightarrow> send_result" where
  "unoapi_answer env r =
     (let raw = json_or (JObj []) r; status = hr_status r; fmt = ch_fmt env; e = own raw (lit ''error'') in
      if \<not> response_ok status
      then refused (js_String fmt (coalesce (mem e ''code'') (Some (JStr (http_code status)))))
             (js_String fmt (coalesce (mem e ''message'') (Some (JStr (stringify fmt raw)))))
             (500 \<le> status \<or> status = 429) raw
      else taken (map_option (\<lambda>v. js_String fmt (Some v)) (coalesce (mem (mem (own raw (lit ''messages'')) ''0'') ''id'') None)) raw)"

text \<open>The key is read inside the try block: a missing one is answered like a network failure.\<close>

definition unoapi_send :: "channel_env \<Rightarrow> outbound_message \<Rightarrow> endpoint_config \<Rightarrow> account_config \<Rightarrow> send_answer" where
  "unoapi_send env o' ep acc =
     (case endpointPhone ep of
        Inl e \<Rightarrow> Threw e
      | Inr phone \<Rightarrow>
          (case unoapi_baseUrl env acc of
             Inl e \<Rightarrow> Threw e
           | Inr base \<Rightarrow>
               (case unoapi_apiKey env acc of
                  Inl e \<Rightarrow> Answered (refused (lit ''NETWORK_ERROR'') e True JNull)
                | Inr key \<Rightarrow>
                    (case ch_fetch env (json_request ''POST'' (base @ lit ''/v15.0/'' @ phone @ lit ''/messages'')
                            (json_type @ [(''authorization'', key)]) (buildCloudApiPayload o')) of
                       Inl e \<Rightarrow> Answered (refused (lit ''NETWORK_ERROR'') e True JNull)
                     | Inr r \<Rightarrow> Answered (unoapi_answer env r)))))"

section \<open>The webhook\<close>

text \<open>\<open>entry?.[0]?.changes?.[0]?.value\<close>.\<close>

definition change_value :: "json \<Rightarrow> json option" where
  "change_value raw = mem (mem (mem (mem (own raw (lit ''entry'')) ''0'') ''changes'') ''0'') ''value''"

definition wa_state :: "ustring \<Rightarrow> status_name'" where
  "wa_state s = (if s = lit ''sent'' then st_sent else if s = lit ''delivered'' then st_delivered
     else if s = lit ''read'' then st_read else if s = lit ''failed'' then st_failed else st_unknown)"

definition no_statuses :: "json option \<Rightarrow> bool" where
  "no_statuses v = (case coalesce v None of None \<Rightarrow> True | Some (JStr s) \<Rightarrow> s = []
     | Some w \<Rightarrow> own w (lit ''length'') = Some (JNum 0))"

definition unoapi_status :: "channel_env \<Rightarrow> account_config \<Rightarrow> json \<Rightarrow> canonical_status option" where
  "unoapi_status env acc raw =
     (let fmt = ch_fmt env; ev = change_value raw; statuses = mem ev ''statuses''; s = mem statuses ''0'';
          state = wa_state (text_or_empty fmt (mem s ''status''))
      in if \<not> is_object raw \<or> \<not> holds ev \<or> no_statuses statuses then None
         else Some \<lparr>cs_externalId = text_or_empty fmt (mem s ''id''), cs_status = state,
                cs_error = (if state = st_failed then Some \<lparr>ae_code = lit ''WA_FAILED'',
                  ae_message = stringify fmt (the (coalesce (mem s ''errors'') (Some (JArr [])))), ae_retryable = False\<rparr> else None),
                cs_rawPayload = raw\<rparr>)"

text \<open>Lower case, also of the Kelvin sign.\<close>

definition wa_lower :: "nat \<Rightarrow> nat" where
  "wa_lower c = (if c = 8490 then 107 else lower_cp c)"

definition wa_types :: "(string \<times> message_type) list" where
  "wa_types = [(''text'', text_t), (''image'', image), (''audio'', audio), (''ptt'', voice), (''video'', video),
     (''document'', document), (''sticker'', sticker), (''location'', location), (''contacts'', contact),
     (''reaction'', reaction), (''interactive'', interactive), (''button'', system), (''system'', system)]"

text \<open>\<open>None\<close> is the exception of a type that is not a text.\<close>

definition mapWaTypeToCanonical :: "json option \<Rightarrow> message_type option" where
  "mapWaTypeToCanonical t =
     (case coalesce t (Some (JStr [])) of
        Some (JStr s) \<Rightarrow> Some (case map_of (map (\<lambda>(k, v). (lit k, v)) wa_types) (map wa_lower s) of
          Some ty \<Rightarrow> ty | None \<Rightarrow> unknown_t)
      | _ \<Rightarrow> None)"

definition wa_media :: "json \<Rightarrow> fields" where
  "wa_media m =
     (let part = (\<lambda>k. own m (lit k)); link = (\<lambda>k. mem (part k) ''link'') in
      if holds (part ''image'') \<or> holds (part ''video'') \<or> holds (part ''audio'') \<or> holds (part ''document'')
      then [(lit ''media'', JObj (json_fields
             [(''url'', coalesce (link ''image'') (coalesce (link ''video'') (coalesce (link ''audio'') (link ''document'')))),
              (''mime'', mem (part ''image'') ''mime_type''), (''filename'', mem (part ''document'') ''filename'')]))]
      else [])"

definition wa_message :: "channel_env \<Rightarrow> ustring \<Rightarrow> json \<Rightarrow> canonical_inbound option" where
  "wa_message env number m =
     (let fmt = ch_fmt env; (body, rest) = text_member (mem (own m (lit ''text'')) ''body'');
          sent = js_Number fmt (coalesce (own m (lit ''timestamp'')) (Some (JNum (of_int (ch_now env)))))
      in case (if m = JNull then None else mapWaTypeToCanonical (own m (lit ''type'')), js_date (map_option (\<lambda>r. r * 1000) sent)) of
           (Some ty, Some time) \<Rightarrow> Some
             \<lparr>ci_direction = inbound, ci_externalId = text_or_empty fmt (own m (lit ''id'')),
              ci_from = makeAddress (text_or_empty fmt (own m (lit ''from''))), ci_to = [makeAddress number],
              ci_type = type_name ty, ci_text = body, ci_attachments = [], ci_meta = [],
              ci_more = rest @ wa_media m
                @ json_fields [(''reaction'', mem (own m (lit ''reaction'')) ''emoji''),
                    (''replyToMessageId'', mem (own m (lit ''context'')) ''id'')],
              ci_receivedAt = time, ci_rawPayload = m\<rparr>
         | _ \<Rightarrow> None)"

text \<open>\<open>None\<close> when one of the elements is.\<close>

fun all_some :: "'a option list \<Rightarrow> 'a list option" where
  "all_some [] = Some []"
| "all_some (x # xs) = (case (x, all_some xs) of (Some y, Some ys) \<Rightarrow> Some (y # ys) | _ \<Rightarrow> None)"

definition unoapi_inbound :: "channel_env \<Rightarrow> account_config \<Rightarrow> endpoint_config \<Rightarrow> json \<Rightarrow> canonical_inbound list option" where
  "unoapi_inbound env acc ep raw =
     (let ev = change_value raw; messages = mem ev ''messages'';
          number = js_String (ch_fmt env) (coalesce (mem (mem ev ''metadata'') ''phone_number_id'') (Some (JStr (ec_externalId ep))))
      in if \<not> is_object raw \<or> \<not> holds ev \<or> \<not> is_list messages then Some []
         else all_some (map (wa_message env number) (items messages)))"

definition unoapi_adapter :: "channel_env \<Rightarrow> account_config \<Rightarrow> inbound_adapter" where
  "unoapi_adapter env acc = \<lparr>ia_status = unoapi_status env, ia_inbound = unoapi_inbound env, ia_fetch = None\<rparr>"

section \<open>Provisioning\<close>

definition unoapi_provisionQr :: "channel_env \<Rightarrow> account_config \<Rightarrow> ustring \<Rightarrow> thrown + qr_result" where
  "unoapi_provisionQr env acc deviceName =
     (let phone = js_trim deviceName; normalized = strip_plus phone in
      if phone = [] then Inl (ProvisioningError INVALID_INPUT (lit ''phoneE164 is required for UnoAPI''))
      else (case (unoapi_baseUrl env acc, encodeURIComponent normalized) of
              (Inl e, _) \<Rightarrow> Inl (OtherError e)
            | (_, None) \<Rightarrow> Inl (OtherError (lit ''URI malformed''))
            | (Inr base, Some n) \<Rightarrow>
                (case ch_fetch env (get_request (base @ lit ''/session/'' @ n @ lit ''/qr'') []) of
                   Inl e \<Rightarrow> Inl (network_error ''unoapi qr'' e)
                 | Inr r \<Rightarrow>
                     (let body = json_or (JObj []) r; qr = own body (lit ''qr'') in
                      if \<not> response_ok (hr_status r) \<or> \<not> holds qr then Inl (status_error ''unoapi qr'' (hr_status r))
                      else (case ttl_of env (own body (lit ''expires_in'')) 120 of
                              Inl e \<Rightarrow> Inl e
                            | Inr t \<Rightarrow> Inr \<lparr>qr_sessionId = normalized, qr_uri = js_String (ch_fmt env) qr,
                                qr_imageUrl = None, qr_ttlSeconds = t\<rparr>)))))"

definition session_account :: "channel_env \<Rightarrow> json \<Rightarrow> provisioned" where
  "session_account env s =
     (let phone = text_or_empty (ch_fmt env) (coalesce (own s (lit ''phone'')) (own s (lit ''id''))) in
      \<lparr>pv_externalId = phone, pv_phoneE164 = (if phone = [] then None else Some (43 # strip_plus phone)),
       pv_uuid = None, pv_deviceName = Some phone\<rparr>)"

definition unoapi_listAccounts :: "channel_env \<Rightarrow> account_config \<Rightarrow> thrown + provisioned list" where
  "unoapi_listAccounts env acc =
     (case unoapi_baseUrl env acc of
        Inl e \<Rightarrow> Inl (OtherError e)
      | Inr base \<Rightarrow>
          (case ch_fetch env (get_request (base @ lit ''/admin/sessions'') []) of
             Inl e \<Rightarrow> Inl (network_error ''unoapi list sessions'' e)
           | Inr r \<Rightarrow>
               (let body = json_or (JArr []) r in
                if \<not> response_ok (hr_status r) then Inl (status_error ''unoapi list sessions'' (hr_status r))
                else Inr (map (session_account env)
                       (if is_array body then items (Some body) else items (own body (lit ''sessions'')))))))"

definition unoapi_unlink :: "channel_env \<Rightarrow> account_config \<Rightarrow> ustring \<Rightarrow> thrown option" where
  "unoapi_unlink env acc externalId =
     (case (unoapi_baseUrl env acc, encodeURIComponent (strip_plus externalId)) of
        (Inl e, _) \<Rightarrow> Some (OtherError e)
      | (_, None) \<Rightarrow> Some (OtherError (lit ''URI malformed''))
      | (Inr base, Some n) \<Rightarrow>
          (case ch_fetch env \<lparr>hq_method = ''DELETE'', hq_url = base @ lit ''/session/'' @ n, hq_headers = [], hq_body = NoBody\<rparr> of
             Inl e \<Rightarrow> Some (network_error ''unoapi unlink'' e)
           | Inr r \<Rightarrow>
               if \<not> response_ok (hr_status r) \<and> hr_status r \<noteq> 404
               then Some (status_error ''unoapi unlink'' (hr_status r)) else None))"

definition unoapi_provisioning :: "channel_env \<Rightarrow> provision_adapter" where
  "unoapi_provisioning env = \<lparr>pa_mode = Some by_qr, pa_qr = Some (unoapi_provisionQr env), pa_list = Some (unoapi_listAccounts env),
     pa_image = None, pa_verify = None, pa_unlink = Some (unoapi_unlink env)\<rparr>"

section \<open>Sending keeps the contract\<close>

interpretation unoapi: channel_sender unoapi_send
  by unfold_locales (auto simp: unoapi_send_def unoapi_answer_def Let_def split: sum.split)

section \<open>What is not sent, and when a message was received\<close>

lemma no_payload_from_attachments:
  "buildCloudApiPayload (o'\<lparr>om_attachments := as\<rparr>) = buildCloudApiPayload o'"
proof -
  have "payload_members ty (o'\<lparr>om_attachments := as\<rparr>) = payload_members ty o'" for ty
    by (cases ty) (simp_all add: text_payload_def media_payload_def meta_or_def outbound_text_def)
  then show ?thesis by (simp add: buildCloudApiPayload_def recipient_of_def)
qed

lemma caption_only:
  assumes "om_type o' \<in> {image, video, audio, document, sticker}" and "om_media o' = None"
  shows "payload_members (om_type o') o' = [(lit ''type'', JStr (type_name (om_type o'))),
           (type_name (om_type o'), JObj (text_fields [(''caption'', om_text o')]))]"
  using assms by (auto simp: media_payload_def text_fields_def Let_def List.map_filter_simps split: option.split)

text \<open>
  The file of an image, video, audio, document or sticker message is not sent: the
  answer of the adapter to what the worker hands over is the same whichever files were
  loaded, and what UnoAPI is asked to send holds the caption only, without a link.
\<close>

theorem worker_file_is_not_sent:
  assumes "toMessageType (co_type c) \<in> {image, video, audio, document, sticker}"
  shows "unoapi_send env (worker_outbound (c\<lparr>co_attachments := as\<rparr>)) ep acc = unoapi_send env (worker_outbound c) ep acc"
    and "\<exists>number. buildCloudApiPayload (worker_outbound c) = JObj
           [(lit ''messaging_product'', JStr (lit ''whatsapp'')), (lit ''to'', number),
            (lit ''type'', JStr (type_name (toMessageType (co_type c)))),
            (type_name (toMessageType (co_type c)), JObj [(lit ''caption'', JStr (co_text c))])]"
proof -
  have "worker_outbound (c\<lparr>co_attachments := as\<rparr>)
      = (worker_outbound c)\<lparr>om_attachments := om_attachments (worker_outbound (c\<lparr>co_attachments := as\<rparr>))\<rparr>"
    by (simp add: worker_outbound_def)
  then show "unoapi_send env (worker_outbound (c\<lparr>co_attachments := as\<rparr>)) ep acc = unoapi_send env (worker_outbound c) ep acc"
    unfolding unoapi_send_def by (metis no_payload_from_attachments)
  have "om_media (worker_outbound c) = None" "om_type (worker_outbound c) = toMessageType (co_type c)"
    "om_text (worker_outbound c) = Some (co_text c)"
    by (simp_all add: worker_outbound_def)
  with assms caption_only [of "worker_outbound c"]
  show "\<exists>number. buildCloudApiPayload (worker_outbound c) = JObj
           [(lit ''messaging_product'', JStr (lit ''whatsapp'')), (lit ''to'', number),
            (lit ''type'', JStr (type_name (toMessageType (co_type c)))),
            (type_name (toMessageType (co_type c)), JObj [(lit ''caption'', JStr (co_text c))])]"
    by (simp add: buildCloudApiPayload_def text_fields_def List.map_filter_simps)
qed

definition sample_picture :: canonical_outbound where
  "sample_picture = \<lparr>co_messageId = lit ''m'', co_idempotencyKey = lit ''k'',
     co_to = makeAddress (lit ''+380441112233''), co_type = lit ''image'', co_text = lit ''look'',
     co_attachments = Some [\<lparr>oa_data = [1], oa_mime = lit ''image/png'', oa_filename = lit ''a.png'', oa_size = 1\<rparr>]\<rparr>"

theorem worker_file_is_not_sent_witness:
  "unoapi_send (plain_channel (\<lambda>q. Inl [])) (worker_outbound (sample_picture\<lparr>co_attachments := None\<rparr>))
     \<lparr>ec_id = [], ec_externalId = lit ''380'', ec_phoneE164 = None, ec_label = [], ec_config = JNull\<rparr>
     \<lparr>cc_id = [], cc_adapter = lit ''unoapi'', cc_config = JObj []\<rparr>
   = unoapi_send (plain_channel (\<lambda>q. Inl [])) (worker_outbound sample_picture)
     \<lparr>ec_id = [], ec_externalId = lit ''380'', ec_phoneE164 = None, ec_label = [], ec_config = JNull\<rparr>
     \<lparr>cc_id = [], cc_adapter = lit ''unoapi'', cc_config = JObj []\<rparr>"
proof -
  have "toMessageType (co_type sample_picture) \<in> {image, video, audio, document, sticker}"
    by (simp add: sample_picture_def toMessageType_def all_types_def lit_def)
  from worker_file_is_not_sent(1) [OF this] show ?thesis by simp
qed

text \<open>A webhook payload with one message, of a sender, an id and a type.\<close>

definition wa_payload :: "fields \<Rightarrow> json" where
  "wa_payload m = JObj [(lit ''entry'', JArr [JObj [(lit ''changes'', JArr [JObj [(lit ''value'',
     JObj [(lit ''messages'', JArr [JObj m])])]])]])]"

lemma own_first: "own (JArr (x # xs)) (lit ''0'') = Some x"
  by (simp add: lit_def array_index_def is_digit_def)

lemma change_value_payload: "change_value (wa_payload m) = Some (JObj [(lit ''messages'', JArr [JObj m])])"
  by (simp add: change_value_def wa_payload_def mem_def own_first del: own.simps(2))

lemma wa_message_dated:
  assumes "m \<noteq> JNull" and "mapWaTypeToCanonical (own m (lit ''type'')) = Some ty"
    and "js_date (map_option (\<lambda>r. r * 1000) (js_Number (ch_fmt env)
      (coalesce (own m (lit ''timestamp'')) (Some (JNum (of_int (ch_now env))))))) = Some t"
  shows "\<exists>i. wa_message env n m = Some i \<and> ci_receivedAt i = t"
  using assms by (auto simp: wa_message_def Let_def split: prod.split)

text \<open>
  A message without a time is dated by the clock of the gateway times a thousand: the
  milliseconds of the clock are read as seconds, so that until the year 2243 the message is
  stored with a time in the far future, later than any message that is received on time.
\<close>

theorem undated_message_is_in_the_future:
  assumes "map_of m (lit ''timestamp'') = None" and "map_of m (lit ''type'') = Some (JStr ty)"
    and "0 < ch_now env" and "ch_now env \<le> 8640000000000"
  shows "\<exists>i. unoapi_inbound env acc ep (wa_payload m) = Some [i] \<and> ci_receivedAt i = 1000 * ch_now env \<and> ch_now env < ci_receivedAt i"
proof -
  let ?n = "js_String (ch_fmt env) (coalesce (mem (mem (change_value (wa_payload m)) ''metadata'') ''phone_number_id'')
      (Some (JStr (ec_externalId ep))))"
  have r: "(of_int (ch_now env) * 1000 :: rat) = of_int (ch_now env * 1000)" by simp
  have d: "js_date (map_option (\<lambda>r. r * 1000) (js_Number (ch_fmt env) (coalesce (own (JObj m) (lit ''timestamp''))
      (Some (JNum (of_int (ch_now env))))))) = Some (1000 * ch_now env)"
    using assms unfolding js_date_def by (simp add: r truncated_def del: of_int_mult)
  from assms(2) obtain ty' where "mapWaTypeToCanonical (own (JObj m) (lit ''type'')) = Some ty'"
    by (simp add: mapWaTypeToCanonical_def)
  with d obtain i where i: "wa_message env ?n (JObj m) = Some i" "ci_receivedAt i = 1000 * ch_now env"
    using wa_message_dated [of "JObj m"] by blast
  have "unoapi_inbound env acc ep (wa_payload m) = all_some [wa_message env ?n (JObj m)]"
    by (simp add: unoapi_inbound_def Let_def change_value_payload mem_def holds_def is_list_def items_def, simp add: wa_payload_def)
  with i assms(3) show ?thesis by auto
qed

theorem undated_message_is_in_the_future_witness:
  "\<exists>i. unoapi_inbound (plain_channel (\<lambda>q. Inl [])) \<lparr>cc_id = [], cc_adapter = lit ''unoapi'', cc_config = JObj []\<rparr>
      \<lparr>ec_id = [], ec_externalId = lit ''380'', ec_phoneE164 = None, ec_label = [], ec_config = JNull\<rparr>
      (wa_payload [(lit ''type'', JStr (lit ''text''))]) = Some [i] \<and> ci_receivedAt i = 1714557600000000"
proof -
  have "map_of [(lit ''type'', JStr (lit ''text''))] (lit ''timestamp'') = None"
    and "map_of [(lit ''type'', JStr (lit ''text''))] (lit ''type'') = Some (JStr (lit ''text''))"
    by (simp_all add: lit_def)
  from undated_message_is_in_the_future [OF this, of "plain_channel (\<lambda>q. Inl [])"] show ?thesis by fastforce
qed

end
