(* ===== verification/SendQueue.thy ===== *)
theory SendQueue
  imports Sending
begin

text \<open>
  The life of a send job. The queue calls the processor of
  apps/worker/src/processors/message-send.processor.ts until it returns without an exception
  or the job's attempts are used up: the options of the job, or else the default options that
  apps/api/src/app.module.ts gives to the queues of the API. The adapters, the clock and the
  files may be others at each attempt. The lemmas show that a job ends, in what state, and
  that no identifier is drawn twice on the way.
\<close>

definition DEFAULT_JOB_ATTEMPTS :: nat where
  "DEFAULT_JOB_ATTEMPTS = 3"

definition send_attempts :: "send_job \<Rightarrow> nat" where
  "send_attempts job = (case sj_attempts job of Some n \<Rightarrow> n | None \<Rightarrow> DEFAULT_JOB_ATTEMPTS)"

text \<open>The number of attempts made, and the state after the last.\<close>

fun run_send :: "(nat \<Rightarrow> process_env) \<Rightarrow> send_job \<Rightarrow> nat \<Rightarrow> nat \<Rightarrow> db \<Rightarrow> nat \<times> db" where
  "run_send envs job 0 k d = (k, d)"
| "run_send envs job (Suc left) k d =
     (case send_process (envs k) job k d of
        (None, d') \<Rightarrow> (Suc k, d')
      | (Some err, d') \<Rightarrow> run_send envs job left (Suc k) d')"

section \<open>Identifiers are drawn once\<close>

definition ids_grow :: "db \<Rightarrow> db \<Rightarrow> bool" where
  "ids_grow d d' \<longleftrightarrow> uuid_source d' = uuid_source d \<and> uuid_next d \<le> uuid_next d'"

lemma ids_grow_trans: "ids_grow d d' \<Longrightarrow> ids_grow d' d'' \<Longrightarrow> ids_grow d d''"
  by (auto simp: ids_grow_def)

lemma ids_grow_emit [simp]: "ids_grow d (snd (emit isof now p d))"
  by (simp add: ids_grow_def emit_def fresh_id_def Let_def split: option.split)

lemma ids_grow_raise [simp]: "ids_grow d (raise_alert now p d)"
  by (simp add: ids_grow_def raise_alert_def fresh_id_def Let_def split: option.split)

lemma ids_grow_event [simp]: "ids_grow d (emitMessageEvent env ty i x d)"
  by (auto simp: emitMessageEvent_def ids_grow_def [of d d] split: option.split)

lemma ids_grow_simple [simp]:
  "ids_grow d (set_status now i st d)" "ids_grow d (add_history i st src p d)" "ids_grow d (finish_attempt env aid r e d)"
  by (simp_all add: ids_grow_def finish_attempt_def)

lemma ids_grow_messages [simp]: "ids_grow d (messages_update f d)"
  by (simp add: ids_grow_def)

lemma ids_grow_fail [simp]: "ids_grow d (fail_message env i src p t e d)"
  unfolding fail_message_def Let_def raiseSendFailureAlert_def
  by (intro ids_grow_trans [OF _ ids_grow_event] ids_grow_trans [OF _ ids_grow_raise]
      ids_grow_trans [OF _ ids_grow_simple(2)] ids_grow_simple(1))

lemma ids_grow_exception [simp]: "ids_grow d (handle_exception env i aid n err d)"
proof (cases "n < MAX_SEND_ATTEMPTS")
  case True
  then show ?thesis by (simp add: handle_exception_def Let_def)
next
  case False
  then show ?thesis
    unfolding handle_exception_def Let_def by (simp add: ids_grow_trans [OF ids_grow_simple(3) ids_grow_fail])
qed

definition attempt_ids_ahead :: "db \<Rightarrow> bool" where
  "attempt_ids_ahead d \<longleftrightarrow> inj (uuid_source d) \<and> (\<forall>n\<ge>uuid_next d. uuid_source d n \<notin> at_id ` set (attempts d))"

lemma ids_ahead_fresh: "attempt_ids_ahead d \<Longrightarrow> uuid_source d (uuid_next d) \<notin> set (map at_id (attempts d))"
  by (simp add: attempt_ids_ahead_def)

lemma ids_ahead_grow:
  assumes "attempt_ids_ahead d" and "ids_grow d d'" and "at_id ` set (attempts d') \<subseteq> at_id ` set (attempts d)"
  shows "attempt_ids_ahead d'"
  using assms unfolding attempt_ids_ahead_def ids_grow_def by (metis le_trans subsetD)

lemma ids_ahead_started:
  assumes "attempt_ids_ahead d" shows "attempt_ids_ahead (attempt_started env job n d)"
  using assms
  by (auto simp: attempt_ids_ahead_def attempt_started_def start_attempt_def fresh_id_def Let_def
      dest: injD)

lemma update_where_ids:
  assumes "\<And>a. at_id (f a) = at_id a" shows "at_id ` set (update_where P f as) = at_id ` set as"
proof -
  have "map at_id (update_where P f as) = map at_id as" using assms by (simp add: update_where_def)
  then show ?thesis by (metis set_map)
qed

lemma finish_attempt_ids [simp]: "at_id ` set (attempts (finish_attempt env aid r e d)) = at_id ` set (attempts d)"
  by (simp add: finish_attempt_def update_where_ids)

lemma fail_message_attempts [simp]: "attempts (fail_message env i src p t e d) = attempts d"
  by (simp add: fail_message_def Let_def raiseSendFailureAlert_def)

lemma handle_exception_ids [simp]:
  "at_id ` set (attempts (handle_exception env i aid n err d)) = at_id ` set (attempts d)"
  by (simp add: handle_exception_def Let_def)

lemma ids_ahead_process:
  assumes "attempt_ids_ahead d" and m: "msgs.lookup d (sj_messageId job) = Some m"
  shows "attempt_ids_ahead (snd (send_process env job k d))"
proof -
  let ?d3 = "attempt_started env job (k + 1) d"
  let ?i = "sj_messageId job" and ?aid = "uuid_source d (uuid_next d)"
  note ahead = ids_ahead_started [OF assms(1), of env job "k + 1"]
  have fails: "attempt_ids_ahead (handle_exception env ?i ?aid (k + 1) err ?d3)" for err
    by (rule ids_ahead_grow [OF ahead]) simp_all
  have gives_up: "attempt_ids_ahead (fail_message env ?i src p t e (finish_attempt env ?aid r x ?d3))" for src p t e r x
    by (rule ids_ahead_grow [OF ahead ids_grow_trans [OF ids_grow_simple(3) ids_grow_fail]]) simp
  have sends: "attempt_ids_ahead (emitMessageEvent env ty ?i x (finish_attempt env ?aid at_sent None
      (add_history ?i sent src p (messages_update f ?d3))))" for ty x src p f
    by (rule ids_ahead_grow [OF ahead ids_grow_trans [OF ids_grow_trans [OF ids_grow_trans
        [OF ids_grow_messages ids_grow_simple(2)] ids_grow_simple(3)] ids_grow_event]]) simp
  show ?thesis
    using fails gives_up sends
    by (auto simp: send_process_alt [OF m] Let_def split: prod.split send_answer.split option.split)
qed

section \<open>A job ends\<close>

definition send_settled :: "message_row \<Rightarrow> bool" where
  "send_settled m \<longleftrightarrow> ms_status m = sent \<or> ms_status m = failed"

lemma attempt_settles:
  assumes "attempt_ended env i k d res" and "fst res = None \<or> MAX_SEND_ATTEMPTS \<le> k + 1"
  shows "\<exists>m. msgs.lookup (snd res) i = Some m \<and> send_settled m"
  using assms by (auto simp: attempt_ended_def send_settled_def split: if_splits)

lemma run_send_settles:
  assumes "msgs.lookup d (sj_messageId job) = Some m" and "attempt_ids_ahead d"
    and "k + left = n" and "0 < left" and "MAX_SEND_ATTEMPTS \<le> n"
  shows "k < fst (run_send envs job left k d) \<and> fst (run_send envs job left k d) \<le> n
    \<and> (\<exists>m'. msgs.lookup (snd (run_send envs job left k d)) (sj_messageId job) = Some m' \<and> send_settled m')
    \<and> length (attempts (snd (run_send envs job left k d))) + k = length (attempts d) + fst (run_send envs job left k d)"
  using assms
proof (induction left arbitrary: d k m)
  case (Suc left)
  obtain r d' where r: "send_process (envs k) job k d = (r, d')" by force
  have e: "attempt_ended (envs k) (sj_messageId job) k d (r, d')"
    using send_attempt_ends [OF Suc.prems(1) ids_ahead_fresh [OF Suc.prems(2)], of "envs k" k] r by simp
  then obtain m' where m': "msgs.lookup d' (sj_messageId job) = Some m'" "length (attempts d') = Suc (length (attempts d))"
    by (auto simp: attempt_ended_def)
  show ?case
  proof (cases r)
    case None
    with attempt_settles [OF e] r m' Suc.prems(3) show ?thesis by simp
  next
    case (Some err)
    show ?thesis
    proof (cases "left = 0")
      case True
      with attempt_settles [OF e] Some r m' Suc.prems(3,5) show ?thesis by simp
    next
      case False
      have ids: "attempt_ids_ahead d'" using ids_ahead_process [OF Suc.prems(2,1), of "envs k" k] r by simp
      have *: "run_send envs job (Suc left) k d = run_send envs job left (Suc k) d'" using r Some by simp
      from Suc.IH [OF m'(1) ids _ _ Suc.prems(5), of "Suc k"] False Suc.prems(3) m'(2) show ?thesis
        unfolding * by auto
    qed
  qed
qed simp

text \<open>
  C10. A send job ends: whatever the adapters answer or throw at each attempt, after at most
  three attempts (the default of the queue, and what the schedulers ask for) the message is
  sent or failed, with one recorded attempt for each call of the processor.
\<close>

theorem send_job_ends:
  assumes "msgs.lookup d (sj_messageId job) = Some m" and "attempt_ids_ahead d"
    and "sj_attempts job = None \<or> sj_attempts job = Some 3"
  shows "\<exists>n m'. fst (run_send envs job (send_attempts job) 0 d) = n \<and> 1 \<le> n \<and> n \<le> 3
    \<and> msgs.lookup (snd (run_send envs job (send_attempts job) 0 d)) (sj_messageId job) = Some m'
    \<and> (ms_status m' = sent \<or> ms_status m' = failed)
    \<and> length (attempts (snd (run_send envs job (send_attempts job) 0 d))) = length (attempts d) + n"
proof -
  have "send_attempts job = 3" using assms(3) by (auto simp: send_attempts_def DEFAULT_JOB_ATTEMPTS_def)
  with run_send_settles [OF assms(1,2), of 0 3 3 envs] show ?thesis
    by (auto simp: MAX_SEND_ATTEMPTS_def send_settled_def)
qed

definition refusing_env :: process_env where
  "refusing_env = accepting_env\<lparr>pe_send := (\<lambda>a out e c. Threw (lit ''busy''))\<rparr>"

theorem send_job_ends_witness:
  "\<exists>m. msgs.lookup (snd (run_send (\<lambda>k. if k = 2 then accepting_env else refusing_env) (scheduled_job (lit ''m'')) 3 0
       (gateway_db [sample_message queued None]))) (lit ''m'') = Some m \<and> (ms_status m = sent \<or> ms_status m = failed)"
proof -
  have j: "sj_messageId (scheduled_job (lit ''m'')) = lit ''m''" "sj_attempts (scheduled_job (lit ''m'')) = Some 3"
    by (simp_all add: scheduled_job_def)
  have "attempt_ids_ahead (gateway_db [sample_message queued None])"
    by (simp add: attempt_ids_ahead_def gateway_db_def empty_db_def inj_def tick_ids_def)
  from send_job_ends [OF _ this, of "scheduled_job (lit ''m'')" "sample_message queued None"
      "\<lambda>k. if k = 2 then accepting_env else refusing_env"]
  show ?thesis using j sample_message_found by (auto simp: send_attempts_def)
qed

end
