(* ===== verification/Adapters.thy ===== *)
theory Adapters
  imports Goip Signal Gwmd Unoapi SendQueue "HOL-Library.AList"
begin

text \<open>
  The adapters together: the mock adapter (packages/adapters/src/mock/index.ts), what each
  adapter declares, the registry (packages/channel-sdk/src/registry.ts) with the built-in
  adapters (packages/adapters/src/index.ts), the worker's use of it
  (apps/worker/src/adapters), and the two callers of the ingest service that are left, the
  job processor and the timer of the long SMS. The lemmas show what every registered adapter
  keeps to in its answers and messages, and what becomes of a message whose account names
  an adapter that is not registered.
\<close>

section \<open>What an adapter declares\<close>

record capabilities =
  cap_send :: "message_type list"
  cap_receive :: "message_type list"
  cap_provisioning :: "provisioning_mode option"

definition plain_types :: "message_type list" where
  "plain_types = [text_t, image, audio, video, document, sticker, location, contact, reaction]"

definition voice_types :: "message_type list" where
  "voice_types = [text_t, image, audio, voice, video, document, sticker, location, contact, reaction]"

definition mock_capabilities :: capabilities where
  "mock_capabilities = \<lparr>cap_send = voice_types, cap_receive = voice_types, cap_provisioning = None\<rparr>"

definition goip_capabilities :: capabilities where
  "goip_capabilities = \<lparr>cap_send = [text_t], cap_receive = [text_t, unknown_t], cap_provisioning = Some by_none\<rparr>"

definition unoapi_capabilities :: capabilities where
  "unoapi_capabilities = \<lparr>cap_send = plain_types, cap_receive = voice_types @ [unknown_t], cap_provisioning = Some by_qr\<rparr>"

definition gwmd_capabilities :: capabilities where
  "gwmd_capabilities = \<lparr>cap_send = plain_types, cap_receive = voice_types @ [unknown_t], cap_provisioning = Some by_qr\<rparr>"

definition signal_capabilities :: capabilities where
  "signal_capabilities = \<lparr>cap_send = voice_types, cap_receive = voice_types @ [unknown_t], cap_provisioning = Some by_qr\<rparr>"

section \<open>The mock adapter\<close>

definition mock_healthCheck :: "account_config \<Rightarrow> adapter_health" where
  "mock_healthCheck acc = \<lparr>ah_ok = True, ah_details = [(lit ''provider'', JStr (lit ''mock''))]\<rparr>"

definition mock_send :: "ustring \<Rightarrow> outbound_message \<Rightarrow> endpoint_config \<Rightarrow> account_config \<Rightarrow> send_answer" where
  "mock_send uuid o' ep acc = Answered (taken (Some (lit ''mock-'' @ uuid))
     (JObj [(lit ''provider'', JStr (lit ''mock'')), (lit ''result'', JStr (lit ''ok''))]))"

definition mock_adapter :: inbound_adapter where
  "mock_adapter = \<lparr>ia_status = (\<lambda>acc raw. None), ia_inbound = (\<lambda>acc ep raw. Some []), ia_fetch = None\<rparr>"

section \<open>The registry\<close>

text \<open>An adapter as the registry hands it out.\<close>

record channel_adapter =
  ad_capabilities :: capabilities
  ad_health :: "channel_env \<Rightarrow> account_config \<Rightarrow> ustring + adapter_health"
  ad_send :: "channel_env \<Rightarrow> outbound_message \<Rightarrow> endpoint_config \<Rightarrow> account_config \<Rightarrow> send_answer"
  ad_inbound :: "channel_env \<Rightarrow> account_config \<Rightarrow> inbound_adapter"
  ad_provisioning :: "channel_env \<Rightarrow> provision_adapter"

text \<open>A map from names in the order they were first registered.\<close>

type_synonym registry = "(ustring \<times> channel_adapter) list"

definition register :: "string \<Rightarrow> channel_adapter \<Rightarrow> registry \<Rightarrow> registry" where
  "register name a reg = AList.update (lit name) a reg"

definition registry_has :: "registry \<Rightarrow> ustring \<Rightarrow> bool" where
  "registry_has reg name \<longleftrightarrow> map_of reg name \<noteq> None"

definition registry_get :: "registry \<Rightarrow> ustring \<Rightarrow> ustring + channel_adapter" where
  "registry_get reg name = (case map_of reg name of Some a \<Rightarrow> Inr a
     | None \<Rightarrow> Inl (lit ''Unknown channel adapter: '' @ name))"

definition registry_list :: "registry \<Rightarrow> ustring list" where
  "registry_list reg = map fst reg"

definition no_provisioning :: "provisioning_mode option \<Rightarrow> provision_adapter" where
  "no_provisioning mode = \<lparr>pa_mode = mode, pa_qr = None, pa_list = None, pa_image = None, pa_verify = None, pa_unlink = None\<rparr>"

definition mock_entry :: "ustring \<Rightarrow> channel_adapter" where
  "mock_entry uuid = \<lparr>ad_capabilities = mock_capabilities, ad_health = (\<lambda>env acc. Inr (mock_healthCheck acc)),
     ad_send = (\<lambda>env. mock_send uuid), ad_inbound = (\<lambda>env acc. mock_adapter), ad_provisioning = (\<lambda>env. no_provisioning None)\<rparr>"

definition goip_entry :: channel_adapter where
  "goip_entry = \<lparr>ad_capabilities = goip_capabilities, ad_health = (\<lambda>env acc. Inr (goip_healthCheck env acc)),
     ad_send = goip_send, ad_inbound = (\<lambda>env acc. goip_adapter env), ad_provisioning = (\<lambda>env. no_provisioning (Some by_none))\<rparr>"

definition unoapi_entry :: channel_adapter where
  "unoapi_entry = \<lparr>ad_capabilities = unoapi_capabilities, ad_health = unoapi_healthCheck,
     ad_send = unoapi_send, ad_inbound = unoapi_adapter, ad_provisioning = unoapi_provisioning\<rparr>"

definition gwmd_entry :: channel_adapter where
  "gwmd_entry = \<lparr>ad_capabilities = gwmd_capabilities, ad_health = gwmd_healthCheck,
     ad_send = gwmd_send, ad_inbound = gwmd_adapter, ad_provisioning = gwmd_provisioning\<rparr>"

definition signal_entry :: channel_adapter where
  "signal_entry = \<lparr>ad_capabilities = signal_capabilities, ad_health = signal_healthCheck,
     ad_send = signal_send, ad_inbound = signal_adapter, ad_provisioning = signal_provisioning\<rparr>"

definition registerBuiltinAdapters :: "ustring \<Rightarrow> registry \<Rightarrow> registry" where
  "registerBuiltinAdapters uuid reg =
     register ''signal-cli-rest-api'' signal_entry (register ''gwmd'' gwmd_entry (register ''unoapi'' unoapi_entry
       (register ''goip-vendor'' goip_entry (register ''mock'' (mock_entry uuid) reg))))"

section \<open>The worker\<close>

text \<open>The send processor and the ingest service look adapters up by the name in the account's row.\<close>

definition registry_process_env :: "registry \<Rightarrow> channel_env \<Rightarrow> process_env \<Rightarrow> process_env" where
  "registry_process_env reg ch env = env\<lparr>pe_registered := registry_list reg,
     pe_send := (\<lambda>name out ep acc. case registry_get reg name of
       Inl e \<Rightarrow> Threw e | Inr a \<Rightarrow> ad_send a ch (worker_outbound out) ep acc)\<rparr>"

definition registry_ingest_env :: "registry \<Rightarrow> channel_env \<Rightarrow> account_config \<Rightarrow> ingest_env \<Rightarrow> ingest_env" where
  "registry_ingest_env reg ch acc env = env\<lparr>ie_adapters := (\<lambda>name. case registry_get reg name of
     Inl e \<Rightarrow> None | Inr a \<Rightarrow> Some (ad_inbound a ch acc))\<rparr>"

text \<open>The old interface of the mock adapter.\<close>

definition legacy_send :: "ustring \<Rightarrow> ustring option \<times> string \<times> json" where
  "legacy_send uuid = (case mock_send uuid
        \<lparr>om_messageId = [], om_idempotencyKey = [], om_to = [], om_type = unknown_t, om_text = None, om_media = None,
         om_attachments = None, om_reaction = None, om_replyTo = None, om_meta = []\<rparr>
        \<lparr>ec_id = [], ec_externalId = [], ec_phoneE164 = None, ec_label = [], ec_config = JObj []\<rparr>
        \<lparr>cc_id = lit ''mock'', cc_adapter = lit ''mock'', cc_config = JObj []\<rparr> of
       Answered r \<Rightarrow> (re_externalId r, if re_accepted r then ''sent'' else ''failed'', re_rawResponse r)
     | Threw e \<Rightarrow> (None, ''failed'', JNull))"

text \<open>The processor of the ingest queue: \<open>None\<close> is the exception that makes the queue try again.\<close>

definition ingest_process :: "ingest_env \<Rightarrow> ustring \<Rightarrow> json \<Rightarrow> db \<Rightarrow> nat option \<times> db" where
  "ingest_process env adapter payload d = ingest env adapter payload None d"

text \<open>A tick of the timer, given whether the last one is still at work: the new flag when it
  is done, and the state.\<close>

definition concat_flush :: "ingest_env \<Rightarrow> int \<Rightarrow> bool \<Rightarrow> db \<Rightarrow> bool \<times> db" where
  "concat_flush env now running d = (if running then (running, d) else (False, snd (flushSmsParts env now d)))"

section \<open>The contract of an adapter\<close>

definition is_address :: "canonical_address \<Rightarrow> bool" where
  "is_address a \<longleftrightarrow> a = makeAddress (ca_raw a)"

lemma is_address_make [simp]: "is_address (makeAddress s)"
  by (simp add: is_address_def makeAddress_def Let_def)

definition well_formed_inbound :: "message_type list \<Rightarrow> canonical_inbound \<Rightarrow> bool" where
  "well_formed_inbound types i \<longleftrightarrow> ci_type i \<in> type_name ` set types \<and> is_address (ci_from i)
     \<and> (case ci_to i of [a] \<Rightarrow> is_address a | _ \<Rightarrow> False)"

lemma well_formed_more: "well_formed_inbound ts i \<Longrightarrow> well_formed_inbound (ts @ us) i"
  by (auto simp: well_formed_inbound_def)

lemma toMessageType_name: "toMessageType (type_name t) = t"
  by (cases t) (simp_all add: toMessageType_def all_types_def lit_def)

locale channel_contract = channel_sender send_to
  for send_to :: "channel_env \<Rightarrow> outbound_message \<Rightarrow> endpoint_config \<Rightarrow> account_config \<Rightarrow> send_answer" +
  fixes normalise :: "channel_env \<Rightarrow> account_config \<Rightarrow> endpoint_config \<Rightarrow> json \<Rightarrow> canonical_inbound list option"
    and types :: "message_type list"
  assumes messages: "normalise env acc ep raw = Some is \<Longrightarrow> i \<in> set is \<Longrightarrow> well_formed_inbound types i"
begin

lemma type_kept: "normalise env acc ep raw = Some is \<Longrightarrow> i \<in> set is \<Longrightarrow> type_name (toMessageType (ci_type i)) = ci_type i"
  using messages [of env acc ep raw "is" i] by (auto simp: well_formed_inbound_def toMessageType_name)

end

text \<open>What the UnoAPI adapter hands over beside what it declares.\<close>

definition undeclared_types :: "message_type list" where
  "undeclared_types = [interactive, system]"

interpretation mock_contract: channel_contract "\<lambda>env. mock_send uuid" "\<lambda>env. ia_inbound mock_adapter" voice_types for uuid
  by unfold_locales (auto simp: mock_send_def mock_adapter_def)

interpretation goip_contract: channel_contract goip_send "\<lambda>env acc ep raw. Some (goip_inbound env acc ep raw)" "[text_t, unknown_t]"
  by unfold_locales (auto simp: goip_inbound_def Let_def well_formed_inbound_def split: if_splits)

lemma gwmd_type_declared: "gwmd_type m \<in> set (voice_types @ [unknown_t])"
  by (simp add: gwmd_type_def voice_types_def Let_def)

interpretation gwmd_contract: channel_contract gwmd_send "\<lambda>env acc ep raw. Some (gwmd_inbound env acc ep raw)" "voice_types @ [unknown_t]"
  using gwmd_type_declared
  by unfold_locales (auto simp: gwmd_inbound_def Let_def well_formed_inbound_def simp del: set_append split: if_splits prod.splits)

lemma signal_type_declared: "signalMessageType dm mime \<in> set (voice_types @ [unknown_t])"
  by (auto simp: signalMessageType_def voice_types_def Let_def split: option.split)

text \<open>The branches of a step that may end without a message, taken apart one at a time.\<close>

lemma branch_results:
  "(if b then None else x) = Some r \<Longrightarrow> x = Some r"
  "(if b then Some [] else x) = Some r \<Longrightarrow> i \<in> set r \<Longrightarrow> x = Some r"
  "(case t of (Inr a, Some b, Some c) \<Rightarrow> f a b c | _ \<Rightarrow> None) = Some r \<Longrightarrow> \<exists>a b c. f a b c = Some r"
  "(case p of (u, v) \<Rightarrow> g u v) = Some r \<Longrightarrow> \<exists>u v. g u v = Some r"
  by (auto split: if_splits prod.splits sum.splits option.splits)

lemma signal_message_typed:
  assumes "signal_inbound env acc ep raw = Some is" and "i \<in> set is"
  shows "well_formed_inbound (voice_types @ [unknown_t]) i"
  using assms signal_type_declared unfolding signal_inbound_def Let_def
  apply -
  apply (drule branch_results(2), assumption)
  apply (drule branch_results(2), assumption)
  apply (drule branch_results(3), elim exE)
  apply (drule branch_results(1))
  apply (drule branch_results(1))
  apply (drule branch_results(4), elim exE)
  apply (auto simp: well_formed_inbound_def simp del: set_append split del: if_split)
  done

interpretation signal_contract: channel_contract signal_send signal_inbound "voice_types @ [unknown_t]"
  by unfold_locales (rule signal_message_typed)

lemma wa_type_declared: "mapWaTypeToCanonical t = Some ty \<Longrightarrow> ty \<in> set (voice_types @ [unknown_t] @ undeclared_types)"
proof -
  have "map_of xs k = Some ty \<Longrightarrow> ty \<in> snd ` set xs" for xs :: "(ustring \<times> message_type) list" and k
    by (force dest: map_of_SomeD)
  moreover assume "mapWaTypeToCanonical t = Some ty"
  then obtain s where "map_of (map (\<lambda>(k, v). (lit k, v)) wa_types) s = Some ty \<or> ty = unknown_t"
    unfolding mapWaTypeToCanonical_def by (auto simp del: map_of.simps split: option.splits json.splits)
  ultimately have "ty \<in> snd ` set (map (\<lambda>(k, v). (lit k, v)) wa_types) \<or> ty = unknown_t" by blast
  then show ?thesis by (auto simp: wa_types_def voice_types_def undeclared_types_def)
qed

lemma wa_message_typed:
  assumes "wa_message env number m = Some i"
  shows "well_formed_inbound (voice_types @ [unknown_t] @ undeclared_types) i"
proof -
  from assms obtain ty where "mapWaTypeToCanonical (own m (lit ''type'')) = Some ty" "ci_type i = type_name ty"
    "is_address (ci_from i)" "ci_to i = [makeAddress number]"
    unfolding wa_message_def Let_def by (auto split: option.splits prod.splits if_split_asm)
  with wa_type_declared show ?thesis by (auto simp: well_formed_inbound_def simp del: set_append)
qed

lemma all_some_map: "all_some xs = Some ys \<Longrightarrow> xs = map Some ys"
  by (induction xs arbitrary: ys) (auto split: option.splits)

interpretation unoapi_contract: channel_contract unoapi_send unoapi_inbound "voice_types @ [unknown_t] @ undeclared_types"
proof unfold_locales
  fix env acc ep raw "is" i
  assume a: "unoapi_inbound env acc ep raw = Some is" "i \<in> set is"
  then obtain number ms where "all_some (map (wa_message env number) ms) = Some is"
    by (auto simp: unoapi_inbound_def Let_def split: if_splits)
  then have "map (wa_message env number) ms = map Some is" by (rule all_some_map)
  with a(2) obtain m where "wa_message env number m = Some i" by (metis (no_types, lifting) imageE image_eqI set_map)
  then show "well_formed_inbound (voice_types @ [unknown_t] @ undeclared_types) i" by (rule wa_message_typed)
qed

section \<open>Every registered adapter\<close>

lemma map_of_update: "map_of (AList.update k v reg) x = (if x = k then Some v else map_of reg x)"
  by (simp add: update_conv')

lemma builtin_cases:
  assumes "registry_get (registerBuiltinAdapters uuid []) name = Inr a"
  obtains "a = mock_entry uuid" | "a = goip_entry" | "a = gwmd_entry" | "a = signal_entry"
    | "a = unoapi_entry" "name = lit ''unoapi''"
  using assms by (auto simp: registry_get_def registerBuiltinAdapters_def register_def map_of_update split: if_splits option.splits)



section \<open>An adapter that is not registered\<close>

text \<open>
  A message whose account names an adapter that is not registered is reported as sent,
  with an id of the mock adapter, although no transport was asked to send it.
\<close>

theorem unknown_adapter_reports_sent:
  assumes "msgs.lookup d (sj_messageId job) = Some m" and "accs.lookup d (ms_accountId m) = Some acc"
    and unknown: "\<not> registry_has (registerBuiltinAdapters uuid []) (ac_adapter acc)"
  shows "fst (send_process (registry_process_env (registerBuiltinAdapters uuid []) ch env) job k d) = None
    \<and> (\<exists>m'. msgs.lookup (snd (send_process (registry_process_env (registerBuiltinAdapters uuid []) ch env) job k d))
          (sj_messageId job) = Some m' \<and> ms_status m' = sent \<and> ms_externalId m' = Some (lit ''mock-'' @ uuid))"
proof -
  let ?reg = "registerBuiltinAdapters uuid []"
  let ?env = "registry_process_env ?reg ch env" and ?i = "sj_messageId job"
  let ?d3 = "attempt_started ?env job (k + 1) d"
  let ?f = "\<lambda>x. x\<lparr>ms_status := sent, ms_externalId := Some (lit ''mock-'' @ uuid), ms_updatedAt := pe_now ?env\<rparr>"
  have "find (\<lambda>a. ac_id a = ms_accountId m) (accounts ?d3) = Some acc"
    using assms(2) by (simp add: accs.lookup_def attempt_started_messages)
  moreover have "registry_get ?reg (lit ''mock'') = Inr (mock_entry uuid)"
    by (simp add: registry_get_def registerBuiltinAdapters_def register_def map_of_update lit_def)
  moreover have "ac_adapter acc \<notin> set (registry_list ?reg)"
    using unknown by (simp add: registry_has_def registry_list_def map_of_eq_None_iff)
  ultimately obtain raw where call: "dispatch_call ?env m ?d3 = (lit ''mock'', Answered (taken (Some (lit ''mock-'' @ uuid)) raw))"
    by (simp add: dispatch_call_def registry_process_env_def mock_entry_def mock_send_def Let_def)
  have t: "re_accepted (taken x r)" "re_externalId (taken x r) = x" "re_rawResponse (taken x r) = r" for x r
    by (simp_all add: taken_def)
  have p: "send_process ?env job k d = (None, emitMessageEvent ?env (lit ''message.sent'') ?i [(lit ''adapter'', JStr (lit ''mock''))]
     (finish_attempt ?env (uuid_source d (uuid_next d)) at_sent None (add_history ?i sent (lit ''mock'') raw
       (messages_update (update_where (\<lambda>x. ms_id x = ?i) ?f) ?d3))))"
    using send_process_alt [OF assms(1), of ?env k] call by (simp add: Let_def t)
  have "messages (snd (send_process ?env job k d)) = messages (messages_update (update_where (\<lambda>x. ms_id x = ?i) ?f) ?d3)"
    unfolding p by simp
  then have "msgs.lookup (snd (send_process ?env job k d)) ?i = msgs.lookup (messages_update (update_where (\<lambda>x. ms_id x = ?i) ?f) ?d3) ?i"
    by (rule msgs_lookup_cong)
  also have "\<dots> = map_option ?f (msgs.lookup ?d3 ?i)" using msgs.lookup_update [of ?f ?i ?d3 ?i] by simp
  finally show ?thesis using p unfolding attempt_started_lookup [OF assms(1)] by simp
qed

theorem unknown_adapter_reports_sent_witness:
  "\<exists>m. msgs.lookup (snd (send_process (registry_process_env (registerBuiltinAdapters (lit ''7'') []) (plain_channel (\<lambda>q. Inl [])) refusing_env)
       (scheduled_job (lit ''m'')) 0 ((gateway_db [sample_message queued None])\<lparr>accounts := [sample_account\<lparr>ac_adapter := lit ''telegram''\<rparr>]\<rparr>)))
     (lit ''m'') = Some m \<and> ms_status m = sent \<and> ms_externalId m = Some (lit ''mock-'' @ lit ''7'')"
proof -
  let ?d = "(gateway_db [sample_message queued None])\<lparr>accounts := [sample_account\<lparr>ac_adapter := lit ''telegram''\<rparr>]\<rparr>"
  have j: "sj_messageId (scheduled_job (lit ''m'')) = lit ''m''" by (simp add: scheduled_job_def)
  have m: "msgs.lookup ?d (lit ''m'') = Some (sample_message queued None)"
    using sample_message_found [of queued None] by (simp add: msgs.lookup_def)
  have a: "accs.lookup ?d (ms_accountId (sample_message queued None)) = Some (sample_account\<lparr>ac_adapter := lit ''telegram''\<rparr>)"
    by (simp add: accs.lookup_def sample_message_row sample_account_def)
  have u: "\<not> registry_has (registerBuiltinAdapters (lit ''7'') []) (lit ''telegram'')"
    by (simp add: registry_has_def registerBuiltinAdapters_def register_def map_of_update lit_def)
  show ?thesis
    using unknown_adapter_reports_sent [of ?d "scheduled_job (lit ''m'')" "sample_message queued None"
        "sample_account\<lparr>ac_adapter := lit ''telegram''\<rparr>" "lit ''7''"] m a u j by simp
qed

end
