(* ===== verification/Admin.thy ===== *)
theory Admin
  imports Delivery
begin

text \<open>
  What administrators configure: destinations of events and their test
  (apps/api/src/destinations/destinations.service.ts), routing rules
  (apps/api/src/routing-rules/routing-rules.service.ts, with the event types and filters of
  packages/contracts/src/routing.ts), and the rules of alerts
  (apps/api/src/alerts/alerts.service.ts). What holds of them is in AdminFacts. Deleting a
  row takes the rows that refer to it along, as the schema says. Arguments are whether the database client takes \<open>null\<close> for a
  column of JSON, and what a UUID looks like to the validation library.
\<close>

section \<open>Destinations\<close>

datatype admin_error =
    DestinationNotFound
  | DatabaseRefused
  | RuleNotFound
  | UnknownEventTypes "ustring list"
  | BadFilters
  | DestinationsMissing
  | AlertRuleNotFound

fun destination_name :: "destination_type \<Rightarrow> ustring" where
  "destination_name webhook = lit ''webhook''"
| "destination_name email = lit ''email''"
| "destination_name telegram = lit ''telegram''"
| "destination_name internal_log = lit ''internal_log''"

text \<open>The body of a request; \<open>None\<close> is a member that is absent. The address may be \<open>null\<close>.\<close>

record destination_dto =
  dd_name :: "ustring option"
  dd_type :: "destination_type option"
  dd_enabled :: "bool option"
  dd_url :: "ustring option option"
  dd_secret :: "ustring option"
  dd_config :: "json option"
  dd_selector :: "ustring list option"
  dd_template :: "json option"
  dd_timeout :: "int option"

definition SENSITIVE_CONFIG_KEY :: "ustring \<Rightarrow> bool" where
  "SENSITIVE_CONFIG_KEY k \<longleftrightarrow> contains_ci ''token'' k \<or> contains_ci ''secret'' k
     \<or> contains_ci ''password'' k \<or> contains_ci ''key'' k"

definition mask_config_value :: "ustring \<times> json \<Rightarrow> ustring \<times> json" where
  "mask_config_value kv = (case kv of (k, v) \<Rightarrow>
     (k, case v of JStr s \<Rightarrow> if SENSITIVE_CONFIG_KEY k \<and> s \<noteq> [] then JStr (lit ''********'') else v | _ \<Rightarrow> v))"

fun maskConfig :: "json \<Rightarrow> json" where
  "maskConfig (JObj kvs) = JObj (map mask_config_value kvs)"
| "maskConfig v = JObj []"

text \<open>The public shape of a row.\<close>

definition serialize_destination :: "destination_row \<Rightarrow> json" where
  "serialize_destination r = JObj
     [(lit ''id'', JStr (de_id r)), (lit ''name'', JStr (de_name r)), (lit ''type'', JStr (destination_name (de_type r))),
      (lit ''enabled'', JBool (de_enabled r)), (lit ''url'', opt_str (de_url r)), (lit ''fieldSelector'', de_fieldSelector r),
      (lit ''templateJson'', case de_template r of Some t \<Rightarrow> t | None \<Rightarrow> JNull), (lit ''timeoutMs'', JNum (of_int (de_timeoutMs r))),
      (lit ''hasSecret'', JBool (truthy_str (de_secretEnc r))), (lit ''configJson'', maskConfig (de_config r))]"

definition string_list :: "ustring list \<Rightarrow> json" where
  "string_list xs = JArr (map JStr xs)"

definition find_destination :: "db \<Rightarrow> ustring \<Rightarrow> destination_row option" where
  "find_destination d i = find (\<lambda>r. de_id r = i) (destinations d)"

definition destination_list :: "db \<Rightarrow> json list" where
  "destination_list d = map serialize_destination (rev (destinations d))"

definition destination_get :: "ustring \<Rightarrow> db \<Rightarrow> admin_error + json" where
  "destination_get i d = (case find_destination d i of Some r \<Rightarrow> Inr (serialize_destination r) | None \<Rightarrow> Inl DestinationNotFound)"

definition stored_template :: "json option \<Rightarrow> json option" where
  "stored_template t = (if t = Some JNull then None else t)"

definition created_destination :: "ustring \<Rightarrow> ustring \<Rightarrow> destination_type \<Rightarrow> destination_dto \<Rightarrow> destination_row" where
  "created_destination i name ty dto =
     \<lparr>de_id = i, de_name = name, de_type = ty, de_enabled = (case dd_enabled dto of Some b \<Rightarrow> b | None \<Rightarrow> True),
      de_url = (case dd_url dto of Some u \<Rightarrow> u | None \<Rightarrow> None), de_secretEnc = dd_secret dto,
      de_config = (case dd_config dto of Some c \<Rightarrow> c | None \<Rightarrow> JObj []),
      de_fieldSelector = (case dd_selector dto of Some s \<Rightarrow> string_list s | None \<Rightarrow> JArr []),
      de_template = stored_template (dd_template dto), de_timeoutMs = (case dd_timeout dto of Some t \<Rightarrow> t | None \<Rightarrow> 10000)\<rparr>"

text \<open>\<open>nulls\<close>: the database client takes \<open>null\<close> for the template, and stores none.\<close>

definition destination_create ::
  "bool \<Rightarrow> ustring \<Rightarrow> destination_type \<Rightarrow> destination_dto \<Rightarrow> ustring option \<Rightarrow> db \<Rightarrow> (admin_error + json) \<times> db" where
  "destination_create nulls name ty dto actorId d =
     (if dd_template dto = Some JNull \<and> \<not> nulls then (Inl DatabaseRefused, d)
      else (let (i, d1) = fresh_id d; created = created_destination i name ty dto
            in (Inr (serialize_destination created),
                audit_log actorId ''destination.created'' ''destination'' i (JObj [])
                  (JObj [(lit ''id'', JStr i), (lit ''name'', JStr name), (lit ''type'', JStr (destination_name ty))])
                  (d1\<lparr>destinations := destinations d1 @ [created]\<rparr>))))"

text \<open>An absent member leaves its column alone.\<close>

definition or_keep :: "'a option \<Rightarrow> 'a \<Rightarrow> 'a" where
  "or_keep v w = (case v of Some x \<Rightarrow> x | None \<Rightarrow> w)"

definition change_destination :: "destination_dto \<Rightarrow> destination_row \<Rightarrow> destination_row" where
  "change_destination dto r =
     \<lparr>de_id = de_id r, de_name = or_keep (dd_name dto) (de_name r), de_type = or_keep (dd_type dto) (de_type r),
      de_enabled = or_keep (dd_enabled dto) (de_enabled r), de_url = or_keep (dd_url dto) (de_url r),
      de_secretEnc = (if dd_secret dto = None then de_secretEnc r else dd_secret dto),
      de_config = or_keep (dd_config dto) (de_config r),
      de_fieldSelector = or_keep (map_option string_list (dd_selector dto)) (de_fieldSelector r),
      de_template = (if dd_template dto = None then de_template r else stored_template (dd_template dto)),
      de_timeoutMs = or_keep (dd_timeout dto) (de_timeoutMs r)\<rparr>"

definition destination_update ::
  "bool \<Rightarrow> ustring \<Rightarrow> destination_dto \<Rightarrow> ustring option \<Rightarrow> db \<Rightarrow> (admin_error + json) \<times> db" where
  "destination_update nulls i dto actorId d =
     (case find_destination d i of
        None \<Rightarrow> (Inl DestinationNotFound, d)
      | Some r \<Rightarrow>
          if dd_template dto = Some JNull \<and> \<not> nulls then (Inl DatabaseRefused, d)
          else (let updated = change_destination dto r in
                (Inr (serialize_destination updated),
                 audit_log actorId ''destination.updated'' ''destination'' i (serialize_destination r)
                   (JObj [(lit ''id'', JStr i), (lit ''name'', JStr (de_name updated)), (lit ''enabled'', JBool (de_enabled updated))])
                   (d\<lparr>destinations := update_where (\<lambda>x. de_id x = i) (change_destination dto) (destinations d)\<rparr>))))"

definition destination_delete :: "ustring \<Rightarrow> ustring option \<Rightarrow> db \<Rightarrow> admin_error option \<times> db" where
  "destination_delete i actorId d =
     (case find_destination d i of
        None \<Rightarrow> (Some DestinationNotFound, d)
      | Some r \<Rightarrow>
          (None, audit_log actorId ''destination.deleted'' ''destination'' i (serialize_destination r) (JObj [])
             (d\<lparr>destinations := delete_where (\<lambda>x. de_id x = i) (destinations d),
                rule_links := delete_where (\<lambda>l. snd l = i) (rule_links d),
                deliveries := delete_where (\<lambda>l. dl_destinationId l = i) (deliveries d)\<rparr>)))"

section \<open>The test of a destination\<close>

definition test_envelope :: "(int \<Rightarrow> ustring) \<Rightarrow> int \<Rightarrow> ustring \<Rightarrow> json" where
  "test_envelope isof now uuid = JObj
     [(lit ''specversion'', JStr (lit ''1.0'')), (lit ''id'', JStr (lit ''evt_'' @ uuid)), (lit ''type'', JStr (lit ''umg.test'')),
      (lit ''source'', JStr (lit ''umg://api/destinations/test'')), (lit ''time'', JStr (isof now)),
      (lit ''datacontenttype'', JStr (lit ''application/json'')), (lit ''account_id'', JNull), (lit ''endpoint_id'', JNull),
      (lit ''event_version'', JStr (lit ''1.0'')),
      (lit ''data'', JObj [(lit ''message'', JStr ([1058, 1077, 1089, 1090, 1086, 1074, 1077] @ lit '' '' @ [1087,
      1086, 1074, 1110, 1076, 1086, 1084, 1083, 1077, 1085, 1085, 1103] @ lit '' UMG''))])]"

definition test_snapshot :: "destination_row \<Rightarrow> ustring \<Rightarrow> json \<Rightarrow> json" where
  "test_snapshot r uuid envelope = JObj
     [(lit ''url'', opt_str (de_url r)), (lit ''method'', JStr (lit ''POST'')),
      (lit ''headers'', JObj [(lit ''content-type'', JStr (lit ''application/json'')), (lit ''x-umg-event-id'', JStr (lit ''evt_'' @ uuid))]),
      (lit ''body'', envelope)]"

text \<open>The delivery as each of the polls finds it; no poll is made after the deadline.\<close>

fun poll_test :: "delivery_row \<Rightarrow> delivery_row option list \<Rightarrow> delivery_row" where
  "poll_test current [] = current"
| "poll_test current (None # fs) = current"
| "poll_test current (Some fresh # fs) = (if terminal_delivery (dl_status fresh) then fresh else poll_test fresh fs)"

text \<open>The answer of the destination, or else the error, which is a text as well.\<close>

definition excerpt :: "delivery_row \<Rightarrow> (ustring + delivery_error) option" where
  "excerpt r = (case (case dl_response r of Some s \<Rightarrow> rs_body s | None \<Rightarrow> None) of
       Some body \<Rightarrow> Some (Inl (take 500 body))
     | None \<Rightarrow> map_option Inr (dl_lastError r))"

record test_result =
  tr_deliveryId :: ustring
  tr_status :: delivery_status
  tr_code :: "int option"
  tr_excerpt :: "(ustring + delivery_error) option"
  tr_durationMs :: "int option"

definition destination_test ::
  "(int \<Rightarrow> ustring) \<Rightarrow> int \<Rightarrow> ustring \<Rightarrow> ustring option \<Rightarrow> delivery_row option list \<Rightarrow> db \<Rightarrow> (admin_error + test_result) \<times> db" where
  "destination_test isof now i actorId polls d =
     (case find_destination d i of
        None \<Rightarrow> (Inl DestinationNotFound, d)
      | Some r \<Rightarrow>
          (let (uuid, d1) = fresh_id d; envelope = test_envelope isof now uuid;
               (eid, d2) = fresh_id d1;
               event = \<lparr>ev_id = eid, ev_dedupKey = None, ev_eventType = lit ''umg.test'', ev_aggregateId = None,
                 ev_channelType = None, ev_accountId = None, ev_endpointId = None, ev_payload = envelope, ev_createdAt = now\<rparr>;
               (did, d3) = fresh_id (d2\<lparr>events := events d2 @ [event]\<rparr>);
               delivery = new_delivery event r (test_snapshot r uuid envelope) did;
               d4 = audit_log actorId ''destination.tested'' ''destination'' i (JObj []) (JObj [(lit ''deliveryId'', JStr did)])
                      (enqueueWebhookDelivery did (d3\<lparr>deliveries := deliveries d3 @ [delivery]\<rparr>));
               current = poll_test delivery polls
           in (Inr \<lparr>tr_deliveryId = dl_id current, tr_status = dl_status current, tr_code = dl_lastResponseCode current,
                    tr_excerpt = excerpt current, tr_durationMs = dl_durationMs current\<rparr>, d4)))"

section \<open>Routing rules\<close>

definition EVENT_TYPES :: "ustring list" where
  "EVENT_TYPES = map lit
     [''message.received'', ''message.assembled'', ''message.queued'', ''message.accepted'', ''message.sent'', ''message.delivered'',
      ''message.read'', ''message.failed'', ''message.status.unknown'', ''channel.connected'', ''channel.disconnected'',
      ''channel.degraded'', ''endpoint.enabled'', ''endpoint.disabled'', ''sim.balance.updated'', ''sim.balance.low'',
      ''sim.balance.recovered'', ''sim.ussd.failed'', ''webhook.delivery.failed'', ''webhook.dead_lettered'', ''queue.backlog'',
      ''storage.low'', ''system.component.unhealthy'', ''system.component.recovered'', ''media.deleted'']"

record rule_input =
  ri_name :: "ustring option"
  ri_enabled :: "bool option"
  ri_priority :: "int option"
  ri_eventTypes :: "ustring list option"
  ri_filters :: "fields option"
  ri_selector :: "ustring list option"
  ri_destinationIds :: "ustring list option"

definition one_of :: "string list \<Rightarrow> json \<Rightarrow> bool" where
  "one_of ws v \<longleftrightarrow> v \<in> set (map (\<lambda>w. JStr (lit w)) ws)"

text \<open>A member of the filters; a name that the schema does not know is let through.\<close>

definition filter_ok :: "(ustring \<Rightarrow> bool) \<Rightarrow> ustring \<times> json \<Rightarrow> bool" where
  "filter_ok uuid kv = (case kv of (k, v) \<Rightarrow>
     if k = lit ''channelType'' then one_of [''sms'', ''whatsapp'', ''signal'', ''mock''] v
     else if k = lit ''accountId'' \<or> k = lit ''endpointId'' then (case v of JStr s \<Rightarrow> uuid s | _ \<Rightarrow> False)
     else if k = lit ''direction'' then one_of [''inbound'', ''outbound''] v
     else if k = lit ''severity'' then one_of [''info'', ''warning'', ''critical''] v
     else True)"

definition validateEventTypes :: "ustring list \<Rightarrow> admin_error option" where
  "validateEventTypes ts = (let invalid = filter (\<lambda>t. t \<notin> set EVENT_TYPES) ts in
     if invalid \<noteq> [] then Some (UnknownEventTypes invalid) else None)"

definition validateFilters :: "(ustring \<Rightarrow> bool) \<Rightarrow> fields option \<Rightarrow> admin_error option" where
  "validateFilters uuid fs = (case fs of Some kvs \<Rightarrow> if list_all (filter_ok uuid) kvs then None else Some BadFilters | None \<Rightarrow> None)"

definition ensureDestinationsExist :: "ustring list \<Rightarrow> db \<Rightarrow> admin_error option" where
  "ensureDestinationsExist ids d =
     (if length (filter (\<lambda>r. de_id r \<in> set ids) (destinations d)) \<noteq> length (remdups ids) then Some DestinationsMissing else None)"

definition first_error :: "admin_error option \<Rightarrow> admin_error option \<Rightarrow> admin_error option" where
  "first_error a b = (case a of None \<Rightarrow> b | Some e \<Rightarrow> Some e)"

definition syncDestinationLinks :: "ustring \<Rightarrow> ustring list \<Rightarrow> db \<Rightarrow> db" where
  "syncDestinationLinks i ids d = d\<lparr>rule_links := rule_links d @ map (\<lambda>x. (i, x)) (remdups_first ids)\<rparr>"

definition destination_summary :: "destination_row \<Rightarrow> json" where
  "destination_summary r = JObj [(lit ''id'', JStr (de_id r)), (lit ''name'', JStr (de_name r)),
     (lit ''type'', JStr (destination_name (de_type r))), (lit ''enabled'', JBool (de_enabled r))]"

definition serialize_rule :: "rule_row \<Rightarrow> db \<Rightarrow> json" where
  "serialize_rule r d = JObj
     [(lit ''id'', JStr (ru_id r)), (lit ''name'', JStr (ru_name r)), (lit ''enabled'', JBool (ru_enabled r)),
      (lit ''priority'', JNum (of_int (ru_priority r))), (lit ''eventTypes'', ru_eventTypes r), (lit ''filters'', ru_filters r),
      (lit ''fieldSelector'', ru_fieldSelector r), (lit ''destinations'', JArr (map destination_summary (rule_destinations d r)))]"

definition find_rule :: "db \<Rightarrow> ustring \<Rightarrow> rule_row option" where
  "find_rule d i = find (\<lambda>r. ru_id r = i) (rules d)"

definition rule_list :: "db \<Rightarrow> json list" where
  "rule_list d = map (\<lambda>r. serialize_rule r d) (sort_key ru_priority (rev (rules d)))"

definition rule_get :: "ustring \<Rightarrow> db \<Rightarrow> admin_error + json" where
  "rule_get i d = (case find_rule d i of Some r \<Rightarrow> Inr (serialize_rule r d) | None \<Rightarrow> Inl RuleNotFound)"

definition created_rule :: "ustring \<Rightarrow> ustring \<Rightarrow> rule_input \<Rightarrow> rule_row" where
  "created_rule i name x = \<lparr>ru_id = i, ru_name = name, ru_enabled = or_keep (ri_enabled x) True,
     ru_priority = or_keep (ri_priority x) 100, ru_eventTypes = string_list (or_keep (ri_eventTypes x) []),
     ru_filters = JObj (or_keep (ri_filters x) []), ru_fieldSelector = string_list (or_keep (ri_selector x) [])\<rparr>"

definition rule_create ::
  "(ustring \<Rightarrow> bool) \<Rightarrow> ustring \<Rightarrow> rule_input \<Rightarrow> ustring option \<Rightarrow> db \<Rightarrow> (admin_error + json) \<times> db" where
  "rule_create uuid name x actorId d =
     (case first_error (validateEventTypes (or_keep (ri_eventTypes x) []))
             (first_error (validateFilters uuid (ri_filters x)) (ensureDestinationsExist (or_keep (ri_destinationIds x) []) d)) of
        Some e \<Rightarrow> (Inl e, d)
      | None \<Rightarrow>
          (let (i, d1) = fresh_id d; created = created_rule i name x;
               d2 = syncDestinationLinks i (or_keep (ri_destinationIds x) []) (d1\<lparr>rules := rules d1 @ [created]\<rparr>)
           in (Inr (serialize_rule created d2),
               audit_log actorId ''routing_rule.created'' ''routing_rule'' i (JObj [])
                 (JObj ([(lit ''id'', JStr i), (lit ''name'', JStr name)]
                   @ (case ri_eventTypes x of Some ts \<Rightarrow> [(lit ''eventTypes'', string_list ts)] | None \<Rightarrow> []))) d2)))"

definition change_rule :: "rule_input \<Rightarrow> rule_row \<Rightarrow> rule_row" where
  "change_rule x r = \<lparr>ru_id = ru_id r, ru_name = or_keep (ri_name x) (ru_name r), ru_enabled = or_keep (ri_enabled x) (ru_enabled r),
     ru_priority = or_keep (ri_priority x) (ru_priority r),
     ru_eventTypes = or_keep (map_option string_list (ri_eventTypes x)) (ru_eventTypes r),
     ru_filters = or_keep (map_option JObj (ri_filters x)) (ru_filters r),
     ru_fieldSelector = or_keep (map_option string_list (ri_selector x)) (ru_fieldSelector r)\<rparr>"

definition rule_update ::
  "(ustring \<Rightarrow> bool) \<Rightarrow> ustring \<Rightarrow> rule_input \<Rightarrow> ustring option \<Rightarrow> db \<Rightarrow> (admin_error + json) \<times> db" where
  "rule_update uuid i x actorId d =
     (case find_rule d i of
        None \<Rightarrow> (Inl RuleNotFound, d)
      | Some r \<Rightarrow>
          (case first_error (case ri_eventTypes x of Some ts \<Rightarrow> validateEventTypes ts | None \<Rightarrow> None)
                  (first_error (validateFilters uuid (ri_filters x))
                     (case ri_destinationIds x of Some ids \<Rightarrow> ensureDestinationsExist ids d | None \<Rightarrow> None)) of
             Some e \<Rightarrow> (Inl e, d)
           | None \<Rightarrow>
               (let d1 = d\<lparr>rules := update_where (\<lambda>q. ru_id q = i) (change_rule x) (rules d)\<rparr>;
                    d2 = (case ri_destinationIds x of
                            Some ids \<Rightarrow> syncDestinationLinks i ids (d1\<lparr>rule_links := delete_where (\<lambda>l. fst l = i) (rule_links d1)\<rparr>)
                          | None \<Rightarrow> d1);
                    updated = change_rule x r
                in (Inr (serialize_rule updated d2),
                    audit_log actorId ''routing_rule.updated'' ''routing_rule'' i (serialize_rule r d)
                      (JObj [(lit ''id'', JStr i), (lit ''name'', JStr (ru_name updated)), (lit ''enabled'', JBool (ru_enabled updated))]) d2))))"

definition rule_delete :: "ustring \<Rightarrow> ustring option \<Rightarrow> db \<Rightarrow> admin_error option \<times> db" where
  "rule_delete i actorId d =
     (case find_rule d i of
        None \<Rightarrow> (Some RuleNotFound, d)
      | Some r \<Rightarrow>
          (None, audit_log actorId ''routing_rule.deleted'' ''routing_rule'' i (serialize_rule r d) (JObj [])
             (d\<lparr>rules := delete_where (\<lambda>q. ru_id q = i) (rules d), rule_links := delete_where (\<lambda>l. fst l = i) (rule_links d)\<rparr>)))"

section \<open>Rules of alerts\<close>

definition updateRule :: "ustring \<Rightarrow> bool option \<Rightarrow> fields option \<Rightarrow> ustring option \<Rightarrow> db \<Rightarrow> (admin_error + alert_rule_row) \<times> db" where
  "updateRule key on config actorId d =
     (case find (\<lambda>r. ar_key r = key) (alert_rules d) of
        None \<Rightarrow> (Inl AlertRuleNotFound, d)
      | Some r \<Rightarrow>
          (let change = (\<lambda>r. r\<lparr>ar_enabled := or_keep on (ar_enabled r), ar_config := or_keep (map_option JObj config) (ar_config r)\<rparr>);
               updated = change r
           in (Inr updated,
               audit_log actorId ''alert_rule.updated'' ''alert_rule'' key
                 (JObj [(lit ''key'', JStr key), (lit ''name'', JStr (ar_name r)), (lit ''enabled'', JBool (ar_enabled r)), (lit ''configJson'', ar_config r)])
                 (JObj [(lit ''key'', JStr key), (lit ''enabled'', JBool (ar_enabled updated))])
                 (d\<lparr>alert_rules := update_where (\<lambda>q. ar_key q = key) change (alert_rules d)\<rparr>))))"

end
