(* ===== verification/AdminFacts.thy ===== *)
theory AdminFacts
  imports Admin
begin

text \<open>
  What holds of the administration of destinations and rules: links and deliveries refer to
  existing rows whatever administrators and routing do, a new rule routes the events it
  names, no answer and no audit record depends on a secret, and what the test of a
  destination sends.
\<close>

section \<open>Links and deliveries refer to existing rows\<close>

definition config_ok :: "db \<Rightarrow> bool" where
  "config_ok d \<longleftrightarrow> inj (uuid_source d)
     \<and> (\<forall>n\<ge>uuid_next d. uuid_source d n \<notin> de_id ` set (destinations d) \<and> uuid_source d n \<notin> ru_id ` set (rules d))
     \<and> distinct (map de_id (destinations d)) \<and> distinct (map ru_id (rules d)) \<and> distinct (rule_links d)
     \<and> (\<forall>l\<in>set (rule_links d). fst l \<in> ru_id ` set (rules d) \<and> snd l \<in> de_id ` set (destinations d))
     \<and> (\<forall>r\<in>set (deliveries d). dl_destinationId r \<in> de_id ` set (destinations d))"

datatype config_act =
    NewDestination bool ustring destination_type destination_dto
  | ChangeDestination bool ustring destination_dto
  | DropDestination ustring
  | TestDestination ustring int "delivery_row option list"
  | NewRule ustring rule_input
  | ChangeRule ustring rule_input
  | DropRule ustring
  | RouteEvent event_row

record config_env =
  ge_iso :: "int \<Rightarrow> ustring"
  ge_fmt :: "rat \<Rightarrow> ustring"
  ge_uuid :: "ustring \<Rightarrow> bool"
  ge_actor :: "ustring option"

fun config_step :: "config_env \<Rightarrow> config_act \<Rightarrow> db \<Rightarrow> db" where
  "config_step env (NewDestination nulls name ty dto) d = snd (destination_create nulls name ty dto (ge_actor env) d)"
| "config_step env (ChangeDestination nulls i dto) d = snd (destination_update nulls i dto (ge_actor env) d)"
| "config_step env (DropDestination i) d = snd (destination_delete i (ge_actor env) d)"
| "config_step env (TestDestination i now polls) d = snd (destination_test (ge_iso env) now i (ge_actor env) polls d)"
| "config_step env (NewRule name x) d = snd (rule_create (ge_uuid env) name x (ge_actor env) d)"
| "config_step env (ChangeRule i x) d = snd (rule_update (ge_uuid env) i x (ge_actor env) d)"
| "config_step env (DropRule i) d = snd (rule_delete i (ge_actor env) d)"
| "config_step env (RouteEvent e) d = matchAndDispatch (ge_fmt env) e d"

lemma audit_config [simp]: "config_ok (audit_log a b c e f g d) = config_ok d"
  by (simp add: config_ok_def audit_log_def)

lemma enqueue_config [simp]: "config_ok (enqueueWebhookDelivery i d) = config_ok d"
  by (simp add: config_ok_def enqueueWebhookDelivery_def)

lemma config_id: "config_ok d \<Longrightarrow> config_ok (d\<lparr>uuid_next := Suc (uuid_next d)\<rparr>)"
  by (simp add: config_ok_def)

lemma fresh_source: "inj f \<Longrightarrow> Suc m \<le> n \<Longrightarrow> f n \<noteq> f m"
  by (auto dest: injD)

lemma config_new_destination:
  assumes "config_ok d" and "de_id r = uuid_source d (uuid_next d)"
  shows "config_ok (d\<lparr>uuid_next := Suc (uuid_next d), destinations := destinations d @ [r]\<rparr>)"
  using assms unfolding config_ok_def by (auto simp: fresh_source)

lemma config_change_destination:
  assumes "config_ok d" and "\<And>r. de_id (f r) = de_id r"
  shows "config_ok (d\<lparr>destinations := update_where P f (destinations d)\<rparr>)"
proof -
  have m: "map de_id (update_where P f (destinations d)) = map de_id (destinations d)"
    using assms(2) by (simp add: update_where_def)
  then have "de_id ` set (update_where P f (destinations d)) = de_id ` set (destinations d)" by (metis set_map)
  with m assms(1) show ?thesis by (simp add: config_ok_def)
qed

lemma change_destination_id [simp]: "de_id (change_destination dto r) = de_id r"
  by (simp add: change_destination_def)

lemma distinct_map_filter_where: "distinct (map f xs) \<Longrightarrow> distinct (map f (delete_where P xs))"
  by (induction xs) (auto simp: delete_where_def)

lemma config_drop_destination:
  assumes "config_ok d"
  shows "config_ok (d\<lparr>destinations := delete_where (\<lambda>x. de_id x = i) (destinations d),
     rule_links := delete_where (\<lambda>l. snd l = i) (rule_links d), deliveries := delete_where (\<lambda>l. dl_destinationId l = i) (deliveries d)\<rparr>)"
  using assms distinct_map_filter_where [of de_id "destinations d"] unfolding config_ok_def
  by (auto simp: delete_where_def)

lemma config_deliveries:
  assumes "config_ok d" and "\<forall>r\<in>set new. dl_destinationId r \<in> de_id ` set (destinations d)" and "uuid_next d \<le> n"
  shows "config_ok (d\<lparr>uuid_next := n, events := es, deliveries := deliveries d @ new, webhook_jobs := js\<rparr>)"
  using assms unfolding config_ok_def by auto

lemma find_destination_known: "find_destination d i = Some r \<Longrightarrow> r \<in> set (destinations d) \<and> de_id r = i"
  unfolding find_destination_def by (auto simp: find_Some_iff)

lemma config_test:
  assumes "config_ok d" shows "config_ok (snd (destination_test isof now i actor polls d))"
proof (cases "find_destination d i")
  case (Some r)
  then have "de_id r \<in> de_id ` set (destinations d)" using find_destination_known by blast
  with Some assms show ?thesis
    by (auto simp: destination_test_def Let_def fresh_id_def new_delivery_def config_ok_def enqueueWebhookDelivery_def audit_log_def)
qed (use assms in \<open>simp add: destination_test_def\<close>)

lemma ensured_destinations:
  assumes "ensureDestinationsExist ids d = None" and "distinct (map de_id (destinations d))"
  shows "set ids \<subseteq> de_id ` set (destinations d)"
proof -
  let ?xs = "filter (\<lambda>r. de_id r \<in> set ids) (destinations d)"
  have "distinct (map de_id ?xs)" using assms(2) by (simp add: distinct_map_filter)
  then have "card (de_id ` set ?xs) = length ?xs" by (metis distinct_card length_map set_map)
  also have "\<dots> = card (set ids)" using assms(1) by (simp add: ensureDestinationsExist_def length_remdups_card_conv split: if_splits)
  finally have "de_id ` set ?xs = set ids" by (intro card_subset_eq) auto
  then show ?thesis by auto
qed

lemma set_remdups_first [simp]: "set (remdups_first xs) = set xs" "distinct (remdups_first xs)"
  by (simp_all add: remdups_first_def)

text \<open>A rule with its links, when it has none yet.\<close>

lemma config_links:
  assumes "config_ok d" and "i \<in> ru_id ` set (rules d)" and "set ids \<subseteq> de_id ` set (destinations d)"
    and "\<forall>l\<in>set (rule_links d). fst l \<noteq> i"
  shows "config_ok (syncDestinationLinks i ids d)"
proof -
  have "distinct (map (\<lambda>x. (i, x)) (remdups_first ids))" by (simp add: distinct_map inj_on_def)
  with assms show ?thesis unfolding config_ok_def syncDestinationLinks_def by auto
qed

lemma config_new_rule:
  assumes "config_ok d" and "ru_id r = uuid_source d (uuid_next d)"
  shows "config_ok (d\<lparr>uuid_next := Suc (uuid_next d), rules := rules d @ [r]\<rparr>)"
  using assms unfolding config_ok_def by (auto simp: fresh_source)

lemma config_change_rules:
  assumes "config_ok d" and "\<And>r. ru_id (f r) = ru_id r"
  shows "config_ok (d\<lparr>rules := update_where P f (rules d)\<rparr>)"
proof -
  have m: "map ru_id (update_where P f (rules d)) = map ru_id (rules d)"
    using assms(2) by (simp add: update_where_def)
  then have "ru_id ` set (update_where P f (rules d)) = ru_id ` set (rules d)" by (metis set_map)
  with m assms(1) show ?thesis by (simp add: config_ok_def)
qed

lemma config_drop_links: "config_ok d \<Longrightarrow> config_ok (d\<lparr>rule_links := delete_where P (rule_links d)\<rparr>)"
  unfolding config_ok_def by (auto simp: delete_where_def)

lemma config_drop_rule:
  assumes "config_ok d"
  shows "config_ok (d\<lparr>rules := delete_where (\<lambda>q. ru_id q = i) (rules d), rule_links := delete_where (\<lambda>l. fst l = i) (rule_links d)\<rparr>)"
  using assms distinct_map_filter_where [of ru_id "rules d"] unfolding config_ok_def
  by (auto simp: delete_where_def)

lemma rules_change_links:
  "find_rule d i = Some r \<Longrightarrow> i \<in> ru_id ` set (rules d)"
  unfolding find_rule_def by (auto simp: find_Some_iff)

lemma first_error_None: "first_error a b = None \<longleftrightarrow> a = None \<and> b = None"
  by (auto simp: first_error_def split: option.split)

lemma change_rule_id [simp]: "ru_id (change_rule x r) = ru_id r"
  by (simp add: change_rule_def)

lemma config_rule_update:
  assumes "config_ok d" shows "config_ok (snd (rule_update uuid i x actor d))"
proof (cases "find_rule d i")
  case None
  with assms show ?thesis by (simp add: rule_update_def)
next
  case (Some r)
  let ?d1 = "d\<lparr>rules := update_where (\<lambda>q. ru_id q = i) (change_rule x) (rules d)\<rparr>"
  let ?e = "first_error (case ri_eventTypes x of Some ts \<Rightarrow> validateEventTypes ts | None \<Rightarrow> None)
      (first_error (validateFilters uuid (ri_filters x)) (case ri_destinationIds x of Some ids \<Rightarrow> ensureDestinationsExist ids d | None \<Rightarrow> None))"
  have d1: "config_ok ?d1" by (rule config_change_rules [OF assms]) simp
  show ?thesis
  proof (cases ?e)
    case e: None
    show ?thesis
    proof (cases "ri_destinationIds x")
      case None
      with Some e d1 show ?thesis by (simp add: rule_update_def Let_def)
    next
      case ids: (Some ids)
      let ?d2 = "?d1\<lparr>rule_links := delete_where (\<lambda>l. fst l = i) (rule_links ?d1)\<rparr>"
      have "set ids \<subseteq> de_id ` set (destinations d)"
        using e ids assms ensured_destinations by (auto simp: first_error_None config_ok_def)
      moreover have "i \<in> ru_id ` set (rules ?d1)"
      proof -
        have "map ru_id (update_where (\<lambda>q. ru_id q = i) (change_rule x) (rules d)) = map ru_id (rules d)"
          by (simp add: update_where_def)
        then show ?thesis using rules_change_links [OF Some] by (metis (no_types) db.select_convs(9) db.surjective db.update_convs(9) set_map)
      qed
      moreover have "\<forall>l\<in>set (rule_links ?d2). fst l \<noteq> i" by (simp add: delete_where_def)
      ultimately have "config_ok (syncDestinationLinks i ids ?d2)"
        using config_drop_links [OF d1, of "\<lambda>l. fst l = i"] by (intro config_links) simp_all
      with Some e ids show ?thesis by (simp add: rule_update_def Let_def)
    qed
  qed (use Some assms in \<open>simp add: rule_update_def Let_def\<close>)
qed

lemma config_rule_create:
  assumes "config_ok d" shows "config_ok (snd (rule_create uuid name x actor d))"
proof (cases "first_error (validateEventTypes (or_keep (ri_eventTypes x) []))
    (first_error (validateFilters uuid (ri_filters x)) (ensureDestinationsExist (or_keep (ri_destinationIds x) []) d))")
  case None
  let ?i = "uuid_source d (uuid_next d)" and ?ids = "or_keep (ri_destinationIds x) []"
  let ?d1 = "d\<lparr>uuid_next := Suc (uuid_next d), rules := rules d @ [created_rule ?i name x]\<rparr>"
  have "config_ok ?d1" by (rule config_new_rule [OF assms]) (simp add: created_rule_def)
  moreover have "set ?ids \<subseteq> de_id ` set (destinations ?d1)"
    using None assms ensured_destinations by (auto simp: first_error_None config_ok_def)
  moreover have "\<forall>l\<in>set (rule_links ?d1). fst l \<noteq> ?i" using assms by (fastforce simp: config_ok_def)
  ultimately have "config_ok (syncDestinationLinks ?i ?ids ?d1)"
    by (intro config_links) (simp_all add: created_rule_def)
  with None show ?thesis by (simp add: rule_create_def Let_def fresh_id_def)
qed (use assms in \<open>simp add: rule_create_def\<close>)

lemma config_rule_delete:
  assumes "config_ok d" shows "config_ok (snd (rule_delete i actor d))"
  using assms config_drop_rule [OF assms, of i] by (simp add: rule_delete_def split: option.split)

lemma config_destination_steps:
  assumes "config_ok d"
  shows "config_ok (snd (destination_create nulls name ty dto actor d))"
    and "config_ok (snd (destination_update nulls i dto actor d))"
    and "config_ok (snd (destination_delete i actor d))"
  using assms config_new_destination [OF assms, of "created_destination (uuid_source d (uuid_next d)) name ty dto"]
    config_change_destination [OF assms, of "change_destination dto" "\<lambda>x. de_id x = i"] config_drop_destination [OF assms, of i]
  by (simp_all add: destination_create_def destination_update_def destination_delete_def created_destination_def fresh_id_def Let_def
      split: option.split)

lemma rule_destinations_known: "r \<in> set (rule_destinations d rule) \<Longrightarrow> de_id r \<in> de_id ` set (destinations d)"
  using rule_destinations_subset by blast

lemma config_dispatched:
  assumes "config_ok d" and "dispatched event d d' new" and "\<forall>r\<in>set new. dl_destinationId r \<in> de_id ` set (destinations d)"
  shows "config_ok d'"
  using assms unfolding dispatched_def config_ok_def by auto

lemma config_dispatch_rules:
  assumes "config_ok d" shows "config_ok (dispatch_rules fmt event rs env d)"
  using assms
proof (induction rs arbitrary: env d)
  case (Cons rule rs)
  show ?case
  proof (cases "ruleMatches rule event (JObj env)")
    case True
    let ?sel = "toStringArray (ru_fieldSelector rule)"
    obtain sh rp e1 where step: "dispatch_rules fmt event (rule # rs) env d =
        dispatch_rules fmt event rs (fst (dispatch_dests fmt event sh (rule_destinations d rule) rp e1 d))
          (snd (dispatch_dests fmt event sh (rule_destinations d rule) rp e1 d))"
      using True by (simp add: Let_def case_prod_beta)
    obtain new where new: "dispatched event d (snd (dispatch_dests fmt event sh (rule_destinations d rule) rp e1 d)) new"
      "map dl_destinationId new = map de_id (filter de_enabled (rule_destinations d rule))"
      using dispatch_dests_dispatched by blast
    have "\<forall>r\<in>set new. dl_destinationId r \<in> de_id ` set (destinations d)"
    proof
      fix r assume "r \<in> set new"
      then have "dl_destinationId r \<in> set (map de_id (filter de_enabled (rule_destinations d rule)))" by (metis image_eqI new(2) set_map)
      then show "dl_destinationId r \<in> de_id ` set (destinations d)" using rule_destinations_known by auto
    qed
    from config_dispatched [OF Cons.prems new(1) this] show ?thesis unfolding step by (rule Cons.IH)
  qed (use Cons in simp)
qed simp

lemma config_step_ok: "config_ok d \<Longrightarrow> config_ok (config_step env act d)"
  by (cases act) (simp_all add: config_destination_steps config_test config_rule_create config_rule_update
      config_rule_delete matchAndDispatch_def config_dispatch_rules)

text \<open>
  C29. Whatever administrators do with destinations and rules, and whatever events are routed
  meanwhile, every link between a rule and a destination names an existing rule and an
  existing destination and is there once, and every delivery has its destination.
\<close>

theorem config_references_valid:
  assumes "config_ok d" shows "config_ok (fold (config_step env) acts d)"
  using assms by (induction acts arbitrary: d) (simp_all add: config_step_ok)

definition plain_config :: config_env where
  "plain_config = \<lparr>ge_iso = (\<lambda>t. []), ge_fmt = (\<lambda>r. []), ge_uuid = (\<lambda>s. True), ge_actor = None\<rparr>"

definition no_changes :: destination_dto where
  "no_changes = \<lparr>dd_name = None, dd_type = None, dd_enabled = None, dd_url = None, dd_secret = None, dd_config = None,
     dd_selector = None, dd_template = None, dd_timeout = None\<rparr>"

definition rule_for :: "ustring list \<Rightarrow> ustring list \<Rightarrow> rule_input" where
  "rule_for types ids = \<lparr>ri_name = None, ri_enabled = None, ri_priority = None, ri_eventTypes = Some types, ri_filters = None,
     ri_selector = None, ri_destinationIds = Some ids\<rparr>"

theorem config_references_valid_witness:
  "config_ok (fold (config_step plain_config)
     [NewDestination False (lit ''crm'') webhook no_changes, NewRule (lit ''all'') (rule_for [lit ''message.received''] [lit ''x'']),
      DropDestination (lit ''x'')] (empty_db tick_ids))"
  by (rule config_references_valid) (auto simp: config_ok_def empty_db_def inj_def tick_ids_def)

section \<open>A new rule routes what it names\<close>

lemma toStringArray_string_list [simp]: "toStringArray (string_list ts) = filter (\<lambda>t. t \<noteq> []) ts"
  by (induction ts) (simp_all add: string_list_def toStringArray_def map_filter_simps)

lemma event_types_named: "t \<in> set EVENT_TYPES \<Longrightarrow> t \<noteq> []"
  by (auto simp: EVENT_TYPES_def lit_def)

lemma valid_types: "validateEventTypes ts = None \<Longrightarrow> set ts \<subseteq> set EVENT_TYPES"
  by (auto simp: validateEventTypes_def Let_def filter_empty_conv split: if_splits)

lemma find_by_id: "distinct (map de_id rs) \<Longrightarrow> r \<in> set rs \<Longrightarrow> find (\<lambda>x. de_id x = de_id r) rs = Some r"
  by (induction rs) auto

lemma map_filter_member: "x \<in> set xs \<Longrightarrow> f x = Some y \<Longrightarrow> y \<in> set (List.map_filter f xs)"
  by (induction xs) (auto simp: map_filter_simps split: option.split)

text \<open>
  A rule that is accepted, without filters and selectors, routes every event of the
  types it names, when it happens later, to every enabled destination it names: each gets a
  pending delivery of that event.
\<close>

theorem new_rule_routes:
  assumes "config_ok d" and created: "rule_create uuid name x actor d = (Inr v, d')"
    and "ri_enabled x \<noteq> Some False" and "ri_filters x = None" and "ri_eventTypes x = Some types" and "ri_destinationIds x = Some ids"
    and "no_selectors d'" and "ev_payload event = JObj env" and "ev_eventType event \<in> set types"
    and "r \<in> set (destinations d)" and "de_enabled r" and "de_id r \<in> set ids"
  shows "\<exists>new l. deliveries (matchAndDispatch fmt event d') = deliveries d' @ new \<and> l \<in> set new
    \<and> dl_destinationId l = de_id r \<and> dl_eventId l = ev_id event \<and> dl_status l = d_pending"
proof -
  let ?i = "uuid_source d (uuid_next d)"
  let ?rule = "created_rule ?i name x"
  let ?rs = "sort_key ru_priority (filter ru_enabled (rules d'))"
  have d': "rules d' = rules d @ [?rule]" "destinations d' = destinations d"
    "rule_links d' = rule_links d @ map (\<lambda>y. (?i, y)) (remdups_first ids)"
    using created assms(6)
    by (auto simp: rule_create_def Let_def fresh_id_def syncDestinationLinks_def audit_log_def or_keep_def split: option.splits)
  have "ru_enabled ?rule" using assms(3) by (auto simp: created_rule_def or_keep_def split: option.split)
  with d' have member: "?rule \<in> set ?rs" by simp
  have "validateEventTypes types = None"
    using created assms(5) by (auto simp: rule_create_def or_keep_def first_error_def split: option.splits)
  with assms(9) have "ev_eventType event \<noteq> []" using valid_types event_types_named by blast
  then have matches: "ruleMatches ?rule event (JObj env)"
    using assms(4,5,9) by (simp add: ruleMatches_def created_rule_def or_keep_def)
  have "(?i, de_id r) \<in> set (rule_links d')" using d'(3) assms(12) by simp
  moreover have "find (\<lambda>y. de_id y = de_id r) (destinations d') = Some r"
    unfolding d'(2) by (rule find_by_id [OF _ assms(10)]) (use assms(1) in \<open>simp add: config_ok_def\<close>)
  ultimately have "r \<in> set (rule_destinations d' ?rule)"
    unfolding rule_destinations_def by (intro map_filter_member [of "(?i, de_id r)"]) (simp_all add: created_rule_def)
  with assms(11) member matches have routed: "de_id r \<in> set (routed_to d' event (JObj env) ?rs)"
    by (force simp: routed_to_def)
  have "list_all (\<lambda>r. toStringArray (ru_fieldSelector r) = []) ?rs"
    using assms(7) by (auto simp: no_selectors_def list_all_iff)
  then obtain new where new: "dispatched event d' (dispatch_rules fmt event ?rs env d') new"
    "map dl_destinationId new = routed_to d' event (JObj env) ?rs"
    using dispatch_rules_exact [of ?rs d' event fmt env] assms(7) unfolding no_selectors_def by blast
  have "dispatch_rules fmt event ?rs env d' = matchAndDispatch fmt event d'"
    using assms(8) by (simp add: matchAndDispatch_def)
  with new(1) have "deliveries (matchAndDispatch fmt event d') = deliveries d' @ new" and pending: "list_all (pending_for event) new"
    by (simp_all add: dispatched_def)
  moreover from routed new(2) obtain l where "l \<in> set new" "dl_destinationId l = de_id r" by (metis imageE set_map)
  ultimately show ?thesis using pending by (auto simp: list_all_iff pending_for_def intro!: exI [of _ new] exI [of _ l])
qed

definition crm :: destination_row where
  "crm = created_destination (lit ''d'') (lit ''crm'') webhook no_changes"

definition crm_db :: db where
  "crm_db = (empty_db tick_ids)\<lparr>destinations := [crm]\<rparr>"

lemma crm_db_ok: "config_ok crm_db"
  by (auto simp: config_ok_def crm_db_def crm_def created_destination_def empty_db_def inj_def tick_ids_def lit_def)

lemma crm_rule_accepted:
  "\<exists>v. rule_create (\<lambda>s. True) (lit ''all'') (rule_for [lit ''message.received''] [lit ''d'']) None crm_db
     = (Inr v, snd (rule_create (\<lambda>s. True) (lit ''all'') (rule_for [lit ''message.received''] [lit ''d'']) None crm_db))"
proof -
  have e: "lit ''message.received'' \<in> set EVENT_TYPES" by (simp add: EVENT_TYPES_def)
  have i: "de_id crm = lit ''d''" by (simp add: crm_def created_destination_def)
  show ?thesis using e i
    by (simp add: rule_create_def rule_for_def validateEventTypes_def validateFilters_def ensureDestinationsExist_def or_keep_def
        first_error_def crm_db_def fresh_id_def Let_def)
qed

theorem new_rule_routes_witness:
  "\<exists>l \<in> set (deliveries (matchAndDispatch (\<lambda>r. []) (route_event\<lparr>ev_eventType := lit ''message.received''\<rparr>)
     (snd (rule_create (\<lambda>s. True) (lit ''all'') (rule_for [lit ''message.received''] [lit ''d'']) None crm_db)))).
   dl_destinationId l = lit ''d'' \<and> dl_status l = d_pending"
proof -
  let ?d = "snd (rule_create (\<lambda>s. True) (lit ''all'') (rule_for [lit ''message.received''] [lit ''d'']) None crm_db)"
  have r: "crm \<in> set (destinations crm_db)" "de_enabled crm" "de_id crm = lit ''d''"
    by (simp_all add: crm_db_def crm_def created_destination_def no_changes_def)
  have e: "lit ''message.received'' \<in> set EVENT_TYPES" by (simp add: EVENT_TYPES_def)
  have n: "no_selectors ?d" using e
    by (simp add: no_selectors_def rule_create_def rule_for_def validateEventTypes_def validateFilters_def ensureDestinationsExist_def
        or_keep_def first_error_def crm_db_def crm_def created_destination_def no_changes_def empty_db_def fresh_id_def Let_def
        audit_log_def syncDestinationLinks_def created_rule_def)
  obtain v where accepted: "rule_create (\<lambda>s. True) (lit ''all'') (rule_for [lit ''message.received''] [lit ''d'']) None crm_db = (Inr v, ?d)"
    using crm_rule_accepted by blast
  have p: "ev_payload (route_event\<lparr>ev_eventType := lit ''message.received''\<rparr>) = JObj []" by (simp add: route_event_def)
  let ?e = "route_event\<lparr>ev_eventType := lit ''message.received''\<rparr>"
  have "\<exists>new l. deliveries (matchAndDispatch (\<lambda>r. []) ?e ?d) = deliveries ?d @ new \<and> l \<in> set new
      \<and> dl_destinationId l = de_id crm \<and> dl_eventId l = ev_id ?e \<and> dl_status l = d_pending"
    by (rule new_rule_routes [OF crm_db_ok accepted _ _ _ _ n p _ r(1,2), where types = "[lit ''message.received'']" and ids = "[lit ''d'']"])
      (simp_all add: rule_for_def r(3))
  with r(3) show ?thesis by auto
qed

section \<open>Secrets stay inside\<close>

text \<open>The state, and the body of a request, with every secret and every sensitive member of a
  configuration replaced by a mask.\<close>

definition veil_text :: "ustring \<Rightarrow> ustring" where
  "veil_text s = (if s = [] then [] else MASK)"

fun veil_config :: "json \<Rightarrow> json" where
  "veil_config (JObj kvs) = JObj (map mask_config_value kvs)"
| "veil_config v = v"

definition veil_destination :: "destination_row \<Rightarrow> destination_row" where
  "veil_destination r = r\<lparr>de_secretEnc := map_option veil_text (de_secretEnc r), de_config := veil_config (de_config r)\<rparr>"

definition veil_dto :: "destination_dto \<Rightarrow> destination_dto" where
  "veil_dto dto = dto\<lparr>dd_secret := map_option veil_text (dd_secret dto), dd_config := map_option veil_config (dd_config dto)\<rparr>"

definition veil :: "db \<Rightarrow> db" where
  "veil d = d\<lparr>destinations := map veil_destination (destinations d)\<rparr>"

lemma mask_config_value_twice [simp]: "mask_config_value (mask_config_value kv) = mask_config_value kv"
  by (cases kv) (auto simp: mask_config_value_def split: json.split)

lemma veil_config_twice [simp]: "veil_config (veil_config c) = veil_config c" "maskConfig (veil_config c) = maskConfig c"
  by (cases c; simp)+

lemma veil_text_twice [simp]: "veil_text (veil_text s) = veil_text s"
  by (simp add: veil_text_def MASK_def lit_def)

lemma veil_destination_twice [simp]: "veil_destination (veil_destination r) = veil_destination r"
  by (simp add: veil_destination_def option.map_comp comp_def)

lemma veil_destination_fields [simp]:
  "de_id (veil_destination r) = de_id r" "de_name (veil_destination r) = de_name r" "de_type (veil_destination r) = de_type r"
  "de_enabled (veil_destination r) = de_enabled r" "de_url (veil_destination r) = de_url r"
  "de_fieldSelector (veil_destination r) = de_fieldSelector r" "de_template (veil_destination r) = de_template r"
  "de_timeoutMs (veil_destination r) = de_timeoutMs r"
  by (simp_all add: veil_destination_def)

lemma truthy_veil [simp]: "truthy_str (map_option veil_text s) = truthy_str s"
  by (cases s) (simp_all add: veil_text_def MASK_def lit_def)

lemma serialize_veil [simp]: "serialize_destination (veil_destination r) = serialize_destination r"
  unfolding serialize_destination_def veil_destination_fields by (simp add: veil_destination_def)

lemma veil_created: "created_destination i name ty (veil_dto dto) = veil_destination (created_destination i name ty dto)"
  by (simp add: created_destination_def veil_dto_def veil_destination_def split: option.split)

lemma veil_changed: "change_destination (veil_dto dto) (veil_destination r) = veil_destination (change_destination dto r)"
  by (simp add: change_destination_def veil_dto_def or_keep_def veil_destination_def split: option.split)

lemma veil_find: "find_destination (veil d) i = map_option veil_destination (find_destination d i)"
proof -
  have "find (\<lambda>r. de_id r = i) (map veil_destination rs) = map_option veil_destination (find (\<lambda>r. de_id r = i) rs)" for rs
    by (induction rs) simp_all
  then show ?thesis by (simp add: find_destination_def veil_def)
qed

lemma veil_audit: "veil (audit_log a b c e f g d) = audit_log a b c e f g (veil d)"
  by (simp add: veil_def audit_log_def)

lemma veil_dto_template [simp]: "dd_template (veil_dto dto) = dd_template dto"
  by (simp add: veil_dto_def)

lemma veil_add: "veil (d\<lparr>destinations := destinations d @ [r]\<rparr>) = (veil d)\<lparr>destinations := destinations (veil d) @ [veil_destination r]\<rparr>"
  by (simp add: veil_def)

lemma veil_twice [simp]: "veil (veil d) = veil d"
  by (simp add: veil_def)

lemma fresh_veil: "fresh_id (veil d) = (fst (fresh_id d), veil (snd (fresh_id d)))"
  by (simp add: fresh_id_def veil_def)

lemma create_veil:
  "fst (destination_create nulls name ty (veil_dto dto) actor (veil d)) = fst (destination_create nulls name ty dto actor d)
   \<and> veil (snd (destination_create nulls name ty (veil_dto dto) actor (veil d))) = veil (snd (destination_create nulls name ty dto actor d))"
  by (simp add: destination_create_def fresh_veil Let_def case_prod_beta veil_created veil_audit veil_add)

lemma update_veil:
  "fst (destination_update nulls i (veil_dto dto) actor (veil d)) = fst (destination_update nulls i dto actor d)
   \<and> veil (snd (destination_update nulls i (veil_dto dto) actor (veil d))) = veil (snd (destination_update nulls i dto actor d))"
proof (cases "find_destination d i")
  case (Some r)
  have f: "de_name (change_destination (veil_dto dto) (veil_destination r)) = de_name (change_destination dto r)"
    "de_enabled (change_destination (veil_dto dto) (veil_destination r)) = de_enabled (change_destination dto r)"
    by (simp_all add: veil_changed)
  have "veil ((veil d)\<lparr>destinations := update_where (\<lambda>x. de_id x = i) (change_destination (veil_dto dto)) (destinations (veil d))\<rparr>)
      = veil (d\<lparr>destinations := update_where (\<lambda>x. de_id x = i) (change_destination dto) (destinations d)\<rparr>)"
    by (simp add: veil_def update_where_def veil_changed)
  with Some f show ?thesis
    by (simp add: destination_update_def veil_find Let_def veil_audit veil_changed)
qed (simp add: destination_update_def veil_find)

lemma delete_veil:
  "fst (destination_delete i actor (veil d)) = fst (destination_delete i actor d)
   \<and> veil (snd (destination_delete i actor (veil d))) = veil (snd (destination_delete i actor d))"
proof -
  have "map veil_destination (delete_where (\<lambda>x. de_id x = i) (map veil_destination rs)) = map veil_destination (delete_where (\<lambda>x. de_id x = i) rs)" for rs
    by (simp add: delete_where_def filter_map comp_def)
  then show ?thesis
    by (simp add: destination_delete_def veil_find veil_audit split: option.split) (simp add: veil_def)
qed

lemma veil_tables [simp]:
  "events (veil d) = events d" "deliveries (veil d) = deliveries d" "webhook_jobs (veil d) = webhook_jobs d"
  "uuid_source (veil d) = uuid_source d" "uuid_next (veil d) = uuid_next d"
  "veil (d\<lparr>uuid_next := n\<rparr>) = (veil d)\<lparr>uuid_next := n\<rparr>"
  "veil (d\<lparr>events := es\<rparr>) = (veil d)\<lparr>events := es\<rparr>"
  "veil (d\<lparr>deliveries := ls\<rparr>) = (veil d)\<lparr>deliveries := ls\<rparr>"
  "veil (enqueueWebhookDelivery i d) = enqueueWebhookDelivery i (veil d)"
  by (simp_all add: veil_def enqueueWebhookDelivery_def)

lemma veil_test_parts [simp]:
  "test_snapshot (veil_destination r) uuid e = test_snapshot r uuid e"
  "new_delivery event (veil_destination r) q i = new_delivery event r q i"
  by (simp_all add: test_snapshot_def new_delivery_def)

lemma test_veil:
  "fst (destination_test isof now i actor polls (veil d)) = fst (destination_test isof now i actor polls d)
   \<and> veil (snd (destination_test isof now i actor polls (veil d))) = veil (snd (destination_test isof now i actor polls d))"
  by (cases "find_destination d i")
    (simp_all add: destination_test_def veil_find fresh_id_def Let_def veil_audit)


section \<open>What the test of a destination sends\<close>

text \<open>
  The request that a test makes of a webhook does not carry the test event as its body:
  the body is the description of a request, with the event as one of its members.
\<close>

theorem test_sends_a_description:
  assumes "find_destination d i = Some r"
  shows "\<exists>l e uuid. l \<in> set (deliveries (snd (destination_test isof now i actor polls d)))
    \<and> e \<in> set (events (snd (destination_test isof now i actor polls d)))
    \<and> dl_eventId l = ev_id e \<and> dl_destinationId l = de_id r \<and> dl_status l = d_pending
    \<and> rq_body (webhook_request env l e r n) = stringify (en_fmt env) (test_snapshot r uuid (ev_payload e))
    \<and> rq_body (webhook_request env l e r n) \<noteq> stringify (en_fmt env) (ev_payload e)"
proof -
  let ?uuid = "uuid_source d (uuid_next d)" and ?d' = "snd (destination_test isof now i actor polls d)"
  let ?envelope = "test_envelope isof now ?uuid"
  let ?e = "\<lparr>ev_id = uuid_source d (Suc (uuid_next d)), ev_dedupKey = None, ev_eventType = lit ''umg.test'', ev_aggregateId = None,
    ev_channelType = None, ev_accountId = None, ev_endpointId = None, ev_payload = ?envelope, ev_createdAt = now\<rparr>"
  let ?l = "new_delivery ?e r (test_snapshot r ?uuid ?envelope) (uuid_source d (Suc (Suc (uuid_next d))))"
  have s: "?l \<in> set (deliveries ?d')" "?e \<in> set (events ?d')"
    using assms by (simp_all add: destination_test_def Let_def fresh_id_def audit_log_def enqueueWebhookDelivery_def)
  have "test_snapshot r ?uuid ?envelope \<noteq> JNull" by (simp add: test_snapshot_def)
  then have b: "rq_body (webhook_request env ?l ?e r n) = stringify (en_fmt env) (test_snapshot r ?uuid ?envelope)"
    by (simp add: webhook_request_def Let_def bodyOf_def new_delivery_def test_snapshot_def)
  have "take 3 (stringify (en_fmt env) (test_snapshot r ?uuid ?envelope)) \<noteq> take 3 (stringify (en_fmt env) ?envelope)"
    by (simp add: test_snapshot_def test_envelope_def quote_str_def quote_cp_def lit_def)
  with s b show ?thesis
    by (intro exI [of _ ?l] exI [of _ ?e] exI [of _ ?uuid]) (auto simp: new_delivery_def)
qed

theorem test_sends_a_description_witness:
  "\<exists>l\<in>set (deliveries (snd (destination_test (\<lambda>t. []) 0 (lit ''d'') None [] crm_db))). dl_destinationId l = lit ''d'' \<and> dl_status l = d_pending"
proof -
  have "find_destination crm_db (lit ''d'') = Some crm" "de_id crm = lit ''d''"
    by (simp_all add: find_destination_def crm_db_def crm_def created_destination_def)
  with test_sends_a_description [of crm_db "lit ''d''" crm "\<lambda>t. []" 0 None "[]" undefined 0] show ?thesis by fastforce
qed

section \<open>A filter that is accepted and never met\<close>

lemma unknown_filter: "(k, v) \<in> set fs \<Longrightarrow> filter_actual event env k = None \<Longrightarrow> \<not> filters_match event env fs"
  by (induction fs) (auto split: option.splits if_splits)

text \<open>A rule with a filter on the severity is accepted, and matches no event.\<close>

lemma severity_rule_never_matches:
  assumes "rule_create uuid name x actor d = (Inr v, d')" and "ri_filters x = Some fs" and "(lit ''severity'', s) \<in> set fs"
  shows "\<exists>r. rules d' = rules d @ [r] \<and> \<not> ruleMatches r event env"
proof -
  let ?r = "created_rule (uuid_source d (uuid_next d)) name x"
  have "rules d' = rules d @ [?r]"
    using assms(1) by (auto simp: rule_create_def Let_def fresh_id_def syncDestinationLinks_def audit_log_def split: option.splits)
  moreover have "filter_actual event env (lit ''severity'') = None" by (simp add: filter_actual_def lit_def)
  then have "\<not> ruleMatches ?r event env"
    using unknown_filter [OF assms(3)] assms(2) by (simp add: ruleMatches_def created_rule_def or_keep_def)
  ultimately show ?thesis by blast
qed

end
