(* ===== verification/Console.thy ===== *)
theory Console
  imports AdminFacts
begin

text \<open>
  The forms of the web panel for routing rules and destinations
  (apps/web/src/pages/Routing.tsx): a form is filled from the answer of the API, changed by
  the user, and sent back as the body of a request, which the API checks
  (apps/api/src/routing-rules/routing-rules.dto.ts, apps/api/src/destinations/destinations.dto.ts)
  and carries out. The theorems say what saving a form without a change does to the rule or
  the destination: routing and delivery go on as before, but for the filters that the rule
  form does not show and for the token of a Telegram bot. \<open>JSON.parse\<close>, the text of numbers
  and the tests for UUIDs and addresses are arguments.
\<close>

section \<open>Reading an answer\<close>

definition text_of :: "json \<Rightarrow> string \<Rightarrow> ustring" where
  "text_of j k = (case own j (lit k) of Some (JStr s) \<Rightarrow> s | _ \<Rightarrow> [])"

definition whole_of :: "int \<Rightarrow> json \<Rightarrow> string \<Rightarrow> int" where
  "whole_of other j k = (case own j (lit k) of Some (JNum q) \<Rightarrow> \<lfloor>q\<rfloor> | _ \<Rightarrow> other)"

definition items_of :: "json \<Rightarrow> string \<Rightarrow> json list" where
  "items_of j k = (case own j (lit k) of Some (JArr xs) \<Rightarrow> xs | _ \<Rightarrow> [])"

definition strings_in :: "json list \<Rightarrow> ustring list" where
  "strings_in xs = List.map_filter (\<lambda>v. as_string (Some v)) xs"

text \<open>One entry per line of a text area, or between the commas of a line.\<close>

definition entries_of :: "nat \<Rightarrow> ustring \<Rightarrow> ustring list" where
  "entries_of sep s = filter (\<lambda>w. w \<noteq> []) (map js_trim (split_on sep s))"

section \<open>The form of a rule\<close>

record rule_form =
  rf_name :: ustring
  rf_priority :: int
  rf_eventTypes :: "ustring list"
  rf_channelType :: ustring
  rf_accountId :: ustring
  rf_endpointId :: ustring
  rf_fieldSelector :: ustring
  rf_destinationIds :: "ustring list"

definition emptyRuleForm :: rule_form where
  "emptyRuleForm = \<lparr>rf_name = [], rf_priority = 100, rf_eventTypes = [], rf_channelType = [], rf_accountId = [],
     rf_endpointId = [], rf_fieldSelector = [], rf_destinationIds = []\<rparr>"

definition rule_form_of :: "(rat \<Rightarrow> ustring) \<Rightarrow> json \<Rightarrow> rule_form" where
  "rule_form_of fmt r =
     (let filters = (case own r (lit ''filters'') of Some f \<Rightarrow> f | None \<Rightarrow> JNull)
      in \<lparr>rf_name = text_of r ''name'', rf_priority = whole_of 100 r ''priority'',
          rf_eventTypes = strings_in (items_of r ''eventTypes''),
          rf_channelType = text_of filters ''channelType'', rf_accountId = text_of filters ''accountId'',
          rf_endpointId = text_of filters ''endpointId'',
          rf_fieldSelector = array_join fmt [10] (items_of r ''fieldSelector''),
          rf_destinationIds = map (\<lambda>x. text_of x ''id'') (items_of r ''destinations'')\<rparr>)"

text \<open>A check box, the choice of an account (whose endpoints are others), and whether the form can be saved.\<close>

definition tick :: "bool \<Rightarrow> ustring \<Rightarrow> ustring list \<Rightarrow> ustring list" where
  "tick on x xs = (if on then xs @ [x] else filter (\<lambda>y. y \<noteq> x) xs)"

definition choose_account :: "ustring \<Rightarrow> rule_form \<Rightarrow> rule_form" where
  "choose_account i f = f\<lparr>rf_accountId := i, rf_endpointId := []\<rparr>"

definition can_save_rule :: "rule_form \<Rightarrow> bool" where
  "can_save_rule f \<longleftrightarrow> js_trim (rf_name f) \<noteq> [] \<and> rf_eventTypes f \<noteq> []"

definition chosen_filter :: "string \<Rightarrow> ustring \<Rightarrow> fields" where
  "chosen_filter k v = (if v \<noteq> [] then [(lit k, JStr v)] else [])"

definition rule_body :: "rule_form \<Rightarrow> rule_input" where
  "rule_body f = \<lparr>ri_name = Some (rf_name f), ri_enabled = None, ri_priority = Some (rf_priority f),
     ri_eventTypes = Some (rf_eventTypes f),
     ri_filters = Some (chosen_filter ''channelType'' (rf_channelType f) @ chosen_filter ''accountId'' (rf_accountId f)
       @ chosen_filter ''endpointId'' (rf_endpointId f)),
     ri_selector = Some (entries_of 10 (rf_fieldSelector f)), ri_destinationIds = Some (rf_destinationIds f)\<rparr>"

text \<open>What the API makes of a body: the checks of the members' shapes, then the operation.\<close>

datatype console_error = Disabled | Malformed | BadTemplate | Refused admin_error

definition rule_dto_ok :: "(ustring \<Rightarrow> bool) \<Rightarrow> rule_input \<Rightarrow> bool" where
  "rule_dto_ok isUUID x \<longleftrightarrow> ri_name x \<noteq> Some []
     \<and> (case ri_destinationIds x of Some ids \<Rightarrow> list_all isUUID ids | None \<Rightarrow> True)"

definition answer_of :: "(admin_error + json) \<times> db \<Rightarrow> (console_error + json) \<times> db" where
  "answer_of p = (case p of (Inl e, d) \<Rightarrow> (Inl (Refused e), d) | (Inr v, d) \<Rightarrow> (Inr v, d))"

definition patch_rule ::
  "(ustring \<Rightarrow> bool) \<Rightarrow> (ustring \<Rightarrow> bool) \<Rightarrow> ustring \<Rightarrow> rule_input \<Rightarrow> ustring option \<Rightarrow> db \<Rightarrow> (console_error + json) \<times> db" where
  "patch_rule isUUID uuid i x actorId d =
     (if rule_dto_ok isUUID x then answer_of (rule_update uuid i x actorId d) else (Inl Malformed, d))"

definition post_rule ::
  "(ustring \<Rightarrow> bool) \<Rightarrow> (ustring \<Rightarrow> bool) \<Rightarrow> rule_input \<Rightarrow> ustring option \<Rightarrow> db \<Rightarrow> (console_error + json) \<times> db" where
  "post_rule isUUID uuid x actorId d =
     (if rule_dto_ok isUUID x \<and> ri_name x \<noteq> None \<and> ri_eventTypes x \<noteq> None
      then answer_of (rule_create uuid (the (ri_name x)) x actorId d) else (Inl Malformed, d))"

text \<open>Pressing the button, which is disabled while the form is incomplete. The panel never names an actor.\<close>

definition save_rule ::
  "(ustring \<Rightarrow> bool) \<Rightarrow> (ustring \<Rightarrow> bool) \<Rightarrow> ustring option \<Rightarrow> rule_form \<Rightarrow> db \<Rightarrow> (console_error + json) \<times> db" where
  "save_rule isUUID uuid editingId f d =
     (if \<not> can_save_rule f then (Inl Disabled, d)
      else case editingId of Some i \<Rightarrow> patch_rule isUUID uuid i (rule_body f) None d
      | None \<Rightarrow> post_rule isUUID uuid (rule_body f) None d)"

definition toggle_rule :: "(ustring \<Rightarrow> bool) \<Rightarrow> (ustring \<Rightarrow> bool) \<Rightarrow> ustring \<Rightarrow> bool \<Rightarrow> db \<Rightarrow> (console_error + json) \<times> db" where
  "toggle_rule isUUID uuid i on d = patch_rule isUUID uuid i
     \<lparr>ri_name = None, ri_enabled = Some (\<not> on), ri_priority = None, ri_eventTypes = None, ri_filters = None,
      ri_selector = None, ri_destinationIds = None\<rparr> None d"

section \<open>The form of a destination\<close>

record dest_form =
  df_id :: "ustring option"
  df_name :: ustring
  df_type :: destination_type
  df_enabled :: bool
  df_url :: ustring
  df_secret :: ustring
  df_recipients :: ustring
  df_botToken :: ustring
  df_chatId :: ustring
  df_timeoutMs :: int
  df_fieldSelector :: ustring
  df_templateJson :: ustring

definition emptyDestForm :: dest_form where
  "emptyDestForm = \<lparr>df_id = None, df_name = [], df_type = webhook, df_enabled = True, df_url = [], df_secret = [],
     df_recipients = [], df_botToken = [], df_chatId = [], df_timeoutMs = 10000, df_fieldSelector = [], df_templateJson = []\<rparr>"

definition destination_type_of :: "ustring \<Rightarrow> destination_type" where
  "destination_type_of s = (if s = lit ''email'' then email else if s = lit ''telegram'' then telegram
     else if s = lit ''internal_log'' then internal_log else webhook)"

definition destToForm :: "(rat \<Rightarrow> ustring) \<Rightarrow> json \<Rightarrow> dest_form" where
  "destToForm fmt j =
     (let cfg = (case own j (lit ''configJson'') of Some c \<Rightarrow> c | None \<Rightarrow> JObj [])
      in \<lparr>df_id = Some (text_of j ''id''), df_name = text_of j ''name'', df_type = destination_type_of (text_of j ''type''),
          df_enabled = (own j (lit ''enabled'') = Some (JBool True)), df_url = text_of j ''url'', df_secret = [],
          df_recipients = array_join fmt (lit '', '') (items_of cfg ''recipients''), df_botToken = [],
          df_chatId = text_of cfg ''chatId'', df_timeoutMs = whole_of 10000 j ''timeoutMs'',
          df_fieldSelector = array_join fmt [10] (items_of j ''fieldSelector''),
          df_templateJson = (case own j (lit ''templateJson'') of Some t \<Rightarrow> if truthy t then pretty fmt t 0 else [] | None \<Rightarrow> [])\<rparr>)"

definition can_save_destination :: "dest_form \<Rightarrow> bool" where
  "can_save_destination f \<longleftrightarrow> js_trim (df_name f) \<noteq> []"

definition dest_config :: "dest_form \<Rightarrow> json" where
  "dest_config f = JObj (case df_type f of
       email \<Rightarrow> [(lit ''recipients'', JArr (map JStr (entries_of 44 (df_recipients f))))]
     | telegram \<Rightarrow> (if df_botToken f \<noteq> [] then [(lit ''botToken'', JStr (df_botToken f))] else [])
         @ (if df_chatId f \<noteq> [] then [(lit ''chatId'', JStr (df_chatId f))] else [])
     | _ \<Rightarrow> [])"

text \<open>The template of the body: absent, \<open>null\<close> or a value; \<open>None\<close> is a syntax error.\<close>

definition form_template :: "(ustring \<Rightarrow> json option) \<Rightarrow> dest_form \<Rightarrow> json option option" where
  "form_template parse f =
     (if js_trim (df_templateJson f) \<noteq> [] then map_option Some (parse (df_templateJson f))
      else if df_id f \<noteq> None then Some (Some JNull) else Some None)"

definition dest_request :: "(ustring \<Rightarrow> json option) \<Rightarrow> dest_form \<Rightarrow> destination_dto option" where
  "dest_request parse f = map_option (\<lambda>template.
     \<lparr>dd_name = Some (df_name f), dd_type = Some (df_type f), dd_enabled = Some (df_enabled f),
      dd_url = Some (if df_type f = webhook \<and> df_url f \<noteq> [] then Some (df_url f) else None),
      dd_secret = (if df_secret f \<noteq> [] then Some (df_secret f) else None), dd_config = Some (dest_config f),
      dd_selector = Some (entries_of 10 (df_fieldSelector f)), dd_template = template, dd_timeout = Some (df_timeoutMs f)\<rparr>)
     (form_template parse f)"

definition destination_dto_ok :: "(ustring \<Rightarrow> bool) \<Rightarrow> destination_dto \<Rightarrow> bool" where
  "destination_dto_ok isUrl dto \<longleftrightarrow> dd_name dto \<noteq> Some []
     \<and> (case dd_url dto of Some (Some u) \<Rightarrow> isUrl u | _ \<Rightarrow> True)
     \<and> (case dd_config dto of Some c \<Rightarrow> is_object c \<and> \<not> is_array c | None \<Rightarrow> True)
     \<and> (case dd_template dto of Some t \<Rightarrow> t = JNull \<or> is_object t \<and> \<not> is_array t | None \<Rightarrow> True)
     \<and> (case dd_timeout dto of Some t \<Rightarrow> 1 \<le> t | None \<Rightarrow> True)"

definition patch_destination ::
  "(ustring \<Rightarrow> bool) \<Rightarrow> bool \<Rightarrow> ustring \<Rightarrow> destination_dto \<Rightarrow> ustring option \<Rightarrow> db \<Rightarrow> (console_error + json) \<times> db" where
  "patch_destination isUrl nulls i dto actorId d =
     (if destination_dto_ok isUrl dto then answer_of (destination_update nulls i dto actorId d) else (Inl Malformed, d))"

definition post_destination ::
  "(ustring \<Rightarrow> bool) \<Rightarrow> bool \<Rightarrow> destination_dto \<Rightarrow> ustring option \<Rightarrow> db \<Rightarrow> (console_error + json) \<times> db" where
  "post_destination isUrl nulls dto actorId d =
     (if destination_dto_ok isUrl dto \<and> dd_name dto \<noteq> None \<and> dd_type dto \<noteq> None
      then answer_of (destination_create nulls (the (dd_name dto)) (the (dd_type dto)) dto actorId d) else (Inl Malformed, d))"

definition save_destination ::
  "(ustring \<Rightarrow> bool) \<Rightarrow> bool \<Rightarrow> (ustring \<Rightarrow> json option) \<Rightarrow> dest_form \<Rightarrow> db \<Rightarrow> (console_error + json) \<times> db" where
  "save_destination isUrl nulls parse f d =
     (if \<not> can_save_destination f then (Inl Disabled, d)
      else case dest_request parse f of
        None \<Rightarrow> (Inl BadTemplate, d)
      | Some dto \<Rightarrow>
          (case df_id f of Some i \<Rightarrow> patch_destination isUrl nulls i dto None d
           | None \<Rightarrow> post_destination isUrl nulls dto None d))"

definition toggle_destination :: "(ustring \<Rightarrow> bool) \<Rightarrow> bool \<Rightarrow> ustring \<Rightarrow> bool \<Rightarrow> db \<Rightarrow> (console_error + json) \<times> db" where
  "toggle_destination isUrl nulls i on d = patch_destination isUrl nulls i
     \<lparr>dd_name = None, dd_type = None, dd_enabled = Some (\<not> on), dd_url = None, dd_secret = None, dd_config = None,
      dd_selector = None, dd_template = None, dd_timeout = None\<rparr> None d"

text \<open>The line under the name of a destination.\<close>

definition dest_summary :: "(rat \<Rightarrow> ustring) \<Rightarrow> json \<Rightarrow> ustring" where
  "dest_summary fmt j =
     (let cfg = (case own j (lit ''configJson'') of Some c \<Rightarrow> c | None \<Rightarrow> JObj []); ty = destination_type_of (text_of j ''type'')
      in if text_of j ''url'' \<noteq> [] then text_of j ''url''
         else (case (ty, own cfg (lit ''recipients''), own cfg (lit ''chatId'')) of
                 (email, Some (JArr xs), _) \<Rightarrow> array_join fmt (lit '', '') xs
               | (telegram, _, Some (JStr c)) \<Rightarrow> lit ''chatId: '' @ c
               | (internal_log, _, _) \<Rightarrow> [1047, 1072, 1087, 1080, 1089] @ lit '' '' @ [1091] @
      lit '' '' @ [1074, 1085, 1091, 1090, 1088, 1110, 1096, 1085, 1110, 1081] @ lit '' '' @ [1083, 1086, 1075]
               | _ \<Rightarrow> [8212]))"

section \<open>Texts of several entries\<close>

definition plain_words :: "nat \<Rightarrow> ustring list \<Rightarrow> bool" where
  "plain_words sep ws \<longleftrightarrow> list_all (\<lambda>w. w \<noteq> [] \<and> js_trim w = w \<and> sep \<notin> set w) ws"

lemma js_trim_space: "js_trim (32 # w) = js_trim w"
  by (simp add: js_trim_def js_space_def)

lemma entries_of_first: "sep \<notin> set w \<Longrightarrow> entries_of sep (w @ sep # s) = (if js_trim w = [] then [] else [js_trim w]) @ entries_of sep s"
  by (simp add: entries_of_def split_on_first)

lemma entries_of_space: "entries_of sep (32 # s) = entries_of sep s" if "sep \<noteq> 32"
  using that by (cases "split_on sep s") (auto simp: entries_of_def js_trim_space)

lemma entries_of_whole: "sep \<notin> set w \<Longrightarrow> w \<noteq> [] \<Longrightarrow> js_trim w = w \<Longrightarrow> entries_of sep w = [w]"
  by (simp add: entries_of_def split_on_no_sep)

lemma entries_of_empty [simp]: "entries_of sep [] = []"
  by (simp add: entries_of_def js_trim_def)

lemma entries_of_lines: "plain_words sep ws \<Longrightarrow> entries_of sep (join_with [sep] ws) = ws"
  by (induction "[sep]" ws rule: join_with.induct) (simp_all add: plain_words_def entries_of_whole entries_of_first)

lemma entries_of_list: "plain_words sep ws \<Longrightarrow> sep \<noteq> 32 \<Longrightarrow> entries_of sep (join_with [sep, 32] ws) = ws"
  by (induction "[sep, 32]" ws rule: join_with.induct)
    (simp_all add: plain_words_def entries_of_whole entries_of_first entries_of_space)

lemma array_join_strings: "array_join fmt sep (map JStr xs) = join_with sep xs"
  by (simp add: array_join_def comp_def)

lemma strings_in_map [simp]: "strings_in (map JStr xs) = xs"
  by (induction xs) (simp_all add: strings_in_def map_filter_simps)

section \<open>The rule form shows the rule\<close>

lemma rule_answer [simp]:
  "own (serialize_rule r d) (lit ''name'') = Some (JStr (ru_name r))"
  "own (serialize_rule r d) (lit ''priority'') = Some (JNum (of_int (ru_priority r)))"
  "own (serialize_rule r d) (lit ''eventTypes'') = Some (ru_eventTypes r)"
  "own (serialize_rule r d) (lit ''filters'') = Some (ru_filters r)"
  "own (serialize_rule r d) (lit ''fieldSelector'') = Some (ru_fieldSelector r)"
  "own (serialize_rule r d) (lit ''destinations'') = Some (JArr (map destination_summary (rule_destinations d r)))"
  by (simp_all add: serialize_rule_def lit_def)

lemma summary_id [simp]: "text_of (destination_summary r) ''id'' = de_id r"
  by (simp add: destination_summary_def text_of_def lit_def)

lemma rule_form_shows:
  assumes "ru_eventTypes r = string_list ts" and "ru_fieldSelector r = string_list sel"
  shows "rule_form_of fmt (serialize_rule r d) = \<lparr>rf_name = ru_name r, rf_priority = ru_priority r, rf_eventTypes = ts,
     rf_channelType = text_of (ru_filters r) ''channelType'', rf_accountId = text_of (ru_filters r) ''accountId'',
     rf_endpointId = text_of (ru_filters r) ''endpointId'', rf_fieldSelector = join_with [10] sel,
     rf_destinationIds = map de_id (rule_destinations d r)\<rparr>"
  using assms
  by (simp add: rule_form_of_def Let_def text_of_def [of "serialize_rule r d"] whole_of_def items_of_def string_list_def
      array_join_strings comp_def)

text \<open>The rule as it is saved.\<close>

definition resaved :: "rule_row \<Rightarrow> rule_row" where
  "resaved r = r\<lparr>ru_filters := JObj (chosen_filter ''channelType'' (text_of (ru_filters r) ''channelType'')
     @ chosen_filter ''accountId'' (text_of (ru_filters r) ''accountId'')
     @ chosen_filter ''endpointId'' (text_of (ru_filters r) ''endpointId''))\<rparr>"

lemma resaved_fields [simp]:
  "ru_id (resaved r) = ru_id r" "ru_enabled (resaved r) = ru_enabled r" "ru_priority (resaved r) = ru_priority r"
  "ru_eventTypes (resaved r) = ru_eventTypes r" "ru_fieldSelector (resaved r) = ru_fieldSelector r" "ru_name (resaved r) = ru_name r"
  by (simp_all add: resaved_def)

lemma change_rule_resaved:
  assumes "ru_eventTypes r = string_list ts" and "ru_fieldSelector r = string_list sel" and "plain_words 10 sel"
  shows "change_rule (rule_body (rule_form_of fmt (serialize_rule r d))) r = resaved r"
  using assms unfolding rule_form_shows [OF assms(1,2)]
  by (simp add: change_rule_def rule_body_def or_keep_def resaved_def entries_of_lines)

lemma saved_edit:
  assumes "config_ok d" and "find_rule d i = Some r" and "ru_eventTypes r = string_list ts"
    and "ru_fieldSelector r = string_list sel" and "plain_words 10 sel"
    and "save_rule isUUID uuid (Some i) (rule_form_of fmt (serialize_rule r d)) d = (Inr v, d')"
  shows "\<exists>A. d' = d\<lparr>rules := update_where (\<lambda>q. ru_id q = i) resaved (rules d),
    rule_links := delete_where (\<lambda>l. fst l = i) (rule_links d) @ map (Pair i) (remdups_first (map de_id (rule_destinations d r))),
    audit_logs := A\<rparr>"
proof -
  let ?x = "rule_body (rule_form_of fmt (serialize_rule r d))"
  have ids: "ri_destinationIds ?x = Some (map de_id (rule_destinations d r))"
    unfolding rule_form_shows [OF assms(3,4)] by (simp add: rule_body_def)
  have "q = r" if "q \<in> set (rules d)" "ru_id q = i" for q
  proof -
    have "r \<in> set (rules d)" "ru_id r = i" using assms(2) find_SomeD [of "\<lambda>r. ru_id r = i"] by (auto simp: find_rule_def)
    moreover have "inj_on ru_id (set (rules d))" using assms(1) by (simp add: config_ok_def distinct_map)
    ultimately show ?thesis using that by (metis inj_onD)
  qed
  then have same: "update_where (\<lambda>q. ru_id q = i) (change_rule ?x) (rules d) = update_where (\<lambda>q. ru_id q = i) resaved (rules d)"
    using change_rule_resaved [OF assms(3-5)] unfolding update_where_def by (intro map_cong) metis+
  from assms(6) ids same assms(2) show ?thesis
    by (auto simp: save_rule_def patch_rule_def answer_of_def rule_update_def Let_def syncDestinationLinks_def audit_log_def
        split: if_splits option.splits sum.splits prod.splits)
qed

section \<open>What the saved rule matches\<close>

definition visible :: "ustring \<Rightarrow> bool" where
  "visible k \<longleftrightarrow> k = lit ''channelType'' \<or> k = lit ''accountId'' \<or> k = lit ''endpointId''"

definition readable_filters :: "rule_row \<Rightarrow> fields \<Rightarrow> bool" where
  "readable_filters r fs \<longleftrightarrow> ru_filters r = JObj fs \<and> distinct (map fst fs)
     \<and> (\<forall>(k, v)\<in>set fs. visible k \<longrightarrow> (\<exists>s. v = JStr s \<and> s \<noteq> []))"

lemma filters_match_all:
  "filters_match e env fs \<longleftrightarrow> (\<forall>(k, v)\<in>set fs. \<exists>a. filter_actual e env k = Some a \<and> strict_eq a v)"
  by (induction e env fs rule: filters_match.induct) (auto split: option.splits)

lemma chosen_filter_set:
  assumes "readable_filters r fs" and "visible (lit k)"
  shows "set (chosen_filter k (text_of (ru_filters r) k)) = {p \<in> set fs. fst p = lit k}"
proof -
  have *: "map_of fs (lit k) = Some v \<longleftrightarrow> (lit k, v) \<in> set fs" for v
    using assms(1) by (simp add: readable_filters_def)
  show ?thesis
  proof (cases "map_of fs (lit k)")
    case None
    then have "\<forall>p\<in>set fs. fst p \<noteq> lit k" by (metis map_of_eq_None_iff image_eqI)
    with None assms(1) show ?thesis by (auto simp: readable_filters_def chosen_filter_def text_of_def)
  next
    case (Some v)
    with * have in_fs: "(lit k, v) \<in> set fs" by blast
    with assms obtain s where v: "v = JStr s" "s \<noteq> []" by (auto simp: readable_filters_def)
    have "b = v" if "(lit k, b) \<in> set fs" for b using that Some * [of b] by simp
    then have "{p \<in> set fs. fst p = lit k} \<subseteq> {(lit k, v)}" by (simp add: subset_iff split_paired_all)
    with in_fs have "{p \<in> set fs. fst p = lit k} = {(lit k, v)}" by (simp add: set_eq_subset)
    with Some v assms(1) show ?thesis by (simp add: readable_filters_def chosen_filter_def text_of_def)
  qed
qed

lemma resaved_matches:
  assumes "readable_filters r fs"
  shows "ruleMatches (resaved r) e env \<longleftrightarrow>
    ev_eventType e \<in> set (toStringArray (ru_eventTypes r)) \<and> filters_match e env (filter (\<lambda>p. visible (fst p)) fs)"
proof -
  let ?c = "chosen_filter ''channelType'' (text_of (ru_filters r) ''channelType'')
     @ chosen_filter ''accountId'' (text_of (ru_filters r) ''accountId'')
     @ chosen_filter ''endpointId'' (text_of (ru_filters r) ''endpointId'')"
  have "set ?c = set (filter (\<lambda>p. visible (fst p)) fs)"
    using assms by (auto simp: chosen_filter_set visible_def)
  then have "filters_match e env ?c = filters_match e env (filter (\<lambda>p. visible (fst p)) fs)"
    by (simp add: filters_match_all)
  then show ?thesis by (simp add: ruleMatches_def resaved_def)
qed

section \<open>Routing with rules that are alike\<close>

lemma map_filter_delete: "(\<And>x. P x \<Longrightarrow> f x = None) \<Longrightarrow> List.map_filter f (delete_where P xs) = List.map_filter f xs"
  by (induction xs) (simp_all add: delete_where_def map_filter_simps split: option.split)

lemma map_filter_append: "List.map_filter f (xs @ ys) = List.map_filter f xs @ List.map_filter f ys"
  by (simp add: List.map_filter_def)

lemma map_filter_none: "(\<And>x. x \<in> set xs \<Longrightarrow> f x = None) \<Longrightarrow> List.map_filter f xs = []"
  by (simp add: List.map_filter_def filter_empty_conv)

definition linked_to :: "destination_row list \<Rightarrow> ustring \<Rightarrow> ustring \<times> ustring \<Rightarrow> destination_row option" where
  "linked_to D i l = (if fst l = i then find (\<lambda>x. de_id x = snd l) D else None)"

lemma rule_destinations_linked: "rule_destinations d r = List.map_filter (linked_to (destinations d) (ru_id r)) (rule_links d)"
  by (simp add: rule_destinations_def linked_to_def [abs_def] case_prod_beta')

lemma linked_ids:
  "y \<in> set (List.map_filter (linked_to D i) ls) \<Longrightarrow> (i, de_id y) \<in> set ls \<and> find (\<lambda>x. de_id x = de_id y) D = Some y"
proof (induction ls)
  case (Cons l ls)
  show ?case
  proof (cases "linked_to D i l")
    case None
    with Cons show ?thesis by (simp add: map_filter_simps)
  next
    case (Some z)
    then have l: "fst l = i" "find (\<lambda>x. de_id x = snd l) D = Some z" by (simp_all add: linked_to_def split: if_splits)
    then have "de_id z = snd l" using find_SomeD [of "\<lambda>x. de_id x = snd l"] by blast
    with l have z: "l = (i, de_id z)" "find (\<lambda>x. de_id x = de_id z) D = Some z" by (auto simp: prod_eq_iff)
    from Cons.prems Some consider "y = z" | "y \<in> set (List.map_filter (linked_to D i) ls)" by (auto simp: map_filter_simps)
    then show ?thesis
    proof cases
      case 1
      with z show ?thesis by simp
    next
      case 2
      from Cons.IH [OF this] show ?thesis by simp
    qed
  qed
qed (simp add: map_filter_simps)

lemma linked_distinct: "distinct ls \<Longrightarrow> distinct (map de_id (List.map_filter (linked_to D i) ls))"
proof (induction ls)
  case (Cons l ls)
  show ?case
  proof (cases "linked_to D i l")
    case (Some z)
    then have "fst l = i" "find (\<lambda>x. de_id x = snd l) D = Some z" by (simp_all add: linked_to_def split: if_splits)
    moreover from this have "de_id z = snd l" using find_SomeD [of "\<lambda>x. de_id x = snd l"] by blast
    ultimately have "l = (i, de_id z)" by (simp add: prod_eq_iff)
    with Cons.prems have "(i, de_id z) \<notin> set ls" by simp
    then have "de_id z \<notin> de_id ` set (List.map_filter (linked_to D i) ls)" by (metis (no_types) imageE linked_ids)
    with Some Cons show ?thesis by (simp add: map_filter_simps)
  qed (use Cons in \<open>simp add: map_filter_simps\<close>)
qed (simp add: map_filter_simps)

lemma linked_again:
  assumes "\<And>y. y \<in> set ys \<Longrightarrow> find (\<lambda>x. de_id x = de_id y) D = Some y"
  shows "List.map_filter (linked_to D i) (map (Pair i) (map de_id ys)) = ys"
  using assms by (induction ys) (simp_all add: map_filter_simps linked_to_def)

text \<open>The links of the saved rule are made anew, in the order they had.\<close>

lemma relinked_destinations:
  assumes "config_ok d" and "destinations d' = destinations d"
    and "rule_links d' = delete_where (\<lambda>l. fst l = ru_id r) (rule_links d)
      @ map (Pair (ru_id r)) (remdups_first (map de_id (rule_destinations d r)))"
  shows "rule_destinations d' q = rule_destinations d q"
proof (cases "ru_id q = ru_id r")
  case False
  then have "List.map_filter (linked_to (destinations d) (ru_id q)) (delete_where (\<lambda>l. fst l = ru_id r) (rule_links d))
      = List.map_filter (linked_to (destinations d) (ru_id q)) (rule_links d)"
    by (intro map_filter_delete) (simp add: linked_to_def)
  moreover have "List.map_filter (linked_to (destinations d) (ru_id q)) (map (Pair (ru_id r)) ids) = []" for ids
    using False by (intro map_filter_none) (auto simp: linked_to_def)
  ultimately show ?thesis by (simp add: rule_destinations_linked assms(2,3) map_filter_append)
next
  case True
  let ?f = "linked_to (destinations d) (ru_id r)" and ?ys = "rule_destinations d r"
  have "distinct (map de_id ?ys)" unfolding rule_destinations_linked
    by (rule linked_distinct) (use assms(1) in \<open>simp add: config_ok_def\<close>)
  then have "remdups_first (map de_id ?ys) = map de_id ?ys" by (simp add: remdups_first_def distinct_remdups_id)
  moreover have "List.map_filter ?f (delete_where (\<lambda>l. fst l = ru_id r) (rule_links d)) = []"
    by (intro map_filter_none) (auto simp: delete_where_def linked_to_def)
  moreover have "List.map_filter ?f (map (Pair (ru_id r)) (map de_id ?ys)) = ?ys"
  proof (rule linked_again)
    fix y assume "y \<in> set ?ys"
    then show "find (\<lambda>x. de_id x = de_id y) (destinations d) = Some y"
      unfolding rule_destinations_linked using linked_ids by blast
  qed
  ultimately show ?thesis
    unfolding rule_destinations_linked [of d' q] assms(2,3) True by (simp only: map_filter_append append_Nil True rule_destinations_linked)
qed

definition alike :: "rule_row \<Rightarrow> rule_row \<Rightarrow> bool" where
  "alike a b \<longleftrightarrow> (\<forall>e env. ruleMatches a e env = ruleMatches b e env) \<and> ru_fieldSelector a = ru_fieldSelector b"

text \<open>The tables that routing reads are the same, but for rules and links.\<close>

definition same_rest :: "db \<Rightarrow> db \<Rightarrow> bool" where
  "same_rest d d' \<longleftrightarrow> deliveries d' = deliveries d \<and> destinations d' = destinations d \<and> uuid_source d' = uuid_source d
     \<and> uuid_next d' = uuid_next d"

lemma same_create: "same_rest d d' \<Longrightarrow> same_rest (create_delivery e dest b d) (create_delivery e dest b d')"
  by (simp add: same_rest_def create_delivery_def fresh_id_def)

lemma create_links [simp]: "rule_links (create_delivery e dest b d) = rule_links d"
  by (simp add: create_delivery_def fresh_id_def)

lemma same_dispatch_dests:
  "same_rest d d' \<Longrightarrow> same_rest (snd (dispatch_dests fmt e sh ds rp env d)) (snd (dispatch_dests fmt e sh ds rp env d'))
     \<and> fst (dispatch_dests fmt e sh ds rp env d) = fst (dispatch_dests fmt e sh ds rp env d')"
  by (induction ds arbitrary: rp env d d') (simp_all add: Let_def same_create)

lemma dests_after: "rule_destinations (snd (dispatch_dests fmt e sh ds rp env d)) q = rule_destinations d q"
  using dispatch_dests_dispatched dispatched_tables by blast

lemma same_dispatch_rules:
  assumes "list_all2 alike rs rs'" and "same_rest d d'"
    and "\<forall>(a, b)\<in>set (zip rs rs'). rule_destinations d a = rule_destinations d' b"
  shows "same_rest (dispatch_rules fmt e rs env d) (dispatch_rules fmt e rs' env d')"
  using assms
proof (induction rs rs' arbitrary: env d d' rule: list_all2_induct)
  case Nil
  then show ?case by simp
next
  case (Cons a as b bs)
  have m: "ruleMatches a e (JObj env) = ruleMatches b e (JObj env)" and s: "ru_fieldSelector a = ru_fieldSelector b"
    using Cons.hyps(1) by (simp_all add: alike_def)
  have ds: "rule_destinations d a = rule_destinations d' b" using Cons.prems(2) by simp
  show ?case
  proof (cases "ruleMatches a e (JObj env)")
    case False
    with m Cons show ?thesis by simp
  next
    case True
    let ?sel = "toStringArray (ru_fieldSelector a)"
    let ?sh = "if ?sel \<noteq> [] then shared_at (pj_shared (projectFields env ?sel)) else (\<lambda>ps. True)"
    let ?rp = "if ?sel \<noteq> [] then pj_out (projectFields env ?sel) else env"
    let ?e1 = "if ?sel \<noteq> [] then pj_source (projectFields env ?sel) else env"
    have step: "dispatch_rules fmt e (c # R) env D = dispatch_rules fmt e R (fst (dispatch_dests fmt e ?sh (rule_destinations D c) ?rp ?e1 D))
          (snd (dispatch_dests fmt e ?sh (rule_destinations D c) ?rp ?e1 D))"
      if "ru_fieldSelector c = ru_fieldSelector a" "ruleMatches c e (JObj env)" for c R D
      using that by (simp only: dispatch_rules.simps Let_def case_prod_beta' if_False not_True_eq_False)
    let ?o = "dispatch_dests fmt e ?sh (rule_destinations d a) ?rp ?e1 d" and ?o' = "dispatch_dests fmt e ?sh (rule_destinations d a) ?rp ?e1 d'"
    have "same_rest (snd ?o) (snd ?o')" "fst ?o = fst ?o'" using same_dispatch_dests [OF Cons.prems(1)] by blast+
    moreover have "\<forall>(x, y)\<in>set (zip as bs). rule_destinations (snd ?o) x = rule_destinations (snd ?o') y"
      using Cons.prems(2) unfolding dests_after by auto
    ultimately show ?thesis
      using Cons.IH step [of a as d] step [of b bs d'] True m s ds by simp
  qed
qed

lemma sort_key_map: "(\<And>x. k (f x) = k x) \<Longrightarrow> sort_key k (map f xs) = map f (sort_key k xs)"
proof -
  assume k: "\<And>x. k (f x) = k x"
  have "insort_key k (f x) (map f ys) = map f (insort_key k x ys)" for x ys by (induction ys) (simp_all add: k)
  then show ?thesis by (induction xs) simp_all
qed

lemma list_all2_mapped: "(\<And>x. x \<in> set xs \<Longrightarrow> P x (f x)) \<Longrightarrow> list_all2 P xs (map f xs)"
  by (induction xs) simp_all

lemma routing_alike:
  assumes "same_rest d d'" and "rules d' = map f (rules d)"
    and "\<And>r. ru_priority (f r) = ru_priority r" and "\<And>r. ru_enabled (f r) = ru_enabled r"
    and "\<And>r. r \<in> set (rules d) \<Longrightarrow> alike r (f r) \<and> rule_destinations d r = rule_destinations d' (f r)"
  shows "deliveries (matchAndDispatch fmt e d') = deliveries (matchAndDispatch fmt e d)"
proof -
  let ?rs = "sort_key ru_priority (filter ru_enabled (rules d))"
  have rs: "sort_key ru_priority (filter ru_enabled (rules d')) = map f ?rs"
    by (simp add: assms(2,4) filter_map comp_def sort_key_map assms(3))
  have known: "alike r (f r)" "rule_destinations d r = rule_destinations d' (f r)" if "r \<in> set ?rs" for r
    using assms(5) [of r] that by auto
  have "list_all2 alike ?rs (map f ?rs)" by (rule list_all2_mapped) (rule known(1))
  moreover have "\<forall>(a, b)\<in>set (zip ?rs (map f ?rs)). rule_destinations d a = rule_destinations d' b"
    using known(2) by (simp only: zip_map2 zip_same_conv_map) auto
  ultimately show ?thesis
    using same_dispatch_rules [OF _ assms(1)] unfolding matchAndDispatch_def rs by (simp add: same_rest_def)
qed

section \<open>Saving a rule unchanged\<close>

lemma find_rule_only:
  assumes "config_ok d" and "find_rule d i = Some r" and "q \<in> set (rules d)" and "ru_id q = i" shows "q = r"
proof -
  have "r \<in> set (rules d)" "ru_id r = i" using assms(2) find_SomeD [of "\<lambda>r. ru_id r = i"] by (auto simp: find_rule_def)
  moreover have "inj_on ru_id (set (rules d))" using assms(1) by (simp add: config_ok_def distinct_map)
  ultimately show ?thesis using assms(3,4) by (metis inj_onD)
qed

lemma rule_matches_filters:
  "ru_filters r = JObj fs \<Longrightarrow> ruleMatches r e env \<longleftrightarrow> ev_eventType e \<in> set (toStringArray (ru_eventTypes r)) \<and> filters_match e env fs"
  by (simp add: ruleMatches_def)

text \<open>
  C31. A rule that is opened in the panel and saved unchanged routes as before: when its
  filters are among those the form shows (channel, account and endpoint), every event gets
  the same deliveries from the rules after the save as from the rules before it.
\<close>

theorem unedited_rule_routes_alike:
  assumes "config_ok d" and "find_rule d i = Some r" and "ru_eventTypes r = string_list ts"
    and "ru_fieldSelector r = string_list sel" and "plain_words 10 sel"
    and "readable_filters r fs" and "\<forall>p\<in>set fs. visible (fst p)"
    and "save_rule isUUID uuid (Some i) (rule_form_of fmt (serialize_rule r d)) d = (Inr v, d')"
  shows "deliveries (matchAndDispatch fmt' e d') = deliveries (matchAndDispatch fmt' e d)"
proof -
  obtain A where d': "d' = d\<lparr>rules := update_where (\<lambda>q. ru_id q = i) resaved (rules d),
      rule_links := delete_where (\<lambda>l. fst l = i) (rule_links d) @ map (Pair i) (remdups_first (map de_id (rule_destinations d r))),
      audit_logs := A\<rparr>"
    using saved_edit [OF assms(1-5,8)] by blast
  have i: "ru_id r = i" using assms(2) find_SomeD [of "\<lambda>r. ru_id r = i"] by (auto simp: find_rule_def)
  have dests: "rule_destinations d' q = rule_destinations d q" for q
    using relinked_destinations [OF assms(1), of d' r] by (simp add: d' i)
  have "filter (\<lambda>p. visible (fst p)) fs = fs" using assms(7) by simp
  then have same: "ruleMatches (resaved r) ev env = ruleMatches r ev env" for ev env
    using resaved_matches [OF assms(6)] rule_matches_filters [of r fs] assms(6) by (simp add: readable_filters_def)
  show ?thesis
  proof (rule routing_alike [where f = "\<lambda>q. if ru_id q = i then resaved q else q"])
    show "same_rest d d'" by (simp add: d' same_rest_def)
    show "rules d' = map (\<lambda>q. if ru_id q = i then resaved q else q) (rules d)" by (simp add: d' update_where_def)
    fix q assume q: "q \<in> set (rules d)"
    have "rule_destinations d' (resaved q) = rule_destinations d' q" by (simp add: rule_destinations_linked)
    moreover have "alike q (resaved q)" if "ru_id q = i"
      using find_rule_only [OF assms(1,2) q that] same by (simp add: alike_def)
    ultimately show "alike q (if ru_id q = i then resaved q else q)
        \<and> rule_destinations d q = rule_destinations d' (if ru_id q = i then resaved q else q)"
      using dests by (simp add: alike_def)
  qed simp_all
qed

definition sample_rule :: "fields \<Rightarrow> rule_row" where
  "sample_rule fs = created_rule (lit ''r'') (lit ''all'')
     \<lparr>ri_name = None, ri_enabled = None, ri_priority = None, ri_eventTypes = Some [lit ''message.received''],
      ri_filters = Some fs, ri_selector = Some [lit ''data''], ri_destinationIds = None\<rparr>"

definition ruled_db :: "fields \<Rightarrow> db" where
  "ruled_db fs = crm_db\<lparr>rules := [sample_rule fs], rule_links := [(lit ''r'', lit ''d'')]\<rparr>"

lemma ruled_db_ok: "config_ok (ruled_db fs)"
  by (auto simp: config_ok_def ruled_db_def sample_rule_def created_rule_def crm_db_def crm_def created_destination_def
      empty_db_def inj_def tick_ids_def lit_def)

lemma sample_rule_found: "find_rule (ruled_db fs) (lit ''r'') = Some (sample_rule fs)"
  by (simp add: find_rule_def ruled_db_def sample_rule_def created_rule_def)

lemma sample_rule_columns:
  "ru_eventTypes (sample_rule fs) = string_list [lit ''message.received'']"
  "ru_fieldSelector (sample_rule fs) = string_list [lit ''data'']" "ru_filters (sample_rule fs) = JObj fs"
  "plain_words 10 [lit ''data'']"
  by (simp_all add: sample_rule_def created_rule_def or_keep_def plain_words_def lit_def js_trim_def js_space_def)

definition saved_sample :: "fields \<Rightarrow> (console_error + json) \<times> db" where
  "saved_sample fs = save_rule (\<lambda>s. True) (\<lambda>s. True) (Some (lit ''r''))
     (rule_form_of (\<lambda>r. []) (serialize_rule (sample_rule fs) (ruled_db fs))) (ruled_db fs)"

lemma saved_sample_accepted:
  assumes "set fs \<subseteq> {(lit ''channelType'', JStr (lit ''sms'')), (lit ''direction'', JStr (lit ''inbound''))}" and "distinct (map fst fs)"
  shows "\<exists>v. saved_sample fs = (Inr v, snd (saved_sample fs))"
proof -
  let ?x = "rule_body (rule_form_of (\<lambda>r. []) (serialize_rule (sample_rule fs) (ruled_db fs)))"
  have "map_of fs (lit ''accountId'') = None" "map_of fs (lit ''endpointId'') = None"
    using assms(1) by (auto simp: map_of_eq_None_iff lit_def)
  moreover have "map_of fs (lit ''channelType'') \<in> {None, Some (JStr (lit ''sms''))}"
    using assms(1) map_of_SomeD [of fs "lit ''channelType''"] by (cases "map_of fs (lit ''channelType'')") (auto simp: lit_def)
  ultimately have x: "validateFilters (\<lambda>s. True) (ri_filters ?x) = None"
    unfolding rule_form_shows [OF sample_rule_columns(1,2)]
    by (auto simp: validateFilters_def rule_body_def sample_rule_columns text_of_def chosen_filter_def filter_ok_def one_of_def)
  have r: "rule_destinations (ruled_db fs) (sample_rule fs) = [crm]"
    by (simp add: rule_destinations_def ruled_db_def sample_rule_def created_rule_def crm_db_def crm_def created_destination_def map_filter_simps)
  have e: "lit ''message.received'' \<in> set EVENT_TYPES" by (simp add: EVENT_TYPES_def)
  have d: "destinations (ruled_db fs) = [crm]" by (simp add: ruled_db_def crm_db_def)
  have "first_error (case ri_eventTypes ?x of Some ts \<Rightarrow> validateEventTypes ts | None \<Rightarrow> None)
      (first_error (validateFilters (\<lambda>s. True) (ri_filters ?x))
        (case ri_destinationIds ?x of Some ids \<Rightarrow> ensureDestinationsExist ids (ruled_db fs) | None \<Rightarrow> None)) = None"
    unfolding first_error_None x using e d
    unfolding rule_form_shows [OF sample_rule_columns(1,2)]
    by (simp add: rule_body_def validateEventTypes_def ensureDestinationsExist_def r)
  moreover have "can_save_rule (rule_form_of (\<lambda>r. []) (serialize_rule (sample_rule fs) (ruled_db fs)))" "rule_dto_ok (\<lambda>s. True) ?x"
    unfolding rule_form_shows [OF sample_rule_columns(1,2)]
    by (simp_all add: can_save_rule_def rule_dto_ok_def rule_body_def sample_rule_def created_rule_def lit_def js_trim_def js_space_def r list_all_iff)
  ultimately show ?thesis
    by (simp add: saved_sample_def save_rule_def patch_rule_def rule_update_def sample_rule_found answer_of_def Let_def)
qed

theorem unedited_rule_routes_alike_witness:
  "deliveries (matchAndDispatch (\<lambda>r. []) route_event (snd (saved_sample [(lit ''channelType'', JStr (lit ''sms''))])))
   = deliveries (matchAndDispatch (\<lambda>r. []) route_event (ruled_db [(lit ''channelType'', JStr (lit ''sms''))]))"
proof -
  let ?fs = "[(lit ''channelType'', JStr (lit ''sms''))]"
  obtain v where v: "saved_sample ?fs = (Inr v, snd (saved_sample ?fs))"
    using saved_sample_accepted [of ?fs] by auto
  show ?thesis
  proof (rule unedited_rule_routes_alike [OF ruled_db_ok sample_rule_found sample_rule_columns(1,2,4)])
    show "readable_filters (sample_rule ?fs) ?fs"
      by (simp add: readable_filters_def sample_rule_columns)
    show "\<forall>p\<in>set ?fs. visible (fst p)" by (simp add: visible_def)
    show "save_rule (\<lambda>s. True) (\<lambda>s. True) (Some (lit ''r''))
        (rule_form_of (\<lambda>r. []) (serialize_rule (sample_rule ?fs) (ruled_db ?fs))) (ruled_db ?fs) = (Inr v, snd (saved_sample ?fs))"
      using v by (simp add: saved_sample_def)
  qed
qed

text \<open>
  The form of a rule does not show the filter on the direction of a message, and saving
  it unchanged drops that filter: the saved rule matches every event of its types that meets
  the filters shown, so also those in the other direction, which the rule did not match.
\<close>

theorem edit_forgets_direction:
  assumes "config_ok d" and "find_rule d i = Some r" and "ru_eventTypes r = string_list ts"
    and "ru_fieldSelector r = string_list sel" and "plain_words 10 sel"
    and "readable_filters r fs" and "(lit ''direction'', JStr dir) \<in> set fs"
    and "save_rule isUUID uuid (Some i) (rule_form_of fmt (serialize_rule r d)) d = (Inr v, d')"
  shows "\<exists>r'. find_rule d' i = Some r' \<and> own (ru_filters r') (lit ''direction'') = None
    \<and> (\<forall>e env. ruleMatches r e env \<longrightarrow> ruleMatches r' e env)
    \<and> (\<forall>e env. ev_eventType e \<in> set (toStringArray (ru_eventTypes r)) \<and> filters_match e env (filter (\<lambda>p. visible (fst p)) fs)
        \<and> getPath env (lit ''data.message.direction'') \<noteq> Some (JStr dir) \<longrightarrow> \<not> ruleMatches r e env \<and> ruleMatches r' e env)"
proof (intro exI conjI allI impI)
  have "find_rule d' i = map_option resaved (find_rule d i)"
    using saved_edit [OF assms(1-5,8)] by (auto simp: find_rule_def find_update_same)
  with assms(2) show "find_rule d' i = Some (resaved r)" by simp
  show "own (ru_filters (resaved r)) (lit ''direction'') = None"
    by (simp add: resaved_def chosen_filter_def)
  have f: "ru_filters r = JObj fs" using assms(6) by (simp add: readable_filters_def)
  fix e env
  show "ruleMatches (resaved r) e env" if "ruleMatches r e env"
    using that unfolding resaved_matches [OF assms(6)] rule_matches_filters [OF f] by (auto simp: filters_match_all)
  assume e: "ev_eventType e \<in> set (toStringArray (ru_eventTypes r)) \<and> filters_match e env (filter (\<lambda>p. visible (fst p)) fs)
      \<and> getPath env (lit ''data.message.direction'') \<noteq> Some (JStr dir)"
  then show "ruleMatches (resaved r) e env" unfolding resaved_matches [OF assms(6)] by blast
  have "filter_actual e env (lit ''direction'') = Some (getPath env (lit ''data.message.direction''))"
    by (simp add: filter_actual_def)
  then show "\<not> ruleMatches r e env"
    using e assms(7) unfolding rule_matches_filters [OF f] filters_match_all
    by (cases "getPath env (lit ''data.message.direction'')") fastforce+
qed

theorem edit_forgets_direction_witness:
  "\<exists>r'. find_rule (snd (saved_sample [(lit ''direction'', JStr (lit ''inbound''))])) (lit ''r'') = Some r'
     \<and> \<not> ruleMatches (sample_rule [(lit ''direction'', JStr (lit ''inbound''))]) (route_event\<lparr>ev_eventType := lit ''message.received''\<rparr>)
           (JObj [(lit ''data'', JObj [(lit ''message'', JObj [(lit ''direction'', JStr (lit ''outbound''))])])])
     \<and> ruleMatches r' (route_event\<lparr>ev_eventType := lit ''message.received''\<rparr>)
           (JObj [(lit ''data'', JObj [(lit ''message'', JObj [(lit ''direction'', JStr (lit ''outbound''))])])])"
proof -
  let ?fs = "[(lit ''direction'', JStr (lit ''inbound''))]"
  obtain v where "saved_sample ?fs = (Inr v, snd (saved_sample ?fs))" using saved_sample_accepted [of ?fs] by auto
  then have saved: "save_rule (\<lambda>s. True) (\<lambda>s. True) (Some (lit ''r''))
      (rule_form_of (\<lambda>r. []) (serialize_rule (sample_rule ?fs) (ruled_db ?fs))) (ruled_db ?fs) = (Inr v, snd (saved_sample ?fs))"
    by (simp add: saved_sample_def)
  have readable: "readable_filters (sample_rule ?fs) ?fs"
    by (simp add: readable_filters_def sample_rule_columns visible_def)
  have path: "getPath (JObj [(lit ''data'', JObj [(lit ''message'', JObj [(lit ''direction'', JStr (lit ''outbound''))])])])
      (lit ''data.message.direction'') = Some (JStr (lit ''outbound''))"
    by (simp add: getPath_def path_parts_def string_simps)
  obtain r' where r': "find_rule (snd (saved_sample ?fs)) (lit ''r'') = Some r'"
    "\<And>e env. ev_eventType e \<in> set (toStringArray (ru_eventTypes (sample_rule ?fs)))
       \<Longrightarrow> filters_match e env (filter (\<lambda>p. visible (fst p)) ?fs)
       \<Longrightarrow> getPath env (lit ''data.message.direction'') \<noteq> Some (JStr (lit ''inbound''))
       \<Longrightarrow> \<not> ruleMatches (sample_rule ?fs) e env \<and> ruleMatches r' e env"
    using edit_forgets_direction [OF ruled_db_ok sample_rule_found sample_rule_columns(1,2,4) readable _ saved, of "lit ''inbound''"]
    by auto
  have t: "lit ''message.received'' \<in> set (toStringArray (ru_eventTypes (sample_rule ?fs)))"
    by (simp add: sample_rule_columns string_list_def)
  have h: "\<not> visible (lit ''direction'')" by (simp add: visible_def)
  show ?thesis using t path
    by (intro exI [of _ r'] conjI r'(1) r'(2) [THEN conjunct1] r'(2) [THEN conjunct2]) (simp_all add: h)
qed

section \<open>The form of a destination shows the destination\<close>

lemma destination_answer [simp]:
  "own (serialize_destination r) (lit ''id'') = Some (JStr (de_id r))"
  "own (serialize_destination r) (lit ''name'') = Some (JStr (de_name r))"
  "own (serialize_destination r) (lit ''type'') = Some (JStr (destination_name (de_type r)))"
  "own (serialize_destination r) (lit ''enabled'') = Some (JBool (de_enabled r))"
  "own (serialize_destination r) (lit ''url'') = Some (opt_str (de_url r))"
  "own (serialize_destination r) (lit ''fieldSelector'') = Some (de_fieldSelector r)"
  "own (serialize_destination r) (lit ''templateJson'') = Some (case de_template r of Some t \<Rightarrow> t | None \<Rightarrow> JNull)"
  "own (serialize_destination r) (lit ''timeoutMs'') = Some (JNum (of_int (de_timeoutMs r)))"
  "own (serialize_destination r) (lit ''configJson'') = Some (maskConfig (de_config r))"
  by (simp_all add: serialize_destination_def)

lemma destination_type_read [simp]: "destination_type_of (destination_name t) = t"
  by (cases t) (simp_all add: destination_type_of_def)

lemma map_of_mask: "map_of (map mask_config_value kvs) k = map_option (\<lambda>v. snd (mask_config_value (k, v))) (map_of kvs k)"
proof (induction kvs)
  case (Cons p kvs)
  obtain a b where p: "p = (a, b)" by (cases p)
  have "mask_config_value (a, b) = (a, snd (mask_config_value (a, b)))" by (simp add: mask_config_value_def)
  with Cons p show ?case by (metis (no_types, lifting) list.simps(9) map_of_Cons_code(2) option.simps(9))
qed simp

lemma masked_member:
  assumes "\<not> SENSITIVE_CONFIG_KEY (lit k)"
  shows "own (maskConfig (JObj kvs)) (lit k) = map_of kvs (lit k)"
  using assms by (cases "map_of kvs (lit k)") (auto simp: map_of_mask mask_config_value_def split: json.split)

fun somewhere :: "ustring \<Rightarrow> ustring \<Rightarrow> bool" where
  "somewhere p [] = starts_with p []"
| "somewhere p (c # cs) = (starts_with p (c # cs) \<or> somewhere p cs)"

lemma contains_ci_somewhere: "contains_ci w k = somewhere (lower_str (lit w)) (lower_str k)"
proof -
  have "(\<exists>i\<in>set [0..<Suc (length s)]. starts_with p (drop i s)) = somewhere p s" for p s
  proof (induction s)
    case (Cons c s)
    have "(\<exists>i\<in>set [0..<Suc (length (c # s))]. Q i) \<longleftrightarrow> Q 0 \<or> (\<exists>i\<in>set [0..<Suc (length s)]. Q (Suc i))" for Q
      by (auto simp: less_Suc_eq_0_disj simp del: upt_Suc)
    from this [of "\<lambda>i. starts_with p (drop i (c # s))"] Cons show ?case by (simp del: upt_Suc set_upt)
  qed simp
  from this [where p = "lower_str (lit w)" and s = "lower_str k"] show ?thesis by (simp add: contains_ci_def lower_str_def)
qed

lemma shown_keys: "\<not> SENSITIVE_CONFIG_KEY (lit ''recipients'')" "\<not> SENSITIVE_CONFIG_KEY (lit ''chatId'')"
  by (simp_all add: SENSITIVE_CONFIG_KEY_def contains_ci_somewhere lower_str_def lower_cp_def lit_def starts_with_def)

definition template_text :: "(rat \<Rightarrow> ustring) \<Rightarrow> json option \<Rightarrow> ustring" where
  "template_text fmt t = (case t of Some v \<Rightarrow> if truthy v then pretty fmt v 0 else [] | None \<Rightarrow> [])"

lemma dest_form_shows:
  assumes "de_fieldSelector r = string_list sel" and "de_config r = JObj kvs"
  shows "destToForm fmt (serialize_destination r) = \<lparr>df_id = Some (de_id r), df_name = de_name r, df_type = de_type r,
     df_enabled = de_enabled r, df_url = (case de_url r of Some u \<Rightarrow> u | None \<Rightarrow> []), df_secret = [],
     df_recipients = array_join fmt (lit '', '') (items_of (JObj kvs) ''recipients''), df_botToken = [],
     df_chatId = text_of (JObj kvs) ''chatId'', df_timeoutMs = de_timeoutMs r, df_fieldSelector = join_with [10] sel,
     df_templateJson = template_text fmt (de_template r)\<rparr>"
  using assms masked_member [OF shown_keys(1), of kvs] masked_member [OF shown_keys(2), of kvs]
  by (simp add: destToForm_def Let_def text_of_def whole_of_def items_of_def string_list_def array_join_strings template_text_def
      split: option.split)

section \<open>Saving a destination unchanged\<close>

lemma saved_destination:
  assumes "find_destination d i = Some r"
    and "save_destination isUrl nulls parse (destToForm fmt (serialize_destination r)) d = (Inr v, d')"
  shows "\<exists>dto. dest_request parse (destToForm fmt (serialize_destination r)) = Some dto
    \<and> find_destination d' i = Some (change_destination dto r)"
proof -
  have i: "df_id (destToForm fmt (serialize_destination r)) = Some i"
    using find_destination_known [OF assms(1)] by (simp add: destToForm_def text_of_def Let_def)
  have f: "find_destination (audit_log a b c e f g (D\<lparr>destinations := update_where (\<lambda>x. de_id x = i) (change_destination dto) (destinations D)\<rparr>)) i
      = map_option (change_destination dto) (find_destination D i)" for a b c e f g D dto
    by (simp add: find_destination_def audit_log_def find_update_same)
  from assms i show ?thesis
    by (auto simp: save_destination_def patch_destination_def answer_of_def destination_update_def Let_def f
        split: if_splits option.splits sum.splits prod.splits)
qed

text \<open>
  C33. A Telegram destination that is opened in the panel and saved unchanged stops working:
  the form leaves the token empty, the saved configuration holds no token, and every later
  delivery to it fails for good.
\<close>

theorem telegram_edit_loses_token:
  assumes "find_destination d i = Some r" and "de_type r = telegram" and "de_config r = JObj kvs"
    and "de_fieldSelector r = string_list sel"
    and "save_destination isUrl nulls parse (destToForm fmt (serialize_destination r)) d = (Inr v, d')"
  shows "\<exists>r'. find_destination d' i = Some r' \<and> de_type r' = telegram \<and> own (de_config r') (lit ''botToken'') = None
    \<and> (\<forall>env D l e n. executeDelivery (de_type r') env D l e r' n = failure True TelegramNotConfigured)"
proof -
  obtain dto where dto: "dest_request parse (destToForm fmt (serialize_destination r)) = Some dto"
    "find_destination d' i = Some (change_destination dto r)"
    using saved_destination [OF assms(1,5)] by blast
  let ?r = "change_destination dto r"
  have t: "de_type ?r = telegram" and c: "own (de_config ?r) (lit ''botToken'') = None" "nullish_obj (de_config ?r) = de_config ?r"
    using dto(1) assms(2) unfolding dest_form_shows [OF assms(4,3)]
    by (auto simp: dest_request_def change_destination_def or_keep_def dest_config_def)
  have "executeDelivery (de_type ?r) env D l e ?r n = failure True TelegramNotConfigured" for env D l e n
    by (simp add: t deliverTelegram_def c Let_def truthy_opt_def)
  with dto(2) t c show ?thesis by blast
qed

definition bot :: destination_row where
  "bot = created_destination (lit ''b'') (lit ''bot'') telegram (no_changes\<lparr>dd_config :=
     Some (JObj [(lit ''botToken'', JStr (lit ''42:x'')), (lit ''chatId'', JStr (lit ''7''))]), dd_selector := Some []\<rparr>)"

definition bot_db :: db where
  "bot_db = (empty_db tick_ids)\<lparr>destinations := [bot]\<rparr>"

lemma bot_columns:
  "find_destination bot_db (lit ''b'') = Some bot" "de_type bot = telegram" "de_fieldSelector bot = string_list []"
  "de_config bot = JObj [(lit ''botToken'', JStr (lit ''42:x'')), (lit ''chatId'', JStr (lit ''7''))]" "de_template bot = None"
  by (simp_all add: find_destination_def bot_db_def bot_def created_destination_def no_changes_def stored_template_def)

lemma saved_bot:
  "\<exists>v. save_destination (\<lambda>u. True) True (\<lambda>s. None) (destToForm (\<lambda>r. []) (serialize_destination bot)) bot_db
     = (Inr v, snd (save_destination (\<lambda>u. True) True (\<lambda>s. None) (destToForm (\<lambda>r. []) (serialize_destination bot)) bot_db))"
proof -
  let ?f = "destToForm (\<lambda>r. []) (serialize_destination bot)"
  have f: "can_save_destination ?f" "df_id ?f = Some (lit ''b'')" "js_trim (df_templateJson ?f) = []" "df_name ?f = lit ''bot''"
    "df_timeoutMs ?f = 10000" "df_type ?f = telegram"
    unfolding dest_form_shows [OF bot_columns(3,4)]
    by (simp_all add: can_save_destination_def template_text_def bot_columns js_trim_def js_space_def)
      (simp_all add: bot_def created_destination_def no_changes_def lit_def js_space_def)
  then show ?thesis
    by (simp add: save_destination_def dest_request_def form_template_def patch_destination_def destination_dto_ok_def
        dest_config_def answer_of_def destination_update_def bot_columns Let_def)
qed

theorem telegram_edit_loses_token_witness:
  "\<exists>r'. find_destination (snd (save_destination (\<lambda>u. True) True (\<lambda>s. None) (destToForm (\<lambda>r. []) (serialize_destination bot)) bot_db)) (lit ''b'')
      = Some r' \<and> own (de_config r') (lit ''botToken'') = None \<and> own (de_config bot) (lit ''botToken'') = Some (JStr (lit ''42:x''))"
proof -
  obtain v where "save_destination (\<lambda>u. True) True (\<lambda>s. None) (destToForm (\<lambda>r. []) (serialize_destination bot)) bot_db
     = (Inr v, snd (save_destination (\<lambda>u. True) True (\<lambda>s. None) (destToForm (\<lambda>r. []) (serialize_destination bot)) bot_db))"
    using saved_bot by blast
  from telegram_edit_loses_token [OF bot_columns(1,2,4,3) this] show ?thesis by (auto simp: bot_columns)
qed

text \<open>Columns that the form can show: recipients without commas and outer blanks, and a
  template that \<open>JSON.parse\<close> reads back from its text.\<close>

definition readable_destination :: "(rat \<Rightarrow> ustring) \<Rightarrow> (ustring \<Rightarrow> json option) \<Rightarrow> destination_row \<Rightarrow> bool" where
  "readable_destination fmt parse r \<longleftrightarrow>
     (de_type r = email \<longrightarrow> (\<exists>ws. own (de_config r) (lit ''recipients'') = Some (JArr (map JStr ws)) \<and> plain_words 44 ws))
     \<and> (case de_template r of Some t \<Rightarrow> is_object t \<and> parse (pretty fmt t 0) = Some t | None \<Rightarrow> True)"

lemma pretty_object: "is_object t \<Longrightarrow> js_trim (pretty fmt t 0) \<noteq> []"
proof -
  have "js_trim (c # s) \<noteq> []" if "\<not> js_space c" for c s using that by (auto simp: js_trim_def dropWhile_append)
  then show "is_object t \<Longrightarrow> ?thesis" by (cases t) (simp_all add: block_of_def js_space_def)
qed

lemma form_template_kept:
  assumes "readable_destination fmt parse r" and "de_fieldSelector r = string_list sel" and "de_config r = JObj kvs"
  shows "form_template parse (destToForm fmt (serialize_destination r)) = Some (Some (case de_template r of Some t \<Rightarrow> t | None \<Rightarrow> JNull))"
proof (cases "de_template r")
  case None
  then show ?thesis unfolding dest_form_shows [OF assms(2,3)] by (simp add: form_template_def template_text_def js_trim_def)
next
  case (Some t)
  then have t: "is_object t" "parse (pretty fmt t 0) = Some t" using assms(1) by (simp_all add: readable_destination_def)
  then have "truthy t" by (cases t) simp_all
  with Some t show ?thesis unfolding dest_form_shows [OF assms(2,3)]
    by (simp add: form_template_def template_text_def pretty_object)
qed

text \<open>
  C32. A webhook, e-mail or log destination that is opened in the panel and saved unchanged
  works as before: it keeps its name, its switch and its secret, it is sent the same bodies,
  and every attempt of a delivery to it makes the same request and ends in the same way.
\<close>

theorem unedited_destination_delivers_alike:
  assumes "find_destination d i = Some r" and "de_type r \<noteq> telegram" and "de_config r = JObj kvs"
    and "de_fieldSelector r = string_list sel" and "plain_words 10 sel" and "readable_destination fmt parse r"
    and "save_destination isUrl nulls parse (destToForm fmt (serialize_destination r)) d = (Inr v, d')"
  shows "\<exists>r'. find_destination d' i = Some r' \<and> de_name r' = de_name r \<and> de_type r' = de_type r \<and> de_enabled r' = de_enabled r
    \<and> de_secretEnc r' = de_secretEnc r \<and> (\<forall>fmt' p. dest_body fmt' r' p = dest_body fmt' r p)
    \<and> (\<forall>env D l e n. executeDelivery (de_type r') env D l e r' n = executeDelivery (de_type r) env D l e r n)"
proof -
  let ?f = "destToForm fmt (serialize_destination r)"
  obtain dto where dto: "dest_request parse ?f = Some dto" "find_destination d' i = Some (change_destination dto r)"
    using saved_destination [OF assms(1,7)] by blast
  let ?r = "change_destination dto r"
  have sel: "entries_of 10 (join_with [10] sel) = sel" using assms(5) by (rule entries_of_lines)
  have "dto = \<lparr>dd_name = Some (de_name r), dd_type = Some (de_type r), dd_enabled = Some (de_enabled r),
      dd_url = Some (if de_type r = webhook \<and> df_url ?f \<noteq> [] then Some (df_url ?f) else None), dd_secret = None,
      dd_config = Some (dest_config ?f), dd_selector = Some sel,
      dd_template = Some (case de_template r of Some t \<Rightarrow> t | None \<Rightarrow> JNull), dd_timeout = Some (de_timeoutMs r)\<rparr>"
    using dto(1) unfolding dest_request_def form_template_kept [OF assms(6,4,3)]
    unfolding dest_form_shows [OF assms(4,3)] by (simp add: sel)
  then have r: "de_name ?r = de_name r" "de_type ?r = de_type r" "de_enabled ?r = de_enabled r" "de_secretEnc ?r = de_secretEnc r"
    "de_timeoutMs ?r = de_timeoutMs r" "de_fieldSelector ?r = de_fieldSelector r" "de_config ?r = dest_config ?f"
    "de_url ?r = (if de_type r = webhook \<and> df_url ?f \<noteq> [] then Some (df_url ?f) else None)" "de_template ?r = de_template r"
    using assms(6) by (auto simp: change_destination_def or_keep_def assms(4) stored_template_def readable_destination_def
        split: option.splits)
  have u: "(case de_url ?r of Some u \<Rightarrow> u | None \<Rightarrow> []) = (case de_url r of Some u \<Rightarrow> u | None \<Rightarrow> [])" if "de_type r = webhook"
    using that r(8) unfolding dest_form_shows [OF assms(4,3)] by (simp split: option.split)
  have w: "deliverWebhook env l e ?r n = deliverWebhook env l e r n" if "de_type r = webhook" for env l e n
    by (simp add: deliverWebhook_def webhook_request_def u [OF that] r(4,5) Let_def)
  have m: "deliverEmail env D l e ?r = deliverEmail env D l e r" if email: "de_type r = email" for env D l e
  proof -
    obtain ws where ws: "own (de_config r) (lit ''recipients'') = Some (JArr (map JStr ws))" "plain_words 44 ws"
      using assms(6) email by (auto simp: readable_destination_def)
    then have "df_recipients ?f = join_with [44, 32] ws" using assms(3) unfolding dest_form_shows [OF assms(4,3)]
      by (simp add: items_of_def array_join_strings) (simp add: lit_def)
    then have "de_config ?r = JObj [(lit ''recipients'', JArr (map JStr ws))]"
      using email ws(2) dest_form_shows [OF assms(4,3)] by (simp add: r(7) dest_config_def entries_of_list)
    then have c: "own (nullish_obj (de_config ?r)) (lit ''recipients'') = own (nullish_obj (de_config r)) (lit ''recipients'')"
      using ws(1) assms(3) by simp
    have mail: "mail_of env smtp rs l e ?r = mail_of env smtp rs l e r" for smtp rs by (simp add: mail_of_def r(5))
    show ?thesis unfolding deliverEmail_def c mail ..
  qed
  have "executeDelivery (de_type ?r) env D l e ?r n = executeDelivery (de_type r) env D l e r n" for env D l e n
    using assms(2) w m by (cases "de_type r") (simp_all add: r(2))
  moreover have "dest_body fmt' ?r p = dest_body fmt' r p" for fmt' p by (simp add: dest_body_def r(6,9))
  ultimately show ?thesis using dto(2) r(1-4) by blast
qed

definition shop :: destination_row where
  "shop = created_destination (lit ''s'') (lit ''shop'') webhook (no_changes\<lparr>dd_url := Some (Some (lit ''https://shop'')),
     dd_secret := Some (lit ''key''), dd_selector := Some [lit ''data''], dd_template := Some (JObj [(lit ''a'', JNull)])\<rparr>)"

definition shop_db :: db where
  "shop_db = (empty_db tick_ids)\<lparr>destinations := [shop]\<rparr>"

lemma shop_columns:
  "find_destination shop_db (lit ''s'') = Some shop" "de_type shop = webhook" "de_config shop = JObj []"
  "de_fieldSelector shop = string_list [lit ''data'']" "plain_words 10 [lit ''data'']"
  "de_template shop = Some (JObj [(lit ''a'', JNull)])"
  by (simp_all add: find_destination_def shop_db_def shop_def created_destination_def no_changes_def stored_template_def sample_rule_columns)

definition saved_shop :: "(console_error + json) \<times> db" where
  "saved_shop = save_destination (\<lambda>u. True) False (\<lambda>s. Some (JObj [(lit ''a'', JNull)]))
     (destToForm (\<lambda>r. []) (serialize_destination shop)) shop_db"

lemma readable_shop: "readable_destination (\<lambda>r. []) (\<lambda>s. Some (JObj [(lit ''a'', JNull)])) shop"
  by (simp add: readable_destination_def shop_columns)

lemma saved_shop_accepted: "\<exists>v. saved_shop = (Inr v, snd saved_shop)"
proof -
  let ?f = "destToForm (\<lambda>r. []) (serialize_destination shop)"
  have "can_save_destination ?f" "df_id ?f = Some (lit ''s'')" "df_name ?f = lit ''shop''" "df_timeoutMs ?f = 10000" "df_type ?f = webhook"
    unfolding dest_form_shows [OF shop_columns(4,3)]
    by (simp_all add: can_save_destination_def) (simp_all add: shop_def created_destination_def no_changes_def lit_def js_space_def js_trim_def)
  then show ?thesis
    using form_template_kept [OF readable_shop shop_columns(4,3)]
    by (simp add: saved_shop_def save_destination_def dest_request_def patch_destination_def destination_dto_ok_def
        dest_config_def answer_of_def destination_update_def shop_columns Let_def)
qed

theorem unedited_destination_delivers_alike_witness:
  "\<exists>r'. find_destination (snd saved_shop) (lit ''s'') = Some r' \<and> de_secretEnc r' = Some (lit ''key'')
     \<and> (\<forall>env l e n. deliverWebhook env l e r' n = deliverWebhook env l e shop n)"
proof -
  obtain v where v: "saved_shop = (Inr v, snd saved_shop)" using saved_shop_accepted by blast
  have w: "de_type shop \<noteq> telegram" by (simp add: shop_columns)
  obtain r' where "find_destination (snd saved_shop) (lit ''s'') = Some r'" "de_type r' = de_type shop" "de_secretEnc r' = de_secretEnc shop"
    "\<And>env D l e n. executeDelivery (de_type r') env D l e r' n = executeDelivery (de_type shop) env D l e shop n"
    using unedited_destination_delivers_alike [OF shop_columns(1) w shop_columns(3,4,5) readable_shop v [unfolded saved_shop_def]]
    unfolding saved_shop_def [symmetric] by blast
  then show ?thesis by (intro exI [of _ r']) (auto simp: shop_columns shop_def created_destination_def no_changes_def)
qed

end
