(* ===== verification/Queries.thy ===== *)
theory Queries
  imports Access Admin Sending
begin

text \<open>
  What the API reads and how it pages: the query parameters of the controllers
  (\<open>parseInt(limit, 10) || 50\<close>, at most 100, and the filters of an enumeration), and the lists
  of messages (apps/api/src/messages/messages.service.ts), conversations
  (apps/api/src/conversations/conversations.service.ts), deliveries
  (apps/api/src/deliveries/deliveries.service.ts), alerts and their rules
  (apps/api/src/alerts/alerts.service.ts), audit records and events
  (apps/api/src/audit-logs/audit-logs.service.ts), and API tokens
  (apps/api/src/api-tokens/api-tokens.service.ts). The lemmas say how many rows a page has,
  that successive pages leave nothing out, and what a list discloses. The database client
  takes a negative number of rows from the end of the list and refuses a negative offset, as
  its documentation says.
\<close>

section \<open>Pages\<close>

definition or_number :: "int \<Rightarrow> ustring \<Rightarrow> int" where
  "or_number n s = (case parse_int s of Some m \<Rightarrow> if m = 0 then n else m | None \<Rightarrow> n)"

definition page_take :: "int \<Rightarrow> ustring option \<Rightarrow> int" where
  "page_take n limit = min (or_number n (case limit of Some s \<Rightarrow> s | None \<Rightarrow> int_text n)) 100"

definition page_skip :: "ustring option \<Rightarrow> int" where
  "page_skip offset = or_number 0 (case offset of Some s \<Rightarrow> s | None \<Rightarrow> int_text 0)"

definition find_page :: "int \<Rightarrow> int \<Rightarrow> 'a list \<Rightarrow> 'a list option" where
  "find_page n skip rows =
     (if skip < 0 then None
      else if 0 \<le> n then Some (take (nat n) (drop (nat skip) rows))
      else Some (rev (take (nat (- n)) (drop (nat skip) (rev rows)))))"

text \<open>A page and the number of all rows.\<close>

definition counted_page :: "int \<Rightarrow> int \<Rightarrow> 'a list \<Rightarrow> ('a list \<times> nat) option" where
  "counted_page n skip rows = map_option (\<lambda>items. (items, length rows)) (find_page n skip rows)"

text \<open>A filter of an enumeration: absent and empty select every row, a value that is no member is refused.\<close>

definition choice :: "('a \<Rightarrow> ustring) \<Rightarrow> 'a list \<Rightarrow> ustring option \<Rightarrow> 'a option option" where
  "choice name xs v = (case v of
       None \<Rightarrow> Some None
     | Some s \<Rightarrow> if s = [] then Some None else map_option Some (find (\<lambda>x. name x = s) xs))"

definition selects :: "'a option \<Rightarrow> 'a \<Rightarrow> bool" where
  "selects c x \<longleftrightarrow> c = None \<or> c = Some x"

section \<open>Messages and conversations\<close>

definition message_statuses :: "message_status list" where
  "message_statuses = [created, scheduled, queued, dispatching, accepted, sent, delivered, read, failed, cancelled, expired,
     unknown, received, assembling, incomplete, processed, forwarded, forward_failed]"

definition part_of :: "ustring \<Rightarrow> ustring \<Rightarrow> bool" where
  "part_of p s \<longleftrightarrow> (\<exists>i\<in>set [0..<Suc (length s)]. starts_with p (drop i s))"

definition text_has :: "ustring \<Rightarrow> json option \<Rightarrow> bool" where
  "text_has q v = (case v of Some (JStr s) \<Rightarrow> part_of q s | _ \<Rightarrow> False)"

definition message_found :: "ustring option \<Rightarrow> message_row \<Rightarrow> bool" where
  "message_found q m \<longleftrightarrow> (case q of None \<Rightarrow> True | Some s \<Rightarrow>
     s = [] \<or> part_of s (ms_id m) \<or> (case ms_externalId m of Some e \<Rightarrow> part_of s e | None \<Rightarrow> False)
     \<or> text_has s (own (ms_to m) (lit ''e164'')) \<or> text_has s (own (ms_to m) (lit ''raw'')))"

definition message_list ::
  "message_status option \<Rightarrow> channel_type option \<Rightarrow> message_direction option \<Rightarrow> ustring option \<Rightarrow> db \<Rightarrow> message_row list" where
  "message_list st ch dir q d = rev (sort_key ms_createdAt
     (filter (\<lambda>m. selects st (ms_status m) \<and> selects ch (ms_channelType m) \<and> selects dir (ms_direction m) \<and> message_found q m)
        (messages d)))"

text \<open>The attempts and the history of a message come along.\<close>

definition with_trail :: "db \<Rightarrow> message_row \<Rightarrow> message_row \<times> attempt_row list \<times> history_row list" where
  "with_trail d m = (m, filter (\<lambda>a. at_messageId a = ms_id m) (attempts d), filter (\<lambda>h. hi_messageId h = ms_id m) (history d))"

datatype query_error = UnknownValue | BadOffset | NotFound

definition messages_route ::
  "ustring option \<Rightarrow> ustring option \<Rightarrow> ustring option \<Rightarrow> ustring option \<Rightarrow> ustring option \<Rightarrow> ustring option \<Rightarrow> db
   \<Rightarrow> query_error + ((message_row \<times> attempt_row list \<times> history_row list) list \<times> nat)" where
  "messages_route st ch dir q limit offset d =
     (case (choice status_name message_statuses st, choice channel_name [sms, whatsapp, signal, mock] ch,
            choice direction_name [inbound, outbound] dir) of
        (Some s, Some c, Some r) \<Rightarrow>
          (case counted_page (page_take 50 limit) (page_skip offset) (message_list s c r q d) of
             Some (items, n) \<Rightarrow> Inr (map (with_trail d) items, n)
           | None \<Rightarrow> Inl BadOffset)
      | _ \<Rightarrow> Inl UnknownValue)"

definition message_get :: "ustring \<Rightarrow> db \<Rightarrow> query_error + (message_row \<times> attempt_row list \<times> history_row list)" where
  "message_get i d = (case msgs.lookup d i of Some m \<Rightarrow> Inr (with_trail d m) | None \<Rightarrow> Inl NotFound)"

text \<open>The last message of a thread, as its line in the list shows it.\<close>

definition last_message :: "db \<Rightarrow> conversation_row \<Rightarrow> (message_row \<times> ustring) option" where
  "last_message d c = (case rev (sort_key ms_createdAt (thread_messages (cv_id c) d)) of
       [] \<Rightarrow> None | m # ms \<Rightarrow> Some (m, preview (ms_content m)))"

definition endpoint_label :: "db \<Rightarrow> conversation_row \<Rightarrow> ustring option" where
  "endpoint_label d c = map_option ep_label (eps.lookup d (cv_endpointId c))"

text \<open>Latest first; the database sorts a thread without a time before the others.\<close>

definition conversation_key :: "conversation_row \<Rightarrow> int" where
  "conversation_key c = (case cv_lastMessageAt c of Some t \<Rightarrow> t | None \<Rightarrow> 0)"

definition conversation_rows :: "db \<Rightarrow> conversation_row list" where
  "conversation_rows d = filter (\<lambda>c. cv_lastMessageAt c = None) (conversations d)
     @ rev (sort_key conversation_key (filter (\<lambda>c. cv_lastMessageAt c \<noteq> None) (conversations d)))"

definition conversations_route ::
  "ustring option \<Rightarrow> ustring option \<Rightarrow> db
   \<Rightarrow> query_error + ((conversation_row \<times> ustring option \<times> (message_row \<times> ustring) option) list \<times> nat)" where
  "conversations_route limit offset d =
     (case counted_page (page_take 50 limit) (page_skip offset) (conversation_rows d) of
        Some (items, n) \<Rightarrow> Inr (map (\<lambda>c. (c, endpoint_label d c, last_message d c)) items, n)
      | None \<Rightarrow> Inl BadOffset)"

text \<open>A message as the page of its thread shows it: the numbers of its attempts and of the
  entries of its history, why the last attempt failed, and its files. Attempts are stored in
  the order in which they start.\<close>

record shown_message =
  sh_message :: message_row
  sh_attempts :: nat
  sh_history :: nat
  sh_error :: "(ustring \<times> ustring) option"
  sh_files :: "attachment_row list"

definition last_error :: "attempt_row list \<Rightarrow> (ustring \<times> ustring) option" where
  "last_error xs = (case rev xs of
       [] \<Rightarrow> None
     | a # _ \<Rightarrow> (case at_error a of None \<Rightarrow> None | Some e \<Rightarrow> errorSummary e))"

definition show_message :: "db \<Rightarrow> message_row \<Rightarrow> shown_message" where
  "show_message d m =
     (case with_trail d m of (m, tries, trail) \<Rightarrow>
        \<lparr>sh_message = m, sh_attempts = length tries, sh_history = length trail, sh_error = last_error tries,
         sh_files = filter (\<lambda>a. at_msgId a = Some (ms_id m) \<and> at_deletedAt a = None) (attachments d)\<rparr>)"

definition thread_route ::
  "ustring \<Rightarrow> ustring option \<Rightarrow> ustring option \<Rightarrow> db \<Rightarrow> query_error + (shown_message list \<times> nat)" where
  "thread_route i limit offset d =
     (case cvs.lookup d i of
        None \<Rightarrow> Inl NotFound
      | Some c \<Rightarrow>
          (case counted_page (page_take 100 limit) (page_skip offset) (rev (sort_key message_order (thread_messages i d))) of
             Some (items, n) \<Rightarrow> Inr (map (show_message d) (rev items), n)
           | None \<Rightarrow> Inl BadOffset))"

section \<open>Deliveries\<close>

fun delivery_status_name :: "delivery_status \<Rightarrow> ustring" where
  "delivery_status_name d_pending = lit ''pending''"
| "delivery_status_name d_delivering = lit ''delivering''"
| "delivery_status_name d_delivered = lit ''delivered''"
| "delivery_status_name d_failed = lit ''failed''"
| "delivery_status_name d_dlq = lit ''dlq''"

definition delivery_list :: "delivery_status option \<Rightarrow> ustring option \<Rightarrow> ustring option \<Rightarrow> db \<Rightarrow> delivery_row list" where
  "delivery_list st dest ev d = rev (filter (\<lambda>r. selects st (dl_status r) \<and> selects dest (dl_destinationId r)
     \<and> selects ev (dl_eventId r)) (deliveries d))"

definition deliveries_route ::
  "ustring option \<Rightarrow> ustring option \<Rightarrow> ustring option \<Rightarrow> ustring option \<Rightarrow> ustring option \<Rightarrow> db
   \<Rightarrow> query_error + (delivery_row list \<times> nat)" where
  "deliveries_route st dest ev limit offset d =
     (case choice delivery_status_name [d_pending, d_delivering, d_delivered, d_failed, d_dlq] st of
        None \<Rightarrow> Inl UnknownValue
      | Some s \<Rightarrow> (case counted_page (page_take 50 limit) (page_skip offset) (delivery_list s dest ev d) of
                   Some p \<Rightarrow> Inr p | None \<Rightarrow> Inl BadOffset))"

definition delivery_get :: "ustring \<Rightarrow> db \<Rightarrow> query_error + delivery_row" where
  "delivery_get i d = (case dels.lookup d i of
       Some r \<Rightarrow> Inr (r\<lparr>dl_request := map_option maskRequest (dl_request r)\<rparr>) | None \<Rightarrow> Inl NotFound)"

section \<open>Alerts, records, events and tokens\<close>

definition alert_list :: "alert_status option \<Rightarrow> db \<Rightarrow> alert_row list" where
  "alert_list s d = rev (sort_key al_lastSeenAt (filter (\<lambda>a. selects s (al_status a)) (alerts d)))"

definition alerts_route :: "ustring option \<Rightarrow> ustring option \<Rightarrow> ustring option \<Rightarrow> db \<Rightarrow> query_error + (alert_row list \<times> nat)" where
  "alerts_route st limit offset d =
     (case choice alert_status_name [firing, resolved] st of
        None \<Rightarrow> Inl UnknownValue
      | Some s \<Rightarrow> (case counted_page (page_take 50 limit) (page_skip offset) (alert_list s d) of
                   Some p \<Rightarrow> Inr p | None \<Rightarrow> Inl BadOffset))"

text \<open>In the order of keys.\<close>

definition alert_rule_list :: "db \<Rightarrow> alert_rule_row list" where
  "alert_rule_list d = sort_key ar_key (alert_rules d)"

text \<open>Rows from before redaction existed are redacted when they are read.\<close>

definition audit_page :: "int \<Rightarrow> int \<Rightarrow> db \<Rightarrow> (audit_row list \<times> nat) option" where
  "audit_page n skip d = map_option (map_prod (map (\<lambda>r. r\<lparr>au_before := redactSecrets (au_before r),
     au_after := redactSecrets (au_after r)\<rparr>)) id) (counted_page n skip (rev (audit_logs d)))"

definition audit_route :: "ustring option \<Rightarrow> ustring option \<Rightarrow> db \<Rightarrow> query_error + (audit_row list \<times> nat)" where
  "audit_route limit offset d =
     (case audit_page (page_take 50 limit) (page_skip offset) d of Some p \<Rightarrow> Inr p | None \<Rightarrow> Inl BadOffset)"

definition event_list :: "ustring option \<Rightarrow> db \<Rightarrow> event_row list" where
  "event_list ty d = rev (sort_key ev_createdAt (filter (\<lambda>e. selects ty (ev_eventType e)) (events d)))"

definition events_route :: "ustring option \<Rightarrow> ustring option \<Rightarrow> ustring option \<Rightarrow> db \<Rightarrow> query_error + (event_row list \<times> nat)" where
  "events_route ty limit offset d =
     (case counted_page (page_take 50 limit) (page_skip offset) (event_list ty d) of
        Some p \<Rightarrow> Inr p | None \<Rightarrow> Inl BadOffset)"

text \<open>A token is listed without its hash.\<close>

record token_view =
  tv_id :: ustring
  tv_name :: ustring
  tv_createdAt :: int
  tv_lastUsedAt :: "int option"
  tv_revokedAt :: "int option"

definition token_list :: "db \<Rightarrow> token_view list" where
  "token_list d = map (\<lambda>t. \<lparr>tv_id = tk_id t, tv_name = tk_name t, tv_createdAt = tk_createdAt t,
     tv_lastUsedAt = tk_lastUsedAt t, tv_revokedAt = tk_revokedAt t\<rparr>) (rev (sort_key tk_createdAt (api_tokens d)))"

text \<open>The signed-in administrator, without the password hash.\<close>

definition getUser :: "ustring \<Rightarrow> db \<Rightarrow> (ustring \<times> ustring \<times> int option) option" where
  "getUser i d = map_option (\<lambda>u. (us_id u, us_username u, us_lastLoginAt u)) (find (\<lambda>u. us_id u = i) (admin_users d))"

text \<open>Accounts with their endpoints, latest first.\<close>

definition account_list :: "db \<Rightarrow> (account_row \<times> endpoint_row list) list" where
  "account_list d = map (\<lambda>a. (a, rev (sort_key ep_createdAt (filter (\<lambda>e. ep_accountId e = ac_id a) (endpoints d)))))
     (rev (sort_key ac_createdAt (accounts d)))"

section \<open>How many rows a page has\<close>

text \<open>With numbers that are not negative, the page of a thread holds the messages that reading it gives.\<close>

lemma thread_route_reads:
  assumes "0 \<le> page_take 100 limit" and "0 \<le> page_skip offset"
  shows "thread_route i limit offset d =
    (case conversation_messages i (nat (page_take 100 limit)) (nat (page_skip offset)) d of
       None \<Rightarrow> Inl NotFound
     | Some (page, n) \<Rightarrow> Inr (map (show_message d) page, n))"
  using assms by (auto simp: thread_route_def conversation_messages_def counted_page_def find_page_def Let_def split: option.split)

lemma page_take_bound: "page_take k limit \<le> 100"
  by (simp add: page_take_def)

lemma find_page_length:
  "find_page n skip rows = Some items \<Longrightarrow> length items = min (nat \<bar>n\<bar>) (length rows - nat skip)"
  by (auto simp: find_page_def split: if_splits)

lemma find_page_sub: "find_page n skip rows = Some items \<Longrightarrow> set items \<subseteq> set rows"
  by (auto simp: find_page_def split: if_splits dest!: in_set_takeD in_set_dropD)

lemma find_page_step:
  assumes "0 < n" shows "concat (map (\<lambda>i. the (find_page (int n) (int (i * n)) rows)) [0..<k]) = take (k * n) rows"
proof (induction k)
  case (Suc k)
  have "the (find_page (int n) (int (k * n)) rows) = take n (drop (k * n) rows)"
    by (simp add: find_page_def nat_mult_distrib zero_le_mult_iff linorder_not_less flip: of_nat_mult)
  with Suc show ?case by (simp add: take_add [symmetric] add.commute)
qed simp

lemma page_take_text: "page_take k (Some (int_text n)) = (if n = 0 then min k 100 else min n 100)"
  by (simp add: page_take_def or_number_def parse_int_text)

lemma page_skip_text: "page_skip (Some (int_text n)) = n" "page_skip None = 0"
  by (simp_all add: page_skip_def or_number_def parse_int_text)

lemma messages_route_page:
  assumes "messages_route st ch dir q limit offset d = Inr (items, n)"
  obtains s c r page where "find_page (page_take 50 limit) (page_skip offset) (message_list s c r q d) = Some page"
    and "items = map (with_trail d) page" and "n = length (message_list s c r q d)"
  using assms by (auto simp: messages_route_def counted_page_def split: option.splits)


definition three_messages :: db where
  "three_messages = gateway_db [sample_message sent None, sample_message failed None, sample_message queued None]"


text \<open>
  Successive pages leave no message out and show none twice: with a limit between 1 and
  100, the pages at the offsets 0, \<open>n\<close>, \<open>2n\<close>, and so on, put together, are the list of the
  messages, latest first.
\<close>

theorem message_pages_complete:
  assumes "0 < n" and "n \<le> 100" and "length (messages d) \<le> k * n"
  shows "concat (map (\<lambda>i. case messages_route None None None None (Some (int_text (int n))) (Some (int_text (int (i * n)))) d of
       Inr (items, m) \<Rightarrow> map fst items | Inl e \<Rightarrow> []) [0..<k]) = message_list None None None None d"
proof -
  let ?rows = "message_list None None None None d"
  have page: "(case messages_route None None None None (Some (int_text (int n))) (Some (int_text (int (i * n)))) d of
       Inr (items, m) \<Rightarrow> map fst items | Inl e \<Rightarrow> []) = the (find_page (int n) (int (i * n)) ?rows)" for i
    using assms(1,2) by (simp add: messages_route_def choice_def counted_page_def page_take_text page_skip_text find_page_def
        with_trail_def comp_def linorder_not_less flip: of_nat_mult)
  have "length ?rows \<le> k * n"
    using order_trans [OF length_filter_le assms(3)] by (simp add: message_list_def)
  then show ?thesis unfolding page find_page_step [OF assms(1)] by simp
qed

theorem message_pages_complete_witness:
  "concat (map (\<lambda>i. case messages_route None None None None (Some (int_text (int 2))) (Some (int_text (int (i * 2)))) three_messages of
       Inr (items, m) \<Rightarrow> map fst items | Inl e \<Rightarrow> []) [0..<2]) = message_list None None None None three_messages"
  by (rule message_pages_complete) (simp_all add: three_messages_def gateway_db_def)

end
