(* ===== verification/Health.thy ===== *)
theory Health
  imports Json
begin

text \<open>
  The health route, the release version and the holder of the API document
  (apps/api/src/health, apps/api/src/common/version.ts, apps/api/src/openapi). Arguments: what
  the file package.json of a directory holds, and what the database says to \<open>SELECT 1\<close>. The
  lemmas say which package.json gives the version, and what the health route tells of a
  database that does not answer.
\<close>

section \<open>The release version\<close>

text \<open>
  \<open>dirname\<close> of node:path. What precedes the last part of the path ends in a slash, which is
  cut off unless it is the root.
\<close>

definition dirname :: "ustring \<Rightarrow> ustring" where
  "dirname s =
     (let p = rev (dropWhile (\<lambda>c. c \<noteq> 47) (dropWhile (\<lambda>c. c = 47) (rev s)));
          rooted = (s \<noteq> [] \<and> hd s = 47)
      in if length p < 2 then (if rooted then [47] else lit ''.'')
         else if rooted \<and> length p = 2 then [47, 47]
         else butlast p)"

datatype package_file = Missing | Unreadable | Package json

text \<open>
  The loop of \<open>readVersion\<close> with the iterations that are left. \<open>None\<close> is an exception while the
  module is loaded: a file that is not JSON, or the member of a \<open>null\<close>.
\<close>

definition versioned :: "json \<Rightarrow> json option" where
  "versioned pkg =
     (case (own pkg (lit ''workspaces''), own pkg (lit ''version'')) of
        (Some w, Some v) \<Rightarrow> if truthy w \<and> truthy v then Some v else None
      | _ \<Rightarrow> None)"

fun search_version :: "(ustring \<Rightarrow> package_file) \<Rightarrow> nat \<Rightarrow> ustring \<Rightarrow> json option" where
  "search_version package_json 0 dir = Some (JStr (lit ''unknown''))"
| "search_version package_json (Suc i) dir =
     (let further = (let parent = dirname dir
                     in if parent = dir then Some (JStr (lit ''unknown'')) else search_version package_json i parent)
      in case package_json dir of
           Missing \<Rightarrow> further
         | Unreadable \<Rightarrow> None
         | Package JNull \<Rightarrow> None
         | Package pkg \<Rightarrow> (case versioned pkg of Some v \<Rightarrow> Some v | None \<Rightarrow> further))"

definition readVersion :: "(ustring \<Rightarrow> package_file) \<Rightarrow> ustring \<Rightarrow> json option" where
  "readVersion package_json dir = search_version package_json 8 dir"

text \<open>The directories above a directory, nearest first; the root is its own parent.\<close>

definition ancestors :: "nat \<Rightarrow> ustring \<Rightarrow> ustring list" where
  "ancestors n dir = map (\<lambda>i. (dirname ^^ i) dir) [0..<n]"

definition version_at :: "(ustring \<Rightarrow> package_file) \<Rightarrow> ustring \<Rightarrow> json option" where
  "version_at package_json dir = (case package_json dir of Package pkg \<Rightarrow> versioned pkg | _ \<Rightarrow> None)"

fun readable :: "package_file \<Rightarrow> bool" where
  "readable Unreadable = False"
| "readable (Package JNull) = False"
| "readable _ = True"

lemma ancestors_Suc: "ancestors (Suc n) dir = dir # ancestors n (dirname dir)"
  by (simp add: ancestors_def upt_conv_Cons map_Suc_upt [symmetric] comp_def funpow_swap1 del: upt_Suc)

lemma ancestors_root: "dirname dir = dir \<Longrightarrow> set (ancestors n dir) \<subseteq> {dir}"
  by (induction n) (auto simp: ancestors_Suc, simp add: ancestors_def)

lemma map_filter_Nil: "(\<And>x. x \<in> set xs \<Longrightarrow> f x = None) \<Longrightarrow> List.map_filter f xs = []"
  by (induction xs) (simp_all add: List.map_filter_simps)

lemma search_version_step:
  assumes "readable (package_json dir)"
  shows "search_version package_json (Suc i) dir =
    (case version_at package_json dir of Some v \<Rightarrow> Some v
     | None \<Rightarrow> if dirname dir = dir then Some (JStr (lit ''unknown'')) else search_version package_json i (dirname dir))"
proof (cases "package_json dir")
  case (Package pkg)
  with assms show ?thesis by (cases pkg) (simp_all add: version_at_def Let_def split: option.split)
qed (use assms in \<open>simp_all add: version_at_def Let_def\<close>)

text \<open>
  The version is that of the nearest directory, at most seven levels up, whose package.json
  has workspaces and a version, and \<open>unknown\<close> when there is none, provided every package.json
  on the way up can be read.
\<close>

lemma search_version_nearest:
  assumes "\<forall>p\<in>set (ancestors n dir). readable (package_json p)"
  shows "search_version package_json n dir =
    Some (case List.map_filter (version_at package_json) (ancestors n dir) of [] \<Rightarrow> JStr (lit ''unknown'') | v # _ \<Rightarrow> v)"
  using assms
proof (induction n arbitrary: dir)
  case 0
  then show ?case by (simp add: ancestors_def List.map_filter_simps)
next
  case (Suc n)
  then have ok: "readable (package_json dir)" "\<forall>p\<in>set (ancestors n (dirname dir)). readable (package_json p)"
    by (simp_all add: ancestors_Suc)
  show ?case
  proof (cases "version_at package_json dir")
    case None
    have root: "List.map_filter (version_at package_json) (ancestors n dir) = []" if "dirname dir = dir"
      using ancestors_root [OF that, of n] None by (intro map_filter_Nil) auto
    from Suc.IH [OF ok(2)] None root show ?thesis
      by (simp del: search_version.simps add: search_version_step [of package_json dir n, OF ok(1)] ancestors_Suc List.map_filter_simps)
  qed (simp del: search_version.simps add: search_version_step [of package_json dir n, OF ok(1)] ancestors_Suc List.map_filter_simps)
qed

lemma readVersion_nearest:
  "\<forall>p\<in>set (ancestors 8 dir). readable (package_json p) \<Longrightarrow> readVersion package_json dir =
    Some (case List.map_filter (version_at package_json) (ancestors 8 dir) of [] \<Rightarrow> JStr (lit ''unknown'') | v # _ \<Rightarrow> v)"
  unfolding readVersion_def by (rule search_version_nearest)

text \<open>In the image: the API's own package.json has no workspaces, the one of the repository has.\<close>

definition image_files :: "ustring \<Rightarrow> package_file" where
  "image_files dir =
     (if dir = lit ''/app/apps/api'' then Package (JObj [(lit ''version'', JStr (lit ''0.0.1''))])
      else if dir = lit ''/app'' then Package (JObj [(lit ''version'', JStr (lit ''1.4.0'')), (lit ''workspaces'', JArr [JStr (lit ''apps/*'')])])
      else Missing)"

lemma image_version: "readVersion image_files (lit ''/app/apps/api/dist/common'') = Some (JStr (lit ''1.4.0''))"
  unfolding readVersion_def by code_simp

section \<open>The health route\<close>

datatype health_route = Live | Version | Ready | Details

definition health_live :: json where
  "health_live = JObj [(lit ''status'', JStr (lit ''ok'')), (lit ''service'', JStr (lit ''umg-api''))]"

definition health_version :: "json \<Rightarrow> json" where
  "health_version APP_VERSION = JObj [(lit ''service'', JStr (lit ''umg-api'')), (lit ''version'', APP_VERSION)]"

text \<open>What the database says to \<open>SELECT 1\<close>: an error with its message, or a row.\<close>

definition health_ready :: "ustring + unit \<Rightarrow> json" where
  "health_ready ping =
     (case ping of
        Inr _ \<Rightarrow> JObj [(lit ''status'', JStr (lit ''ready'')), (lit ''service'', JStr (lit ''umg-api''))]
      | Inl m \<Rightarrow> JObj [(lit ''status'', JStr (lit ''not_ready'')), (lit ''service'', JStr (lit ''umg-api'')), (lit ''error'', JStr m)])"

definition health_details :: "json \<Rightarrow> ustring + unit \<Rightarrow> json" where
  "health_details APP_VERSION ping =
     (let dbOk = (case ping of Inr _ \<Rightarrow> True | Inl _ \<Rightarrow> False)
      in JObj [(lit ''service'', JStr (lit ''umg-api'')), (lit ''version'', APP_VERSION),
               (lit ''database'', JStr (if dbOk then lit ''healthy'' else lit ''unhealthy''))])"

fun health_controller :: "json \<Rightarrow> ustring + unit \<Rightarrow> health_route \<Rightarrow> json" where
  "health_controller APP_VERSION ping Live = health_live"
| "health_controller APP_VERSION ping Version = health_version APP_VERSION"
| "health_controller APP_VERSION ping Ready = health_ready ping"
| "health_controller APP_VERSION ping Details = health_details APP_VERSION ping"

lemma health_tells_database:
  "own (health_controller v ping Ready) (lit ''status'') = Some (JStr (lit ''ready'')) \<longleftrightarrow> (\<exists>u. ping = Inr u)"
  "own (health_controller v ping Details) (lit ''database'') = Some (JStr (lit ''healthy'')) \<longleftrightarrow> (\<exists>u. ping = Inr u)"
  "own (health_controller v ping Ready) (lit ''error'') = (case ping of Inl m \<Rightarrow> Some (JStr m) | Inr u \<Rightarrow> None)"
  by (simp_all add: health_ready_def health_details_def split: sum.split)

section \<open>The API document\<close>

text \<open>The document is set once, when the application is up; before that there is none.\<close>

type_synonym openapi = "json option"

definition openapi_set :: "json \<Rightarrow> openapi \<Rightarrow> openapi" where
  "openapi_set document st = Some document"

datatype openapi_error = ServiceUnavailable

definition openapi_get :: "openapi \<Rightarrow> openapi_error + json" where
  "openapi_get st = (case st of None \<Rightarrow> Inl ServiceUnavailable | Some document \<Rightarrow> Inr document)"

end
