(* ===== verification/Http.thy ===== *)
theory Http
  imports Console Queries Provisioning Balance Health
begin

text \<open>
  The HTTP interface: every route of the controllers under apps/api/src, the guard in front
  of it, and the operation it calls. A guard refuses, or lets the request through (and notes
  the use of a token); the route then hands the parameters and the actor to the service. The
  actor is the user of the session for accounts and endpoints, and whatever the body says
  for everything else. The theorems say what a request can change without a session, and
  whom the audit log names.
\<close>

section \<open>Requests\<close>

datatype guard = Open | SessionOnly | TokenOnly | SessionOrToken | MediaAccess

text \<open>An uploaded file: its bytes, name and type; a body with a text in base64 instead.\<close>

datatype upload_body =
    FormFile "nat list" ustring ustring
  | Base64File ustring ustring ustring
  | NoFile

text \<open>The routes of each controller.\<close>

datatype auth_route = Login ustring ustring | Logout | Me

datatype webhook_route =
    GwmdWebhook "nat list option" "ustring option" json
  | DbsmsWebhook "ustring option" json

datatype message_route =
    SendMessage send_dto "ustring option"
  | UiSend send_dto "ustring option"
  | ListMessages "ustring option" "ustring option" "ustring option" "ustring option" "ustring option" "ustring option"
  | GetMessage ustring
  | RetryMessage ustring "ustring option"
  | CancelMessage ustring "ustring option"

datatype conversation_route =
    ListConversations "ustring option" "ustring option"
  | ThreadMessages ustring "ustring option" "ustring option"

datatype token_route =
    ListTokens
  | GenerateToken "ustring option" "ustring option"
  | RevokeToken ustring "ustring option"

datatype account_route =
    ListAccounts
  | CreateAccount account_data
  | GetAccount ustring
  | UpdateAccount ustring account_changes
  | DeleteAccount ustring
  | CreateEndpoint ustring endpoint_data
  | StartQr ustring provision_qr_dto
  | SidecarAccounts ustring
  | QrImage ustring ustring
  | PollLink ustring ustring
  | VerifyCode ustring ustring ustring "ustring option"
  | Reattach ustring ustring ustring

datatype endpoint_route =
    UpdateEndpoint ustring endpoint_changes
  | DeleteEndpoint ustring bool
  | Unlink ustring
  | CheckBalance ustring "ustring option"

datatype media_route =
    UploadMedia upload_body "ustring option"
  | SignedUrl
  | Download
  | DeleteMedia ustring "ustring option"

datatype destination_route =
    ListDestinations
  | CreateDestination destination_dto "ustring option"
  | TestDelivery ustring "ustring option"
  | GetDestination ustring
  | UpdateDestination ustring destination_dto "ustring option"
  | DeleteDestination ustring "ustring option"

datatype rule_route =
    ListRules
  | CreateRule rule_input "ustring option"
  | UpdateRule ustring rule_input "ustring option"
  | DeleteRule ustring "ustring option"

datatype alert_route =
    ListAlerts "ustring option" "ustring option" "ustring option"
  | ResolveAlert ustring "ustring option"

datatype alert_rule_route =
    ListAlertRules
  | UpdateAlertRule ustring "bool option" "fields option" "ustring option"

datatype delivery_route =
    ListDeliveries "ustring option" "ustring option" "ustring option" "ustring option" "ustring option"
  | GetDelivery ustring
  | ReplayDelivery ustring "ustring option"

datatype route =
    ToAuth auth_route
  | ToWebhooks webhook_route
  | ToMessages message_route
  | ToConversations conversation_route
  | ToTokens token_route
  | ToAccounts account_route
  | ToEndpoints endpoint_route
  | ToMedia media_route
  | ToDestinations destination_route
  | ToRules rule_route
  | ToAlerts alert_route
  | ToAlertRules alert_rule_route
  | ToDeliveries delivery_route
  | ToAudit "ustring option" "ustring option"
  | ToEvents "ustring option" "ustring option" "ustring option"
  | ToHealth health_route
  | ToOpenApi

text \<open>The guards, of a route or of a whole controller.\<close>

fun auth_guard :: "auth_route \<Rightarrow> guard" where
  "auth_guard (Login _ _) = Open"
| "auth_guard _ = SessionOnly"

fun message_guard :: "message_route \<Rightarrow> guard" where
  "message_guard (SendMessage _ _) = TokenOnly"
| "message_guard (ListMessages _ _ _ _ _ _) = SessionOrToken"
| "message_guard (GetMessage _) = SessionOrToken"
| "message_guard _ = SessionOnly"

fun media_guard :: "media_route \<Rightarrow> guard" where
  "media_guard Download = MediaAccess"
| "media_guard _ = SessionOnly"

fun destination_guard :: "destination_route \<Rightarrow> guard" where
  "destination_guard ListDestinations = SessionOrToken"
| "destination_guard (GetDestination _) = SessionOrToken"
| "destination_guard _ = SessionOnly"

fun guard_of :: "route \<Rightarrow> guard" where
  "guard_of (ToAuth r) = auth_guard r"
| "guard_of (ToWebhooks r) = Open"
| "guard_of (ToMessages r) = message_guard r"
| "guard_of (ToMedia r) = media_guard r"
| "guard_of (ToDestinations r) = destination_guard r"
| "guard_of (ToAudit _ _) = SessionOrToken"
| "guard_of (ToHealth r) = Open"
| "guard_of _ = SessionOnly"

section \<open>What a route does\<close>

record api_env =
  ap_access :: access_env
  ap_send :: send_env
  ap_prov :: provision_env
  ap_balance :: balance_env
  ap_checker :: "ustring \<Rightarrow> (account_config \<Rightarrow> ustring \<Rightarrow> ustring \<Rightarrow> ustring + balance_answer) option"
  ap_media :: media_env
  ap_decode :: "ustring \<Rightarrow> nat list"
  ap_now :: int
  ap_iso :: "int \<Rightarrow> ustring"
  ap_uuid :: "ustring \<Rightarrow> bool"
  ap_isUUID :: "ustring \<Rightarrow> bool"
  ap_isUrl :: "ustring \<Rightarrow> bool"
  ap_nulls :: bool
  ap_random :: ustring
  ap_removable :: bool
  ap_unlinks :: bool
  ap_polls :: "delivery_row option list"
  ap_requestId :: ustring
  ap_version :: json
  ap_ping :: "ustring + unit"
  ap_openapi :: openapi

datatype answer =
    Unauthorised auth_error
  | BodyRejected
  | SessionOf "session_user option"
  | Enqueued "auth_error + inbound_job list"
  | Sent "send_error + send_response"
  | MessageActed "message_error option"
  | NewToken ustring
  | TokenRevoked bool
  | AccountMade account_row
  | AccountChanged "account_error + account_row"
  | AccountDeleted "account_error option"
  | EndpointChanged "account_error + endpoint_row"
  | EndpointDeleted "account_error + nat"
  | BalanceRead "balance_error + balance_result"
  | QrStarted "provision_error + qr_response"
  | LinkPolled "provision_error + registration_state"
  | CodeVerified "provision_error + bool"
  | Provisioned "provision_error option"
  | Uploaded "media_error + attachment_row"
  | NothingUploaded
  | MediaDeleted "media_error option"
  | Configured "console_error + json"
  | ConfigDeleted "admin_error option"
  | Tested "admin_error + test_result"
  | AlertResolved "alert_row option"
  | AlertRuleChanged "admin_error + alert_rule_row"
  | Replayed "replay_error + delivery_row"
  | Messages "query_error + ((message_row \<times> attempt_row list \<times> history_row list) list \<times> nat)"
  | OneMessage "query_error + (message_row \<times> attempt_row list \<times> history_row list)"
  | Threads "query_error + ((conversation_row \<times> ustring option \<times> (message_row \<times> ustring) option) list \<times> nat)"
  | Thread "query_error + (shown_message list \<times> nat)"
  | Deliveries "query_error + (delivery_row list \<times> nat)"
  | OneDelivery "query_error + delivery_row"
  | Rows "json list"
  | OneRow "admin_error + json"
  | Alerts "query_error + (alert_row list \<times> nat)"
  | AlertRules "alert_rule_row list"
  | AuditRecords "query_error + (audit_row list \<times> nat)"
  | EventRows "query_error + (event_row list \<times> nat)"
  | Tokens "token_view list"
  | AllAccounts "(account_row \<times> endpoint_row list) list"
  | OneAccount "account_error + (account_row \<times> endpoint_row list)"
  | Sidecar "provision_error + provisioned list"
  | Image "provision_error + nat list"
  | Profile "(ustring \<times> ustring \<times> int option) option"
  | Link "media_error + signed_url"
  | File "media_error + (attachment_row \<times> nat list option)"
  | HealthIs json
  | Specification "openapi_error + json"

text \<open>The body of \<open>GenerateToken\<close> has no member for an actor, and the validation refuses unknown members.\<close>

definition actor_of :: "request \<Rightarrow> ustring option" where
  "actor_of req = map_option su_id (rq_user req)"

definition or_text :: "string \<Rightarrow> ustring \<Rightarrow> ustring" where
  "or_text other s = (if s \<noteq> [] then s else lit other)"

fun upload_route :: "api_env \<Rightarrow> upload_body \<Rightarrow> ustring option \<Rightarrow> db \<Rightarrow> answer \<times> db" where
  "upload_route env (FormFile bytes name mime) actorId d =
     map_prod Uploaded id (upload (ap_media env) bytes (or_text ''file'' name) (or_text ''application/octet-stream'' mime) actorId d)"
| "upload_route env (Base64File text name mime) actorId d =
     (if text = [] \<or> name = [] then (NothingUploaded, d)
      else case decodeBase64Payload (ap_decode env) text of
             Inl e \<Rightarrow> (Uploaded (Inl e), d)
           | Inr bytes \<Rightarrow> map_prod Uploaded id (upload (ap_media env) bytes name (or_text ''application/octet-stream'' mime) actorId d))"
| "upload_route env NoFile actorId d = (NothingUploaded, d)"

fun auth_controller :: "api_env \<Rightarrow> request \<Rightarrow> auth_route \<Rightarrow> db \<Rightarrow> answer \<times> db" where
  "auth_controller env req (Login u p) d = map_prod SessionOf id (login (ap_access env) u p (rq_user req) d)"
| "auth_controller env req Logout d = (SessionOf None, d)"
| "auth_controller env req Me d = (Profile (case rq_user req of Some u \<Rightarrow> getUser (su_id u) d | None \<Rightarrow> None), d)"

fun webhook_controller :: "api_env \<Rightarrow> request \<Rightarrow> webhook_route \<Rightarrow> db \<Rightarrow> answer \<times> db" where
  "webhook_controller env req (GwmdWebhook raw signature body) d = (Enqueued (gwmd_webhook (ap_access env) raw signature body), d)"
| "webhook_controller env req (DbsmsWebhook secret body) d = (Enqueued (dbsms_webhook (ap_access env) secret body), d)"

fun message_controller :: "api_env \<Rightarrow> request \<Rightarrow> message_route \<Rightarrow> db \<Rightarrow> answer \<times> db" where
  "message_controller env req (SendMessage dto key) d = map_prod Sent id (send (ap_send env) dto key (ap_requestId env) d)"
| "message_controller env req (UiSend dto key) d = map_prod Sent id (send (ap_send env) dto key (ap_requestId env) d)"
| "message_controller env req (ListMessages st ch dir q limit offset) d = (Messages (messages_route st ch dir q limit offset d), d)"
| "message_controller env req (GetMessage i) d = (OneMessage (message_get i d), d)"
| "message_controller env req (RetryMessage i a) d = map_prod MessageActed id (retry (ap_now env) i a d)"
| "message_controller env req (CancelMessage i a) d = map_prod MessageActed id (cancel (ap_removable env) (ap_now env) i a d)"

fun conversation_controller :: "api_env \<Rightarrow> request \<Rightarrow> conversation_route \<Rightarrow> db \<Rightarrow> answer \<times> db" where
  "conversation_controller env req (ListConversations limit offset) d = (Threads (conversations_route limit offset d), d)"
| "conversation_controller env req (ThreadMessages i limit offset) d = (Thread (thread_route i limit offset d), d)"

fun token_controller :: "api_env \<Rightarrow> request \<Rightarrow> token_route \<Rightarrow> db \<Rightarrow> answer \<times> db" where
  "token_controller env req ListTokens d = (Tokens (token_list d), d)"
| "token_controller env req (GenerateToken name a) d =
     (if a \<noteq> None then (BodyRejected, d)
      else map_prod NewToken id (generate_route (ap_access env) (ap_random env) name a d))"
| "token_controller env req (RevokeToken i a) d = map_prod TokenRevoked id (revoke_route (ap_access env) i a d)"

fun account_controller :: "api_env \<Rightarrow> request \<Rightarrow> account_route \<Rightarrow> db \<Rightarrow> answer \<times> db" where
  "account_controller env req ListAccounts d = (AllAccounts (account_list d), d)"
| "account_controller env req (CreateAccount data) d = map_prod AccountMade id (account_create (ap_now env) data (actor_of req) d)"
| "account_controller env req (GetAccount i) d = (OneAccount (account_get i d), d)"
| "account_controller env req (UpdateAccount i data) d = map_prod AccountChanged id (account_update (ap_iso env) i data (actor_of req) d)"
| "account_controller env req (DeleteAccount i) d = map_prod AccountDeleted id (account_delete (ap_iso env) i (actor_of req) d)"
| "account_controller env req (CreateEndpoint i data) d = map_prod EndpointChanged id (createEndpoint (ap_now env) i data (actor_of req) d)"
| "account_controller env req (StartQr i dto) d = map_prod QrStarted id (startQr (ap_prov env) i dto (actor_of req) d)"
| "account_controller env req (SidecarAccounts i) d = (Sidecar (listSidecarAccounts (ap_prov env) i d), d)"
| "account_controller env req (QrImage a i) d = (Image (qrImage (ap_prov env) a i d), d)"
| "account_controller env req (PollLink a i) d = map_prod LinkPolled id (prov_poll (ap_prov env) a i d)"
| "account_controller env req (VerifyCode a i code token) d = map_prod CodeVerified id (verify (ap_prov env) a i code token (actor_of req) d)"
| "account_controller env req (Reattach a i x) d = map_prod Provisioned id (reattach (ap_prov env) a i x (actor_of req) d)"

fun endpoint_controller :: "api_env \<Rightarrow> request \<Rightarrow> endpoint_route \<Rightarrow> db \<Rightarrow> answer \<times> db" where
  "endpoint_controller env req (UpdateEndpoint i data) d = map_prod EndpointChanged id (updateEndpoint (ap_iso env) i data (actor_of req) d)"
| "endpoint_controller env req (DeleteEndpoint i force) d = map_prod EndpointDeleted id (deleteEndpoint (ap_iso env) i (actor_of req) force d)"
| "endpoint_controller env req (Unlink i) d = map_prod Provisioned id (unlink (ap_prov env) i (actor_of req) d)"
| "endpoint_controller env req (CheckBalance i ussd) d = map_prod BalanceRead id (balance_check (ap_checker env) (ap_balance env) i ussd d)"

fun media_controller :: "api_env \<Rightarrow> request \<Rightarrow> media_route \<Rightarrow> db \<Rightarrow> answer \<times> db" where
  "media_controller env req (UploadMedia body a) d = upload_route env body a d"
| "media_controller env req SignedUrl d = (Link (createSignedUrl (ap_access env) (rq_id req) d), d)"
| "media_controller env req Download d = (File (getForDownload (rq_id req) d), d)"
| "media_controller env req (DeleteMedia i a) d = map_prod MediaDeleted id (media_delete (ap_unlinks env) i a d)"

fun destination_controller :: "api_env \<Rightarrow> request \<Rightarrow> destination_route \<Rightarrow> db \<Rightarrow> answer \<times> db" where
  "destination_controller env req ListDestinations d = (Rows (destination_list d), d)"
| "destination_controller env req (CreateDestination dto a) d = map_prod Configured id (post_destination (ap_isUrl env) (ap_nulls env) dto a d)"
| "destination_controller env req (TestDelivery i a) d = map_prod Tested id (destination_test (ap_iso env) (ap_now env) i a (ap_polls env) d)"
| "destination_controller env req (GetDestination i) d = (OneRow (destination_get i d), d)"
| "destination_controller env req (UpdateDestination i dto a) d = map_prod Configured id (patch_destination (ap_isUrl env) (ap_nulls env) i dto a d)"
| "destination_controller env req (DeleteDestination i a) d = map_prod ConfigDeleted id (destination_delete i a d)"

fun rule_controller :: "api_env \<Rightarrow> request \<Rightarrow> rule_route \<Rightarrow> db \<Rightarrow> answer \<times> db" where
  "rule_controller env req ListRules d = (Rows (rule_list d), d)"
| "rule_controller env req (CreateRule x a) d = map_prod Configured id (post_rule (ap_isUUID env) (ap_uuid env) x a d)"
| "rule_controller env req (UpdateRule i x a) d = map_prod Configured id (patch_rule (ap_isUUID env) (ap_uuid env) i x a d)"
| "rule_controller env req (DeleteRule i a) d = map_prod ConfigDeleted id (rule_delete i a d)"

fun alert_controller :: "api_env \<Rightarrow> request \<Rightarrow> alert_route \<Rightarrow> db \<Rightarrow> answer \<times> db" where
  "alert_controller env req (ListAlerts st limit offset) d = (Alerts (alerts_route st limit offset d), d)"
| "alert_controller env req (ResolveAlert i a) d = map_prod AlertResolved id (resolve (ap_now env) i a d)"

fun alert_rule_controller :: "api_env \<Rightarrow> request \<Rightarrow> alert_rule_route \<Rightarrow> db \<Rightarrow> answer \<times> db" where
  "alert_rule_controller env req ListAlertRules d = (AlertRules (alert_rule_list d), d)"
| "alert_rule_controller env req (UpdateAlertRule key on config a) d = map_prod AlertRuleChanged id (updateRule key on config a d)"

fun delivery_controller :: "api_env \<Rightarrow> request \<Rightarrow> delivery_route \<Rightarrow> db \<Rightarrow> answer \<times> db" where
  "delivery_controller env req (ListDeliveries st dest ev limit offset) d = (Deliveries (deliveries_route st dest ev limit offset d), d)"
| "delivery_controller env req (GetDelivery i) d = (OneDelivery (delivery_get i d), d)"
| "delivery_controller env req (ReplayDelivery i a) d = map_prod Replayed id (replay i a d)"

fun run_route :: "api_env \<Rightarrow> request \<Rightarrow> route \<Rightarrow> db \<Rightarrow> answer \<times> db" where
  "run_route env req (ToAuth r) d = auth_controller env req r d"
| "run_route env req (ToWebhooks r) d = webhook_controller env req r d"
| "run_route env req (ToMessages r) d = message_controller env req r d"
| "run_route env req (ToConversations r) d = conversation_controller env req r d"
| "run_route env req (ToTokens r) d = token_controller env req r d"
| "run_route env req (ToAccounts r) d = account_controller env req r d"
| "run_route env req (ToEndpoints r) d = endpoint_controller env req r d"
| "run_route env req (ToMedia r) d = media_controller env req r d"
| "run_route env req (ToDestinations r) d = destination_controller env req r d"
| "run_route env req (ToRules r) d = rule_controller env req r d"
| "run_route env req (ToAlerts r) d = alert_controller env req r d"
| "run_route env req (ToAlertRules r) d = alert_rule_controller env req r d"
| "run_route env req (ToDeliveries r) d = delivery_controller env req r d"
| "run_route env req (ToAudit limit offset) d = (AuditRecords (audit_route limit offset d), d)"
| "run_route env req (ToEvents ty limit offset) d = (EventRows (events_route ty limit offset d), d)"
| "run_route env req (ToHealth r) d = (HealthIs (health_controller (ap_version env) (ap_ping env) r), d)"
| "run_route env req ToOpenApi d = (Specification (openapi_get (ap_openapi env)), d)"

text \<open>The guard in front of a route: an error, or the state in which the route runs.\<close>

fun pass_guard :: "access_env \<Rightarrow> request \<Rightarrow> guard \<Rightarrow> db \<Rightarrow> auth_error option \<times> db" where
  "pass_guard env req Open d = (None, d)"
| "pass_guard env req SessionOnly d = (case sessionGuard req of Inl e \<Rightarrow> (Some e, d) | Inr u \<Rightarrow> (None, d))"
| "pass_guard env req TokenOnly d = (case apiTokenGuard env req d of (Inl e, d') \<Rightarrow> (Some e, d') | (Inr t, d') \<Rightarrow> (None, d'))"
| "pass_guard env req SessionOrToken d = (case sessionOrTokenGuard env req d of (ok, d') \<Rightarrow> (if ok then None else Some Unauthorized, d'))"
| "pass_guard env req MediaAccess d = (mediaAccessGuard env req d, d)"

definition api_call :: "api_env \<Rightarrow> request \<Rightarrow> route \<Rightarrow> db \<Rightarrow> answer \<times> db" where
  "api_call env req route d =
     (case pass_guard (ap_access env) req (guard_of route) d of
        (Some e, d') \<Rightarrow> (Unauthorised e, d')
      | (None, d') \<Rightarrow> run_route env req route d')"

section \<open>What a request can change without a session\<close>

text \<open>The state without messages and their trail, without the times at which tokens and
  passwords were used, and without the supply of identifiers.\<close>

definition administered :: "db \<Rightarrow> db" where
  "administered d = d\<lparr>conversations := [], messages := [], history := [], events := [], idem_keys := [], send_jobs := [],
     attachments := map (at_msgId_update (\<lambda>x. None)) (attachments d),
     api_tokens := map (tk_lastUsedAt_update (\<lambda>x. None)) (api_tokens d),
     admin_users := map (us_lastLoginAt_update (\<lambda>x. None)) (admin_users d), uuid_next := 0\<rparr>"

lemma map_update_where_erased: "(\<And>r. f (g r) = f r) \<Longrightarrow> map f (update_where P g rs) = map f rs"
  by (simp add: update_where_def)

lemma administered_columns [simp]:
  "administered (d\<lparr>conversations := cs\<rparr>) = administered d" "administered (d\<lparr>uuid_next := n\<rparr>) = administered d"
  "administered (d\<lparr>messages := ms\<rparr>) = administered d" "administered (d\<lparr>events := es\<rparr>) = administered d"
  "administered (d\<lparr>send_jobs := js\<rparr>) = administered d"
  "administered (d\<lparr>history := hs\<rparr>) = administered d" "administered (d\<lparr>idem_keys := ks\<rparr>) = administered d"
  by (simp_all add: administered_def)

lemma administered_link: "administered (d\<lparr>attachments := update_where P (at_msgId_update f) (attachments d)\<rparr>) = administered d"
  by (simp add: administered_def map_update_where_erased)

lemma administered_token: "administered (api_tokens_update (update_where P (tk_lastUsedAt_update f)) d) = administered d"
  by (simp add: administered_def map_update_where_erased)

lemma administered_login: "administered (d\<lparr>admin_users := update_where P (us_lastLoginAt_update f) (admin_users d)\<rparr>) = administered d"
  by (simp add: administered_def map_update_where_erased)

lemma administered_api_emit: "administered (snd (api_emit isof now p d)) = administered d"
  by (simp add: api_emit_def fresh_id_def Let_def split: option.split)

lemma administered_enqueue: "administered (enqueueSend i s d) = administered d"
  by (simp add: enqueueSend_def)

lemma administered_attachments:
  "administered (d\<lparr>attachments := update_where P (\<lambda>a. a\<lparr>at_msgId := x\<rparr>) as\<rparr>)
     = (administered d)\<lparr>attachments := map (at_msgId_update (\<lambda>x. None)) as\<rparr>"
  by (simp add: administered_def map_update_where_erased)

lemma administered_own: "(administered d)\<lparr>attachments := map (at_msgId_update (\<lambda>x. None)) (attachments d)\<rparr> = administered d"
  by (simp add: administered_def)

lemma administered_store: "administered (snd (store_message env dto key hash rid cid d)) = administered d"
  by (simp add: store_message_def Let_def fresh_id_def administered_api_emit administered_attachments administered_own)

lemma administered_thread:
  assumes "\<And>d. administered (race d) = administered d"
  shows "administered (snd (api_findOrCreateConversation race now e ch to d)) = administered d"
proof -
  obtain d0 cs n where d0: "d0 = d \<or> d0 = race d"
    and s: "snd (api_findOrCreateConversation race now e ch to d) = d0\<lparr>uuid_next := n, conversations := cs\<rparr>"
    using opened_thread_state [of d race now e ch to] by blast
  from d0 assms have "administered d0 = administered d" by metis
  then show ?thesis unfolding s by simp
qed

lemma administered_accept:
  assumes "\<And>d. administered (se_race env d) = administered d"
  shows "administered (snd (accept_message env dto key rid d)) = administered d"
proof -
  have t: "administered d1 = administered d" if "api_findOrCreateConversation (se_race env) now e ch to d = (c, d1)" for now e ch to c d1
    using administered_thread [OF assms, of now e ch to d] that by simp
  have s: "administered d2 = administered d1" if "store_message env dto key hash rid cid d1 = (r, d2)" for hash cid d1 r d2
    using administered_store [of env dto key hash rid cid d1] that by simp
  show ?thesis
    by (auto simp: accept_message_def administered_enqueue dest!: t s split: option.split prod.split sum.split)
qed

lemma administered_send:
  assumes "\<And>d. administered (se_race env d) = administered d"
  shows "administered (snd (send env dto key rid d)) = administered d"
  by (simp add: send_def Let_def administered_accept [OF assms] split: sum.split option.split)

lemma administered_token_guards:
  "administered (snd (apiTokenGuard env req d)) = administered d"
  "administered (snd (sessionOrTokenGuard env req d)) = administered d"
  by (simp_all add: apiTokenGuard_def sessionOrTokenGuard_def administered_token split: option.split)

lemma administered_guard: "administered (snd (pass_guard env req g d)) = administered d"
proof (cases g)
  case TokenOnly
  then show ?thesis using administered_token_guards(1) [of env req d] by (auto split: prod.split sum.split)
next
  case SessionOrToken
  then show ?thesis using administered_token_guards(2) [of env req d] by (auto split: prod.split)
qed (simp_all split: sum.split)

lemma administered_open:
  assumes "\<And>d. administered (se_race (ap_send env) d) = administered d" and "guard_of route \<noteq> SessionOnly"
  shows "administered (snd (run_route env req route d)) = administered d"
proof (cases route)
  case (ToAuth r)
  with assms(2) show ?thesis
    by (cases r) (simp_all add: login_def validatePassword_def administered_login split: option.split)
next
  case (ToWebhooks r)
  then show ?thesis by (cases r) simp_all
next
  case (ToMessages r)
  with assms(2) show ?thesis by (cases r) (simp_all add: administered_send [OF assms(1)])
next
  case (ToMedia r)
  with assms(2) show ?thesis by (cases r) simp_all
next
  case (ToDestinations r)
  with assms(2) show ?thesis by (cases r) simp_all
qed (use assms(2) in simp_all)

lemma administered_call:
  assumes "\<And>d. administered (se_race (ap_send env) d) = administered d" and "rq_user req = None"
  shows "administered (snd (api_call env req route d)) = administered d"
proof (cases "pass_guard (ap_access env) req (guard_of route) d")
  case (Pair e d')
  then have g: "administered d' = administered d" using administered_guard by (metis snd_conv)
  show ?thesis
  proof (cases e)
    case None
    with Pair assms(2) have "guard_of route \<noteq> SessionOnly" by (auto simp: sessionGuard_def)
    with Pair None g show ?thesis by (simp add: api_call_def administered_open [OF assms(1)])
  qed (use Pair g in \<open>simp add: api_call_def\<close>)
qed



definition quiet_env :: api_env where
  "quiet_env = \<lparr>ap_access = clear_env 0, ap_send = sample_send_env,
     ap_prov = \<lparr>pr_adapters = (\<lambda>s. None), pr_now = 0, pr_iso = (\<lambda>t. []), pr_parse = (\<lambda>s. None), pr_fmt = (\<lambda>r. [])\<rparr>,
     ap_balance = balance_is None, ap_checker = (\<lambda>s. None), ap_media = sample_media_env, ap_decode = (\<lambda>s. []), ap_now = 0,
     ap_iso = (\<lambda>t. []), ap_uuid = (\<lambda>s. True), ap_isUUID = (\<lambda>s. True), ap_isUrl = (\<lambda>s. True), ap_nulls = True,
     ap_random = [], ap_removable = False, ap_unlinks = False, ap_polls = [], ap_requestId = [],
     ap_version = JStr (lit ''1.0''), ap_ping = Inr (), ap_openapi = Some (JObj [])\<rparr>"

definition no_credentials :: request where
  "no_credentials = \<lparr>rq_user = None, rq_authorization = None, rq_id = [], rq_exp = None, rq_sig = None\<rparr>"

definition boss :: request where
  "boss = no_credentials\<lparr>rq_user := Some \<lparr>su_id = lit ''u'', su_username = lit ''admin''\<rparr>\<rparr>"



text \<open>
  The audit log does not say who did it: for destinations (and for all the rest but
  accounts and numbers) the record of an action names the actor that the body of the request
  claims, or nobody, whoever the session belongs to; for an account it names the user of the
  session.
\<close>

theorem audit_names_claimed_actor:
  assumes "rq_user req = Some u" and "find_destination d i = Some r" and "accs.lookup d j = Some a"
  shows "(\<exists>row. audit_logs (snd (api_call env req (ToDestinations (DeleteDestination i actor)) d)) = audit_logs d @ [row]
      \<and> au_action row = lit ''destination.deleted'' \<and> au_actorId row = actor)
    \<and> (\<exists>row. audit_logs (snd (api_call env req (ToAccounts (UpdateAccount j data)) d)) = audit_logs d @ [row]
      \<and> au_action row = lit ''transport_account.updated'' \<and> au_actorId row = Some (su_id u))"
  using assms by (simp add: api_call_def sessionGuard_def destination_delete_def account_update_def account_get_def Let_def
      actor_of_def audit_log_def)

theorem audit_names_claimed_actor_witness:
  "\<exists>row. audit_logs (snd (api_call quiet_env boss (ToDestinations (DeleteDestination (lit ''d'') (Some (lit ''someone else''))))
     (crm_db\<lparr>accounts := [sample_account]\<rparr>))) = [row] \<and> au_actorId row = Some (lit ''someone else'')"
proof -
  let ?d = "crm_db\<lparr>accounts := [sample_account]\<rparr>"
  have "rq_user boss = Some \<lparr>su_id = lit ''u'', su_username = lit ''admin''\<rparr>" by (simp add: boss_def)
  moreover have "find_destination ?d (lit ''d'') = Some crm"
    by (simp add: find_destination_def crm_db_def crm_def created_destination_def)
  moreover have "accs.lookup ?d (ac_id sample_account) = Some sample_account" by (simp add: accs.lookup_def)
  ultimately show ?thesis
    using audit_names_claimed_actor [of boss _ ?d "lit ''d''" crm "ac_id sample_account" sample_account quiet_env
        "Some (lit ''someone else'')" "\<lparr>ch_name = None, ch_status = None, ch_config = None\<rparr>"]
    by (auto simp: crm_db_def empty_db_def)
qed

end
