(* ===== verification/Wizard.thy ===== *)
theory Wizard
  imports Provisioning
begin

text \<open>
  The provisioning wizard of the panel (apps/web/src/components/ProvisioningWizard.tsx) on top
  of the API's provisioning service: its state machine from the form over the QR code to the
  linked number or the failure, its polling, and its cancel button. A step of the wizard is
  what one press, answer, tick of the timer or closing does to the screen and to the
  database. A poll whose answer comes after the code has left the screen still changes the
  database, and other administrators may provision at the same time.
\<close>

section \<open>The wizard\<close>

datatype wizard_message = TimeUp | ApiMessage provision_error

text \<open>\<open>Closed\<close>: the dialog is not open. \<open>Entering\<close>: the request for a code is under way, with what it will be answered.\<close>

datatype wizard =
    Closed
  | Idle
  | Entering "provision_error + qr_response"
  | ShowQr ustring "ustring option" "ustring option" int
  | Done endpoint_row
  | Broken wizard_message

record wizard_form =
  wf_label :: ustring
  wf_deviceName :: ustring
  wf_phoneE164 :: ustring

definition isSignal :: "account_row \<Rightarrow> bool" where
  "isSignal account \<longleftrightarrow> ac_adapter account = lit ''signal-cli-rest-api''"

definition isWhatsapp :: "account_row \<Rightarrow> bool" where
  "isWhatsapp account \<longleftrightarrow> ac_adapter account = lit ''unoapi'' \<or> ac_adapter account = lit ''gwmd''"

text \<open>When the button is active, and what \<open>start\<close> itself requires.\<close>

definition can_press :: "account_row \<Rightarrow> wizard_form \<Rightarrow> bool" where
  "can_press account f \<longleftrightarrow> js_trim (wf_label f) \<noteq> []
     \<and> (if isSignal account then js_trim (wf_deviceName f) \<noteq> [] else js_trim (wf_phoneE164 f) \<noteq> [])"

definition form_complete :: "account_row \<Rightarrow> wizard_form \<Rightarrow> bool" where
  "form_complete account f \<longleftrightarrow> js_trim (wf_label f) \<noteq> []
     \<and> (isSignal account \<longrightarrow> js_trim (wf_deviceName f) \<noteq> []) \<and> (isWhatsapp account \<longrightarrow> js_trim (wf_phoneE164 f) \<noteq> [])"

definition wizard_payload :: "account_row \<Rightarrow> wizard_form \<Rightarrow> provision_qr_dto" where
  "wizard_payload account f =
     \<lparr>pq_kind = (if isSignal account then kind_signal else kind_whatsapp), pq_label = js_trim (wf_label f),
      pq_deviceName = (if isSignal account then Some (js_trim (wf_deviceName f)) else None),
      pq_phoneE164 = (if isWhatsapp account then Some (js_trim (wf_phoneE164 f)) else None)\<rparr>"

text \<open>The shape of the body: the number of an account that is neither is not sent, and the API requires it.\<close>

definition payload_ok :: "provision_qr_dto \<Rightarrow> bool" where
  "payload_ok dto \<longleftrightarrow> (case pq_kind dto of kind_signal \<Rightarrow> pq_deviceName dto \<noteq> None | kind_whatsapp \<Rightarrow> pq_phoneE164 dto \<noteq> None)"

definition wizard_start ::
  "provision_env \<Rightarrow> account_row \<Rightarrow> ustring option \<Rightarrow> wizard_form \<Rightarrow> wizard \<times> db \<Rightarrow> wizard \<times> db" where
  "wizard_start env account actorId f s = (case s of (w, d) \<Rightarrow>
     if w \<noteq> Idle \<or> \<not> can_press account f \<or> \<not> form_complete account f then s
     else let dto = wizard_payload account f in
          if \<not> payload_ok dto then (Entering (Inl InputMissing), d)
          else map_prod Entering id (startQr env (ac_id account) dto actorId d))"

fun wizard_answer :: "wizard \<Rightarrow> wizard" where
  "wizard_answer (Entering (Inr r)) = ShowQr (qp_endpointId r) (qp_uri r) (qp_qrImageUrl r) (qp_ttlSeconds r)"
| "wizard_answer (Entering (Inl err)) = Broken (ApiMessage err)"
| "wizard_answer w = w"

text \<open>A tick of the timer; an error is taken for a network blip.\<close>

fun wizard_tick :: "provision_env \<Rightarrow> account_row \<Rightarrow> wizard \<times> db \<Rightarrow> wizard \<times> db" where
  "wizard_tick env account (ShowQr i uri img ttl, d) =
     (case prov_poll env (ac_id account) i d of
        (Inl err, d') \<Rightarrow> (ShowQr i uri img ttl, d')
      | (Inr st, d') \<Rightarrow>
          (if st = linked then case eps.lookup d' i of Some e \<Rightarrow> Done e | None \<Rightarrow> ShowQr i uri img ttl
           else if st = reg_failed then Broken TimeUp
           else ShowQr i uri img ttl, d'))"
| "wizard_tick env account (w, d) = (w, d)"

fun wizard_cancel :: "provision_env \<Rightarrow> ustring option \<Rightarrow> wizard \<times> db \<Rightarrow> wizard \<times> db" where
  "wizard_cancel env actorId (ShowQr i uri img ttl, d) = (Idle, snd (unlink env i actorId d))"
| "wizard_cancel env actorId (w, d) = (Idle, d)"

section \<open>The state machine\<close>

inductive wizard_step :: "account_row \<Rightarrow> wizard \<times> db \<Rightarrow> wizard \<times> db \<Rightarrow> bool" for account where
  opened: "wizard_step account (Closed, d) (Idle, d)"
| pressed: "wizard_step account (Idle, d) (wizard_start env account actorId f (Idle, d))"
| answered: "wizard_step account (Entering r, d) (wizard_answer (Entering r), d)"
| ticked: "wizard_step account (ShowQr i uri img ttl, d) (wizard_tick env account (ShowQr i uri img ttl, d))"
| cancelled: "wizard_step account (ShowQr i uri img ttl, d) (wizard_cancel env actorId (ShowQr i uri img ttl, d))"
| again: "wizard_step account (Broken m, d) (Idle, d)"
| closed: "wizard_step account (w, d) (Closed, d)"
| late: "wizard_step account (w, d) (w, snd (prov_poll env (ac_id account) i d))"
| elsewhere: "prov_run d d' \<Longrightarrow> wizard_step account (w, d) (w, d')"

inductive_cases wizard_stepE: "wizard_step account (w, d) (w', d')"

text \<open>What is on the screen is so: a code belongs to a number of the account, and a number
  that is announced as linked was linked, switched on and registered.\<close>

fun wizard_shows :: "account_row \<Rightarrow> wizard \<Rightarrow> db \<Rightarrow> bool" where
  "wizard_shows account (Entering (Inr r)) d = (\<exists>e\<in>set (endpoints d). ep_id e = qp_endpointId r \<and> ep_accountId e = ac_id account)"
| "wizard_shows account (ShowQr i uri img ttl) d = (\<exists>e\<in>set (endpoints d). ep_id e = i \<and> ep_accountId e = ac_id account)"
| "wizard_shows account (Done e) d = (ep_accountId e = ac_id account \<and> ep_state e = linked \<and> ep_enabled e \<and> ep_registeredAt e \<noteq> None)"
| "wizard_shows account w d = True"

section \<open>What the screen shows\<close>

lemma ids_ahead_audit [simp]: "ids_ahead (audit_log a b c e f g d) = ids_ahead d"
  by (simp add: ids_ahead_def audit_log_def)

lemma ids_ahead_startQr: "ids_ahead d \<Longrightarrow> ids_ahead (snd (startQr env a dto actor d))"
  unfolding startQr_def fresh_id_def Let_def
  by (simp add: startQr_ids_ahead wizard_endpoint_def Let_def split: option.split sum.split prod.split)

definition numbers :: "db \<Rightarrow> (ustring \<times> ustring) set" where
  "numbers d = (\<lambda>e. (ep_id e, ep_accountId e)) ` set (endpoints d)"

lemma numbers_audit [simp]: "numbers (audit_log a b c e f g d) = numbers d"
  by (simp add: numbers_def)

lemma numbers_write: "(\<And>e. ep_id (f e) = ep_id e \<and> ep_accountId (f e) = ep_accountId e) \<Longrightarrow> numbers (write_endpoint i f d) = numbers d"
proof -
  assume f: "\<And>e. ep_id (f e) = ep_id e \<and> ep_accountId (f e) = ep_accountId e"
  have "map (\<lambda>e. (ep_id e, ep_accountId e)) (update_where P f es) = map (\<lambda>e. (ep_id e, ep_accountId e)) es" for P es
    using f by (simp add: update_where_def)
  then show "numbers (write_endpoint i f d) = numbers d"
    by (simp add: numbers_def write_endpoint_def flip: set_map)
qed

lemma numbers_poll: "numbers (snd (prov_poll env a i d)) = numbers d"
  unfolding prov_poll_def by (simp add: numbers_write link_endpoint_def split: option.split sum.split prod.split)

lemma numbers_verify: "numbers (snd (verify env a i code token actor d)) = numbers d"
  unfolding verify_def verify_failed_def Let_def
  by (simp add: numbers_write verified_endpoint_def Let_def split: option.split sum.split prod.split)

lemma numbers_unlink: "numbers (snd (unlink env i actor d)) = numbers d"
  unfolding unlink_def by (simp add: numbers_write unlinked_endpoint_def split: option.split sum.split prod.split)

lemma numbers_reattach: "numbers (snd (reattach env a i x actor d)) = numbers d"
  unfolding reattach_def by (simp add: numbers_write split: option.split sum.split prod.split)

lemma numbers_added: "numbers (d\<lparr>uuid_next := n, endpoints := es @ [e]\<rparr>) = insert (ep_id e, ep_accountId e) (numbers (d\<lparr>endpoints := es\<rparr>))"
  by (simp add: numbers_def)

lemma numbers_startQr:
  "numbers d \<subseteq> numbers (snd (startQr env a dto actor d))
   \<and> (\<forall>r. fst (startQr env a dto actor d) = Inr r \<longrightarrow> (qp_endpointId r, a) \<in> numbers (snd (startQr env a dto actor d)))"
  unfolding startQr_def fresh_id_def Let_def
  by (auto simp: numbers_write numbers_added wizard_endpoint_def Let_def qr_response_of_def split: option.split sum.split prod.split)

lemma numbers_run: "prov_run d d' \<Longrightarrow> numbers d \<subseteq> numbers d'"
proof (induction rule: prov_run.induct)
  case (started d d' env a dto actor)
  then show ?case using numbers_startQr by blast
qed (simp_all add: numbers_poll numbers_verify numbers_unlink numbers_reattach)

lemma shows_numbers:
  "(\<exists>e\<in>set (endpoints d). ep_id e = i \<and> ep_accountId e = a) \<longleftrightarrow> (i, a) \<in> numbers d"
  by (auto simp: numbers_def)

lemma shows_mono:
  assumes "numbers d \<subseteq> numbers d'" and "wizard_shows account w d" shows "wizard_shows account w d'"
proof (cases w)
  case (Entering r)
  with assms show ?thesis by (cases r) (auto simp: shows_numbers)
qed (use assms in \<open>auto simp: shows_numbers\<close>)

lemma shows_started:
  assumes "wizard_shows account w d" and "wizard_start env account actorId f (w, d) = (w', d')"
  shows "wizard_shows account w' d'"
proof (cases "startQr env (ac_id account) (wizard_payload account f) actorId d")
  case (Pair r d1)
  with numbers_startQr [of d env "ac_id account" "wizard_payload account f" actorId] assms
  show ?thesis by (cases r) (auto simp: wizard_start_def Let_def shows_numbers split: if_splits)
qed

text \<open>A poll that answers \<open>linked\<close> has linked the number just now, or found it linked.\<close>

lemma polled_linked:
  assumes "prov_poll env a i d = (Inr linked, d')" and "wizards_ok d"
  shows "\<exists>e. eps.lookup d' i = Some e \<and> ep_accountId e = a \<and> ep_state e = linked \<and> ep_enabled e \<and> ep_registeredAt e \<noteq> None"
proof -
  from assms(1) obtain e account adapter where e: "eps.lookup d i = Some e" "ep_accountId e = a"
    and g: "getAdapter env a d = Inr (account, adapter)"
    by (auto simp: prov_poll_def split: option.splits if_splits sum.splits)
  from g have acc: "accs.lookup d a = Some account" "pr_adapters env (ac_adapter account) = Some adapter"
    by (simp_all add: getAdapter_Inr)
  from assms(1) e g obtain list claimed where l: "pa_list adapter = Some list" "list (account_config_of account) = Inr claimed"
    by (auto simp: prov_poll_def split: option.splits sum.splits)
  show ?thesis
  proof (cases "poll_match env a e claimed d")
    case (Some x)
    have "\<not> uuid_taken i (or_else (pv_uuid x) (ep_uuid e)) d"
      using assms(1) e g l Some by (auto simp: prov_poll_def split: if_splits)
    with poll_claimed [OF e acc l, of x] Some assms(1) linked_row [OF e(1), of d' "\<lambda>x'. (link_endpoint (pr_now env) x x')\<lparr>ep_config := JObj []\<rparr>"] e(2)
    show ?thesis by (auto simp: link_endpoint_def)
  next
    case None
    with assms(1) e g l have "d' = d" "ep_state e = linked" by (auto simp: prov_poll_def split: if_splits)
    moreover have "wizard_ok e" using assms(2) e(1) by (auto simp: wizards_ok_def eps.lookup_def dest: find_SomeD)
    ultimately show ?thesis using e by (simp add: wizard_ok_def)
  qed
qed

lemma ticked_shows:
  assumes "wizards_ok d" and "wizard_shows account (ShowQr i uri img ttl) d"
    and "wizard_tick env account (ShowQr i uri img ttl, d) = (w', d')"
  shows "wizard_shows account w' d' \<and> (\<forall>e. w' = Done e \<longrightarrow> eps.lookup d' (ep_id e) = Some e)"
proof (cases "prov_poll env (ac_id account) i d")
  case (Pair r d1)
  have d': "d' = d1" using assms(3) Pair by (cases r) (auto split: if_splits)
  have n: "numbers d1 = numbers d" using numbers_poll [of env "ac_id account" i d] Pair by simp
  have shown: "wizard_shows account (ShowQr i uri img ttl) d1" using shows_mono [OF _ assms(2)] n by blast
  show ?thesis
  proof (cases "r = Inr linked")
    case True
    with Pair polled_linked [OF _ assms(1)] obtain e where e: "eps.lookup d1 i = Some e" "ep_accountId e = ac_id account"
      "ep_state e = linked" "ep_enabled e" "ep_registeredAt e \<noteq> None" by blast
    from e(1) have "ep_id e = i" by (auto simp: eps.lookup_def dest: find_SomeD)
    with e Pair True assms(3) d' show ?thesis by auto
  qed (use Pair assms(3) d' shown in \<open>cases r; auto split: if_splits\<close>)
qed

text \<open>The wizard's own operations and those of others keep the numbers in order.\<close>

lemma step_ok:
  assumes "wizard_step account s s'" and "wizards_ok (snd s)" and "wizard_shows account (fst s) (snd s)"
  shows "wizards_ok (snd s') \<and> wizard_shows account (fst s') (snd s')"
  using assms
proof (induction rule: wizard_step.induct)
  case (pressed d env actorId f)
  obtain w' d' where s: "wizard_start env account actorId f (Idle, d) = (w', d')" by fastforce
  have "wizards_ok d'" using s pressed wizards_ok_startQr [of d env "ac_id account" "wizard_payload account f" actorId]
    by (auto simp: wizard_start_def Let_def map_prod_def split: if_splits prod.splits)
  with s shows_started [OF _ s] show ?case by simp
next
  case (answered r d)
  then show ?case by (cases r) simp_all
next
  case (ticked i uri img ttl d env)
  obtain w' d' where s: "wizard_tick env account (ShowQr i uri img ttl, d) = (w', d')" by fastforce
  have "d' = snd (prov_poll env (ac_id account) i d)"
    using s by (auto split: prod.splits sum.splits)
  with wizards_ok_poll [of d env "ac_id account" i] ticked have "wizards_ok d'" by simp
  with ticked_shows [OF _ _ s] ticked show ?case unfolding s by simp
next
  case (late w d env i)
  then show ?case using shows_mono [of d "snd (prov_poll env (ac_id account) i d)" account w]
    by (simp add: wizards_ok_poll numbers_poll)
next
  case (elsewhere d d' w)
  have "wizards_ok d'" using elsewhere(1,2) by (induction rule: prov_run.induct)
    (simp_all add: wizards_ok_startQr wizards_ok_poll wizards_ok_verify wizards_ok_unlink wizards_ok_reattach)
  with shows_mono [OF numbers_run [OF elsewhere(1)]] elsewhere show ?case by simp
qed (simp_all add: wizards_ok_unlink)

text \<open>
  C35. The wizard shows the truth: whatever is pressed, answered, polled, closed and reopened,
  and whatever other administrators provision meanwhile, a code on the screen belongs to a
  number of the wizard's account, and the number that a tick announces as linked is, at that
  moment, the row in the database, linked, switched on and registered.
\<close>

theorem wizard_shows_truth:
  assumes "(wizard_step account)\<^sup>*\<^sup>* (Closed, d) (w, d')" and "wizards_ok d"
  shows "wizards_ok d' \<and> wizard_shows account w d'
    \<and> (\<forall>env e d''. w \<noteq> Done e \<longrightarrow> wizard_tick env account (w, d') = (Done e, d'') \<longrightarrow>
         eps.lookup d'' (ep_id e) = Some e \<and> ep_state e = linked \<and> ep_enabled e \<and> ep_accountId e = ac_id account)"
proof -
  have "wizards_ok (snd s) \<and> wizard_shows account (fst s) (snd s)" if "(wizard_step account)\<^sup>*\<^sup>* (Closed, d) s" for s
    using that by (induction rule: rtranclp_induct) (use assms(2) step_ok in auto)
  from this [OF assms(1)] have ok: "wizards_ok d'" "wizard_shows account w d'" by simp_all
  have "eps.lookup d'' (ep_id e) = Some e \<and> ep_state e = linked \<and> ep_enabled e \<and> ep_accountId e = ac_id account"
    if t: "w \<noteq> Done e" "wizard_tick env account (w, d') = (Done e, d'')" for env e d''
  proof (cases w)
    case (ShowQr i uri img ttl)
    with ticked_shows [of d' account i uri img ttl env "Done e" d''] ok t show ?thesis by simp
  qed (use t in simp_all)
  with ok show ?thesis by blast
qed

text \<open>A failing service is taken for a network blip, so the time of the code is never looked at.\<close>

lemma failing_service_keeps_wizard:
  assumes "\<forall>env\<in>set envs. \<exists>err d'. prov_poll env (ac_id account) i d = (Inl err, d)"
  shows "fold (\<lambda>env. wizard_tick env account) envs (ShowQr i uri img ttl, d) = (ShowQr i uri img ttl, d)"
  using assms by (induction envs) auto

text \<open>The service answers with these accounts.\<close>

definition lists_accounts :: "provision_env \<Rightarrow> account_row \<Rightarrow> provisioned list \<Rightarrow> bool" where
  "lists_accounts env account claimed \<longleftrightarrow> (\<exists>adapter list. pr_adapters env (ac_adapter account) = Some adapter
     \<and> pa_list adapter = Some list \<and> list (account_config_of account) = Inr claimed)"

definition external_ids :: "provisioned list \<Rightarrow> ustring set" where
  "external_ids xs = pv_externalId ` set xs"

lemma broken_ticks: "fold (\<lambda>env. wizard_tick env account) envs (Broken m, d) = (Broken m, d)"
  by (induction envs) simp_all

lemma ticks_until_expiry:
  assumes "\<And>env. env \<in> set envs \<Longrightarrow> prov_poll env (ac_id account) i d =
      (if deadline < pr_now env then (Inr reg_failed, gone d) else (Inr qr_displayed, d))"
  shows "fold (\<lambda>env. wizard_tick env account) envs (ShowQr i uri img ttl, d) =
      (if \<exists>env\<in>set envs. deadline < pr_now env then (Broken TimeUp, gone d) else (ShowQr i uri img ttl, d))"
  using assms by (induction envs) (simp_all add: broken_ticks)

lemma started_qr:
  assumes "wizard_start env account actorId f (Idle, d) = (w, d1)" and "wizard_answer w = ShowQr i uri img ttl"
  shows "\<exists>r. startQr env (ac_id account) (wizard_payload account f) actorId d = (Inr r, d1) \<and> qp_endpointId r = i \<and> qp_ttlSeconds r = ttl"
proof (cases "startQr env (ac_id account) (wizard_payload account f) actorId d")
  case (Pair r d2)
  with assms show ?thesis by (cases r) (auto simp: wizard_start_def Let_def split: if_splits)
qed


text \<open>
  Cancelling cancels nothing: the button asks the API to unlink the number, which the API
  refuses for every number that is not linked, and the refusal is ignored; the wizard goes
  back to its form, the row and its code stay, and the next start makes a second row.
\<close>

theorem cancel_keeps_waiting_number:
  assumes "wizard_start env account actorId f (Idle, d) = (w, d1)" and "wizard_answer w = ShowQr i uri img ttl" and "ids_ahead d"
  shows "wizard_cancel env' actorId' (ShowQr i uri img ttl, d1) = (Idle, d1)
    \<and> (\<exists>e. eps.lookup d1 i = Some e \<and> ep_state e = qr_displayed)
    \<and> (\<forall>env2 w2 d2 j uri2 img2 ttl2. wizard_start env2 account actorId f (Idle, d1) = (w2, d2)
        \<and> wizard_answer w2 = ShowQr j uri2 img2 ttl2 \<longrightarrow>
        length (endpoints d2) = length (endpoints d) + 2)"
proof -
  from started_qr [OF assms(1,2)] obtain r where r: "startQr env (ac_id account) (wizard_payload account f) actorId d = (Inr r, d1)"
    "qp_endpointId r = i" by blast
  from startQr_Inr [OF r(1) assms(3)] r(2) obtain known q where q:
    "endpoints d1 = endpoints d @ [waiting_row env i (ac_id account) (wizard_payload account f) known q]"
    "i \<notin> ep_id ` set (endpoints d)" by blast
  let ?e = "waiting_row env i (ac_id account) (wizard_payload account f) known q"
  have e: "ep_id ?e = i" "ep_state ?e = qr_displayed" by (simp_all add: waiting_row_def wizard_endpoint_def Let_def)
  have l: "eps.lookup d1 i = Some ?e"
    using q e(1) by (auto simp: eps.lookup_def find_append find_None_iff image_iff split: option.split dest!: find_SomeD)
  have ids1: "ids_ahead d1" using ids_ahead_startQr [OF assms(3)] r(1) by (metis snd_conv)
  have "length (endpoints d2) = length (endpoints d) + 2"
    if "wizard_start env2 account actorId f (Idle, d1) = (w2, d2)" "wizard_answer w2 = ShowQr j uri2 img2 ttl2"
    for env2 w2 d2 j uri2 img2 ttl2
    using started_qr [OF that(1,2)] startQr_Inr [OF _ ids1] q(1) by fastforce
  with l e(2) show ?thesis by (auto simp: unlink_def)
qed

section \<open>A concrete wizard\<close>

definition phone_account :: account_row where
  "phone_account = signal_account\<lparr>ac_adapter := lit ''signal-cli-rest-api''\<rparr>"

definition phone_state :: db where
  "phone_state = (signal_state [])\<lparr>accounts := [phone_account]\<rparr>"

definition phone_form :: wizard_form where
  "phone_form = \<lparr>wf_label = lit ''l'', wf_deviceName = lit ''umg'', wf_phoneE164 = []\<rparr>"

definition phone_start :: "wizard \<times> db" where
  "phone_start = wizard_start (signal_env 1 []) phone_account None phone_form (Idle, phone_state)"

lemma phone_start_shows: "\<exists>i. wizard_answer (fst phone_start) = ShowQr i (Some (lit ''u'')) None 60"
proof -
  have t: "js_trim (lit ''l'') = lit ''l''" "js_trim (lit ''umg'') = lit ''umg''"
    by (simp_all add: js_trim_def js_space_def string_simps)
  show ?thesis
    by (simp add: phone_start_def wizard_start_def phone_form_def phone_account_def signal_account_def demo_account_def isSignal_def
        isWhatsapp_def can_press_def form_complete_def wizard_payload_def payload_ok_def t Let_def startQr_def getAdapter_def
        account_get_def accs.lookup_def phone_state_def fresh_id_def signal_env_def device_name_def qr_response_of_def)
qed

lemma phone_ids: "ids_ahead phone_state" "wizards_ok phone_state" "accs.lookup phone_state (ac_id phone_account) = Some phone_account"
  using signal_state_ok by (simp_all add: wizards_ok_def ids_ahead_def phone_state_def signal_state_def accs.lookup_def)

theorem wizard_shows_truth_witness: "wizards_ok (snd phone_start) \<and> wizard_shows phone_account (fst phone_start) (snd phone_start)"
proof -
  have "(wizard_step phone_account)\<^sup>*\<^sup>* (Closed, phone_state) phone_start"
    unfolding phone_start_def
    by (rule rtranclp_trans [of _ _ "(Idle, phone_state)"]) (intro r_into_rtranclp wizard_step.opened wizard_step.pressed)+
  then show ?thesis
    using wizard_shows_truth [of phone_account phone_state "fst phone_start" "snd phone_start"] phone_ids(2) by simp
qed


theorem cancel_keeps_waiting_number_witness:
  "\<exists>i. wizard_answer (fst phone_start) = ShowQr i (Some (lit ''u'')) None 60
    \<and> wizard_cancel (signal_env 2 []) None (ShowQr i (Some (lit ''u'')) None 60, snd phone_start) = (Idle, snd phone_start)"
proof -
  obtain i where i: "wizard_answer (fst phone_start) = ShowQr i (Some (lit ''u'')) None 60" using phone_start_shows by blast
  have s: "wizard_start (signal_env 1 []) phone_account None phone_form (Idle, phone_state) = (fst phone_start, snd phone_start)"
    by (simp add: phone_start_def)
  from cancel_keeps_waiting_number [OF s i phone_ids(1), of "signal_env 2 []" None] i show ?thesis by blast
qed

end
