(* ===== verification/Chat.thy ===== *)
theory Chat
  imports Http
begin

text \<open>
  The test chat of the panel (apps/web/src/pages/TestChat.tsx): which channels and numbers it
  offers, what opening a conversation fills in, when a message can be sent, and what the
  send button does: it uploads the file, then posts the message, both through the routes of
  the API with the session of the administrator. The list of accounts is what the panel
  loaded some time ago. A reply stays in its conversation, on the number of the conversation;
  without a loaded account of the channel it does not.
\<close>

section \<open>The page\<close>

type_synonym account_items = "(account_row \<times> endpoint_row list) list"

record chat_page =
  ch_selectedId :: "ustring option"
  ch_composingNew :: bool
  ch_text :: ustring
  ch_channel :: "channel_type option"
  ch_endpointId :: ustring
  ch_to :: ustring
  ch_failed :: bool
  ch_file :: "(nat list \<times> ustring \<times> ustring) option"

definition blank_chat :: chat_page where
  "blank_chat = \<lparr>ch_selectedId = None, ch_composingNew = False, ch_text = [], ch_channel = None, ch_endpointId = [],
     ch_to = [], ch_failed = False, ch_file = None\<rparr>"

definition activeAccounts :: "account_items \<Rightarrow> account_items" where
  "activeAccounts = filter (\<lambda>(a, es). ac_status a = acc_active)"

definition CHANNELS :: "channel_type list" where
  "CHANNELS = [signal, whatsapp, sms, mock]"

definition usableChannels :: "account_items \<Rightarrow> channel_type list" where
  "usableChannels loaded =
     filter (\<lambda>c. list_ex (\<lambda>(a, es). ac_type a = c \<and> list_ex ep_enabled es) (activeAccounts loaded)) CHANNELS"

definition default_channel :: "account_items \<Rightarrow> chat_page \<Rightarrow> chat_page" where
  "default_channel loaded st = (case usableChannels loaded of
       c # cs \<Rightarrow> if ch_channel st = None then st\<lparr>ch_channel := Some c\<rparr> else st
     | [] \<Rightarrow> st)"

definition channelEndpoints :: "account_items \<Rightarrow> channel_type option \<Rightarrow> (endpoint_row \<times> account_row) list" where
  "channelEndpoints loaded ch = concat (map (\<lambda>(a, es). map (\<lambda>e. (e, a)) (filter ep_enabled es))
     (filter (\<lambda>(a, es). Some (ac_type a) = ch) (activeAccounts loaded)))"

definition chosen_account_of :: "account_items \<Rightarrow> chat_page \<Rightarrow> account_row option" where
  "chosen_account_of loaded st =
     (case find (\<lambda>(e, a). ep_id e = ch_endpointId st) (channelEndpoints loaded (ch_channel st)) of
        Some (e, a) \<Rightarrow> Some a
      | None \<Rightarrow> map_option fst (find (\<lambda>(a, es). Some (ac_type a) = ch_channel st) (activeAccounts loaded)))"

definition pick_channel :: "channel_type \<Rightarrow> chat_page \<Rightarrow> chat_page" where
  "pick_channel c st = st\<lparr>ch_channel := Some c, ch_endpointId := []\<rparr>"

text \<open>A click on a conversation. The effect that fills in the fields runs when another one is selected.\<close>

definition open_conversation :: "conversation_row \<Rightarrow> chat_page \<Rightarrow> chat_page" where
  "open_conversation c st =
     (let st' = st\<lparr>ch_composingNew := False, ch_selectedId := Some (cv_id c)\<rparr>
      in if ch_selectedId st = Some (cv_id c) then st'
         else st'\<lparr>ch_to := (case cv_peerPhone c of Some ph \<Rightarrow> ph | None \<Rightarrow> []), ch_channel := Some (cv_channelType c),
                 ch_endpointId := cv_endpointId c, ch_failed := False\<rparr>)"

definition startNewChat :: "chat_page \<Rightarrow> chat_page" where
  "startNewChat st = st\<lparr>ch_selectedId := None, ch_composingNew := True, ch_to := [], ch_text := [], ch_failed := False\<rparr>"

definition can_send :: "chat_page \<Rightarrow> bool" where
  "can_send st \<longleftrightarrow> (js_trim (ch_text st) \<noteq> [] \<or> ch_file st \<noteq> None) \<and> js_trim (ch_to st) \<noteq> [] \<and> ch_channel st \<noteq> None"

section \<open>Sending\<close>

definition file_type :: "ustring \<Rightarrow> message_type" where
  "file_type mime =
     (if starts_with (lit ''image/'') mime then image else if starts_with (lit ''video/'') mime then video
      else if starts_with (lit ''audio/'') mime then audio else document)"

text \<open>The body of the request; members that are undefined are not sent.\<close>

definition chat_request :: "account_items \<Rightarrow> chat_page \<Rightarrow> channel_type \<Rightarrow> ustring list option \<Rightarrow> send_dto" where
  "chat_request loaded st channel files =
     (let acc = map_option ac_id (chosen_account_of loaded st);
          ep = (if ch_endpointId st \<noteq> [] then Some (ch_endpointId st) else None);
          ty = (case ch_file st of Some (bytes, name, mime) \<Rightarrow> file_type mime | None \<Rightarrow> text_t)
      in \<lparr>sd_channel = channel, sd_accountId = acc, sd_endpointId = ep, sd_to = ch_to st, sd_type = ty,
          sd_content = [(lit ''text'', JStr (ch_text st))], sd_attachments = files, sd_replyTo = None,
          sd_scheduledAt = None, sd_metadata = None,
          sd_body = [(lit ''channel'', JStr (channel_name channel))]
            @ (case acc of Some a \<Rightarrow> [(lit ''accountId'', JStr a)] | None \<Rightarrow> [])
            @ (case ep of Some e \<Rightarrow> [(lit ''endpointId'', JStr e)] | None \<Rightarrow> [])
            @ [(lit ''to'', JStr (ch_to st)), (lit ''type'', JStr (type_name ty)),
               (lit ''content'', JObj [(lit ''text'', JStr (ch_text st))])]
            @ (case files of Some ids \<Rightarrow> [(lit ''attachments'', JArr (map JStr ids))] | None \<Rightarrow> [])\<rparr>)"

definition upload_file :: "api_env \<Rightarrow> request \<Rightarrow> chat_page \<Rightarrow> db \<Rightarrow> ustring list option option \<times> db" where
  "upload_file env req st d =
     (case ch_file st of
        None \<Rightarrow> (Some None, d)
      | Some (bytes, name, mime) \<Rightarrow>
          (case api_call env req (ToMedia (UploadMedia (FormFile bytes name mime) None)) d of
             (Uploaded (Inr row), d') \<Rightarrow> (Some (Some [at_attId row]), d')
           | (_, d') \<Rightarrow> (None, d')))"

definition chat_send :: "api_env \<Rightarrow> request \<Rightarrow> account_items \<Rightarrow> chat_page \<Rightarrow> db \<Rightarrow> chat_page \<times> db" where
  "chat_send env req loaded st d =
     (if \<not> can_send st then (st, d)
      else case upload_file env req st d of
             (None, d1) \<Rightarrow> (st\<lparr>ch_failed := True\<rparr>, d1)
           | (Some files, d1) \<Rightarrow>
               (case api_call env req (ToMessages (UiSend (chat_request loaded st (the (ch_channel st)) files) None)) d1 of
                  (Sent (Inr r), d2) \<Rightarrow>
                    (st\<lparr>ch_text := [], ch_file := None, ch_failed := False, ch_composingNew := False\<rparr>, d2)
                | (_, d2) \<Rightarrow> (st\<lparr>ch_failed := True\<rparr>, d2)))"

section \<open>A reply stays in its conversation\<close>

lemma session_call: "rq_user req = Some u \<Longrightarrow> guard_of route = SessionOnly \<Longrightarrow> api_call env req route d = run_route env req route d"
  by (simp add: api_call_def sessionGuard_def)

lemma found_thread:
  assumes "one_thread d" and "c \<in> set (conversations d)" and "cv_peerPhone c = Some ph" and "e164_shape ph"
  shows "api_findOrCreateConversation race now (cv_endpointId c) ch ph d = (Some c, d)"
proof -
  have n: "toE164 ph default_country = Some ph" "ph \<noteq> []"
    using toE164_shape_fixed [OF assms(4)] e164_shape_not_Nil [OF assms(4)] by simp_all
  let ?P = "thread_where (cv_endpointId c) (Some ph) (Some ph)"
  have "?P c" using assms(3) n(2) by (simp add: thread_where_def)
  with assms(2) obtain t where t: "find ?P (conversations d) = Some t"
    by (metis find_None_iff not_None_eq)
  from find_SomeD [OF t] n(2) have "t \<in> set (conversations d)" "cv_endpointId t = cv_endpointId c" "cv_peerPhone t = Some ph"
    by (simp_all add: thread_where_def)
  with thread_keys_inj [OF assms(1) [unfolded one_thread_def], of t c] assms(2,3) have "t = c" by blast
  with t n show ?thesis by (simp add: api_findOrCreateConversation_def Let_def)
qed

lemma send_on_thread:
  assumes "send env dto None rid d = (res, d')" and "se_race env = id"
    and "sd_accountId dto = Some a" and "a \<noteq> []" and "sd_endpointId dto = Some (cv_endpointId c)" and "cv_endpointId c \<noteq> []"
    and "one_thread d" and "c \<in> set (conversations d)" and "cv_peerPhone c = Some (sd_to dto)" and "e164_shape (sd_to dto)"
  shows "messages d' = messages d \<or> (\<exists>m. messages d' = messages d @ [m] \<and> ms_direction m = outbound
    \<and> ms_conversationId m = Some (cv_id c) \<and> ms_endpointId m = cv_endpointId c)"
proof (cases "resolve_sender d dto")
  case (Inl err)
  with assms(1) show ?thesis by (simp add: send_def)
next
  case (Inr p)
  with assms(3-6) have p: "p = (a, cv_endpointId c)" by (auto simp: resolve_sender_def split: option.splits)
  let ?dto = "assign_sender a (cv_endpointId c) dto"
  have acc: "accept_message env ?dto None rid d = (res, d')" using assms(1) Inr p by (simp add: send_def known_request_def)
  show ?thesis
  proof (cases res)
    case (Inl err)
    with acc accept_message_Inl [OF _ assms(2), of ?dto None rid d err d'] show ?thesis by simp
  next
    case (Inr r)
    with acc have "accept_message env ?dto None rid d = (Inr r, d')" by simp
    then obtain c' d1 m d2 where
      o': "api_findOrCreateConversation id (se_now env) (the (sd_endpointId ?dto)) (sd_channel ?dto) (sd_to ?dto) d = (Some c', d1)"
      and st: "store_message env ?dto None (hashRequest (se_fmt env) ?dto) rid (cv_id c') d1 = (Inr m, d2)"
      and r: "d' = (if truthy_str (sd_scheduledAt ?dto) then d2 else enqueueSend (ms_id m) None d2)"
      by (rule accept_message_Inr) (use assms(2) in auto)
    from o' found_thread [OF assms(7,8,9,10)] have "c' = c" "d1 = d" by (simp_all add: assign_sender_def)
    with store_message_Inr [OF st] r show ?thesis by (auto simp: assign_sender_def enqueueSend_def)
  qed
qed

lemma uploaded_frame:
  assumes "upload_file env req st d = (files, d1)" and "rq_user req = Some u"
  shows "messages d1 = messages d \<and> conversations d1 = conversations d"
proof (cases "ch_file st")
  case (Some f)
  obtain bytes name mime where f: "f = (bytes, name, mime)" by (cases f)
  obtain r d2 where r: "upload (ap_media env) bytes (or_text ''file'' name) (or_text ''application/octet-stream'' mime) None d = (r, d2)"
    by fastforce
  have "messages d2 = messages d \<and> conversations d2 = conversations d"
    using arg_cong [OF r, of snd] by (auto simp: upload_def fresh_id_def audit_log_def Let_def)
  moreover have "d1 = d2"
    using assms Some f r by (cases r) (simp_all add: upload_file_def session_call)
  ultimately show ?thesis by simp
qed (use assms in \<open>simp add: upload_file_def\<close>)

text \<open>The chosen account of a channel that has one is one of the loaded accounts.\<close>

lemma chosen_account_loaded:
  assumes "(a, es) \<in> set loaded" and "ac_status a = acc_active" and "Some (ac_type a) = ch_channel st"
  shows "\<exists>b bs. chosen_account_of loaded st = Some b \<and> (b, bs) \<in> set loaded"
proof (cases "find (\<lambda>(e, a). ep_id e = ch_endpointId st) (channelEndpoints loaded (ch_channel st))")
  case None
  have "(a, es) \<in> set (activeAccounts loaded)" using assms by (simp add: activeAccounts_def)
  then have "find (\<lambda>(a, es). Some (ac_type a) = ch_channel st) (activeAccounts loaded) \<noteq> None"
    using assms(3) unfolding find_None_iff by auto
  then obtain b bs where "find (\<lambda>(a, es). Some (ac_type a) = ch_channel st) (activeAccounts loaded) = Some (b, bs)" by auto
  with None find_SomeD [OF this] show ?thesis by (auto simp: chosen_account_of_def activeAccounts_def)
next
  case (Some p)
  obtain e b where p: "p = (e, b)" by (cases p)
  from find_SomeD [OF Some] p have "(e, b) \<in> set (channelEndpoints loaded (ch_channel st))" by simp
  with Some p show ?thesis by (auto simp: chosen_account_of_def channelEndpoints_def activeAccounts_def)
qed


text \<open>Without a loaded account of the channel the number of the conversation is sent, but the API
  looks at it only together with an account, and chooses the account and the number itself.\<close>

lemma reply_without_accounts:
  assumes "chosen_account_of loaded st = None"
  shows "resolve_sender d (chat_request loaded st channel files) =
    (case pick_account d channel of
       None \<Rightarrow> Inl NoActiveEndpoint
     | Some account \<Rightarrow> (case enabled_endpoints d (ac_id account) of
                        [] \<Rightarrow> Inl NoActiveEndpoint | e # es \<Rightarrow> Inr (ac_id account, ep_id e)))"
  using assms by (simp add: resolve_sender_def chat_request_def Let_def)

definition sample_thread :: conversation_row where
  "sample_thread = \<lparr>cv_id = lit ''t'', cv_channelType = sms, cv_endpointId = lit ''e'', cv_peerId = None,
     cv_peerPhone = Some (lit ''+380671112233''), cv_lastMessageAt = None\<rparr>"

definition chat_db :: db where
  "chat_db = (gateway_db [])\<lparr>conversations := [sample_thread]\<rparr>"

definition sample_chat :: chat_page where
  "sample_chat = (open_conversation sample_thread blank_chat)\<lparr>ch_text := lit ''hi'', ch_file := None\<rparr>"

lemma sample_phone: "e164_shape (lit ''+380671112233'')" "js_trim (lit ''+380671112233'') \<noteq> []"
proof -
  show "e164_shape (lit ''+380671112233'')" by (simp add: e164_shape_def string_simps is_digit_def)
  then show "js_trim (lit ''+380671112233'') \<noteq> []" using e164_shape_trim by (metis e164_shape_not_Nil)
qed

lemma sent_is_stored:
  assumes "send env dto None rid d = (Inr r, d')" shows "messages d' \<noteq> []"
proof -
  from assms obtain acc ep where "accept_message env (assign_sender acc ep dto) None rid d = (Inr r, d')"
    by (auto simp: send_def known_request_def Let_def split: sum.splits)
  then show ?thesis by (rule accept_message_Inr) (auto dest!: store_message_Inr simp: enqueueSend_def)
qed

lemma sample_chat_sends: "\<exists>r d'. send sample_send_env (chat_request [(sample_account, [sample_endpoint])] sample_chat sms None) None [] chat_db = (Inr r, d')"
proof -
  let ?dto = "chat_request [(sample_account, [sample_endpoint])] sample_chat sms None"
  have dto: "sd_accountId ?dto = Some (lit ''a'')" "sd_endpointId ?dto = Some (lit ''e'')" "sd_scheduledAt ?dto = None"
    "sd_attachments ?dto = None" "sd_to ?dto = lit ''+380671112233''"
    by (simp_all add: chat_request_def Let_def sample_chat_def open_conversation_def blank_chat_def sample_thread_def
        chosen_account_of_def channelEndpoints_def activeAccounts_def sample_account_def sample_endpoint_def)
  have rs: "resolve_sender chat_db ?dto = Inr (lit ''a'', lit ''e'')"
    using dto by (simp add: resolve_sender_def chat_db_def gateway_db_def sample_endpoint_def empty_db_def)
  have "api_findOrCreateConversation id 5 (cv_endpointId sample_thread) ch (lit ''+380671112233'') chat_db = (Some sample_thread, chat_db)" for ch
    by (rule found_thread) (simp_all add: one_thread_def thread_keys_def map_filter_simps chat_db_def sample_thread_def sample_phone)
  then have f: "api_findOrCreateConversation id 5 (lit ''e'') ch (lit ''+380671112233'') chat_db = (Some sample_thread, chat_db)" for ch
    by (simp add: sample_thread_def)
  obtain m d2 where "store_message sample_send_env (assign_sender (lit ''a'') (lit ''e'') ?dto) None
      (hashRequest (se_fmt sample_send_env) (assign_sender (lit ''a'') (lit ''e'') ?dto)) [] (cv_id sample_thread) chat_db = (Inr m, d2)"
    using dto(3) by (simp add: store_message_def assign_sender_def fresh_id_def Let_def)
  with f dto(3-5) show ?thesis
    by (simp add: send_def rs known_request_def accept_message_def check_attachments_def remdups_first_def sample_send_env_def
        assign_sender_def)
qed


end
