(* ===== verification/Channels.thy ===== *)
theory Channels
  imports Http
begin

text \<open>
  The page of channels of the panel (apps/web/src/pages/Channels.tsx): switching accounts and
  numbers, adding and deleting numbers, the balance of a SIM and its settings. Every action
  is a request to the API with the session of the administrator, and a successful one loads
  the accounts again. What the administrator answers to a question of the page is an
  argument. The lemmas show what a deletion asks for, that the page shows the database
  after a success, and which reading a change of the settings writes.
\<close>

section \<open>The page\<close>

record endpoint_draft =
  dr_label :: ustring
  dr_externalId :: ustring
  dr_phone :: ustring

definition emptyDraft :: endpoint_draft where
  "emptyDraft = \<lparr>dr_label = [], dr_externalId = [], dr_phone = []\<rparr>"

record channels_page =
  cp_accounts :: "(account_row \<times> endpoint_row list) list"
  cp_failed :: bool
  cp_drafts :: "ustring \<Rightarrow> endpoint_draft option"
  cp_balanceEditing :: "ustring option"

definition draft_of :: "channels_page \<Rightarrow> ustring \<Rightarrow> endpoint_draft" where
  "draft_of p i = (case cp_drafts p i of Some x \<Rightarrow> x | None \<Rightarrow> emptyDraft)"

definition updateDraft :: "ustring \<Rightarrow> (endpoint_draft \<Rightarrow> endpoint_draft) \<Rightarrow> channels_page \<Rightarrow> channels_page" where
  "updateDraft i patch p = p\<lparr>cp_drafts := (cp_drafts p)(i \<mapsto> patch (draft_of p i))\<rparr>"

definition canProvision :: "account_row \<Rightarrow> bool" where
  "canProvision account \<longleftrightarrow> ac_type account = signal \<or> ac_type account = whatsapp"

text \<open>The page as the browser shows it, and the database.\<close>

type_synonym panel_state = "channels_page \<times> db"

definition fetchAccounts :: "api_env \<Rightarrow> request \<Rightarrow> panel_state \<Rightarrow> panel_state" where
  "fetchAccounts env req s = (case s of (p, d) \<Rightarrow>
     (case api_call env req (ToAccounts ListAccounts) d of
        (AllAccounts xs, d') \<Rightarrow> (p\<lparr>cp_accounts := xs\<rparr>, d')
      | (_, d') \<Rightarrow> (p\<lparr>cp_failed := True\<rparr>, d')))"

fun succeeded :: "answer \<Rightarrow> bool" where
  "succeeded (AccountChanged (Inr a)) = True"
| "succeeded (EndpointChanged (Inr e)) = True"
| "succeeded (EndpointDeleted (Inr n)) = True"
| "succeeded (BalanceRead (Inr r)) = True"
| "succeeded (Provisioned None) = True"
| "succeeded _ = False"

text \<open>A request, and loading the accounts after it, or the message that it failed.\<close>

definition page_call :: "api_env \<Rightarrow> request \<Rightarrow> route \<Rightarrow> panel_state \<Rightarrow> panel_state" where
  "page_call env req route s = (case s of (p, d) \<Rightarrow>
     (case api_call env req route d of
        (ans, d') \<Rightarrow> if succeeded ans then fetchAccounts env req (p, d') else (p\<lparr>cp_failed := True\<rparr>, d')))"

definition request_ok :: "api_env \<Rightarrow> request \<Rightarrow> route \<Rightarrow> db \<Rightarrow> bool" where
  "request_ok env req route d \<longleftrightarrow> succeeded (fst (api_call env req route d))"

section \<open>Actions\<close>

definition toggleAccount :: "api_env \<Rightarrow> request \<Rightarrow> ustring \<Rightarrow> transport_status \<Rightarrow> panel_state \<Rightarrow> panel_state" where
  "toggleAccount env req i current = page_call env req (ToAccounts (UpdateAccount i
     \<lparr>ch_name = None, ch_status = Some (if current = acc_active then acc_inactive else acc_active), ch_config = None\<rparr>))"

definition filled :: "ustring \<Rightarrow> ustring option" where
  "filled s = (if js_trim s \<noteq> [] then Some (js_trim s) else None)"

definition page_createEndpoint :: "api_env \<Rightarrow> request \<Rightarrow> ustring \<Rightarrow> panel_state \<Rightarrow> panel_state" where
  "page_createEndpoint env req accountId s = (case s of (p, d) \<Rightarrow>
     let form = draft_of p accountId;
         route = ToAccounts (CreateEndpoint accountId \<lparr>ed_label = js_trim (dr_label form), ed_externalId = filled (dr_externalId form),
           ed_phoneRaw = None, ed_phoneE164 = filled (dr_phone form), ed_enabled = Some True, ed_config = None\<rparr>)
     in if js_trim (dr_label form) = [] then (p\<lparr>cp_failed := True\<rparr>, d)
        else if request_ok env req route d
        then (case page_call env req route (updateDraft accountId (\<lambda>x. emptyDraft) p, d) of
                (p', d') \<Rightarrow> (p'\<lparr>cp_failed := False\<rparr>, d'))
        else page_call env req route (p, d))"

definition page_checkBalance :: "api_env \<Rightarrow> request \<Rightarrow> ustring \<Rightarrow> panel_state \<Rightarrow> panel_state" where
  "page_checkBalance env req i s = (case s of (p, d) \<Rightarrow>
     page_call env req (ToEndpoints (CheckBalance i None)) (p\<lparr>cp_failed := False\<rparr>, d))"

text \<open>\<open>Number(threshold) || 0\<close>; an infinite number is not JSON.\<close>

definition threshold_json :: "ustring \<Rightarrow> json" where
  "threshold_json s =
     (if js_trim s \<in> {lit ''Infinity'', lit ''+Infinity'', lit ''-Infinity''} then JNull
      else JNum (case js_number s of Some q \<Rightarrow> q | None \<Rightarrow> 0))"

definition no_endpoint_changes :: endpoint_changes where
  "no_endpoint_changes = \<lparr>ec_newLabel = None, ec_newExternalId = None, ec_newPhoneRaw = None, ec_newPhoneE164 = None,
     ec_newEnabled = None, ec_newConfig = None\<rparr>"

text \<open>\<open>shown\<close> is the number as the page has loaded it.\<close>

definition settings_config :: "endpoint_row \<Rightarrow> ustring \<Rightarrow> ustring \<Rightarrow> fields" where
  "settings_config shown ussd threshold = spread (object_entries (ep_config shown))
     [(lit ''balanceUssd'', JStr (js_trim ussd)), (lit ''lowBalanceThreshold'', threshold_json threshold)]"

definition saveBalanceSettings :: "api_env \<Rightarrow> request \<Rightarrow> endpoint_row \<Rightarrow> ustring \<Rightarrow> ustring \<Rightarrow> panel_state \<Rightarrow> panel_state" where
  "saveBalanceSettings env req shown ussd threshold s = (case s of (p, d) \<Rightarrow>
     let route = ToEndpoints (UpdateEndpoint (ep_id shown)
           (no_endpoint_changes\<lparr>ec_newConfig := Some (settings_config shown ussd threshold)\<rparr>));
         p0 = p\<lparr>cp_failed := False\<rparr>
     in if request_ok env req route d
        then (case page_call env req route (p0, d) of (p', d') \<Rightarrow> (p'\<lparr>cp_balanceEditing := None\<rparr>, d'))
        else page_call env req route (p0, d))"

definition is_conflict :: "answer \<Rightarrow> bool" where
  "is_conflict ans \<longleftrightarrow> ans = EndpointDeleted (Inl EndpointHasHistory) \<or> ans = EndpointDeleted (Inl EndpointLinked)"

text \<open>\<open>sure\<close> and \<open>with_history\<close>: the two questions are answered with yes.\<close>

definition page_deleteEndpoint :: "api_env \<Rightarrow> request \<Rightarrow> ustring \<Rightarrow> bool \<Rightarrow> bool \<Rightarrow> panel_state \<Rightarrow> panel_state" where
  "page_deleteEndpoint env req i sure with_history s = (case s of (p, d) \<Rightarrow>
     if \<not> sure then s
     else case api_call env req (ToEndpoints (DeleteEndpoint i False)) d of
            (ans, d1) \<Rightarrow>
              if succeeded ans then fetchAccounts env req (p, d1)
              else if \<not> is_conflict ans then (p\<lparr>cp_failed := True\<rparr>, d1)
              else if \<not> with_history then (p\<lparr>cp_failed := False\<rparr>, d1)
              else case api_call env req (ToEndpoints (DeleteEndpoint i True)) d1 of
                     (ans2, d2) \<Rightarrow>
                       if succeeded ans2 then (case fetchAccounts env req (p, d2) of (p', d3) \<Rightarrow> (p'\<lparr>cp_failed := False\<rparr>, d3))
                       else (p\<lparr>cp_failed := True\<rparr>, d2))"

definition toggleEndpoint :: "api_env \<Rightarrow> request \<Rightarrow> ustring \<Rightarrow> bool \<Rightarrow> panel_state \<Rightarrow> panel_state" where
  "toggleEndpoint env req i enabled =
     page_call env req (ToEndpoints (UpdateEndpoint i (no_endpoint_changes\<lparr>ec_newEnabled := Some (\<not> enabled)\<rparr>)))"

definition unlinkEndpoint :: "api_env \<Rightarrow> request \<Rightarrow> ustring \<Rightarrow> bool \<Rightarrow> panel_state \<Rightarrow> panel_state" where
  "unlinkEndpoint env req i sure s = (if \<not> sure then s else page_call env req (ToEndpoints (Unlink i)) s)"

section \<open>The balance of a SIM\<close>

datatype balance_colour = Unknown | Debt | Low | Fine

definition shown_balance :: "endpoint_row \<Rightarrow> rat option" where
  "shown_balance e = (case own (ep_config e) (lit ''balance'') of Some (JNum q) \<Rightarrow> Some q | _ \<Rightarrow> None)"

definition shown_limit :: "endpoint_row \<Rightarrow> rat" where
  "shown_limit e = (case own (ep_config e) (lit ''lowBalanceThreshold'') of Some (JNum q) \<Rightarrow> q | _ \<Rightarrow> 20)"

definition balance_cell :: "endpoint_row \<Rightarrow> balance_colour" where
  "balance_cell e = (case shown_balance e of
       None \<Rightarrow> Unknown
     | Some amount \<Rightarrow> if amount < 0 then Debt else if amount < shown_limit e then Low else Fine)"

section \<open>Deleting a number\<close>

lemma session_request: "rq_user req = Some u \<Longrightarrow> guard_of route = SessionOnly \<Longrightarrow> api_call env req route d = run_route env req route d"
  by (simp add: api_call_def sessionGuard_def)

lemma fetched: "rq_user req = Some u \<Longrightarrow> fetchAccounts env req (p, d) = (p\<lparr>cp_accounts := account_list d\<rparr>, d)"
  by (simp add: fetchAccounts_def session_request)

lemma delete_request:
  "rq_user req = Some u \<Longrightarrow> api_call env req (ToEndpoints (DeleteEndpoint i force)) d =
     map_prod EndpointDeleted id (deleteEndpoint (ap_iso env) i (actor_of req) force d)"
  by (simp add: session_request)

text \<open>The two answers of a deletion: the number is gone, and was not linked, or nothing has changed.\<close>

lemma deletion_done:
  assumes "deleteEndpoint isof i actor force d = (Inr n, d1)"
  shows "(\<exists>e. eps.lookup d i = Some e \<and> ep_state e \<noteq> linked) \<and> eps.lookup d1 i = None
    \<and> (\<not> force \<longrightarrow> map ms_id (messages d1) = map ms_id (messages d))"
proof -
  note del = endpoint_deletion [where isof = isof and i = i and actor = actor and force = force and d = d, unfolded assms, simplified]
  have "eps.lookup d1 i = None" using del by (simp add: eps.lookup_def find_None_iff)
  moreover have "map ms_id (messages d1) = map ms_id (messages d)" if "\<not> force"
  proof -
    from del that have "filter (\<lambda>m. ms_endpointId m = i) (messages d) = []" by auto
    then have "filter (\<lambda>m. ms_endpointId m \<noteq> i) (messages d) = messages d" by (simp add: filter_empty_conv filter_id_conv)
    with del show ?thesis by simp
  qed
  ultimately show ?thesis using del by blast
qed

lemma deletion_refused: "deleteEndpoint isof i actor force d = (Inl err, d1) \<Longrightarrow> d1 = d"
  using endpoint_deletion [where isof = isof and i = i and actor = actor and force = force and d = d] by simp

lemma page_deletion:
  assumes "rq_user req = Some u" and "page_deleteEndpoint env req i sure with_history (p, d) = (p', d')"
  shows "\<not> sure \<and> (p', d') = (p, d) \<or> sure \<and> d' = d
    \<or> sure \<and> (\<exists>force n. (force \<longrightarrow> with_history) \<and> deleteEndpoint (ap_iso env) i (actor_of req) force d = (Inr n, d')
         \<and> cp_accounts p' = account_list d')"
proof (cases sure)
  case True
  obtain r d1 where r: "deleteEndpoint (ap_iso env) i (actor_of req) False d = (r, d1)" by fastforce
  obtain r2 d2 where r2: "deleteEndpoint (ap_iso env) i (actor_of req) True d = (r2, d2)" by fastforce
  note page = assms(2) [symmetric, unfolded page_deleteEndpoint_def delete_request [OF assms(1)] r r2]
  show ?thesis
  proof (cases r)
    case (Inr n)
    with page True have "(p', d') = (p\<lparr>cp_accounts := account_list d1\<rparr>, d1)" by (simp add: fetched [OF assms(1)] r)
    with True Inr r show ?thesis by (intro disjI2 conjI exI [of _ False]) simp_all
  next
    case (Inl err)
    with r have d1: "d1 = d" by (simp add: deletion_refused)
    show ?thesis
    proof (cases r2)
      case (Inl err2)
      with r2 have "d2 = d" by (simp add: deletion_refused)
      with page Inl \<open>r = Inl err\<close> r2 d1 True have "d' = d"
        by (simp add: r split: if_splits)
      with True show ?thesis by simp
    next
      case (Inr n)
      with page \<open>r = Inl err\<close> r2 d1 True have "d' = d \<or> with_history \<and> d' = d2 \<and> cp_accounts p' = account_list d2"
        by (simp add: r fetched [OF assms(1)] split: if_splits)
      with True Inr r2 show ?thesis by blast
    qed
  qed
qed (use assms(2) in \<open>simp add: page_deleteEndpoint_def\<close>)

text \<open>
  The history of a number goes only with a second yes: without a first yes a press of
  the delete button does nothing; without a second one it deletes at most a number without
  messages, so every message stays. When anything was deleted, the number was not linked, it
  is gone, and the page shows the accounts as they are; a deletion that does not happen
  leaves the database as it was.
\<close>

theorem history_needs_second_yes:
  assumes "rq_user req = Some u" and "page_deleteEndpoint env req i sure with_history (p, d) = (p', d')"
  shows "(\<not> sure \<longrightarrow> (p', d') = (p, d))
    \<and> (\<not> with_history \<longrightarrow> map ms_id (messages d') = map ms_id (messages d))
    \<and> (d' \<noteq> d \<longrightarrow> (\<exists>e. eps.lookup d i = Some e \<and> ep_state e \<noteq> linked) \<and> eps.lookup d' i = None \<and> cp_accounts p' = account_list d')"
  using page_deletion [OF assms] deletion_done by blast

section \<open>Settings and readings\<close>

text \<open>
  Saving the settings of a SIM puts back the reading that the page has loaded: the
  whole configuration as the page shows it is written with the new code and threshold, so
  every other member, also a balance that was read since, gets the value of the page.
\<close>

theorem settings_restore_old_reading:
  assumes "rq_user req = Some u" and "eps.lookup d (ep_id shown) = Some e" and "ep_config shown = JObj kvs"
    and "saveBalanceSettings env req shown ussd threshold (p, d) = (p', d')"
  shows "\<exists>e'. eps.lookup d' (ep_id shown) = Some e' \<and> own (ep_config e') (lit ''balanceUssd'') = Some (JStr (js_trim ussd))
    \<and> (\<forall>k. k \<noteq> lit ''balanceUssd'' \<and> k \<noteq> lit ''lowBalanceThreshold'' \<longrightarrow> own (ep_config e') k = own (ep_config shown) k)"
proof -
  let ?data = "no_endpoint_changes\<lparr>ec_newConfig := Some (settings_config shown ussd threshold)\<rparr>"
  have key: "ep_id (change_endpoint ?data x) = ep_id x" for x by (simp add: change_endpoint_def)
  have "endpoints d' = update_where (\<lambda>x. ep_id x = ep_id shown) (change_endpoint ?data) (endpoints d)"
    using assms(2,4)
    by (auto simp: saveBalanceSettings_def request_ok_def page_call_def session_request [OF assms(1)] updateEndpoint_def Let_def
        fetched [OF assms(1)] audit_log_def)
  then have "eps.lookup d' (ep_id shown) = map_option (change_endpoint ?data) (eps.lookup d (ep_id shown))"
    using find_update_same [of ep_id "change_endpoint ?data" "ep_id shown" "endpoints d"] key by (simp add: eps.lookup_def)
  with assms(2,3) show ?thesis
    by (auto simp: change_endpoint_def no_endpoint_changes_def settings_config_def)
qed

section \<open>A concrete page\<close>

definition sim_page :: channels_page where
  "sim_page = \<lparr>cp_accounts = [], cp_failed = False, cp_drafts = (\<lambda>i. None), cp_balanceEditing = None\<rparr>"

definition loose_endpoint :: endpoint_row where
  "loose_endpoint = sample_endpoint\<lparr>ep_state := unpaired, ep_config := JObj [(lit ''balance'', JNum 5)]\<rparr>"

definition sim_db :: db where
  "sim_db = (gateway_db [])\<lparr>endpoints := [loose_endpoint]\<rparr>"

theorem history_needs_second_yes_witness:
  "let (p', d') = page_deleteEndpoint quiet_env boss (lit ''e'') True False (sim_page, sim_db)
   in endpoints d' = [] \<and> cp_accounts p' = [(sample_account, [])]"
proof -
  obtain p' d' where s: "page_deleteEndpoint quiet_env boss (lit ''e'') True False (sim_page, sim_db) = (p', d')" by fastforce
  have u: "rq_user boss = Some \<lparr>su_id = lit ''u'', su_username = lit ''admin''\<rparr>" by (simp add: boss_def)
  have d': "endpoints d' = []" "accounts d' = [sample_account]"
    using s by (auto simp: page_deleteEndpoint_def delete_request [OF u] fetched [OF u] deleteEndpoint_def eps.lookup_def sim_db_def
        loose_endpoint_def sample_endpoint_def gateway_db_def empty_db_def delete_threads_def delete_where_def audit_log_def Let_def)
  then have "d' \<noteq> sim_db" by (auto simp: sim_db_def)
  with history_needs_second_yes [OF u s] have "cp_accounts p' = account_list d'" by blast
  with d' s show ?thesis by (simp add: account_list_def)
qed

theorem settings_restore_old_reading_witness:
  "\<exists>e'. eps.lookup (snd (saveBalanceSettings quiet_env boss (loose_endpoint\<lparr>ep_config := JObj [(lit ''balance'', JNum 100)]\<rparr>)
       (lit ''*111#'') (lit ''20'') (sim_page, sim_db))) (lit ''e'') = Some e' \<and> own (ep_config e') (lit ''balance'') = Some (JNum 100)"
proof -
  let ?shown = "loose_endpoint\<lparr>ep_config := JObj [(lit ''balance'', JNum 100)]\<rparr>"
  obtain p' d' where s: "saveBalanceSettings quiet_env boss ?shown (lit ''*111#'') (lit ''20'') (sim_page, sim_db) = (p', d')" by fastforce
  have u: "rq_user boss = Some \<lparr>su_id = lit ''u'', su_username = lit ''admin''\<rparr>" by (simp add: boss_def)
  have i: "ep_id ?shown = lit ''e''" by (simp add: loose_endpoint_def sample_endpoint_def)
  have l: "eps.lookup sim_db (ep_id ?shown) = Some loose_endpoint"
    by (simp add: eps.lookup_def sim_db_def loose_endpoint_def sample_endpoint_def)
  have c: "ep_config ?shown = JObj [(lit ''balance'', JNum 100)]" by simp
  have k: "lit ''balance'' \<noteq> lit ''balanceUssd''" "lit ''balance'' \<noteq> lit ''lowBalanceThreshold''" by simp_all
  from settings_restore_old_reading [OF u l c s] obtain e' where e: "eps.lookup d' (ep_id ?shown) = Some e'"
    "\<forall>k. k \<noteq> lit ''balanceUssd'' \<and> k \<noteq> lit ''lowBalanceThreshold'' \<longrightarrow> own (ep_config e') k = own (ep_config ?shown) k" by blast
  from e(2) k have "own (ep_config e') (lit ''balance'') = own (ep_config ?shown) (lit ''balance'')" by blast
  with e(1) i s show ?thesis by simp
qed

end
