(* ===== verification/Panel.thy ===== *)
theory Panel
  imports Http
begin

text \<open>
  The pages of the panel that list what the gateway did (apps/web/src/pages: Messages.tsx,
  Deliveries.tsx, Alerts.tsx, Logs.tsx, ApiTokens.tsx, Dashboard.tsx): the queries they send,
  the buttons they offer on a row, and the figures of the dashboard. The lemmas compare the
  buttons with what the API accepts and the figures with what is stored.
\<close>

section \<open>Queries\<close>

text \<open>An empty choice is not sent.\<close>

definition param :: "ustring \<Rightarrow> ustring option" where
  "param s = (if s \<noteq> [] then Some s else None)"

record message_filters =
  mf_status :: ustring
  mf_channel :: ustring
  mf_direction :: ustring
  mf_q :: ustring

definition STATUS_OPTIONS :: "ustring list" where
  "STATUS_OPTIONS = map lit ['''', ''scheduled'', ''queued'', ''sent'', ''delivered'', ''read'', ''failed'', ''cancelled'']"

definition messages_query :: "message_filters \<Rightarrow> route" where
  "messages_query f = ToMessages (ListMessages (param (mf_status f)) (param (mf_channel f)) (param (mf_direction f))
     (param (mf_q f)) (Some (lit ''100'')) None)"

definition TABS :: "ustring list" where
  "TABS = map lit ['''', ''pending'', ''delivered'', ''failed'', ''dlq'']"

definition deliveries_query :: "ustring \<Rightarrow> route" where
  "deliveries_query tab = ToDeliveries (ListDeliveries (param tab) None None (Some (lit ''100'')) None)"

definition alerts_query :: "alert_status \<Rightarrow> route" where
  "alerts_query tab = ToAlerts (ListAlerts (Some (alert_status_name tab)) (Some (lit ''100'')) None)"

definition events_query :: "ustring \<Rightarrow> route" where
  "events_query ty = ToEvents (param ty) (Some (lit ''100'')) None"

definition audit_query :: route where
  "audit_query = ToAudit (Some (lit ''100'')) None"

section \<open>Buttons\<close>

definition offers_retry :: "message_row \<Rightarrow> bool" where
  "offers_retry m \<longleftrightarrow> ms_status m = failed \<or> ms_status m = cancelled"

definition offers_cancel :: "message_row \<Rightarrow> bool" where
  "offers_cancel m \<longleftrightarrow> ms_status m = scheduled \<or> ms_status m = queued"

definition panel_REPLAYABLE :: "delivery_status list" where
  "panel_REPLAYABLE = [d_failed, d_dlq, d_delivered]"

definition offers_replay :: "delivery_row \<Rightarrow> bool" where
  "offers_replay r \<longleftrightarrow> dl_status r \<in> set panel_REPLAYABLE"

definition offers_revoke :: "token_view \<Rightarrow> bool" where
  "offers_revoke t \<longleftrightarrow> tv_revokedAt t = None"

definition retry_press :: "message_row \<Rightarrow> route" where
  "retry_press m = ToMessages (RetryMessage (ms_id m) None)"

definition cancel_press :: "message_row \<Rightarrow> route" where
  "cancel_press m = ToMessages (CancelMessage (ms_id m) None)"

definition replay_press :: "delivery_row \<Rightarrow> route" where
  "replay_press r = ToDeliveries (ReplayDelivery (dl_id r) None)"

definition toggle_alert_rule :: "alert_rule_row \<Rightarrow> route" where
  "toggle_alert_rule r = ToAlertRules (UpdateAlertRule (ar_key r) (Some (\<not> ar_enabled r)) None None)"

definition generate_press :: "ustring \<Rightarrow> route" where
  "generate_press name = ToTokens (GenerateToken (param (js_trim name)) None)"

text \<open>
  C40. The buttons are what the API accepts: on every stored message and delivery the panel
  offers to retry, to cancel and to replay exactly when the API carries that request out.
\<close>

theorem buttons_match_api:
  assumes "rq_user req = Some u" and "msgs.lookup d (ms_id m) = Some m" and "dels.lookup d (dl_id r) = Some r"
  shows "(offers_retry m \<longleftrightarrow> fst (api_call env req (retry_press m) d) = MessageActed None)
    \<and> (offers_cancel m \<longleftrightarrow> fst (api_call env req (cancel_press m) d) = MessageActed None)
    \<and> (offers_replay r \<longleftrightarrow> (\<exists>x. fst (api_call env req (replay_press r) d) = Replayed (Inr x)))"
  using assms by (simp add: api_call_def sessionGuard_def retry_press_def cancel_press_def replay_press_def offers_retry_def
      offers_cancel_def offers_replay_def retry_def cancel_def replay_def REPLAYABLE_def panel_REPLAYABLE_def Let_def fresh_id_def
      enqueueWebhookDelivery_def; blast)

definition panel_db :: db where
  "panel_db = (gateway_db [sample_message failed None])\<lparr>deliveries := [sample_delivery d_dlq 3]\<rparr>"

theorem buttons_match_api_witness:
  "fst (api_call quiet_env boss (retry_press (sample_message failed None)) panel_db) = MessageActed None
   \<and> fst (api_call quiet_env boss (cancel_press (sample_message failed None)) panel_db) \<noteq> MessageActed None"
proof -
  have "rq_user boss = Some \<lparr>su_id = lit ''u'', su_username = lit ''admin''\<rparr>" by (simp add: boss_def)
  moreover have "msgs.lookup panel_db (ms_id (sample_message failed None)) = Some (sample_message failed None)"
    by (simp add: panel_db_def gateway_db_def msgs.lookup_def)
  moreover have "dels.lookup panel_db (dl_id (sample_delivery d_dlq 3)) = Some (sample_delivery d_dlq 3)"
    by (simp add: panel_db_def dels.lookup_def)
  ultimately show ?thesis
    using buttons_match_api [of boss _ panel_db "sample_message failed None" "sample_delivery d_dlq 3" quiet_env]
    by (simp add: offers_retry_def offers_cancel_def sample_message_def)
qed

section \<open>The dashboard\<close>

record dashboard =
  da_sent24h :: nat
  da_failed :: nat
  da_dlq :: nat
  da_firing :: nat

definition items_of_messages :: "answer \<Rightarrow> message_row list" where
  "items_of_messages ans = (case ans of Messages (Inr (rows, n)) \<Rightarrow> map fst rows | _ \<Rightarrow> [])"

fun count_of :: "answer \<Rightarrow> nat" where
  "count_of (Messages (Inr (rows, n))) = n"
| "count_of (Deliveries (Inr (rows, n))) = n"
| "count_of (Alerts (Inr (rows, n))) = n"
| "count_of _ = 0"

definition load_dashboard :: "api_env \<Rightarrow> request \<Rightarrow> int \<Rightarrow> db \<Rightarrow> dashboard" where
  "load_dashboard env req now d =
     (let ask = (\<lambda>route. fst (api_call env req route d));
          outbound_rows = items_of_messages (ask (ToMessages (ListMessages None None (Some (lit ''outbound'')) None (Some (lit ''100'')) None)));
          dayAgo = now - 24 * 60 * 60 * 1000
      in \<lparr>da_sent24h = length (filter (\<lambda>m. dayAgo \<le> ms_createdAt m) outbound_rows),
          da_failed = count_of (ask (ToMessages (ListMessages (Some (lit ''failed'')) None None None (Some (lit ''100'')) None))),
          da_dlq = count_of (ask (ToDeliveries (ListDeliveries (Some (lit ''dlq'')) None None (Some (lit ''1'')) None))),
          da_firing = count_of (ask (ToAlerts (ListAlerts (Some (lit ''firing'')) (Some (lit ''1'')) None)))\<rparr>)"

lemma latest_rows_counted:
  fixes k :: "'a \<Rightarrow> int"
  assumes "sorted_wrt (\<lambda>x y. k y \<le> k x) xs"
  shows "length (filter (\<lambda>x. c \<le> k x) (take n xs)) = min n (length (filter (\<lambda>x. c \<le> k x) xs))"
  using assms
proof (induction xs arbitrary: n)
  case (Cons x xs)
  show ?case
  proof (cases n)
    case (Suc j)
    show ?thesis
    proof (cases "c \<le> k x")
      case False
      with Cons.prems have "filter (\<lambda>x. c \<le> k x) xs = []" by (fastforce simp: filter_empty_conv)
      moreover from this have "filter (\<lambda>x. c \<le> k x) (take j xs) = []" by (auto simp: filter_empty_conv dest: in_set_takeD)
      ultimately show ?thesis using False Suc by simp
    qed (use Cons Suc in simp)
  qed simp
qed simp

lemma sort_rev_desc:
  fixes k :: "'a \<Rightarrow> int"
  shows "sorted_wrt (\<lambda>x y. k y \<le> k x) (rev (sort_key k xs))"
  using sorted_sort_key [of k xs] by (simp add: sorted_wrt_rev sorted_map)

lemma filter_rev_sort_length:
  "length (filter P (rev (sort_key k xs))) = length (filter P xs)"
  by (simp add: rev_filter [symmetric] filter_sort)


lemma small_limits: "page_take k (Some (lit ''100'')) = 100" "page_take k (Some (lit ''1'')) = 1" "page_skip None = 0"
proof -
  have "lit ''100'' = int_text 100" "lit ''1'' = int_text 1" by (simp_all add: int_text_def dec_str.simps lit_def)
  then show "page_take k (Some (lit ''100'')) = 100" "page_take k (Some (lit ''1'')) = 1" by (simp_all add: page_take_text)
qed (simp add: page_skip_text)

lemma dashboard_choices:
  "choice direction_name [inbound, outbound] (Some (lit ''outbound'')) = Some (Some outbound)"
  "choice status_name message_statuses (Some (lit ''failed'')) = Some (Some failed)"
  "choice delivery_status_name [d_pending, d_delivering, d_delivered, d_failed, d_dlq] (Some (lit ''dlq'')) = Some (Some d_dlq)"
  "choice alert_status_name [firing, resolved] (Some (lit ''firing'')) = Some (Some firing)"
  "choice f xs None = Some None"
  by (simp_all add: choice_def lit_def message_statuses_def)

lemma session_ask:
  assumes "rq_user req = Some u"
  shows "api_call env req (ToMessages (ListMessages st ch dir q limit offset)) d = (Messages (messages_route st ch dir q limit offset d), d)"
    and "api_call env req (ToDeliveries (ListDeliveries st dest ev limit offset)) d = (Deliveries (deliveries_route st dest ev limit offset d), d)"
    and "api_call env req (ToAlerts (ListAlerts st limit offset)) d = (Alerts (alerts_route st limit offset d), d)"
  using assms by (simp_all add: api_call_def sessionOrTokenGuard_def sessionGuard_def)

text \<open>
  The figures of the dashboard, for a signed-in administrator. The failed messages, the
  deliveries in the dead letter queue and the firing alerts are counted exactly, however many
  there are. The messages of the last 24 hours are the outbound ones that were created since
  then, whatever became of them, and the figure stops at 100.
\<close>

theorem dashboard_sent_saturates:
  assumes "rq_user req = Some u"
  shows "load_dashboard env req now d =
    \<lparr>da_sent24h = min 100 (length (filter (\<lambda>m. ms_direction m = outbound \<and> now - 86400000 \<le> ms_createdAt m) (messages d))),
     da_failed = length (filter (\<lambda>m. ms_status m = failed) (messages d)),
     da_dlq = length (filter (\<lambda>r. dl_status r = d_dlq) (deliveries d)),
     da_firing = length (filter (\<lambda>a. al_status a = firing) (alerts d))\<rparr>"
proof -
  have "length (filter (\<lambda>m. now - 86400000 \<le> ms_createdAt m) (take 100 (message_list None None (Some outbound) None d)))
    = min 100 (length (filter (\<lambda>m. now - 86400000 \<le> ms_createdAt m) (message_list None None (Some outbound) None d)))"
    by (rule latest_rows_counted) (simp add: message_list_def sort_rev_desc)
  then show ?thesis
    by (simp add: load_dashboard_def Let_def session_ask [OF assms] messages_route_def deliveries_route_def alerts_route_def
        counted_page_def find_page_def small_limits dashboard_choices items_of_messages_def with_trail_def comp_def message_list_def
        delivery_list_def alert_list_def selects_def message_found_def filter_rev_sort_length conj_commute eq_commute [of outbound] eq_commute [of failed]
        eq_commute [of d_dlq] eq_commute [of firing])
qed

definition busy_db :: db where
  "busy_db = (gateway_db (replicate 150 ((sample_message failed None)\<lparr>ms_createdAt := 7\<rparr>)))"

theorem dashboard_sent_saturates_witness:
  "da_sent24h (load_dashboard quiet_env boss 9 busy_db) = 100 \<and> da_failed (load_dashboard quiet_env boss 9 busy_db) = 150"
proof -
  have "rq_user boss = Some \<lparr>su_id = lit ''u'', su_username = lit ''admin''\<rparr>" by (simp add: boss_def)
  note load = dashboard_sent_saturates [OF this, of quiet_env 9 busy_db]
  show ?thesis unfolding load
    by (simp add: busy_db_def gateway_db_def sample_message_def outbound_row_def filter_replicate)
qed

end
