(* ===== verification/Pipeline.thy ===== *)
theory Pipeline
  imports Ingest Delivery
begin

text \<open>
  The way of an event through the worker: an emitter stores it with its outbox row, a tick of
  the dispatcher routes it and marks the row, and the processor works on the deliveries
  (apps/worker/src/events, schedulers, routing, processors). The lemmas follow every event
  through any interleaving of these steps and show that it is routed once, to the
  destinations that the rules name, and that an inbound message reaches them.
\<close>

section \<open>What an event was sent to\<close>

definition routes_of :: "db \<Rightarrow> event_row \<Rightarrow> ustring list" where
  "routes_of d e = routed_to d e (JObj (fields_of (Some (nullish_obj (ev_payload e)))))
     (sort_key ru_priority (filter ru_enabled (rules d)))"

definition deliveries_of :: "db \<Rightarrow> event_row \<Rightarrow> ustring list" where
  "deliveries_of d e = map dl_destinationId (filter (\<lambda>r. dl_eventId r = ev_id e) (deliveries d))"

definition published :: "db \<Rightarrow> event_row \<Rightarrow> bool" where
  "published d e \<longleftrightarrow> (\<exists>row\<in>set (outbox d). outbox_event d row = Some e \<and> ob_publishedAt row \<noteq> None)"

text \<open>The tables that a step leaves alone; identifiers may be used up.\<close>

definition delivery_keys :: "db \<Rightarrow> (ustring \<times> ustring) list" where
  "delivery_keys d = map (\<lambda>r. (dl_eventId r, dl_destinationId r)) (deliveries d)"

definition agrees :: "db \<Rightarrow> db \<Rightarrow> bool" where
  "agrees d d' \<longleftrightarrow> events d' = events d \<and> outbox d' = outbox d \<and> delivery_keys d' = delivery_keys d
     \<and> rules d' = rules d \<and> rule_links d' = rule_links d \<and> destinations d' = destinations d
     \<and> uuid_source d' = uuid_source d \<and> uuid_next d \<le> uuid_next d'"

text \<open>
  The steps: the emitters of the worker and of the API, a tick, a job on a delivery, and
  whatever else leaves these tables alone. Rules and destinations stay as they are.
\<close>

inductive pipeline :: "db \<Rightarrow> db \<Rightarrow> bool" for start where
  begun: "pipeline start start"
| emitted: "pipeline start d \<Longrightarrow> pipeline start (snd (emit isof now p d))"
| api_emitted: "pipeline start d \<Longrightarrow> pipeline start (snd (api_emit isof now p d))"
| ticked: "pipeline start d \<Longrightarrow> pipeline start (dispatchOutbox fmt now d)"
| worked: "pipeline start d \<Longrightarrow> pipeline start (webhook_process env i d)"
| elsewhere: "pipeline start d \<Longrightarrow> agrees d d' \<Longrightarrow> pipeline start d'"

section \<open>The invariant\<close>

definition issued :: "db \<Rightarrow> ustring set" where
  "issued d = uuid_source d ` {..<uuid_next d}"

text \<open>Identifiers are new each time, not empty, and do not look like those of the API's events.\<close>

definition good_ids :: "db \<Rightarrow> bool" where
  "good_ids d \<longleftrightarrow> inj (uuid_source d) \<and> (\<forall>n. uuid_source d n \<noteq> [] \<and> \<not> starts_with (lit ''evt_'') (uuid_source d n))"

definition names_event :: "outbox_row \<Rightarrow> event_row \<Rightarrow> bool" where
  "names_event row e \<longleftrightarrow> ob_payload row = JObj [(lit ''messageEventId'', JStr (ev_id e))]"

definition tables_ok :: "db \<Rightarrow> bool" where
  "tables_ok d \<longleftrightarrow> distinct (map ev_id (events d)) \<and> distinct (map ob_id (outbox d)) \<and> distinct (map ob_payload (outbox d))
     \<and> ev_id ` set (events d) \<subseteq> issued d \<union> (@) (lit ''evt_'') ` issued d \<and> ob_id ` set (outbox d) \<subseteq> issued d
     \<and> (\<forall>row\<in>set (outbox d). \<exists>e\<in>set (events d). names_event row e \<and> ev_id e \<noteq> [])
     \<and> fst ` set (delivery_keys d) \<subseteq> ev_id ` set (events d)"

definition routed_once :: "db \<Rightarrow> bool" where
  "routed_once d \<longleftrightarrow> (\<forall>e\<in>set (events d). deliveries_of d e = (if published d e then routes_of d e else []))"

definition pipeline_ok :: "db \<Rightarrow> bool" where
  "pipeline_ok d \<longleftrightarrow> good_ids d \<and> no_selectors d \<and> tables_ok d \<and> routed_once d"

lemma deliveries_of_keys: "deliveries_of d e = map snd (filter (\<lambda>k. fst k = ev_id e) (delivery_keys d))"
  by (simp add: deliveries_of_def delivery_keys_def filter_map comp_def)

lemma routes_of_cong:
  assumes "rules d' = rules d" "rule_links d' = rule_links d" "destinations d' = destinations d"
  shows "routes_of d' e = routes_of d e"
proof -
  have "rule_destinations d' r = rule_destinations d r" for r unfolding rule_destinations_def assms ..
  then show ?thesis unfolding routes_of_def routed_to_def assms(1) by simp
qed

lemma tables_inj:
  assumes "tables_ok d"
  shows "inj_on ev_id (set (events d))" "inj_on ob_id (set (outbox d))" "inj_on ob_payload (set (outbox d))"
  using assms by (simp_all add: tables_ok_def distinct_map)

lemma evs_lookup_distinct: "distinct (map ev_id es) \<Longrightarrow> e \<in> set es \<Longrightarrow> find (\<lambda>x. ev_id x = ev_id e) es = Some e"
  by (induction es) (auto simp: rev_image_eqI)

lemma named_event:
  assumes "tables_ok d" and "row \<in> set (outbox d)"
  shows "outbox_event d row = Some e \<longleftrightarrow> e \<in> set (events d) \<and> names_event row e"
proof -
  from assms obtain e' where e': "e' \<in> set (events d)" "names_event row e'" "ev_id e' \<noteq> []"
    by (auto simp: tables_ok_def)
  have l: "evs.lookup d (ev_id x) = Some x" if "x \<in> set (events d)" for x
    using evs_lookup_distinct [of "events d" x] assms(1) that by (simp add: evs.lookup_def tables_ok_def)
  have "outbox_event d row = Some e'"
    using l [OF e'(1)] e'(2,3) by (simp add: outbox_event_def names_event_def)
  moreover have "x = e'" if "x \<in> set (events d)" "names_event row x" for x
  proof -
    have "ev_id x = ev_id e'" using that(2) e'(2) by (simp add: names_event_def)
    with l [OF that(1)] l [OF e'(1)] show ?thesis by (metis option.inject)
  qed
  ultimately show ?thesis using e'(1,2) by (metis option.inject)
qed

lemma ok_agrees:
  assumes "pipeline_ok d" and "agrees d d'" shows "pipeline_ok d'"
proof -
  have sub: "issued d \<subseteq> issued d'" using assms(2) by (auto simp: issued_def agrees_def)
  have ev: "outbox_event d' row = outbox_event d row" for row
    by (rule outbox_event_cong) (use assms(2) in \<open>simp add: agrees_def\<close>)
  have t: "tables_ok d'"
    using assms sub unfolding pipeline_ok_def tables_ok_def agrees_def by (auto 0 4)
  have "routes_of d' e = routes_of d e" for e by (rule routes_of_cong) (use assms(2) in \<open>simp_all add: agrees_def\<close>)
  moreover have "published d' e = published d e" "deliveries_of d' e = deliveries_of d e" for e
    using assms(2) by (simp_all add: published_def ev deliveries_of_keys agrees_def)
  ultimately have "routed_once d' = routed_once d" using assms(2) by (simp add: routed_once_def agrees_def)
  with t assms show ?thesis by (auto simp: pipeline_ok_def agrees_def good_ids_def no_selectors_def)
qed

section \<open>Emitting\<close>

lemma issued_bump: "uuid_source d' = uuid_source d \<Longrightarrow> uuid_next d \<le> uuid_next d' \<Longrightarrow> issued d \<subseteq> issued d'"
  by (auto simp: issued_def)

lemma not_issued: "good_ids d \<Longrightarrow> uuid_next d \<le> n \<Longrightarrow> uuid_source d n \<notin> issued d"
  by (auto simp: issued_def good_ids_def dest: injD)

text \<open>An identifier that no event has yet, of either emitter.\<close>

lemma fresh_event_id:
  assumes "good_ids d" and "tables_ok d" and "uuid_next d \<le> n"
  shows "uuid_source d n \<notin> ev_id ` set (events d)" "lit ''evt_'' @ uuid_source d n \<notin> ev_id ` set (events d)"
proof -
  have sub: "ev_id ` set (events d) \<subseteq> issued d \<union> (@) (lit ''evt_'') ` issued d" using assms(2) by (simp add: tables_ok_def)
  have plain: "uuid_source d k \<noteq> lit ''evt_'' @ u" for k u
    using assms(1) starts_with_append [of "lit ''evt_''" u] unfolding good_ids_def by metis
  from not_issued [OF assms(1,3)] sub plain show "uuid_source d n \<notin> ev_id ` set (events d)" by blast
  show "lit ''evt_'' @ uuid_source d n \<notin> ev_id ` set (events d)"
  proof
    assume "lit ''evt_'' @ uuid_source d n \<in> ev_id ` set (events d)"
    with sub consider "lit ''evt_'' @ uuid_source d n \<in> issued d" | "uuid_source d n \<in> issued d" by fastforce
    then show False
    proof cases
      case 1
      then obtain k where "uuid_source d k = lit ''evt_'' @ uuid_source d n" unfolding issued_def by (metis imageE)
      with plain show ?thesis by blast
    qed (use not_issued [OF assms(1,3)] in blast)
  qed
qed

text \<open>A new event, with an unpublished row that names it or with none, has not been sent anywhere.\<close>

lemma ok_new_event:
  assumes ok: "pipeline_ok d" and new: "events d' = events d @ [e]" "ev_id e \<notin> ev_id ` set (events d)"
    and id: "ev_id e \<in> issued d' \<union> (@) (lit ''evt_'') ` issued d'"
    and rows: "outbox d' = outbox d @ rs" "\<forall>r\<in>set rs. names_event r e \<and> ob_publishedAt r = None \<and> ob_id r \<in> issued d' - issued d"
      "length rs \<le> 1" "rs \<noteq> [] \<longrightarrow> ev_id e \<noteq> []"
    and same: "delivery_keys d' = delivery_keys d" "rules d' = rules d" "rule_links d' = rule_links d" "destinations d' = destinations d"
      "uuid_source d' = uuid_source d" "uuid_next d \<le> uuid_next d'"
  shows "pipeline_ok d'"
proof -
  note sub = issued_bump [OF same(5,6)]
  have tab: "tables_ok d" using ok by (simp add: pipeline_ok_def)
  have named: "\<not> names_event row e" if "row \<in> set (outbox d)" for row
  proof
    assume "names_event row e"
    moreover from tab that obtain x where "x \<in> set (events d)" "names_event row x" by (auto simp: tables_ok_def)
    ultimately have "ev_id e \<in> ev_id ` set (events d)" by (simp add: names_event_def)
    with new(2) show False by simp
  qed
  have "distinct (map ob_id (outbox d')) \<and> distinct (map ob_payload (outbox d'))"
  proof (cases rs)
    case Nil
    with tab rows(1) show ?thesis by (simp add: tables_ok_def)
  next
    case (Cons r rs')
    with rows(2,3) have r: "rs = [r]" "names_event r e" "ob_id r \<notin> issued d" by simp_all
    have "ob_payload r \<notin> ob_payload ` set (outbox d)" using named r(2) unfolding names_event_def by (metis imageE)
    moreover have "ob_id r \<notin> ob_id ` set (outbox d)" using tab r(3) by (auto simp: tables_ok_def)
    ultimately show ?thesis using tab rows(1) r(1) by (simp add: tables_ok_def)
  qed
  moreover have "\<exists>x\<in>set (events d'). names_event row x \<and> ev_id x \<noteq> []" if "row \<in> set (outbox d')" for row
  proof (cases "row \<in> set (outbox d)")
    case True
    with tab new(1) show ?thesis unfolding tables_ok_def by (metis Un_iff set_append)
  next
    case False
    with that rows have "names_event row e" "ev_id e \<noteq> []" by auto
    with new(1) show ?thesis by auto
  qed
  moreover have "ev_id ` set (events d') \<subseteq> issued d' \<union> (@) (lit ''evt_'') ` issued d'"
  proof -
    have "ev_id ` set (events d) \<subseteq> issued d \<union> (@) (lit ''evt_'') ` issued d" using tab by (simp add: tables_ok_def)
    with sub have "ev_id ` set (events d) \<subseteq> issued d' \<union> (@) (lit ''evt_'') ` issued d'" by (meson Un_mono image_mono order_trans)
    with id new(1) show ?thesis by simp
  qed
  moreover have "ob_id ` set (outbox d') \<subseteq> issued d'" using tab rows(1,2) sub unfolding tables_ok_def by auto
  ultimately have t: "tables_ok d'"
    using tab new same(1) unfolding tables_ok_def by auto
  have "published d' x = published d x" if "x \<in> set (events d)" for x
  proof -
    have "outbox_event d' row = Some x \<longleftrightarrow> outbox_event d row = Some x" if "row \<in> set (outbox d)" for row
      using named_event [OF t] named_event [of d] ok that \<open>x \<in> set (events d)\<close> rows(1) new(1) by (auto simp: pipeline_ok_def)
    then show ?thesis using rows by (auto simp: published_def)
  qed
  moreover have "\<not> published d' e"
    using named_event [OF t] named rows by (auto simp: published_def)
  moreover have "deliveries_of d' x = deliveries_of d x" for x using same(1) by (simp add: deliveries_of_keys)
  moreover have "routes_of d' x = routes_of d x" for x by (rule routes_of_cong [OF same(2-4)])
  moreover have "deliveries_of d e = []"
  proof -
    have "fst k \<noteq> ev_id e" if "k \<in> set (delivery_keys d)" for k
    proof
      assume "fst k = ev_id e"
      with that have "ev_id e \<in> fst ` set (delivery_keys d)" by force
      with tab new(2) show False unfolding tables_ok_def by blast
    qed
    then show ?thesis by (simp add: deliveries_of_keys filter_empty_conv)
  qed
  ultimately have "routed_once d'" using ok new(1) by (auto simp: routed_once_def pipeline_ok_def)
  with t ok same show ?thesis by (simp add: pipeline_ok_def good_ids_def no_selectors_def)
qed

lemma emit_new:
  assumes "dedup_hit (em_dedupKey p) d = None"
  shows "snd (emit isof now p d) = d\<lparr>uuid_next := uuid_next d + 3,
      events := events d @ [event_of p (uuid_source d (Suc (uuid_next d))) (buildEnvelope isof now (uuid_source d (uuid_next d)) p) now],
      outbox := outbox d @ [\<lparr>ob_id = uuid_source d (Suc (Suc (uuid_next d))), ob_eventType = em_type p,
          ob_aggregateId = (case em_aggregateId p of Some a \<Rightarrow> a | None \<Rightarrow> uuid_source d (Suc (uuid_next d))),
          ob_payload = JObj [(lit ''messageEventId'', JStr (uuid_source d (Suc (uuid_next d))))], ob_publishedAt = None,
          ob_createdAt = now\<rparr>]\<rparr>"
  using assms by (cases "em_aggregateId p") (simp_all add: emit_def fresh_id_def Let_def)

lemma issued_below: "k < uuid_next d \<Longrightarrow> uuid_source d k \<in> issued d"
  by (simp add: issued_def)

lemma ok_emit: assumes "pipeline_ok d" shows "pipeline_ok (snd (emit isof now p d))"
proof (cases "dedup_hit (em_dedupKey p) d")
  case (Some x)
  then have "agrees d (snd (emit isof now p d))" by (simp add: emit_def fresh_id_def Let_def agrees_def delivery_keys_def)
  with assms show ?thesis by (rule ok_agrees)
next
  case None
  let ?n = "uuid_next d" and ?d = "snd (emit isof now p d)"
  have g: "good_ids d" "tables_ok d" using assms by (simp_all add: pipeline_ok_def)
  have ids: "uuid_source d (Suc ?n) \<in> issued ?d" "uuid_source d (Suc (Suc ?n)) \<in> issued ?d"
    using issued_below [of "Suc ?n" ?d] issued_below [of "Suc (Suc ?n)" ?d] by (simp_all add: emit_new [OF None])
  show ?thesis
    by (rule ok_new_event [OF assms, where e = "event_of p (uuid_source d (Suc ?n)) (buildEnvelope isof now (uuid_source d ?n) p) now"
          and rs = "drop (length (outbox d)) (outbox ?d)"])
      (use g ids fresh_event_id(1) [OF g, of "Suc ?n"] not_issued [OF g(1), of "Suc (Suc ?n)"] in
        \<open>simp_all add: emit_new [OF None] event_of_def names_event_def good_ids_def delivery_keys_def\<close>)
qed

lemma ok_api_emit: assumes "pipeline_ok d" shows "pipeline_ok (snd (api_emit isof now p d))"
proof (cases "dedup_hit (em_dedupKey (if truthy_str (em_dedupKey p) then p else p\<lparr>em_dedupKey := None\<rparr>)) d")
  case (Some x)
  then have "agrees d (snd (api_emit isof now p d))" by (simp add: api_emit_def fresh_id_def Let_def agrees_def delivery_keys_def)
  with assms show ?thesis by (rule ok_agrees)
next
  case None
  let ?eid = "lit ''evt_'' @ uuid_source d (uuid_next d)"
  have id: "?eid \<in> (@) (lit ''evt_'') ` issued (snd (api_emit isof now p d))"
    using None by (auto simp: api_emit_def fresh_id_def Let_def issued_def)
  have g: "good_ids d" "tables_ok d" using assms by (simp_all add: pipeline_ok_def)
  show ?thesis
    by (rule ok_new_event [OF assms, where rs = "[]" and e = "event_of (if truthy_str (em_dedupKey p) then p else p\<lparr>em_dedupKey := None\<rparr>)
        ?eid (api_envelope isof now ?eid p) now"])
      (use None g id fresh_event_id(2) [OF g, of "uuid_next d"] in
        \<open>simp_all add: api_emit_def fresh_id_def Let_def event_of_def delivery_keys_def\<close>)
qed

section \<open>Routing and working\<close>

lemma ok_set_delivery:
  assumes "pipeline_ok d" and "\<And>r. dl_eventId (f r) = dl_eventId r \<and> dl_destinationId (f r) = dl_destinationId r"
  shows "pipeline_ok (set_delivery i f d)"
  by (rule ok_agrees [OF assms(1)]) (use assms(2) in \<open>simp add: agrees_def set_delivery_def delivery_keys_def update_where_def\<close>)

lemma ok_raise: "pipeline_ok d \<Longrightarrow> pipeline_ok (raise_alert now p d)"
  by (erule ok_agrees) (simp add: agrees_def delivery_keys_def raise_alert_def fresh_id_def Let_def split: option.split)

lemma ok_jobs: "pipeline_ok d \<Longrightarrow> pipeline_ok (d\<lparr>webhook_jobs := js\<rparr>)"
  by (erule ok_agrees) (simp add: agrees_def delivery_keys_def)

lemma ok_handle: "pipeline_ok d \<Longrightarrow> pipeline_ok (handleTemporaryFailure env r e x out ms d)"
  unfolding handleTemporaryFailure_def Let_def by (simp add: ok_set_delivery ok_raise ok_jobs ok_emit)

lemma ok_webhook: "pipeline_ok d \<Longrightarrow> pipeline_ok (webhook_process env i d)"
  unfolding webhook_process_def Let_def by (simp add: ok_set_delivery ok_handle split: option.split)

lemma ok_dispatch_row:
  assumes ok: "pipeline_ok d" and row: "row \<in> set (outbox d)" "ob_publishedAt row = None"
  shows "pipeline_ok (dispatch_row fmt now row d)"
proof -
  let ?d = "dispatch_row fmt now row d"
  have tab: "tables_ok d" using ok by (simp add: pipeline_ok_def)
  then obtain e where e: "outbox_event d row = Some e" using named_event [OF tab row(1)] row(1) by (auto simp: tables_ok_def)
  with named_event [OF tab row(1)] have ev: "e \<in> set (events d)" "names_event row e" by blast+
  obtain new where new: "dispatched e d (matchAndDispatch fmt e d) new" "map dl_destinationId new = routes_of d e"
    using dispatch_rules_exact [of "sort_key ru_priority (filter ru_enabled (rules d))" d e fmt "fields_of (Some (nullish_obj (ev_payload e)))"] ok
    by (auto simp: matchAndDispatch_def routes_of_def pipeline_ok_def no_selectors_def list_all_iff)
  have frame: "events ?d = events d" "rules ?d = rules d" "rule_links ?d = rule_links d" "destinations ?d = destinations d"
    "uuid_source ?d = uuid_source d" "uuid_next d \<le> uuid_next ?d"
    "delivery_keys ?d = delivery_keys d @ map (\<lambda>r. (ev_id e, dl_destinationId r)) new"
    using new(1) by (auto simp: dispatch_row_def e publish_def dispatched_def delivery_keys_def list_all_iff pending_for_def)
  have ob: "outbox ?d = map (mark now {ob_id row}) (outbox d)" by (simp add: dispatch_row_outbox e)
  have mk: "ob_id (mark now I r) = ob_id r" "ob_payload (mark now I r) = ob_payload r" for I r by (simp_all add: mark_def)
  have t: "tables_ok ?d"
  proof -
    have "ev_id ` set (events d) \<subseteq> issued ?d \<union> (@) (lit ''evt_'') ` issued ?d"
      using tab issued_bump [OF frame(5,6)] unfolding tables_ok_def by (meson Un_mono image_mono order_trans)
    then show ?thesis
      using tab ev(1) issued_bump [OF frame(5,6)] unfolding tables_ok_def ob frame
      by (auto simp: mk names_event_def image_image comp_def)
  qed
  have "published ?d x \<longleftrightarrow> published d x \<or> x = e" if "x \<in> set (events d)" for x
  proof -
    have "outbox_event ?d (mark now {ob_id row} r) = outbox_event ?d r" for r by (simp add: outbox_event_def mk)
    then have same: "outbox_event ?d (mark now {ob_id row} r) = outbox_event d r" for r
      using outbox_event_cong [OF frame(1), of r] by (rule trans)
    have "ob_id r = ob_id row \<longleftrightarrow> r = row" if "r \<in> set (outbox d)" for r
      using inj_on_eq_iff [OF tables_inj(2) [OF tab] that row(1)] .
    then have "ob_publishedAt (mark now {ob_id row} r) \<noteq> None \<longleftrightarrow> ob_publishedAt r \<noteq> None \<or> r = row" if "r \<in> set (outbox d)" for r
      using that row(2) by (auto simp: mark_def)
    then show ?thesis using e row(1) by (auto simp: published_def ob same)
  qed
  moreover have "\<not> published d e"
  proof
    assume "published d e"
    then obtain r where r: "r \<in> set (outbox d)" "outbox_event d r = Some e" "ob_publishedAt r \<noteq> None" by (auto simp: published_def)
    then have "ob_payload r = ob_payload row" using named_event [OF tab r(1)] ev(2) by (simp add: names_event_def)
    then have "r = row" using inj_on_eq_iff [OF tables_inj(3) [OF tab] r(1) row(1)] by simp
    with r(3) row(2) show False by simp
  qed
  moreover have "deliveries_of ?d x = deliveries_of d x @ (if x = e then routes_of d e else [])" if "x \<in> set (events d)" for x
  proof -
    have "ev_id x = ev_id e \<longleftrightarrow> x = e" using inj_on_eq_iff [OF tables_inj(1) [OF tab] that ev(1)] .
    then show ?thesis by (auto simp: deliveries_of_keys frame(7) filter_map comp_def new(2))
  qed
  moreover have "routes_of ?d x = routes_of d x" for x by (rule routes_of_cong [OF frame(2-4)])
  ultimately have "routed_once ?d" using ok ev(1) frame(1) by (auto simp: routed_once_def pipeline_ok_def)
  with t ok frame show ?thesis by (simp add: pipeline_ok_def good_ids_def no_selectors_def)
qed

lemma ok_dispatch_fold:
  assumes "pipeline_ok d" and "distinct (map ob_id rs)" and "\<forall>r\<in>set rs. r \<in> set (outbox d) \<and> ob_publishedAt r = None"
  shows "pipeline_ok (fold (dispatch_row fmt now) rs d)"
  using assms
proof (induction rs arbitrary: d)
  case (Cons r rs)
  let ?d = "dispatch_row fmt now r d"
  have "x \<in> set (outbox ?d) \<and> ob_publishedAt x = None" if "x \<in> set rs" for x
  proof -
    have "ob_id x \<noteq> ob_id r" using Cons.prems(2) that by (metis distinct.simps(2) image_eqI list.set_map list.simps(9))
    then have "mark now (if outbox_event d r = None then {} else {ob_id r}) x = x" by (simp add: mark_def)
    with Cons.prems(3) that show ?thesis by (metis dispatch_row_outbox image_eqI list.set_map list.set_intros(2))
  qed
  with Cons show ?case using ok_dispatch_row by simp
qed simp

lemma batch_rows:
  assumes "tables_ok d"
  shows "distinct (map ob_id (outbox_batch d)) \<and> (\<forall>r\<in>set (outbox_batch d). r \<in> set (outbox d) \<and> ob_publishedAt r = None)"
proof -
  have "distinct (map ob_id (sort_key ob_createdAt (filter (\<lambda>r. ob_publishedAt r = None) (outbox d))))"
    using assms unfolding tables_ok_def distinct_map by (auto intro: inj_on_subset)
  then show ?thesis by (auto simp: outbox_batch_def take_map [symmetric] dest: in_set_takeD)
qed

lemma ok_tick: "pipeline_ok d \<Longrightarrow> pipeline_ok (dispatchOutbox fmt now d)"
  unfolding dispatchOutbox_def using batch_rows [of d] by (intro ok_dispatch_fold) (simp_all add: pipeline_ok_def)

lemma reachable_ok: "pipeline start d \<Longrightarrow> pipeline_ok start \<Longrightarrow> pipeline_ok d"
  by (induction rule: pipeline.induct) (auto intro: ok_emit ok_api_emit ok_tick ok_webhook ok_agrees)

definition same_config :: "db \<Rightarrow> db \<Rightarrow> bool" where
  "same_config d d' \<longleftrightarrow> rules d' = rules d \<and> rule_links d' = rule_links d \<and> destinations d' = destinations d"

lemma tick_config: "same_config d (dispatchOutbox fmt now d)"
proof -
  have "same_config d (dispatch_row fmt now row d)" for row and d :: db
  proof (cases "outbox_event d row")
    case (Some e)
    moreover obtain new where "dispatched e d (matchAndDispatch fmt e d) new"
      using dispatch_rules_dispatched unfolding matchAndDispatch_def by blast
    ultimately show ?thesis by (simp add: dispatch_row_def publish_def same_config_def dispatched_def)
  qed (simp add: dispatch_row_def same_config_def)
  then have "same_config d (fold (dispatch_row fmt now) rs d)" for rs and d :: db
    by (induction rs arbitrary: d) (auto simp: same_config_def)
  then show ?thesis by (simp add: dispatchOutbox_def)
qed

lemma reachable_config: "pipeline start d \<Longrightarrow> same_config start d"
proof (induction rule: pipeline.induct)
  case (worked d env i)
  have "rules (webhook_process env i d) = rules d \<and> rule_links (webhook_process env i d) = rule_links d"
    by (simp add: webhook_process_def handleTemporaryFailure_def set_delivery_def emit_def raise_alert_def fresh_id_def Let_def
        split: option.split)
  with worked destinations_kept show ?case by (simp add: same_config_def)
next
  case (ticked d fmt now)
  with tick_config [of d fmt now] show ?case by (simp add: same_config_def)
qed (auto simp: same_config_def emit_def api_emit_def fresh_id_def agrees_def Let_def split: option.split)

section \<open>Every event is routed once\<close>

definition fresh_start :: "db \<Rightarrow> bool" where
  "fresh_start d \<longleftrightarrow> events d = [] \<and> outbox d = [] \<and> deliveries d = [] \<and> good_ids d \<and> no_selectors d"

lemma fresh_start_ok: "fresh_start d \<Longrightarrow> pipeline_ok d"
  by (simp add: fresh_start_def pipeline_ok_def tables_ok_def routed_once_def delivery_keys_def)

lemma events_routed:
  assumes "fresh_start start" and "pipeline start d" and "e \<in> set (events d)"
  shows "deliveries_of d e = (if published d e then routes_of start e else [])"
proof -
  have "routes_of d e = routes_of start e"
    using reachable_config [OF assms(2)] by (intro routes_of_cong) (simp_all add: same_config_def)
  with reachable_ok [OF assms(2) fresh_start_ok [OF assms(1)]] assms(3) show ?thesis
    by (simp add: pipeline_ok_def routed_once_def)
qed


section \<open>Ticks catch up\<close>

definition backlog :: "db \<Rightarrow> nat" where
  "backlog d = length (filter (\<lambda>r. ob_publishedAt r = None) (outbox d))"

lemma tick_backlog:
  assumes "pipeline_ok d" shows "backlog (dispatchOutbox fmt now d) = backlog d - 100"
proof -
  let ?U = "filter (\<lambda>r. ob_publishedAt r = None) (outbox d)" and ?B = "outbox_batch d"
  have tab: "tables_ok d" using assms by (simp add: pipeline_ok_def)
  note rows = batch_rows [OF tab]
  have "outbox_event d r \<noteq> None" if "r \<in> set (outbox d)" for r
  proof -
    from tab that obtain e where "e \<in> set (events d)" "names_event r e" unfolding tables_ok_def by blast
    with named_event [OF tab that, of e] show ?thesis by simp
  qed
  with rows have ids: "resolvable_ids d ?B = ob_id ` set ?B" by (auto simp: resolvable_ids_def)
  have inj: "ob_id x \<in> ob_id ` set ?B \<longleftrightarrow> x \<in> set ?B" if "x \<in> set (outbox d)" for x
    by (rule inj_on_image_mem_iff [OF tables_inj(2) [OF tab] that]) (use rows in blast)
  have keep: "ob_publishedAt (mark now (ob_id ` set ?B) r) = None \<longleftrightarrow> ob_publishedAt r = None \<and> r \<notin> set ?B" if "r \<in> set (outbox d)" for r
    using inj [OF that] by (auto simp: mark_def)
  have "backlog (dispatchOutbox fmt now d) = length (filter (\<lambda>r. ob_publishedAt (mark now (ob_id ` set ?B) r) = None) (outbox d))"
    by (simp add: backlog_def dispatchOutbox_def dispatch_fold_outbox ids filter_map comp_def)
  also have "\<dots> = length (filter (\<lambda>r. r \<notin> set ?B) ?U)" using keep by (simp add: conj_commute cong: filter_cong)
  also have "\<dots> = length ?U - length ?B"
  proof -
    have d: "distinct (outbox d)" "distinct ?B" using tab rows by (auto simp: tables_ok_def distinct_map)
    have "card (set ?U - set ?B) = card (set ?U) - card (set ?B)" using rows by (intro card_Diff_subset) auto
    moreover have "set (filter (\<lambda>r. r \<notin> set ?B) ?U) = set ?U - set ?B" by auto
    ultimately show ?thesis using d by (metis distinct_card distinct_filter)
  qed
  also have "length ?B = min 100 (backlog d)" by (simp add: outbox_batch_def backlog_def)
  finally show ?thesis by (simp add: backlog_def)
qed

definition ticks :: "(rat \<Rightarrow> ustring) \<Rightarrow> int list \<Rightarrow> db \<Rightarrow> db" where
  "ticks fmt = fold (dispatchOutbox fmt)"

lemma ticks_backlog: "pipeline_ok d \<Longrightarrow> backlog (ticks fmt nows d) = backlog d - 100 * length nows"
  by (induction nows arbitrary: d) (simp_all add: ticks_def tick_backlog ok_tick)

lemma ticks_reach: "pipeline start d \<Longrightarrow> pipeline start (ticks fmt nows d)"
  by (induction nows arbitrary: d) (simp_all add: ticks_def pipeline.ticked)

text \<open>What ticks add: pending deliveries and a job for each.\<close>

definition queues :: "db \<Rightarrow> db \<Rightarrow> bool" where
  "queues d d' \<longleftrightarrow> events d' = events d \<and> (\<exists>new. deliveries d' = deliveries d @ new
     \<and> webhook_jobs d' = webhook_jobs d @ map delivery_job new \<and> list_all (\<lambda>r. dl_status r = d_pending) new)"

lemma queues_trans: "queues d d' \<Longrightarrow> queues d' d'' \<Longrightarrow> queues d d''"
  by (auto simp: queues_def)

lemma queues_row: "queues d (dispatch_row fmt now row d)"
proof (cases "outbox_event d row")
  case (Some e)
  moreover obtain new where "dispatched e d (matchAndDispatch fmt e d) new"
    using dispatch_rules_dispatched unfolding matchAndDispatch_def by blast
  ultimately show ?thesis by (auto simp: dispatch_row_def publish_def queues_def dispatched_def list_all_iff pending_for_def)
qed (simp add: dispatch_row_def queues_def)

lemma queues_ticks: "queues d (ticks fmt nows d)"
proof -
  have "queues d d" for d by (simp add: queues_def)
  moreover from this have "queues d (fold (dispatch_row fmt now) rs d)" for now rs and d :: db
  proof (induction rs arbitrary: d)
    case (Cons r rs)
    show ?case using queues_trans [OF queues_row [of d fmt now r] Cons.IH [OF Cons.prems]] by simp
  qed simp
  ultimately show ?thesis
  proof (induction nows arbitrary: d)
    case (Cons now nows)
    note step = Cons.prems(2) [of d now "outbox_batch d", folded dispatchOutbox_def]
    show ?case using queues_trans [OF step Cons.IH [OF Cons.prems]] by (simp add: ticks_def)
  qed (simp add: ticks_def)
qed

lemma ticks_payloads: "map ob_payload (outbox (ticks fmt nows d)) = map ob_payload (outbox d)"
proof (induction nows arbitrary: d)
  case (Cons now nows)
  have "map ob_payload (outbox (dispatchOutbox fmt now d)) = map ob_payload (outbox d)"
    by (simp add: dispatchOutbox_def dispatch_fold_outbox mark_def comp_def if_distrib cong: if_cong)
  with Cons show ?case by (simp add: ticks_def)
qed (simp add: ticks_def)

section \<open>An inbound message reaches its destinations\<close>

lemma agrees_refl: "agrees d d"
  by (simp add: agrees_def)

lemma agrees_trans: "agrees d d' \<Longrightarrow> agrees d' d'' \<Longrightarrow> agrees d d''"
  by (simp add: agrees_def)

lemma agrees_thread:
  assumes "\<And>x. agrees x (race x)"
  shows "agrees d (snd (findOrCreateConversation race now e ch ph raw d))"
proof -
  have "agrees d x" if "agrees (race d) x" for x using assms that agrees_trans by blast
  moreover have "agrees (race d) x" if "create_conversation now e ch ph raw (race d) = Some (c, x)" for c x
    using that by (auto simp: create_conversation_def fresh_id_def agrees_def delivery_keys_def Let_def split: if_splits)
  ultimately show ?thesis using assms [of d]
    by (auto simp: findOrCreateConversation_def Let_def agrees_refl split: option.split)
qed

lemma agrees_files: "agrees d (snd (storeFor env mid rs d))"
proof -
  have persist: "agrees d d'" if "media_persist env mid bytes name mime d = Some d'" for bytes name mime d d'
    using that by (auto simp: media_persist_def fresh_id_def Let_def agrees_def delivery_keys_def split: if_splits)
  have "agrees (snd p) (snd (store_ref env f mid r p))" for f r p
    by (cases p) (auto simp: store_ref_def agrees_refl intro: persist split: option.split)
  then have "agrees (snd p) (snd (fold (store_ref env f mid) rs p))" for f p
  proof (induction rs arbitrary: p)
    case (Cons r rs)
    from agrees_trans [OF Cons.prems [of p f r] Cons.IH [OF Cons.prems]] show ?case by simp
  qed (simp add: agrees_refl)
  from this [of "(0, d)"] show ?thesis by (simp add: storeFor_def agrees_refl split: option.split)
qed

lemma persist_emits:
  assumes "ingest_persist env adapter ep acc i d = (Some True, d')" and "\<And>x. agrees x (ie_race env x)"
  shows "\<exists>d4 m. agrees d d4 \<and> d' = snd (emit (ie_iso env) (ie_now env) (received_event env i m) d4) \<and> m \<in> set (messages d')
    \<and> ms_endpointId m = ep_id ep \<and> ms_content m = content_json i
    \<and> ms_externalId m = (if ci_externalId i = [] then None else Some (ci_externalId i))"
proof -
  let ?open = "findOrCreateConversation (ie_race env) (ie_now env) (ep_id ep) (ac_type acc)
                  (case counterparty i of Some a \<Rightarrow> ca_e164 a | None \<Rightarrow> None) (map_option ca_raw (counterparty i)) d"
  have none: "stored_twin (ep_id ep) (ci_externalId i) d = None"
    using assms(1) by (auto simp: ingest_persist_def split: option.splits)
  with assms(1) obtain c d1 where o': "?open = (Some c, d1)"
    by (cases ?open; cases "fst ?open") (auto simp: ingest_persist_def)
  with agrees_thread [OF assms(2), where d = d] have a1: "agrees d d1" by (metis snd_conv)
  obtain mid d2 where fr: "fresh_id d1 = (mid, d2)" by (cases "fresh_id d1") auto
  let ?m = "inbound_row i ep acc mid (cv_id c) (ie_now env)"
  let ?d3 = "touch_thread (cv_id c) (ci_receivedAt i) (d2\<lparr>messages := messages d2 @ [?m]\<rparr>)"
  let ?d4 = "snd (storeFor (media_env_of env adapter) mid (ci_attachments i) ?d3)"
  have d': "d' = snd (emit (ie_iso env) (ie_now env) (received_event env i ?m) ?d4)"
    using none o' fr assms(1) by (auto simp: ingest_persist_def Let_def)
  have "agrees d1 ?d3" using fr by (auto simp: fresh_id_def touch_thread_def agrees_def delivery_keys_def)
  then have "agrees d ?d4" using a1 agrees_files agrees_trans by blast
  moreover have "?m \<in> set (messages d')" unfolding d' by simp
  ultimately show ?thesis using d' by (intro exI [of _ ?d4] exI [of _ ?m]) (simp add: inbound_row_def)
qed

text \<open>An event that waits in the outbox is published once enough ticks have passed.\<close>

lemma ticks_publish:
  assumes "fresh_start start" and "pipeline start d" and "e \<in> set (events d)" and "\<exists>row\<in>set (outbox d). names_event row e"
    and "backlog d \<le> 100 * length nows"
  shows "published (ticks fmt nows d) e"
proof -
  let ?d = "ticks fmt nows d"
  have ok: "pipeline_ok d" "pipeline_ok ?d"
    using reachable_ok fresh_start_ok [OF assms(1)] assms(2) ticks_reach [OF assms(2)] by blast+
  from assms(4) obtain row where "row \<in> set (outbox d)" "names_event row e" by blast
  moreover from this(1) have "ob_payload row \<in> set (map ob_payload (outbox ?d))" unfolding ticks_payloads by simp
  ultimately obtain row' where r: "row' \<in> set (outbox ?d)" "names_event row' e" by (auto simp: names_event_def)
  have "backlog ?d = 0" using ticks_backlog [OF ok(1), of fmt nows] assms(5) by simp
  with r(1) have "ob_publishedAt r \<noteq> None" if "r \<in> set (outbox ?d)" for r using that by (auto simp: backlog_def filter_empty_conv)
  moreover have "e \<in> set (events ?d)" using queues_ticks [of d fmt nows] assms(3) by (simp add: queues_def)
  then have "outbox_event ?d row' = Some e" using named_event [of ?d row' e] r ok(2) by (simp add: pipeline_ok_def)
  ultimately show ?thesis using r(1) by (auto simp: published_def)
qed

text \<open>Deliveries name events that exist.\<close>

lemma new_event_undelivered:
  assumes "tables_ok d" and "delivery_keys d' = delivery_keys d" and "ev_id e \<notin> ev_id ` set (events d)"
    and "r \<in> set (deliveries d')"
  shows "dl_eventId r \<noteq> ev_id e"
proof -
  from assms(2,4) have "dl_eventId r \<in> fst ` set (delivery_keys d)" by (metis (no_types, lifting) delivery_keys_def fst_conv image_eqI list.set_map)
  with assms(1) have "dl_eventId r \<in> ev_id ` set (events d)" unfolding tables_ok_def by blast
  with assms(3) show ?thesis by metis
qed


section \<open>A concrete pipeline\<close>

text \<open>One rule that sends every message that comes in to one destination.\<close>

definition inbound_rule :: rule_row where
  "inbound_rule = \<lparr>ru_id = lit ''r'', ru_name = lit ''n'', ru_enabled = True, ru_priority = 100,
     ru_eventTypes = JArr [JStr (lit ''message.received'')], ru_filters = JObj [], ru_fieldSelector = JArr []\<rparr>"

definition pipeline_db :: db where
  "pipeline_db = (empty_db tick_ids)\<lparr>rules := [inbound_rule], rule_links := [(lit ''r'', lit ''d'')],
     destinations := destinations route_db\<rparr>"

lemma pipeline_db_fresh: "fresh_start pipeline_db"
  by (auto simp: fresh_start_def pipeline_db_def empty_db_def good_ids_def no_selectors_def inbound_rule_def tick_ids_def route_db_def
      inj_def starts_with_def lit_def)

lemma pipeline_db_routes: "ev_eventType e = lit ''message.received'' \<Longrightarrow> routes_of pipeline_db e = [lit ''d'']"
  by (simp add: routes_of_def routed_to_def pipeline_db_def inbound_rule_def route_db_def empty_db_def ruleMatches_def
      map_filter_simps filter_actual_def rule_destinations_def)

lemma pipeline_db_receives:
  "\<exists>d. ingest_persist sample_ingest_env echo_adapter sample_endpoint sample_account sample_inbound pipeline_db = (Some True, d)"
proof -
  obtain b d where p: "ingest_persist sample_ingest_env echo_adapter sample_endpoint sample_account sample_inbound pipeline_db = (Some b, d)"
    using persist_total [OF sample_peer] by blast
  moreover have "messages pipeline_db = []" by (simp add: pipeline_db_def empty_db_def)
  then have "stored_twin (ep_id sample_endpoint) (ci_externalId sample_inbound) pipeline_db = None"
    by (simp add: stored_twin_def)
  ultimately have b by (auto simp: ingest_persist_def Let_def split: option.splits prod.splits)
  with p show ?thesis by auto
qed

definition sample_emission :: emit_params where
  "sample_emission = \<lparr>em_type = lit ''message.received'', em_aggregateId = None, em_channel = None, em_accountId = None,
     em_endpointId = None, em_data = JObj [], em_dedupKey = None\<rparr>"

definition emitted_db :: db where
  "emitted_db = snd (emit (\<lambda>t. []) 5 sample_emission pipeline_db)"



end
