(* ===== verification/Sidecar.thy ===== *)
theory Sidecar
  imports Adapters
begin

text \<open>
  The stand-ins for the vendor services in development and in the tests
  (infra/docker/sidecar-stub/server.mjs): one process plays the SMS server, UnoAPI,
  signal-cli-rest-api or gwmd. Its stores are maps in insertion order, its routes a table as
  the code registers them. What express does with a request is modelled as far as the
  gateway's adapters use it: the path without dot segments is matched by segments,
  parameters are percent-decoded, a query is a list of names and values (a name is sent
  once), and a JSON body is parsed. The page it writes for an unknown route or an
  exception, the clock and the random digits are arguments. The lemmas show that
  \<open>decodeURIComponent\<close> undoes \<open>encodeURIComponent\<close>, that every store keeps one entry per key
  whatever is asked, and what the adapters' own requests are answered.
\<close>

section \<open>Percent decoding\<close>

definition hex_value :: "nat \<Rightarrow> nat option" where
  "hex_value c = (if is_digit c then Some (c - 48) else if 65 \<le> c \<and> c \<le> 70 then Some (c - 55)
     else if 97 \<le> c \<and> c \<le> 102 then Some (c - 87) else None)"

fun percent_byte :: "ustring \<Rightarrow> (nat \<times> ustring) option" where
  "percent_byte (p # a # b # s) =
     (if p \<noteq> 37 then None
      else (case (hex_value a, hex_value b) of (Some x, Some y) \<Rightarrow> Some (16 * x + y, s) | _ \<Rightarrow> None))"
| "percent_byte _ = None"

fun continuation :: "nat \<Rightarrow> nat \<Rightarrow> ustring \<Rightarrow> (nat \<times> ustring) option" where
  "continuation 0 v s = Some (v, s)"
| "continuation (Suc n) v s =
     (case percent_byte s of
        Some (b, t) \<Rightarrow> if 128 \<le> b \<and> b < 192 then continuation n (64 * v + (b - 128)) t else None
      | None \<Rightarrow> None)"

text \<open>One character in UTF-8; \<open>None\<close> for a sequence that is not one, or longer than needed.\<close>

definition decode_char :: "ustring \<Rightarrow> (nat \<times> ustring) option" where
  "decode_char s =
     (case percent_byte s of
        None \<Rightarrow> None
      | Some (b, t) \<Rightarrow>
          if b < 128 then Some (b, t)
          else (let (n, v) = (if 192 \<le> b \<and> b < 224 then (1, b - 192) else if 224 \<le> b \<and> b < 240 then (2, b - 224) else (3, b - 240))
                in if b < 192 \<or> 248 \<le> b then None
                   else (case continuation n v t of
                           None \<Rightarrow> None
                         | Some (c, r) \<Rightarrow> (case utf8 c of Some bs \<Rightarrow> if length bs = Suc n \<and> c < 1114112 then Some (c, r) else None
                                           | None \<Rightarrow> None))))"

lemma percent_byte_shorter: "percent_byte s = Some (b, t) \<Longrightarrow> length t < length s"
  by (induction s rule: percent_byte.induct) (auto split: if_splits option.splits)

lemma continuation_shorter: "continuation n v s = Some (c, t) \<Longrightarrow> length t \<le> length s"
proof (induction n arbitrary: v s)
  case (Suc n)
  then show ?case using percent_byte_shorter by (fastforce split: option.splits if_splits)
qed simp

lemma decode_char_shorter: "decode_char s = Some (c, t) \<Longrightarrow> length t < length s"
  by (auto simp: decode_char_def Let_def split: option.splits if_splits prod.splits
      dest!: percent_byte_shorter continuation_shorter)

function decodeURIComponent :: "ustring \<Rightarrow> ustring option" where
  "decodeURIComponent [] = Some []"
| "decodeURIComponent (c # s) =
     (if c \<noteq> 37 then map_option ((#) c) (decodeURIComponent s)
      else (case decode_char (c # s) of
              None \<Rightarrow> None
            | Some (d, t) \<Rightarrow> map_option ((#) d) (decodeURIComponent t)))"
  by pat_completeness auto
termination
  by (relation "measure length") (auto dest: decode_char_shorter)

section \<open>Decoding undoes encoding\<close>

lemma hex_value_upper: "n < 16 \<Longrightarrow> hex_value (upper_hex n) = Some n"
  by (auto simp: hex_value_def upper_hex_def is_digit_def)

lemma percent_byte_percent: "b < 256 \<Longrightarrow> percent_byte (percent b @ s) = Some (b, s)"
  by (simp add: percent_def hex_value_upper)

lemma continuation_percent:
  "b < 64 \<Longrightarrow> continuation (Suc n) v (percent (128 + b) @ s) = continuation n (64 * v + b) s"
  by (simp add: percent_byte_percent)

lemma sixty_fours:
  fixes c :: nat
  shows "4096 * (c div 4096) + 64 * (c div 64 mod 64) + c mod 64 = c"
    "262144 * (c div 262144) + 4096 * (c div 4096 mod 64) + 64 * (c div 64 mod 64) + c mod 64 = c"
proof -
  have e: "c div 4096 = c div 64 div 64" "c div 262144 = c div 64 div 64 div 64" by (simp_all add: div_mult2_eq [symmetric])
  have "c = 64 * (c div 64) + c mod 64" "c div 64 = 64 * (c div 64 div 64) + c div 64 mod 64"
    "c div 64 div 64 = 64 * (c div 64 div 64 div 64) + c div 64 div 64 mod 64"
    by (simp_all only: mult_div_mod_eq)
  then show "4096 * (c div 4096) + 64 * (c div 64 mod 64) + c mod 64 = c"
    "262144 * (c div 262144) + 4096 * (c div 4096 mod 64) + 64 * (c div 64 mod 64) + c mod 64 = c"
    unfolding e by linarith+
qed

lemma decode_char_percent:
  assumes "b < 248" "192 \<le> b" and "continuation (if b < 224 then 1 else if b < 240 then 2 else 3)
      (if b < 224 then b - 192 else if b < 240 then b - 224 else b - 240) t = Some (c, s)"
    and "utf8 c = Some bs" "length bs = (if b < 224 then 2 else if b < 240 then 3 else 4)" "c < 1114112"
  shows "decode_char (percent b @ t) = Some (c, s)"
  using assms by (auto simp: decode_char_def percent_byte_percent split: if_splits)

lemma decode_utf8:
  assumes "utf8 c = Some bs" and "c < 1114112"
  shows "decode_char (concat (map percent bs) @ s) = Some (c, s)"
proof -
  consider "c < 128" | "128 \<le> c" "c < 2048" | "2048 \<le> c" "c < 65536" "c < 55296 \<or> 57343 < c" | "65536 \<le> c"
    using assms(1) by (fastforce simp: utf8_def split: if_splits)
  then show ?thesis
  proof cases
    case 1
    with assms have "bs = [c]" by (simp add: utf8_def)
    with 1 show ?thesis by (simp add: decode_char_def percent_byte_percent)
  next
    case 2
    then have bs: "bs = [192 + c div 64, 128 + c mod 64]" and hi: "c div 64 < 32" using assms(1) by (simp_all add: utf8_def)
    have "continuation 1 (c div 64) (percent (128 + c mod 64) @ s) = Some (c, s)"
      unfolding One_nat_def by (simp add: continuation_percent del: continuation.simps(2))
    with bs hi assms show ?thesis by (simp add: decode_char_percent)
  next
    case 3
    then have bs: "bs = [224 + c div 4096, 128 + c div 64 mod 64, 128 + c mod 64]" and hi: "c div 4096 < 16"
      using assms(1) by (auto simp: utf8_def)
    have "continuation 2 (c div 4096) (percent (128 + c div 64 mod 64) @ percent (128 + c mod 64) @ s) = Some (c, s)"
      unfolding numeral_2_eq_2 by (simp add: continuation_percent sixty_fours del: continuation.simps(2))
    with bs hi assms show ?thesis by (simp add: decode_char_percent)
  next
    case 4
    then have bs: "bs = [240 + c div 262144, 128 + c div 4096 mod 64, 128 + c div 64 mod 64, 128 + c mod 64]" and hi: "c div 262144 < 8"
      using assms by (auto simp: utf8_def)
    have "continuation 3 (c div 262144) (percent (128 + c div 4096 mod 64) @ percent (128 + c div 64 mod 64)
        @ percent (128 + c mod 64) @ s) = Some (c, s)"
      unfolding numeral_3_eq_3 by (simp add: continuation_percent sixty_fours del: continuation.simps(2))
    with bs hi assms show ?thesis by (simp add: decode_char_percent)
  qed
qed

text \<open>Characters of a text that is not cut off within a pair of surrogates.\<close>

definition code_points :: "ustring \<Rightarrow> bool" where
  "code_points s \<longleftrightarrow> list_all (\<lambda>c. c < 1114112) s"

lemma decode_percent_first:
  assumes "utf8 c = Some bs" and "c < 1114112"
  shows "decodeURIComponent (concat (map percent bs) @ s) = map_option ((#) c) (decodeURIComponent s)"
proof -
  obtain b bs' where "bs = b # bs'" using assms(1) by (auto simp: utf8_def split: if_splits)
  then obtain r where "concat (map percent bs) @ s = 37 # r" by (auto simp: percent_def)
  with decode_utf8 [OF assms, of s] show ?thesis by simp
qed

lemma decode_encode: "encodeURIComponent s = Some u \<Longrightarrow> code_points s \<Longrightarrow> decodeURIComponent u = Some s"
proof (induction s arbitrary: u)
  case (Cons c cs)
  from Cons.prems obtain v where v: "encodeURIComponent cs = Some v" by (auto split: option.splits)
  note ih = Cons.IH [OF v]
  show ?case
  proof (cases "uri_unreserved c")
    case True
    then have "c \<noteq> 37" by (auto simp: uri_unreserved_def is_digit_def is_ascii_letter_def string_simps)
    with True v ih Cons.prems show ?thesis by (auto simp: code_points_def)
  next
    case False
    with Cons.prems v obtain bs where "utf8 c = Some bs" "u = concat (map percent bs) @ v" by (auto split: option.splits)
    with decode_percent_first ih Cons.prems(2) show ?thesis by (auto simp: code_points_def)
  qed
qed simp

section \<open>Requests and answers\<close>

record stub_request =
  sq_method :: string
  sq_path :: "ustring list"
  sq_query :: "(ustring \<times> ustring) list"
  sq_headers :: "(string \<times> ustring) list"
  sq_host :: ustring
  sq_body :: "json option"

text \<open>Names and values of a query; a value that cannot be decoded stays as it is.\<close>

definition query_text :: "ustring \<Rightarrow> ustring" where
  "query_text w = (let v = map (\<lambda>c. if c = 43 then 32 else c) w in case decodeURIComponent v of Some t \<Rightarrow> t | None \<Rightarrow> v)"

definition query_pairs :: "ustring \<Rightarrow> (ustring \<times> ustring) list" where
  "query_pairs q =
     map (\<lambda>w. (query_text (takeWhile (\<lambda>c. c \<noteq> 61) w), query_text (drop 1 (dropWhile (\<lambda>c. c \<noteq> 61) w))))
       (filter (\<lambda>w. w \<noteq> []) (split_on 38 q))"

text \<open>What the process behind an address is asked; \<open>None\<close> for a request that goes elsewhere.\<close>

definition stub_receives :: "ustring \<Rightarrow> http_request \<Rightarrow> stub_request option" where
  "stub_receives host q =
     (let base = lit ''http://'' @ host @ lit ''/'' in
      if \<not> starts_with base (hq_url q) then None
      else (let rest = drop (length base) (hq_url q) in Some
        \<lparr>sq_method = hq_method q, sq_path = served_path rest,
         sq_query = query_pairs (drop 1 (takeWhile (\<lambda>c. c \<noteq> 35) (dropWhile (\<lambda>c. c \<noteq> 63 \<and> c \<noteq> 35) rest))),
         sq_headers = hq_headers q, sq_host = host,
         sq_body = (case hq_body q of JsonBody v \<Rightarrow> Some v | _ \<Rightarrow> None)\<rparr>))"

definition query_arg :: "stub_request \<Rightarrow> string \<Rightarrow> ustring option" where
  "query_arg q k = map_of (sq_query q) (lit k)"

definition body_member :: "stub_request \<Rightarrow> string \<Rightarrow> json option" where
  "body_member q k = mem (sq_body q) k"

record stub_env =
  sv_now :: int
  sv_iso :: "int \<Rightarrow> ustring"
  sv_random :: ustring
  sv_fmt :: "rat \<Rightarrow> ustring"
  sv_page :: "int \<Rightarrow> ustring"

definition res_json :: "stub_env \<Rightarrow> int \<Rightarrow> json \<Rightarrow> http_response" where
  "res_json env status v = \<lparr>hr_status = status, hr_json = Some v, hr_text = stringify (sv_fmt env) v,
     hr_bytes = utf8_bytes (stringify (sv_fmt env) v), hr_type = Some (lit ''application/json; charset=utf-8'')\<rparr>"

definition res_send :: "string \<Rightarrow> int \<Rightarrow> ustring \<Rightarrow> http_response" where
  "res_send ct status t = \<lparr>hr_status = status, hr_json = None, hr_text = t, hr_bytes = utf8_bytes t,
     hr_type = Some (lit ct @ lit ''; charset=utf-8'')\<rparr>"

definition res_end :: http_response where
  "res_end = \<lparr>hr_status = 204, hr_json = None, hr_text = [], hr_bytes = [], hr_type = None\<rparr>"

text \<open>The page of express for an unknown route, a bad parameter or an exception.\<close>

definition res_page :: "stub_env \<Rightarrow> int \<Rightarrow> http_response" where
  "res_page env status = res_send ''text/html'' status (sv_page env status)"

definition ok_json :: json where
  "ok_json = JObj [(lit ''ok'', JBool True)]"

definition error_json :: "string \<Rightarrow> json" where
  "error_json m = JObj [(lit ''error'', JStr (lit m))]"

text \<open>\<open>toString(36)\<close>.\<close>

fun radix36 :: "nat \<Rightarrow> ustring" where
  "radix36 n = (let d = n mod 36; c = (if d < 10 then 48 + d else 87 + d) in if n < 36 then [c] else radix36 (n div 36) @ [c])"

declare radix36.simps [simp del]

definition stamp36 :: "stub_env \<Rightarrow> ustring" where
  "stamp36 env = radix36 (nat (sv_now env))"

section \<open>The stores\<close>

datatype vendor = dbsms | unoapi_vendor | signal_vendor | gwmd_vendor

fun vendor_name :: "vendor \<Rightarrow> ustring" where
  "vendor_name dbsms = lit ''dbsms''"
| "vendor_name unoapi_vendor = lit ''unoapi''"
| "vendor_name signal_vendor = lit ''signal''"
| "vendor_name gwmd_vendor = lit ''gwmd''"

record stub_session =
  sn_state :: ustring
  sn_qr :: "ustring option"

record stub_account =
  sa_number :: ustring
  sa_device :: ustring
  sa_uuid :: ustring

text \<open>A map keeps the order in which its keys were first set.\<close>

record stub =
  sb_vendor :: vendor
  sb_sent :: "(ustring \<times> fields) list"
  sb_sessions :: "(ustring \<times> stub_session) list"
  sb_accounts :: "(ustring \<times> stub_account) list"
  sb_links :: "(ustring \<times> ustring) list"
  sb_devices :: "(ustring \<times> fields) list"
  sb_logins :: "(ustring \<times> ustring \<times> int) list"

definition fresh_stub :: "vendor \<Rightarrow> stub" where
  "fresh_stub v = \<lparr>sb_vendor = v, sb_sent = [], sb_sessions = [], sb_accounts = [], sb_links = [], sb_devices = [], sb_logins = []\<rparr>"

type_synonym stub_handler = "stub_env \<Rightarrow> stub_request \<Rightarrow> ustring list \<Rightarrow> stub \<Rightarrow> http_response \<times> stub"

definition stub_health :: stub_handler where
  "stub_health env q ps s = (res_json env 200 (JObj [(lit ''ok'', JBool True), (lit ''vendor'', JStr (vendor_name (sb_vendor s)))]), s)"

text \<open>\<open>sharedSent.set(id, { ...sharedSent.get(id), status })\<close>, also when a timer fires.\<close>

definition remember :: "ustring \<Rightarrow> fields \<Rightarrow> stub \<Rightarrow> stub" where
  "remember i fs s = s\<lparr>sb_sent := AList.update i fs (sb_sent s)\<rparr>"

definition stub_timer :: "ustring \<Rightarrow> string \<Rightarrow> stub \<Rightarrow> stub" where
  "stub_timer i status s = remember i (obj_set (lit ''status'') (JStr (lit status))
     (case map_of (sb_sent s) i of Some fs \<Rightarrow> fs | None \<Rightarrow> [])) s"

definition inbound_stub :: "bool \<Rightarrow> stub_handler" where
  "inbound_stub echo env q ps s =
     (res_json env 200 (JObj ((lit ''ok'', JBool True) # (if echo then json_fields [(''body'', sq_body q)] else []))), s)"

section \<open>The SMS server\<close>

definition no_credentials :: "stub_request \<Rightarrow> bool" where
  "no_credentials q \<longleftrightarrow> \<not> truthy_str (query_arg q ''Username'') \<or> \<not> truthy_str (query_arg q ''Password'')"

definition stub_querylines :: stub_handler where
  "stub_querylines env q ps s =
     (if no_credentials q then res_send ''text/html'' 401 (lit ''missing creds'')
      else res_send ''text/plain'' 200 (lit ''Line,Status,GSM,SIM'' @ [10]
        @ join_with [10] (map (\<lambda>n. dec_str n @ lit '',Free,100,SIM'' @ dec_str n @ lit ''-U'') [1, 2, 3, 4]) @ [10]), s)"

definition stub_sendsms :: stub_handler where
  "stub_sendsms env q ps s =
     (if no_credentials q then (res_send ''text/html'' 401 (lit ''missing creds''), s)
      else let i = (case query_arg q ''smskey'' of Some k \<Rightarrow> k | None \<Rightarrow> lit ''db-'' @ int_text (sv_now env))
           in (res_send ''text/plain'' 200 (lit ''ok''),
               remember i ((lit ''status'', JStr (lit ''dispatched'')) # text_fields [(''Tel'', query_arg q ''Tel''),
                 (''Line'', query_arg q ''Line''), (''Message'', query_arg q ''Message'')]) s))"

definition stub_sms_status :: stub_handler where
  "stub_sms_status env q ps s =
     (let key = query_arg q ''smskey''; shown = (case key of Some k \<Rightarrow> k | None \<Rightarrow> lit ''undefined'')
      in (res_send ''text/plain'' 200 (shown @ lit '','' @
            (case map_of (sb_sent s) (case key of Some k \<Rightarrow> k | None \<Rightarrow> []) of
               Some fs \<Rightarrow> js_String (sv_fmt env) (map_of fs (lit ''status'')) | None \<Rightarrow> lit ''unknown'')), s))"

section \<open>UnoAPI\<close>

definition unoapi_ping :: stub_handler where
  "unoapi_ping env q ps s = (res_json env 200 ok_json, s)"

definition unoapi_qr_uri :: "stub_env \<Rightarrow> ustring \<Rightarrow> ustring option" where
  "unoapi_qr_uri env phone = map_option (\<lambda>p. lit ''waqr://session/'' @ p @ lit ''?token='' @ stamp36 env) (encodeURIComponent phone)"

definition unoapi_qr :: stub_handler where
  "unoapi_qr env q ps s =
     (let phone = hd ps;
          session = (case map_of (sb_sessions s) phone of Some n \<Rightarrow> n | None \<Rightarrow> \<lparr>sn_state = lit ''qr_pending'', sn_qr = None\<rparr>);
          put = (\<lambda>n. s\<lparr>sb_sessions := AList.update phone n (sb_sessions s)\<rparr>)
      in case or_else (sn_qr session) (unoapi_qr_uri env phone) of
           None \<Rightarrow> (res_page env 500, put session)
         | Some uri \<Rightarrow> (res_json env 200 (JObj [(lit ''phone'', JStr phone), (lit ''qr'', JStr uri),
             (lit ''state'', JStr (sn_state session))]), put (session\<lparr>sn_qr := Some uri\<rparr>)))"

definition unoapi_connect :: stub_handler where
  "unoapi_connect env q ps s =
     (let phone = hd ps in
      case map_of (sb_sessions s) phone of
        None \<Rightarrow> (res_json env 404 (error_json ''session not found''), s)
      | Some n \<Rightarrow> (res_json env 200 (JObj [(lit ''ok'', JBool True), (lit ''phone'', JStr phone), (lit ''state'', JStr (lit ''connected''))]),
          s\<lparr>sb_sessions := AList.update phone (n\<lparr>sn_state := lit ''connected''\<rparr>) (sb_sessions s)\<rparr>))"

definition unoapi_sessions :: stub_handler where
  "unoapi_sessions env q ps s =
     (res_json env 200 (JArr (map (\<lambda>(phone, n). JObj [(lit ''phone'', JStr phone), (lit ''state'', JStr (sn_state n))])
        (filter (\<lambda>(phone, n). sn_state n = lit ''connected'') (sb_sessions s)))), s)"

definition unoapi_delete :: stub_handler where
  "unoapi_delete env q ps s = (res_json env 200 ok_json, s\<lparr>sb_sessions := AList.delete (hd ps) (sb_sessions s)\<rparr>)"

definition unoapi_messages :: stub_handler where
  "unoapi_messages env q ps s =
     (let i = lit ''wa-msg-'' @ int_text (sv_now env) in
      (res_json env 200 (JObj [(lit ''messages'', JArr [JObj [(lit ''id'', JStr i)]])]),
       remember i ((lit ''phone'', JStr (hd ps)) # json_fields [(''body'', sq_body q), (''status'', Some (JStr (lit ''sent'')))]) s))"

section \<open>signal-cli-rest-api\<close>

definition signal_health :: stub_handler where
  "signal_health env q ps s = (res_end, s)"

definition asked_device :: "stub_request \<Rightarrow> ustring" where
  "asked_device q = js_trim (case query_arg q ''device_name'' of Some n \<Rightarrow> n | None \<Rightarrow> [])"

definition device_link_uri :: "stub_env \<Rightarrow> ustring \<Rightarrow> ustring option" where
  "device_link_uri env name = map_option (\<lambda>n. lit ''sgnl://linkdevice?uuid=stub-'' @ n @ lit ''&pub_key=stub'' @ stamp36 env) (encodeURIComponent name)"

definition signal_qr_raw :: stub_handler where
  "signal_qr_raw env q ps s =
     (let deviceName = asked_device q in
      if deviceName = [] then (res_json env 400 (error_json ''Please provide a name for the device''), s)
      else (case device_link_uri env deviceName of
              None \<Rightarrow> (res_page env 500, s)
            | Some uri \<Rightarrow> (res_json env 200 (JObj [(lit ''device_link_uri'', JStr uri)]),
                s\<lparr>sb_links := AList.update deviceName uri (sb_links s)\<rparr>)))"

text \<open>The bytes of a picture with one pixel, from the literal in the source.\<close>

definition png_bytes :: "nat list" where
  "png_bytes = [137, 80, 78, 71, 13, 10, 26, 10, 0, 0, 0, 13, 73, 72, 68, 82, 0, 0, 0, 1, 0, 0, 0, 1, 8, 6, 0, 0, 0, 31, 21,
     196, 137, 0, 0, 0, 13, 73, 68, 65, 84, 120, 218, 99, 252, 207, 192, 80, 15, 0, 4, 133, 1, 128, 132, 169, 140, 33, 0, 0,
     0, 0, 73, 69, 78, 68, 174, 66, 96, 130]"

definition res_png :: http_response where
  "res_png = \<lparr>hr_status = 200, hr_json = None, hr_text = [], hr_bytes = png_bytes, hr_type = Some (lit ''image/png'')\<rparr>"

definition signal_qr_image :: stub_handler where
  "signal_qr_image env q ps s =
     (if asked_device q = [] then res_json env 400 (error_json ''Please provide a name for the device'') else res_png, s)"

definition signal_link :: stub_handler where
  "signal_link env q ps s =
     (let deviceName = js_trim (text_or_empty (sv_fmt env) (coalesce (body_member q ''device_name'') (body_member q ''deviceName'')));
          number = js_String (sv_fmt env) (coalesce (body_member q ''number'')
            (Some (JStr (lit ''+1'' @ dec_str (1000000000 + length (sb_accounts s) + 1)))));
          u = lit ''uuid-'' @ deviceName @ lit ''-'' @ take 8 (sv_random env)
      in if deviceName = [] then (res_json env 400 (error_json ''device_name required''), s)
         else (res_json env 200 (JObj [(lit ''ok'', JBool True), (lit ''number'', JStr number), (lit ''device_name'', JStr deviceName),
                 (lit ''uuid'', JStr u), (lit ''link_uri'', opt_str (map_of (sb_links s) deviceName))]),
               s\<lparr>sb_accounts := AList.update deviceName \<lparr>sa_number = number, sa_device = deviceName, sa_uuid = u\<rparr> (sb_accounts s)\<rparr>))"

definition signal_accounts :: stub_handler where
  "signal_accounts env q ps s = (res_json env 200 (JArr (map (\<lambda>(k, a). JStr (sa_number a)) (sb_accounts s))), s)"

definition signal_local_data :: stub_handler where
  "signal_local_data env q ps s =
     (case find (\<lambda>(k, a). sa_number a = hd ps) (sb_accounts s) of
        Some (key, a) \<Rightarrow> (res_end, s\<lparr>sb_accounts := AList.delete key (sb_accounts s)\<rparr>)
      | None \<Rightarrow> (res_json env 404 (error_json ''not found''), s))"

definition signal_stub_send :: stub_handler where
  "signal_stub_send env q ps s =
     (let i = int_text (sv_now env);
          recipient = (case coalesce (case body_member q ''recipients'' of
              Some (JStr (c # cs)) \<Rightarrow> Some (JStr [c]) | Some r \<Rightarrow> own r (lit ''0'') | None \<Rightarrow> None)
            (Some (JStr (lit ''unknown''))) of Some v \<Rightarrow> to_text (sv_fmt env) v | None \<Rightarrow> [])
      in (res_json env 200 (JObj [(lit ''results'', JObj [(recipient, JObj [(lit ''timestamp'', JNum (of_int (sv_now env))),
            (lit ''externalId'', JStr i)])])]),
          remember i (json_fields [(''body'', sq_body q), (''status'', Some (JStr (lit ''sent'')))]) s))"

definition signal_register :: stub_handler where
  "signal_register env q ps s = (res_json env 200 ok_json, s)"

section \<open>gwmd\<close>

definition gwmd_ok :: "fields \<Rightarrow> json" where
  "gwmd_ok rest = JObj ((lit ''status'', JNum 200) # (lit ''code'', JStr (lit ''SUCCESS'')) # rest)"

definition gwmd_missing :: "fields \<Rightarrow> json" where
  "gwmd_missing rest = JObj ((lit ''status'', JNum 404) # (lit ''code'', JStr (lit ''NOT_FOUND''))
     # (lit ''message'', JStr (lit ''device not found'')) # rest)"

definition gwmd_devices :: stub_handler where
  "gwmd_devices env q ps s = (res_json env 200 (gwmd_ok [(lit ''results'', JArr (map (\<lambda>(i, d). JObj d) (sb_devices s)))]), s)"

definition new_device :: "stub_env \<Rightarrow> ustring \<Rightarrow> fields" where
  "new_device env i = [(lit ''id'', JStr i), (lit ''jid'', JStr []), (lit ''state'', JStr (lit ''disconnected'')),
     (lit ''created_at'', JStr (sv_iso env (sv_now env)))]"

definition gwmd_add :: stub_handler where
  "gwmd_add env q ps s =
     (let deviceId = js_trim (text_or_empty (sv_fmt env) (body_member q ''device_id''));
          added = (\<lambda>d. res_json env 200 (gwmd_ok [(lit ''message'', JStr (lit ''Device added'')), (lit ''results'', JObj d)]))
      in if deviceId = [] then (res_json env 400 (error_json ''device_id required''), s)
         else (case map_of (sb_devices s) deviceId of
                 Some d \<Rightarrow> (added d, s)
               | None \<Rightarrow> (added (new_device env deviceId), s\<lparr>sb_devices := AList.update deviceId (new_device env deviceId) (sb_devices s)\<rparr>)))"

definition gwmd_qr_login :: stub_handler where
  "gwmd_qr_login env q ps s =
     (let deviceId = hd ps; token = lit ''gwmd-'' @ stamp36 env @ lit ''-'' @ take 6 (sv_random env);
          s' = s\<lparr>sb_logins := AList.update deviceId (token, sv_now env + 60000) (sb_logins s)\<rparr>
      in if map_of (sb_devices s) deviceId = None then (res_json env 404 (gwmd_missing []), s)
         else (case encodeURIComponent deviceId of
                 None \<Rightarrow> (res_page env 500, s')
               | Some n \<Rightarrow> (res_json env 200 (gwmd_ok [(lit ''message'', JStr (lit ''Login success'')),
                   (lit ''results'', JObj [(lit ''device_id'', JStr deviceId),
                     (lit ''qr_link'', JStr (lit ''http://'' @ sq_host q @ lit ''/app/statics/qrcode/scan-qr-'' @ n @ lit ''.png'')),
                     (lit ''qr_duration'', JNum 60)])]), s')))"

definition gwmd_qr_image :: stub_handler where
  "gwmd_qr_image env q ps s = (res_png, s)"

definition gwmd_device_status :: stub_handler where
  "gwmd_device_status env q ps s =
     (let i = (lit ''device_id'', JStr (hd ps)) in
      case map_of (sb_devices s) (hd ps) of
        None \<Rightarrow> (res_json env 404 (gwmd_missing [(lit ''results'', JObj [i, (lit ''is_connected'', JBool False),
                   (lit ''is_logged_in'', JBool False)])]), s)
      | Some d \<Rightarrow> (res_json env 200 (gwmd_ok [(lit ''message'', JStr (lit ''Device status'')),
            (lit ''results'', JObj [i, (lit ''is_connected'', JBool True),
              (lit ''is_logged_in'', JBool (map_of d (lit ''state'') = Some (JStr (lit ''logged_in'')))),
              (lit ''jid'', the (coalesce (map_of d (lit ''jid'')) (Some (JStr []))))])]), s))"

definition gwmd_delete :: stub_handler where
  "gwmd_delete env q ps s =
     (res_json env 200 (gwmd_ok [(lit ''message'', JStr (lit ''Device deleted''))]),
      s\<lparr>sb_devices := AList.delete (hd ps) (sb_devices s), sb_logins := AList.delete (hd ps) (sb_logins s)\<rparr>)"

text \<open>A \<open>jid\<close> in the body that is not a text is stored before the exception.\<close>

definition gwmd_connect :: stub_handler where
  "gwmd_connect env q ps s =
     (let i = hd ps; put = (\<lambda>d. s\<lparr>sb_devices := AList.update i d (sb_devices s)\<rparr>) in
      case map_of (sb_devices s) i of
        None \<Rightarrow> (res_json env 404 (gwmd_missing []), s)
      | Some d \<Rightarrow>
          (let jid = the (coalesce (body_member q ''jid'') (Some (JStr (filter is_digit i @ lit ''@s.whatsapp.net''))));
               d1 = obj_set (lit ''state'') (JStr (lit ''logged_in'')) (obj_set (lit ''jid'') jid d)
           in case as_string (Some jid) of
                None \<Rightarrow> (res_page env 500, put d1)
              | Some j \<Rightarrow>
                  (let d2 = obj_set (lit ''phone_number'') (JStr (43 # filter is_digit j)) d1
                   in (res_json env 200 (gwmd_ok [(lit ''message'', JStr (lit ''paired'')), (lit ''results'', JObj d2)]), put d2))))"

definition gwmd_stub_send :: stub_handler where
  "gwmd_stub_send env q ps s =
     (let deviceId = (case map_of (sq_headers q) ''x-device-id'' of Some v \<Rightarrow> v
            | None \<Rightarrow> (case query_arg q ''device_id'' of Some v \<Rightarrow> v | None \<Rightarrow> []));
          i = lit ''gwmd-msg-'' @ int_text (sv_now env)
      in if deviceId = []
         then (res_json env 400 (JObj [(lit ''status'', JNum 400), (lit ''code'', JStr (lit ''DEVICE_ID_REQUIRED'')),
                 (lit ''message'', JStr (lit ''device_id is required via X-Device-Id header or device_id query''))]), s)
         else (res_json env 200 (gwmd_ok [(lit ''results'', JObj [(lit ''message_id'', JStr i)])]),
               remember i ((lit ''device_id'', JStr deviceId) # (lit ''kind'', JStr (hd ps))
                 # json_fields [(''body'', sq_body q), (''status'', Some (JStr (lit ''sent'')))]) s))"

section \<open>The routes\<close>

datatype route_part = Fixed string | Param

text \<open>Fixed parts are compared without case, and a slash at the end does not matter.\<close>

fun match_route :: "route_part list \<Rightarrow> ustring list \<Rightarrow> ustring list option" where
  "match_route [] [] = Some []"
| "match_route [] [w] = (if w = [] then Some [] else None)"
| "match_route (Fixed f # ps) (w # ws) = (if map lower_cp w = lit f then match_route ps ws else None)"
| "match_route (Param # ps) (w # ws) = (if w = [] then None else map_option ((#) w) (match_route ps ws))"
| "match_route _ _ = None"

type_synonym stub_route = "string \<times> route_part list \<times> stub_handler"

definition dbsms_routes :: "stub_route list" where
  "dbsms_routes =
     [(''GET'', [Fixed ''querylines.asp''], stub_querylines),
      (''POST'', [Fixed ''goip_sendsms.asp''], stub_sendsms),
      (''GET'', [Fixed ''goip_get_sms_status.asp''], stub_sms_status),
      (''POST'', [Fixed ''inbound-stub''], inbound_stub False)]"

definition unoapi_routes :: "stub_route list" where
  "unoapi_routes =
     [(''GET'', [Fixed ''ping''], unoapi_ping),
      (''GET'', [Fixed ''session'', Param, Fixed ''qr''], unoapi_qr),
      (''POST'', [Fixed ''session'', Param, Fixed ''_stub'', Fixed ''connect''], unoapi_connect),
      (''GET'', [Fixed ''admin'', Fixed ''sessions''], unoapi_sessions),
      (''DELETE'', [Fixed ''session'', Param], unoapi_delete),
      (''POST'', [Fixed ''v15.0'', Param, Fixed ''messages''], unoapi_messages),
      (''POST'', [Fixed ''inbound-stub''], inbound_stub True)]"

definition signal_routes :: "stub_route list" where
  "signal_routes =
     [(''GET'', [Fixed ''v1'', Fixed ''health''], signal_health),
      (''GET'', [Fixed ''v1'', Fixed ''qrcodelink'', Fixed ''raw''], signal_qr_raw),
      (''GET'', [Fixed ''v1'', Fixed ''qrcodelink''], signal_qr_image),
      (''POST'', [Fixed ''v1'', Fixed ''_stub'', Fixed ''link''], signal_link),
      (''GET'', [Fixed ''v1'', Fixed ''accounts''], signal_accounts),
      (''DELETE'', [Fixed ''v1'', Fixed ''devices'', Param, Fixed ''local-data''], signal_local_data),
      (''POST'', [Fixed ''v2'', Fixed ''send''], signal_stub_send),
      (''POST'', [Fixed ''v1'', Fixed ''register'', Param], signal_register),
      (''POST'', [Fixed ''v1'', Fixed ''register'', Param, Fixed ''verify'', Param], signal_register),
      (''POST'', [Fixed ''inbound-stub''], inbound_stub True)]"

definition gwmd_routes :: "stub_route list" where
  "gwmd_routes =
     [(''GET'', [Fixed ''app'', Fixed ''devices''], gwmd_devices),
      (''POST'', [Fixed ''app'', Fixed ''devices''], gwmd_add),
      (''GET'', [Fixed ''app'', Fixed ''devices'', Param, Fixed ''login''], gwmd_qr_login),
      (''GET'', [Fixed ''app'', Fixed ''statics'', Fixed ''qrcode'', Param], gwmd_qr_image),
      (''GET'', [Fixed ''app'', Fixed ''devices'', Param, Fixed ''status''], gwmd_device_status),
      (''DELETE'', [Fixed ''app'', Fixed ''devices'', Param], gwmd_delete),
      (''POST'', [Fixed ''app'', Fixed ''devices'', Param, Fixed ''_stub'', Fixed ''connect''], gwmd_connect),
      (''POST'', [Fixed ''app'', Fixed ''send'', Param], gwmd_stub_send),
      (''POST'', [Fixed ''inbound-stub''], inbound_stub True)]"

fun vendor_routes :: "vendor \<Rightarrow> stub_route list" where
  "vendor_routes dbsms = dbsms_routes"
| "vendor_routes unoapi_vendor = unoapi_routes"
| "vendor_routes signal_vendor = signal_routes"
| "vendor_routes gwmd_vendor = gwmd_routes"

definition buildApp :: "vendor \<Rightarrow> stub_route list" where
  "buildApp v = (''GET'', [Fixed ''health''], stub_health) # vendor_routes v"

fun find_route :: "stub_route list \<Rightarrow> string \<Rightarrow> ustring list \<Rightarrow> (stub_handler \<times> ustring list) option" where
  "find_route [] m path = None"
| "find_route ((m', pattern, h) # rs) m path =
     (case if m' = m then match_route pattern path else None of Some ps \<Rightarrow> Some (h, ps) | None \<Rightarrow> find_route rs m path)"

definition stub_serve :: "stub_env \<Rightarrow> stub_request \<Rightarrow> stub \<Rightarrow> http_response \<times> stub" where
  "stub_serve env q s =
     (case find_route (buildApp (sb_vendor s)) (sq_method q) (sq_path q) of
        None \<Rightarrow> (res_page env 404, s)
      | Some (h, ps) \<Rightarrow> (case all_some (map decodeURIComponent ps) of
            None \<Rightarrow> (res_page env 400, s) | Some decoded \<Rightarrow> h env q decoded s))"

text \<open>A \<open>fetch\<close> of the gateway while nothing answers under other addresses.\<close>

definition stub_fetch :: "ustring \<Rightarrow> stub_env \<Rightarrow> http_request \<Rightarrow> stub \<Rightarrow> (ustring + http_response) \<times> stub" where
  "stub_fetch host env q s =
     (case stub_receives host q of
        None \<Rightarrow> (Inl (lit ''fetch failed''), s)
      | Some r \<Rightarrow> (case stub_serve env r s of (a, s') \<Rightarrow> (Inr a, s')))"

section \<open>What a request asks for\<close>

text \<open>A part of a path that is asked for as it is written.\<close>

definition plain_part :: "ustring \<Rightarrow> bool" where
  "plain_part w \<longleftrightarrow> list_all (\<lambda>c. c \<notin> {9, 10, 13, 35, 47, 63, 92}) w \<and> \<not> single_dot w \<and> \<not> double_dot w"

lemma path_walk_plain: "list_all plain_part ws \<Longrightarrow> path_walk acc ws = rev acc @ ws"
  by (induction ws arbitrary: acc) (auto simp: plain_part_def)

lemma joined_chars: "list_all (list_all P) ws \<Longrightarrow> P 47 \<Longrightarrow> list_all P (join_with [47] ws)"
  by (induction "[47::nat]" ws rule: join_with.induct) auto

lemma served_parts:
  assumes "list_all plain_part ws" and "ws \<noteq> []" and "q = [] \<or> hd q = 63"
  shows "served_path (join_with [47] ws @ q) = ws"
proof -
  let ?j = "join_with [47] ws"
  have "list_all (list_all (\<lambda>c. c \<notin> {9, 10, 13, 35, 63, 92})) ws"
    using assms(1) by (auto simp: plain_part_def list_all_iff)
  then have c: "list_all (\<lambda>c. c \<notin> {9, 10, 13, 35, 63, 92}) ?j" by (rule joined_chars) simp
  then have "url_clean ?j = ?j" by (simp add: url_clean_def filter_id_conv list_all_iff)
  then have "path_text (url_clean (?j @ q)) = ?j"
    using c assms(3) by (cases q) (auto simp: url_clean_def path_text_def list_all_iff takeWhile_eq_all_conv)
  moreover have "map (\<lambda>x. if x = 92 then 47 else x) ?j = ?j" using c by (intro map_idI) (auto simp: list_all_iff)
  moreover have "split_on 47 ?j = ws" using assms(1,2) by (intro split_join) (auto simp: plain_part_def list_all_iff)
  ultimately show ?thesis by (simp add: served_path_def path_walk_plain [OF assms(1)])
qed

text \<open>An encoded text is a plain part, but for the two names of directories.\<close>

lemma utf8_bytes_small: "utf8 c = Some bs \<Longrightarrow> c < 1114112 \<Longrightarrow> b \<in> set bs \<Longrightarrow> b < 256"
  by (auto simp: utf8_def split: if_splits)

definition uri_char :: "nat \<Rightarrow> bool" where
  "uri_char c \<longleftrightarrow> uri_unreserved c \<or> c = 37 \<or> is_digit c \<or> (65 \<le> c \<and> c \<le> 70)"

lemma uri_char_hex: "n < 16 \<Longrightarrow> uri_char (upper_hex n)"
  by (auto simp: uri_char_def upper_hex_def is_digit_def)

lemma encoded_chars: "encodeURIComponent s = Some u \<Longrightarrow> code_points s \<Longrightarrow> list_all uri_char u"
proof (induction s arbitrary: u)
  case (Cons x xs)
  from Cons.prems(1) obtain v where v: "encodeURIComponent xs = Some v" by (auto split: option.splits)
  with Cons have ih: "list_all uri_char v" by (simp add: code_points_def)
  show ?case
  proof (cases "uri_unreserved x")
    case True
    then have "uri_char x" by (simp add: uri_char_def)
    with True Cons.prems(1) v ih show ?thesis by auto
  next
    case False
    with Cons.prems(1) v obtain bs where bs: "utf8 x = Some bs" "u = concat (map percent bs) @ v" by (auto split: option.splits)
    have "list_all uri_char (percent b)" if "b \<in> set bs" for b
      using utf8_bytes_small [OF bs(1) _ that] Cons.prems(2) uri_char_hex [of "b div 16"] uri_char_hex [of "b mod 16"]
      by (simp add: percent_def code_points_def uri_char_def)
    then show ?thesis using ih bs(2) by (auto simp: list_all_iff)
  qed
qed simp

lemma lower_cp_eq: "lower_cp c = 46 \<longleftrightarrow> c = 46" "lower_cp c = 37 \<longleftrightarrow> c = 37" "lower_cp c = 50 \<longleftrightarrow> c = 50" "lower_cp c = 101 \<longleftrightarrow> c = 69 \<or> c = 101"
  by (auto simp: lower_cp_def)

lemma dots_decode:
  "single_dot w \<Longrightarrow> decodeURIComponent w = Some (lit ''.'')" "double_dot w \<Longrightarrow> decodeURIComponent w = Some (lit ''..'')"
  by (auto simp: single_dot_def double_dot_def lit_def map_eq_Cons_conv lower_cp_eq decode_char_def hex_value_def is_digit_def)

lemma encoded_plain:
  assumes "encodeURIComponent s = Some u" and "code_points s" and "s \<noteq> lit ''.''" "s \<noteq> lit ''..''"
  shows "plain_part u"
proof -
  have "\<not> single_dot u" "\<not> double_dot u" using decode_encode [OF assms(1,2)] assms(3,4) dots_decode by fastforce+
  moreover have "c \<notin> {9, 10, 13, 35, 47, 63, 92}" if "uri_char c" for c
    using that by (auto simp: uri_char_def uri_unreserved_def is_digit_def is_ascii_letter_def string_simps)
  ultimately show ?thesis using encoded_chars [OF assms(1,2)] by (auto simp: plain_part_def list_all_iff)
qed

lemma query_encoded:
  assumes "encodeURIComponent s = Some u" and "code_points s"
  shows "query_text u = s" "38 \<notin> set u" "61 \<notin> set u"
proof -
  have c: "c \<notin> {38, 43, 61}" if "uri_char c" for c
    using that by (auto simp: uri_char_def uri_unreserved_def is_digit_def is_ascii_letter_def string_simps)
  note u = encoded_chars [OF assms]
  have "map (\<lambda>x. if x = 43 then 32 else x) u = u" using u c by (intro map_idI) (auto simp: list_all_iff)
  then show "query_text u = s" by (simp add: query_text_def decode_encode [OF assms])
  show "38 \<notin> set u" "61 \<notin> set u" using u c by (auto simp: list_all_iff)
qed

lemma stub_receives_path:
  "stub_receives host \<lparr>hq_method = m, hq_url = lit ''http://'' @ host @ 47 # rest, hq_headers = hs, hq_body = b\<rparr> = Some
     \<lparr>sq_method = m, sq_path = served_path rest,
      sq_query = query_pairs (drop 1 (takeWhile (\<lambda>c. c \<noteq> 35) (dropWhile (\<lambda>c. c \<noteq> 63 \<and> c \<noteq> 35) rest))),
      sq_headers = hs, sq_host = host, sq_body = (case b of JsonBody v \<Rightarrow> Some v | _ \<Rightarrow> None)\<rparr>"
proof -
  let ?base = "lit ''http://'' @ host @ lit ''/''"
  have u: "lit ''http://'' @ host @ 47 # rest = ?base @ rest" by (simp add: lit_def)
  have "starts_with ?base (?base @ rest)" by (rule starts_with_append)
  then show ?thesis unfolding u stub_receives_def Let_def by (simp del: append_assoc)
qed

section \<open>What a stand-in keeps\<close>

inductive stub_run :: "vendor \<Rightarrow> stub \<Rightarrow> bool" for v where
  booted: "stub_run v (fresh_stub v)"
| answered: "stub_run v s \<Longrightarrow> stub_run v (snd (stub_serve env q s))"
| timed: "stub_run v s \<Longrightarrow> stub_run v (stub_timer i status s)"

text \<open>Every store has one entry per key, and a device names its own key and nothing unknown.\<close>

definition device_shape :: "ustring \<Rightarrow> fields \<Rightarrow> bool" where
  "device_shape i d \<longleftrightarrow> map_of d (lit ''id'') = Some (JStr i)
     \<and> fst ` set d \<subseteq> {lit ''id'', lit ''jid'', lit ''state'', lit ''created_at'', lit ''phone_number''}"

definition stub_ok :: "stub \<Rightarrow> bool" where
  "stub_ok s \<longleftrightarrow> distinct (map fst (sb_sessions s)) \<and> distinct (map fst (sb_devices s)) \<and> distinct (map fst (sb_accounts s))
     \<and> (\<forall>(i, d)\<in>set (sb_devices s). device_shape i d) \<and> (\<forall>(p, n)\<in>set (sb_sessions s). sn_qr n \<noteq> Some [])"

definition keeps_stub :: "stub_handler \<Rightarrow> bool" where
  "keeps_stub h \<longleftrightarrow> (\<forall>env q ps s. sb_vendor (snd (h env q ps s)) = sb_vendor s \<and> (stub_ok s \<longrightarrow> stub_ok (snd (h env q ps s))))"

lemma stub_ok_sent [simp]: "stub_ok (s\<lparr>sb_sent := x\<rparr>) = stub_ok s"
  by (simp add: stub_ok_def)

lemma stub_ok_links [simp]: "stub_ok (s\<lparr>sb_links := x\<rparr>) = stub_ok s"
  by (simp add: stub_ok_def)

lemma stub_ok_logins [simp]: "stub_ok (s\<lparr>sb_logins := x\<rparr>) = stub_ok s"
  by (simp add: stub_ok_def)

lemma stub_ok_accounts: "stub_ok s \<Longrightarrow> stub_ok (s\<lparr>sb_accounts := AList.update k v (sb_accounts s)\<rparr>)"
  by (simp add: stub_ok_def distinct_update)

lemma set_update: "distinct (map fst xs) \<Longrightarrow> set (AList.update k v xs) = insert (k, v) {p \<in> set xs. fst p \<noteq> k}"
  by (induction xs) (auto simp: image_iff)

lemma stub_ok_sessions: "stub_ok s \<Longrightarrow> sn_qr n \<noteq> Some [] \<Longrightarrow> stub_ok (s\<lparr>sb_sessions := AList.update k n (sb_sessions s)\<rparr>)"
  by (auto simp: stub_ok_def distinct_update set_update)

lemma stub_ok_devices: "stub_ok s \<Longrightarrow> device_shape k d \<Longrightarrow> stub_ok (s\<lparr>sb_devices := AList.update k d (sb_devices s)\<rparr>)"
  by (auto simp: stub_ok_def distinct_update set_update)

lemma delete_keeps: "set (AList.delete k xs) \<subseteq> set xs"
  by (auto simp: AList.delete_eq)

lemma stub_ok_deleted:
  "stub_ok s \<Longrightarrow> stub_ok (s\<lparr>sb_sessions := AList.delete k (sb_sessions s)\<rparr>)"
  "stub_ok s \<Longrightarrow> stub_ok (s\<lparr>sb_accounts := AList.delete k (sb_accounts s)\<rparr>)"
  "stub_ok s \<Longrightarrow> stub_ok (s\<lparr>sb_devices := AList.delete k (sb_devices s)\<rparr>)"
  by (auto simp: stub_ok_def distinct_delete dest!: delete_keeps [THEN subsetD])

lemma device_of: "stub_ok s \<Longrightarrow> map_of (sb_devices s) i = Some d \<Longrightarrow> device_shape i d"
  by (auto simp: stub_ok_def dest!: map_of_SomeD)

lemma session_of: "stub_ok s \<Longrightarrow> map_of (sb_sessions s) p = Some n \<Longrightarrow> sn_qr n \<noteq> Some []"
  by (auto simp: stub_ok_def dest!: map_of_SomeD)

lemma unoapi_uri_shown: "unoapi_qr_uri env phone \<noteq> Some []"
  by (auto simp: unoapi_qr_uri_def lit_def)

lemma shape_set:
  assumes "device_shape i d" and "k \<in> {''jid'', ''state'', ''phone_number''}"
  shows "device_shape i (obj_set (lit k) v d)"
proof -
  have "lit k \<noteq> lit ''id''" using assms(2) by (auto simp: lit_def)
  moreover have "lit k \<in> {lit ''jid'', lit ''state'', lit ''phone_number''}" using assms(2) by auto
  ultimately show ?thesis using assms(1) unfolding device_shape_def set_fst_obj_set by auto
qed

lemma sent_kept [simp]: "sb_vendor (remember i fs s) = sb_vendor s" "stub_ok (remember i fs s) = stub_ok s"
  by (simp_all add: remember_def)

lemma keeps_reading: "(\<And>env q ps s. snd (h env q ps s) = s) \<Longrightarrow> keeps_stub h"
  by (simp add: keeps_stub_def)

lemma new_device_shape: "device_shape i (new_device env i)"
  by (simp add: device_shape_def new_device_def string_simps)

lemma unoapi_handlers_keep: "list_all (\<lambda>(m, pat, h). keeps_stub h) unoapi_routes"
proof -
  have "keeps_stub unoapi_qr"
    using session_of unoapi_uri_shown
    by (auto simp: keeps_stub_def unoapi_qr_def Let_def or_else_def intro!: stub_ok_sessions split: option.split option.split_asm)
  moreover have "keeps_stub unoapi_connect"
    using session_of by (auto simp: keeps_stub_def unoapi_connect_def Let_def intro!: stub_ok_sessions split: option.split)
  moreover have "keeps_stub unoapi_delete" by (simp add: keeps_stub_def unoapi_delete_def stub_ok_deleted)
  moreover have "keeps_stub unoapi_messages" by (simp add: keeps_stub_def unoapi_messages_def Let_def)
  ultimately show ?thesis by (simp add: unoapi_routes_def keeps_reading unoapi_ping_def unoapi_sessions_def inbound_stub_def)
qed

lemma signal_handlers_keep: "list_all (\<lambda>(m, pat, h). keeps_stub h) signal_routes"
proof -
  have "keeps_stub signal_qr_raw" by (simp add: keeps_stub_def signal_qr_raw_def Let_def split: option.split)
  moreover have "keeps_stub signal_link" by (simp add: keeps_stub_def signal_link_def Let_def stub_ok_accounts)
  moreover have "keeps_stub signal_local_data"
    by (simp add: keeps_stub_def signal_local_data_def stub_ok_deleted split: option.split prod.split)
  moreover have "keeps_stub signal_stub_send" by (simp add: keeps_stub_def signal_stub_send_def Let_def)
  ultimately show ?thesis
    by (simp add: signal_routes_def keeps_reading signal_health_def signal_qr_image_def signal_accounts_def signal_register_def inbound_stub_def)
qed

lemma gwmd_handlers_keep: "list_all (\<lambda>(m, pat, h). keeps_stub h) gwmd_routes"
proof -
  have "keeps_stub gwmd_add"
    by (simp add: keeps_stub_def gwmd_add_def Let_def stub_ok_devices new_device_shape split: option.split)
  moreover have "keeps_stub gwmd_qr_login" by (simp add: keeps_stub_def gwmd_qr_login_def Let_def split: option.split)
  moreover have "keeps_stub gwmd_delete" by (simp add: keeps_stub_def gwmd_delete_def stub_ok_deleted)
  moreover have "keeps_stub gwmd_connect"
    by (auto simp: keeps_stub_def gwmd_connect_def Let_def split: option.split intro!: stub_ok_devices shape_set dest: device_of)
  moreover have "keeps_stub gwmd_stub_send" by (simp add: keeps_stub_def gwmd_stub_send_def Let_def)
  ultimately show ?thesis
    by (simp add: gwmd_routes_def keeps_reading gwmd_devices_def gwmd_qr_image_def gwmd_device_status_def inbound_stub_def
        Let_def split: option.split)
qed

lemma dbsms_handlers_keep: "list_all (\<lambda>(m, pat, h). keeps_stub h) dbsms_routes"
proof -
  have "keeps_stub stub_sendsms" by (simp add: keeps_stub_def stub_sendsms_def Let_def)
  then show ?thesis by (simp add: dbsms_routes_def keeps_reading stub_querylines_def stub_sms_status_def inbound_stub_def Let_def)
qed

lemma found_route: "find_route rs m path = Some (h, ps) \<Longrightarrow> \<exists>pat. (m, pat, h) \<in> set rs \<and> match_route pat path = Some ps"
  by (induction rs) (auto split: option.splits if_splits)

lemma serve_keeps: "sb_vendor (snd (stub_serve env q s)) = sb_vendor s \<and> (stub_ok s \<longrightarrow> stub_ok (snd (stub_serve env q s)))"
proof -
  have "list_all (\<lambda>(m, pat, h). keeps_stub h) (buildApp v)" for v
    using unoapi_handlers_keep signal_handlers_keep gwmd_handlers_keep dbsms_handlers_keep
    by (cases v) (simp_all add: buildApp_def keeps_reading stub_health_def)
  then have "keeps_stub h" if "find_route (buildApp (sb_vendor s)) (sq_method q) (sq_path q) = Some (h, ps)" for h ps
    using found_route [OF that] by (fastforce simp: list_all_iff)
  then show ?thesis by (auto simp: stub_serve_def keeps_stub_def split: option.split)
qed

lemma stub_run_ok: "stub_run v s \<Longrightarrow> sb_vendor s = v \<and> stub_ok s"
proof (induction rule: stub_run.induct)
  case booted
  show ?case by (simp add: fresh_stub_def stub_ok_def)
qed (simp_all add: serve_keeps stub_timer_def)

section \<open>The adapters' requests\<close>

text \<open>An account whose configuration names the stand-in's address.\<close>

definition points_at :: "ustring \<Rightarrow> account_config \<Rightarrow> bool" where
  "points_at host acc \<longleftrightarrow> own (cc_config acc) (lit ''baseUrl'') = Some (JStr (lit ''http://'' @ host)) \<and> host \<noteq> [] \<and> last host \<noteq> 47"

lemma points_at_base:
  assumes "points_at host acc" shows "base_url ch acc = Some (lit ''http://'' @ host)"
proof -
  have "config_text ch acc ''baseUrl'' = lit ''http://'' @ host"
    using assms by (simp add: config_text_def points_at_def text_or_empty_def js_String_def)
  with assms show ?thesis by (simp add: base_url_def strip_slash_def points_at_def)
qed

definition asked_of :: "ustring \<Rightarrow> http_request \<Rightarrow> ustring list \<Rightarrow> ustring \<Rightarrow> stub_request" where
  "asked_of host q ws query = \<lparr>sq_method = hq_method q, sq_path = ws, sq_query = query_pairs query, sq_headers = hq_headers q,
     sq_host = host, sq_body = (case hq_body q of JsonBody v \<Rightarrow> Some v | _ \<Rightarrow> None)\<rparr>"

lemma all_some_Some [simp]: "all_some (map Some xs) = Some xs"
  by (induction xs) simp_all

text \<open>The part of an address after the host, with or without a query.\<close>

definition address_tail :: "ustring list \<Rightarrow> ustring \<Rightarrow> ustring" where
  "address_tail ws query = 47 # join_with [47] ws @ (if query = [] then [] else 63 # query)"

lemma fetch_route:
  assumes url: "hq_url q = lit ''http://'' @ host @ address_tail ws query"
    and plain: "list_all plain_part ws" "ws \<noteq> []" "35 \<notin> set query"
    and route: "find_route (buildApp (sb_vendor s)) (hq_method q) ws = Some (h, ps)" "map decodeURIComponent ps = map Some ds"
  shows "stub_fetch host env q s = apfst Inr (h env (asked_of host q ws query) ds s)"
proof -
  let ?rest = "join_with [47] ws @ (if query = [] then [] else 63 # query)"
  have c: "list_all (\<lambda>c. c \<notin> {35, 63}) (join_with [47] ws)"
    using plain(1) by (intro joined_chars) (auto simp: plain_part_def list_all_iff)
  have "query = [] \<or> takeWhile (\<lambda>c. c \<noteq> 35) query = query" using plain(3) by (auto simp: takeWhile_eq_all_conv)
  then have "drop 1 (takeWhile (\<lambda>c. c \<noteq> 35) (dropWhile (\<lambda>c. c \<noteq> 63 \<and> c \<noteq> 35) ?rest)) = query"
    using c by (auto simp: dropWhile_append2 list_all_iff dropWhile_eq_Nil_conv)
  moreover have "served_path ?rest = ws" using plain(1,2) by (intro served_parts) auto
  ultimately have "stub_receives host q = Some (asked_of host q ws query)"
    using stub_receives_path [of host "hq_method q" ?rest "hq_headers q" "hq_body q"] url
    by (cases q) (simp add: asked_of_def address_tail_def)
  then show ?thesis using route by (simp add: stub_fetch_def stub_serve_def asked_of_def case_prod_beta apfst_def map_prod_def)
qed

lemma plain_literals:
  "list_all plain_part (map lit [''session'', ''qr'', ''_stub'', ''connect'', ''v15.0'', ''messages'', ''app'', ''devices'', ''login'',
     ''send'', ''v1'', ''local-data''])"
  by (simp add: plain_part_def single_dot_def double_dot_def lower_cp_def lit_def)

lemmas route_simps = buildApp_def dbsms_routes_def unoapi_routes_def signal_routes_def gwmd_routes_def
  plain_part_def single_dot_def double_dot_def lower_cp_def lit_def

text \<open>
  A \<open>fetch\<close> of requests that are made one after the other: each is answered in the state
  that the ones before it in the list have left.
\<close>

fun turn_state :: "ustring \<Rightarrow> stub_env \<Rightarrow> http_request list \<Rightarrow> http_request \<Rightarrow> stub \<Rightarrow> stub" where
  "turn_state host env [] q s = s"
| "turn_state host env (p # ps) q s = (if p = q then s else turn_state host env ps q (snd (stub_fetch host env p s)))"

definition stub_channel :: "ustring \<Rightarrow> stub_env \<Rightarrow> http_request list \<Rightarrow> stub \<Rightarrow> channel_env \<Rightarrow> channel_env" where
  "stub_channel host env qs s ch = ch\<lparr>ch_fetch := \<lambda>q. fst (stub_fetch host env q (turn_state host env qs q s))\<rparr>"

definition after_requests :: "ustring \<Rightarrow> stub_env \<Rightarrow> http_request list \<Rightarrow> stub \<Rightarrow> stub" where
  "after_requests host env qs s = fold (\<lambda>q s. snd (stub_fetch host env q s)) qs s"

definition at_path :: "ustring \<Rightarrow> ustring \<Rightarrow> ustring" where
  "at_path host rest = lit ''http://'' @ host @ rest"

section \<open>Signal: requests and accounts\<close>

definition signal_list_request :: "ustring \<Rightarrow> http_request" where
  "signal_list_request host = get_request (at_path host (lit ''/v1/accounts'')) []"

definition signal_qr_request :: "ustring \<Rightarrow> ustring \<Rightarrow> http_request" where
  "signal_qr_request host n = get_request (at_path host (lit ''/v1/qrcodelink/raw?device_name='' @ n)) []"

definition signal_scan :: "ustring \<Rightarrow> ustring \<Rightarrow> ustring \<Rightarrow> http_request" where
  "signal_scan host name number = json_request ''POST'' (at_path host (lit ''/v1/_stub/link'')) json_type
     (JObj [(lit ''device_name'', JStr name), (lit ''number'', JStr number)])"

lemma signal_list_answer:
  assumes "sb_vendor s = signal_vendor"
  shows "stub_fetch host env (signal_list_request host) s = (Inr (res_json env 200 (JArr (map (\<lambda>(k, a). JStr (sa_number a)) (sb_accounts s)))), s)"
proof -
  let ?ws = "[lit ''v1'', lit ''accounts'']"
  have "hq_url (signal_list_request host) = lit ''http://'' @ host @ address_tail ?ws []"
    by (simp add: signal_list_request_def get_request_def at_path_def address_tail_def lit_def)
  moreover have "find_route (buildApp (sb_vendor s)) (hq_method (signal_list_request host)) ?ws = Some (signal_accounts, [])"
    using assms by (simp add: signal_list_request_def get_request_def route_simps)
  ultimately have "stub_fetch host env (signal_list_request host) s
      = apfst Inr (signal_accounts env (asked_of host (signal_list_request host) ?ws []) [] s)"
    by (intro fetch_route) (simp_all add: route_simps)
  then show ?thesis by (simp add: signal_accounts_def)
qed

text \<open>A name that the wizard has trimmed and that can be sent.\<close>

definition sendable :: "ustring \<Rightarrow> ustring \<Rightarrow> bool" where
  "sendable name n \<longleftrightarrow> encodeURIComponent name = Some n \<and> code_points name"

lemma signal_qr_answer:
  assumes "sb_vendor s = signal_vendor" and "sendable name n" "js_trim name = name" "name \<noteq> []"
  shows "\<exists>uri. uri \<noteq> [] \<and> stub_fetch host env (signal_qr_request host n) s
    = (Inr (res_json env 200 (JObj [(lit ''device_link_uri'', JStr uri)])), s\<lparr>sb_links := AList.update name uri (sb_links s)\<rparr>)"
proof -
  let ?ws = "[lit ''v1'', lit ''qrcodelink'', lit ''raw'']" and ?qy = "lit ''device_name='' @ n"
  have enc: "encodeURIComponent name = Some n" "code_points name" using assms(2) by (simp_all add: sendable_def)
  have "hq_url (signal_qr_request host n) = lit ''http://'' @ host @ address_tail ?ws ?qy"
    by (simp add: signal_qr_request_def get_request_def at_path_def address_tail_def lit_def)
  moreover have "find_route (buildApp (sb_vendor s)) (hq_method (signal_qr_request host n)) ?ws = Some (signal_qr_raw, [])"
    using assms by (simp add: signal_qr_request_def get_request_def route_simps)
  moreover have "35 \<notin> set ?qy"
    using encoded_chars [OF enc] by (auto simp: list_all_iff lit_def uri_char_def uri_unreserved_def is_digit_def is_ascii_letter_def)
  ultimately have f: "stub_fetch host env (signal_qr_request host n) s
      = apfst Inr (signal_qr_raw env (asked_of host (signal_qr_request host n) ?ws ?qy) [] s)"
    by (intro fetch_route) (simp_all add: route_simps)
  have "query_pairs ?qy = [(query_text (lit ''device_name''), name)]"
    using query_encoded [OF enc] by (simp add: query_pairs_def split_on_no_sep lit_def takeWhile_append2)
  moreover have "query_text (lit ''device_name'') = lit ''device_name''" by (simp add: query_text_def lit_def)
  ultimately have "asked_device (asked_of host (signal_qr_request host n) ?ws ?qy) = name"
    using assms(3) by (simp add: asked_device_def query_arg_def asked_of_def)
  moreover obtain uri where "device_link_uri env name = Some uri" "uri \<noteq> []"
    using enc(1) by (simp add: device_link_uri_def lit_def)
  ultimately show ?thesis using assms(4) by (intro exI [of _ uri]) (simp add: f signal_qr_raw_def Let_def)
qed

lemma signal_scan_answer:
  assumes "sb_vendor s = signal_vendor" and "js_trim name = name" "name \<noteq> []"
  shows "\<exists>a u. stub_fetch host env (signal_scan host name number) s
    = (Inr a, s\<lparr>sb_accounts := AList.update name \<lparr>sa_number = number, sa_device = name, sa_uuid = u\<rparr> (sb_accounts s)\<rparr>)"
proof -
  let ?ws = "[lit ''v1'', lit ''_stub'', lit ''link'']"
  have "hq_url (signal_scan host name number) = lit ''http://'' @ host @ address_tail ?ws []"
    by (simp add: signal_scan_def json_request_def at_path_def address_tail_def lit_def)
  moreover have "find_route (buildApp (sb_vendor s)) (hq_method (signal_scan host name number)) ?ws = Some (signal_link, [])"
    using assms by (simp add: signal_scan_def json_request_def route_simps)
  ultimately have f: "stub_fetch host env (signal_scan host name number) s
      = apfst Inr (signal_link env (asked_of host (signal_scan host name number) ?ws []) [] s)"
    by (intro fetch_route) (simp_all add: route_simps)
  let ?q = "asked_of host (signal_scan host name number) ?ws []"
  have "body_member ?q ''device_name'' = Some (JStr name)" "body_member ?q ''number'' = Some (JStr number)"
    by (simp_all add: body_member_def mem_def asked_of_def signal_scan_def json_request_def string_simps)
  with assms(2,3) show ?thesis
    by (intro exI) (simp add: f signal_link_def Let_def text_or_empty_def js_String_def apfst_def map_prod_def)
qed

section \<open>UnoAPI: requests and sessions\<close>

definition unoapi_list_request :: "ustring \<Rightarrow> http_request" where
  "unoapi_list_request host = get_request (at_path host (lit ''/admin/sessions'')) []"

definition unoapi_qr_request :: "ustring \<Rightarrow> ustring \<Rightarrow> http_request" where
  "unoapi_qr_request host n = get_request (at_path host (lit ''/session/'' @ n @ lit ''/qr'')) []"

definition unoapi_scan :: "ustring \<Rightarrow> ustring \<Rightarrow> http_request" where
  "unoapi_scan host n = \<lparr>hq_method = ''POST'', hq_url = at_path host (lit ''/session/'' @ n @ lit ''/_stub/connect''),
     hq_headers = [], hq_body = NoBody\<rparr>"

definition session_json :: "ustring \<times> stub_session \<Rightarrow> json" where
  "session_json = (\<lambda>(phone, n). JObj [(lit ''phone'', JStr phone), (lit ''state'', JStr (sn_state n))])"

definition connected :: "ustring \<times> stub_session \<Rightarrow> bool" where
  "connected = (\<lambda>(phone, n). sn_state n = lit ''connected'')"

lemma unoapi_list_answer:
  assumes "sb_vendor s = unoapi_vendor"
  shows "stub_fetch host env (unoapi_list_request host) s
    = (Inr (res_json env 200 (JArr (map session_json (filter connected (sb_sessions s))))), s)"
proof -
  let ?ws = "[lit ''admin'', lit ''sessions'']"
  have "hq_url (unoapi_list_request host) = lit ''http://'' @ host @ address_tail ?ws []"
    by (simp add: unoapi_list_request_def get_request_def at_path_def address_tail_def lit_def)
  moreover have "find_route (buildApp (sb_vendor s)) (hq_method (unoapi_list_request host)) ?ws = Some (unoapi_sessions, [])"
    using assms by (simp add: unoapi_list_request_def get_request_def route_simps)
  ultimately have "stub_fetch host env (unoapi_list_request host) s
      = apfst Inr (unoapi_sessions env (asked_of host (unoapi_list_request host) ?ws []) [] s)"
    by (intro fetch_route) (simp_all add: route_simps)
  then show ?thesis by (simp add: unoapi_sessions_def session_json_def connected_def)
qed

text \<open>A name that can be a part of a path.\<close>

definition path_name :: "ustring \<Rightarrow> ustring \<Rightarrow> bool" where
  "path_name name n \<longleftrightarrow> sendable name n \<and> name \<notin> {[], lit ''.'', lit ''..''}"

lemma path_name_part:
  assumes "path_name name n" shows "plain_part n" "n \<noteq> []" "decodeURIComponent n = Some name"
proof -
  have e: "encodeURIComponent name = Some n" "code_points name" "name \<noteq> []" using assms by (simp_all add: path_name_def sendable_def)
  show "plain_part n" using encoded_plain [OF e(1,2)] assms by (simp add: path_name_def)
  show d: "decodeURIComponent n = Some name" by (rule decode_encode [OF e(1,2)])
  with e(3) show "n \<noteq> []" by auto
qed

lemma unoapi_qr_answer:
  assumes "sb_vendor s = unoapi_vendor" and "stub_ok s" and "path_name phone n"
  shows "\<exists>uri n'. uri \<noteq> [] \<and> stub_fetch host env (unoapi_qr_request host n) s
      = (Inr (res_json env 200 (JObj [(lit ''phone'', JStr phone), (lit ''qr'', JStr uri), (lit ''state'', JStr (sn_state n'))])),
         s\<lparr>sb_sessions := AList.update phone n' (sb_sessions s)\<rparr>)"
proof -
  let ?ws = "[lit ''session'', n, lit ''qr'']"
  note n = path_name_part [OF assms(3)]
  have url: "hq_url (unoapi_qr_request host n) = lit ''http://'' @ host @ address_tail ?ws []"
    by (simp add: unoapi_qr_request_def get_request_def at_path_def address_tail_def lit_def)
  have route: "find_route (buildApp (sb_vendor s)) (hq_method (unoapi_qr_request host n)) ?ws = Some (unoapi_qr, [n])"
    using assms(1) n(2) by (simp add: unoapi_qr_request_def get_request_def route_simps)
  have f: "stub_fetch host env (unoapi_qr_request host n) s
      = apfst Inr (unoapi_qr env (asked_of host (unoapi_qr_request host n) ?ws []) [phone] s)"
    using n by (intro fetch_route [OF url _ _ _ route]) (simp_all add: plain_literals [simplified])
  let ?n = "case map_of (sb_sessions s) phone of Some n \<Rightarrow> n | None \<Rightarrow> \<lparr>sn_state = lit ''qr_pending'', sn_qr = None\<rparr>"
  have "sn_qr ?n \<noteq> Some []" using session_of [OF assms(2), of phone] by (simp split: option.split)
  moreover have "unoapi_qr_uri env phone \<noteq> None" using assms(3) by (simp add: unoapi_qr_uri_def path_name_def sendable_def)
  ultimately obtain uri where uri: "or_else (sn_qr ?n) (unoapi_qr_uri env phone) = Some uri" "uri \<noteq> []"
    using unoapi_uri_shown [of env phone] by (cases "sn_qr ?n") (auto simp: or_else_def)
  then show ?thesis
    by (intro exI [of _ uri] exI [of _ "?n\<lparr>sn_qr := Some uri\<rparr>"]) (simp add: f unoapi_qr_def Let_def apfst_def map_prod_def)
qed

lemma unoapi_scan_answer:
  assumes "sb_vendor s = unoapi_vendor" and "path_name phone n" and "map_of (sb_sessions s) phone = Some m"
  shows "\<exists>a. stub_fetch host env (unoapi_scan host n) s
    = (Inr a, s\<lparr>sb_sessions := AList.update phone (m\<lparr>sn_state := lit ''connected''\<rparr>) (sb_sessions s)\<rparr>)"
proof -
  let ?ws = "[lit ''session'', n, lit ''_stub'', lit ''connect'']"
  note n = path_name_part [OF assms(2)]
  have url: "hq_url (unoapi_scan host n) = lit ''http://'' @ host @ address_tail ?ws []"
    by (simp add: unoapi_scan_def at_path_def address_tail_def lit_def)
  have route: "find_route (buildApp (sb_vendor s)) (hq_method (unoapi_scan host n)) ?ws = Some (unoapi_connect, [n])"
    using assms(1) n(2) by (simp add: unoapi_scan_def route_simps)
  have f: "stub_fetch host env (unoapi_scan host n) s
      = apfst Inr (unoapi_connect env (asked_of host (unoapi_scan host n) ?ws []) [phone] s)"
    using n by (intro fetch_route [OF url _ _ _ route]) (simp_all add: plain_literals [simplified])
  then show ?thesis using assms(3) by (simp add: unoapi_connect_def Let_def apfst_def map_prod_def)
qed

section \<open>gwmd: requests and devices\<close>

definition gwmd_list_request :: "ustring \<Rightarrow> (string \<times> ustring) list \<Rightarrow> http_request" where
  "gwmd_list_request host hs = get_request (at_path host (lit ''/app/devices'')) hs"

definition gwmd_add_request :: "ustring \<Rightarrow> (string \<times> ustring) list \<Rightarrow> ustring \<Rightarrow> http_request" where
  "gwmd_add_request host hs i = json_request ''POST'' (at_path host (lit ''/app/devices'')) hs (JObj [(lit ''device_id'', JStr i)])"

definition gwmd_login_request :: "ustring \<Rightarrow> (string \<times> ustring) list \<Rightarrow> ustring \<Rightarrow> http_request" where
  "gwmd_login_request host hs n = get_request (at_path host (lit ''/app/devices/'' @ n @ lit ''/login'')) hs"

definition gwmd_scan :: "ustring \<Rightarrow> ustring \<Rightarrow> http_request" where
  "gwmd_scan host n = \<lparr>hq_method = ''POST'', hq_url = at_path host (lit ''/app/devices/'' @ n @ lit ''/_stub/connect''),
     hq_headers = [], hq_body = NoBody\<rparr>"

lemma gwmd_list_answer:
  assumes "sb_vendor s = gwmd_vendor"
  shows "stub_fetch host env (gwmd_list_request host hs) s
    = (Inr (res_json env 200 (gwmd_ok [(lit ''results'', JArr (map (JObj \<circ> snd) (sb_devices s)))])), s)"
proof -
  let ?ws = "[lit ''app'', lit ''devices'']"
  have url: "hq_url (gwmd_list_request host hs) = lit ''http://'' @ host @ address_tail ?ws []"
    by (simp add: gwmd_list_request_def get_request_def at_path_def address_tail_def lit_def)
  have route: "find_route (buildApp (sb_vendor s)) (hq_method (gwmd_list_request host hs)) ?ws = Some (gwmd_devices, [])"
    using assms by (simp add: gwmd_list_request_def get_request_def route_simps)
  have "stub_fetch host env (gwmd_list_request host hs) s
      = apfst Inr (gwmd_devices env (asked_of host (gwmd_list_request host hs) ?ws []) [] s)"
    by (intro fetch_route [OF url _ _ _ route]) (simp_all add: plain_literals [simplified])
  then show ?thesis by (simp add: gwmd_devices_def comp_def case_prod_beta')
qed

lemma gwmd_add_answer:
  assumes "sb_vendor s = gwmd_vendor" and "js_trim i = i" "i \<noteq> []"
  shows "\<exists>a. hr_status a = 200 \<and> stub_fetch host env (gwmd_add_request host hs i) s = (Inr a,
      if map_of (sb_devices s) i = None then s\<lparr>sb_devices := AList.update i (new_device env i) (sb_devices s)\<rparr> else s)"
proof -
  let ?ws = "[lit ''app'', lit ''devices'']"
  have url: "hq_url (gwmd_add_request host hs i) = lit ''http://'' @ host @ address_tail ?ws []"
    by (simp add: gwmd_add_request_def json_request_def at_path_def address_tail_def lit_def)
  have route: "find_route (buildApp (sb_vendor s)) (hq_method (gwmd_add_request host hs i)) ?ws = Some (gwmd_add, [])"
    using assms by (simp add: gwmd_add_request_def json_request_def route_simps)
  let ?q = "asked_of host (gwmd_add_request host hs i) ?ws []"
  have f: "stub_fetch host env (gwmd_add_request host hs i) s = apfst Inr (gwmd_add env ?q [] s)"
    by (intro fetch_route [OF url _ _ _ route]) (simp_all add: plain_literals [simplified])
  have "body_member ?q ''device_id'' = Some (JStr i)"
    by (simp add: body_member_def mem_def asked_of_def gwmd_add_request_def json_request_def)
  with assms(2,3) show ?thesis
    by (auto simp: f gwmd_add_def Let_def text_or_empty_def js_String_def apfst_def map_prod_def res_json_def split: option.split)
qed

lemma gwmd_login_answer:
  assumes "sb_vendor s = gwmd_vendor" and "path_name i n" and "map_of (sb_devices s) i = Some d"
  shows "\<exists>uri l. uri \<noteq> [] \<and> stub_fetch host env (gwmd_login_request host hs n) s
    = (Inr (res_json env 200 (gwmd_ok [(lit ''message'', JStr (lit ''Login success'')), (lit ''results'',
          JObj [(lit ''device_id'', JStr i), (lit ''qr_link'', JStr uri), (lit ''qr_duration'', JNum 60)])])), s\<lparr>sb_logins := l\<rparr>)"
proof -
  let ?ws = "[lit ''app'', lit ''devices'', n, lit ''login'']"
  note n = path_name_part [OF assms(2)]
  have url: "hq_url (gwmd_login_request host hs n) = lit ''http://'' @ host @ address_tail ?ws []"
    by (simp add: gwmd_login_request_def get_request_def at_path_def address_tail_def lit_def)
  have route: "find_route (buildApp (sb_vendor s)) (hq_method (gwmd_login_request host hs n)) ?ws = Some (gwmd_qr_login, [n])"
    using assms(1) n(2) by (simp add: gwmd_login_request_def get_request_def route_simps)
  have f: "stub_fetch host env (gwmd_login_request host hs n) s
      = apfst Inr (gwmd_qr_login env (asked_of host (gwmd_login_request host hs n) ?ws []) [i] s)"
    using n by (intro fetch_route [OF url _ _ _ route]) (simp_all add: plain_literals [simplified])
  have "encodeURIComponent i = Some n" using assms(2) by (simp add: path_name_def sendable_def)
  with assms(3) show ?thesis
    by (intro exI conjI) (auto simp: f gwmd_qr_login_def Let_def apfst_def map_prod_def lit_def)
qed

lemma gwmd_scan_answer:
  assumes "sb_vendor s = gwmd_vendor" and "path_name i n" and "map_of (sb_devices s) i = Some d"
  shows "\<exists>a. stub_fetch host env (gwmd_scan host n) s = (Inr a, s\<lparr>sb_devices := AList.update i
      (obj_set (lit ''phone_number'') (JStr (43 # filter is_digit (filter is_digit i @ lit ''@s.whatsapp.net'')))
        (obj_set (lit ''state'') (JStr (lit ''logged_in'')) (obj_set (lit ''jid'') (JStr (filter is_digit i @ lit ''@s.whatsapp.net'')) d)))
      (sb_devices s)\<rparr>)"
proof -
  let ?ws = "[lit ''app'', lit ''devices'', n, lit ''_stub'', lit ''connect'']"
  note n = path_name_part [OF assms(2)]
  have url: "hq_url (gwmd_scan host n) = lit ''http://'' @ host @ address_tail ?ws []"
    by (simp add: gwmd_scan_def at_path_def address_tail_def lit_def)
  have route: "find_route (buildApp (sb_vendor s)) (hq_method (gwmd_scan host n)) ?ws = Some (gwmd_connect, [n])"
    using assms(1) n(2) by (simp add: gwmd_scan_def route_simps)
  have f: "stub_fetch host env (gwmd_scan host n) s
      = apfst Inr (gwmd_connect env (asked_of host (gwmd_scan host n) ?ws []) [i] s)"
    using n by (intro fetch_route [OF url _ _ _ route]) (simp_all add: plain_literals [simplified])
  have "body_member (asked_of host (gwmd_scan host n) ?ws []) ''jid'' = None"
    by (simp add: body_member_def mem_def asked_of_def gwmd_scan_def)
  with assms(3) show ?thesis by (simp add: f gwmd_connect_def Let_def apfst_def map_prod_def)
qed

end
