(* ===== verification/StubWizard.thy ===== *)
theory StubWizard
  imports Sidecar
begin

text \<open>
  The gateway and the stand-ins of the vendor services together (infra/docker/sidecar-stub and
  packages/adapters): the requests of an adapter's wizard are answered by the stand-in in the
  order in which they are made. \<open>qr_vendor\<close> is what the API's provisioning relies on: the
  list of accounts, the code, and one new account after its scan. The three vendors that
  link numbers by a code keep it, so a scan links the number that waits; messages are taken
  by all of them, and refused by the stand-in of the SMS server.
\<close>

section \<open>What a poll makes of one new account\<close>

text \<open>An account that is not named like the number that waits.\<close>

definition stranger :: "provision_qr_dto \<Rightarrow> provisioned \<Rightarrow> bool" where
  "stranger dto x \<longleftrightarrow> pv_deviceName x \<noteq> Some (device_name dto)
     \<and> (pq_kind dto = kind_whatsapp \<longrightarrow> pv_phoneE164 x \<noteq> Some (device_name dto))"

definition one_newcomer :: "provisioned list \<Rightarrow> provisioned list \<Rightarrow> provisioned \<Rightarrow> bool" where
  "one_newcomer known claimed x \<longleftrightarrow> pv_externalId x \<noteq> [] \<and> pv_externalId x \<notin> pv_externalId ` set known
     \<and> set (filter (\<lambda>y. pv_externalId y \<noteq> pv_externalId x) claimed) \<subseteq> set known
     \<and> filter (\<lambda>y. pv_externalId y = pv_externalId x) claimed = [x]"

lemma newcomer_matches:
  assumes new: "one_newcomer known claimed x" and strangers: "\<forall>y\<in>set known. stranger dto y"
    and e: "ep_uuid e = None" "ep_deviceName e = Some (device_name dto)" "pq_kind dto = kind_signal \<longrightarrow> ep_phoneE164 e = None"
      "pq_kind dto = kind_whatsapp \<longrightarrow> ep_phoneE164 e = Some (device_name dto)"
      "own (ep_config e) (lit ''knownAccountsBefore'') = Some (JArr (map JStr (filter (\<lambda>i. i \<noteq> []) (map pv_externalId known))))"
  shows "poll_match env a e claimed d = Some x"
proof -
  have others: "y = x \<or> y \<in> set known" if "y \<in> set claimed" for y
  proof (cases "pv_externalId y = pv_externalId x")
    case True
    with that have "y \<in> set (filter (\<lambda>y. pv_externalId y = pv_externalId x) claimed)" by simp
    with new show ?thesis by (simp add: one_newcomer_def)
  qed (use new that in \<open>auto simp: one_newcomer_def\<close>)
  have "\<not> identifies e y" if "y \<in> set known" for y
    using strangers that e(1-4) by (cases "pq_kind dto") (auto simp: identifies_def stranger_def)
  with others have found: "find (identifies e) claimed \<in> {None, Some x}"
    by (cases "find (identifies e) claimed") (auto dest!: find_SomeD)
  have fresh: "pv_externalId y \<noteq> [] \<and> pv_externalId y \<notin> pv_externalId ` set known \<longleftrightarrow> pv_externalId y = pv_externalId x"
    if "y \<in> set claimed" for y
    using others [OF that] new by (auto simp: one_newcomer_def) (metis imageI)
  have "fresh_accounts env e claimed = filter (\<lambda>y. pv_externalId y = pv_externalId x) claimed"
    unfolding fresh_accounts_def e(5)
    by (simp add: comp_def, rule filter_cong) (use fresh in auto)
  with new have "the_only (fresh_accounts env e claimed) = Some x" by (simp add: the_only_def one_newcomer_def)
  with found show ?thesis by (auto simp: poll_match_def)
qed

lemma newcomer_linked:
  assumes start: "startQr env a dto actor d = (Inr r, d1)" and ids: "ids_ahead d" and account: "accs.lookup d a = Some account"
    and before: "pr_adapters env (ac_adapter account) = Some adapter" "pa_list adapter = Some list" "list (account_config_of account) = Inr known"
    and later: "pr_adapters env' (ac_adapter account) = Some adapter'" "pa_list adapter' = Some list'"
      "list' (account_config_of account) = Inr claimed"
    and new: "one_newcomer known claimed x" "pv_uuid x = None" and strangers: "\<forall>y\<in>set known. stranger dto y"
  shows "\<exists>d2 e. prov_poll env' a (qp_endpointId r) d1 = (Inr linked, d2) \<and> eps.lookup d2 (qp_endpointId r) = Some e
    \<and> ep_state e = linked \<and> ep_enabled e \<and> ep_externalId e = Some (pv_externalId x)"
proof -
  let ?i = "qp_endpointId r" and ?known = "filter (\<lambda>i. i \<noteq> []) (map pv_externalId known)"
  from startQr_Inr [OF start ids] obtain q where
    q: "endpoints d1 = endpoints d @ [waiting_row env ?i a dto ?known q]" "accounts d1 = accounts d" "?i \<notin> ep_id ` set (endpoints d)"
    using account before by (auto simp: getAdapter_Inr known_before_def)
  let ?e = "waiting_row env ?i a dto ?known q"
  have e: "ep_id ?e = ?i" "ep_accountId ?e = a" "ep_uuid ?e = None" "ep_deviceName ?e = Some (device_name dto)"
    "pq_kind dto = kind_signal \<longrightarrow> ep_phoneE164 ?e = None" "pq_kind dto = kind_whatsapp \<longrightarrow> ep_phoneE164 ?e = Some (device_name dto)"
    "own (ep_config ?e) (lit ''knownAccountsBefore'') = Some (JArr (map JStr ?known))"
    by (simp_all add: waiting_row_def wizard_endpoint_def Let_def qr_session_def string_simps)
  have l: "eps.lookup d1 ?i = Some ?e"
    using q(1,3) e(1) by (auto simp: eps.lookup_def find_append find_None_iff image_iff split: option.split dest!: find_SomeD)
  have acc: "accs.lookup d1 a = Some account" using account q(2) by (simp add: accs.lookup_def)
  have "poll_match env' a ?e claimed d1 = Some x" by (rule newcomer_matches [OF new(1) strangers e(3-7)])
  moreover have "\<not> uuid_taken ?i (or_else (pv_uuid x) (ep_uuid ?e)) d1" using new(2) e(3) by (simp add: uuid_taken_def or_else_def)
  ultimately obtain d2 where d2: "prov_poll env' a ?i d1 = (Inr linked, d2)" "endpoints d2 = endpoints (write_endpoint ?i
      (\<lambda>x'. (link_endpoint (pr_now env') x x')\<lparr>ep_config := JObj []\<rparr>) d1)"
    using poll_claimed [OF l e(2) acc later] by blast
  from linked_row [OF l d2(2)] d2(1) show ?thesis by (auto simp: link_endpoint_def)
qed

section \<open>A vendor whose numbers are linked by a code\<close>

fun stub_prov :: "vendor \<Rightarrow> channel_env \<Rightarrow> provision_adapter" where
  "stub_prov dbsms ch = ad_provisioning goip_entry ch"
| "stub_prov unoapi_vendor ch = ad_provisioning unoapi_entry ch"
| "stub_prov signal_vendor ch = ad_provisioning signal_entry ch"
| "stub_prov gwmd_vendor ch = ad_provisioning gwmd_entry ch"

fun vendor_kind :: "vendor \<Rightarrow> provision_kind" where
  "vendor_kind signal_vendor = kind_signal"
| "vendor_kind v = kind_whatsapp"

text \<open>The id that a number has with the vendor once it is linked.\<close>

fun vendor_id :: "vendor \<Rightarrow> ustring \<Rightarrow> ustring \<Rightarrow> ustring" where
  "vendor_id signal_vendor name number = number"
| "vendor_id unoapi_vendor name number = strip_plus name"
| "vendor_id gwmd_vendor name number = gwmd_device_id name"
| "vendor_id dbsms name number = []"

definition encoded :: "ustring \<Rightarrow> ustring" where
  "encoded w = the (encodeURIComponent w)"

fun list_request :: "vendor \<Rightarrow> channel_env \<Rightarrow> account_config \<Rightarrow> ustring \<Rightarrow> http_request" where
  "list_request signal_vendor ch acc host = signal_list_request host"
| "list_request unoapi_vendor ch acc host = unoapi_list_request host"
| "list_request gwmd_vendor ch acc host = gwmd_list_request host (authHeaders ch acc)"
| "list_request dbsms ch acc host = signal_list_request host"

text \<open>What the start of a wizard asks, in order, and what the scan of the code asks.\<close>

fun start_requests :: "vendor \<Rightarrow> channel_env \<Rightarrow> account_config \<Rightarrow> ustring \<Rightarrow> ustring \<Rightarrow> http_request list" where
  "start_requests signal_vendor ch acc host name = [signal_list_request host, signal_qr_request host (encoded name)]"
| "start_requests unoapi_vendor ch acc host name = [unoapi_list_request host, unoapi_qr_request host (encoded (strip_plus name))]"
| "start_requests gwmd_vendor ch acc host name = [gwmd_list_request host (authHeaders ch acc),
     gwmd_add_request host (authHeaders ch acc) (gwmd_device_id name),
     gwmd_login_request host (authHeaders ch acc) (encoded (gwmd_device_id name))]"
| "start_requests dbsms ch acc host name = []"

fun scan_request :: "vendor \<Rightarrow> ustring \<Rightarrow> ustring \<Rightarrow> ustring \<Rightarrow> http_request" where
  "scan_request signal_vendor host name number = signal_scan host name number"
| "scan_request unoapi_vendor host name number = unoapi_scan host (encoded (strip_plus name))"
| "scan_request gwmd_vendor host name number = gwmd_scan host (encoded (gwmd_device_id name))"
| "scan_request dbsms host name number = signal_scan host name number"

text \<open>The accounts that the adapter makes of the store.\<close>

fun listed :: "vendor \<Rightarrow> channel_env \<Rightarrow> stub \<Rightarrow> provisioned list" where
  "listed signal_vendor ch s = map (\<lambda>(k, a). signal_account_of ch (JStr (sa_number a))) (sb_accounts s)"
| "listed unoapi_vendor ch s = map (session_account ch \<circ> session_json) (filter connected (sb_sessions s))"
| "listed gwmd_vendor ch s = map (device_account ch) (filter (device_paired ch) (map (JObj \<circ> snd) (sb_devices s)))"
| "listed dbsms ch s = []"

fun newcomer :: "vendor \<Rightarrow> ustring \<Rightarrow> ustring \<Rightarrow> provisioned" where
  "newcomer signal_vendor name number =
     \<lparr>pv_externalId = number, pv_phoneE164 = Some number, pv_uuid = None, pv_deviceName = None\<rparr>"
| "newcomer unoapi_vendor name number =
     \<lparr>pv_externalId = strip_plus name, pv_phoneE164 = Some (43 # strip_plus (strip_plus name)), pv_uuid = None,
      pv_deviceName = Some (strip_plus name)\<rparr>"
| "newcomer gwmd_vendor name number =
     \<lparr>pv_externalId = gwmd_device_id name, pv_phoneE164 = gwmd_jidToPhone (filter is_digit (gwmd_device_id name) @ lit ''@s.whatsapp.net''),
      pv_uuid = None, pv_deviceName = Some (gwmd_device_id name)\<rparr>"
| "newcomer dbsms name number = \<lparr>pv_externalId = [], pv_phoneE164 = None, pv_uuid = None, pv_deviceName = None\<rparr>"

definition wizard_name :: "vendor \<Rightarrow> ustring \<Rightarrow> bool" where
  "wizard_name v name \<longleftrightarrow> js_trim name = name \<and> name \<noteq> []
     \<and> (if v = signal_vendor then \<exists>n. sendable name n else \<exists>n. path_name (vendor_id v name []) n)"

locale qr_vendor =
  fixes v :: vendor
  assumes by_code: "pa_mode (stub_prov v ch) = Some by_qr"
    and lists: "sb_vendor s = v \<Longrightarrow> points_at host acc \<Longrightarrow> qs = [] \<or> hd qs = list_request v ch acc host \<Longrightarrow>
      \<exists>f. pa_list (stub_prov v (stub_channel host env qs s ch)) = Some f \<and> f acc = Inr (listed v ch s)"
    and starts: "sb_vendor s = v \<Longrightarrow> stub_ok s \<Longrightarrow> points_at host acc \<Longrightarrow> wizard_name v name \<Longrightarrow>
      \<exists>f r. pa_qr (stub_prov v (stub_channel host env (start_requests v ch acc host name) s ch)) = Some f \<and> f acc name = Inr r"
    and asks_first: "\<exists>qs. start_requests v ch acc host name = list_request v ch acc host # qs"
    and scans: "sb_vendor s = v \<Longrightarrow> stub_ok s \<Longrightarrow> wizard_name v name \<Longrightarrow> number \<noteq> [] \<Longrightarrow>
      vendor_id v name number \<notin> pv_externalId ` set (listed v ch s) \<Longrightarrow>
      s' = after_requests host env (start_requests v ch acc host name @ [scan_request v host name number]) s \<Longrightarrow>
      sb_vendor s' = v \<and> one_newcomer (listed v ch s) (listed v ch s') (newcomer v name number)"
begin

text \<open>From the form to the linked number: a wizard is started, its code is scanned, and the next poll links the number.\<close>

lemma scan_links:
  assumes "sb_vendor s = v" "stub_ok s" and points: "points_at host (account_config_of account)"
    and form: "wizard_name v (device_name dto)" "number \<noteq> []"
    and new: "vendor_id v (device_name dto) number \<notin> pv_externalId ` set (listed v ch s)" "\<forall>y\<in>set (listed v ch s). stranger dto y"
    and d: "ids_ahead d" "accs.lookup d a = Some account"
    and env: "pr_adapters env (ac_adapter account) = Some (stub_prov v (stub_channel host sv
        (start_requests v ch (account_config_of account) host (device_name dto)) s ch))"
    and later: "s' = after_requests host sv (start_requests v ch (account_config_of account) host (device_name dto)
        @ [scan_request v host (device_name dto) number]) s"
      "pr_adapters env' (ac_adapter account) = Some (stub_prov v (stub_channel host sv' [] s' ch))"
  shows "\<exists>r d1 d2 e. startQr env a dto actor d = (Inr r, d1) \<and> prov_poll env' a (qp_endpointId r) d1 = (Inr linked, d2)
    \<and> eps.lookup d2 (qp_endpointId r) = Some e \<and> ep_state e = linked \<and> ep_enabled e
    \<and> ep_externalId e = Some (pv_externalId (newcomer v (device_name dto) number))"
proof -
  let ?acc = "account_config_of account" and ?x = "newcomer v (device_name dto) number"
  let ?qs = "start_requests v ch ?acc host (device_name dto)"
  have hd: "?qs = [] \<or> hd ?qs = list_request v ch ?acc host"
    using asks_first [of ch ?acc host "device_name dto"] by auto
  from lists [OF assms(1) points hd] obtain f where f:
    "pa_list (stub_prov v (stub_channel host sv ?qs s ch)) = Some f" "f ?acc = Inr (listed v ch s)" by blast
  from starts [OF assms(1,2) points form(1)] obtain g q where g:
    "pa_qr (stub_prov v (stub_channel host sv ?qs s ch)) = Some g" "g ?acc (device_name dto) = Inr q" by blast
  have "getAdapter env a d = Inr (account, stub_prov v (stub_channel host sv ?qs s ch))"
    using d(2) env by (simp add: getAdapter_Inr)
  moreover have "device_name dto \<noteq> []" using form(1) by (simp add: wizard_name_def)
  ultimately obtain r d1 where start: "startQr env a dto actor d = (Inr r, d1)"
    using g by_code by (simp add: startQr_def fresh_id_def Let_def)
  note new' = scans [OF assms(1,2) form new(1) later(1)]
  then have "sb_vendor s' = v" by blast
  from lists [OF this points, of "[]"] obtain f' where f':
    "pa_list (stub_prov v (stub_channel host sv' [] s' ch)) = Some f'" "f' ?acc = Inr (listed v ch s')" by blast
  have "pv_uuid ?x = None" by (cases v) simp_all
  with newcomer_linked [OF start d env f later(2) f' conjunct2 [OF new'] _ new(2)] start show ?thesis by blast
qed

end

section \<open>The three vendors\<close>

lemma stub_channel_simps [simp]:
  "ch_fmt (stub_channel host env qs s ch) = ch_fmt ch" "base_url (stub_channel host env qs s ch) acc = base_url ch acc"
  "authHeaders (stub_channel host env qs s ch) acc = authHeaders ch acc" "ch_now (stub_channel host env qs s ch) = ch_now ch"
  by (simp_all add: stub_channel_def base_url_def config_text_def authHeaders_def auth_only_def authHeader_def)

lemma stub_channel_fetch: "ch_fetch (stub_channel host env qs s ch) q = fst (stub_fetch host env q (turn_state host env qs q s))"
  by (simp add: stub_channel_def)

lemma first_turn: "qs = [] \<or> hd qs = q \<Longrightarrow> turn_state host env qs q s = s"
  by (cases qs) simp_all

lemma response_ok_200 [simp]: "response_ok 200" "hr_status (res_json env st j) = st" "hr_json (res_json env st j) = Some j"
  by (simp_all add: response_ok_def res_json_def)

lemma update_others: "distinct (map fst xs) \<Longrightarrow> p \<in> set (AList.update k v xs) \<Longrightarrow> p = (k, v) \<or> (p \<in> set xs \<and> fst p \<noteq> k)"
  by (auto simp: set_update)

lemma update_once: "distinct (map fst xs) \<Longrightarrow> filter (\<lambda>p. fst p = k) (AList.update k v xs) = [(k, v)]"
  by (induction xs) (auto simp: filter_empty_conv image_iff)

lemma filter_map_filter:
  "(\<And>p y. p \<in> set us \<Longrightarrow> g p = Some y \<Longrightarrow> Q y \<longleftrightarrow> R p) \<Longrightarrow> filter Q (List.map_filter g us) = List.map_filter g (filter R us)"
  by (induction us) (auto simp: List.map_filter_simps split: option.split)

text \<open>A listing of a store, one of whose entries was written and is new.\<close>

lemma one_newcomer_listing:
  assumes xs: "distinct (map fst xs)"
    and new: "pv_externalId x \<noteq> []" "pv_externalId x \<notin> pv_externalId ` set (List.map_filter g xs)" "g (k, v) = Some x"
    and ids: "\<And>p y. p \<in> set xs \<Longrightarrow> g p = Some y \<Longrightarrow> fst p \<noteq> k \<Longrightarrow> pv_externalId y \<noteq> pv_externalId x"
  shows "one_newcomer (List.map_filter g xs) (List.map_filter g (AList.update k v xs)) x"
proof -
  let ?us = "AList.update k v xs"
  have "y \<in> set (List.map_filter g xs)" if y: "y \<in> set (List.map_filter g ?us)" "pv_externalId y \<noteq> pv_externalId x" for y
  proof -
    from y(1) obtain p where p: "p \<in> set ?us" "g p = Some y" by (auto simp: List.map_filter_def)
    with y(2) new(3) update_others [OF xs p(1)] have "p \<in> set xs" by auto
    with p(2) show ?thesis by (force simp: List.map_filter_def)
  qed
  moreover have "filter (\<lambda>y. pv_externalId y = pv_externalId x) (List.map_filter g ?us) = List.map_filter g (filter (\<lambda>p. fst p = k) ?us)"
  proof (rule filter_map_filter)
    fix p y assume p: "p \<in> set ?us" "g p = Some y"
    from update_others [OF xs p(1)] show "pv_externalId y = pv_externalId x \<longleftrightarrow> fst p = k"
      using ids p(2) new(3) by fastforce
  qed
  ultimately show ?thesis using new by (auto simp: one_newcomer_def update_once [OF xs] List.map_filter_simps)
qed

lemma listed_as_filter:
  "map f (filter P xs) = List.map_filter (\<lambda>p. if P p then Some (f p) else None) xs"
  "map f xs = List.map_filter (\<lambda>p. Some (f p)) xs"
  by (induction xs) (simp_all add: List.map_filter_simps)

lemma number_account [simp]: "signal_account_of ch (JStr n) = \<lparr>pv_externalId = n, pv_phoneE164 = Some n, pv_uuid = None, pv_deviceName = None\<rparr>"
  by (simp add: signal_account_of_def)

lemma signal_listing:
  assumes "points_at host acc" and "sb_vendor s = signal_vendor" and "qs = [] \<or> hd qs = signal_list_request host"
  shows "signal_listAccounts (stub_channel host env qs s ch) acc = Inr (listed signal_vendor ch s)"
proof -
  have "signal_baseUrl (stub_channel host env qs s ch) acc = Inr (lit ''http://'' @ host)"
    using points_at_base [OF assms(1)] by (simp add: signal_baseUrl_def)
  moreover have "ch_fetch (stub_channel host env qs s ch) (signal_list_request host)
      = Inr (res_json env 200 (JArr (map (\<lambda>(k, a). JStr (sa_number a)) (sb_accounts s))))"
    by (simp add: stub_channel_fetch first_turn [OF assms(3)] signal_list_answer [OF assms(2)])
  ultimately show ?thesis
    by (simp add: signal_listAccounts_def signal_list_request_def at_path_def json_or_def items_def comp_def case_prod_beta'
        signal_account_of_def)
qed

lemma sent_as: "sendable name n \<Longrightarrow> encoded name = n"
  by (simp add: sendable_def encoded_def)

lemma ttl_default: "\<exists>t. ttl_of ch None t0 = Inr t" "ttl_of ch (Some (JNum r)) t0 = Inr (truncated r)"
  by (simp_all add: ttl_of_def)

lemma signal_starts:
  assumes "sb_vendor s = signal_vendor" and "points_at host acc" and "wizard_name signal_vendor name"
  shows "\<exists>r. signal_provisionQr (stub_channel host env (start_requests signal_vendor ch acc host name) s ch) acc name = Inr r"
proof -
  let ?qs = "start_requests signal_vendor ch acc host name"
  let ?ch = "stub_channel host env ?qs s ch"
  obtain n where n: "sendable name n" "js_trim name = name" "name \<noteq> []" using assms(3) by (auto simp: wizard_name_def)
  have "signal_list_request host \<noteq> signal_qr_request host n"
    by (simp add: signal_list_request_def signal_qr_request_def get_request_def at_path_def lit_def)
  then have "turn_state host env ?qs (signal_qr_request host n) s = s"
    by (simp add: sent_as [OF n(1)] signal_list_answer [OF assms(1)])
  moreover obtain uri where "uri \<noteq> []" "fst (stub_fetch host env (signal_qr_request host n) s) = Inr (res_json env 200 (JObj [(lit ''device_link_uri'', JStr uri)]))"
    using signal_qr_answer [OF assms(1) n] by (metis fst_conv)
  ultimately have f: "ch_fetch ?ch (signal_qr_request host n) = Inr (res_json env 200 (JObj [(lit ''device_link_uri'', JStr uri)]))" "uri \<noteq> []"
    by (simp_all add: stub_channel_fetch)
  moreover have "signal_baseUrl ?ch acc = Inr (lit ''http://'' @ host)"
    using points_at_base [OF assms(2)] by (simp add: signal_baseUrl_def)
  moreover have "encodeURIComponent name = Some n" using n(1) by (simp add: sendable_def)
  moreover obtain t where "ttl_of ?ch None 600 = Inr t" using ttl_default(1) by blast
  ultimately show ?thesis using n(2,3)
    by (simp add: signal_provisionQr_def signal_qr_request_def at_path_def json_or_def Let_def holds_def string_simps)
qed

lemma signal_scans:
  assumes "sb_vendor s = signal_vendor" and "stub_ok s" and "wizard_name signal_vendor name" and "number \<noteq> []"
    and "number \<notin> pv_externalId ` set (listed signal_vendor ch s)"
    and "s' = after_requests host env (start_requests signal_vendor ch acc host name @ [scan_request signal_vendor host name number]) s"
  shows "sb_vendor s' = signal_vendor \<and> one_newcomer (listed signal_vendor ch s) (listed signal_vendor ch s') (newcomer signal_vendor name number)"
proof -
  obtain n where n: "sendable name n" "js_trim name = name" "name \<noteq> []" using assms(3) by (auto simp: wizard_name_def)
  obtain a uri where "stub_fetch host env (signal_qr_request host n) s = (Inr a, s\<lparr>sb_links := AList.update name uri (sb_links s)\<rparr>)"
    using signal_qr_answer [OF assms(1) n] by blast
  moreover obtain b u where "stub_fetch host env (signal_scan host name number) (s\<lparr>sb_links := AList.update name uri (sb_links s)\<rparr>)
      = (Inr b, s\<lparr>sb_links := AList.update name uri (sb_links s),
            sb_accounts := AList.update name \<lparr>sa_number = number, sa_device = name, sa_uuid = u\<rparr> (sb_accounts s)\<rparr>)"
    using signal_scan_answer [of "s\<lparr>sb_links := AList.update name uri (sb_links s)\<rparr>" name host env number] assms(1) n(2,3) by auto
  ultimately have s': "sb_vendor s' = signal_vendor"
    "sb_accounts s' = AList.update name \<lparr>sa_number = number, sa_device = name, sa_uuid = u\<rparr> (sb_accounts s)"
    using assms(1) by (simp_all add: assms(6) after_requests_def sent_as [OF n(1)] signal_list_answer)
  have d: "distinct (map fst (sb_accounts s))" using assms(2) by (simp add: stub_ok_def)
  have "one_newcomer (listed signal_vendor ch s) (listed signal_vendor ch s') (newcomer signal_vendor name number)"
    using assms(4,5) unfolding listed.simps s'(2) listed_as_filter(2)
    by (intro one_newcomer_listing [OF d]) (force simp: List.map_filter_def)+
  with s'(1) show ?thesis by blast
qed

interpretation signal_wizard: qr_vendor signal_vendor
proof unfold_locales
  fix s :: stub and host acc qs ch env
  assume "sb_vendor s = signal_vendor" "points_at host acc" "qs = [] \<or> hd qs = list_request signal_vendor ch acc host"
  with signal_listing show "\<exists>f. pa_list (stub_prov signal_vendor (stub_channel host env qs s ch)) = Some f
      \<and> f acc = Inr (listed signal_vendor ch s)"
    by (simp add: signal_entry_def signal_provisioning_def)
next
  fix s :: stub and host acc name env ch
  assume "sb_vendor s = signal_vendor" "points_at host acc" "wizard_name signal_vendor name"
  from signal_starts [OF this] show "\<exists>f r. pa_qr (stub_prov signal_vendor (stub_channel host env
      (start_requests signal_vendor ch acc host name) s ch)) = Some f \<and> f acc name = Inr r"
    by (simp add: signal_entry_def signal_provisioning_def)
next
  fix s s' :: stub and name number ch host env acc
  assume "sb_vendor s = signal_vendor" "stub_ok s" "wizard_name signal_vendor name" "number \<noteq> []"
    "vendor_id signal_vendor name number \<notin> pv_externalId ` set (listed signal_vendor ch s)"
    "s' = after_requests host env (start_requests signal_vendor ch acc host name @ [scan_request signal_vendor host name number]) s"
  then show "sb_vendor s' = signal_vendor \<and> one_newcomer (listed signal_vendor ch s) (listed signal_vendor ch s') (newcomer signal_vendor name number)"
    by (intro signal_scans) simp_all
qed (simp_all add: signal_entry_def signal_provisioning_def)

text \<open>UnoAPI.\<close>

lemma session_account_of [simp]:
  "session_account ch (session_json (p, n)) = \<lparr>pv_externalId = p, pv_phoneE164 = (if p = [] then None else Some (43 # strip_plus p)),
     pv_uuid = None, pv_deviceName = Some p\<rparr>"
  by (simp add: session_account_def session_json_def text_or_empty_def js_String_def Let_def)

lemma unoapi_listing:
  assumes "points_at host acc" and "sb_vendor s = unoapi_vendor" and "qs = [] \<or> hd qs = unoapi_list_request host"
  shows "unoapi_listAccounts (stub_channel host env qs s ch) acc = Inr (listed unoapi_vendor ch s)"
proof -
  have "unoapi_baseUrl (stub_channel host env qs s ch) acc = Inr (lit ''http://'' @ host)"
    using points_at_base [OF assms(1)] by (simp add: unoapi_baseUrl_def)
  moreover have "ch_fetch (stub_channel host env qs s ch) (unoapi_list_request host)
      = Inr (res_json env 200 (JArr (map session_json (filter connected (sb_sessions s)))))"
    by (simp add: stub_channel_fetch first_turn [OF assms(3)] unoapi_list_answer [OF assms(2)])
  moreover have "session_account (stub_channel host env qs s ch) = session_account ch"
    by (simp add: session_account_def fun_eq_iff)
  ultimately show ?thesis
    by (simp add: unoapi_listAccounts_def unoapi_list_request_def at_path_def json_or_def items_def Let_def)
qed

lemma unoapi_starts:
  assumes "sb_vendor s = unoapi_vendor" and "stub_ok s" and "points_at host acc" and "wizard_name unoapi_vendor name"
  shows "\<exists>r. unoapi_provisionQr (stub_channel host env (start_requests unoapi_vendor ch acc host name) s ch) acc name = Inr r"
proof -
  let ?qs = "start_requests unoapi_vendor ch acc host name"
  let ?ch = "stub_channel host env ?qs s ch"
  obtain n where n: "path_name (strip_plus name) n" "js_trim name = name" "name \<noteq> []" using assms(4) by (auto simp: wizard_name_def)
  then have snd': "sendable (strip_plus name) n" by (simp add: path_name_def)
  have "unoapi_list_request host \<noteq> unoapi_qr_request host n"
    by (simp add: unoapi_list_request_def unoapi_qr_request_def get_request_def at_path_def lit_def)
  then have "turn_state host env ?qs (unoapi_qr_request host n) s = s"
    by (simp add: sent_as [OF snd'] unoapi_list_answer [OF assms(1)])
  moreover obtain uri m where uri: "uri \<noteq> []" "stub_fetch host env (unoapi_qr_request host n) s
      = (Inr (res_json env 200 (JObj [(lit ''phone'', JStr (strip_plus name)), (lit ''qr'', JStr uri), (lit ''state'', JStr (sn_state m))])),
         s\<lparr>sb_sessions := AList.update (strip_plus name) m (sb_sessions s)\<rparr>)"
    using unoapi_qr_answer [OF assms(1,2) n(1)] by blast
  ultimately have f: "ch_fetch ?ch (unoapi_qr_request host n) = Inr (res_json env 200 (JObj [(lit ''phone'', JStr (strip_plus name)),
      (lit ''qr'', JStr uri), (lit ''state'', JStr (sn_state m))]))"
    by (simp add: stub_channel_fetch)
  moreover have "unoapi_baseUrl ?ch acc = Inr (lit ''http://'' @ host)"
    using points_at_base [OF assms(3)] by (simp add: unoapi_baseUrl_def)
  moreover have "encodeURIComponent (strip_plus name) = Some n" using snd' by (simp add: sendable_def)
  moreover obtain t where "ttl_of ?ch None 120 = Inr t" using ttl_default(1) by blast
  ultimately show ?thesis using n(2,3) uri(1)
    by (simp add: unoapi_provisionQr_def unoapi_qr_request_def at_path_def json_or_def Let_def holds_def string_simps)
qed

lemma unoapi_scans:
  assumes "sb_vendor s = unoapi_vendor" and "stub_ok s" and "wizard_name unoapi_vendor name"
    and "strip_plus name \<notin> pv_externalId ` set (listed unoapi_vendor ch s)"
    and "s' = after_requests host env (start_requests unoapi_vendor ch acc host name @ [scan_request unoapi_vendor host name number]) s"
  shows "sb_vendor s' = unoapi_vendor \<and> one_newcomer (listed unoapi_vendor ch s) (listed unoapi_vendor ch s') (newcomer unoapi_vendor name number)"
proof -
  obtain n where n: "path_name (strip_plus name) n" using assms(3) by (auto simp: wizard_name_def)
  then have snd': "sendable (strip_plus name) n" and ne: "strip_plus name \<noteq> []" by (simp_all add: path_name_def)
  let ?p = "strip_plus name"
  obtain a m where "stub_fetch host env (unoapi_qr_request host n) s = (Inr a, s\<lparr>sb_sessions := AList.update ?p m (sb_sessions s)\<rparr>)"
    using unoapi_qr_answer [OF assms(1,2) n] by blast
  moreover obtain b where "stub_fetch host env (unoapi_scan host n) (s\<lparr>sb_sessions := AList.update ?p m (sb_sessions s)\<rparr>)
      = (Inr b, s\<lparr>sb_sessions := AList.update ?p (m\<lparr>sn_state := lit ''connected''\<rparr>) (AList.update ?p m (sb_sessions s))\<rparr>)"
    using unoapi_scan_answer [of "s\<lparr>sb_sessions := AList.update ?p m (sb_sessions s)\<rparr>" ?p n m host env] assms(1) n
    by (auto simp: update_conv')
  ultimately have s': "sb_vendor s' = unoapi_vendor"
    "sb_sessions s' = AList.update ?p (m\<lparr>sn_state := lit ''connected''\<rparr>) (AList.update ?p m (sb_sessions s))"
    using assms(1) by (simp_all add: assms(5) after_requests_def sent_as [OF snd'] unoapi_list_answer)
  have d: "distinct (map fst (sb_sessions s))" using assms(2) by (simp add: stub_ok_def)
  have "one_newcomer (listed unoapi_vendor ch s) (listed unoapi_vendor ch s') (newcomer unoapi_vendor name number)"
    using assms(4) ne unfolding listed.simps s'(2) update_last comp_def listed_as_filter(1)
    by (intro one_newcomer_listing [OF d]) (auto simp: connected_def split: if_splits)
  with s'(1) show ?thesis by blast
qed

interpretation unoapi_wizard: qr_vendor unoapi_vendor
proof unfold_locales
  fix s :: stub and host acc qs ch env
  assume "sb_vendor s = unoapi_vendor" "points_at host acc" "qs = [] \<or> hd qs = list_request unoapi_vendor ch acc host"
  with unoapi_listing show "\<exists>f. pa_list (stub_prov unoapi_vendor (stub_channel host env qs s ch)) = Some f
      \<and> f acc = Inr (listed unoapi_vendor ch s)"
    by (simp add: unoapi_entry_def unoapi_provisioning_def)
next
  fix s :: stub and host acc name env ch
  assume "sb_vendor s = unoapi_vendor" "stub_ok s" "points_at host acc" "wizard_name unoapi_vendor name"
  from unoapi_starts [OF this] show "\<exists>f r. pa_qr (stub_prov unoapi_vendor (stub_channel host env
      (start_requests unoapi_vendor ch acc host name) s ch)) = Some f \<and> f acc name = Inr r"
    by (simp add: unoapi_entry_def unoapi_provisioning_def)
next
  fix s s' :: stub and name number ch host env acc
  assume "sb_vendor s = unoapi_vendor" "stub_ok s" "wizard_name unoapi_vendor name"
    "vendor_id unoapi_vendor name number \<notin> pv_externalId ` set (listed unoapi_vendor ch s)"
    "s' = after_requests host env (start_requests unoapi_vendor ch acc host name @ [scan_request unoapi_vendor host name number]) s"
  then show "sb_vendor s' = unoapi_vendor \<and> one_newcomer (listed unoapi_vendor ch s) (listed unoapi_vendor ch s') (newcomer unoapi_vendor name number)"
    by (intro unoapi_scans) simp_all
qed (simp_all add: unoapi_entry_def unoapi_provisioning_def)

text \<open>gwmd.\<close>

lemma trim_device_id: "js_trim name = name \<Longrightarrow> js_trim (gwmd_device_id name) = gwmd_device_id name"
  by (simp add: gwmd_device_id_def Let_def js_trim_id digit_not_space)

lemma shape_own:
  assumes "device_shape i d"
  shows "map_of d (lit ''ID'') = None" "map_of d (lit ''device_id'') = None" "map_of d (lit ''JID'') = None" "map_of d (lit ''State'') = None"
  using assms by (auto simp: device_shape_def map_of_eq_None_iff string_simps)

lemma shape_id: "device_shape i d \<Longrightarrow> pv_externalId (device_account ch (JObj d)) = i"
  by (simp add: device_account_def shape_own text_or_empty_def js_String_def Let_def) (simp add: device_shape_def)

text \<open>A device after the scan.\<close>

definition paired_device :: "ustring \<Rightarrow> fields \<Rightarrow> fields" where
  "paired_device i d = obj_set (lit ''phone_number'') (JStr (43 # filter is_digit (filter is_digit i @ lit ''@s.whatsapp.net'')))
     (obj_set (lit ''state'') (JStr (lit ''logged_in'')) (obj_set (lit ''jid'') (JStr (filter is_digit i @ lit ''@s.whatsapp.net'')) d))"

lemma paired_device_listed:
  assumes "device_shape i d"
  shows "device_paired ch (JObj (paired_device i d))" "device_account ch (JObj (paired_device i d)) =
    \<lparr>pv_externalId = i, pv_phoneE164 = gwmd_jidToPhone (filter is_digit i @ lit ''@s.whatsapp.net''), pv_uuid = None, pv_deviceName = Some i\<rparr>"
proof -
  have shape: "device_shape i (paired_device i d)" unfolding paired_device_def using assms by (intro shape_set) simp_all
  have jid: "map_of (paired_device i d) (lit ''jid'') = Some (JStr (filter is_digit i @ lit ''@s.whatsapp.net''))"
    and state: "map_of (paired_device i d) (lit ''state'') = Some (JStr (lit ''logged_in''))"
    by (simp_all add: paired_device_def string_simps)
  have "map lower_cp (lit ''logged_in'') = lit ''logged_in''" by (simp add: lit_def lower_cp_def)
  then show "device_paired ch (JObj (paired_device i d))"
    by (simp add: device_paired_def state text_or_empty_def js_String_def Let_def)
  have "filter is_digit i @ lit ''@s.whatsapp.net'' \<noteq> []" by (simp add: lit_def)
  with shape_id [OF shape, of ch] shape_own [OF shape] jid
  show "device_account ch (JObj (paired_device i d)) =
    \<lparr>pv_externalId = i, pv_phoneE164 = gwmd_jidToPhone (filter is_digit i @ lit ''@s.whatsapp.net''), pv_uuid = None, pv_deviceName = Some i\<rparr>"
    by (simp add: device_account_def holds_def js_String_def Let_def)
qed

lemma gwmd_listing:
  assumes "points_at host acc" and "sb_vendor s = gwmd_vendor" and "qs = [] \<or> hd qs = gwmd_list_request host (authHeaders ch acc)"
  shows "gwmd_listAccounts (stub_channel host env qs s ch) acc = Inr (listed gwmd_vendor ch s)"
proof -
  let ?ch = "stub_channel host env qs s ch"
  have "gwmd_baseUrl ?ch acc = Inr (lit ''http://'' @ host)"
    using points_at_base [OF assms(1)] by (simp add: gwmd_baseUrl_def)
  moreover have "ch_fetch ?ch (gwmd_list_request host (authHeaders ch acc))
      = Inr (res_json env 200 (gwmd_ok [(lit ''results'', JArr (map (JObj \<circ> snd) (sb_devices s)))]))"
    by (simp add: stub_channel_fetch first_turn [OF assms(3)] gwmd_list_answer [OF assms(2)])
  moreover have "device_account ?ch = device_account ch" "device_paired ?ch = device_paired ch"
    by (simp_all add: device_account_def device_paired_def Let_def fun_eq_iff)
  ultimately show ?thesis
    by (simp add: gwmd_listAccounts_def gwmd_list_request_def at_path_def json_or_def device_list_def gwmd_ok_def is_list_def
        items_def string_simps)
qed

lemma gwmd_added:
  assumes "sb_vendor s = gwmd_vendor" and "stub_ok s" and "js_trim i = i" "i \<noteq> []"
  shows "\<exists>a s1 d. hr_status a = 200 \<and> stub_fetch host env (gwmd_add_request host hs i) s = (Inr a, s1) \<and> sb_vendor s1 = gwmd_vendor
    \<and> map_of (sb_devices s1) i = Some d \<and> device_shape i d
    \<and> AList.update i (paired_device i d) (sb_devices s1) = AList.update i (paired_device i d) (sb_devices s)"
proof -
  obtain a where a: "hr_status a = 200" "stub_fetch host env (gwmd_add_request host hs i) s = (Inr a,
      if map_of (sb_devices s) i = None then s\<lparr>sb_devices := AList.update i (new_device env i) (sb_devices s)\<rparr> else s)"
    using gwmd_add_answer [OF assms(1,3,4), of host env hs] by blast
  show ?thesis
  proof (cases "map_of (sb_devices s) i")
    case None
    with a assms(1) show ?thesis
      by (intro exI [of _ a] exI [of _ "s\<lparr>sb_devices := AList.update i (new_device env i) (sb_devices s)\<rparr>"] exI [of _ "new_device env i"])
        (simp add: update_conv' new_device_shape)
  next
    case (Some d)
    with a assms(1) device_of [OF assms(2) Some] show ?thesis
      by (intro exI [of _ a] exI [of _ s] exI [of _ d]) simp
  qed
qed

lemma gwmd_starts:
  assumes "sb_vendor s = gwmd_vendor" and "stub_ok s" and "points_at host acc" and "wizard_name gwmd_vendor name"
  shows "\<exists>r. gwmd_provisionQr (stub_channel host env (start_requests gwmd_vendor ch acc host name) s ch) acc name = Inr r"
proof -
  let ?i = "gwmd_device_id name" and ?hs = "authHeaders ch acc" and ?qs = "start_requests gwmd_vendor ch acc host name"
  let ?ch = "stub_channel host env ?qs s ch"
  obtain n where n: "path_name ?i n" "js_trim name = name" "name \<noteq> []" using assms(4) by (auto simp: wizard_name_def)
  then have i: "sendable ?i n" "?i \<noteq> []" "js_trim ?i = ?i" by (simp_all add: path_name_def trim_device_id)
  obtain a s1 d where s1: "hr_status a = 200" "stub_fetch host env (gwmd_add_request host ?hs ?i) s = (Inr a, s1)"
    "sb_vendor s1 = gwmd_vendor" "map_of (sb_devices s1) ?i = Some d"
    using gwmd_added [OF assms(1,2) i(3,2)] by blast
  have differ: "gwmd_list_request host ?hs \<noteq> gwmd_add_request host ?hs ?i"
    "gwmd_list_request host ?hs \<noteq> gwmd_login_request host ?hs n" "gwmd_add_request host ?hs ?i \<noteq> gwmd_login_request host ?hs n"
    by (simp_all add: gwmd_list_request_def gwmd_add_request_def gwmd_login_request_def get_request_def json_request_def
        at_path_def lit_def)
  have turns: "turn_state host env ?qs (gwmd_add_request host ?hs ?i) s = s" "turn_state host env ?qs (gwmd_login_request host ?hs n) s = s1"
    using differ by (simp_all add: sent_as [OF i(1)] gwmd_list_answer [OF assms(1)] s1(2))
  have added: "ch_fetch ?ch (gwmd_add_request host ?hs ?i) = Inr a" by (simp only: stub_channel_fetch turns s1(2) fst_conv)
  obtain uri l where uri: "uri \<noteq> []" "stub_fetch host env (gwmd_login_request host ?hs n) s1
    = (Inr (res_json env 200 (gwmd_ok [(lit ''message'', JStr (lit ''Login success'')), (lit ''results'',
          JObj [(lit ''device_id'', JStr ?i), (lit ''qr_link'', JStr uri), (lit ''qr_duration'', JNum 60)])])), s1\<lparr>sb_logins := l\<rparr>)"
    using gwmd_login_answer [OF s1(3) n(1) s1(4)] by blast
  have shown: "ch_fetch ?ch (gwmd_login_request host ?hs n) = Inr (res_json env 200 (gwmd_ok [(lit ''message'', JStr (lit ''Login success'')),
      (lit ''results'', JObj [(lit ''device_id'', JStr ?i), (lit ''qr_link'', JStr uri), (lit ''qr_duration'', JNum 60)])]))"
    by (simp only: stub_channel_fetch turns uri(2) fst_conv)
  have "encodeURIComponent ?i = Some n" using i(1) by (simp add: sendable_def)
  then have "gwmd_login ?ch acc (lit ''http://'' @ host) ?i \<noteq> Inl e" for e
    using shown uri(1) by (simp add: gwmd_login_def gwmd_login_request_def at_path_def json_or_def Let_def gwmd_ok_def mem_def
        text_or_empty_def js_String_def ttl_default string_simps)
  then obtain r where "gwmd_login ?ch acc (lit ''http://'' @ host) ?i = Inr r" by (metis sum.exhaust)
  with added s1(1) n(2,3) points_at_base [OF assms(3)] show ?thesis
    by (simp add: gwmd_provisionQr_def gwmd_baseUrl_def gwmd_add_request_def at_path_def response_ok_def Let_def)
qed

lemma gwmd_scans:
  assumes "sb_vendor s = gwmd_vendor" and "stub_ok s" and "wizard_name gwmd_vendor name"
    and "gwmd_device_id name \<notin> pv_externalId ` set (listed gwmd_vendor ch s)"
    and "s' = after_requests host env (start_requests gwmd_vendor ch acc host name @ [scan_request gwmd_vendor host name number]) s"
  shows "sb_vendor s' = gwmd_vendor \<and> one_newcomer (listed gwmd_vendor ch s) (listed gwmd_vendor ch s') (newcomer gwmd_vendor name number)"
proof -
  let ?i = "gwmd_device_id name" and ?hs = "authHeaders ch acc"
  obtain n where n: "path_name ?i n" "js_trim name = name" using assms(3) by (auto simp: wizard_name_def)
  then have i: "sendable ?i n" "?i \<noteq> []" "js_trim ?i = ?i" by (simp_all add: path_name_def trim_device_id)
  obtain a s1 d where s1: "stub_fetch host env (gwmd_add_request host ?hs ?i) s = (Inr a, s1)" "sb_vendor s1 = gwmd_vendor"
    "map_of (sb_devices s1) ?i = Some d" "device_shape ?i d"
    "AList.update ?i (paired_device ?i d) (sb_devices s1) = AList.update ?i (paired_device ?i d) (sb_devices s)"
    using gwmd_added [OF assms(1,2) i(3,2)] by blast
  obtain b l where login: "stub_fetch host env (gwmd_login_request host ?hs n) s1 = (Inr b, s1\<lparr>sb_logins := l\<rparr>)"
    using gwmd_login_answer [OF s1(2) n(1) s1(3)] by blast
  obtain c where scan: "stub_fetch host env (gwmd_scan host n) (s1\<lparr>sb_logins := l\<rparr>)
      = (Inr c, s1\<lparr>sb_logins := l, sb_devices := AList.update ?i (paired_device ?i d) (sb_devices s1)\<rparr>)"
    using gwmd_scan_answer [of "s1\<lparr>sb_logins := l\<rparr>" ?i n d host env] s1(2,3) n(1) by (auto simp: paired_device_def)
  have s': "sb_vendor s' = gwmd_vendor" "sb_devices s' = AList.update ?i (paired_device ?i d) (sb_devices s)"
    using s1(2,5) by (simp_all add: assms(5) after_requests_def sent_as [OF i(1)] gwmd_list_answer [OF assms(1)] s1(1) login scan)
  have ds: "distinct (map fst (sb_devices s))" "\<forall>(k, e)\<in>set (sb_devices s). device_shape k e" using assms(2) by (simp_all add: stub_ok_def)
  have "one_newcomer (listed gwmd_vendor ch s) (listed gwmd_vendor ch s') (newcomer gwmd_vendor name number)"
    using assms(4) i(2) unfolding listed.simps s'(2) filter_map map_map unfolding comp_def listed_as_filter(1)
    by (intro one_newcomer_listing [OF ds(1)])
      (use ds(2) in \<open>auto simp: paired_device_listed [OF s1(4)] shape_id split: if_splits\<close>)
  with s'(1) show ?thesis by blast
qed

interpretation gwmd_wizard: qr_vendor gwmd_vendor
proof unfold_locales
  fix s :: stub and host acc qs ch env
  assume "sb_vendor s = gwmd_vendor" "points_at host acc" "qs = [] \<or> hd qs = list_request gwmd_vendor ch acc host"
  with gwmd_listing show "\<exists>f. pa_list (stub_prov gwmd_vendor (stub_channel host env qs s ch)) = Some f
      \<and> f acc = Inr (listed gwmd_vendor ch s)"
    by (simp add: gwmd_entry_def gwmd_provisioning_def)
next
  fix s :: stub and host acc name env ch
  assume "sb_vendor s = gwmd_vendor" "stub_ok s" "points_at host acc" "wizard_name gwmd_vendor name"
  from gwmd_starts [OF this] show "\<exists>f r. pa_qr (stub_prov gwmd_vendor (stub_channel host env
      (start_requests gwmd_vendor ch acc host name) s ch)) = Some f \<and> f acc name = Inr r"
    by (simp add: gwmd_entry_def gwmd_provisioning_def)
next
  fix s s' :: stub and name number ch host env acc
  assume "sb_vendor s = gwmd_vendor" "stub_ok s" "wizard_name gwmd_vendor name"
    "vendor_id gwmd_vendor name number \<notin> pv_externalId ` set (listed gwmd_vendor ch s)"
    "s' = after_requests host env (start_requests gwmd_vendor ch acc host name @ [scan_request gwmd_vendor host name number]) s"
  then show "sb_vendor s' = gwmd_vendor \<and> one_newcomer (listed gwmd_vendor ch s) (listed gwmd_vendor ch s') (newcomer gwmd_vendor name number)"
    by (intro gwmd_scans) simp_all
qed (simp_all add: gwmd_entry_def gwmd_provisioning_def)


section \<open>A concrete wizard with a stand-in\<close>

definition stub_host :: ustring where
  "stub_host = lit ''gwmd:3000''"

definition gwmd_row :: account_row where
  "gwmd_row = signal_account\<lparr>ac_config := JObj [(lit ''baseUrl'', JStr (lit ''http://'' @ stub_host))]\<rparr>"

definition gwmd_dto :: provision_qr_dto where
  "gwmd_dto = \<lparr>pq_kind = kind_whatsapp, pq_label = lit ''l'', pq_deviceName = None, pq_phoneE164 = Some (lit ''1'')\<rparr>"

definition plain_sv :: stub_env where
  "plain_sv = \<lparr>sv_now = 5, sv_iso = (\<lambda>t. []), sv_random = [], sv_fmt = (\<lambda>r. []), sv_page = (\<lambda>n. [])\<rparr>"

definition gwmd_requests :: "http_request list" where
  "gwmd_requests = start_requests gwmd_vendor (plain_channel (\<lambda>q. Inl [])) (account_config_of gwmd_row) stub_host (lit ''1'')"

definition stub_prov_env :: "http_request list \<Rightarrow> stub \<Rightarrow> provision_env" where
  "stub_prov_env qs s = \<lparr>pr_adapters = (\<lambda>n. Some (stub_prov gwmd_vendor (stub_channel stub_host plain_sv qs s (plain_channel (\<lambda>q. Inl []))))),
     pr_now = 1, pr_iso = (\<lambda>t. [1]), pr_parse = (\<lambda>t. Some 1), pr_fmt = (\<lambda>r. [])\<rparr>"

definition scanned_stub :: stub where
  "scanned_stub = after_requests stub_host plain_sv (gwmd_requests @ [scan_request gwmd_vendor stub_host (lit ''1'') (lit ''1'')])
     (fresh_stub gwmd_vendor)"

definition gwmd_db :: db where
  "gwmd_db = (signal_state [])\<lparr>accounts := [gwmd_row]\<rparr>"


section \<open>Sending through a stand-in\<close>

definition one_fetch :: "ustring \<Rightarrow> stub_env \<Rightarrow> stub \<Rightarrow> channel_env \<Rightarrow> channel_env" where
  "one_fetch host sv s ch = stub_channel host sv [] s ch"

lemma signal_send_answer:
  assumes "sb_vendor s = signal_vendor"
  shows "stub_fetch host env (json_request ''POST'' (at_path host (lit ''/v2/send'')) hs v) s
    = apfst Inr (signal_stub_send env (asked_of host (json_request ''POST'' (at_path host (lit ''/v2/send'')) hs v) [lit ''v2'', lit ''send''] []) [] s)"
proof -
  let ?q = "json_request ''POST'' (at_path host (lit ''/v2/send'')) hs v" and ?ws = "[lit ''v2'', lit ''send'']"
  have url: "hq_url ?q = lit ''http://'' @ host @ address_tail ?ws []" by (simp add: json_request_def at_path_def address_tail_def lit_def)
  have route: "find_route (buildApp (sb_vendor s)) (hq_method ?q) ?ws = Some (signal_stub_send, [])"
    using assms by (simp add: json_request_def route_simps)
  show ?thesis by (intro fetch_route [OF url _ _ _ route]) (simp_all add: route_simps)
qed

lemma signal_takes:
  assumes "sb_vendor s = signal_vendor" and "points_at host acc" and "endpointNumber ep = Inr number" and "signal_recipients o' \<noteq> []"
    and "0 < sv_now env" and "ch_fmt ch (of_int (sv_now env)) = int_text (sv_now env)"
  shows "\<exists>r. signal_send (one_fetch host env s ch) o' ep acc = Answered r \<and> re_accepted r \<and> re_externalId r = Some (int_text (sv_now env))"
proof -
  obtain p ps where ps: "signal_recipients o' = p # ps" using assms(4) by (cases "signal_recipients o'") auto
  let ?q = "json_request ''POST'' (at_path host (lit ''/v2/send'')) json_type (signal_body o' number)"
  have "body_member (asked_of host ?q [lit ''v2'', lit ''send''] []) ''recipients'' = Some (JArr (JStr p # map JStr ps))"
    by (simp add: body_member_def mem_def asked_of_def json_request_def signal_body_def ps string_simps)
  then have "ch_fetch (one_fetch host env s ch) ?q = Inr (res_json env 200 (JObj [(lit ''results'', JObj [(p,
      JObj [(lit ''timestamp'', JNum (of_int (sv_now env))), (lit ''externalId'', JStr (int_text (sv_now env)))])])]))"
    by (simp add: one_fetch_def stub_channel_fetch signal_send_answer [OF assms(1)] signal_stub_send_def Let_def own_first del: own.simps(2))
  moreover have "signal_baseUrl (one_fetch host env s ch) acc = Inr (lit ''http://'' @ host)"
    using points_at_base [OF assms(2)] by (simp add: signal_baseUrl_def one_fetch_def)
  ultimately show ?thesis using assms(3,5,6) ps
    by (simp add: signal_send_def at_path_def json_or_def Let_def mem_def holds_def signal_timestamp_def taken_def js_String_def one_fetch_def string_simps)
qed

lemma unoapi_takes:
  assumes "sb_vendor s = unoapi_vendor" and "points_at host acc" and "endpointPhone ep = Inr phone" and "phone \<noteq> []" "\<forall>c\<in>set phone. is_digit c"
    and "unoapi_apiKey ch acc = Inr key"
  shows "\<exists>r. unoapi_send (one_fetch host env s ch) o' ep acc = Answered r \<and> re_accepted r
    \<and> re_externalId r = Some (lit ''wa-msg-'' @ int_text (sv_now env))"
proof -
  let ?q = "json_request ''POST'' (at_path host (lit ''/v15.0/'' @ phone @ lit ''/messages'')) (json_type @ [(''authorization'', key)]) (buildCloudApiPayload o')"
  let ?ws = "[lit ''v15.0'', phone, lit ''messages'']"
  have small: "code_points phone" using assms(5) by (fastforce simp: code_points_def list_all_iff is_digit_def)
  have "phone \<noteq> lit ''.''" "phone \<noteq> lit ''..''" using assms(5) by (auto simp: lit_def is_digit_def)
  then have "plain_part phone" using encoded_plain [OF encode_digits [OF assms(5)] small] by blast
  moreover have "decodeURIComponent phone = Some phone" using decode_encode [OF encode_digits [OF assms(5)] small] .
  moreover have url: "hq_url ?q = lit ''http://'' @ host @ address_tail ?ws []" by (simp add: json_request_def at_path_def address_tail_def lit_def)
  moreover have route: "find_route (buildApp (sb_vendor s)) (hq_method ?q) ?ws = Some (unoapi_messages, [phone])"
    using assms(1,4) by (simp add: json_request_def route_simps)
  ultimately have "stub_fetch host env ?q s = apfst Inr (unoapi_messages env (asked_of host ?q ?ws []) [phone] s)"
    by (intro fetch_route [OF url _ _ _ route]) (simp_all add: plain_literals [simplified])
  then have "ch_fetch (one_fetch host env s ch) ?q = Inr (res_json env 200 (JObj [(lit ''messages'', JArr [JObj [(lit ''id'',
      JStr (lit ''wa-msg-'' @ int_text (sv_now env)))]])]))"
    by (simp add: one_fetch_def stub_channel_fetch unoapi_messages_def Let_def)
  moreover have "unoapi_baseUrl (one_fetch host env s ch) acc = Inr (lit ''http://'' @ host)"
    using points_at_base [OF assms(2)] by (simp add: unoapi_baseUrl_def one_fetch_def)
  moreover have "unoapi_apiKey (one_fetch host env s ch) acc = Inr key"
    using assms(6) by (simp add: unoapi_apiKey_def config_text_def one_fetch_def)
  ultimately show ?thesis using assms(3)
    by (simp add: unoapi_send_def unoapi_answer_def at_path_def json_or_def Let_def mem_def taken_def own_first del: own.simps(2))
      (simp add: js_String_def string_simps)
qed

lemma gwmd_takes:
  assumes "sb_vendor s = gwmd_vendor" and "points_at host acc" and "deviceIdOf ep = Inr i" and "encodeURIComponent i = Some n"
  shows "\<exists>r. gwmd_send (one_fetch host env s ch) o' ep acc = Answered r \<and> re_accepted r
    \<and> re_externalId r = Some (lit ''gwmd-msg-'' @ int_text (sv_now env))"
proof -
  let ?ch = "one_fetch host env s ch" and ?ws = "[lit ''app'', lit ''send'', gwmd_route o']"
  let ?q = "gwmd_request ?ch o' acc (lit ''http://'' @ host) n"
  have kinds: "gwmd_route o' \<in> lit ` {''message'', ''image'', ''video'', ''audio'', ''file''}" by (simp add: gwmd_route_def Let_def)
  have post: "hq_method ?q = ''POST''" and tail: "hq_url ?q = lit ''http://'' @ host @ address_tail ?ws []"
    by (simp_all add: gwmd_request_def Let_def address_tail_def lit_def split: list.split)
  have n: "n \<noteq> []" using assms(3,4) by (cases i) (auto simp: deviceIdOf_def percent_def utf8_def split: if_splits option.splits)
  have header: "map_of (hq_headers ?q) ''x-device-id'' = Some n"
    by (simp add: gwmd_request_def Let_def authHeaders_def auth_only_def json_type_def split: list.split option.split)
  have route: "find_route (buildApp (sb_vendor s)) (hq_method ?q) ?ws = Some (gwmd_stub_send, [gwmd_route o'])"
    unfolding post using assms(1) kinds by (auto simp: route_simps)
  have "plain_part (gwmd_route o')" "decodeURIComponent (gwmd_route o') = Some (gwmd_route o')"
    using kinds by (auto simp: plain_part_def single_dot_def double_dot_def lower_cp_def lit_def)
  then have "stub_fetch host env ?q s = apfst Inr (gwmd_stub_send env (asked_of host ?q ?ws []) [gwmd_route o'] s)"
    by (intro fetch_route [OF tail _ _ _ route]) (simp_all add: plain_literals [simplified])
  then have "ch_fetch ?ch ?q = Inr (res_json env 200 (gwmd_ok [(lit ''results'', JObj [(lit ''message_id'',
      JStr (lit ''gwmd-msg-'' @ int_text (sv_now env)))])]))"
    using n header by (simp add: one_fetch_def stub_channel_fetch gwmd_stub_send_def asked_of_def Let_def)
  moreover have "gwmd_baseUrl ?ch acc = Inr (lit ''http://'' @ host)"
    using points_at_base [OF assms(2)] by (simp add: gwmd_baseUrl_def one_fetch_def)
  ultimately show ?thesis using assms(3,4)
    by (simp add: gwmd_send_def json_or_def Let_def gwmd_message_id_def gwmd_ok_def mem_def taken_def string_simps) (simp add: js_String_def)
qed

text \<open>The SMS server's stand-in has the routes of another interface than the adapter uses.\<close>

lemma sms_refused:
  assumes "sb_vendor s = dbsms" and "points_at host acc" and "goip_auth ch acc = Inr login"
    and "filter is_digit (recipient_of o') \<noteq> []" and "outbound_text o' \<noteq> []"
  shows "\<exists>m raw. goip_send (one_fetch host env s ch) o' ep acc = Answered (refused (lit ''HTTP_404'') m False raw)"
proof -
  let ?ch = "one_fetch host env s ch" and ?ws = "[lit ''goip'', lit ''sendsms'', []]"
  have missed: "ch_fetch ?ch (json_request ''POST'' (at_path host (lit ''/goip/sendsms/'')) json_type v) = Inr (res_page env 404)" for v
  proof -
    let ?q = "json_request ''POST'' (at_path host (lit ''/goip/sendsms/'')) json_type v" and ?rest = "lit ''goip/sendsms/''"
    have "lit ''/goip/sendsms/'' = 47 # ?rest" by (simp add: lit_def)
    then have "\<exists>r. stub_receives host ?q = Some r \<and> sq_path r = served_path ?rest \<and> sq_method r = ''POST''"
      using stub_receives_path [of host "''POST''" ?rest json_type "JsonBody v"] by (simp add: json_request_def at_path_def)
    moreover have "served_path ?rest = ?ws"
      by (simp add: served_path_def url_clean_def path_text_def single_dot_def double_dot_def lower_cp_def lit_def)
    moreover have "find_route (buildApp (sb_vendor s)) ''POST'' ?ws = None" using assms(1) by (simp add: route_simps)
    ultimately show ?thesis by (auto simp: one_fetch_def stub_channel_fetch stub_fetch_def stub_serve_def)
  qed
  obtain u p where "goip_auth ?ch acc = Inr (u, p)"
    using assms(3) by (cases login) (auto simp: goip_auth_def config_text_def one_fetch_def)
  moreover have "goip_baseUrl ?ch acc = Inr (lit ''http://'' @ host)"
    using points_at_base [OF assms(2)] by (simp add: goip_baseUrl_def one_fetch_def)
  ultimately have "goip_call ?ch acc ''sendsms'' body = Inr (404, JNull)" for body
    using missed by (simp add: goip_call_def at_path_def json_or_def res_page_def res_send_def lit_def)
  moreover have "http_code 404 = lit ''HTTP_404''" by (simp add: http_code_def dec_str.simps lit_def)
  ultimately show ?thesis using assms(4,5) by (auto simp: goip_send_def Let_def response_ok_def)
qed

fun stub_sender :: "vendor \<Rightarrow> channel_env \<Rightarrow> outbound_message \<Rightarrow> endpoint_config \<Rightarrow> account_config \<Rightarrow> send_answer" where
  "stub_sender dbsms = ad_send goip_entry"
| "stub_sender unoapi_vendor = ad_send unoapi_entry"
| "stub_sender signal_vendor = ad_send signal_entry"
| "stub_sender gwmd_vendor = ad_send gwmd_entry"

text \<open>What the adapter needs before it asks the service: a sender, a recipient, and its keys.\<close>

fun can_send :: "vendor \<Rightarrow> channel_env \<Rightarrow> outbound_message \<Rightarrow> endpoint_config \<Rightarrow> account_config \<Rightarrow> bool" where
  "can_send dbsms ch o' ep acc \<longleftrightarrow> goip_auth ch acc \<in> range Inr \<and> filter is_digit (recipient_of o') \<noteq> [] \<and> outbound_text o' \<noteq> []"
| "can_send unoapi_vendor ch o' ep acc \<longleftrightarrow> unoapi_apiKey ch acc \<in> range Inr
     \<and> (case endpointPhone ep of Inl e \<Rightarrow> False | Inr phone \<Rightarrow> phone \<noteq> [] \<and> (\<forall>c\<in>set phone. is_digit c))"
| "can_send signal_vendor ch o' ep acc \<longleftrightarrow> endpointNumber ep \<in> range Inr \<and> signal_recipients o' \<noteq> []"
| "can_send gwmd_vendor ch o' ep acc \<longleftrightarrow> (case deviceIdOf ep of Inl e \<Rightarrow> False | Inr i \<Rightarrow> encodeURIComponent i \<noteq> None)"


definition sms_login_config :: account_config where
  "sms_login_config = \<lparr>cc_id = [], cc_adapter = lit ''goip-vendor'', cc_config = JObj [(lit ''baseUrl'', JStr (lit ''http://'' @ stub_host)),
     (lit ''username'', JStr (lit ''u'')), (lit ''password'', JStr (lit ''p''))]\<rparr>"

definition short_text :: outbound_message where
  "short_text = \<lparr>om_messageId = [], om_idempotencyKey = [], om_to = [\<lparr>ca_raw = lit ''1'', ca_e164 = None, ca_display = None\<rparr>], om_type = text_t,
     om_text = Some (lit ''hi''), om_media = None, om_attachments = None, om_reaction = None, om_replyTo = None, om_meta = []\<rparr>"


section \<open>Numbers that repeat\<close>

text \<open>A scan without a number, and the adapter's request to drop one.\<close>

definition signal_bare_scan :: "ustring \<Rightarrow> ustring \<Rightarrow> http_request" where
  "signal_bare_scan host name = json_request ''POST'' (at_path host (lit ''/v1/_stub/link'')) json_type (JObj [(lit ''device_name'', JStr name)])"

lemma signal_bare_scan_answer:
  assumes "sb_vendor s = signal_vendor" and "js_trim name = name" "name \<noteq> []"
  shows "\<exists>a u. stub_fetch host env (signal_bare_scan host name) s = (Inr a, s\<lparr>sb_accounts := AList.update name
      \<lparr>sa_number = lit ''+1'' @ dec_str (1000000000 + length (sb_accounts s) + 1), sa_device = name, sa_uuid = u\<rparr> (sb_accounts s)\<rparr>)"
proof -
  let ?ws = "[lit ''v1'', lit ''_stub'', lit ''link'']" and ?q = "signal_bare_scan host name"
  have url: "hq_url ?q = lit ''http://'' @ host @ address_tail ?ws []"
    by (simp add: signal_bare_scan_def json_request_def at_path_def address_tail_def lit_def)
  have route: "find_route (buildApp (sb_vendor s)) (hq_method ?q) ?ws = Some (signal_link, [])"
    using assms by (simp add: signal_bare_scan_def json_request_def route_simps)
  have f: "stub_fetch host env ?q s = apfst Inr (signal_link env (asked_of host ?q ?ws []) [] s)"
    by (intro fetch_route [OF url _ _ _ route]) (simp_all add: route_simps)
  have "body_member (asked_of host ?q ?ws []) ''device_name'' = Some (JStr name)" "body_member (asked_of host ?q ?ws []) ''number'' = None"
    by (simp_all add: body_member_def mem_def asked_of_def signal_bare_scan_def json_request_def string_simps)
  with assms(2,3) show ?thesis
    by (intro exI) (simp add: f signal_link_def Let_def text_or_empty_def js_String_def apfst_def map_prod_def)
qed

text \<open>
  The number that the Signal stand-in makes up depends on the number of devices only: when
  the first of two devices has been dropped, the next device gets the number of the second,
  so the list of numbers has no new one, and a wizard that waits for it sees no scan.
\<close>

lemma stub_number_repeats:
  assumes "sb_vendor s = signal_vendor" and "sb_accounts s = [(k1, a1), (k2, a2)]" and "k1 \<noteq> k2"
    and "sa_number a2 = lit ''+1'' @ dec_str 1000000002" and "js_trim name = name" "name \<noteq> []" "name \<noteq> k2"
  shows "pv_externalId ` set (listed signal_vendor ch (snd (stub_fetch host env (signal_bare_scan host name)
      (s\<lparr>sb_accounts := AList.delete k1 (sb_accounts s)\<rparr>)))) = {sa_number a2}"
proof -
  have left: "sb_accounts (s\<lparr>sb_accounts := AList.delete k1 (sb_accounts s)\<rparr>) = [(k2, a2)]" using assms(2,3) by simp
  from signal_bare_scan_answer [of "s\<lparr>sb_accounts := AList.delete k1 (sb_accounts s)\<rparr>" name host env] assms(1,5,6)
  obtain a u where "stub_fetch host env (signal_bare_scan host name) (s\<lparr>sb_accounts := AList.delete k1 (sb_accounts s)\<rparr>)
    = (Inr a, s\<lparr>sb_accounts := AList.update name \<lparr>sa_number = lit ''+1'' @ dec_str 1000000002, sa_device = name, sa_uuid = u\<rparr> [(k2, a2)]\<rparr>)"
    unfolding left by auto
  then show ?thesis using assms(4,7) by simp
qed

end
