(* ===== verification/Display.thy ===== *)
theory Display
  imports Panel
begin

text \<open>
  What the panel writes for what is stored (apps/web/src: lib/format.ts, the labels of
  components/ui.tsx, the rows of pages/Messages.tsx and pages/Logs.tsx) and the page of the
  API tokens (pages/ApiTokens.tsx) as a state machine over the API's routes. How a date is
  written is an argument. The lemmas say which rows are told apart, that a failure alone is
  red, that a token is shown until its window is closed and never again, and that the page
  says it was copied only when it was.
\<close>

section \<open>Texts\<close>

definition DASH :: ustring where
  "DASH = [8212]"

definition formatDate :: "(int \<Rightarrow> ustring) \<Rightarrow> int option \<Rightarrow> ustring" where
  "formatDate date_text t = (case t of None \<Rightarrow> DASH | Some ms \<Rightarrow> date_text ms)"

definition shortId :: "ustring option \<Rightarrow> ustring" where
  "shortId i = (case i of None \<Rightarrow> DASH | Some s \<Rightarrow> if s = [] then DASH else take 8 s)"

text \<open>\<open>??\<close> of a possibly undefined value.\<close>

fun defined :: "json option \<Rightarrow> json option" where
  "defined (Some JNull) = None"
| "defined v = v"

definition nullish :: "json option \<Rightarrow> json option \<Rightarrow> json option" where
  "nullish a b = (case defined a of Some v \<Rightarrow> Some v | None \<Rightarrow> b)"

definition member :: "json option \<Rightarrow> string \<Rightarrow> json option" where
  "member v k = (case v of Some j \<Rightarrow> own j (lit k) | None \<Rightarrow> None)"

text \<open>
  The text of a failed request from the body of its answer: \<open>element_text\<close> is how an element of
  a list of messages is written.
\<close>

definition apiError :: "(json \<Rightarrow> ustring) \<Rightarrow> json option \<Rightarrow> ustring \<Rightarrow> ustring" where
  "apiError element_text data fallback =
     (case nullish (member data ''message'') (member (member data ''error'') ''message'') of
        Some (JArr xs) \<Rightarrow> join_with (lit '', '') (map element_text xs)
      | Some (JStr s) \<Rightarrow> s
      | _ \<Rightarrow> fallback)"

definition prettyJson :: "(rat \<Rightarrow> ustring) \<Rightarrow> json option \<Rightarrow> ustring" where
  "prettyJson fmt v = (case defined v of None \<Rightarrow> DASH | Some j \<Rightarrow> pretty fmt j 0)"

section \<open>Labels\<close>

text \<open>The statuses that the panel does not know have no label and no colour.\<close>

fun MESSAGE_STATUS_LABEL :: "message_status \<Rightarrow> ustring option" where
  "MESSAGE_STATUS_LABEL created = Some [1089, 1090, 1074, 1086, 1088, 1077, 1085, 1086]"
| "MESSAGE_STATUS_LABEL scheduled = Some [1079, 1072, 1087, 1083, 1072, 1085, 1086, 1074, 1072, 1085, 1086]"
| "MESSAGE_STATUS_LABEL queued = Some [1074, 32, 1095, 1077, 1088, 1079, 1110]"
| "MESSAGE_STATUS_LABEL dispatching = Some [1074, 1110, 1076, 1087, 1088, 1072, 1074, 1083, 1103, 1108, 1090, 1100, 1089, 1103]"
| "MESSAGE_STATUS_LABEL accepted = Some [1087, 1088, 1080, 1081, 1085, 1103, 1090, 1086]"
| "MESSAGE_STATUS_LABEL sent = Some [1085, 1072, 1076, 1110, 1089, 1083, 1072, 1085, 1086]"
| "MESSAGE_STATUS_LABEL delivered = Some [1076, 1086, 1089, 1090, 1072, 1074, 1083, 1077, 1085, 1086]"
| "MESSAGE_STATUS_LABEL read = Some [1087, 1088, 1086, 1095, 1080, 1090, 1072, 1085, 1086]"
| "MESSAGE_STATUS_LABEL failed = Some [1087, 1086, 1084, 1080, 1083, 1082, 1072]"
| "MESSAGE_STATUS_LABEL cancelled = Some [1089, 1082, 1072, 1089, 1086, 1074, 1072, 1085, 1086]"
| "MESSAGE_STATUS_LABEL expired = Some [1087, 1088, 1086, 1089, 1090, 1088, 1086, 1095, 1077, 1085, 1086]"
| "MESSAGE_STATUS_LABEL unknown = Some [1085, 1077, 1074, 1110, 1076, 1086, 1084, 1086]"
| "MESSAGE_STATUS_LABEL _ = None"

fun MESSAGE_STATUS_COLOR :: "message_status \<Rightarrow> ustring option" where
  "MESSAGE_STATUS_COLOR created = Some (lit ''bg-slate-100 text-slate-600'')"
| "MESSAGE_STATUS_COLOR scheduled = Some (lit ''bg-indigo-100 text-indigo-700'')"
| "MESSAGE_STATUS_COLOR queued = Some (lit ''bg-amber-100 text-amber-700'')"
| "MESSAGE_STATUS_COLOR dispatching = Some (lit ''bg-amber-100 text-amber-700'')"
| "MESSAGE_STATUS_COLOR accepted = Some (lit ''bg-blue-100 text-blue-700'')"
| "MESSAGE_STATUS_COLOR sent = Some (lit ''bg-blue-100 text-blue-700'')"
| "MESSAGE_STATUS_COLOR delivered = Some (lit ''bg-green-100 text-green-700'')"
| "MESSAGE_STATUS_COLOR read = Some (lit ''bg-green-100 text-green-700'')"
| "MESSAGE_STATUS_COLOR failed = Some (lit ''bg-red-100 text-red-700'')"
| "MESSAGE_STATUS_COLOR cancelled = Some (lit ''bg-slate-100 text-slate-500'')"
| "MESSAGE_STATUS_COLOR expired = Some (lit ''bg-slate-100 text-slate-500'')"
| "MESSAGE_STATUS_COLOR unknown = Some (lit ''bg-slate-100 text-slate-500'')"
| "MESSAGE_STATUS_COLOR _ = None"

fun DELIVERY_STATUS_LABEL :: "delivery_status \<Rightarrow> ustring" where
  "DELIVERY_STATUS_LABEL d_pending = [1086, 1095, 1110, 1082, 1091, 1108]"
| "DELIVERY_STATUS_LABEL d_delivering = [1076, 1086, 1089, 1090, 1072, 1074, 1083, 1103, 1108, 1090, 1100, 1089, 1103]"
| "DELIVERY_STATUS_LABEL d_delivered = [1076, 1086, 1089, 1090, 1072, 1074, 1083, 1077, 1085, 1086]"
| "DELIVERY_STATUS_LABEL d_failed = [1087, 1086, 1084, 1080, 1083, 1082, 1072]"
| "DELIVERY_STATUS_LABEL d_dlq = [68, 76, 81]"

fun CHANNEL_LABEL :: "channel_type \<Rightarrow> ustring" where
  "CHANNEL_LABEL sms = [83, 77, 83]"
| "CHANNEL_LABEL whatsapp = [87, 104, 97, 116, 115, 65, 112, 112]"
| "CHANNEL_LABEL signal = [83, 105, 103, 110, 97, 108]"
| "CHANNEL_LABEL mock = [1058, 1077, 1089, 1090, 1086, 1074, 1080, 1081, 32, 40, 109, 111, 99, 107, 41]"

fun DIRECTION_LABEL :: "message_direction \<Rightarrow> ustring" where
  "DIRECTION_LABEL inbound = [1074, 1093, 1110, 1076, 1085, 1077]"
| "DIRECTION_LABEL outbound = [1074, 1080, 1093, 1110, 1076, 1085, 1077]"

definition SEVERITY_LABEL :: "ustring \<Rightarrow> ustring option" where
  "SEVERITY_LABEL = map_of
     [(lit ''info'', [1110, 1085, 1092, 1086]),
      (lit ''warning'', [1087, 1086, 1087, 1077, 1088, 1077, 1076, 1078, 1077, 1085, 1085, 1103]),
      (lit ''critical'', [1082, 1088, 1080, 1090, 1080, 1095, 1085, 1086])]"

fun DELIVERY_STATUS_COLOR :: "delivery_status \<Rightarrow> ustring" where
  "DELIVERY_STATUS_COLOR d_pending = lit ''bg-amber-100 text-amber-700''"
| "DELIVERY_STATUS_COLOR d_delivering = lit ''bg-blue-100 text-blue-700''"
| "DELIVERY_STATUS_COLOR d_delivered = lit ''bg-green-100 text-green-700''"
| "DELIVERY_STATUS_COLOR d_failed = lit ''bg-red-100 text-red-700''"
| "DELIVERY_STATUS_COLOR d_dlq = lit ''bg-purple-100 text-purple-700''"

fun DIRECTION_COLOR :: "message_direction \<Rightarrow> ustring" where
  "DIRECTION_COLOR inbound = lit ''bg-slate-100 text-slate-600''"
| "DIRECTION_COLOR outbound = lit ''bg-blue-100 text-blue-700''"

definition SEVERITY_COLOR :: "ustring \<Rightarrow> ustring option" where
  "SEVERITY_COLOR = map_of
     [(lit ''info'', lit ''bg-blue-100 text-blue-700''), (lit ''warning'', lit ''bg-amber-100 text-amber-700''),
      (lit ''critical'', lit ''bg-red-100 text-red-700'')]"

lemma status_labels_distinct:
  "MESSAGE_STATUS_LABEL a = MESSAGE_STATUS_LABEL b \<Longrightarrow> MESSAGE_STATUS_LABEL a \<noteq> None \<Longrightarrow> a = b"
  by (cases a; cases b) simp_all

lemma delivery_labels_distinct: "inj DELIVERY_STATUS_LABEL"
proof (rule injI)
  fix a b assume "DELIVERY_STATUS_LABEL a = DELIVERY_STATUS_LABEL b"
  then show "a = b" by (cases a; cases b) simp_all
qed

lemma only_failed_is_red: "MESSAGE_STATUS_COLOR s = Some (lit ''bg-red-100 text-red-700'') \<longleftrightarrow> s = failed"
  by (cases s) simp_all

text \<open>A status that a delivery report sets, and every status of the filter, has a label.\<close>

lemma reported_status_labelled: "MESSAGE_STATUS_LABEL (status_of s) \<noteq> None"
  by (cases s) simp_all

section \<open>The rows of the messages\<close>

record message_line =
  ml_id :: ustring
  ml_externalId :: ustring
  ml_channel :: ustring
  ml_direction :: ustring
  ml_to :: ustring
  ml_type :: ustring
  ml_status :: "ustring option"
  ml_attempts :: nat
  ml_created :: ustring
  ml_retry :: bool
  ml_cancel :: bool

definition message_line_of ::
  "(int \<Rightarrow> ustring) \<Rightarrow> message_row \<times> attempt_row list \<times> history_row list \<Rightarrow> message_line" where
  "message_line_of date_text entry =
     (let (m, tries, trail) = entry
      in \<lparr>ml_id = shortId (Some (ms_id m)),
          ml_externalId = (case ms_externalId m of Some x \<Rightarrow> x | None \<Rightarrow> DASH),
          ml_channel = CHANNEL_LABEL (ms_channelType m),
          ml_direction = DIRECTION_LABEL (ms_direction m),
          ml_to = (case as_string (nullish (own (ms_to m) (lit ''e164'')) (defined (own (ms_to m) (lit ''raw'')))) of
                     Some s \<Rightarrow> s | None \<Rightarrow> DASH),
          ml_type = type_name (ms_messageType m),
          ml_status = MESSAGE_STATUS_LABEL (ms_status m),
          ml_attempts = length tries,
          ml_created = formatDate date_text (Some (ms_createdAt m)),
          ml_retry = offers_retry m,
          ml_cancel = offers_cancel m\<rparr>)"

definition message_text :: "message_row \<Rightarrow> ustring" where
  "message_text m = (case as_string (own (ms_content m) (lit ''text'')) of
     Some s \<Rightarrow> if s \<noteq> [] then s else DASH | None \<Rightarrow> DASH)"

text \<open>The row that is open, and whether its JSON is shown: another row opens without it.\<close>

definition expand :: "ustring \<Rightarrow> ustring option \<times> bool \<Rightarrow> ustring option \<times> bool" where
  "expand i st = (if fst st = Some i then None else Some i, False)"

definition toggle_raw :: "ustring option \<times> bool \<Rightarrow> ustring option \<times> bool" where
  "toggle_raw st = (fst st, \<not> snd st)"

text \<open>The results of attempts as the send processor stores them, and their colour on the page.\<close>

fun attempt_text :: "attempt_result \<Rightarrow> ustring" where
  "attempt_text at_pending = lit ''pending''"
| "attempt_text at_sent = lit ''sent''"
| "attempt_text at_permanent_error = lit ''permanent_error''"
| "attempt_text at_retryable_error = lit ''retryable_error''"
| "attempt_text at_final_error = lit ''final_error''"

definition attempt_color :: "attempt_row \<Rightarrow> ustring" where
  "attempt_color a = (if attempt_text (at_result a) = lit ''success'' then lit ''bg-green-100 text-green-700''
     else lit ''bg-red-100 text-red-700'')"

text \<open>The page waits for a result that nobody stores: a successful attempt is red like a failed one.\<close>

lemma every_attempt_red: "attempt_color a = lit ''bg-red-100 text-red-700''"
  by (cases "at_result a") (simp_all add: attempt_color_def)

text \<open>A message is offered to be sent again or to be cancelled, never both, and a delivered one neither.\<close>

lemma line_offers:
  "\<not> (ml_retry (message_line_of f (m, tries, trail)) \<and> ml_cancel (message_line_of f (m, tries, trail)))"
  by (auto simp: message_line_of_def offers_retry_def offers_cancel_def)

text \<open>An outbound message shows the number it was sent to as the request wrote it.\<close>

lemma line_shows_recipient:
  "ml_to (message_line_of f (outbound_row env dto i cid sched, tries, trail)) = sd_to dto"
  by (simp add: message_line_of_def outbound_row_def nullish_def lit_def)

section \<open>The rows of events and alerts\<close>

record event_line =
  el_type :: ustring
  el_channel :: ustring
  el_aggregate :: ustring
  el_created :: ustring

definition event_line_of :: "(int \<Rightarrow> ustring) \<Rightarrow> event_row \<Rightarrow> event_line" where
  "event_line_of date_text ev =
     \<lparr>el_type = ev_eventType ev,
      el_channel = (case ev_channelType ev of Some c \<Rightarrow> CHANNEL_LABEL c | None \<Rightarrow> DASH),
      el_aggregate = shortId (ev_aggregateId ev),
      el_created = formatDate date_text (Some (ev_createdAt ev))\<rparr>"

text \<open>A severity that the panel does not know is written as it is, in grey.\<close>

definition severity_badge :: "ustring \<Rightarrow> ustring \<times> ustring" where
  "severity_badge s =
     (case SEVERITY_COLOR s of Some c \<Rightarrow> c | None \<Rightarrow> lit ''bg-slate-100 text-slate-600'',
      case SEVERITY_LABEL s of Some l \<Rightarrow> l | None \<Rightarrow> s)"

lemma known_severities: "SEVERITY_COLOR s \<noteq> None \<longleftrightarrow> SEVERITY_LABEL s \<noteq> None"
  by (simp add: SEVERITY_COLOR_def SEVERITY_LABEL_def)

text \<open>The panel keeps its own copy of the types of events; it is the list that the API checks rules with.\<close>

definition panel_EVENT_TYPES :: "ustring list" where
  "panel_EVENT_TYPES = map lit
     [''message.received'', ''message.assembled'', ''message.queued'', ''message.accepted'', ''message.sent'',
      ''message.delivered'', ''message.read'', ''message.failed'', ''message.status.unknown'', ''channel.connected'',
      ''channel.disconnected'', ''channel.degraded'', ''endpoint.enabled'', ''endpoint.disabled'', ''sim.balance.updated'',
      ''sim.balance.low'', ''sim.balance.recovered'', ''sim.ussd.failed'', ''webhook.delivery.failed'', ''webhook.dead_lettered'',
      ''queue.backlog'', ''storage.low'', ''system.component.unhealthy'', ''system.component.recovered'', ''media.deleted'']"

lemma panel_knows_event_types: "panel_EVENT_TYPES = EVENT_TYPES"
  by (simp add: panel_EVENT_TYPES_def EVENT_TYPES_def)

section \<open>The page of the API tokens\<close>

text \<open>
  The state of the page, with the clipboard beside it. \<open>tp_shown\<close> is the token whose window is
  open; \<open>tp_copied\<close> is what the button of that window says; \<open>tp_error\<close> is whether an error is shown.
\<close>

record tokens_page =
  tp_name :: ustring
  tp_shown :: "ustring option"
  tp_revoking :: "token_view option"
  tp_error :: bool
  tp_copied :: bool
  tp_clipboard :: "ustring option"

definition tokens_opened :: "ustring option \<Rightarrow> tokens_page" where
  "tokens_opened clipboard =
     \<lparr>tp_name = [], tp_shown = None, tp_revoking = None, tp_error = False, tp_copied = False, tp_clipboard = clipboard\<rparr>"

text \<open>
  What happens on the page: the name is typed, a token is asked for, the window is copied
  from (which the browser carries out or not) or closed, a revocation is asked for, called off
  or confirmed, and something else is copied meanwhile.
\<close>

datatype tokens_act =
    TypeName ustring
  | PressGenerate
  | CopyToken bool
  | CloseWindow
  | AskRevoke token_view
  | CallOff
  | ConfirmRevoke
  | CopyElsewhere ustring

definition generated :: "answer \<Rightarrow> tokens_page \<Rightarrow> tokens_page" where
  "generated ans page =
     (case ans of
        NewToken token \<Rightarrow> page\<lparr>tp_shown := Some token, tp_name := [], tp_copied := False\<rparr>
      | _ \<Rightarrow> page\<lparr>tp_error := True\<rparr>)"

definition revocation_answered :: "answer \<Rightarrow> tokens_page \<Rightarrow> tokens_page" where
  "revocation_answered ans page =
     (case ans of
        TokenRevoked True \<Rightarrow> page\<lparr>tp_revoking := None\<rparr>
      | _ \<Rightarrow> page\<lparr>tp_error := True\<rparr>)"

definition copyToken :: "bool \<Rightarrow> tokens_page \<Rightarrow> tokens_page" where
  "copyToken works page =
     (case tp_shown page of
        None \<Rightarrow> page
      | Some token \<Rightarrow>
          if works then page\<lparr>tp_clipboard := Some token, tp_copied := True\<rparr> else page\<lparr>tp_copied := False\<rparr>)"

definition revoke_press :: "token_view \<Rightarrow> route" where
  "revoke_press t = ToTokens (RevokeToken (tv_id t) None)"

fun tokens_step :: "api_env \<Rightarrow> request \<Rightarrow> tokens_act \<Rightarrow> tokens_page \<times> db \<Rightarrow> tokens_page \<times> db" where
  "tokens_step env req (TypeName s) (page, d) = (page\<lparr>tp_name := s\<rparr>, d)"
| "tokens_step env req PressGenerate (page, d) =
     (case api_call env req (generate_press (tp_name page)) d of
        (ans, d') \<Rightarrow> (generated ans (page\<lparr>tp_error := False\<rparr>), d'))"
| "tokens_step env req (CopyToken works) (page, d) = (copyToken works page, d)"
| "tokens_step env req CloseWindow (page, d) = (page\<lparr>tp_shown := None\<rparr>, d)"
| "tokens_step env req (AskRevoke t) (page, d) = (page\<lparr>tp_revoking := Some t\<rparr>, d)"
| "tokens_step env req CallOff (page, d) = (page\<lparr>tp_revoking := None\<rparr>, d)"
| "tokens_step env req ConfirmRevoke (page, d) =
     (case tp_revoking page of
        None \<Rightarrow> (page, d)
      | Some t \<Rightarrow> (case api_call env req (revoke_press t) d of (ans, d') \<Rightarrow> (revocation_answered ans page, d')))"
| "tokens_step env req (CopyElsewhere s) (page, d) = (page\<lparr>tp_clipboard := Some s\<rparr>, d)"

definition tokens_run :: "api_env \<Rightarrow> request \<Rightarrow> tokens_act list \<Rightarrow> tokens_page \<times> db \<Rightarrow> tokens_page \<times> db" where
  "tokens_run env req acts st = fold (tokens_step env req) acts st"

lemma generated_columns:
  "tp_shown (generated ans page) = (case ans of NewToken t \<Rightarrow> Some t | _ \<Rightarrow> tp_shown page)"
  "tp_copied (generated ans page) = (case ans of NewToken t \<Rightarrow> False | _ \<Rightarrow> tp_copied page)"
  "tp_clipboard (generated ans page) = tp_clipboard page"
  by (simp_all add: generated_def split: answer.split)

lemma revocation_columns:
  "tp_shown (revocation_answered ans page) = tp_shown page"
  "tp_copied (revocation_answered ans page) = tp_copied page"
  "tp_clipboard (revocation_answered ans page) = tp_clipboard page"
  by (simp_all add: revocation_answered_def split: answer.split bool.split)

text \<open>
  A closed window stays closed: whatever is done on the page but generating, no token is shown
  again, and the list of the API never holds one.
\<close>

lemma closed_token_not_shown_again:
  assumes "tp_shown page = None" and "PressGenerate \<notin> set acts"
  shows "tp_shown (fst (tokens_run env req acts (page, d))) = None"
  using assms
proof (induction acts arbitrary: page d)
  case (Cons act acts)
  obtain page' d' where s: "tokens_step env req act (page, d) = (page', d')" by fastforce
  have "tp_shown page' = None"
    using s Cons.prems by (cases act) (auto simp: copyToken_def revocation_columns split: option.splits prod.splits)
  with Cons s show ?case by (simp add: tokens_run_def)
qed (simp add: tokens_run_def)

text \<open>
  When the open window says that its token was copied, it was: the clipboard holds that
  token, unless something else was copied since.
\<close>

definition copied_truly :: "tokens_page \<Rightarrow> bool" where
  "copied_truly page \<longleftrightarrow> (tp_copied page \<longrightarrow> tp_shown page = None \<or> tp_clipboard page = tp_shown page)"

lemma copied_truly_generated: "copied_truly page \<Longrightarrow> copied_truly (generated ans (page\<lparr>tp_error := False\<rparr>))"
  by (cases ans) (simp_all add: copied_truly_def generated_def)

lemma copied_means_copied:
  assumes "copied_truly page" and "\<forall>s. CopyElsewhere s \<notin> set acts"
  shows "copied_truly (fst (tokens_run env req acts (page, d)))"
  using assms
proof (induction acts arbitrary: page d)
  case (Cons act acts)
  obtain page' d' where s: "tokens_step env req act (page, d) = (page', d')" by fastforce
  have "copied_truly page'"
  proof (cases act)
    case PressGenerate
    with s Cons.prems show ?thesis by (auto simp: copied_truly_generated split: prod.splits)
  qed (use s Cons.prems in \<open>auto simp: copied_truly_def copyToken_def revocation_columns split: option.splits prod.splits if_splits\<close>)
  with Cons s show ?case by (simp add: tokens_run_def)
qed (simp add: tokens_run_def)

text \<open>With a session, the window shows the token that was generated, and the API admits that token from then on.\<close>

lemma generated_token_live:
  "live_token env (fst (generate_route env random name a d)) (snd (generate_route env random name a d)) \<noteq> None"
  by (simp add: generate_route_def token_generate_def live_token_def audit_log_def fresh_id_def find_append split: option.split)

lemma shown_token_is_live:
  assumes "rq_user req = Some u" and "tokens_step env req PressGenerate (page, d) = (page', d')"
  shows "\<exists>t. tp_shown page' = Some t \<and> live_token (ap_access env) t d' \<noteq> None"
proof -
  let ?g = "generate_route (ap_access env) (ap_random env) (param (js_trim (tp_name page))) None d"
  have "api_call env req (generate_press (tp_name page)) d = (NewToken (fst ?g), snd ?g)"
    using assms(1) by (simp add: generate_press_def api_call_def sessionGuard_def map_prod_def case_prod_beta)
  with assms(2) have "tp_shown page' = Some (fst ?g)" "d' = snd ?g" by (auto simp: generated_columns)
  with generated_token_live show ?thesis by metis
qed

end
