(* ===== verification/Reference.thy ===== *)
theory Reference
  imports Panel
begin

text \<open>
  The API reference of the panel (apps/web/src/components/ApiReference.tsx): the operations of
  the server's OpenAPI document, searched, grouped by resource and shown with the command that
  calls them. How texts are compared (\<open>localeCompare\<close>) and put into lower case are arguments. The
  lemmas say that every operation that the search finds is listed exactly once, in the group
  of its resource, and that opening one leaves the others as they are.
\<close>

section \<open>The document\<close>

record parameter =
  pa_name :: ustring
  pa_in :: ustring
  pa_required :: bool
  pa_description :: ustring
  pa_type :: ustring

text \<open>An absent text is the empty one: the page tells them apart nowhere.\<close>

record operation =
  op_tags :: "ustring list option"
  op_summary :: ustring
  op_description :: ustring
  op_parameters :: "parameter list"
  op_requestBody :: "bool option"
  op_responses :: "(ustring \<times> ustring) list"

type_synonym api_paths = "(ustring \<times> (ustring \<times> operation) list) list"

definition HTTP_METHODS :: "ustring list" where
  "HTTP_METHODS = map lit [''get'', ''post'', ''put'', ''patch'', ''delete'']"

record api_endpoint =
  en_method :: ustring
  en_path :: ustring
  en_op :: operation
  en_tag :: ustring

section \<open>The list\<close>

text \<open>\<open>/^v\\d+$/\<close>.\<close>

fun version_segment :: "ustring \<Rightarrow> bool" where
  "version_segment (c # ds) = (c = 118 \<and> ds \<noteq> [] \<and> list_all is_digit ds)"
| "version_segment [] = False"

fun item :: "nat \<Rightarrow> 'a list \<Rightarrow> 'a option" where
  "item i [] = None"
| "item 0 (x # xs) = Some x"
| "item (Suc i) (x # xs) = item i xs"

definition OTHER :: ustring where
  "OTHER = [1110, 1085, 1096, 1077]"

definition resource_of :: "ustring \<Rightarrow> ustring option" where
  "resource_of path =
     (let segments = filter (\<lambda>s. s \<noteq> []) (split_on 47 path);
          second = (case item 1 segments of Some s \<Rightarrow> s | None \<Rightarrow> [])
      in if item 0 segments = Some (lit ''api'') \<and> version_segment second then item 2 segments else item 0 segments)"

definition tag_of :: "ustring \<Rightarrow> operation \<Rightarrow> ustring" where
  "tag_of path op =
     (case (case op_tags op of Some tags \<Rightarrow> item 0 tags | None \<Rightarrow> None) of
        Some t \<Rightarrow> t
      | None \<Rightarrow> (case resource_of path of Some r \<Rightarrow> r | None \<Rightarrow> OTHER))"

definition endpoints_of :: "ustring \<times> (ustring \<times> operation) list \<Rightarrow> api_endpoint list" where
  "endpoints_of entry =
     (let (path, ops) = entry
      in concat (map (\<lambda>m. case map_of ops m of
            None \<Rightarrow> []
          | Some op \<Rightarrow> [\<lparr>en_method = m, en_path = path, en_op = op, en_tag = tag_of path op\<rparr>]) HTTP_METHODS))"

text \<open>\<open>Array.prototype.sort\<close> with a comparison: elements that compare equal keep their order.\<close>

fun insert_by :: "('a \<Rightarrow> 'a \<Rightarrow> int) \<Rightarrow> 'a \<Rightarrow> 'a list \<Rightarrow> 'a list" where
  "insert_by cmp x [] = [x]"
| "insert_by cmp x (y # ys) = (if cmp x y \<le> 0 then x # y # ys else y # insert_by cmp x ys)"

definition sort_by :: "('a \<Rightarrow> 'a \<Rightarrow> int) \<Rightarrow> 'a list \<Rightarrow> 'a list" where
  "sort_by cmp xs = foldr (insert_by cmp) xs []"

definition compare_endpoints :: "(ustring \<Rightarrow> ustring \<Rightarrow> int) \<Rightarrow> api_endpoint \<Rightarrow> api_endpoint \<Rightarrow> int" where
  "compare_endpoints localeCompare a b =
     (let c = localeCompare (en_path a) (en_path b)
      in if c \<noteq> 0 then c else localeCompare (en_method a) (en_method b))"

definition api_endpoints :: "(ustring \<Rightarrow> ustring \<Rightarrow> int) \<Rightarrow> api_paths \<Rightarrow> api_endpoint list" where
  "api_endpoints localeCompare paths = sort_by (compare_endpoints localeCompare) (concat (map endpoints_of paths))"

section \<open>Search and groups\<close>

definition found_by :: "(ustring \<Rightarrow> ustring) \<Rightarrow> ustring \<Rightarrow> api_endpoint \<Rightarrow> bool" where
  "found_by toLower q e \<longleftrightarrow> somewhere q (toLower (en_path e)) \<or> somewhere q (en_method e)
     \<or> somewhere q (toLower (op_summary (en_op e))) \<or> somewhere q (toLower (en_tag e))"

definition filtered_endpoints :: "(ustring \<Rightarrow> ustring) \<Rightarrow> ustring \<Rightarrow> api_endpoint list \<Rightarrow> api_endpoint list" where
  "filtered_endpoints toLower query es =
     (let q = toLower (js_trim query) in if q = [] then es else filter (found_by toLower q) es)"

text \<open>\<open>groups.set(e.tag, [...groups.get(e.tag), e])\<close> of a \<open>Map\<close>, which keeps the order of insertion.\<close>

fun add_to_group :: "api_endpoint \<Rightarrow> (ustring \<times> api_endpoint list) list \<Rightarrow> (ustring \<times> api_endpoint list) list" where
  "add_to_group e [] = [(en_tag e, [e])]"
| "add_to_group e ((t, es) # gs) = (if t = en_tag e then (t, es @ [e]) # gs else (t, es) # add_to_group e gs)"

definition byTag :: "(ustring \<Rightarrow> ustring \<Rightarrow> int) \<Rightarrow> api_endpoint list \<Rightarrow> (ustring \<times> api_endpoint list) list" where
  "byTag localeCompare es = sort_by (\<lambda>a b. localeCompare (fst a) (fst b)) (fold add_to_group es [])"

definition reference_page ::
  "(ustring \<Rightarrow> ustring \<Rightarrow> int) \<Rightarrow> (ustring \<Rightarrow> ustring) \<Rightarrow> ustring \<Rightarrow> api_paths \<Rightarrow> (ustring \<times> api_endpoint list) list" where
  "reference_page localeCompare toLower query paths =
     byTag localeCompare (filtered_endpoints toLower query (api_endpoints localeCompare paths))"

section \<open>An operation on the page\<close>

definition endpoint_key :: "api_endpoint \<Rightarrow> ustring" where
  "endpoint_key e = en_method e @ [32] @ en_path e"

definition toggle_open :: "ustring \<Rightarrow> (ustring \<Rightarrow> bool) \<Rightarrow> ustring \<Rightarrow> bool" where
  "toggle_open key opened = opened(key := \<not> opened key)"

definition shown_text :: "operation \<Rightarrow> ustring option" where
  "shown_text op = (if op_summary op = [] \<and> op_description op = [] then None
     else Some (if op_description op \<noteq> [] then op_description op else op_summary op))"

text \<open>The command that calls it, with the words for host and token as they are written there.\<close>

definition upper_letter :: "nat \<Rightarrow> nat" where
  "upper_letter c = (if 97 \<le> c \<and> c \<le> 122 then c - 32 else c)"

definition HOST :: ustring where "HOST = [60, 1093, 1086, 1089, 1090, 62]"
definition TOKEN :: ustring where "TOKEN = [60, 1090, 1086, 1082, 1077, 1085, 62]"

definition continued :: ustring where
  "continued = lit '' '' @ [92, 10] @ lit ''  ''"

definition curl_of :: "api_endpoint \<Rightarrow> ustring" where
  "curl_of e =
     lit ''curl -X '' @ map upper_letter (en_method e) @ lit '' '' @ [34] @ lit ''http://'' @ HOST @ lit '':8083'' @ en_path e @ [34]
     @ continued @ lit ''-H '' @ [34] @ lit ''Authorization: Bearer '' @ TOKEN @ [34]
     @ (if op_requestBody (en_op e) \<noteq> None
        then continued @ lit ''-H '' @ [34] @ lit ''Content-Type: application/json'' @ [34] @ continued @ lit ''-d '' @ [39, 123, 125, 39]
        else [])"

text \<open>What stands behind the name of a parameter.\<close>

definition parameter_note :: "parameter \<Rightarrow> ustring" where
  "parameter_note p = lit ''('' @ pa_in p @ (if pa_type p \<noteq> [] then lit '', '' @ pa_type p else []) @ lit '')''"

section \<open>Sorting\<close>

text \<open>The laws of a comparison: swapping the sides turns the sign, and the order is transitive.\<close>

definition comparison :: "('a \<Rightarrow> 'a \<Rightarrow> int) \<Rightarrow> bool" where
  "comparison cmp \<longleftrightarrow> (\<forall>x y. sgn (cmp y x) = - sgn (cmp x y)) \<and> (\<forall>x y z. cmp x y \<le> 0 \<longrightarrow> cmp y z \<le> 0 \<longrightarrow> cmp x z \<le> 0)"

lemma comparison_swap: "comparison cmp \<Longrightarrow> cmp y x \<le> 0 \<longleftrightarrow> 0 \<le> cmp x y"
proof -
  assume "comparison cmp"
  then have "sgn (cmp y x) = - sgn (cmp x y)" unfolding comparison_def by blast
  then show ?thesis by (simp add: sgn_if split: if_splits)
qed

lemma comparison_trans: "comparison cmp \<Longrightarrow> cmp x y \<le> 0 \<Longrightarrow> cmp y z \<le> 0 \<Longrightarrow> cmp x z \<le> 0"
  unfolding comparison_def by blast

lemma mset_insert_by [simp]: "mset (insert_by cmp x xs) = add_mset x (mset xs)"
  by (induction xs) auto

lemma mset_sort_by [simp]: "mset (sort_by cmp xs) = mset xs"
  by (induction xs) (simp_all add: sort_by_def)

lemma set_sort_by [simp]: "set (sort_by cmp xs) = set xs"
  using mset_sort_by [of cmp xs] by (metis set_mset_mset)

lemma distinct_map_mset: "mset xs = mset ys \<Longrightarrow> distinct (map f xs) = distinct (map f ys)"
  by (metis mset_eq_imp_distinct_iff mset_map)

lemma distinct_map_sort_by [simp]: "distinct (map f (sort_by cmp xs)) = distinct (map f xs)"
  by (rule distinct_map_mset) simp

lemma sorted_insert_by:
  assumes "comparison cmp"
  shows "sorted_wrt (\<lambda>x y. cmp x y \<le> 0) xs \<Longrightarrow> sorted_wrt (\<lambda>x y. cmp x y \<le> 0) (insert_by cmp x xs)"
proof (induction xs)
  case (Cons y ys)
  have "set (insert_by cmp x ys) = insert x (set ys)" by (metis mset_insert_by set_mset_add_mset_insert set_mset_mset)
  with Cons comparison_swap [OF assms, of y x] show ?case by (auto intro: comparison_trans [OF assms])
qed simp

lemma sorted_sort_by: "comparison cmp \<Longrightarrow> sorted_wrt (\<lambda>x y. cmp x y \<le> 0) (sort_by cmp xs)"
  by (induction xs) (simp_all add: sort_by_def sorted_insert_by)

lemma comparison_on: "comparison cmp \<Longrightarrow> comparison (\<lambda>a b. cmp (f a) (f b))"
  unfolding comparison_def by blast

lemma comparison_endpoints:
  assumes "comparison localeCompare"
  shows "comparison (compare_endpoints localeCompare)"
proof -
  let ?c = "\<lambda>x y. localeCompare (en_path x) (en_path y)" and ?m = "\<lambda>x y. localeCompare (en_method x) (en_method y)"
  note trans = comparison_trans [OF assms] and swap = comparison_swap [OF assms]
  have "compare_endpoints localeCompare a c \<le> 0"
    if ab: "compare_endpoints localeCompare a b \<le> 0" and bc: "compare_endpoints localeCompare b c \<le> 0" for a b c
  proof -
    have le: "?c a b \<le> 0" "?c b c \<le> 0" using ab bc by (simp_all add: compare_endpoints_def Let_def split: if_splits)
    from trans [OF this] have ac: "?c a c \<le> 0" .
    show ?thesis
    proof (cases "?c a c = 0")
      case True
      then have ca: "?c c a \<le> 0" using swap [where y = "en_path c" and x = "en_path a"] by simp
      have "0 \<le> ?c a b" "0 \<le> ?c b c"
        using iffD1 [OF swap trans [OF le(2) ca]] iffD1 [OF swap trans [OF ca le(1)]] .
      with le have z: "?c a b = 0" "?c b c = 0" by (simp_all add: order_antisym)
      have "?m a b \<le> 0" "?m b c \<le> 0" using ab bc z by (simp_all add: compare_endpoints_def)
      from trans [OF this] True show ?thesis by (simp add: compare_endpoints_def)
    qed (use ac in \<open>simp add: compare_endpoints_def\<close>)
  qed
  moreover have "sgn (compare_endpoints localeCompare b a) = - sgn (compare_endpoints localeCompare a b)" for a b
  proof -
    have "sgn (?c b a) = - sgn (?c a b)" "sgn (?m b a) = - sgn (?m a b)" using assms unfolding comparison_def by blast+
    moreover from this(1) have "?c b a = 0 \<longleftrightarrow> ?c a b = 0" by (metis neg_equal_0_iff_equal sgn_0_0)
    ultimately show ?thesis by (simp add: compare_endpoints_def)
  qed
  ultimately show ?thesis unfolding comparison_def by blast
qed

section \<open>Every operation once\<close>

lemma add_to_group_keys: "set (map fst (add_to_group e gs)) = insert (en_tag e) (set (map fst gs))"
proof (induction gs)
  case (Cons g gs)
  then show ?case by (cases g) auto
qed simp

lemma add_to_group_distinct: "distinct (map fst gs) \<Longrightarrow> distinct (map fst (add_to_group e gs))"
proof (induction gs)
  case (Cons g gs)
  then show ?case using add_to_group_keys [of e gs] by (cases g) auto
qed simp

lemma add_to_group_of:
  "distinct (map fst gs) \<Longrightarrow> map_of (add_to_group e gs) t =
    (if t = en_tag e then Some ((case map_of gs t of Some es \<Rightarrow> es | None \<Rightarrow> []) @ [e]) else map_of gs t)"
  by (induction gs) auto

lemma groups_of:
  assumes "distinct (map fst gs)"
  shows "distinct (map fst (fold add_to_group es gs))
    \<and> map_of (fold add_to_group es gs) t =
      (case (case map_of gs t of Some xs \<Rightarrow> xs | None \<Rightarrow> []) @ filter (\<lambda>e. en_tag e = t) es of
         [] \<Rightarrow> map_of gs t | xs \<Rightarrow> Some xs)"
  using assms
proof (induction es arbitrary: gs)
  case Nil
  then show ?case by (auto split: option.split list.split)
next
  case (Cons e es)
  note IH = Cons.IH [OF add_to_group_distinct [OF Cons.prems], of e]
  show ?case using IH by (auto simp: add_to_group_of [OF Cons.prems] split: option.split list.split)
qed

text \<open>
  The groups are what partitioning by resource gives: one group per resource of a listed
  operation, with the operations of that resource in their order, and no other group.
\<close>

lemma byTag_partition:
  "distinct (map fst (byTag cmp es))"
  "(t, xs) \<in> set (byTag cmp es) \<longleftrightarrow> xs \<noteq> [] \<and> xs = filter (\<lambda>e. en_tag e = t) es"
proof -
  let ?gs = "fold add_to_group es []"
  have g: "distinct (map fst ?gs)" "map_of ?gs t = (case filter (\<lambda>e. en_tag e = t) es of [] \<Rightarrow> None | xs \<Rightarrow> Some xs)"
    using groups_of [of "[]" es t] by (simp_all split: list.split)
  then show "distinct (map fst (byTag cmp es))" by (simp add: byTag_def)
  have "(t, xs) \<in> set ?gs \<longleftrightarrow> map_of ?gs t = Some xs" using g(1) by (simp add: map_of_eq_Some_iff)
  with g(2) show "(t, xs) \<in> set (byTag cmp es) \<longleftrightarrow> xs \<noteq> [] \<and> xs = filter (\<lambda>e. en_tag e = t) es"
    by (auto simp: byTag_def split: list.splits)
qed

lemma add_to_group_mset: "mset (concat (map snd (add_to_group e gs))) = add_mset e (mset (concat (map snd gs)))"
proof (induction gs)
  case (Cons g gs)
  then show ?case by (cases g) simp
qed simp

lemma mset_concat_snd: "mset gs = mset hs \<Longrightarrow> mset (concat (map snd gs)) = mset (concat (map snd hs))"
  by (simp add: mset_concat sum_mset_sum_list [symmetric])

lemma byTag_mset: "mset (concat (map snd (byTag cmp es))) = mset es"
proof -
  have "mset (concat (map snd (fold add_to_group es gs))) = mset (concat (map snd gs)) + mset es" for gs
    by (induction es arbitrary: gs) (simp_all add: add_to_group_mset del: mset_concat)
  from this [of "[]"] have "mset (concat (map snd (fold add_to_group es []))) = mset es" by simp
  moreover have "mset (concat (map snd (byTag cmp es))) = mset (concat (map snd (fold add_to_group es [])))"
    unfolding byTag_def by (intro mset_concat_snd mset_sort_by)
  ultimately show ?thesis by simp
qed

lemma HTTP_METHODS_plain: "distinct HTTP_METHODS" "m \<in> set HTTP_METHODS \<Longrightarrow> 32 \<notin> set m"
  by (auto simp: HTTP_METHODS_def lit_def)

lemma endpoints_of_iff:
  "e \<in> set (endpoints_of (path, ops)) \<longleftrightarrow>
    en_path e = path \<and> en_method e \<in> set HTTP_METHODS \<and> map_of ops (en_method e) = Some (en_op e) \<and> en_tag e = tag_of path (en_op e)"
  by (cases e) (auto simp: endpoints_of_def split: option.splits)

lemma endpoint_key_inj:
  assumes "endpoint_key e = endpoint_key e'" and "en_method e \<in> set HTTP_METHODS" and "en_method e' \<in> set HTTP_METHODS"
  shows "en_method e = en_method e' \<and> en_path e = en_path e'"
proof -
  have "hd (split_on 32 (endpoint_key x)) = en_method x" if "en_method x \<in> set HTTP_METHODS" for x
    using split_on_first [OF HTTP_METHODS_plain(2) [OF that]] by (simp add: endpoint_key_def)
  with assms have "en_method e = en_method e'" by metis
  with assms(1) show ?thesis by (simp add: endpoint_key_def)
qed

lemma endpoints_of_distinct: "distinct (map endpoint_key (endpoints_of (path, ops)))"
proof -
  have "map endpoint_key (concat (map (\<lambda>m. case map_of ops m of None \<Rightarrow> []
        | Some op \<Rightarrow> [\<lparr>en_method = m, en_path = path, en_op = op, en_tag = tag_of path op\<rparr>]) ms))
    = map (\<lambda>m. m @ 32 # path) (filter (\<lambda>m. map_of ops m \<noteq> None) ms)" for ms
    by (induction ms) (auto simp: endpoint_key_def split: option.split)
  then show ?thesis using HTTP_METHODS_plain(1) by (simp add: endpoints_of_def distinct_map inj_on_def)
qed

lemma all_keys_distinct:
  "distinct (map fst paths) \<Longrightarrow> distinct (map endpoint_key (concat (map endpoints_of paths)))"
proof (induction paths)
  case (Cons entry paths)
  obtain path ops where e: "entry = (path, ops)" by fastforce
  have "endpoint_key x \<noteq> endpoint_key y"
    if x: "x \<in> set (endpoints_of (path, ops))" and y: "y \<in> set (concat (map endpoints_of paths))" for x y
  proof
    from y obtain p os where p: "(p, os) \<in> set paths" "y \<in> set (endpoints_of (p, os))" by auto
    assume "endpoint_key x = endpoint_key y"
    with endpoint_key_inj x p(2) have "path = p" by (metis endpoints_of_iff)
    with Cons.prems e p(1) show False by (force simp: rev_image_eqI)
  qed
  with Cons endpoints_of_distinct [of path ops] e show ?case by (auto simp: image_iff)
qed simp

text \<open>An operation of the document under one of the five methods.\<close>

definition documented :: "api_paths \<Rightarrow> api_endpoint \<Rightarrow> bool" where
  "documented paths e \<longleftrightarrow> list_ex (\<lambda>(path, ops). path = en_path e \<and> map_of ops (en_method e) = Some (en_op e)) paths
     \<and> en_method e \<in> set HTTP_METHODS \<and> en_tag e = tag_of (en_path e) (en_op e)"

lemma set_api_endpoints: "e \<in> set (api_endpoints cmp paths) \<longleftrightarrow> documented paths e"
proof -
  have "e \<in> set (api_endpoints cmp paths) \<longleftrightarrow> (\<exists>(path, ops)\<in>set paths. e \<in> set (endpoints_of (path, ops)))"
    by (auto simp: api_endpoints_def)
  then show ?thesis by (auto simp: documented_def list_ex_iff endpoints_of_iff)
qed

lemma filtered_endpoints_filter:
  "filtered_endpoints toLower query es = filter (\<lambda>e. toLower (js_trim query) = [] \<or> found_by toLower (toLower (js_trim query)) e) es"
  by (simp add: filtered_endpoints_def Let_def)

text \<open>
  The reference lists exactly the operations of the document that the search finds, each once
  and in the group of its resource; the keys of the rows are distinct, so the state of one
  row is not that of another.
\<close>

theorem reference_lists_each_once:
  assumes "distinct (map fst paths)"
  shows "distinct (map endpoint_key (concat (map snd (reference_page localeCompare toLower query paths))))
    \<and> distinct (map fst (reference_page localeCompare toLower query paths))
    \<and> ((\<exists>es. (t, es) \<in> set (reference_page localeCompare toLower query paths) \<and> e \<in> set es) \<longleftrightarrow>
        t = en_tag e \<and> documented paths e \<and> (toLower (js_trim query) = [] \<or> found_by toLower (toLower (js_trim query)) e))"
proof -
  let ?es = "filtered_endpoints toLower query (api_endpoints localeCompare paths)"
  have "distinct (map endpoint_key (api_endpoints localeCompare paths))"
    using all_keys_distinct [OF assms] by (simp add: api_endpoints_def del: map_concat)
  then have "distinct (map endpoint_key ?es)"
    unfolding filtered_endpoints_filter by (rule distinct_map_filter)
  with distinct_map_mset [OF byTag_mset]
  have "distinct (map endpoint_key (concat (map snd (reference_page localeCompare toLower query paths))))"
    unfolding reference_page_def by blast
  moreover have "(\<exists>es. (t, es) \<in> set (reference_page localeCompare toLower query paths) \<and> e \<in> set es) \<longleftrightarrow> e \<in> set ?es \<and> en_tag e = t"
    unfolding reference_page_def byTag_partition(2) by (auto simp: filter_empty_conv)
  ultimately show ?thesis
    using byTag_partition(1) by (auto simp: reference_page_def filtered_endpoints_filter set_api_endpoints)
qed

text \<open>Groups and rows are sorted, whatever \<open>localeCompare\<close> is, if it is a comparison.\<close>

lemma sorted_wrt_sub: "sorted_wrt R xs \<Longrightarrow> sorted_wrt R (filter P xs)"
  by (induction xs) auto

lemma reference_sorted:
  assumes "comparison localeCompare"
  shows "sorted_wrt (\<lambda>a b. localeCompare (fst a) (fst b) \<le> 0) (reference_page localeCompare toLower query paths)
    \<and> (\<forall>(t, es)\<in>set (reference_page localeCompare toLower query paths).
         sorted_wrt (\<lambda>a b. compare_endpoints localeCompare a b \<le> 0) es)"
proof -
  let ?es = "filtered_endpoints toLower query (api_endpoints localeCompare paths)"
  have sorted: "sorted_wrt (\<lambda>a b. compare_endpoints localeCompare a b \<le> 0) ?es"
    unfolding filtered_endpoints_filter api_endpoints_def
    by (intro sorted_wrt_sub sorted_sort_by comparison_endpoints assms)
  have rows: "sorted_wrt (\<lambda>a b. compare_endpoints localeCompare a b \<le> 0) es"
    if "(t, es) \<in> set (reference_page localeCompare toLower query paths)" for t es
  proof -
    from that have es: "es = filter (\<lambda>e. en_tag e = t) ?es" unfolding reference_page_def byTag_partition(2) by blast
    from sorted show ?thesis unfolding es by (rule sorted_wrt_sub)
  qed
  have "sorted_wrt (\<lambda>a b. localeCompare (fst a) (fst b) \<le> 0) (reference_page localeCompare toLower query paths)"
    unfolding reference_page_def byTag_def by (rule sorted_sort_by) (rule comparison_on [OF assms])
  with rows show ?thesis by blast
qed

section \<open>What the page says about authentication\<close>

text \<open>
  Below every operation the page says that a session or a Bearer token is needed. A request
  with a live token and no session passes the guard of no route that asks for a session, and
  the health route, signing in and the webhooks of vendors ask for neither.
\<close>

lemma token_passes_guard:
  assumes "rq_user req = None" and "bearer_token (rq_authorization req) = Some t"
    and "live_token (ap_access env) t d = Some row" and "guard_of route \<noteq> MediaAccess"
  shows "fst (pass_guard (ap_access env) req (guard_of route) d) = None \<longleftrightarrow> guard_of route \<noteq> SessionOnly"
  using assms by (cases "guard_of route") (simp_all add: sessionGuard_def apiTokenGuard_def sessionOrTokenGuard_def)

lemma open_routes_ask_nothing:
  "guard_of route = Open \<Longrightarrow> api_call env req route d = run_route env req route d"
  by (simp add: api_call_def)

end
