(* ===== verification/Shell.thy ===== *)
theory Shell
  imports Panel
begin

text \<open>
  The frame of the panel (apps/web/src: App.tsx, hooks/useAuth.ts, components/Layout.tsx,
  pages/Login.tsx, components/QrImage.tsx): which page an address shows to whom, the menu,
  signing in and out, the warning of unequal versions, and the drawing of a pairing code.
  The lemmas say that addresses settle on a page without a loop, that pages need a session,
  and that the drawing reads back as the code, with its quiet zone.
\<close>

section \<open>The pairing code\<close>

text \<open>The side of the code in modules, and which of them are dark, come from the code generator.\<close>

definition QUIET_ZONE :: nat where
  "QUIET_ZONE = 4"

record rect =
  re_x :: int
  re_y :: int
  re_width :: int
  re_height :: int

definition totalModules :: "nat \<Rightarrow> int" where
  "totalModules moduleCount = int (moduleCount + QUIET_ZONE * 2)"

definition cellSize :: "nat \<Rightarrow> int \<Rightarrow> int" where
  "cellSize moduleCount px = max 1 (px div totalModules moduleCount)"

definition realSize :: "nat \<Rightarrow> int \<Rightarrow> int" where
  "realSize moduleCount px = cellSize moduleCount px * totalModules moduleCount"

definition qr_cells :: "nat \<Rightarrow> (nat \<Rightarrow> nat \<Rightarrow> bool) \<Rightarrow> int \<Rightarrow> rect list" where
  "qr_cells moduleCount isDark px =
     (let cell = cellSize moduleCount px
      in concat (map (\<lambda>r. map (\<lambda>c. \<lparr>re_x = int (QUIET_ZONE + c) * cell, re_y = int (QUIET_ZONE + r) * cell,
                                    re_width = cell, re_height = cell\<rparr>)
                       (filter (isDark r) [0..<moduleCount])) [0..<moduleCount]))"

text \<open>A point of the picture is black where one of the rectangles lies on the white ground.\<close>

definition covers :: "rect \<Rightarrow> int \<Rightarrow> int \<Rightarrow> bool" where
  "covers r x y \<longleftrightarrow> re_x r \<le> x \<and> x < re_x r + re_width r \<and> re_y r \<le> y \<and> y < re_y r + re_height r"

definition black :: "nat \<Rightarrow> (nat \<Rightarrow> nat \<Rightarrow> bool) \<Rightarrow> int \<Rightarrow> int \<Rightarrow> int \<Rightarrow> bool" where
  "black moduleCount isDark px x y \<longleftrightarrow> list_ex (\<lambda>r. covers r x y) (qr_cells moduleCount isDark px)"

lemma cellSize_pos: "0 < cellSize n px"
  by (simp add: cellSize_def)

lemma in_cell_iff:
  fixes x k cell :: int
  assumes "0 < cell"
  shows "k * cell \<le> x \<and> x < k * cell + cell \<longleftrightarrow> x div cell = k"
proof
  assume "k * cell \<le> x \<and> x < k * cell + cell"
  then show "x div cell = k" by (intro int_div_pos_eq [of x cell k "x - k * cell"]) (auto simp: mult.commute)
next
  assume "x div cell = k"
  moreover have "x = x div cell * cell + x mod cell" by simp
  ultimately show "k * cell \<le> x \<and> x < k * cell + cell"
    using pos_mod_sign [OF assms, of x] pos_mod_bound [OF assms, of x] by simp
qed

text \<open>
  The picture reads back as the code: a point lies in the cell of its row and column, counted
  behind the quiet zone, and is black exactly when the code has a dark module there. So the
  quiet zone of four modules is white on every side, and no module covers another.
\<close>

lemma qr_picture_reads_back:
  "black n isDark px x y \<longleftrightarrow>
    (\<exists>r<n. \<exists>c<n. isDark r c \<and> y div cellSize n px = int (QUIET_ZONE + r) \<and> x div cellSize n px = int (QUIET_ZONE + c))"
proof -
  have "covers \<lparr>re_x = int (QUIET_ZONE + c) * cellSize n px, re_y = int (QUIET_ZONE + r) * cellSize n px,
      re_width = cellSize n px, re_height = cellSize n px\<rparr> x y
    \<longleftrightarrow> x div cellSize n px = int (QUIET_ZONE + c) \<and> y div cellSize n px = int (QUIET_ZONE + r)" for r c
    unfolding covers_def rect.select_convs
    using in_cell_iff [OF cellSize_pos, of "int (QUIET_ZONE + c)" n px x] in_cell_iff [OF cellSize_pos, of "int (QUIET_ZONE + r)" n px y]
    by blast
  then show ?thesis by (fastforce simp: black_def qr_cells_def Let_def list_ex_iff)
qed

lemma qr_picture_fits:
  assumes "totalModules n \<le> px"
  shows "realSize n px \<le> px"
proof -
  have t: "0 < totalModules n" by (simp add: totalModules_def QUIET_ZONE_def)
  with assms have "1 \<le> px div totalModules n" by (metis div_self int_one_le_iff_zero_less less_irrefl zdiv_mono1)
  then have "cellSize n px = px div totalModules n" by (simp add: cellSize_def)
  with pos_mod_sign [OF t, of px] show ?thesis by (simp add: realSize_def minus_mod_eq_div_mult [symmetric])
qed

section \<open>Addresses and pages\<close>

datatype page =
    LoginPage | DashboardPage | ChannelsPage | TestChatPage | MessagesPage | RoutingPage
  | DeliveriesPage | AlertsPage | ApiTokensPage | LogsPage

datatype view = Loading | Shows page | RedirectTo ustring

text \<open>The pages inside the frame, with the addresses of their routes.\<close>

definition framed_pages :: "(ustring \<times> page) list" where
  "framed_pages =
     [(lit ''/'', DashboardPage), (lit ''/channels'', ChannelsPage), (lit ''/chat'', TestChatPage),
      (lit ''/messages'', MessagesPage), (lit ''/routing'', RoutingPage), (lit ''/deliveries'', DeliveriesPage),
      (lit ''/alerts'', AlertsPage), (lit ''/api'', ApiTokensPage), (lit ''/logs'', LogsPage)]"

text \<open>
  \<open>useAuth\<close>: the user, if any, and whether the answer to \<open>/auth/me\<close> is still out. There is no
  second try; an error and an empty answer are no user.
\<close>

type_synonym profile = "ustring \<times> ustring \<times> int option"

definition useAuth :: "answer option \<Rightarrow> profile option \<times> bool" where
  "useAuth me =
     (case me of None \<Rightarrow> (None, True)
      | Some (Profile (Some u)) \<Rightarrow> (Some u, False)
      | Some _ \<Rightarrow> (None, False))"

text \<open>The routes of \<open>App\<close>; the address is the one the router matches them with.\<close>

definition app_view :: "profile option \<times> bool \<Rightarrow> ustring \<Rightarrow> view" where
  "app_view auth address =
     (let (user, loading) = auth
      in if loading then Loading
         else if address = lit ''/login'' then (if user \<noteq> None then RedirectTo (lit ''/'') else Shows LoginPage)
         else if user = None then RedirectTo (lit ''/login'')
         else (case map_of framed_pages address of Some p \<Rightarrow> Shows p | None \<Rightarrow> RedirectTo (lit ''/'')))"

fun settled_view :: "profile option \<times> bool \<Rightarrow> view \<Rightarrow> view" where
  "settled_view auth (RedirectTo address) = app_view auth address"
| "settled_view auth v = v"

definition opened_view :: "api_env \<Rightarrow> request \<Rightarrow> db \<Rightarrow> ustring \<Rightarrow> view" where
  "opened_view env req d address = app_view (useAuth (Some (fst (api_call env req (ToAuth Me) d)))) address"

lemma framed_pages_root: "map_of framed_pages (lit ''/'') = Some DashboardPage"
  by (simp add: framed_pages_def)

text \<open>An address settles after at most one redirection: there is no loop between the routes.\<close>

lemma addresses_settle:
  "settled_view (user, False) (app_view (user, False) address) =
    Shows (if user = None then LoginPage else case map_of framed_pages address of Some p \<Rightarrow> p | None \<Rightarrow> DashboardPage)"
proof -
  have "map_of framed_pages (lit ''/login'') = None" by (simp add: framed_pages_def)
  then show ?thesis by (simp add: app_view_def framed_pages_root split: option.split)
qed

lemma useAuth_me:
  "useAuth (Some (fst (api_call env req (ToAuth Me) d))) =
    (case rq_user req of None \<Rightarrow> None | Some u \<Rightarrow> getUser (su_id u) d, False)"
  by (simp add: useAuth_def api_call_def sessionGuard_def split: option.split)

text \<open>A page inside the frame is shown only to the user of a session whose account still exists.\<close>

lemma pages_need_session:
  "opened_view env req d address = Shows p \<Longrightarrow> p \<noteq> LoginPage
    \<Longrightarrow> \<exists>u. rq_user req = Some u \<and> getUser (su_id u) d \<noteq> None"
  by (auto simp: opened_view_def useAuth_me app_view_def split: option.splits if_splits)

text \<open>The entries of the menu; each leads to a page of its own, and each page has one.\<close>

definition nav :: "ustring list" where
  "nav = map lit [''/'', ''/channels'', ''/chat'', ''/messages'', ''/routing'', ''/deliveries'', ''/alerts'', ''/api'', ''/logs'']"

lemma nav_reaches_every_page:
  "map (map_of framed_pages) nav =
    map Some [DashboardPage, ChannelsPage, TestChatPage, MessagesPage, RoutingPage, DeliveriesPage, AlertsPage, ApiTokensPage, LogsPage]"
  by (simp add: nav_def framed_pages_def)

section \<open>Signing in and out\<close>

record login_form =
  lf_username :: ustring
  lf_password :: ustring
  lf_wrong :: bool
  lf_location :: "ustring option"

definition login_opened :: login_form where
  "login_opened = \<lparr>lf_username = lit ''admin'', lf_password = [], lf_wrong = False, lf_location = None\<rparr>"

definition login_press :: "login_form \<Rightarrow> route" where
  "login_press f = ToAuth (Login (lf_username f) (lf_password f))"

text \<open>After the request: any failure of it is told as a wrong name or password.\<close>

definition login_answered :: "bool \<Rightarrow> login_form \<Rightarrow> login_form" where
  "login_answered ok f = (if ok then f\<lparr>lf_wrong := False, lf_location := Some (lit ''/'')\<rparr> else f\<lparr>lf_wrong := True\<rparr>)"

text \<open>\<open>logout\<close>: the address to go to, unless the request fails.\<close>

definition logout_press :: route where
  "logout_press = ToAuth Logout"

definition logout_answered :: "answer \<Rightarrow> ustring option" where
  "logout_answered ans = (case ans of Unauthorised e \<Rightarrow> None | _ \<Rightarrow> Some (lit ''/login''))"

text \<open>
  Signing in with the right password leads to the dashboard under the new session; with a
  wrong name or password the form says so, and neither the session nor anything stored changes.
\<close>

lemma sign_in_opens_dashboard:
  fixes env :: api_env and f :: login_form and d :: db
  defines "found \<equiv> find (\<lambda>u. us_username u = lf_username f) (admin_users d)"
    and "checked \<equiv> validatePassword (ap_access env) (lf_username f) (lf_password f) d"
  assumes answer: "api_call env req (login_press f) d = (SessionOf sess, d')"
  shows "if \<exists>u. found = Some u \<and> ax_argonVerify (ap_access env) (us_passwordHash u) (lf_password f)
    then lf_location (login_answered (fst checked \<noteq> None) f) = Some (lit ''/'')
      \<and> opened_view env (req\<lparr>rq_user := sess\<rparr>) d' (lit ''/'') = Shows DashboardPage
    else lf_wrong (login_answered (fst checked \<noteq> None) f) \<and> sess = rq_user req \<and> d' = d"
proof (cases "\<exists>u. found = Some u \<and> ax_argonVerify (ap_access env) (us_passwordHash u) (lf_password f)")
  case True
  then obtain u where u: "found = Some u" "ax_argonVerify (ap_access env) (us_passwordHash u) (lf_password f)" by blast
  then have s: "sess = Some \<lparr>su_id = us_id u, su_username = us_username u\<rparr>"
    and d': "d' = d\<lparr>admin_users := update_where (\<lambda>x. us_id x = us_id u) (\<lambda>x. x\<lparr>us_lastLoginAt := Some (ax_now (ap_access env))\<rparr>) (admin_users d)\<rparr>"
    using answer by (auto simp: found_def api_call_def login_press_def login_def validatePassword_def)
  have "find (\<lambda>x. us_id x = us_id u) (admin_users d) \<noteq> None"
    using find_SomeD [OF u(1) [unfolded found_def]] by (auto simp: find_None_iff)
  then have "getUser (us_id u) d' \<noteq> None"
    using find_update_same [of us_id "\<lambda>x. x\<lparr>us_lastLoginAt := Some (ax_now (ap_access env))\<rparr>" "us_id u" "admin_users d"]
    by (simp add: getUser_def d')
  then show ?thesis using True u s
    by (auto simp: opened_view_def useAuth_me app_view_def framed_pages_root checked_def validatePassword_def found_def login_answered_def)
next
  case False
  then have "checked = (None, d)"
    by (auto simp: checked_def validatePassword_def found_def split: option.split)
  with False answer show ?thesis
    by (auto simp: api_call_def login_press_def login_def checked_def login_answered_def)
qed

section \<open>Versions\<close>

text \<open>The menu shows the version of the API beside that of the panel when they differ.\<close>

definition version_answer :: "answer \<Rightarrow> json option" where
  "version_answer ans = (case ans of HealthIs v \<Rightarrow> own v (lit ''version'') | _ \<Rightarrow> None)"

definition mismatch :: "json option \<Rightarrow> ustring \<Rightarrow> bool" where
  "mismatch apiVersion panel_version =
     (case apiVersion of None \<Rightarrow> False | Some v \<Rightarrow> truthy v \<and> v \<noteq> JStr panel_version)"

text \<open>Anybody is told the version of the API, and the warning is shown exactly when it is another one.\<close>

lemma mismatch_shown:
  assumes "ap_version env = JStr v" and "v \<noteq> []"
  shows "mismatch (version_answer (fst (api_call env req (ToHealth Version) d))) w \<longleftrightarrow> v \<noteq> w"
  using assms by (simp add: mismatch_def version_answer_def api_call_def health_version_def)

end
