(* ===== verification/Screens.thy ===== *)
theory Screens
  imports Display Chat Channels Wizard
begin

text \<open>
  What further pages of the panel show: the conversations and bubbles of TestChat.tsx, the
  numbers with their buttons of Channels.tsx, the screens of ProvisioningWizard.tsx, and the
  lists of Routing.tsx with deleting and testing. Dates are written by an argument. The lemmas
  say that no bubble is empty, that a failure is explained, that the buttons of a number are
  those that the API can answer, and that a code is on the screen exactly when there is one.
\<close>

section \<open>Conversations\<close>

text \<open>Sizes: whole kilobytes, tenths of megabytes, rounded half up.\<close>

definition formatBytes :: "nat \<Rightarrow> ustring" where
  "formatBytes bytes =
     (if bytes < 1024 then dec_str bytes @ [32, 1041]
      else if bytes < 1024 * 1024 then dec_str ((bytes + 512) div 1024) @ [32, 1050, 1041]
      else let tenths = (bytes * 20 + 1048576) div 2097152
           in dec_str (tenths div 10) @ lit ''.'' @ dec_str (tenths mod 10) @ [32, 1052, 1041])"

text \<open>The reason of a failure, by its code.\<close>

definition sendFailureReason :: "ustring \<times> ustring \<Rightarrow> ustring" where
  "sendFailureReason err =
     (let (code, message) = err
      in if code = lit ''RECIPIENT_NOT_REGISTERED'' then
           [1053, 1086, 1084, 1077, 1088, 32, 1085, 1077, 32, 1079, 1072, 1088, 1077, 1108, 1089, 1090, 1088, 1086, 1074,
            1072, 1085, 1080, 1081, 32, 1091, 32, 83, 105, 103, 110, 97, 108, 32, 8212, 32, 1087, 1086, 1074, 1110, 1076,
            1086, 1084, 1083, 1077, 1085, 1085, 1103, 32, 1090, 1091, 1076, 1080, 32, 1085, 1072, 1076, 1110, 1089, 1083,
            1072, 1090, 1080, 32, 1085, 1077, 1084, 1086, 1078, 1083, 1080, 1074, 1086, 46]
         else if code = lit ''NO_RECIPIENT'' then
           [1053, 1077, 32, 1074, 1082, 1072, 1079, 1072, 1085, 1086, 32, 1086, 1090, 1088, 1080, 1084, 1091, 1074, 1072,
            1095, 1072, 46]
         else if code = lit ''NETWORK_ERROR'' then
           [1058, 1088, 1072, 1085, 1089, 1087, 1086, 1088, 1090, 32, 1085, 1077, 1076, 1086, 1089, 1090, 1091, 1087,
            1085, 1080, 1081, 46, 32, 1057, 1087, 1088, 1086, 1073, 1091, 1081, 1090, 1077, 32, 1097, 1077, 32, 1088,
            1072, 1079, 46]
         else if message \<noteq> [] then message
         else
           [1053, 1077, 32, 1074, 1076, 1072, 1083, 1086, 1089, 1103, 32, 1085, 1072, 1076, 1110, 1089, 1083, 1072, 1090,
            1080, 46])"

definition peer_text :: "conversation_row \<Rightarrow> ustring option" where
  "peer_text c = (case cv_peerPhone c of Some p \<Rightarrow> Some p | None \<Rightarrow> cv_peerId c)"

definition peer_title :: "conversation_row \<Rightarrow> ustring" where
  "peer_title c = (case peer_text c of Some p \<Rightarrow> p | None \<Rightarrow> DASH)"

definition bracketed :: "message_type \<Rightarrow> ustring" where
  "bracketed ty = lit ''['' @ type_name ty @ lit '']''"

text \<open>The line of the last message: an arrow, and its preview or its type.\<close>

definition last_line :: "message_row \<times> ustring \<Rightarrow> ustring" where
  "last_line entry =
     (let (m, preview_text) = entry
      in (if ms_direction m = outbound then [8599, 32] else [8601, 32])
         @ (if preview_text \<noteq> [] then preview_text else bracketed (ms_messageType m)))"

datatype bubble_file = Picture ustring ustring | FileLink ustring ustring ustring

definition file_view :: "attachment_row \<Rightarrow> bubble_file" where
  "file_view a =
     (let href = lit ''/api/v1/media/'' @ at_attId a
      in if starts_with (lit ''image/'') (at_mimeType a) then Picture href (at_fileName a)
         else FileLink href (at_fileName a) (formatBytes (at_sizeBytes a)))"

record bubble =
  bu_right :: bool
  bu_files :: "bubble_file list"
  bu_text :: "ustring option"
  bu_date :: ustring
  bu_status :: "(ustring option \<times> nat option) option"
  bu_error :: "ustring option"

definition content_text :: "message_row \<Rightarrow> ustring" where
  "content_text m = (case as_string (own (ms_content m) (lit ''text'')) of Some s \<Rightarrow> s | None \<Rightarrow> [])"

definition bubble_of :: "(int \<Rightarrow> ustring) \<Rightarrow> shown_message \<Rightarrow> bubble" where
  "bubble_of date_text sh =
     (let m = sh_message sh; out = (ms_direction m = outbound)
      in \<lparr>bu_right = out,
          bu_files = map file_view (sh_files sh),
          bu_text = (if content_text m \<noteq> [] then Some (content_text m)
                     else if sh_files sh = [] then Some (bracketed (ms_messageType m)) else None),
          bu_date = formatDate date_text (Some (ms_createdAt m)),
          bu_status = (if out then Some (MESSAGE_STATUS_LABEL (ms_status m), if sh_attempts sh > 0 then Some (sh_attempts sh) else None)
                       else None),
          bu_error = (if out \<and> ms_status m = failed then map_option sendFailureReason (sh_error sh) else None)\<rparr>)"

text \<open>No bubble is empty: it shows a file or a text that is not the empty one.\<close>

lemma bubble_not_empty: "bu_files (bubble_of f sh) \<noteq> [] \<or> (\<exists>s. bu_text (bubble_of f sh) = Some s \<and> s \<noteq> [])"
  by (simp add: bubble_of_def Let_def bracketed_def lit_def)

text \<open>Whatever the code, the reason of a failure is not empty.\<close>

lemma failure_explained: "sendFailureReason err \<noteq> []"
  by (cases err) (simp add: sendFailureReason_def)

lemma bubble_error:
  "bu_error (bubble_of f (show_message d m)) = Some reason \<longleftrightarrow>
    ms_direction m = outbound \<and> ms_status m = failed
    \<and> (\<exists>err. last_error (filter (\<lambda>a. at_messageId a = ms_id m) (attempts d)) = Some err \<and> reason = sendFailureReason err)"
  by (auto simp: bubble_of_def Let_def show_message_def with_trail_def)

text \<open>A bubble links only files of its message that are not deleted.\<close>

lemma bubble_files_of_message:
  "set (bu_files (bubble_of f (show_message d m)))
    = file_view ` {a \<in> set (attachments d). at_msgId a = Some (ms_id m) \<and> at_deletedAt a = None}"
  by (auto simp: bubble_of_def Let_def show_message_def with_trail_def)

section \<open>Numbers and their buttons\<close>

definition typeLabel :: "channel_type \<Rightarrow> ustring" where
  "typeLabel c = (case c of
       sms \<Rightarrow> lit ''SMS / DBLtek GoIP''
     | whatsapp \<Rightarrow> lit ''WhatsApp / UnoAPI '' @ [1072, 1073, 1086] @ lit '' go-whatsapp-web-multidevice''
     | signal \<Rightarrow> lit ''Signal / signal-cli-rest-api''
     | mock \<Rightarrow> lit ''Mock (dev only)'')"

fun state_badge :: "registration_state \<Rightarrow> ustring \<times> ustring" where
  "state_badge unpaired = ([1085, 1077, 32, 1087, 1088, 1080, 1074, 39, 1103, 1079, 1072, 1085, 1086], lit ''bg-slate-100 text-slate-600'')"
| "state_badge qr_pending = ([1095, 1077, 1082, 1072, 1108, 32, 81, 82, 46, 46, 46], lit ''bg-amber-100 text-amber-700'')"
| "state_badge qr_displayed = ([81, 82, 32, 1085, 1072, 32, 1077, 1082, 1088, 1072, 1085, 1110], lit ''bg-amber-100 text-amber-700'')"
| "state_badge sms_pending = ([1095, 1077, 1082, 1072, 1108, 32, 83, 77, 83, 46, 46, 46], lit ''bg-amber-100 text-amber-700'')"
| "state_badge verifying = ([1087, 1077, 1088, 1077, 1074, 1110, 1088, 1082, 1072, 32, 1082, 1086, 1076, 1091], lit ''bg-amber-100 text-amber-700'')"
| "state_badge linked = ([1087, 1088, 1080, 1074, 39, 1103, 1079, 1072, 1085, 1086], lit ''bg-green-100 text-green-700'')"
| "state_badge relink_needed = ([1087, 1086, 1090, 1088, 1110, 1073, 1085, 1072, 32, 1087, 1086, 1074, 1090, 1086, 1088, 1085, 1072, 32, 1087, 1088, 1080, 1074, 39, 1103, 1079, 1082, 1072], lit ''bg-orange-100 text-orange-700'')"
| "state_badge reg_failed = ([1087, 1086, 1084, 1080, 1083, 1082, 1072], lit ''bg-red-100 text-red-700'')"

record number_buttons =
  nb_unlink :: bool
  nb_qr :: bool
  nb_toggle :: bool

definition number_buttons_of :: "account_row \<Rightarrow> endpoint_row \<Rightarrow> number_buttons" where
  "number_buttons_of account e =
     \<lparr>nb_unlink = (canProvision account \<and> ep_state e = linked),
      nb_qr = (canProvision account \<and> (ep_state e = qr_pending \<or> ep_state e = qr_displayed)),
      nb_toggle = (ac_type account = sms)\<rparr>"

definition shown_badge :: "account_row \<Rightarrow> endpoint_row \<Rightarrow> (ustring \<times> ustring) option" where
  "shown_badge account e = (if canProvision account then Some (state_badge (ep_state e)) else None)"

lemma green_means_linked: "snd (state_badge s) = lit ''bg-green-100 text-green-700'' \<longleftrightarrow> s = linked"
  by (cases s) simp_all

text \<open>
  On an account whose numbers are linked, the button to unlink is offered exactly when the API
  does not refuse the request because the number is not linked.
\<close>

lemma unlink_offered_when_linked:
  assumes "rq_user req = Some u" and "eps.lookup d (ep_id e) = Some e" and "canProvision account"
  shows "nb_unlink (number_buttons_of account e) \<longleftrightarrow>
    fst (api_call env req (ToEndpoints (Unlink (ep_id e))) d) \<noteq> Provisioned (Some NotLinked)"
proof -
  have "api_call env req (ToEndpoints (Unlink (ep_id e))) d = map_prod Provisioned id (unlink (ap_prov env) (ep_id e) (actor_of req) d)"
    using assms(1) by (simp add: session_request)
  moreover have "fst (unlink (ap_prov env) (ep_id e) (actor_of req) d) = Some NotLinked \<longleftrightarrow> ep_state e \<noteq> linked"
    using assms(2) by (simp add: unlink_def getAdapter_def split: option.split sum.split prod.split)
  ultimately show ?thesis using assms(3) by (simp add: number_buttons_of_def)
qed

text \<open>A linked number offers no code, and a waiting one is not unlinked.\<close>

lemma buttons_exclusive: "\<not> (nb_unlink (number_buttons_of a e) \<and> nb_qr (number_buttons_of a e))"
  by (auto simp: number_buttons_of_def)

section \<open>The screens of the wizard\<close>

text \<open>The image is fetched over the API; a link is drawn by the panel; the lifetime is in whole minutes.\<close>

datatype wizard_screen =
    NoDialog
  | FormScreen
  | WaitScreen
  | ImageScreen ustring "int option"
  | CodeScreen ustring "int option"
  | NoCodeScreen "int option"
  | LinkedScreen ustring "ustring option"
  | FailedScreen wizard_message

definition minutes_left :: "int \<Rightarrow> int option" where
  "minutes_left ttlSeconds = (if ttlSeconds > 0 then Some ((ttlSeconds + 30) div 60) else None)"

fun wizard_screen_of :: "wizard \<Rightarrow> wizard_screen" where
  "wizard_screen_of Closed = NoDialog"
| "wizard_screen_of Idle = FormScreen"
| "wizard_screen_of (Entering r) = WaitScreen"
| "wizard_screen_of (ShowQr i uri img ttl) =
     (if truthy_str img then ImageScreen (lit ''/api/v1'' @ the img) (minutes_left ttl)
      else if truthy_str uri then CodeScreen (the uri) (minutes_left ttl)
      else NoCodeScreen (minutes_left ttl))"
| "wizard_screen_of (Done e) = LinkedScreen (ep_label e) (if truthy_str (ep_phoneE164 e) then ep_phoneE164 e else None)"
| "wizard_screen_of (Broken m) = FailedScreen m"

text \<open>
  The screen says that there is no code exactly when the API answered with neither an image nor
  a link; an image is preferred.
\<close>

lemma code_on_screen:
  "wizard_screen_of (wizard_answer (Entering (Inr r))) = NoCodeScreen t \<Longrightarrow> \<not> truthy_str (qp_qrImageUrl r) \<and> \<not> truthy_str (qp_uri r)"
  "truthy_str (qp_qrImageUrl r) \<Longrightarrow> \<exists>t. wizard_screen_of (wizard_answer (Entering (Inr r))) = ImageScreen (lit ''/api/v1'' @ the (qp_qrImageUrl r)) t"
  by (auto split: if_splits)

section \<open>Rules and destinations\<close>

fun TYPE_LABEL :: "destination_type \<Rightarrow> ustring" where
  "TYPE_LABEL webhook = lit ''Webhook''"
| "TYPE_LABEL email = lit ''Email''"
| "TYPE_LABEL telegram = lit ''Telegram''"
| "TYPE_LABEL internal_log = [1042, 1085, 1091, 1090, 1088, 1110, 1096, 1085, 1110, 1081, 32, 1083, 1086, 1075]"

text \<open>
  The card of a rule from the answer of the API: its events, its destinations with whether
  they are on, and its filters. A channel that the panel does not know is written as
  JavaScript writes an undefined value.
\<close>

definition channel_label_of :: "ustring \<Rightarrow> ustring" where
  "channel_label_of s = (case find (\<lambda>c. channel_name c = s) [sms, whatsapp, signal, mock] of
     Some c \<Rightarrow> CHANNEL_LABEL c | None \<Rightarrow> lit ''undefined'')"

definition filters_line :: "json \<Rightarrow> ustring option" where
  "filters_line filters =
     (let ch = text_of filters ''channelType''; acc = text_of filters ''accountId''; ep = text_of filters ''endpointId'';
          parts = [if ch \<noteq> [] then [1082, 1072, 1085, 1072, 1083, 32] @ channel_label_of ch else [],
                   if acc \<noteq> [] then [1072, 1082, 1072, 1091, 1085, 1090, 32] @ shortId (Some acc) else [],
                   if ep \<noteq> [] then lit ''endpoint '' @ shortId (Some ep) else []]
      in if ch = [] \<and> acc = [] \<and> ep = [] then None
         else Some (join_with (lit '', '') (filter (\<lambda>x. x \<noteq> []) parts)))"

record rule_card =
  rc_name :: ustring
  rc_priority :: int
  rc_events :: "ustring list"
  rc_destinations :: "(ustring \<times> bool) list"
  rc_filters :: "ustring option"
  rc_enabled :: bool

definition rule_card_of :: "json \<Rightarrow> rule_card" where
  "rule_card_of r =
     (let filters = (case own r (lit ''filters'') of Some f \<Rightarrow> f | None \<Rightarrow> JNull)
      in \<lparr>rc_name = text_of r ''name'', rc_priority = whole_of 0 r ''priority'',
          rc_events = strings_in (items_of r ''eventTypes''),
          rc_destinations = map (\<lambda>x. (text_of x ''name'', own x (lit ''enabled'') = Some (JBool True))) (items_of r ''destinations''),
          rc_filters = filters_line filters,
          rc_enabled = (own r (lit ''enabled'') = Some (JBool True))\<rparr>)"

text \<open>The card shows the rule as it is stored, with the destinations it is linked to.\<close>

lemma rule_card_shows_rule:
  "rc_name (rule_card_of (serialize_rule r d)) = ru_name r
   \<and> rc_priority (rule_card_of (serialize_rule r d)) = ru_priority r
   \<and> rc_enabled (rule_card_of (serialize_rule r d)) = ru_enabled r
   \<and> rc_destinations (rule_card_of (serialize_rule r d)) = map (\<lambda>x. (de_name x, de_enabled x)) (rule_destinations d r)"
  by (simp add: rule_card_of_def serialize_rule_def text_of_def whole_of_def items_of_def Let_def lit_def
      destination_summary_def comp_def)

text \<open>A rule without any of the three filters that the panel knows is shown without filters, whatever else it filters on.\<close>

lemma unknown_filters_not_shown:
  "filters_line (JObj [(lit ''direction'', JStr (lit ''inbound''))]) = None"
  by (simp add: filters_line_def text_of_def lit_def)

subsection \<open>Deleting\<close>

record delete_dialog =
  dg_target :: "ustring option"
  dg_error :: bool

definition ask_delete :: "ustring \<Rightarrow> delete_dialog \<Rightarrow> delete_dialog" where
  "ask_delete i g = \<lparr>dg_target = Some i, dg_error = False\<rparr>"

definition call_off_delete :: "delete_dialog \<Rightarrow> delete_dialog" where
  "call_off_delete g = \<lparr>dg_target = None, dg_error = False\<rparr>"

text \<open>After a success the lists are loaded anew; after an error the dialog stays and says so.\<close>

definition confirm_delete :: "(ustring \<Rightarrow> route) \<Rightarrow> api_env \<Rightarrow> request \<Rightarrow> delete_dialog \<times> db \<Rightarrow> delete_dialog \<times> db" where
  "confirm_delete route_of env req s =
     (case s of (g, d) \<Rightarrow>
        (case dg_target g of
           None \<Rightarrow> s
         | Some i \<Rightarrow>
             (case api_call env req (route_of i) d of
                (ConfigDeleted None, d') \<Rightarrow> (\<lparr>dg_target = None, dg_error = False\<rparr>, d')
              | (_, d') \<Rightarrow> (g\<lparr>dg_error := True\<rparr>, d'))))"

definition delete_destination_route :: "ustring \<Rightarrow> route" where
  "delete_destination_route i = ToDestinations (DeleteDestination i None)"

definition delete_rule_route :: "ustring \<Rightarrow> route" where
  "delete_rule_route i = ToRules (DeleteRule i None)"

text \<open>
  A confirmed deletion removes the destination and closes the dialog, or nothing changes and the
  dialog says that it failed; the other destinations stay.
\<close>

lemma confirmed_destination_deletion:
  assumes "rq_user req = Some u"
    and "confirm_delete delete_destination_route env req (ask_delete i g, d) = (g', d')"
  shows "if find_destination d i = None then d' = d \<and> dg_error g' \<and> dg_target g' = Some i
    else dg_target g' = None \<and> destinations d' = filter (\<lambda>r. de_id r \<noteq> i) (destinations d)"
proof -
  have call: "api_call env req (delete_destination_route i) d = map_prod ConfigDeleted id (destination_delete i None d)"
    using assms(1) by (simp add: delete_destination_route_def session_request)
  show ?thesis
  proof (cases "find_destination d i")
    case None
    with assms(2) call show ?thesis by (auto simp: confirm_delete_def ask_delete_def destination_delete_def)
  next
    case (Some r)
    with assms(2) call show ?thesis
      by (auto simp: confirm_delete_def ask_delete_def destination_delete_def audit_log_def delete_where_def)
  qed
qed

lemma confirmed_rule_deletion:
  assumes "rq_user req = Some u"
    and "confirm_delete delete_rule_route env req (ask_delete i g, d) = (g', d')"
  shows "if find_rule d i = None then d' = d \<and> dg_error g' \<and> dg_target g' = Some i
    else dg_target g' = None \<and> rules d' = filter (\<lambda>r. ru_id r \<noteq> i) (rules d)"
proof -
  have call: "api_call env req (delete_rule_route i) d = map_prod ConfigDeleted id (rule_delete i None d)"
    using assms(1) by (simp add: delete_rule_route_def session_request)
  show ?thesis
  proof (cases "find_rule d i")
    case None
    with assms(2) call show ?thesis by (auto simp: confirm_delete_def ask_delete_def rule_delete_def)
  next
    case (Some r)
    with assms(2) call show ?thesis
      by (auto simp: confirm_delete_def ask_delete_def rule_delete_def audit_log_def delete_where_def)
  qed
qed

subsection \<open>Testing a destination\<close>

text \<open>The result of the last test of each destination; an error is kept in its place.\<close>

type_synonym test_results = "ustring \<Rightarrow> (unit + test_result) option"

definition press_test :: "api_env \<Rightarrow> request \<Rightarrow> ustring \<Rightarrow> test_results \<times> db \<Rightarrow> test_results \<times> db" where
  "press_test env req i s =
     (case s of (results, d) \<Rightarrow>
        (case api_call env req (ToDestinations (TestDelivery i None)) d of
           (Tested (Inr r), d') \<Rightarrow> (results(i \<mapsto> Inr r), d')
         | (_, d') \<Rightarrow> (results(i \<mapsto> Inl ()), d')))"

text \<open>A test changes the line of its own destination only.\<close>

lemma test_result_of_own_destination:
  assumes "press_test env req i (results, d) = (results', d')" and "j \<noteq> i"
  shows "results' j = results j"
  using assms by (auto simp: press_test_def split: prod.splits answer.splits sum.splits)

end
