(* ===== verification/Spec2Isabelle.thy ===== *)
theory Spec2Isabelle
  imports SmsConcat Delivery Conversations Sending Media Ingest Accounts Provisioning Access Balance Adapters Console Queries Http Wizard Chat Channels Panel Pipeline StubWizard Display Reference Shell Screens
begin

text \<open>
  A verification development of the Unified Messaging Gateway.

  \<^bold>\<open>The program.\<close> The gateway joins messengers to a CRM. Three processes share one PostgreSQL
  database and a few queues: the API (apps/api), which administrators and clients call over
  HTTP, the worker (apps/worker), which talks to the vendor services, and the web panel
  (apps/web), which calls the API. A vendor service (signal-cli-rest-api, gwmd, UnoAPI, the
  GoIP SMS server) is a sidecar behind an adapter (packages/adapters); in development one
  small program plays all of them (infra/docker/sidecar-stub).

  An outbound message is accepted by the API under an idempotency key, stored with its thread
  and queued; the worker hands it to the adapter of its account, at most three times. An
  inbound payload of a vendor comes through a webhook or the Signal socket; the adapter turns
  it into canonical messages or a status; the worker stores each message once, with its files
  and thread, and emits an event. An event is stored together with an outbox row; every tick
  of the dispatcher routes the oldest hundred rows by the rules of the administrators, which
  creates one delivery per destination; the processor of deliveries posts them with retries
  until they are delivered, failed or dead-lettered.

  \<^bold>\<open>The state.\<close> The database is one record \<open>db\<close> (Schema), a field per table of
  packages/database/prisma/schema.prisma with the rows as records in insertion order, besides
  the files of the media directory, the logs of the two queues and a supply of identifiers.
  A unique index is the check that the operation makes it to be. An operation of the code is
  a function from its arguments and the database to its answer and the database after it; an
  exception, a refusal or a missing row is a value of its own (\<open>option\<close>, a sum, or a datatype
  of errors). Times are milliseconds as integers, strings are lists of code points
  (\<open>ustring\<close>), JavaScript numbers are rationals, JSON is the datatype \<open>json\<close> with objects as
  association lists in insertion order. What the code does not define is an argument:
  adapters or vendor services (a function from requests to answers), hashes, the clock, the
  text of numbers and dates, the Unicode classes of regular expressions, the answer of the
  file system, and what another process does between a lookup and an insert (\<open>race\<close>).

  \<^bold>\<open>Foundations.\<close>
  \<^item> Prelude: strings and tables; the locale \<open>db_table\<close> of a table that is a field of the
    state, interpreted in Schema for each table that is addressed by its key; the
    collections \<open>table_simps\<close> and \<open>string_simps\<close>.
  \<^item> Json: \<open>own\<close>, \<open>obj_set\<close>, \<open>truthy\<close>, \<open>stringify\<close>. Schema: enumerations, rows, the state.
  \<^item> Phone: packages/channel-sdk/src/phone.ts, normalisation to E.164.
  \<^item> AuditLog: apps/api/src/common/redact.ts and audit.service.ts; masking leaves no credential.

  \<^bold>\<open>Events and their way out.\<close>
  \<^item> Events: the emitters of the worker (events.service.ts) and of the API
    (event-emitter.service.ts) as two interpretations of the locale \<open>event_sink\<close>: an event is
    recorded once per deduplication key.
  \<^item> Routing: routing.service.ts. Field selection with the sharing of objects that \<open>setPath\<close>
    writes through, templates, the filters of a rule; routing creates exactly the deliveries
    that the rules name, and a selection discloses nothing but the selected paths.
  \<^item> Outbox: one tick of outbox-dispatcher.scheduler.ts.
  \<^item> Lifecycle, Delivery: webhook-deliver.processor.ts and the replay of deliveries.service.ts.
    The locales \<open>lifecycle\<close> and \<open>bounded_lifecycle\<close> say what a row with final states and a
    bounded effort does under any sequence of actions; the deliveries are their instance, so a
    final delivery stays as it is and an attempted one ends.
  \<^item> Pipeline: emitters, ticks and jobs in any order as a step relation \<open>pipeline\<close>; its invariant
    says that each event is routed exactly once, and an inbound message reaches its
    destinations. A tick takes at most 100 rows, so for a backlog of \<open>n\<close> rows \<open>n / 100\<close>
    ticks, rounded up, are enough; the theorem has this bound as its hypothesis.
  \<^item> Alerts: the step relation of raising and resolving; one firing alert per fingerprint.

  \<^bold>\<open>Messages.\<close>
  \<^item> Conversations: threads of both processes as interpretations of \<open>thread_opener\<close>.
  \<^item> Sending, SendQueue: messages.service.ts, queue.service.ts, message-send.processor.ts and the
    schedulers of delayed and stuck messages. A send job is recursive in the attempts that
    are left (three, \<open>DEFAULT_JOB_ATTEMPTS\<close>), so it ends without fuel.
  \<^item> SmsConcat: sms-concat.ts, the repair and the assembly of long SMS.
  \<^item> Media: files of inbound and uploaded messages, retention.
  \<^item> Ingest: inbound-ingest.service.ts with its segment buffer: what is stored, once, and how a
    delivery report moves a message.

  \<^bold>\<open>Adapters.\<close>
  \<^item> Channel: what the adapters share (members of vendor JSON, \<open>Number\<close>, percent encoding,
    base64, HTTP), and the locale \<open>channel_sender\<close>: an answer is an acceptance without an error
    or a refusal with one.
  \<^item> Goip, Signal, Gwmd, Unoapi: the four adapters under packages/adapters/src in full, each an
    interpretation of \<open>channel_sender\<close>; Signal holds the receive bridge too.
  \<^item> Adapters: capabilities, the registry and the mock adapter; \<open>channel_contract\<close> extends
    \<open>channel_sender\<close> by what a received message looks like.
  \<^item> Sidecar, StubWizard: infra/docker/sidecar-stub/server.mjs, its stores, route tables and
    timers, and the adapters' own requests answered by it; the locale \<open>qr_vendor\<close> holds for the
    three vendors that link numbers by a code, and a scan links the number that waits.

  \<^bold>\<open>Administration.\<close>
  \<^item> Accounts, Provisioning, Balance: apps/api/src/transport-accounts, the two SMS balance checks.
    \<open>prov_run\<close> is the relation of all provisioning operations; only linked numbers send.
  \<^item> Access: sign-in, guards, API tokens, signed links, webhook authentication. The token table
    refines a set of live tokens.
  \<^item> Admin, AdminFacts: destinations, routing rules, rules of alerts.
  \<^item> Health: the health route, the search for the release version (at most eight directories, as
    the loop has it) and the holder of the API document.
  \<^item> Queries, Http: lists and their pages, and every route with its guard. A request without a
    session changes nothing but messages, their trail and times of use.

  \<^bold>\<open>The panel.\<close>
  \<^item> Console: the forms of Routing.tsx; what saving a form unchanged does.
  \<^item> Wizard: ProvisioningWizard.tsx as a step relation \<open>wizard_step\<close> over the API's operations.
  \<^item> Chat, Channels, Panel: TestChat.tsx, Channels.tsx, and the pages that list what happened.
  \<^item> Display, Screens: what the pages write for what is stored (labels, rows, bubbles, cards, dialogs)
    and the page of the API tokens, which shows a token until its window is closed.
  \<^item> Shell: App.tsx, Layout.tsx, Login.tsx, QrImage.tsx. Addresses settle on a page without a
    loop, a page needs a session, and the drawing of a pairing code reads back as the code.
  \<^item> Reference: ApiReference.tsx lists every operation of the API document once.

  \<^bold>\<open>How the properties are proved.\<close> A component's theory holds its operations, the lemmas that
  say what each of them changes (their frame), and its properties. Properties of any sequence of
  operations are invariants of a step relation, by rule induction, or come from a locale that is
  interpreted on the operations. Properties that join components (Pipeline, Wizard, Http,
  StubWizard) rest on the lemmas of the parts. A property with hypotheses is followed by an
  instance on a concrete state. Some properties state a defect of the code: a cancelled retry is
  sent, editing a Telegram destination loses its token, the stand-in of the SMS server refuses
  every message; their text says so.

  \<^bold>\<open>Not modelled.\<close> The start of the processes (main.ts, worker.module.ts), which only wires the
  framework; the markup and captions of the panel, and the loading states of its queries; rows
  of deliveries, alerts and audit records, whose dates are columns that the model leaves out;
  the store of HTTP sessions, which express keeps (a request carries the user of its session);
  the columns \<open>updated_at\<close> of configuration tables, which nothing reads, and the name of the
  actor that the audit page joins; the shapes that zod checks beyond the types of the model; the memory and time limits of the queue. Two requests
  are concurrent only where the code has a lookup and an insert that a unique index guards:
  there \<open>race\<close> is whatever the other does in between. Elsewhere a request is one step.
\<close>

end
